(* ===== verification/Prelude.thy ===== *)
theory Prelude
  imports Main "HOL-Library.Word" "HOL-Library.AList"
begin

unbundle bit_operations_syntax

text \<open>
  What every component theory of the SPGW-C development shares: the names of the machine
  integers and of the byte strings, the outcome type of code that can run into undefined
  behaviour of C++, the three operations of \<^verbatim>\<open>std::map\<close> the sources use on maps that are
  iterated or measured (association lists with one entry per key), and the generic lemmas on
  them that carry the component proofs.
\<close>

section \<open>Machine integers and outcomes\<close>

type_synonym u8 = "8 word"
type_synonym u16 = "16 word"
type_synonym u32 = "32 word"
type_synonym u64 = "64 word"
type_synonym bytes = "u8 list"
type_synonym teid = u32
type_synonym seid = u64

text \<open>
  What the modelled code can run into instead of returning a value: reading through an iterator
  that is \<^verbatim>\<open>end()\<close>, reading through a null smart pointer, signed overflow, an index out of
  bounds, a standard exception (\<^verbatim>\<open>std::out_of_range\<close>, \<^verbatim>\<open>std::length_error\<close>), a loop that never
  ends, an \<^verbatim>\<open>assert\<close> that does not hold, and an iterator whose element has been erased.
\<close>

datatype ub = Deref_end | Deref_null | Signed_overflow | Out_of_range | Length_error | Endless_loop | Assert_failed | Dangling_iterator

type_synonym 'a outcome = "ub + 'a"

definition is_ok :: "'a outcome \<Rightarrow> bool" where
  "is_ok r = (case r of Inl _ \<Rightarrow> False | Inr _ \<Rightarrow> True)"

lemma is_ok_simps [simp]: "is_ok (Inr a)" "\<not> is_ok (Inl e)"
  by (simp_all add: is_ok_def)

lemma is_okE: "is_ok r \<Longrightarrow> (\<And>a. r = Inr a \<Longrightarrow> P) \<Longrightarrow> P"
  by (cases r) auto

text \<open>Sequencing: the second computation runs when the first has returned.\<close>

definition obind :: "'a outcome \<Rightarrow> ('a \<Rightarrow> 'b outcome) \<Rightarrow> 'b outcome" where
  "obind r f = (case r of Inl e \<Rightarrow> Inl e | Inr a \<Rightarrow> f a)"

lemma obind_simps [simp]: "obind (Inr a) f = f a" "obind (Inl e) f = Inl e"
  by (simp_all add: obind_def)

lemma obind_Inr_iff: "obind r f = Inr b \<longleftrightarrow> (\<exists>a. r = Inr a \<and> f a = Inr b)"
  by (cases r) auto

text \<open>The result of a signed 32-bit computation: outside the range of \<^verbatim>\<open>int\<close> it is undefined.\<close>

definition int32 :: "int \<Rightarrow> int outcome" where
  "int32 x = (if - (2 ^ 31) \<le> x \<and> x < 2 ^ 31 then Inr x else Inl Signed_overflow)"

section \<open>Collections of rewrite rules\<close>

named_theorems codec_simps \<open>unfolding of the byte-level encoders and decoders\<close>
named_theorems timer_simps \<open>effect of the timer operations on the tables of a protocol stack\<close>
named_theorems proj_simps \<open>fields an operation leaves alone\<close>

section \<open>Maps kept as association lists\<close>

text \<open>
  \<^verbatim>\<open>std::map\<close> where the code reads its \<^verbatim>\<open>size()\<close>: a list of key/value pairs with distinct keys.
  \<^verbatim>\<open>operator[]\<close> on an absent key first inserts a value-initialised element, which is why reading
  it returns a map too.
\<close>

definition smap_index :: "'v \<Rightarrow> ('k \<times> 'v) list \<Rightarrow> 'k \<Rightarrow> 'v \<times> ('k \<times> 'v) list" where
  "smap_index d m k = (case map_of m k of
       Some v \<Rightarrow> (v, m)
     | None \<Rightarrow> (d, m @ [(k, d)]))"

definition smap_assign :: "('k \<times> 'v) list \<Rightarrow> 'k \<Rightarrow> 'v \<Rightarrow> ('k \<times> 'v) list" where
  "smap_assign m k v = AList.update k v m"

abbreviation smap_wf :: "('k \<times> 'v) list \<Rightarrow> bool" where
  "smap_wf m \<equiv> distinct (map fst m)"

lemma smap_index_present: "map_of m k = Some v \<Longrightarrow> smap_index d m k = (v, m)"
  by (simp add: smap_index_def)

lemma map_of_smap_assign [simp]: "map_of (smap_assign m k v) = (map_of m)(k \<mapsto> v)"
  by (simp add: smap_assign_def update_conv')

lemma smap_wf_assign: "smap_wf m \<Longrightarrow> smap_wf (smap_assign m k v)"
  by (simp add: smap_assign_def distinct_update)

lemma length_smap_assign_present:
  "k \<in> dom (map_of m) \<Longrightarrow> length (smap_assign m k v) = length m"
  unfolding smap_assign_def
proof (induction m)
  case Nil
  then show ?case by simp
next
  case (Cons kv m)
  then show ?case by (cases kv) (auto simp: domIff)
qed

lemma length_eq_card_dom: "smap_wf m \<Longrightarrow> length m = card (dom (map_of m))"
  by (metis dom_map_of_conv_image_fst distinct_card length_map set_map)

section \<open>Maps as partial functions\<close>

text \<open>
  \<^verbatim>\<open>insert\<close> of \<^verbatim>\<open>std::map\<close> and of \<^verbatim>\<open>folly::AtomicHashMap\<close> leaves an existing element as it is;
  \<^verbatim>\<open>erase\<close> of an absent key does nothing.
\<close>

definition map_insert :: "('k \<rightharpoonup> 'v) \<Rightarrow> 'k \<Rightarrow> 'v \<Rightarrow> ('k \<rightharpoonup> 'v)" where
  "map_insert m k v = (case m k of None \<Rightarrow> m(k \<mapsto> v) | Some _ \<Rightarrow> m)"

definition map_erase :: "('k \<rightharpoonup> 'v) \<Rightarrow> 'k \<Rightarrow> ('k \<rightharpoonup> 'v)" where
  "map_erase m k = m(k := None)"

lemma map_insert_fresh: "m k = None \<Longrightarrow> map_insert m k v = m(k \<mapsto> v)"
  by (simp add: map_insert_def)

lemma map_insert_present: "m k = Some w \<Longrightarrow> map_insert m k v = m"
  by (simp add: map_insert_def)

lemma map_insert_apply:
  "map_insert m k v x = (if x = k \<and> m k = None then Some v else m x)"
  by (auto simp: map_insert_def split: option.splits)

lemma map_erase_apply [simp]: "map_erase m k x = (if x = k then None else m x)"
  by (simp add: map_erase_def)

lemma dom_map_insert [simp]: "dom (map_insert m k v) = insert k (dom m)"
  by (auto simp: map_insert_def split: option.splits)

lemma dom_map_erase [simp]: "dom (map_erase m k) = dom m - {k}"
  by (auto simp: map_erase_def)

section \<open>Network byte order\<close>

text \<open>
  \<^verbatim>\<open>htons\<close>, \<^verbatim>\<open>htonl\<close>, \<^verbatim>\<open>htobe64\<close> followed by a raw write of the object: the bytes of a word, most
  significant first; and the word read back from them. The hosts the sources are built for are
  little-endian, so the conversion itself, on a value kept in a register, swaps the bytes.
\<close>

primrec be_bytes :: "nat \<Rightarrow> 'a::len word \<Rightarrow> bytes" where
  "be_bytes 0 w = []"
| "be_bytes (Suc n) w = be_bytes n (drop_bit 8 w) @ [ucast w]"

definition word_of_be :: "bytes \<Rightarrow> 'a::len word" where
  "word_of_be bs = foldl (\<lambda>w b. push_bit 8 w OR ucast b) 0 bs"

lemma length_be_bytes [simp]: "length (be_bytes n w) = n"
  by (induction n arbitrary: w) auto

lemma word_of_be_Nil [simp]: "word_of_be [] = 0"
  by (simp add: word_of_be_def)

lemma word_of_be_snoc [simp]: "word_of_be (bs @ [b]) = push_bit 8 (word_of_be bs) OR ucast b"
  by (simp add: word_of_be_def)

lemma join_low_byte:
  fixes w :: "'a::len word"
  shows "push_bit 8 (take_bit n (drop_bit 8 w)) OR ucast (ucast w :: u8) = take_bit (n + 8) w"
  by (rule bit_word_eqI) (auto simp: bit_simps)

lemma word_of_be_be_bytes: "word_of_be (be_bytes n w) = take_bit (8 * n) w"
proof (induction n arbitrary: w)
  case (Suc n)
  then show ?case using join_low_byte [of "8 * n" w] by (simp add: add.commute)
qed simp

lemma word_of_be_bit:
  "bit (word_of_be bs :: 'a::len word) n \<Longrightarrow> n < 8 * length bs"
proof (induction bs arbitrary: n rule: rev_induct)
  case (snoc b bs)
  from snoc.prems have "8 \<le> n \<and> bit (word_of_be bs :: 'a word) (n - 8) \<or> bit b n"
    by (auto simp: bit_simps)
  then show ?case using snoc.IH [of "n - 8"] bit_imp_le_length [of b n] by auto
qed simp

lemma be_bytes_word_of_be:
  "8 * length bs \<le> LENGTH('a) \<Longrightarrow> be_bytes (length bs) (word_of_be bs :: 'a::len word) = bs"
proof (induction bs rule: rev_induct)
  case (snoc b bs)
  let ?w = "word_of_be bs :: 'a word"
  have "drop_bit 8 (push_bit 8 ?w OR ucast b) = ?w"
    using snoc.prems by (intro bit_word_eqI) (auto simp: bit_simps dest: word_of_be_bit bit_imp_le_length)
  moreover have "ucast (push_bit 8 ?w OR ucast b) = b"
    using snoc.prems by (intro bit_word_eqI) (auto simp: bit_simps)
  ultimately show ?case using snoc by simp
qed simp

lemma word_of_be_be_bytes_full [simp]:
  "8 * n = LENGTH('a) \<Longrightarrow> word_of_be (be_bytes n (w :: 'a::len word)) = w"
  by (simp add: word_of_be_be_bytes)

definition bswap32 :: "u32 \<Rightarrow> u32" where
  "bswap32 w = word_of_be (rev (be_bytes 4 w))"

lemma bswap32_bswap32 [simp]: "bswap32 (bswap32 w) = w"
proof -
  have "be_bytes 4 (word_of_be (rev (be_bytes 4 w)) :: 32 word) = rev (be_bytes 4 w)"
    using be_bytes_word_of_be [of "rev (be_bytes 4 w)", where 'a = 32] by simp
  then show ?thesis by (simp add: bswap32_def)
qed
definition be32toh :: "u32 \<Rightarrow> u32" where
  "be32toh w = bswap32 w"

definition htobe32 :: "u32 \<Rightarrow> u32" where
  "htobe32 w = bswap32 w"

lemma be32toh_htobe32 [simp]: "be32toh (htobe32 w) = w" "htobe32 (be32toh w) = w"
  by (simp_all add: be32toh_def htobe32_def)

lemma be32toh_inject [simp]: "be32toh v = be32toh w \<longleftrightarrow> v = w"
  by (metis be32toh_htobe32(2))

lemma htobe32_inject [simp]: "htobe32 v = htobe32 w \<longleftrightarrow> v = w"
  by (metis be32toh_htobe32(1))

section \<open>Word arithmetic\<close>

text \<open>The masks the codecs use.\<close>

lemma and_masks:
  fixes x :: u8 and y :: u32
  shows "x AND 0x0F = take_bit 4 x" and "x AND 0xF0 = x AND NOT (mask 4)"
    and "x AND 0xFC = x AND NOT (mask 2)" and "x AND 0x07 = take_bit 3 x" and "x AND 0x03 = take_bit 2 x"
    and "y AND 0xFF = take_bit 8 y" and "y AND 0xFFFFFF = take_bit 24 y" and "y AND 0x80000000 = y AND push_bit 31 1"
proof -
  have "- 16 = (0xF0 :: u8)" "- 4 = (0xFC :: u8)" by (subst neg_eq_iff_add_eq_0; simp)+
  then have "NOT (mask 4) = (0xF0 :: u8)" "NOT (mask 2) = (0xFC :: u8)"
    by (simp_all add: mask_eq_exp_minus_1)
  then show "x AND 0xF0 = x AND NOT (mask 4)" "x AND 0xFC = x AND NOT (mask 2)" by simp_all
qed (simp_all add: take_bit_eq_mask mask_eq_exp_minus_1)

lemma unset_bit_clear: "\<not> bit (w :: 'a::len word) n \<Longrightarrow> unset_bit n w = w"
  by (rule bit_word_eqI) (auto simp: bit_unset_bit_iff)

lemma word_add_of_nat_Suc: "(w :: 'a::len word) + of_nat (Suc k) = (w + 1) + of_nat k"
  by (simp add: algebra_simps)

lemma word_reach: "\<exists>k < 2 ^ LENGTH('a). (w :: 'a::len word) = v + of_nat k"
proof -
  have "w = v + of_nat (unat (w - v))" by simp
  moreover have "unat (w - v) < 2 ^ LENGTH('a)" by (rule unsigned_less)
  ultimately show ?thesis by blast
qed

lemma card_word_UNIV: "card (UNIV :: 'a::len word set) = 2 ^ LENGTH('a)"
  by (fact card_word)

end
