(* ===== verification/Itti.thy ===== *)
theory Itti
  imports Prelude
begin

text \<open>
  The inter-task interface (\<^verbatim>\<open>itti/itti.hpp\<close>, \<^verbatim>\<open>itti/itti.cpp\<close>, \<^verbatim>\<open>itti/itti_msg.hpp\<close>): the table of
  tasks with their states and message queues, and the timers with the thread that fires them. Each
  method runs under the mutex of what it changes and is one atomic operation here; the timer thread,
  which releases its locks between taking a timer and firing it, is a step relation whose steps
  interleave with the calls of the tasks and with the clock.
\<close>

section \<open>Tasks and messages\<close>

type_synonym task_id = nat

definition TASK_FIRST :: task_id where "TASK_FIRST = 0"
definition TASK_ITTI_TIMER :: task_id where "TASK_ITTI_TIMER = TASK_FIRST"
definition TASK_PGWC_APP :: task_id where "TASK_PGWC_APP = 6"
definition TASK_PGWC_S5S8 :: task_id where "TASK_PGWC_S5S8 = 9"
definition TASK_PGWC_SX :: task_id where "TASK_PGWC_SX = 10"
definition TASK_SGWC_APP :: task_id where "TASK_SGWC_APP = 13"
definition TASK_SGWC_S11 :: task_id where "TASK_SGWC_S11 = 14"
definition TASK_SGWC_S5S8 :: task_id where "TASK_SGWC_S5S8 = 15"
definition TASK_MAX :: task_id where "TASK_MAX = 21"
definition TASK_NONE :: task_id where "TASK_NONE = 22"
definition TASK_ALL :: task_id where "TASK_ALL = 255"

lemmas task_defs = TASK_FIRST_def TASK_ITTI_TIMER_def TASK_MAX_def TASK_NONE_def TASK_ALL_def
  TASK_PGWC_APP_def TASK_PGWC_S5S8_def TASK_PGWC_SX_def TASK_SGWC_APP_def TASK_SGWC_S11_def TASK_SGWC_S5S8_def

definition RETURNok :: int where "RETURNok = 0"
definition RETURNerror :: int where "RETURNerror = 1"

lemma RETURN_distinct [simp]: "RETURNok \<noteq> RETURNerror" "RETURNerror \<noteq> RETURNok"
  by (simp_all add: RETURNok_def RETURNerror_def)

datatype task_state =
  TASK_STATE_NOT_CONFIGURED | TASK_STATE_STARTING | TASK_STATE_READY | TASK_STATE_ENDED

text \<open>
  A message: the fields of \<^verbatim>\<open>itti_msg\<close> and what its subclass adds. The subclasses of the other
  components are the type parameter.
\<close>

datatype 'p itti_body =
    Time_out_body u32 u64 u64
  | Health_ping_body u32
  | Terminate_body
  | App_body 'p

record 'p itti_msg =
  msg_num :: u64
  origin :: task_id
  destination :: task_id
  body :: "'p itti_body"

record 'p itti_task_ctxt =
  task_state :: task_state
  joinable :: bool
  msg_queue :: "'p itti_msg list"

text \<open>Timers; \<^verbatim>\<open>time_point\<close> counts nanoseconds, as \<^verbatim>\<open>std::chrono::system_clock\<close> does.\<close>

type_synonym time_point = int
type_synonym timer_id = u32

definition ITTI_INVALID_TIMER_ID :: timer_id where "ITTI_INVALID_TIMER_ID = 0"

record itti_timer =
  t_id :: timer_id
  t_task_id :: task_id
  time_out :: time_point
  arg1_user :: u64
  arg2_user :: u64

definition itti_timer_new ::
  "time_point \<Rightarrow> timer_id \<Rightarrow> task_id \<Rightarrow> u32 \<Rightarrow> u32 \<Rightarrow> u64 \<Rightarrow> u64 \<Rightarrow> itti_timer" where
  "itti_timer_new now i task interval_sec interval_us arg1 arg2 =
     \<lparr>t_id = i, t_task_id = task,
      time_out = now + int (unat interval_sec) * 1000000000 + int (unat interval_us) * 1000,
      arg1_user = arg1, arg2_user = arg2\<rparr>"

text \<open>\<^verbatim>\<open>null_timer\<close> is built when the program is loaded, at time \<open>boot\<close>.\<close>

definition null_timer :: "time_point \<Rightarrow> itti_timer" where
  "null_timer boot = itti_timer_new boot ITTI_INVALID_TIMER_ID TASK_NONE 0xFFFFFFFF 0xFFFFFFFF 0 0"

record 'p itti_mw =
  itti_task_ctxts :: "task_id \<rightharpoonup> 'p itti_task_ctxt"
  msg_number :: u64
  timer_id :: timer_id
  created_tasks :: int
  ready_tasks :: int
  timers :: "itti_timer list"
  current_timer :: itti_timer
  terminate :: bool
  boot :: time_point

definition itti_mw_init :: "time_point \<Rightarrow> 'p itti_mw" where
  "itti_mw_init t0 =
     \<lparr>itti_task_ctxts = Map.empty, msg_number = 0, timer_id = 0, created_tasks = 0,
      ready_tasks = 0, timers = [], current_timer = null_timer t0, terminate = False, boot = t0\<rparr>"

definition increment_timer_id :: "'p itti_mw \<Rightarrow> timer_id \<times> 'p itti_mw" where
  "increment_timer_id s = (timer_id s + 1, s\<lparr>timer_id := timer_id s + 1\<rparr>)"

text \<open>\<^verbatim>\<open>__sync_fetch_and_add\<close> returns the old number, cut to \<^verbatim>\<open>unsigned int\<close>.\<close>

definition increment_message_number :: "'p itti_mw \<Rightarrow> u32 \<times> 'p itti_mw" where
  "increment_message_number s = (ucast (msg_number s), s\<lparr>msg_number := msg_number s + 1\<rparr>)"

definition itti_msg_new :: "'p itti_body \<Rightarrow> task_id \<Rightarrow> task_id \<Rightarrow> 'p itti_mw \<Rightarrow> 'p itti_msg \<times> 'p itti_mw" where
  "itti_msg_new b orig dest s =
     (case increment_message_number s of (n, s') \<Rightarrow>
        (\<lparr>msg_num = ucast n, origin = orig, destination = dest, body = b\<rparr>, s'))"

definition create_task :: "task_id \<Rightarrow> bool \<Rightarrow> 'p itti_mw \<Rightarrow> int \<times> 'p itti_mw" where
  "create_task t has_routine s =
     (if \<not> has_routine then (RETURNerror, s)
      else if TASK_FIRST \<le> t \<and> t < TASK_MAX then
        (case itti_task_ctxts s t of
           None \<Rightarrow> (0, s\<lparr>itti_task_ctxts := (itti_task_ctxts s)(t \<mapsto>
                      \<lparr>task_state = TASK_STATE_STARTING, joinable = True, msg_queue = []\<rparr>),
                      created_tasks := created_tasks s + 1\<rparr>)
         | Some _ \<Rightarrow> (RETURNerror, s))
      else (RETURNerror, s))"

text \<open>The one method that indexes the table without a check of the bounds.\<close>

definition notify_task_ready :: "task_id \<Rightarrow> 'p itti_mw \<Rightarrow> (int \<times> 'p itti_mw) outcome" where
  "notify_task_ready t s =
     (if t < TASK_MAX then
        (case itti_task_ctxts s t of
           None \<Rightarrow> Inr (RETURNerror, s)
         | Some c \<Rightarrow>
             if task_state c = TASK_STATE_STARTING
             then Inr (RETURNok, s\<lparr>itti_task_ctxts := (itti_task_ctxts s)(t \<mapsto>
                    c\<lparr>task_state := TASK_STATE_READY\<rparr>)\<rparr>)
             else Inr (RETURNerror, s))
      else Inl Out_of_range)"

definition push_msg :: "task_id \<Rightarrow> 'p itti_msg \<Rightarrow> 'p itti_task_ctxt \<Rightarrow> 'p itti_mw \<Rightarrow> 'p itti_mw" where
  "push_msg t m c s =
     s\<lparr>itti_task_ctxts := (itti_task_ctxts s)(t \<mapsto> c\<lparr>msg_queue := msg_queue c @ [m]\<rparr>)\<rparr>"

fun broadcast_loop :: "task_id list \<Rightarrow> 'p itti_msg \<Rightarrow> 'p itti_mw \<Rightarrow> 'p itti_mw" where
  "broadcast_loop [] m s = s"
| "broadcast_loop (t # ts) m s =
     broadcast_loop ts m
       (case itti_task_ctxts s t of
          None \<Rightarrow> s
        | Some c \<Rightarrow> if task_state c = TASK_STATE_READY then push_msg t m c s else s)"

definition send_broadcast_msg :: "'p itti_msg \<Rightarrow> 'p itti_mw \<Rightarrow> int \<times> 'p itti_mw" where
  "send_broadcast_msg m s =
     (if destination m = TASK_ALL then (RETURNok, broadcast_loop [TASK_FIRST..<TASK_MAX] m s)
      else (RETURNerror, s))"

definition send_msg :: "'p itti_msg \<Rightarrow> 'p itti_mw \<Rightarrow> int \<times> 'p itti_mw" where
  "send_msg m s =
     (if TASK_FIRST \<le> destination m \<and> destination m < TASK_MAX then
        (case itti_task_ctxts s (destination m) of
           None \<Rightarrow> (RETURNerror, s)
         | Some c \<Rightarrow>
             if task_state c = TASK_STATE_READY then (RETURNok, push_msg (destination m) m c s)
             else (RETURNerror, s))
      else if destination m = TASK_ALL then send_broadcast_msg m s
      else (RETURNerror, s))"

definition send_terminate_msg :: "task_id \<Rightarrow> 'p itti_mw \<Rightarrow> int \<times> 'p itti_mw" where
  "send_terminate_msg src s =
     (case itti_msg_new Terminate_body src TASK_ALL s of (m, s1) \<Rightarrow>
        send_broadcast_msg m (s1\<lparr>terminate := True\<rparr>))"

definition poll_msg :: "task_id \<Rightarrow> 'p itti_mw \<Rightarrow> 'p itti_msg option \<times> 'p itti_mw" where
  "poll_msg t s =
     (if TASK_FIRST \<le> t \<and> t < TASK_MAX then
        (case itti_task_ctxts s t of
           None \<Rightarrow> (None, s)
         | Some c \<Rightarrow>
             (case msg_queue c of
                [] \<Rightarrow> (None, s)
              | m # ms \<Rightarrow> (Some m, s\<lparr>itti_task_ctxts := (itti_task_ctxts s)(t \<mapsto> c\<lparr>msg_queue := ms\<rparr>)\<rparr>)))
      else (None, s))"

text \<open>
  \<^verbatim>\<open>receive_msg\<close> returns a null pointer on a bad task id and otherwise blocks while the queue is
  empty: the outer \<open>None\<close> is a call that has not returned yet.
\<close>

definition receive_msg :: "task_id \<Rightarrow> 'p itti_mw \<Rightarrow> ('p itti_msg option \<times> 'p itti_mw) option" where
  "receive_msg t s =
     (if TASK_FIRST \<le> t \<and> t < TASK_MAX then
        (case itti_task_ctxts s t of
           None \<Rightarrow> Some (None, s)
         | Some c \<Rightarrow>
             (case msg_queue c of
                [] \<Rightarrow> None
              | m # ms \<Rightarrow>
                  Some (Some m, s\<lparr>itti_task_ctxts := (itti_task_ctxts s)(t \<mapsto> c\<lparr>msg_queue := ms\<rparr>)\<rparr>)))
      else Some (None, s))"

definition wait_tasks_end :: "'p itti_mw \<Rightarrow> 'p itti_mw" where
  "wait_tasks_end s =
     s\<lparr>itti_task_ctxts := (\<lambda>t. case itti_task_ctxts s t of
          None \<Rightarrow> None
        | Some c \<Rightarrow> Some (if t < TASK_MAX \<and> joinable c
                          then c\<lparr>task_state := TASK_STATE_ENDED, joinable := False\<rparr> else c))\<rparr>"

section \<open>Timers\<close>

text \<open>
  \<^verbatim>\<open>std::set<itti_timer, timer_comparator>\<close>: ordered by the time-out, and two timers with the same
  time-out are the same element, so the second one is not inserted.
\<close>

fun timers_insert :: "itti_timer \<Rightarrow> itti_timer list \<Rightarrow> itti_timer list" where
  "timers_insert t [] = [t]"
| "timers_insert t (u # us) =
     (if time_out t < time_out u then t # u # us
      else if time_out u < time_out t then u # timers_insert t us
      else u # us)"

definition timer_setup ::
  "time_point \<Rightarrow> u32 \<Rightarrow> u32 \<Rightarrow> task_id \<Rightarrow> u64 \<Rightarrow> u64 \<Rightarrow> 'p itti_mw \<Rightarrow> timer_id \<times> 'p itti_mw" where
  "timer_setup now interval_sec interval_us task arg1 arg2 s =
     (if TASK_FIRST < task \<and> task < TASK_MAX then
        (case increment_timer_id s of (i, s1) \<Rightarrow>
           let t = itti_timer_new now i task interval_sec interval_us arg1 arg2
           in (t_id t, s1\<lparr>timers := timers_insert t (timers s1)\<rparr>))
      else (ITTI_INVALID_TIMER_ID, s))"

fun erase_first :: "timer_id \<Rightarrow> itti_timer list \<Rightarrow> itti_timer list option" where
  "erase_first i [] = None"
| "erase_first i (t # ts) = (if t_id t = i then Some ts else map_option ((#) t) (erase_first i ts))"

definition timer_remove :: "timer_id \<Rightarrow> 'p itti_mw \<Rightarrow> int \<times> 'p itti_mw" where
  "timer_remove i s =
     (if t_id (current_timer s) = i then (RETURNok, s\<lparr>current_timer := null_timer (boot s)\<rparr>)
      else (case erase_first i (timers s) of
              Some ts \<Rightarrow> (RETURNok, s\<lparr>timers := ts\<rparr>)
            | None \<Rightarrow> (RETURNerror, s)))"

text \<open>
  The timer thread: where it stands in its loop, and its steps. \<open>Idle\<close> is past the test of
  \<^verbatim>\<open>terminate\<close>, waiting for a timer; \<open>Picked\<close> has taken the first timer and released the lock;
  \<open>Waiting d\<close> is inside \<^verbatim>\<open>c_timeout.wait_for\<close> with the time-out at \<open>d\<close>; the wait ends by the time-out,
  not before \<open>d\<close>, or by a notification (a wake-up for no reason counts as one).
\<close>

datatype timer_pc = Loop | Idle | Picked | Waiting time_point | Stopped

record 'p itti_sys =
  mw :: "'p itti_mw"
  pc :: timer_pc
  clock :: time_point

definition signal_time_out :: "'p itti_mw \<Rightarrow> int \<times> 'p itti_mw" where
  "signal_time_out s =
     (let t = current_timer s in
      case itti_msg_new (Time_out_body (t_id t) (arg1_user t) (arg2_user t)) TASK_ITTI_TIMER (t_task_id t) s
      of (m, s1) \<Rightarrow> send_msg m s1)"

definition tm_pick :: "'p itti_mw \<Rightarrow> 'p itti_mw" where
  "tm_pick s = (case timers s of [] \<Rightarrow> s | t # ts \<Rightarrow> s\<lparr>current_timer := t, timers := ts\<rparr>)"

definition tm_requeue :: "'p itti_mw \<Rightarrow> 'p itti_mw" where
  "tm_requeue s =
     s\<lparr>timers := (if t_id (current_timer s) \<noteq> ITTI_INVALID_TIMER_ID
                  then timers_insert (current_timer s) (timers s) else timers s),
       current_timer := null_timer (boot s)\<rparr>"

datatype timer_event =
    Set_timer timer_id time_point
  | Removed timer_id
  | Fired itti_timer time_point
  | Tau

inductive timer_step :: "'p itti_sys \<Rightarrow> timer_event \<Rightarrow> 'p itti_sys \<Rightarrow> bool" where
  step_clock: "clock y \<le> now \<Longrightarrow> timer_step y Tau (y\<lparr>clock := now\<rparr>)"
| step_setup: "timer_setup (clock y) sec usec task a1 a2 (mw y) = (i, s') \<Longrightarrow> i \<noteq> ITTI_INVALID_TIMER_ID \<Longrightarrow>
    timer_step y (Set_timer i (clock y + int (unat sec) * 1000000000 + int (unat usec) * 1000)) (y\<lparr>mw := s'\<rparr>)"
| step_remove: "timer_remove i (mw y) = (RETURNok, s') \<Longrightarrow> timer_step y (Removed i) (y\<lparr>mw := s'\<rparr>)"
| step_other: "timers s' = timers (mw y) \<Longrightarrow> current_timer s' = current_timer (mw y) \<Longrightarrow>
    timer_id s' = timer_id (mw y) \<Longrightarrow> boot s' = boot (mw y) \<Longrightarrow> timer_step y Tau (y\<lparr>mw := s'\<rparr>)"
| step_enter: "pc y = Loop \<Longrightarrow> \<not> terminate (mw y) \<Longrightarrow> timer_step y Tau (y\<lparr>pc := Idle\<rparr>)"
| step_pick: "pc y = Idle \<Longrightarrow> timers (mw y) \<noteq> [] \<Longrightarrow>
    timer_step y Tau (y\<lparr>mw := tm_pick (mw y), pc := Picked\<rparr>)"
| step_stop: "pc y = Loop \<Longrightarrow> terminate (mw y) \<Longrightarrow> timer_step y Tau (y\<lparr>pc := Stopped\<rparr>)"
| step_due: "pc y = Picked \<Longrightarrow> time_out (current_timer (mw y)) \<le> clock y \<Longrightarrow>
    timer_step y (Fired (current_timer (mw y)) (clock y))
      (y\<lparr>mw := snd (signal_time_out (mw y)), pc := Loop\<rparr>)"
| step_wait: "pc y = Picked \<Longrightarrow> clock y < time_out (current_timer (mw y)) \<Longrightarrow>
    timer_step y Tau (y\<lparr>pc := Waiting (time_out (current_timer (mw y)))\<rparr>)"
| step_timeout: "pc y = Waiting d \<Longrightarrow> d \<le> clock y \<Longrightarrow>
    timer_step y (Fired (current_timer (mw y)) (clock y))
      (y\<lparr>mw := snd (signal_time_out (mw y)), pc := Loop\<rparr>)"
| step_notified: "pc y = Waiting d \<Longrightarrow>
    timer_step y Tau (y\<lparr>mw := tm_requeue (mw y), pc := Loop\<rparr>)"

inductive timer_run :: "'p itti_sys \<Rightarrow> timer_event list \<Rightarrow> 'p itti_sys \<Rightarrow> bool" for y0 where
  run_nil: "timer_run y0 [] y0"
| run_snoc: "timer_run y0 tr y \<Longrightarrow> timer_step y e y' \<Longrightarrow> timer_run y0 (tr @ [e]) y'"

inductive_cases run_nilE: "timer_run y0 [] y"

section \<open>Message queues\<close>

lemma push_msg_simps [simp]:
  "itti_task_ctxts (push_msg t m c s) = (itti_task_ctxts s)(t \<mapsto> c\<lparr>msg_queue := msg_queue c @ [m]\<rparr>)"
  "timers (push_msg t m c s) = timers s" "current_timer (push_msg t m c s) = current_timer s"
  "timer_id (push_msg t m c s) = timer_id s" "boot (push_msg t m c s) = boot s"
  "terminate (push_msg t m c s) = terminate s"
  by (simp_all add: push_msg_def)

definition queue_of :: "'p itti_mw \<Rightarrow> task_id \<Rightarrow> 'p itti_msg list" where
  "queue_of s t = (case itti_task_ctxts s t of None \<Rightarrow> [] | Some c \<Rightarrow> msg_queue c)"

definition task_ready :: "'p itti_mw \<Rightarrow> task_id \<Rightarrow> bool" where
  "task_ready s t \<longleftrightarrow> (\<exists>c. itti_task_ctxts s t = Some c \<and> task_state c = TASK_STATE_READY)"

lemma task_ready_push [simp]:
  "itti_task_ctxts s u = Some c \<Longrightarrow> task_ready (push_msg u m c s) t \<longleftrightarrow> task_ready s t"
  by (auto simp: task_ready_def)

lemma broadcast_loop_spec:
  "distinct ts \<Longrightarrow>
     queue_of (broadcast_loop ts m s) t = queue_of s t @ (if t \<in> set ts \<and> task_ready s t then [m] else [])
     \<and> task_ready (broadcast_loop ts m s) t = task_ready s t"
proof (induction ts arbitrary: s)
  case (Cons u us)
  let ?s = "case itti_task_ctxts s u of None \<Rightarrow> s
     | Some c \<Rightarrow> if task_state c = TASK_STATE_READY then push_msg u m c s else s"
  have q: "queue_of ?s t = queue_of s t @ (if t = u \<and> task_ready s t then [m] else [])"
    by (auto simp: queue_of_def task_ready_def split: option.splits)
  have r: "task_ready ?s t = task_ready s t" by (auto split: option.splits)
  from Cons.prems have d: "distinct us" "t = u \<Longrightarrow> t \<notin> set us" by auto
  show ?case using Cons.IH [OF d(1), of ?s] q r d(2) by auto
qed simp

lemma send_msg_queue:
  "queue_of (snd (send_msg m s)) t = queue_of s t @
     (if t < TASK_MAX \<and> task_ready s t \<and> (destination m = t \<or> destination m = TASK_ALL) then [m] else [])"
proof (cases "destination m = TASK_ALL")
  case True
  then have "snd (send_msg m s) = broadcast_loop [TASK_FIRST..<TASK_MAX] m s"
    by (simp add: send_msg_def send_broadcast_msg_def task_defs)
  with True show ?thesis by (simp add: broadcast_loop_spec) (simp add: task_defs)
next
  case False
  then show ?thesis
    by (auto simp: send_msg_def queue_of_def task_ready_def task_defs split: option.splits)
qed

text \<open>The calls that tasks make on the middleware, in any order, seen from the queue of one task.\<close>

datatype 'p mw_op =
    Op_send "'p itti_msg" | Op_receive task_id | Op_poll task_id | Op_create task_id bool
  | Op_ready task_id | Op_terminate task_id | Op_join

definition addressed :: "'p itti_mw \<Rightarrow> task_id \<Rightarrow> 'p itti_msg \<Rightarrow> bool" where
  "addressed s t m \<longleftrightarrow> t < TASK_MAX \<and> task_ready s t \<and> (destination m = t \<or> destination m = TASK_ALL)"

definition got :: "task_id \<Rightarrow> task_id \<Rightarrow> 'p itti_msg option \<Rightarrow> 'p itti_msg list" where
  "got t u r = (if u = t then (case r of Some m \<Rightarrow> [m] | None \<Rightarrow> []) else [])"

text \<open>
  One call: the messages it puts into the queue of \<open>t\<close>, the messages \<open>t\<close> gets from it, and the new
  state. A \<^verbatim>\<open>receive_msg\<close> that blocks changes nothing.
\<close>

fun mw_call :: "task_id \<Rightarrow> 'p mw_op \<Rightarrow> 'p itti_mw \<Rightarrow> 'p itti_msg list \<times> 'p itti_msg list \<times> 'p itti_mw" where
  "mw_call t (Op_send m) s = ((if addressed s t m then [m] else []), [], snd (send_msg m s))"
| "mw_call t (Op_receive u) s =
     (case receive_msg u s of None \<Rightarrow> ([], [], s) | Some (r, s') \<Rightarrow> ([], got t u r, s'))"
| "mw_call t (Op_poll u) s = (case poll_msg u s of (r, s') \<Rightarrow> ([], got t u r, s'))"
| "mw_call t (Op_create u b) s = ([], [], snd (create_task u b s))"
| "mw_call t (Op_ready u) s =
     (case notify_task_ready u s of Inl _ \<Rightarrow> ([], [], s) | Inr (_, s') \<Rightarrow> ([], [], s'))"
| "mw_call t (Op_terminate src) s =
     (case itti_msg_new Terminate_body src TASK_ALL s of (m, _) \<Rightarrow>
        ((if addressed s t m then [m] else []), [], snd (send_terminate_msg src s)))"
| "mw_call t Op_join s = ([], [], wait_tasks_end s)"

fun mw_calls :: "task_id \<Rightarrow> 'p mw_op list \<Rightarrow> 'p itti_mw \<Rightarrow> 'p itti_msg list \<times> 'p itti_msg list \<times> 'p itti_mw" where
  "mw_calls t [] s = ([], [], s)"
| "mw_calls t (op # ops) s =
     (case mw_call t op s of (put, taken, s1) \<Rightarrow>
        case mw_calls t ops s1 of (puts, takens, s2) \<Rightarrow> (put @ puts, taken @ takens, s2))"

lemma queue_cong: "itti_task_ctxts s' = itti_task_ctxts s \<Longrightarrow> queue_of s' = queue_of s"
  by (simp add: fun_eq_iff queue_of_def)

lemma ready_cong: "itti_task_ctxts s' = itti_task_ctxts s \<Longrightarrow> task_ready s' = task_ready s"
  by (simp add: fun_eq_iff task_ready_def)

lemma itti_msg_new_simps:
  "itti_task_ctxts (snd (itti_msg_new b x y s)) = itti_task_ctxts s"
  "destination (fst (itti_msg_new b x y s)) = y"
  by (simp_all add: itti_msg_new_def increment_message_number_def)

lemma send_terminate_queue:
  "itti_msg_new Terminate_body src TASK_ALL s = (m, s1) \<Longrightarrow>
     queue_of (snd (send_terminate_msg src s)) t = queue_of s t @ (if addressed s t m then [m] else [])"
proof -
  assume new: "itti_msg_new Terminate_body src TASK_ALL s = (m, s1)"
  have ctx: "itti_task_ctxts (s1\<lparr>terminate := True\<rparr>) = itti_task_ctxts s" and m: "destination m = TASK_ALL"
    using itti_msg_new_simps [of Terminate_body src TASK_ALL s] new by simp_all
  have "snd (send_terminate_msg src s) = broadcast_loop [TASK_FIRST..<TASK_MAX] m (s1\<lparr>terminate := True\<rparr>)"
    using new m by (simp add: send_terminate_msg_def send_broadcast_msg_def)
  then show ?thesis
    using queue_cong [OF ctx] ready_cong [OF ctx] m
    by (simp add: broadcast_loop_spec addressed_def) (simp add: task_defs)
qed

lemma poll_queue:
  "poll_msg u s = (r, s') \<Longrightarrow> queue_of s t = got t u r @ queue_of s' t"
  by (auto simp: poll_msg_def queue_of_def got_def split: if_splits option.splits list.splits)

lemma receive_queue:
  "receive_msg u s = Some (r, s') \<Longrightarrow> queue_of s t = got t u r @ queue_of s' t"
  by (auto simp: receive_msg_def queue_of_def got_def split: if_splits option.splits list.splits)

lemma create_queue: "queue_of (snd (create_task u b s)) t = queue_of s t"
  by (auto simp: create_task_def queue_of_def split: option.splits)

lemma notify_queue: "notify_task_ready u s = Inr (r, s') \<Longrightarrow> queue_of s' t = queue_of s t"
  by (auto simp: notify_task_ready_def queue_of_def split: if_splits option.splits)

lemma join_queue: "queue_of (wait_tasks_end s) t = queue_of s t"
  by (auto simp: wait_tasks_end_def queue_of_def split: option.splits)

lemma mw_call_fifo:
  "mw_call t op s = (put, taken, s') \<Longrightarrow> queue_of s t @ put = taken @ queue_of s' t"
  by (cases op) (auto simp: send_msg_queue addressed_def create_queue notify_queue join_queue
      send_terminate_queue poll_queue receive_queue split: option.splits prod.splits sum.splits if_splits)

section \<open>Properties of the message queues\<close>

text \<open>
  C29: the queue of a task is a lossless FIFO. Over any sequence of calls by any tasks, the messages
  that task \<open>t\<close> has taken, followed by those still in its queue, are exactly those that were in its
  queue at the start followed by those sent to it (or to all) while it was ready, in the order of
  the sends.
\<close>

theorem msg_queue_fifo:
  assumes "mw_calls t ops s = (puts, takens, s')"
  shows "queue_of s t @ puts = takens @ queue_of s' t"
  using assms
proof (induction ops arbitrary: s puts takens)
  case (Cons op ops)
  obtain put taken s1 where c: "mw_call t op s = (put, taken, s1)" by (metis prod_cases3)
  obtain ps ts where r: "mw_calls t ops s1 = (ps, ts, s')" "puts = put @ ps" "takens = taken @ ts"
    using Cons.prems c by (auto split: prod.splits)
  have "queue_of s t @ put @ ps = taken @ queue_of s1 t @ ps" using mw_call_fifo [OF c] by simp
  also have "\<dots> = taken @ ts @ queue_of s' t" using Cons.IH [OF r(1)] by simp
  finally show ?case using r by simp
qed simp

definition ping :: "task_id \<Rightarrow> u32 \<Rightarrow> unit itti_msg" where
  "ping t n = \<lparr>msg_num = 0, origin = 6, destination = t, body = Health_ping_body n\<rparr>"

theorem msg_queue_fifo_witness:
  "\<exists>s'. mw_calls 9 [Op_create 9 True, Op_ready 9, Op_send (ping 9 1), Op_send (ping 10 3),
       Op_send (ping 9 2), Op_receive 9] (itti_mw_init 0)
     = ([ping 9 1, ping 9 2], [ping 9 1], s') \<and> queue_of s' 9 = [ping 9 2]"
proof -
  let ?ops = "[Op_create 9 True, Op_ready 9, Op_send (ping 9 1), Op_send (ping 10 3),
       Op_send (ping 9 2), Op_receive 9]"
  obtain s' where r: "mw_calls 9 ?ops (itti_mw_init 0) = ([ping 9 1, ping 9 2], [ping 9 1], s')"
    by (simp add: itti_mw_init_def create_task_def notify_task_ready_def send_msg_def ping_def
        task_defs addressed_def task_ready_def receive_msg_def got_def push_msg_def)
  from msg_queue_fifo [OF r] r show ?thesis by (simp add: queue_of_def itti_mw_init_def)
qed

text \<open>
  a unicast message is accepted exactly when its task is ready, and then it is in the queue of
  that task and of no other; a message that is not accepted changes nothing.
\<close>

theorem send_msg_unicast:
  assumes "destination m < TASK_MAX"
  shows "(fst (send_msg m s) = RETURNok \<longleftrightarrow> task_ready s (destination m))
    \<and> (fst (send_msg m s) \<noteq> RETURNok \<longrightarrow> snd (send_msg m s) = s)
    \<and> (\<forall>t. queue_of (snd (send_msg m s)) t = queue_of s t @
          (if t = destination m \<and> task_ready s t then [m] else []))"
  using assms send_msg_queue [of m s]
  by (auto simp: send_msg_def task_ready_def task_defs split: option.splits)

theorem send_msg_unicast_witness:
  "fst (send_msg (ping 9 1) (itti_mw_init 0)) \<noteq> RETURNok
     \<and> snd (send_msg (ping 9 1) (itti_mw_init 0)) = itti_mw_init 0"
  using send_msg_unicast [of "ping 9 1" "itti_mw_init 0"]
  by (simp add: ping_def task_defs task_ready_def itti_mw_init_def)

section \<open>The timers of a run\<close>

abbreviation time_sorted :: "itti_timer list \<Rightarrow> bool" where
  "time_sorted \<equiv> sorted_wrt (\<lambda>t u. time_out t < time_out u)"

lemma set_timers_insert:
  "set (timers_insert t us) = (if time_out t \<in> time_out ` set us then set us else insert t (set us))"
  if "time_sorted us"
  using that by (induction us) auto

lemma timers_insert_subset: "set (timers_insert t us) \<subseteq> insert t (set us)" "set us \<subseteq> set (timers_insert t us)"
  by (induction us) auto

lemma time_sorted_insert: "time_sorted us \<Longrightarrow> time_sorted (timers_insert t us)"
proof (induction us)
  case (Cons u us)
  then show ?case using timers_insert_subset(1) [of t us] by (auto dest: less_trans)
qed simp

lemma distinct_ids_insert:
  "distinct (map t_id us) \<Longrightarrow> t_id t \<notin> t_id ` set us \<Longrightarrow> distinct (map t_id (timers_insert t us))"
proof (induction us)
  case (Cons u us)
  then show ?case using timers_insert_subset(1) [of t us] by auto
qed simp

lemma fresh_image: "x \<notin> f ` A \<Longrightarrow> u \<in> A \<Longrightarrow> f u \<noteq> x"
  by blast

lemma erase_first_spec:
  "distinct (map t_id us) \<Longrightarrow> erase_first i us = Some vs \<Longrightarrow>
     set vs = {t \<in> set us. t_id t \<noteq> i} \<and> distinct (map t_id vs) \<and> (time_sorted us \<longrightarrow> time_sorted vs)"
proof (induction us arbitrary: vs)
  case (Cons u us)
  show ?case
  proof (cases "t_id u = i")
    case True
    with Cons.prems have "vs = us" "i \<notin> t_id ` set us" by auto
    with Cons.prems True show ?thesis by (auto dest: fresh_image)
  next
    case False
    with Cons.prems obtain ws where ws: "erase_first i us = Some ws" "vs = u # ws" by auto
    from Cons.IH [OF _ ws(1)] Cons.prems(1) False ws(2) show ?thesis by auto
  qed
qed simp

text \<open>
  The timers that can still fire: those in the set, and the one the timer thread has taken, unless
  it has been removed meanwhile.
\<close>

definition holding :: "'p itti_sys \<Rightarrow> bool" where
  "holding y \<longleftrightarrow> (case pc y of Picked \<Rightarrow> True | Waiting _ \<Rightarrow> True | _ \<Rightarrow> False)
     \<and> t_id (current_timer (mw y)) \<noteq> ITTI_INVALID_TIMER_ID"

definition pending :: "'p itti_sys \<Rightarrow> itti_timer set" where
  "pending y = set (timers (mw y)) \<union> (if holding y then {current_timer (mw y)} else {})"

definition timers_ok :: "'p itti_sys \<Rightarrow> bool" where
  "timers_ok y \<longleftrightarrow> time_sorted (timers (mw y)) \<and> distinct (map t_id (timers (mw y)))
     \<and> (\<forall>t \<in> set (timers (mw y)). t_id t \<noteq> ITTI_INVALID_TIMER_ID \<and> t_id t \<noteq> t_id (current_timer (mw y)))
     \<and> (\<forall>d. pc y = Waiting d \<longrightarrow> holding y \<longrightarrow> d = time_out (current_timer (mw y)))"

lemma null_timer_id [simp]: "t_id (null_timer b) = ITTI_INVALID_TIMER_ID"
  by (simp add: null_timer_def itti_timer_new_def)

lemma send_broadcast_timers:
  "timers (broadcast_loop ts m s) = timers s \<and> current_timer (broadcast_loop ts m s) = current_timer s
   \<and> timer_id (broadcast_loop ts m s) = timer_id s \<and> boot (broadcast_loop ts m s) = boot s"
  by (induction ts arbitrary: s) (auto split: option.splits)

lemma send_msg_timers [simp]:
  "timers (snd (send_msg m s)) = timers s" "current_timer (snd (send_msg m s)) = current_timer s"
  "timer_id (snd (send_msg m s)) = timer_id s" "boot (snd (send_msg m s)) = boot s"
  by (simp_all add: send_msg_def send_broadcast_msg_def send_broadcast_timers split: option.split)

lemma signal_time_out_timers [simp]:
  "timers (snd (signal_time_out s)) = timers s"
  "current_timer (snd (signal_time_out s)) = current_timer s"
  "timer_id (snd (signal_time_out s)) = timer_id s" "boot (snd (signal_time_out s)) = boot s"
  by (simp_all add: signal_time_out_def itti_msg_new_def increment_message_number_def Let_def)

lemma timer_setup_spec:
  assumes "timer_setup now sec usec task a1 a2 s = (i, s')" and "i \<noteq> ITTI_INVALID_TIMER_ID"
  shows "i = timer_id s + 1"
    and "s' = s\<lparr>timer_id := i, timers := timers_insert (itti_timer_new now i task sec usec a1 a2) (timers s)\<rparr>"
    and "t_id (itti_timer_new now i task sec usec a1 a2) = i"
    and "time_out (itti_timer_new now i task sec usec a1 a2)
      = now + int (unat sec) * 1000000000 + int (unat usec) * 1000"
  using assms
  by (auto simp: timer_setup_def increment_timer_id_def itti_timer_new_def Let_def split: if_splits)

text \<open>
  What a step does to the pending timers. Nothing is added but by a set-up; a timer leaves by
  firing, by removal, or because another one has the same time-out.
\<close>

definition step_effect :: "'p itti_sys \<Rightarrow> timer_event \<Rightarrow> 'p itti_sys \<Rightarrow> bool" where
  "step_effect y e y' \<longleftrightarrow>
     (case e of
        Tau \<Rightarrow> pending y' \<subseteq> pending y \<and> (inj_on time_out (pending y) \<longrightarrow> pending y' = pending y)
      | Set_timer i tm \<Rightarrow> \<exists>t. t_id t = i \<and> time_out t = tm \<and> pending y' \<subseteq> insert t (pending y)
           \<and> pending y \<subseteq> pending y' \<and> (tm \<notin> time_out ` pending y \<longrightarrow> pending y' = insert t (pending y))
      | Removed i \<Rightarrow> pending y' = {t \<in> pending y. t_id t \<noteq> i}
      | Fired t now \<Rightarrow> (if t_id t = ITTI_INVALID_TIMER_ID then pending y' = pending y
           else t \<in> pending y \<and> pending y' = {u \<in> pending y. t_id u \<noteq> t_id t} \<and> time_out t \<le> now))"

lemma same_timers:
  assumes "timers_ok y" and "timers (mw y') = timers (mw y)"
    and "current_timer (mw y') = current_timer (mw y)" and "holding y' = holding y"
    and "\<And>d. pc y' = Waiting d \<Longrightarrow> holding y \<Longrightarrow> d = time_out (current_timer (mw y))"
  shows "timers_ok y' \<and> step_effect y Tau y'"
  using assms by (auto simp: timers_ok_def step_effect_def pending_def)

lemma fire_effect:
  assumes ok: "timers_ok y" and y': "timers (mw y') = timers (mw y)"
    "current_timer (mw y') = current_timer (mw y)" "pc y' = Loop"
    and pc: "pc y = Picked \<or> (\<exists>d. pc y = Waiting d)"
    and due: "holding y \<Longrightarrow> time_out (current_timer (mw y)) \<le> now"
  shows "timers_ok y' \<and> step_effect y (Fired (current_timer (mw y)) now) y'"
proof -
  let ?c = "current_timer (mw y)" and ?ts = "timers (mw y)"
  have h': "\<not> holding y'" using y'(3) by (simp add: holding_def)
  have h: "holding y \<longleftrightarrow> t_id ?c \<noteq> ITTI_INVALID_TIMER_ID" using pc by (auto simp: holding_def)
  have p': "pending y' = set ?ts" using h' y'(1) by (simp add: pending_def)
  have p: "pending y = set ?ts \<union> (if holding y then {?c} else {})" by (simp add: pending_def)
  have "{u \<in> pending y. t_id u \<noteq> t_id ?c} = set ?ts" using ok unfolding p timers_ok_def by auto
  moreover have "?c \<in> pending y" if "holding y" using that p by simp
  moreover have "pending y = set ?ts" if "\<not> holding y" using that p by simp
  ultimately have "step_effect y (Fired ?c now) y'"
    using due p' h unfolding step_effect_def by (cases "holding y") simp_all
  moreover have "timers_ok y'" using ok h' y' by (simp add: timers_ok_def)
  ultimately show ?thesis by simp
qed

lemma pick_effect:
  assumes ok: "timers_ok y" and pc: "pc y = Idle" and ne: "timers (mw y) \<noteq> []"
  shows "timers_ok (y\<lparr>mw := tm_pick (mw y), pc := Picked\<rparr>)
    \<and> step_effect y Tau (y\<lparr>mw := tm_pick (mw y), pc := Picked\<rparr>)"
proof -
  let ?y = "y\<lparr>mw := tm_pick (mw y), pc := Picked\<rparr>"
  obtain t ts where t: "timers (mw y) = t # ts" using ne by (cases "timers (mw y)") auto
  then have y': "timers (mw ?y) = ts" "current_timer (mw ?y) = t" by (simp_all add: tm_pick_def)
  have h: "\<not> holding y" using pc by (simp add: holding_def)
  have h': "holding ?y" using ok t y'(2) unfolding holding_def timers_ok_def by simp
  have "pending ?y = pending y" using t h h' y' by (simp add: pending_def)
  moreover have "t_id t \<notin> t_id ` set ts" using ok t by (simp add: timers_ok_def)
  then have "\<forall>u \<in> set ts. t_id u \<noteq> t_id t" by (intro ballI fresh_image)
  then have "timers_ok ?y" using ok t y' by (simp add: timers_ok_def)
  ultimately show ?thesis by (simp add: step_effect_def)
qed

lemma insert_keeps_ok:
  assumes "time_sorted ts" and "distinct (map t_id ts)"
    and "\<forall>u \<in> set ts. t_id u \<noteq> ITTI_INVALID_TIMER_ID \<and> t_id u \<noteq> t_id t"
    and "t_id t \<noteq> ITTI_INVALID_TIMER_ID"
  shows "time_sorted (timers_insert t ts) \<and> distinct (map t_id (timers_insert t ts))
    \<and> (\<forall>u \<in> set (timers_insert t ts). t_id u \<noteq> ITTI_INVALID_TIMER_ID)"
proof -
  have "t_id t \<notin> t_id ` set ts" using assms(3) by auto
  from time_sorted_insert [OF assms(1)] distinct_ids_insert [OF assms(2) this]
  show ?thesis using assms(3,4) timers_insert_subset(1) [of t ts] by blast
qed

lemma requeue_effect:
  assumes ok: "timers_ok y" and pc: "pc y = Waiting d"
  shows "timers_ok (y\<lparr>mw := tm_requeue (mw y), pc := Loop\<rparr>)
    \<and> step_effect y Tau (y\<lparr>mw := tm_requeue (mw y), pc := Loop\<rparr>)"
proof -
  let ?c = "current_timer (mw y)" and ?ts = "timers (mw y)"
  let ?y = "y\<lparr>mw := tm_requeue (mw y), pc := Loop\<rparr>"
  have h': "\<not> holding ?y" by (simp add: holding_def)
  have c': "current_timer (mw ?y) = null_timer (boot (mw y))" by (simp add: tm_requeue_def)
  show ?thesis
  proof (cases "t_id ?c = ITTI_INVALID_TIMER_ID")
    case True
    then have "\<not> holding y" "timers (mw ?y) = ?ts" by (simp_all add: holding_def tm_requeue_def)
    with ok h' c' show ?thesis unfolding timers_ok_def step_effect_def pending_def by simp
  next
    case False
    with pc have h: "holding y" by (simp add: holding_def)
    from False have ts: "timers (mw ?y) = timers_insert ?c ?ts" by (simp add: tm_requeue_def)
    have p: "pending y = insert ?c (set ?ts)" "pending ?y = set (timers_insert ?c ?ts)"
      using h h' ts by (simp_all add: pending_def)
    have sorted: "time_sorted ?ts" using ok by (simp add: timers_ok_def)
    have "?c \<notin> set ?ts" using ok by (auto simp: timers_ok_def)
    then have "pending ?y = pending y" if "inj_on time_out (pending y)"
      using that unfolding p set_timers_insert [OF sorted] by (simp add: inj_on_insert)
    moreover have "pending ?y \<subseteq> pending y" unfolding p by (rule timers_insert_subset)
    moreover have "timers_ok ?y"
      using h' ts c' insert_keeps_ok [of ?ts ?c] ok False by (simp add: timers_ok_def)
    ultimately show ?thesis by (simp add: step_effect_def)
  qed
qed

lemma setup_effect:
  assumes ok: "timers_ok y" and new: "i \<noteq> ITTI_INVALID_TIMER_ID" "t_id tm = i"
      "i \<notin> t_id ` insert (current_timer (mw y)) (pending y)"
    and y': "timers (mw y') = timers_insert tm (timers (mw y))" "pc y' = pc y"
      "current_timer (mw y') = current_timer (mw y)"
  shows "timers_ok y' \<and> step_effect y (Set_timer i (time_out tm)) y'"
proof -
  let ?ts = "timers (mw y)" and ?c = "current_timer (mw y)"
  have h: "holding y' = holding y" using y' by (simp add: holding_def)
  have fresh: "\<forall>u \<in> set ?ts. t_id u \<noteq> t_id tm" "t_id tm \<noteq> t_id ?c"
    using new(2) fresh_image [OF new(3)] by (simp_all add: pending_def) metis
  have sorted: "time_sorted ?ts" using ok by (simp add: timers_ok_def)
  have p: "pending y' = set (timers_insert tm ?ts) \<union> (if holding y then {?c} else {})"
    using h y' by (simp add: pending_def)
  have "\<forall>u \<in> set (timers_insert tm ?ts). t_id u \<noteq> t_id ?c"
    using ok fresh timers_insert_subset(1) [of tm ?ts] by (auto simp: timers_ok_def)
  then have "timers_ok y'"
    using ok h y' new insert_keeps_ok [of ?ts tm] fresh by (simp add: timers_ok_def)
  moreover have p0: "pending y = set ?ts \<union> (if holding y then {?c} else {})" by (simp add: pending_def)
  moreover have "pending y' \<subseteq> insert tm (pending y)" "pending y \<subseteq> pending y'"
    unfolding p p0 using timers_insert_subset [where t = tm and us = ?ts] by auto
  moreover have "pending y' = insert tm (pending y)" if "time_out tm \<notin> time_out ` pending y"
    using that unfolding p p0 set_timers_insert [OF sorted] by auto
  ultimately show ?thesis using new(2) by (auto simp: step_effect_def)
qed

lemma remove_effect:
  assumes ok: "timers_ok y" and rm: "timer_remove i (mw y) = (RETURNok, s')"
  shows "timers_ok (y\<lparr>mw := s'\<rparr>) \<and> step_effect y (Removed i) (y\<lparr>mw := s'\<rparr>)"
proof (cases "t_id (current_timer (mw y)) = i")
  case True
  with rm have s': "s' = (mw y)\<lparr>current_timer := null_timer (boot (mw y))\<rparr>" by (simp add: timer_remove_def)
  then have h': "\<not> holding (y\<lparr>mw := s'\<rparr>)" by (simp add: holding_def)
  have "{t \<in> pending y. t_id t \<noteq> i} = set (timers (mw y))"
    using ok True by (auto simp: pending_def timers_ok_def split: if_splits)
  moreover have "pending (y\<lparr>mw := s'\<rparr>) = set (timers (mw y))" using s' h' by (simp add: pending_def)
  moreover have "timers_ok (y\<lparr>mw := s'\<rparr>)" using ok s' h' by (simp add: timers_ok_def)
  ultimately show ?thesis by (simp add: step_effect_def)
next
  case False
  with rm obtain ts where ts: "erase_first i (timers (mw y)) = Some ts" "s' = (mw y)\<lparr>timers := ts\<rparr>"
    by (auto simp: timer_remove_def split: option.splits)
  have h: "holding (y\<lparr>mw := s'\<rparr>) = holding y" using ts(2) by (simp add: holding_def)
  have ts': "set ts = {t \<in> set (timers (mw y)). t_id t \<noteq> i}" "distinct (map t_id ts)" "time_sorted ts"
    using erase_first_spec [OF _ ts(1)] ok by (simp_all add: timers_ok_def)
  then have "timers_ok (y\<lparr>mw := s'\<rparr>)" using ok h ts(2) by (simp add: timers_ok_def)
  moreover have "pending (y\<lparr>mw := s'\<rparr>) = {t \<in> pending y. t_id t \<noteq> i}"
    using h ts(2) ts'(1) False by (auto simp: pending_def)
  ultimately show ?thesis by (simp add: step_effect_def)
qed

lemma timer_step_effect:
  assumes "timer_step y e y'" and ok: "timers_ok y"
    and new: "\<And>i tm. e = Set_timer i tm \<Longrightarrow> i \<notin> t_id ` insert (current_timer (mw y)) (pending y)"
  shows "timers_ok y' \<and> step_effect y e y'"
  using assms(1)
proof (cases rule: timer_step.cases)
  case (step_clock now)
  then show ?thesis using same_timers [OF ok, of y'] ok by (simp add: holding_def timers_ok_def)
next
  case (step_setup sec usec task a1 a2 i s')
  then show ?thesis
    using setup_effect [OF ok step_setup(4) timer_setup_spec(3) [OF step_setup(3,4)], of y']
      new timer_setup_spec [OF step_setup(3,4)] by simp
next
  case (step_remove i s')
  then show ?thesis using remove_effect [OF ok] by simp
next
  case (step_other s')
  then show ?thesis using same_timers [OF ok, of y'] ok by (simp add: holding_def timers_ok_def)
next
  case step_enter
  then show ?thesis using same_timers [OF ok, of y'] by (simp add: holding_def)
next
  case step_pick
  then show ?thesis using pick_effect [OF ok] by simp
next
  case step_stop
  then show ?thesis using same_timers [OF ok, of y'] by (simp add: holding_def)
next
  case step_due
  then show ?thesis using fire_effect [OF ok, of y' "clock y"] by simp
next
  case step_wait
  then show ?thesis using same_timers [OF ok, of y'] by (simp add: holding_def)
next
  case (step_timeout d)
  then have "holding y \<Longrightarrow> time_out (current_timer (mw y)) \<le> clock y" using ok by (auto simp: timers_ok_def)
  with step_timeout show ?thesis using fire_effect [OF ok, of y' "clock y"] by simp
next
  case (step_notified d)
  then show ?thesis using requeue_effect [OF ok] by simp
qed

definition itti_sys_init :: "time_point \<Rightarrow> 'p itti_sys" where
  "itti_sys_init t0 = \<lparr>mw = itti_mw_init t0, pc = Loop, clock = t0\<rparr>"

definition set_times :: "timer_event list \<Rightarrow> (timer_id \<times> time_point) list" where
  "set_times tr = concat (map (\<lambda>e. case e of Set_timer i tm \<Rightarrow> [(i, tm)] | _ \<Rightarrow> []) tr)"

definition fired_or_removed :: "timer_id \<Rightarrow> timer_event list \<Rightarrow> bool" where
  "fired_or_removed i tr \<longleftrightarrow> (\<exists>e \<in> set tr. case e of Removed j \<Rightarrow> j = i | Fired t _ \<Rightarrow> t_id t = i | _ \<Rightarrow> False)"

lemma set_times_snoc [simp]:
  "set_times [] = []"
  "set_times (tr @ [e]) = set_times tr @ (case e of Set_timer i tm \<Rightarrow> [(i, tm)] | _ \<Rightarrow> [])"
  by (simp_all add: set_times_def)

lemma fired_or_removed_snoc [simp]:
  "\<not> fired_or_removed i []"
  "fired_or_removed i (tr @ [e]) \<longleftrightarrow> fired_or_removed i tr
     \<or> (case e of Removed j \<Rightarrow> j = i | Fired t _ \<Rightarrow> t_id t = i | _ \<Rightarrow> False)"
  by (auto simp: fired_or_removed_def)

lemma timer_step_id:
  assumes "timer_step y e y'"
  shows "case e of Set_timer i tm \<Rightarrow> i = timer_id (mw y) + 1 \<and> timer_id (mw y') = i \<and> i \<noteq> ITTI_INVALID_TIMER_ID
    | _ \<Rightarrow> timer_id (mw y') = timer_id (mw y)"
  using assms
proof (cases rule: timer_step.cases)
  case (step_setup sec usec task a1 a2 i s')
  then show ?thesis using timer_setup_spec [OF step_setup(3,4)] by simp
qed (auto simp: timer_remove_def tm_pick_def tm_requeue_def split: if_splits option.splits list.split)

lemma timer_step_current:
  assumes "timer_step y e y'"
  shows "current_timer (mw y') = current_timer (mw y) \<or> t_id (current_timer (mw y')) = ITTI_INVALID_TIMER_ID
    \<or> current_timer (mw y') \<in> pending y"
  using assms
proof (cases rule: timer_step.cases)
  case (step_setup sec usec task a1 a2 i s')
  then show ?thesis using timer_setup_spec [OF step_setup(3,4)] by simp
qed (auto simp: timer_remove_def tm_pick_def tm_requeue_def pending_def split: if_splits option.splits list.split)

lemma erase_first_mem: "erase_first i us = Some vs \<Longrightarrow> i \<in> t_id ` set us"
  by (induction us arbitrary: vs) (auto split: if_splits)

lemma timer_step_about:
  assumes "timer_step y e y'"
  shows "case e of Removed j \<Rightarrow> j \<in> t_id ` insert (current_timer (mw y)) (pending y)
    | Fired t _ \<Rightarrow> t = current_timer (mw y) | _ \<Rightarrow> True"
  using assms
proof (cases rule: timer_step.cases)
  case (step_remove i s')
  then show ?thesis
    by (auto simp: timer_remove_def pending_def split: if_splits option.splits dest: erase_first_mem)
qed simp_all

definition run_inv :: "timer_event list \<Rightarrow> 'p itti_sys \<Rightarrow> bool" where
  "run_inv tr y \<longleftrightarrow> timers_ok y \<and> timer_id (mw y) = of_nat (length (set_times tr))
     \<and> (\<forall>(i, tm) \<in> set (set_times tr). 1 \<le> unat i \<and> unat i \<le> length (set_times tr))
     \<and> (t_id (current_timer (mw y)) = ITTI_INVALID_TIMER_ID
          \<or> t_id (current_timer (mw y)) \<in> fst ` set (set_times tr))
     \<and> (\<forall>t \<in> pending y. (t_id t, time_out t) \<in> set (set_times tr) \<and> \<not> fired_or_removed (t_id t) tr)
     \<and> (\<forall>j. fired_or_removed j tr \<longrightarrow> j = ITTI_INVALID_TIMER_ID \<or> j \<in> fst ` set (set_times tr))"

lemma run_inv_init: "run_inv [] (itti_sys_init t0)"
  by (simp add: run_inv_def itti_sys_init_def itti_mw_init_def timers_ok_def pending_def holding_def)

lemma run_inv_ids:
  assumes inv: "run_inv tr y"
  shows "t_id ` pending y \<subseteq> fst ` set (set_times tr)"
proof
  fix x
  assume "x \<in> t_id ` pending y"
  then obtain t where t: "t \<in> pending y" "x = t_id t" by blast
  then have "(x, time_out t) \<in> set (set_times tr)" using inv by (simp add: run_inv_def)
  then show "x \<in> fst ` set (set_times tr)" by (rule image_eqI [rotated]) simp
qed

lemma run_inv_fresh:
  assumes inv: "run_inv tr y" and step: "timer_step y (Set_timer i tm) y'"
    and len: "length (set_times tr) < 2 ^ 32 - 1"
  shows "unat i = Suc (length (set_times tr))"
    and "i \<notin> t_id ` insert (current_timer (mw y)) (pending y)"
proof -
  let ?n = "length (set_times tr)"
  have i: "i = of_nat (Suc ?n)" "i \<noteq> ITTI_INVALID_TIMER_ID"
    using timer_step_id [OF step] inv by (auto simp: run_inv_def)
  then show u: "unat i = Suc ?n" using len by (simp add: unat_of_nat del: of_nat_Suc)
  have old: "i \<notin> fst ` set (set_times tr)" using inv u by (fastforce simp: run_inv_def)
  then have "i \<noteq> t_id (current_timer (mw y))" using inv i(2) by (auto simp: run_inv_def)
  moreover note run_inv_ids [OF inv]
  ultimately show "i \<notin> t_id ` insert (current_timer (mw y)) (pending y)" using old by auto
qed

lemma run_inv_current:
  assumes inv: "run_inv tr y" and step: "timer_step y e y'"
  shows "t_id (current_timer (mw y')) = ITTI_INVALID_TIMER_ID
    \<or> t_id (current_timer (mw y')) \<in> fst ` set (set_times (tr @ [e]))"
proof -
  have "t_id ` insert (current_timer (mw y)) (pending y) \<subseteq> insert ITTI_INVALID_TIMER_ID (fst ` set (set_times tr))"
    using inv run_inv_ids [OF inv] by (auto simp: run_inv_def)
  then have "t_id (current_timer (mw y')) \<in> insert ITTI_INVALID_TIMER_ID (fst ` set (set_times tr))"
    using timer_step_current [OF step] by (metis image_subset_iff insertCI)
  then show ?thesis by (auto simp del: fst_conv)
qed

lemma run_inv_dead:
  assumes inv: "run_inv tr y" and step: "timer_step y e y'" and "fired_or_removed j (tr @ [e])"
  shows "j = ITTI_INVALID_TIMER_ID \<or> j \<in> fst ` set (set_times (tr @ [e]))"
proof -
  have "t_id ` insert (current_timer (mw y)) (pending y) \<subseteq> insert ITTI_INVALID_TIMER_ID (fst ` set (set_times tr))"
    using inv run_inv_ids [OF inv] by (auto simp: run_inv_def)
  moreover have "j \<in> t_id ` insert (current_timer (mw y)) (pending y) \<or> fired_or_removed j tr"
    using timer_step_about [OF step] assms(3) by (cases e) auto
  moreover have "fired_or_removed j tr \<Longrightarrow> j = ITTI_INVALID_TIMER_ID \<or> j \<in> fst ` set (set_times tr)"
    using inv by (simp add: run_inv_def)
  ultimately show ?thesis by auto
qed

lemma run_inv_pending:
  assumes inv: "run_inv tr y" and step: "timer_step y e y'" and ok: "timers_ok y'" and eff: "step_effect y e y'"
    and len: "length (set_times (tr @ [e])) < 2 ^ 32" and t: "t \<in> pending y'"
  shows "(t_id t, time_out t) \<in> set (set_times (tr @ [e])) \<and> \<not> fired_or_removed (t_id t) (tr @ [e])"
proof -
  have old: "(t_id u, time_out u) \<in> set (set_times tr) \<and> \<not> fired_or_removed (t_id u) tr" if "u \<in> pending y" for u
    using that inv by (simp add: run_inv_def)
  have nz: "t_id t \<noteq> ITTI_INVALID_TIMER_ID" using ok t by (auto simp: timers_ok_def pending_def holding_def split: if_splits)
  show ?thesis
  proof (cases e)
    case (Set_timer i tm)
    have u: "unat i = Suc (length (set_times tr))" using run_inv_fresh(1) [OF inv] step len Set_timer by simp
    then have "i \<notin> fst ` set (set_times tr)" using inv by (fastforce simp: run_inv_def)
    then have "\<not> fired_or_removed i tr" using timer_step_id [OF step] inv Set_timer by (auto simp: run_inv_def)
    moreover obtain v where "t_id v = i" "time_out v = tm" "t = v \<or> t \<in> pending y"
      using eff t Set_timer by (auto simp: step_effect_def)
    ultimately show ?thesis using old Set_timer by auto
  next
    case (Fired v now)
    with eff t nz have "t \<in> pending y" "t_id t \<noteq> t_id v" by (auto simp: step_effect_def split: if_splits)
    with old Fired show ?thesis by simp
  qed (use eff t old in \<open>auto simp: step_effect_def\<close>)
qed

lemma run_inv_step:
  assumes inv: "run_inv tr y" and step: "timer_step y e y'"
    and len: "length (set_times (tr @ [e])) < 2 ^ 32"
  shows "run_inv (tr @ [e]) y' \<and> step_effect y e y'"
proof -
  have "timers_ok y" using inv by (simp add: run_inv_def)
  from timer_step_effect [OF step this] have eff: "timers_ok y'" "step_effect y e y'"
    using run_inv_fresh(2) [OF inv] step len by fastforce+
  have "timer_id (mw y') = of_nat (length (set_times (tr @ [e])))"
    using timer_step_id [OF step] inv by (cases e) (auto simp: run_inv_def)
  moreover have "\<forall>(i, tm) \<in> set (set_times (tr @ [e])). 1 \<le> unat i \<and> unat i \<le> length (set_times (tr @ [e]))"
    using run_inv_fresh(1) [OF inv] step len inv by (cases e) (fastforce simp: run_inv_def)+
  ultimately show ?thesis
    using run_inv_current [OF inv step] run_inv_dead [OF inv step] run_inv_pending [OF inv step eff len] eff
    unfolding run_inv_def by blast
qed

lemma timer_run_inv:
  "timer_run (itti_sys_init t0) tr y \<Longrightarrow> length (set_times tr) < 2 ^ 32 \<Longrightarrow> run_inv tr y"
proof (induction rule: timer_run.induct)
  case (run_snoc tr y e y')
  then have "length (set_times tr) < 2 ^ 32" by simp
  with run_snoc run_inv_step show ?case by blast
qed (rule run_inv_init)

lemma timer_run_appendD:
  "timer_run y0 (tr1 @ tr2) y \<Longrightarrow> \<exists>y1. timer_run y0 tr1 y1 \<and> timer_run y1 tr2 y"
proof (induction tr2 arbitrary: y rule: rev_induct)
  case Nil
  then show ?case using timer_run.run_nil by auto
next
  case (snoc e tr2)
  from snoc.prems obtain y2 where "timer_run y0 (tr1 @ tr2) y2" "timer_step y2 e y"
    by (cases rule: timer_run.cases) auto
  with snoc.IH timer_run.run_snoc show ?case by blast
qed

section \<open>Properties of the timers\<close>


text \<open>A run for the witnesses: a timer of one second is set at time 0 and fires at two seconds.\<close>

definition demo_timer :: itti_timer where
  "demo_timer = itti_timer_new 0 1 TASK_PGWC_APP 1 0 7 8"

definition demo_mw :: "unit itti_mw" where
  "demo_mw = (itti_mw_init 0)\<lparr>timer_id := 1, timers := [demo_timer]\<rparr>"

definition demo_trace :: "timer_event list" where
  "demo_trace = [Set_timer 1 1000000000, Tau, Tau, Tau]"

lemma demo_setup: "timer_setup 0 1 0 TASK_PGWC_APP 7 8 (itti_mw_init 0) = (1, demo_mw)"
  by (simp add: timer_setup_def increment_timer_id_def itti_mw_init_def demo_mw_def demo_timer_def
      Let_def task_defs itti_timer_new_def)

lemma demo_run:
  "timer_run (itti_sys_init 0) demo_trace
     \<lparr>mw = tm_pick demo_mw, pc = Picked, clock = 2000000000\<rparr>"
proof -
  let ?y0 = "itti_sys_init 0 :: unit itti_sys"
  let ?y1 = "\<lparr>mw = demo_mw, pc = Loop, clock = 0\<rparr>"
  let ?y2 = "\<lparr>mw = demo_mw, pc = Loop, clock = 2000000000\<rparr>"
  let ?y3 = "\<lparr>mw = demo_mw, pc = Idle, clock = 2000000000\<rparr>"
  have "timer_step ?y0 (Set_timer 1 1000000000) ?y1"
    using step_setup [of ?y0 1 0 TASK_PGWC_APP 7 8 1 demo_mw] demo_setup
    by (simp add: itti_sys_init_def ITTI_INVALID_TIMER_ID_def)
  from run_snoc [OF run_nil this] have 1: "timer_run ?y0 [Set_timer 1 1000000000] ?y1" by simp
  have "timer_step ?y1 Tau ?y2" using step_clock [of ?y1 2000000000] by simp
  from run_snoc [OF 1 this] have 2: "timer_run ?y0 [Set_timer 1 1000000000, Tau] ?y2" by simp
  have "timer_step ?y2 Tau ?y3" using step_enter [of ?y2] by (simp add: demo_mw_def itti_mw_init_def)
  from run_snoc [OF 2 this] have 3: "timer_run ?y0 [Set_timer 1 1000000000, Tau, Tau] ?y3" by simp
  have "timer_step ?y3 Tau \<lparr>mw = tm_pick demo_mw, pc = Picked, clock = 2000000000\<rparr>"
    using step_pick [of ?y3] by (simp add: demo_mw_def)
  from run_snoc [OF 3 this] show ?thesis by (simp add: demo_trace_def)
qed

lemma demo_fire:
  "timer_run (itti_sys_init 0) (demo_trace @ [Fired demo_timer 2000000000])
     \<lparr>mw = snd (signal_time_out (tm_pick demo_mw)), pc = Loop, clock = 2000000000\<rparr>"
proof -
  let ?y = "\<lparr>mw = tm_pick demo_mw, pc = Picked, clock = 2000000000\<rparr>"
  have "current_timer (tm_pick demo_mw) = demo_timer" by (simp add: tm_pick_def demo_mw_def)
  then have "timer_step ?y (Fired demo_timer 2000000000)
      \<lparr>mw = snd (signal_time_out (tm_pick demo_mw)), pc = Loop, clock = 2000000000\<rparr>"
    using step_due [of ?y] by (simp add: demo_timer_def itti_timer_new_def)
  from run_snoc [OF demo_run this] show ?thesis .
qed


lemma pending_inj: "timers_ok y \<Longrightarrow> inj_on t_id (pending y)"
  by (auto simp: timers_ok_def pending_def distinct_map inj_on_def)

lemma pending_times_inj:
  assumes "run_inv tr y" and "distinct (map snd (set_times tr))"
  shows "inj_on time_out (pending y)"
proof (rule inj_onI)
  fix t u assume tu: "t \<in> pending y" "u \<in> pending y" "time_out t = time_out u"
  with assms(1) have "(t_id t, time_out t) \<in> set (set_times tr)" "(t_id u, time_out t) \<in> set (set_times tr)"
    by (auto simp: run_inv_def)
  with assms(2) have "t_id t = t_id u" by (metis distinct_map inj_onD prod.inject snd_conv)
  with tu assms(1) pending_inj [of y] show "t = u" by (auto simp: run_inv_def dest: inj_onD)
qed



text \<open>
  the hypothesis on the times is needed. A timer set for the exact time of a pending one is not
  kept, though \<^verbatim>\<open>timer_setup\<close> returns a valid identifier for it: it never fires, and removing it fails.
\<close>

theorem timer_setup_same_time_lost:
  assumes "time_sorted (timers s)" and "u \<in> set (timers s)"
    and "time_out u = now + int (unat sec) * 1000000000 + int (unat usec) * 1000"
    and "TASK_FIRST < task" "task < TASK_MAX" and "timer_id s \<noteq> - 1"
    and "timer_id s + 1 \<notin> t_id ` insert (current_timer s) (set (timers s))"
  shows "\<exists>i s'. timer_setup now sec usec task a1 a2 s = (i, s') \<and> i \<noteq> ITTI_INVALID_TIMER_ID
    \<and> timers s' = timers s \<and> current_timer s' = current_timer s
    \<and> fst (timer_remove i s') = RETURNerror"
proof -
  let ?i = "timer_id s + 1" and ?t = "itti_timer_new now (timer_id s + 1) task sec usec a1 a2"
  let ?s = "s\<lparr>timer_id := ?i, timers := timers_insert ?t (timers s)\<rparr>"
  have same: "timers_insert ?t ts = ts" if "time_sorted ts" "u \<in> set ts" for ts
    using that assms(3) by (induction ts) (auto simp: itti_timer_new_def)
  have "?i \<noteq> ITTI_INVALID_TIMER_ID"
    using assms(6) by (simp add: ITTI_INVALID_TIMER_ID_def eq_neg_iff_add_eq_0)
  moreover have "timer_setup now sec usec task a1 a2 s = (?i, ?s)"
    using assms(4,5) by (simp add: timer_setup_def increment_timer_id_def Let_def) (simp add: itti_timer_new_def)
  moreover have "erase_first ?i ts = None" if "?i \<notin> t_id ` set ts" for ts
    using that by (induction ts) auto
  then have "fst (timer_remove ?i ?s) = RETURNerror"
    using assms(7) same [OF assms(1,2)] by (auto simp: timer_remove_def)
  ultimately show ?thesis using same [OF assms(1,2)] by auto
qed

theorem timer_setup_same_time_lost_witness:
  "\<exists>s'. timer_setup 0 1 0 TASK_SGWC_APP 0 0 demo_mw = (2, s') \<and> timers s' = [demo_timer]"
proof -
  have "\<exists>i s'. timer_setup 0 1 0 TASK_SGWC_APP 0 0 demo_mw = (i, s') \<and> i \<noteq> ITTI_INVALID_TIMER_ID
    \<and> timers s' = timers demo_mw \<and> current_timer s' = current_timer demo_mw
    \<and> fst (timer_remove i s') = RETURNerror"
    by (rule timer_setup_same_time_lost [of demo_mw demo_timer])
      (simp_all add: demo_mw_def demo_timer_def itti_timer_new_def itti_mw_init_def task_defs null_timer_def
        ITTI_INVALID_TIMER_ID_def)
  then show ?thesis
    by (simp add: timer_setup_def increment_timer_id_def task_defs Let_def demo_mw_def itti_timer_new_def)
qed

text \<open>
  A broadcast (the termination message among them) reaches the queue of every ready task exactly
  once and no other queue.
\<close>

theorem terminate_reaches_all:
  "\<exists>m. fst (send_terminate_msg src s) = RETURNok \<and> body m = Terminate_body \<and> destination m = TASK_ALL
     \<and> terminate (snd (send_terminate_msg src s))
     \<and> (\<forall>t. queue_of (snd (send_terminate_msg src s)) t
          = queue_of s t @ (if t < TASK_MAX \<and> task_ready s t then [m] else []))"
proof -
  obtain m s1 where new: "itti_msg_new Terminate_body src TASK_ALL s = (m, s1)" by fastforce
  then have m: "destination m = TASK_ALL" "body m = Terminate_body"
    by (auto simp: itti_msg_new_def increment_message_number_def)
  have "terminate (broadcast_loop ts m x) = terminate x" for ts x
    by (induction ts arbitrary: x) (auto split: option.splits)
  then have "terminate (snd (send_terminate_msg src s))" "fst (send_terminate_msg src s) = RETURNok"
    using new m by (simp_all add: send_terminate_msg_def send_broadcast_msg_def)
  with m send_terminate_queue [OF new] show ?thesis by (auto simp: addressed_def)
qed

section \<open>What the protocol stacks rely on\<close>

text \<open>
  The stacks keep tables indexed by timer identifiers. They rely on \<^verbatim>\<open>timer_setup\<close> returning a new,
  valid identifier each time, which it does until the 32-bit counter wraps; \<open>issued\<close> counts the timers
  set up so far.
\<close>

locale timer_service =
  fixes set_up :: "time_point \<Rightarrow> u32 \<Rightarrow> u32 \<Rightarrow> task_id \<Rightarrow> u64 \<Rightarrow> u64 \<Rightarrow> 's \<Rightarrow> timer_id \<times> 's"
    and remove :: "timer_id \<Rightarrow> 's \<Rightarrow> int \<times> 's"
    and issued :: "'s \<Rightarrow> nat"
  assumes setup_next: "TASK_FIRST < task \<Longrightarrow> task < TASK_MAX \<Longrightarrow> issued s < 2 ^ 32 - 1 \<Longrightarrow>
      set_up now sec usec task a1 a2 s = (i, s') \<Longrightarrow> unat i = Suc (issued s) \<and> issued s' = Suc (issued s)"
    and remove_issued: "issued (snd (remove i s)) = issued s"
begin

definition known :: "(timer_id \<rightharpoonup> 'v) \<Rightarrow> 's \<Rightarrow> bool" where
  "known m s \<longleftrightarrow> dom m \<subseteq> {k. 0 < unat k \<and> unat k \<le> issued s}"

lemma setup_valid:
  assumes "TASK_FIRST < task" "task < TASK_MAX" "issued s < 2 ^ 32 - 1"
    "set_up now sec usec task a1 a2 s = (i, s')"
  shows "i \<noteq> ITTI_INVALID_TIMER_ID"
  using setup_next [OF assms] by (auto simp: ITTI_INVALID_TIMER_ID_def)

lemma setup_fresh:
  assumes "TASK_FIRST < task" "task < TASK_MAX" "issued s < 2 ^ 32 - 1"
    "set_up now sec usec task a1 a2 s = (i, s')" and "known m s"
  shows "m i = None" and "known m s'" and "known (map_insert m i v) s'"
proof -
  note n = setup_next [OF assms(1-4)]
  show "m i = None"
  proof (rule ccontr)
    assume "m i \<noteq> None"
    then have "i \<in> dom m" by (simp add: domIff)
    with assms(5) have "unat i \<le> issued s" unfolding known_def by blast
    with n show False by simp
  qed
  have "{k. 0 < unat k \<and> unat k \<le> issued s} \<subseteq> {k. 0 < unat k \<and> unat k \<le> issued s'}" using n by auto
  with assms(5) show known: "known m s'" unfolding known_def by (rule subset_trans)
  with n show "known (map_insert m i v) s'" unfolding known_def by simp
qed

lemma known_erase: "known m s \<Longrightarrow> known (map_erase m k) s"
  unfolding known_def by (simp add: subset_iff)

lemma known_remove: "known m s \<Longrightarrow> known m (snd (remove i s))"
  by (simp add: known_def remove_issued)

lemma known_empty: "known Map.empty s"
  by (simp add: known_def)

end

lemma timer_setup_issued:
  assumes "TASK_FIRST < task" "task < TASK_MAX" "unat (timer_id s) < 2 ^ 32 - 1"
    and "timer_setup now sec usec task a1 a2 s = (i, s')"
  shows "unat i = Suc (unat (timer_id s)) \<and> unat (timer_id s') = Suc (unat (timer_id s))"
proof -
  have "i = timer_id s + 1 \<and> timer_id s' = timer_id s + 1"
    using assms by (auto simp: timer_setup_def increment_timer_id_def itti_timer_new_def Let_def)
  moreover have "unat (timer_id s + 1) = Suc (unat (timer_id s))"
    using assms(3) by (simp add: unat_word_ariths)
  ultimately show ?thesis by simp
qed

interpretation itti_timers: timer_service timer_setup timer_remove "\<lambda>s. unat (timer_id s)"
proof
  fix task now sec usec a1 a2 i and s s' :: "'a itti_mw"
  assume "TASK_FIRST < task" "task < TASK_MAX" "unat (timer_id s) < 2 ^ 32 - 1"
    "timer_setup now sec usec task a1 a2 s = (i, s')"
  then show "unat i = Suc (unat (timer_id s)) \<and> unat (timer_id s') = Suc (unat (timer_id s))"
    by (rule timer_setup_issued)
next
  fix i and s :: "'a itti_mw"
  show "unat (timer_id (snd (timer_remove i s))) = unat (timer_id s)"
    by (simp add: timer_remove_def split: option.split)
qed

end
