(* ===== verification/Id_Source.thy ===== *)
theory Id_Source
  imports Prelude
begin

text \<open>
  The contract between a client and an allocator of identifiers, which several components of the
  gateway provide: the generators of \<^verbatim>\<open>uint_generator.hpp\<close>, the IPv4 address pools of
  \<^verbatim>\<open>pgw_paa_dynamic.hpp\<close> and the TEID sets of \<^verbatim>\<open>pgw_app\<close> and \<^verbatim>\<open>sgwc_app\<close>. \<open>managed_ids\<close> is the
  general interface, with an invariant of the allocator and the finite or infinite universe it
  draws from; \<open>id_source\<close> is the stronger contract of an allocator without an invariant that
  tolerates the return of any identifier. The lemmas of the two locales are proved once here and
  reach the components through their interpretations.
\<close>

section \<open>Sequences of calls\<close>

datatype 'i id_op = Get | Free 'i

text \<open>
  A client's sequence of calls. The list kept beside the state holds the identifiers the client
  was handed and has not given back, one entry per hand-out.
\<close>

fun run_ids :: "('s \<Rightarrow> ('i \<times> 's) option) \<Rightarrow> ('i \<Rightarrow> 's \<Rightarrow> 's) \<Rightarrow> 'i id_op list \<Rightarrow>
    'i list \<times> 's \<Rightarrow> ('i list \<times> 's) option" where
  "run_ids get free [] ls = Some ls"
| "run_ids get free (Get # ops) (l, s) =
     (case get s of None \<Rightarrow> None | Some (i, s') \<Rightarrow> run_ids get free ops (i # l, s'))"
| "run_ids get free (Free i # ops) (l, s) = run_ids get free ops (removeAll i l, free i s)"

fun n_gets :: "'i id_op list \<Rightarrow> nat" where
  "n_gets [] = 0"
| "n_gets (Get # ops) = Suc (n_gets ops)"
| "n_gets (Free i # ops) = n_gets ops"

text \<open>
  A client that gives back only what it holds: the step of giving back an identifier it does not
  hold is not one of its runs (\<^const>\<open>None\<close>), nor is a request the allocator refuses.
\<close>

fun run_held :: "('s \<Rightarrow> ('i \<times> 's) option) \<Rightarrow> ('i \<Rightarrow> 's \<Rightarrow> 's) \<Rightarrow> 'i id_op list \<Rightarrow>
    'i list \<times> 's \<Rightarrow> ('i list \<times> 's) option" where
  "run_held get free [] ls = Some ls"
| "run_held get free (Get # ops) (l, s) =
     (case get s of None \<Rightarrow> None | Some (i, s') \<Rightarrow> run_held get free ops (i # l, s'))"
| "run_held get free (Free i # ops) (l, s) =
     (if i \<in> set l then run_held get free ops (removeAll i l, free i s) else None)"

section \<open>Allocators with an invariant\<close>

locale managed_ids =
  fixes get :: "'s \<Rightarrow> ('i \<times> 's) option"
    and free :: "'i \<Rightarrow> 's \<Rightarrow> 's"
    and used :: "'s \<Rightarrow> 'i set"
    and univ :: "'s \<Rightarrow> 'i set"
    and inv :: "'s \<Rightarrow> bool"
  assumes get_new: "inv s \<Longrightarrow> get s = Some (i, s') \<Longrightarrow> i \<in> univ s - used s"
    and get_state: "inv s \<Longrightarrow> get s = Some (i, s') \<Longrightarrow>
        inv s' \<and> used s' = insert i (used s) \<and> univ s' = univ s"
    and free_state: "inv s \<Longrightarrow> i \<in> used s \<Longrightarrow>
        inv (free i s) \<and> used (free i s) = used s - {i} \<and> univ (free i s) = univ s"
    and get_refuses: "inv s \<Longrightarrow> get s = None \<Longrightarrow> univ s \<subseteq> used s"
begin

lemma run_held_live:
  "run_held get free ops (l, s) = Some (l', s') \<Longrightarrow> inv s \<Longrightarrow> distinct l \<Longrightarrow> set l = used s \<Longrightarrow>
     set l \<subseteq> univ s \<Longrightarrow>
     inv s' \<and> distinct l' \<and> set l' = used s' \<and> set l' \<subseteq> univ s \<and> univ s' = univ s"
proof (induction ops arbitrary: l s)
  case Nil
  then show ?case by simp
next
  case (Cons op ops)
  show ?case
  proof (cases op)
    case Get
    with Cons.prems(1) obtain i t where i: "get s = Some (i, t)"
      and r: "run_held get free ops (i # l, t) = Some (l', s')"
      by (auto split: option.splits)
    note new = get_new [OF Cons.prems(2) i] and st = get_state [OF Cons.prems(2) i]
    from new st Cons.prems have "distinct (i # l)" "set (i # l) = used t" "set (i # l) \<subseteq> univ t"
      by auto
    with Cons.IH [OF r] st show ?thesis by auto
  next
    case (Free i)
    with Cons.prems(1) have i: "i \<in> set l"
      and r: "run_held get free ops (removeAll i l, free i s) = Some (l', s')"
      by (auto split: if_splits)
    from i Cons.prems(2,4) have st: "inv (free i s) \<and> used (free i s) = used s - {i}
        \<and> univ (free i s) = univ s" by (intro free_state) auto
    with Cons.prems have "distinct (removeAll i l)" "set (removeAll i l) = used (free i s)"
      "set (removeAll i l) \<subseteq> univ (free i s)"
      by (auto simp: distinct_removeAll)
    with Cons.IH [OF r] st show ?thesis by auto
  qed
qed

lemma get_succeeds:
  assumes "inv s" and "i \<in> univ s" and "i \<notin> used s"
  shows "\<exists>j s'. get s = Some (j, s')"
  using get_refuses [OF assms(1)] assms(2,3) by (cases "get s") auto

end

section \<open>Allocators that tolerate any return\<close>

locale id_source =
  fixes get :: "'s \<Rightarrow> ('i \<times> 's) option"
    and free :: "'i \<Rightarrow> 's \<Rightarrow> 's"
    and used :: "'s \<Rightarrow> 'i set"
  assumes get_fresh: "get s = Some (i, s') \<Longrightarrow> i \<notin> used s"
    and get_used: "get s = Some (i, s') \<Longrightarrow> used s' = insert i (used s)"
    and free_used: "used (free i s) = used s - {i}"
    and get_total: "used s \<noteq> UNIV \<Longrightarrow> \<exists>i s'. get s = Some (i, s')"
begin

lemma run_live:
  "run_ids get free ops (l, s) = Some (l', s') \<Longrightarrow> distinct l \<Longrightarrow> set l = used s \<Longrightarrow>
     distinct l' \<and> set l' = used s'"
proof (induction ops arbitrary: l s)
  case Nil
  then show ?case by simp
next
  case (Cons op ops)
  show ?case
  proof (cases op)
    case Get
    with Cons.prems(1) obtain i t where i: "get s = Some (i, t)"
      and r: "run_ids get free ops (i # l, t) = Some (l', s')"
      by (auto split: option.splits)
    from get_fresh [OF i] get_used [OF i] Cons.prems(2,3)
    have "distinct (i # l)" "set (i # l) = used t" by auto
    with Cons.IH [OF r] show ?thesis by blast
  next
    case (Free i)
    with Cons.prems(1) have r: "run_ids get free ops (removeAll i l, free i s) = Some (l', s')"
      by simp
    from Cons.prems(2,3) have "distinct (removeAll i l)" "set (removeAll i l) = used (free i s)"
      by (auto simp: free_used distinct_removeAll)
    with Cons.IH [OF r] show ?thesis by blast
  qed
qed

lemma run_total:
  "finite (used s) \<Longrightarrow> card (used s) + n_gets ops < card (UNIV :: 'i set) \<Longrightarrow>
     \<exists>r. run_ids get free ops (l, s) = Some r"
proof (induction ops arbitrary: l s)
  case Nil
  then show ?case by simp
next
  case (Cons op ops)
  show ?case
  proof (cases op)
    case Get
    with Cons.prems(2) have "used s \<noteq> UNIV" by auto
    then obtain i t where i: "get s = Some (i, t)" using get_total by blast
    have "finite (used t)" "card (used t) = Suc (card (used s))"
      using get_used [OF i] get_fresh [OF i] Cons.prems(1) by auto
    moreover from this Cons.prems(2) Get
    have "card (used t) + n_gets ops < card (UNIV :: 'i set)" by simp
    ultimately show ?thesis using Cons.IH i Get by simp
  next
    case (Free i)
    have "card (used s - {i}) \<le> card (used s)"
      using Cons.prems(1) by (intro card_mono) auto
    with Cons.prems Free have "finite (used (free i s))"
      "card (used (free i s)) + n_gets ops < card (UNIV :: 'i set)"
      by (auto simp: free_used)
    with Cons.IH Free show ?thesis by simp
  qed
qed

end

sublocale id_source \<subseteq> managed_ids get free used "\<lambda>_. UNIV" "\<lambda>_. True"
proof
  fix s
  assume "get s = None"
  then show "UNIV \<subseteq> used s" using get_total [of s] by auto
qed (auto simp: get_fresh get_used free_used)

end
