(* ===== verification/Uid_Generator.thy ===== *)
theory Uid_Generator
  imports Id_Source
begin

text \<open>
  The identifier generators of \<^verbatim>\<open>common/utils/uint_generator.hpp\<close>: \<^verbatim>\<open>uint_generator\<close> (one per
  PDN connection, for PDR and FAR identifiers) and the singleton \<^verbatim>\<open>uint_uid_generator\<close> (GTP-C
  and PFCP transaction identifiers). The two classes have the same state and the same bodies.
  The state is the counter and the set of identifiers in use, over a word of any width
  (\<^verbatim>\<open>template<class UINT>\<close>). Both classes are interpretations of the interface \<open>id_source\<close>.
\<close>

section \<open>State and operations\<close>

record 'u uint_generator =
  uid_generator :: 'u
  uid_generated :: "'u set"

definition uint_generator_init :: "('w::len) word uint_generator" where
  "uint_generator_init = \<lparr>uid_generator = 0, uid_generated = {}\<rparr>"

text \<open>
  The loop of \<^verbatim>\<open>get_uid\<close>: \<^verbatim>\<open>uid\<close> is the candidate. When every value of the type is in use the
  loop does not end, and the result is \<^const>\<open>None\<close>.
\<close>

partial_function (option) get_uid_loop ::
    "('w::len) word \<Rightarrow> 'w word uint_generator \<Rightarrow> ('w word \<times> 'w word uint_generator) option" where
  "get_uid_loop uid g =
     (if uid \<notin> uid_generated g
      then Some (uid, g\<lparr>uid_generated := insert uid (uid_generated g)\<rparr>)
      else get_uid_loop (uid_generator g + 1) (g\<lparr>uid_generator := uid_generator g + 1\<rparr>))"

definition get_uid ::
    "('w::len) word uint_generator \<Rightarrow> ('w word \<times> 'w word uint_generator) option" where
  "get_uid g =
     (let uid = uid_generator g + 1 in get_uid_loop uid (g\<lparr>uid_generator := uid\<rparr>))"

definition free_uid :: "('w::len) word \<Rightarrow> 'w word uint_generator \<Rightarrow> 'w word uint_generator" where
  "free_uid uid g = g\<lparr>uid_generated := uid_generated g - {uid}\<rparr>"

text \<open>The singleton class repeats the state and the two bodies (it releases its two mutexes in
  the other order).\<close>

definition uint_uid_generator_init :: "('w::len) word uint_generator" where
  "uint_uid_generator_init = \<lparr>uid_generator = 0, uid_generated = {}\<rparr>"

definition uint_uid_get_uid ::
    "('w::len) word uint_generator \<Rightarrow> ('w word \<times> 'w word uint_generator) option" where
  "uint_uid_get_uid g =
     (let uid = uid_generator g + 1 in get_uid_loop uid (g\<lparr>uid_generator := uid\<rparr>))"

definition uint_uid_free_uid :: "('w::len) word \<Rightarrow> 'w word uint_generator \<Rightarrow> 'w word uint_generator" where
  "uint_uid_free_uid uid g = g\<lparr>uid_generated := uid_generated g - {uid}\<rparr>"

lemma uint_uid_eq:
  "uint_uid_get_uid = get_uid" "uint_uid_free_uid = free_uid"
  "uint_uid_generator_init = uint_generator_init"
  by (auto simp: fun_eq_iff uint_uid_get_uid_def get_uid_def uint_uid_free_uid_def
      free_uid_def uint_uid_generator_init_def uint_generator_init_def)

section \<open>The generators implement the interface\<close>

lemma get_uid_loop_Some:
  assumes ret: "get_uid_loop uid g = Some r"
  shows "fst r \<notin> uid_generated g \<and> uid_generated (snd r) = insert (fst r) (uid_generated g)"
proof (rule get_uid_loop.raw_induct
    [where P = "\<lambda>uid g r. fst r \<notin> uid_generated g
        \<and> uid_generated (snd r) = insert (fst r) (uid_generated g)", OF _ ret])
  fix f :: "'a word \<Rightarrow> 'a word uint_generator \<Rightarrow> ('a word \<times> 'a word uint_generator) option"
    and uid g r
  assume IH: "\<And>uid g r. f uid g = Some r \<Longrightarrow>
      fst r \<notin> uid_generated g \<and> uid_generated (snd r) = insert (fst r) (uid_generated g)"
    and eq: "(if uid \<notin> uid_generated g
      then Some (uid, g\<lparr>uid_generated := insert uid (uid_generated g)\<rparr>)
      else f (uid_generator g + 1) (g\<lparr>uid_generator := uid_generator g + 1\<rparr>)) = Some r"
  show "fst r \<notin> uid_generated g \<and> uid_generated (snd r) = insert (fst r) (uid_generated g)"
  proof (cases "uid \<notin> uid_generated g")
    case True
    with eq show ?thesis by auto
  next
    case False
    with eq IH show ?thesis by fastforce
  qed
qed

lemma get_uid_loop_first:
  "uid = uid_generator g \<Longrightarrow> uid + of_nat k \<notin> uid_generated g \<Longrightarrow>
     (\<And>j. j < k \<Longrightarrow> uid + of_nat j \<in> uid_generated g) \<Longrightarrow>
     get_uid_loop uid g = Some (uid + of_nat k,
       \<lparr>uid_generator = uid + of_nat k,
        uid_generated = insert (uid + of_nat k) (uid_generated g)\<rparr>)"
proof (induction k arbitrary: uid g)
  case 0
  then show ?case by (simp add: get_uid_loop.simps)
next
  case (Suc k)
  let ?g = "g\<lparr>uid_generator := uid_generator g + 1\<rparr>"
  have "uid \<in> uid_generated g" using Suc.prems(3) [of 0] by simp
  then have "get_uid_loop uid g = get_uid_loop (uid + 1) ?g"
    using Suc.prems(1) by (subst get_uid_loop.simps) simp
  also have "\<dots> = Some (uid + 1 + of_nat k, \<lparr>uid_generator = uid + 1 + of_nat k,
      uid_generated = insert (uid + 1 + of_nat k) (uid_generated ?g)\<rparr>)"
  proof (rule Suc.IH)
    show "uid + 1 = uid_generator ?g" using Suc.prems(1) by simp
    show "uid + 1 + of_nat k \<notin> uid_generated ?g"
      using Suc.prems(2) by (simp add: algebra_simps)
    show "uid + 1 + of_nat j \<in> uid_generated ?g" if "j < k" for j
      using Suc.prems(3) [of "Suc j"] that by (simp add: algebra_simps)
  qed
  finally show ?case by (simp add: algebra_simps)
qed

lemma first_free:
  fixes u :: "'w::len word"
  assumes "A \<noteq> UNIV"
  obtains k where "k < 2 ^ LENGTH('w)" "u + of_nat k \<notin> A" "\<And>j. j < k \<Longrightarrow> u + of_nat j \<in> A"
proof -
  from assms obtain w where "w \<notin> A" by auto
  moreover obtain k where "k < 2 ^ LENGTH('w)" "w = u + of_nat k" using word_reach by blast
  ultimately have ex: "\<exists>k. u + of_nat k \<notin> A" and "u + of_nat k \<notin> A" by auto
  then have "(LEAST k. u + of_nat k \<notin> A) \<le> k" by (auto intro: Least_le)
  with \<open>k < 2 ^ LENGTH('w)\<close> show ?thesis
    using that [of "LEAST k. u + of_nat k \<notin> A"] LeastI_ex [OF ex] not_less_Least by fastforce
qed

lemma get_uid_total:
  assumes "uid_generated g \<noteq> UNIV"
  shows "\<exists>i g'. get_uid g = Some (i, g')"
proof -
  obtain k where "uid_generator g + 1 + of_nat k \<notin> uid_generated g"
    "\<And>j. j < k \<Longrightarrow> uid_generator g + 1 + of_nat j \<in> uid_generated g"
    using first_free [OF assms, of "uid_generator g + 1"] by blast
  then show ?thesis
    unfolding get_uid_def Let_def by (subst get_uid_loop_first [of _ _ k]) auto
qed

interpretation ug: id_source get_uid free_uid uid_generated
proof
  fix s :: "'w::len word uint_generator" and i s'
  assume "get_uid s = Some (i, s')"
  then show "i \<notin> uid_generated s" "uid_generated s' = insert i (uid_generated s)"
    by (auto simp: get_uid_def Let_def dest: get_uid_loop_Some)
next
  fix i :: "'w::len word" and s
  show "uid_generated (free_uid i s) = uid_generated s - {i}" by (simp add: free_uid_def)
next
  fix s :: "'w::len word uint_generator"
  assume "uid_generated s \<noteq> UNIV"
  then show "\<exists>i s'. get_uid s = Some (i, s')" by (rule get_uid_total)
qed

interpretation uug: id_source uint_uid_get_uid uint_uid_free_uid uid_generated
  unfolding uint_uid_eq by unfold_locales

section \<open>Properties\<close>

text \<open>
  C9: identifiers handed out by a generator and not yet given back are pairwise distinct, and
  they are exactly the ones the generator records, whatever the sequence of \<^verbatim>\<open>get_uid\<close> and
  \<^verbatim>\<open>free_uid\<close> calls since its construction.
\<close>

theorem uid_live_distinct:
  fixes g :: "('w::len) word uint_generator"
  assumes "run_ids get_uid free_uid ops ([], uint_generator_init) = Some (l, g)"
  shows "distinct l \<and> set l = uid_generated g"
  using ug.run_live [OF assms] by (simp add: uint_generator_init_def)

theorem uid_live_distinct_witness:
  "run_ids get_uid free_uid [Get, Get, Free 1, Get] ([], uint_generator_init)
     = Some ([3, 2], \<lparr>uid_generator = 3, uid_generated = {2, 3}\<rparr> :: 16 word uint_generator)
   \<and> distinct [3, 2 :: 16 word] \<and> set [3, 2] = {2, 3 :: 16 word}"
proof -
  have h: "run_ids get_uid free_uid [Get, Get, Free 1, Get] ([], uint_generator_init)
      = Some ([3, 2], \<lparr>uid_generator = 3, uid_generated = {2, 3}\<rparr> :: 16 word uint_generator)"
    by (simp add: get_uid_def free_uid_def uint_generator_init_def get_uid_loop.simps insert_commute)
  show ?thesis using h uid_live_distinct [OF h] by simp
qed

text \<open>
  the loop of \<^verbatim>\<open>get_uid\<close> ends exactly when some value of the type is free; it then returns
  the first free value after the counter, going round at the end of the type, records it and
  leaves the counter on it. With every value in use the call never returns.
\<close>

theorem get_uid_first_free:
  fixes g :: "('w::len) word uint_generator"
  shows "(get_uid g = None \<longleftrightarrow> uid_generated g = UNIV)
    \<and> (\<forall>i g'. get_uid g = Some (i, g') \<longleftrightarrow>
          (\<exists>k < 2 ^ LENGTH('w). i = uid_generator g + 1 + of_nat k \<and> i \<notin> uid_generated g
             \<and> {j. j < k \<and> uid_generator g + 1 + of_nat j \<notin> uid_generated g} = {}
             \<and> g' = \<lparr>uid_generator = i, uid_generated = insert i (uid_generated g)\<rparr>))"
    (is "?A \<and> (\<forall>i g'. ?L i g' \<longleftrightarrow> ?R i g')")
proof (intro conjI allI)
  have full: "uid_generated g = UNIV \<Longrightarrow> get_uid g = None"
    using ug.get_fresh [of g] by (cases "get_uid g") auto
  with get_uid_total show ?A by fastforce
  fix i g'
  have run: "get_uid g = Some (i, g')" if "?R i g'" for i g'
    using that unfolding get_uid_def Let_def
    by (elim exE conjE, subst get_uid_loop_first) auto
  show "?L i g' \<longleftrightarrow> ?R i g'"
  proof
    assume L: "?L i g'"
    with full have "uid_generated g \<noteq> UNIV" by auto
    then obtain k where k: "k < 2 ^ LENGTH('w)"
      "uid_generator g + 1 + of_nat k \<notin> uid_generated g"
      "\<And>j. j < k \<Longrightarrow> uid_generator g + 1 + of_nat j \<in> uid_generated g"
      using first_free by metis
    let ?i = "uid_generator g + 1 + of_nat k"
    have R: "?R ?i \<lparr>uid_generator = ?i, uid_generated = insert ?i (uid_generated g)\<rparr>"
      using k by blast
    from run [OF R] L R show "?R i g'" by simp
  qed (rule run)
qed

text \<open>
  a client that makes fewer calls of \<^verbatim>\<open>get_uid\<close> than the type has values is always served:
  every call of the sequence returns.
\<close>

theorem uid_run_returns:
  assumes "n_gets ops < 2 ^ LENGTH('w::len)"
  shows "\<exists>r. run_ids uint_uid_get_uid uint_uid_free_uid ops
      ([], uint_uid_generator_init :: 'w word uint_generator) = Some r"
proof (rule uug.run_total)
  show "finite (uid_generated (uint_uid_generator_init :: 'w word uint_generator))" by simp
  show "card (uid_generated (uint_uid_generator_init :: 'w word uint_generator)) + n_gets ops
      < card (UNIV :: 'w word set)"
    using assms by (simp add: uint_uid_generator_init_def card_word_UNIV)
qed

theorem uid_run_returns_witness:
  "n_gets [Get, Get, Free 1, Get :: 64 word id_op] < 2 ^ LENGTH(64)
   \<and> (\<exists>r. run_ids uint_uid_get_uid uint_uid_free_uid [Get, Get, Free 1, Get]
      ([], uint_uid_generator_init :: 64 word uint_generator) = Some r)"
proof -
  have h: "n_gets [Get, Get, Free 1, Get :: 64 word id_op] < 2 ^ LENGTH(64)" by simp
  show ?thesis using h uid_run_returns [OF h] by blast
qed

end
