(* ===== verification/Transport.thy ===== *)
theory Transport
  imports Itti Uid_Generator
begin

text \<open>
  What the two protocol stacks share: the address of a peer (\<^verbatim>\<open>common/endpoint.hpp\<close>), the cause they
  report for a silent peer, and the arithmetic of their sequence counters.
\<close>

record endpoint =
  addr_storage :: bytes
  addr_storage_len :: nat

definition endpoint_default :: endpoint where
  "endpoint_default = \<lparr>addr_storage = replicate 128 0, addr_storage_len = 128\<rparr>"

definition REMOTE_PEER_NOT_RESPONDING :: u8 where "REMOTE_PEER_NOT_RESPONDING = 100"

abbreviation valid_task :: "task_id \<Rightarrow> bool" where
  "valid_task task \<equiv> TASK_FIRST < task \<and> task < TASK_MAX"

text \<open>The counter of the sequence numbers is reset when its bit 31 is set.\<close>

lemma next_seq_unat:
  fixes w :: u32
  assumes "unat w < 2 ^ 31"
  shows "unat (if (w + 1) AND 0x80000000 \<noteq> 0 then 0 else w + 1) = (unat w + 1) mod 2 ^ 31"
proof -
  have w1: "unat (w + 1) = unat w + 1" using assms by (simp add: unat_word_ariths)
  have "(w + 1) AND 0x80000000 = 0 \<longleftrightarrow> \<not> bit (w + 1) 31"
    using and_exp_eq_0_iff_not_bit [of "w + 1" 31] by simp
  also have "bit (w + 1) 31 \<longleftrightarrow> odd (unat (w + 1) div 2 ^ 31)"
    using bit_iff_odd [of "unat (w + 1)" 31] by (simp only: bit_unsigned_iff) simp
  also have "\<dots> \<longleftrightarrow> unat w + 1 = 2 ^ 31"
  proof (cases "unat w + 1 = 2 ^ 31")
    case True
    then show ?thesis by (simp only: w1) simp
  next
    case False
    with assms have "(unat w + 1) div 2 ^ 31 = 0" by (intro div_less) simp
    with False w1 show ?thesis by simp
  qed
  finally show ?thesis using assms w1 by auto
qed

end
