(* ===== verification/Gtp_Types.thy ===== *)
theory Gtp_Types
  imports Prelude
begin

text \<open>
  The values of \<^verbatim>\<open>common/3gpp_29.274.h\<close> that more than one component uses: the PDN types
  (\<^verbatim>\<open>pdn_type_e\<close>; other values of the byte are possible).
\<close>

definition PDN_TYPE_E_IPV4 :: u8 where "PDN_TYPE_E_IPV4 = 1"
definition PDN_TYPE_E_IPV6 :: u8 where "PDN_TYPE_E_IPV6 = 2"
definition PDN_TYPE_E_IPV4V6 :: u8 where "PDN_TYPE_E_IPV4V6 = 3"
definition PDN_TYPE_E_NON_IP :: u8 where "PDN_TYPE_E_NON_IP = 4"

lemmas pdn_type_defs =
  PDN_TYPE_E_IPV4_def PDN_TYPE_E_IPV6_def PDN_TYPE_E_IPV4V6_def PDN_TYPE_E_NON_IP_def

end
