(* ===== verification/Paa_Dynamic.thy ===== *)
theory Paa_Dynamic
  imports Id_Source Gtp_Types
begin

text \<open>
  PDN address allocation (\<^verbatim>\<open>oai_spgwc/pgw_paa_dynamic.hpp\<close>): the bitmap pools of IPv4 addresses,
  the IPv6 prefix pools, and the singleton \<^verbatim>\<open>paa_dynamic\<close> that maps an APN to its pools, with the
  start-up code of \<^verbatim>\<open>pgw_app::apply_config\<close> that fills it. Addresses are kept as the code keeps
  them, in network byte order. The bitmap is the \<^verbatim>\<open>std::map<int, uint32_t>\<close> of the code; reading
  an absent word of it inserts one. Pools are assumed to have fewer than $2^{31}$ addresses, so
  that the \<^verbatim>\<open>int\<close> bit positions do not overflow.
\<close>

section \<open>IPv6 prefix pools\<close>

type_synonym in6_addr = "128 word"

record ipv6_pool =
  prefix :: in6_addr
  prefix_len :: int

definition ipv6_pool_default :: ipv6_pool where
  "ipv6_pool_default = \<lparr>prefix = 0, prefix_len = 0\<rparr>"

definition ipv6_alloc_address :: "ipv6_pool \<Rightarrow> bool \<times> in6_addr" where
  "ipv6_alloc_address p = (True, prefix p)"

section \<open>IPv4 address pools\<close>

record ipv4_pool =
  start :: u32
  num :: int
  alloc :: "(int \<times> u32) list"

definition ipv4_pool_default :: ipv4_pool where
  "ipv4_pool_default = \<lparr>start = 0, num = 0, alloc = []\<rparr>"

definition ipv4_pool_new :: "u32 \<Rightarrow> u32 \<Rightarrow> ipv4_pool" where
  "ipv4_pool_new first rng =
     (let range32 = unat (drop_bit 5 rng);
          rest = unat (rng AND 0x1F);
          al = foldl (\<lambda>m i. smap_assign m (int i) 0) [] [0..<range32]
      in \<lparr>start = first, num = sint rng,
          alloc = (if rest \<noteq> 0 then smap_assign al (int range32) (push_bit rest (- 1)) else al)\<rparr>)"

text \<open>The inner loop of \<^verbatim>\<open>alloc_free_bit\<close>: the position of the first clear bit.\<close>

function first_clear :: "u32 \<Rightarrow> nat \<Rightarrow> nat" where
  "first_clear w pos = (if bit w pos then first_clear w (Suc pos) else pos)"
  by pat_completeness auto
termination
  by (relation "measure (\<lambda>(w, pos). 32 - pos)") (auto dest: bit_imp_le_length)

declare first_clear.simps [simp del]

text \<open>
  The outer loop. \<^verbatim>\<open>alloc[i]\<close> may insert an empty word; the map then has one more element, but the
  word is not full, so the loop ends there.
\<close>

function alloc_free_bit_loop :: "int \<Rightarrow> int \<Rightarrow> (int \<times> u32) list \<Rightarrow> bool \<times> int \<times> (int \<times> u32) list" where
  "alloc_free_bit_loop i bit_pos al =
     (if i < int (length al)
      then (let (w, al') = smap_index 0 al i in
            if w \<noteq> - 1
            then (let pos = first_clear w 0 in
                  (True, bit_pos + int pos, smap_assign al' i (set_bit pos w)))
            else alloc_free_bit_loop (i + 1) (bit_pos + 32) al')
      else (False, bit_pos, al))"
  by pat_completeness auto
termination
  by (relation "measure (\<lambda>(i, bit_pos, al). nat (int (length al) - i))")
    (auto simp: smap_index_def split: option.splits)

declare alloc_free_bit_loop.simps [simp del]

definition alloc_free_bit :: "ipv4_pool \<Rightarrow> bool \<times> int \<times> ipv4_pool" where
  "alloc_free_bit p =
     (case alloc_free_bit_loop 0 0 (alloc p) of (ok, pos, al) \<Rightarrow> (ok, pos, p\<lparr>alloc := al\<rparr>))"

definition alloc_address :: "ipv4_pool \<Rightarrow> bool \<times> u32 \<times> ipv4_pool" where
  "alloc_address p =
     (case alloc_free_bit p of
        (True, bit_pos, p') \<Rightarrow> (True, htobe32 (be32toh (start p) + of_int bit_pos), p')
      | (False, _, p') \<Rightarrow> (False, 0, p'))"

text \<open>\<^verbatim>\<open>bit_pos >> 5\<close> and \<^verbatim>\<open>bit_pos & 0x1F\<close> on a two's complement \<^verbatim>\<open>int\<close>.\<close>

definition free_bit :: "int \<Rightarrow> ipv4_pool \<Rightarrow> bool \<times> ipv4_pool" where
  "free_bit bit_pos p =
     (if bit_pos < num p
      then (let bit_pos32 = bit_pos div 32;
                word_bit_pos = nat (bit_pos mod 32);
                (w, al) = smap_index 0 (alloc p) bit_pos32
            in (True, p\<lparr>alloc := smap_assign al bit_pos32 (unset_bit word_bit_pos w)\<rparr>))
      else (False, p))"

definition in_pool :: "u32 \<Rightarrow> ipv4_pool \<Rightarrow> bool outcome" where
  "in_pool a p =
     (let addr_start = sint (be32toh (start p)); addr = sint (be32toh a)
      in case int32 (addr - addr_start) of Inl e \<Rightarrow> Inl e | Inr d \<Rightarrow> Inr (d < num p))"

definition free_address :: "u32 \<Rightarrow> ipv4_pool \<Rightarrow> (bool \<times> ipv4_pool) outcome" where
  "free_address a p =
     (case in_pool a p of
        Inl e \<Rightarrow> Inl e
      | Inr True \<Rightarrow> Inr (free_bit (sint (be32toh a - be32toh (start p))) p)
      | Inr False \<Rightarrow> Inr (False, p))"

section \<open>The pools of the APNs\<close>

record apn_dynamic_pools =
  ipv4_pool_ids :: "u32 list"
  ipv6_pool_ids :: "u32 list"

record paa_dynamic =
  ipv4_pools :: "u32 \<rightharpoonup> ipv4_pool"
  ipv6_pools :: "u32 \<rightharpoonup> ipv6_pool"
  apns :: "string \<rightharpoonup> apn_dynamic_pools"

definition paa_dynamic_init :: paa_dynamic where
  "paa_dynamic_init = \<lparr>ipv4_pools = Map.empty, ipv6_pools = Map.empty, apns = Map.empty\<rparr>"

text \<open>\<^verbatim>\<open>paa_t\<close>.\<close>

record paa =
  pdn_type :: u8
  ipv6_prefix_length :: u8
  ipv6_address :: in6_addr
  ipv4_address :: u32

definition is_ip_assigned :: "paa \<Rightarrow> bool" where
  "is_ip_assigned p =
     (if pdn_type p = PDN_TYPE_E_IPV4 then ipv4_address p \<noteq> 0
      else if pdn_type p = PDN_TYPE_E_IPV6 then ipv6_address p \<noteq> 0
      else if pdn_type p = PDN_TYPE_E_IPV4V6 then ipv4_address p \<noteq> 0 \<or> ipv6_address p \<noteq> 0
      else False)"

text \<open>\<^verbatim>\<open>ipv4_pools[id]\<close> and \<^verbatim>\<open>ipv6_pools[id]\<close> on an absent key: a default-constructed pool.\<close>

definition pool4 :: "paa_dynamic \<Rightarrow> u32 \<Rightarrow> ipv4_pool" where
  "pool4 d k = (case ipv4_pools d k of Some p \<Rightarrow> p | None \<Rightarrow> ipv4_pool_default)"

definition pool6 :: "paa_dynamic \<Rightarrow> u32 \<Rightarrow> ipv6_pool" where
  "pool6 d k = (case ipv6_pools d k of Some p \<Rightarrow> p | None \<Rightarrow> ipv6_pool_default)"

definition add_pool :: "string \<Rightarrow> int \<Rightarrow> u32 \<Rightarrow> u32 \<Rightarrow> paa_dynamic \<Rightarrow> paa_dynamic" where
  "add_pool apn_label pool_id first rng d =
     (if pool_id \<ge> 0
      then (let k = of_int pool_id;
                d1 = (if ipv4_pools d k = None
                      then d\<lparr>ipv4_pools := (ipv4_pools d)(k \<mapsto> ipv4_pool_new first rng)\<rparr> else d)
            in if apns d1 apn_label = None
               then d1\<lparr>apns := (apns d1)(apn_label \<mapsto>
                      \<lparr>ipv4_pool_ids = [k], ipv6_pool_ids = []\<rparr>)\<rparr>
               else d1)
      else d)"

definition add_pool6 :: "string \<Rightarrow> int \<Rightarrow> in6_addr \<Rightarrow> int \<Rightarrow> paa_dynamic \<Rightarrow> paa_dynamic" where
  "add_pool6 apn_label pool_id pfx len d =
     (if pool_id \<ge> 0
      then (let k = of_int pool_id;
                d1 = (if ipv6_pools d k = None
                      then d\<lparr>ipv6_pools := (ipv6_pools d)(k \<mapsto>
                             \<lparr>prefix = pfx, prefix_len = len\<rparr>)\<rparr> else d)
            in if apns d1 apn_label = None
               then d1\<lparr>apns := (apns d1)(apn_label \<mapsto>
                      \<lparr>ipv4_pool_ids = [], ipv6_pool_ids = [k]\<rparr>)\<rparr>
               else d1)
      else d)"

text \<open>
  The loops over the pools of an APN. \<open>alloc4_first\<close> stops at the first pool with a free
  address; \<open>alloc4_all\<close> is the loop of the IPv4v6 branch, which goes on to the last pool.
\<close>

fun alloc4_first :: "u32 list \<Rightarrow> paa \<Rightarrow> paa_dynamic \<Rightarrow> bool \<times> paa \<times> paa_dynamic" where
  "alloc4_first [] paa d = (False, paa, d)"
| "alloc4_first (k # ks) paa d =
     (case alloc_address (pool4 d k) of (ok, a, p) \<Rightarrow>
        let paa' = paa\<lparr>ipv4_address := a\<rparr>; d' = d\<lparr>ipv4_pools := (ipv4_pools d)(k \<mapsto> p)\<rparr>
        in if ok then (True, paa', d') else alloc4_first ks paa' d')"

fun alloc4_all :: "u32 list \<Rightarrow> bool \<Rightarrow> paa \<Rightarrow> paa_dynamic \<Rightarrow> bool \<times> paa \<times> paa_dynamic" where
  "alloc4_all [] success paa d = (success, paa, d)"
| "alloc4_all (k # ks) success paa d =
     (case alloc_address (pool4 d k) of (ok, a, p) \<Rightarrow>
        alloc4_all ks (success \<or> ok) (paa\<lparr>ipv4_address := a\<rparr>)
          (d\<lparr>ipv4_pools := (ipv4_pools d)(k \<mapsto> p)\<rparr>))"

fun alloc6_first :: "u32 list \<Rightarrow> paa \<Rightarrow> paa_dynamic \<Rightarrow> bool \<times> paa \<times> paa_dynamic" where
  "alloc6_first [] paa d = (False, paa, d)"
| "alloc6_first (k # ks) paa d =
     (case ipv6_alloc_address (pool6 d k) of (ok, a) \<Rightarrow>
        let paa' = paa\<lparr>ipv6_address := a\<rparr>;
            d' = d\<lparr>ipv6_pools := (ipv6_pools d)(k \<mapsto> pool6 d k)\<rparr>
        in if ok then (True, paa', d') else alloc6_first ks paa' d')"

text \<open>
  In the IPv4v6 branch, when no IPv6 prefix is found, the code gives the IPv4 address back to the
  pool \<^verbatim>\<open>*it4\<close>; the loop has left \<^verbatim>\<open>it4\<close> at \<^verbatim>\<open>end()\<close>.
\<close>

definition get_free_paa :: "string \<Rightarrow> paa \<Rightarrow> paa_dynamic \<Rightarrow> (bool \<times> paa \<times> paa_dynamic) outcome" where
  "get_free_paa apn_label paa d =
     (case apns d apn_label of
        None \<Rightarrow> Inr (False, paa, d)
      | Some ap \<Rightarrow>
          if pdn_type paa = PDN_TYPE_E_IPV4 then Inr (alloc4_first (ipv4_pool_ids ap) paa d)
          else if pdn_type paa = PDN_TYPE_E_IPV4V6 then
            (case alloc4_all (ipv4_pool_ids ap) False paa d of (success, paa1, d1) \<Rightarrow>
               if success then
                 (case alloc6_first (ipv6_pool_ids ap) paa1 d1 of (ok6, paa2, d2) \<Rightarrow>
                    if ok6 then Inr (True, paa2, d2) else Inl Deref_end)
               else Inr (False, paa1, d1))
          else if pdn_type paa = PDN_TYPE_E_IPV6 then Inr (alloc6_first (ipv6_pool_ids ap) paa d)
          else Inr (False, paa, d))"

fun free4_first :: "u32 list \<Rightarrow> u32 \<Rightarrow> paa_dynamic \<Rightarrow> (bool \<times> paa_dynamic) outcome" where
  "free4_first [] a d = Inr (False, d)"
| "free4_first (k # ks) a d =
     (case free_address a (pool4 d k) of
        Inl e \<Rightarrow> Inl e
      | Inr (ok, p) \<Rightarrow>
          let d' = d\<lparr>ipv4_pools := (ipv4_pools d)(k \<mapsto> p)\<rparr>
          in if ok then Inr (True, d') else free4_first ks a d')"

definition release_paa :: "string \<Rightarrow> paa \<Rightarrow> paa_dynamic \<Rightarrow> (bool \<times> paa_dynamic) outcome" where
  "release_paa apn_label paa d =
     (case apns d apn_label of
        None \<Rightarrow> Inr (False, d)
      | Some ap \<Rightarrow>
          if pdn_type paa = PDN_TYPE_E_IPV4 \<or> pdn_type paa = PDN_TYPE_E_IPV4V6
          then free4_first (ipv4_pool_ids ap) (ipv4_address paa) d
          else if pdn_type paa = PDN_TYPE_E_IPV6 then Inr (True, d)
          else Inr (False, d))"

definition release_paa_ipv4 :: "string \<Rightarrow> u32 \<Rightarrow> paa_dynamic \<Rightarrow> (bool \<times> paa_dynamic) outcome" where
  "release_paa_ipv4 apn_label a d =
     (case apns d apn_label of
        None \<Rightarrow> Inr (False, d)
      | Some ap \<Rightarrow> free4_first (ipv4_pool_ids ap) a d)"

text \<open>\<^verbatim>\<open>pgw_app::apply_config\<close>: one IPv4 and one IPv6 pool for each configured PDN.\<close>

record pdn_cfg =
  apn_label :: string
  ue_pool_range_low :: u32
  ue_pool_range_high :: u32
  paa_pool6_prefix :: in6_addr
  paa_pool6_prefix_len :: int

fun apply_config :: "int \<Rightarrow> pdn_cfg list \<Rightarrow> paa_dynamic \<Rightarrow> paa_dynamic" where
  "apply_config pool_id [] d = d"
| "apply_config pool_id (p # ps) d =
     apply_config (pool_id + 2) ps
       (add_pool6 (apn_label p) (pool_id + 1) (paa_pool6_prefix p) (paa_pool6_prefix_len p)
         (add_pool (apn_label p) pool_id (ue_pool_range_low p)
            (be32toh (ue_pool_range_high p) - be32toh (ue_pool_range_low p)) d))"

section \<open>The bitmap\<close>

definition al_bit :: "(int \<times> u32) list \<Rightarrow> int \<Rightarrow> bool" where
  "al_bit al k = (case map_of al (k div 32) of None \<Rightarrow> False | Some w \<Rightarrow> bit w (nat (k mod 32)))"

lemma first_clear_spec:
  "(\<And>j. j < pos \<Longrightarrow> bit w j) \<Longrightarrow>
     \<not> bit w (first_clear w pos) \<and> (\<forall>j < first_clear w pos. bit w j)"
proof (induction w pos rule: first_clear.induct)
  case (1 w pos)
  show ?case
  proof (cases "bit w pos")
    case True
    with 1 have "\<not> bit w (first_clear w (Suc pos)) \<and> (\<forall>j < first_clear w (Suc pos). bit w j)"
      by (metis less_Suc_eq)
    with True show ?thesis by (simp add: first_clear.simps [of w pos])
  next
    case False
    with "1.prems" show ?thesis by (simp add: first_clear.simps [of w pos])
  qed
qed

lemma first_clear_less:
  fixes w :: u32
  assumes "w \<noteq> - 1"
  shows "first_clear w 0 < 32"
proof (rule ccontr)
  assume "\<not> first_clear w 0 < 32"
  with first_clear_spec [of 0 w] have "\<And>j. j < 32 \<Longrightarrow> bit w j" by auto
  then have "w = - 1" by (intro bit_word_eqI) auto
  with assms show False by simp
qed

lemma div_mod_block:
  fixes i :: int
  assumes "32 * i \<le> j" and "j < 32 * i + 32"
  shows "j div 32 = i" and "nat (j mod 32) = nat (j - 32 * i)"
proof -
  from assms show "j div 32 = i" by presburger
  then show "nat (j mod 32) = nat (j - 32 * i)" by (simp add: minus_div_mult_eq_mod [symmetric])
qed

lemma al_bit_assign:
  "al_bit (smap_assign al (k div 32) (set_bit (nat (k mod 32)) w)) j
     = (if j = k then True else if j div 32 = k div 32 then bit w (nat (j mod 32)) else al_bit al j)"
proof -
  have "nat (j mod 32) = nat (k mod 32) \<longleftrightarrow> j mod 32 = k mod 32" by (simp add: eq_nat_nat_iff)
  moreover have "nat (j mod 32) < 32" "nat (k mod 32) < 32" by auto
  moreover have "j div 32 = k div 32 \<Longrightarrow> j mod 32 = k mod 32 \<Longrightarrow> j = k"
    by (metis div_mult_mod_eq)
  ultimately show ?thesis by (auto simp: al_bit_def bit_set_bit_iff)
qed

lemma al_bit_unassign:
  "al_bit (smap_assign al (k div 32) (unset_bit (nat (k mod 32)) w)) j
     = (if j = k then False else if j div 32 = k div 32 then bit w (nat (j mod 32)) else al_bit al j)"
proof -
  have "nat (j mod 32) = nat (k mod 32) \<longleftrightarrow> j mod 32 = k mod 32" by (simp add: eq_nat_nat_iff)
  moreover have "j div 32 = k div 32 \<Longrightarrow> j mod 32 = k mod 32 \<Longrightarrow> j = k"
    by (metis div_mult_mod_eq)
  ultimately show ?thesis by (auto simp: al_bit_def bit_unset_bit_iff)
qed

text \<open>The two loops of \<^verbatim>\<open>alloc_free_bit\<close> find the first clear bit of the whole bitmap.\<close>

definition dense :: "(int \<times> u32) list \<Rightarrow> bool" where
  "dense al \<longleftrightarrow> (\<forall>x. x \<in> dom (map_of al) \<longleftrightarrow> 0 \<le> x \<and> x < int (length al))"

lemma denseD: "dense al \<Longrightarrow> 0 \<le> x \<Longrightarrow> x < int (length al) \<Longrightarrow> \<exists>w. map_of al x = Some w"
  unfolding dense_def by blast

lemma alloc_loop_spec:
  "dense al \<Longrightarrow> 0 \<le> i \<Longrightarrow>
     (case alloc_free_bit_loop i (32 * i) al of (ok, k, al') \<Rightarrow>
        if ok then 32 * i \<le> k \<and> k < 32 * int (length al) \<and> \<not> al_bit al k
             \<and> (\<forall>j. 32 * i \<le> j \<and> j < k \<longrightarrow> al_bit al j)
             \<and> (\<exists>w. map_of al (k div 32) = Some w
                    \<and> al' = smap_assign al (k div 32) (set_bit (nat (k mod 32)) w))
        else al' = al \<and> (\<forall>j. 32 * i \<le> j \<and> j < 32 * int (length al) \<longrightarrow> al_bit al j))"
proof (induction "nat (int (length al) - i)" arbitrary: i rule: less_induct)
  case less
  show ?case
  proof (cases "i < int (length al)")
    case False
    then show ?thesis by (auto simp: alloc_free_bit_loop.simps [of i])
  next
    case True
    with less.prems obtain w where w: "map_of al i = Some w" using denseD by blast
    have block: "al_bit al j = bit w (nat (j - 32 * i))" if "32 * i \<le> j" "j < 32 * i + 32" for j
      using div_mod_block [OF that] w by (simp add: al_bit_def)
    show ?thesis
    proof (cases "w = - 1")
      case False
      let ?pos = "first_clear w 0" and ?k = "32 * i + int (first_clear w 0)"
      have pos: "?pos < 32" using False by (rule first_clear_less)
      have k: "?k div 32 = i" "nat (?k mod 32) = ?pos"
        using div_mod_block [of i ?k] pos by simp_all
      have "\<not> al_bit al ?k" "\<forall>j. 32 * i \<le> j \<and> j < ?k \<longrightarrow> al_bit al j"
        using first_clear_spec [of 0 w] block pos by (auto simp: nat_less_iff)
      moreover have "alloc_free_bit_loop i (32 * i) al
          = (True, ?k, smap_assign al i (set_bit ?pos w))"
        using True False w by (simp add: alloc_free_bit_loop.simps [of i] smap_index_present Let_def)
      ultimately show ?thesis using True pos w k by simp
    next
      case full: True
      have rec: "alloc_free_bit_loop i (32 * i) al = alloc_free_bit_loop (i + 1) (32 * (i + 1)) al"
        using True full w by (simp add: alloc_free_bit_loop.simps [of i] smap_index_present)
      have bits: "al_bit al j" if "32 * i \<le> j" "j < 32 * (i + 1)" for j
      proof -
        from that have "nat (j - 32 * i) < 32" by auto
        with block [of j] that full show ?thesis by simp
      qed
      have "nat (int (length al) - (i + 1)) < nat (int (length al) - i)" using True by simp
      note IH = less.hyps [OF this less.prems(1)]
      obtain ok k al' where r: "alloc_free_bit_loop (i + 1) (32 * (i + 1)) al = (ok, k, al')"
        by (cases "alloc_free_bit_loop (i + 1) (32 * (i + 1)) al")
      have ext: "(\<forall>j. 32 * (i + 1) \<le> j \<and> j < m \<longrightarrow> al_bit al j) \<Longrightarrow>
          (\<forall>j. 32 * i \<le> j \<and> j < m \<longrightarrow> al_bit al j)" for m
        using bits by (metis not_less)
      show ?thesis
      proof (cases ok)
        case True
        then show ?thesis using IH less.prems(2) ext [of k] unfolding rec r by simp
      next
        case False
        then show ?thesis
          using IH less.prems(2) ext [of "32 * int (length al)"] unfolding rec r by simp
      qed
    qed
  qed
qed

section \<open>Well-formed pools\<close>

text \<open>
  The bitmap has a word for every 32 addresses, counted from 0, and the bits of the last word
  beyond the pool are set. \<open>offsets\<close> abstracts a pool to the set of allocated offsets from its
  first address.
\<close>

definition pool_wf :: "ipv4_pool \<Rightarrow> bool" where
  "pool_wf p \<longleftrightarrow> 0 \<le> num p \<and> num p < 2 ^ 31 \<and> dense (alloc p) \<and> int (length (alloc p)) = (num p + 31) div 32
     \<and> (\<forall>k. num p \<le> k \<and> k < 32 * int (length (alloc p)) \<longrightarrow> al_bit (alloc p) k)"

definition offsets :: "ipv4_pool \<Rightarrow> int set" where
  "offsets p = {k. 0 \<le> k \<and> k < num p \<and> al_bit (alloc p) k}"

definition addr_of :: "ipv4_pool \<Rightarrow> int \<Rightarrow> u32" where
  "addr_of p k = htobe32 (be32toh (start p) + of_int k)"

lemma offsets_bounds: "offsets p \<subseteq> {0..<num p}"
  by (auto simp: offsets_def)

lemma dense_assign:
  assumes "dense al" and "map_of al i = Some w"
  shows "dense (smap_assign al i v)" "length (smap_assign al i v) = length al"
proof -
  from assms(2) have i: "i \<in> dom (map_of al)" by auto
  then show "length (smap_assign al i v) = length al" by (rule length_smap_assign_present)
  with assms(1) i show "dense (smap_assign al i v)" by (auto simp: dense_def insert_absorb)
qed

lemma pool_word_present:
  assumes "pool_wf p" and "0 \<le> k" and "k < num p"
  obtains w where "map_of (alloc p) (k div 32) = Some w"
proof -
  from assms have "k div 32 < int (length (alloc p))" by (simp add: pool_wf_def)
  moreover have "dense (alloc p)" "0 \<le> k div 32" using assms by (simp_all add: pool_wf_def)
  ultimately obtain w where "map_of (alloc p) (k div 32) = Some w" using denseD by blast
  then show ?thesis by (rule that)
qed

lemma alloc_address_full:
  assumes wf: "pool_wf p" and full: "offsets p = {0..<num p}"
  shows "alloc_address p = (False, 0, p)"
proof -
  have all: "al_bit (alloc p) k" if "0 \<le> k" "k < 32 * int (length (alloc p))" for k
  proof (cases "k < num p")
    case True
    with full that have "k \<in> offsets p" by auto
    then show ?thesis by (simp add: offsets_def)
  qed (use wf that in \<open>simp add: pool_wf_def\<close>)
  from wf have "dense (alloc p)" by (simp add: pool_wf_def)
  from alloc_loop_spec [OF this, of 0] all
  show ?thesis by (auto simp: alloc_address_def alloc_free_bit_def split: prod.splits if_splits)
qed

lemma alloc_address_free:
  assumes wf: "pool_wf p" and free: "offsets p \<noteq> {0..<num p}"
  obtains k p' where "alloc_address p = (True, addr_of p k, p')"
    and "k = Min ({0..<num p} - offsets p)" and "k \<in> {0..<num p} - offsets p"
    and "pool_wf p'" and "offsets p' = insert k (offsets p)"
    and "start p' = start p" and "num p' = num p"
proof -
  let ?al = "alloc p"
  from wf have dense: "dense ?al" by (simp add: pool_wf_def)
  from free offsets_bounds [of p] obtain m where m: "m \<in> {0..<num p}" "m \<notin> offsets p" by blast
  then have "0 \<le> m" "m < 32 * int (length ?al)" "\<not> al_bit ?al m"
    using wf by (auto simp: pool_wf_def offsets_def)
  with alloc_loop_spec [OF dense, of 0] obtain k al' w where
    r: "alloc_free_bit_loop 0 0 ?al = (True, k, al')"
    and k: "0 \<le> k" "k < 32 * int (length ?al)" "\<not> al_bit ?al k" "\<forall>j. 0 \<le> j \<and> j < k \<longrightarrow> al_bit ?al j"
    and w: "map_of ?al (k div 32) = Some w"
    and al': "al' = smap_assign ?al (k div 32) (set_bit (nat (k mod 32)) w)"
    by (auto split: prod.splits if_splits)
  have kn: "k < num p" using k wf by (auto simp: pool_wf_def not_less)
  have bits: "al_bit al' j \<longleftrightarrow> j = k \<or> al_bit ?al j" for j
    using w by (simp add: al' al_bit_assign) (simp add: al_bit_def)
  have dense': "dense al'" "length al' = length ?al"
    using dense_assign [OF dense w] by (simp_all add: al')
  let ?p' = "p\<lparr>alloc := al'\<rparr>"
  have "k = Min ({0..<num p} - offsets p)"
  proof (rule Min_eqI [symmetric])
    show "finite ({0..<num p} - offsets p)" by simp
    show "k \<in> {0..<num p} - offsets p" using k kn by (simp add: offsets_def)
    show "k \<le> j" if "j \<in> {0..<num p} - offsets p" for j
      using that k(4) by (auto simp: offsets_def intro: leI)
  qed
  moreover have "pool_wf ?p'" using wf dense' bits by (simp add: pool_wf_def)
  moreover have "offsets ?p' = insert k (offsets p)" using k kn bits by (auto simp: offsets_def)
  moreover have "alloc_address p = (True, addr_of p k, ?p')"
    by (simp add: alloc_address_def alloc_free_bit_def r addr_of_def)
  moreover have "k \<in> {0..<num p} - offsets p" using k kn by (simp add: offsets_def)
  ultimately show ?thesis by (intro that [of k ?p']) simp_all
qed

text \<open>
  \<^verbatim>\<open>in_pool\<close> compares addresses as signed integers: the difference is defined only when the pool
  does not straddle 128.0.0.0.
\<close>

definition no_straddle :: "ipv4_pool \<Rightarrow> bool" where
  "no_straddle p \<longleftrightarrow> sint (be32toh (start p)) + num p \<le> 2 ^ 31"

lemma sint_add_small:
  fixes x :: u32
  assumes "0 \<le> k" and "sint x + k < 2 ^ 31"
  shows "sint (x + of_int k) = sint x + k"
proof -
  have "- (2 ^ 31) \<le> sint x" using sint_ge [of x] by simp
  then have "signed_take_bit 31 (sint x + k) = sint x + k"
    using assms by (intro signed_take_bit_int_eq_self) auto
  moreover have "sint (of_int (sint x + k) :: u32) = signed_take_bit 31 (sint x + k)"
    by (simp only: sint_sbintrunc') simp
  ultimately show ?thesis by simp
qed

lemma sint_nonneg:
  fixes r :: u32
  assumes "0 \<le> sint r"
  shows "sint r = int (unat r)"
proof -
  have "sint r < 2 ^ 31" using sint_lt [of r] by simp
  then have "uint r = sint r" using assms by (simp add: uint_sint take_bit_int_eq_self)
  then show ?thesis by simp
qed

lemma sint_of_int_small: "0 \<le> k \<Longrightarrow> k < 2 ^ 31 \<Longrightarrow> sint (of_int k :: u32) = k"
  using sint_add_small [of k 0] by simp

lemma addr_of_inject:
  assumes "addr_of p j = addr_of p k" and "0 \<le> j" "j < 2 ^ 31" "0 \<le> k" "k < 2 ^ 31"
  shows "j = k"
proof -
  from assms(1) have "(of_int j :: u32) = of_int k" by (simp add: addr_of_def)
  then have "sint (of_int j :: u32) = sint (of_int k :: u32)" by simp
  with assms show ?thesis by (simp only: sint_of_int_small)
qed

lemma free_address_in:
  assumes wf: "pool_wf p" and ns: "no_straddle p" and k: "0 \<le> k" "k < num p"
  obtains p' where "free_address (addr_of p k) p = Inr (True, p')" and "pool_wf p'"
    and "offsets p' = offsets p - {k}" and "start p' = start p" and "num p' = num p"
proof -
  have n: "num p < 2 ^ 31" and dense: "dense (alloc p)" using wf by (simp_all add: pool_wf_def)
  have addr: "sint (be32toh (addr_of p k)) = sint (be32toh (start p)) + k"
    using k ns by (simp add: addr_of_def no_straddle_def sint_add_small)
  then have inp: "in_pool (addr_of p k) p = Inr True"
    using k n by (simp add: in_pool_def int32_def)
  have pos: "sint (be32toh (addr_of p k) - be32toh (start p)) = k"
    using k n by (simp add: addr_of_def sint_of_int_small)
  obtain w where w: "map_of (alloc p) (k div 32) = Some w"
    using pool_word_present [OF wf k] .
  let ?al = "smap_assign (alloc p) (k div 32) (unset_bit (nat (k mod 32)) w)"
  let ?p' = "p\<lparr>alloc := ?al\<rparr>"
  have r: "free_address (addr_of p k) p = Inr (True, ?p')"
    using k w inp pos by (simp add: free_address_def free_bit_def smap_index_present)
  have bits: "al_bit ?al j \<longleftrightarrow> j \<noteq> k \<and> al_bit (alloc p) j" for j
    using w by (simp add: al_bit_unassign) (simp add: al_bit_def)
  from dense_assign [OF dense w] have "pool_wf ?p'"
    using wf k bits by (simp add: pool_wf_def)
  moreover have "offsets ?p' = offsets p - {k}" using bits by (auto simp: offsets_def)
  ultimately show ?thesis using r by (intro that [of ?p']) simp_all
qed

section \<open>A new pool\<close>

lemma fill_words:
  defines "al n \<equiv> foldl (\<lambda>m i. smap_assign m (int i) (0::u32)) [] [0..<n]"
  shows "map_of (al n) = (\<lambda>x. if 0 \<le> x \<and> x < int n then Some 0 else None)" and "smap_wf (al n)"
  unfolding al_def
  by (induction n) (auto simp: fun_eq_iff smap_wf_assign)

lemma dom_card_dense:
  assumes "smap_wf al" and "dom (map_of al) = {0..<int n}"
  shows "dense al \<and> length al = n"
  using length_eq_card_dom [OF assms(1)] assms(2) by (simp add: dense_def)

lemma unat_split32:
  fixes w :: u32
  shows "unat (drop_bit 5 w) = unat w div 32" and "unat (w AND 0x1F) = unat w mod 32"
proof -
  have "take_bit 32 (unat w) = unat w"
    using unsigned_less [of w] by (simp add: take_bit_nat_eq_self_iff)
  then have "unat (drop_bit 5 w) = drop_bit 5 (unat w)" by (simp add: unsigned_drop_bit_eq)
  then show "unat (drop_bit 5 w) = unat w div 32" using drop_bit_eq_div [of 5 "unat w"] by simp
  have "w AND 0x1F = take_bit 5 w" by (simp add: take_bit_eq_mask mask_eq_exp_minus_1)
  then have "unat (w AND 0x1F) = take_bit 5 (unat w)" by (simp only: unsigned_take_bit_eq)
  then show "unat (w AND 0x1F) = unat w mod 32" by (simp add: take_bit_eq_mod)
qed

lemma pool_new_wf:
  assumes "0 \<le> sint rng"
  shows "pool_wf (ipv4_pool_new first rng) \<and> offsets (ipv4_pool_new first rng) = {}
    \<and> num (ipv4_pool_new first rng) = int (unat rng) \<and> start (ipv4_pool_new first rng) = first"
proof -
  define q r where "q = unat rng div 32" and "r = unat rng mod 32"
  let ?p = "ipv4_pool_new first rng"
  let ?al = "foldl (\<lambda>m i. smap_assign m (int i) (0::u32)) [] [0..<q]"
  have num: "num ?p = int (unat rng)" and "start ?p = first"
    using sint_nonneg [OF assms] by (simp_all add: ipv4_pool_new_def Let_def)
  have n31: "int (unat rng) < 2 ^ 31" using sint_lt [of rng] sint_nonneg [OF assms] by simp
  have alloc: "alloc ?p = (if r \<noteq> 0 then smap_assign ?al (int q) (push_bit r (- 1)) else ?al)"
    by (simp add: ipv4_pool_new_def Let_def unat_split32 q_def r_def)
  have r32: "r < 32" and split: "unat rng = 32 * q + r"
    unfolding q_def r_def by simp_all
  define len where "len = (if r \<noteq> 0 then q + 1 else q)"
  have words: "map_of (alloc ?p) x = (if 0 \<le> x \<and> x < int q then Some 0
      else if r \<noteq> 0 \<and> x = int q then Some (push_bit r (- 1)) else None)" for x
    by (auto simp: alloc fill_words(1))
  then have "dom (map_of (alloc ?p)) = {0..<int len}"
    by (auto simp: len_def dom_def split: if_splits)
  then have dense: "dense (alloc ?p)" "length (alloc ?p) = len"
    using dom_card_dense [of "alloc ?p" len] by (simp_all add: alloc fill_words smap_wf_assign)
  have bits: "al_bit (alloc ?p) k \<longleftrightarrow> int (unat rng) \<le> k"
    if "0 \<le> k" "k < 32 * int len" for k
  proof (cases "k div 32 < int q")
    case True
    then have "k < 32 * int q" by presburger
    with True that split show ?thesis by (simp add: al_bit_def words)
  next
    case False
    with that have "r \<noteq> 0" and kq: "k div 32 = int q"
      by (auto simp: len_def split: if_splits)
    then have "32 * int q \<le> k" "k < 32 * int q + 32" by presburger+
    from div_mod_block(2) [OF this] have m: "nat (k mod 32) = nat (k - 32 * int q)" .
    have "nat (k mod 32) < 32" by auto
    then have "al_bit (alloc ?p) k \<longleftrightarrow> r \<le> nat (k mod 32)"
      using kq \<open>r \<noteq> 0\<close> by (auto simp: al_bit_def words bit_simps)
    also have "\<dots> \<longleftrightarrow> int (unat rng) \<le> k"
      using m \<open>32 * int q \<le> k\<close> split by linarith
    finally show ?thesis .
  qed
  have "int len = (int (unat rng) + 31) div 32" using split r32 by (simp add: len_def) arith
  moreover have "al_bit (alloc ?p) k" if "int (unat rng) \<le> k" "k < 32 * int len" for k
    using bits [of k] that by (meson of_nat_0_le_iff order_trans)
  ultimately have "pool_wf ?p" using num n31 dense by (simp add: pool_wf_def)
  moreover have "int (unat rng) \<le> 32 * int len" using split r32 by (simp add: len_def)
  then have "offsets ?p = {}" using bits num by (auto simp: offsets_def)
  ultimately show ?thesis using num \<open>start ?p = first\<close> by simp
qed

section \<open>A pool as an allocator of addresses\<close>

definition pool_get :: "ipv4_pool \<Rightarrow> (u32 \<times> ipv4_pool) option" where
  "pool_get p = (case alloc_address p of (ok, a, p') \<Rightarrow> if ok then Some (a, p') else None)"

definition pool_free :: "u32 \<Rightarrow> ipv4_pool \<Rightarrow> ipv4_pool" where
  "pool_free a p = (case free_address a p of Inl _ \<Rightarrow> p | Inr (_, p') \<Rightarrow> p')"

definition pool_used :: "ipv4_pool \<Rightarrow> u32 set" where
  "pool_used p = addr_of p ` offsets p"

definition pool_univ :: "ipv4_pool \<Rightarrow> u32 set" where
  "pool_univ p = addr_of p ` {0..<num p}"

definition pool_inv :: "ipv4_pool \<Rightarrow> bool" where
  "pool_inv p \<longleftrightarrow> pool_wf p \<and> no_straddle p"

lemma addr_of_cong: "start p' = start p \<Longrightarrow> addr_of p' = addr_of p"
  by (simp add: fun_eq_iff addr_of_def)

lemma addr_of_inj_on: "pool_wf p \<Longrightarrow> inj_on (addr_of p) {0..<num p}"
  by (auto intro!: inj_onI addr_of_inject simp: pool_wf_def)

lemma addr_of_offsets:
  assumes "pool_wf p" and "0 \<le> k" and "k < num p"
  shows "addr_of p k \<in> pool_used p \<longleftrightarrow> k \<in> offsets p"
  unfolding pool_used_def
  using inj_on_image_mem_iff [OF addr_of_inj_on [OF assms(1)] _ offsets_bounds] assms(2,3) by simp

lemma pool_get_cases:
  assumes "pool_wf p"
  shows "pool_get p = None \<and> pool_used p = pool_univ p \<or>
    (\<exists>k p'. pool_get p = Some (addr_of p k, p') \<and> k \<in> {0..<num p} - offsets p \<and> pool_wf p'
       \<and> offsets p' = insert k (offsets p) \<and> start p' = start p \<and> num p' = num p)"
proof (cases "offsets p = {0..<num p}")
  case True
  then show ?thesis
    using alloc_address_full [OF assms True] by (simp add: pool_get_def pool_used_def pool_univ_def)
next
  case False
  obtain k p' where "alloc_address p = (True, addr_of p k, p')" "k \<in> {0..<num p} - offsets p"
    "pool_wf p'" "offsets p' = insert k (offsets p)" "start p' = start p" "num p' = num p"
    using alloc_address_free [OF assms False] .
  then show ?thesis by (intro disjI2 exI [of _ k] exI [of _ p']) (simp add: pool_get_def)
qed

interpretation pool: managed_ids pool_get pool_free pool_used pool_univ pool_inv
proof
  fix p a p'
  assume inv: "pool_inv p" and get: "pool_get p = Some (a, p')"
  then obtain k where k: "a = addr_of p k" "k \<in> {0..<num p} - offsets p" and wf: "pool_wf p'"
    and eq: "offsets p' = insert k (offsets p)" "start p' = start p" "num p' = num p"
    using pool_get_cases [of p] by (auto simp: pool_inv_def)
  show "a \<in> pool_univ p - pool_used p"
    using k inv addr_of_offsets [of p k] by (auto simp: pool_univ_def pool_inv_def)
  show "pool_inv p' \<and> pool_used p' = insert a (pool_used p) \<and> pool_univ p' = pool_univ p"
    using inv wf eq k(1) addr_of_cong [OF eq(2)]
    by (simp add: pool_inv_def no_straddle_def pool_used_def pool_univ_def)
next
  fix p a
  assume inv: "pool_inv p" and a: "a \<in> pool_used p"
  then obtain k where k: "a = addr_of p k" "k \<in> offsets p" by (auto simp: pool_used_def)
  then have kn: "0 \<le> k" "k < num p" by (simp_all add: offsets_def)
  from inv have wf: "pool_wf p" and "no_straddle p" by (simp_all add: pool_inv_def)
  from free_address_in [OF this kn] obtain p' where
    r: "free_address a p = Inr (True, p')" and wf': "pool_wf p'"
    and eq: "offsets p' = offsets p - {k}" "start p' = start p" "num p' = num p"
    unfolding k(1) by blast
  have "addr_of p ` (offsets p - {k}) = addr_of p ` offsets p - {addr_of p k}"
    using addr_of_inj_on [OF wf] k(2) offsets_bounds [of p]
    by (subst inj_on_image_set_diff [of _ "{0..<num p}"]) auto
  then show "pool_inv (pool_free a p) \<and> pool_used (pool_free a p) = pool_used p - {a}
      \<and> pool_univ (pool_free a p) = pool_univ p"
    using r wf' eq inv k(1) addr_of_cong [OF eq(2)]
    by (simp add: pool_free_def pool_inv_def no_straddle_def pool_used_def pool_univ_def)
next
  fix p
  assume "pool_inv p" and "pool_get p = None"
  then show "pool_univ p \<subseteq> pool_used p"
    using pool_get_cases [of p] by (auto simp: pool_inv_def)
qed

section \<open>Properties of the pools\<close>

text \<open>
  C5: \<^verbatim>\<open>alloc_address\<close> implements the abstract allocator that hands out the least free offset. On a
  well-formed pool it succeeds exactly when some address is free; it then returns the lowest free
  address and marks that one address; when the pool is exhausted it returns 0.0.0.0 and changes
  nothing. Either way the pool stays well-formed.
\<close>

theorem alloc_address_refines:
  assumes "pool_wf p"
  shows "case alloc_address p of (ok, a, p') \<Rightarrow>
    pool_wf p' \<and> ok = (offsets p \<noteq> {0..<num p}) \<and>
    (if ok then a = addr_of p (Min ({0..<num p} - offsets p))
         \<and> offsets p' = insert (Min ({0..<num p} - offsets p)) (offsets p)
         \<and> start p' = start p \<and> num p' = num p
     else a = 0 \<and> p' = p)"
proof (cases "offsets p = {0..<num p}")
  case True
  with assms alloc_address_full [OF assms True] show ?thesis by simp
next
  case False
  obtain k p' where "alloc_address p = (True, addr_of p k, p')"
    "k = Min ({0..<num p} - offsets p)" "pool_wf p'" "offsets p' = insert k (offsets p)"
    "start p' = start p" "num p' = num p"
    using alloc_address_free [OF assms False] .
  with False show ?thesis by simp
qed

text \<open>A pool of the three addresses from 10.0.0.1 on, for the witnesses.\<close>

definition pool_10 :: ipv4_pool where
  "pool_10 = ipv4_pool_new (htobe32 0x0A000001) 3"

lemma pool_10_inv: "pool_wf pool_10" "offsets pool_10 = {}" "num pool_10 = 3" "no_straddle pool_10"
  "start pool_10 = htobe32 0x0A000001"
  using pool_new_wf [of 3 "htobe32 0x0A000001"] by (simp_all add: pool_10_def no_straddle_def)

lemma Min_0_3: "Min {0..<3::int} = 0"
  by (intro Min_eqI) auto

theorem alloc_address_refines_witness:
  "pool_wf pool_10 \<and> (case alloc_address pool_10 of (ok, a, p') \<Rightarrow>
     ok \<and> a = htobe32 0x0A000001 \<and> offsets p' = {0} \<and> pool_wf p')"
proof -
  have "{} \<noteq> {0..<3::int}" by auto
  with alloc_address_refines [OF pool_10_inv(1)] pool_10_inv Min_0_3
  show ?thesis by (auto simp: addr_of_def split: prod.splits)
qed

lemma alloc_free_ok:
  assumes "pool_wf p" and "no_straddle p" and "alloc_address p = (True, a, p1)"
  shows "pool_wf p1 \<and> (\<exists>p2. free_address a p1 = Inr (True, p2) \<and> pool_wf p2 \<and> offsets p2 = offsets p
    \<and> start p2 = start p \<and> num p2 = num p)"
proof -
  have "offsets p \<noteq> {0..<num p}" using alloc_address_full [OF assms(1)] assms(3) by auto
  from alloc_address_free [OF assms(1) this] obtain k where a: "a = addr_of p k"
    and k: "k \<in> {0..<num p} - offsets p" and p1: "pool_wf p1" "offsets p1 = insert k (offsets p)"
      "start p1 = start p" "num p1 = num p"
    using assms(3) by (metis prod.inject)
  from p1 assms(2) have ns: "no_straddle p1" by (simp add: no_straddle_def)
  from k p1(4) have "0 \<le> k" "k < num p1" by auto
  from free_address_in [OF p1(1) ns this] obtain p2 where
    "free_address (addr_of p1 k) p1 = Inr (True, p2)" "pool_wf p2" "offsets p2 = offsets p1 - {k}"
    "start p2 = start p1" "num p2 = num p1" .
  with a k p1 addr_of_cong [OF p1(3)] show ?thesis by auto
qed

text \<open>
  C6: whatever sequence of allocations and releases clients make on a new pool, as long as they
  release only addresses they hold: the addresses held are pairwise distinct, all lie in the
  configured range, and there are at most as many of them as the range has.
\<close>

theorem pool_clients_distinct:
  assumes "0 \<le> sint rng" and "sint (be32toh first) + sint rng \<le> 2 ^ 31"
    and "run_held pool_get pool_free ops ([], ipv4_pool_new first rng) = Some (l, p)"
  shows "distinct l \<and> set l \<subseteq> addr_of (ipv4_pool_new first rng) ` {0..<int (unat rng)}
    \<and> length l \<le> unat rng"
proof -
  let ?p0 = "ipv4_pool_new first rng"
  note new = pool_new_wf [OF assms(1), of first]
  have "pool_inv ?p0" using new assms(1,2) sint_nonneg [OF assms(1)]
    by (simp add: pool_inv_def no_straddle_def)
  from pool.run_held_live [OF assms(3) this] new
  have d: "distinct l" and l: "set l \<subseteq> addr_of ?p0 ` {0..<int (unat rng)}"
    by (auto simp: pool_used_def pool_univ_def)
  have "card (set l) \<le> card (addr_of ?p0 ` {0..<int (unat rng)})" by (rule card_mono) (use l in auto)
  also have "\<dots> \<le> card {0..<int (unat rng)}" by (rule card_image_le) simp
  finally have "length l \<le> unat rng" using d by (simp add: distinct_card)
  with d l show ?thesis by simp
qed

theorem pool_clients_distinct_witness:
  "\<exists>l p. run_held pool_get pool_free [Get] ([], ipv4_pool_new (htobe32 0x0A000001) 3) = Some (l, p)
     \<and> distinct l \<and> length l \<le> 3"
proof -
  have "offsets pool_10 \<noteq> {0..<num pool_10}" by (simp add: pool_10_inv)
  from alloc_address_free [OF pool_10_inv(1) this] obtain k p1 where
    "alloc_address pool_10 = (True, addr_of pool_10 k, p1)" by metis
  then have r: "run_held pool_get pool_free [Get] ([], ipv4_pool_new (htobe32 0x0A000001) 3)
      = Some ([addr_of pool_10 k], p1)"
    by (simp add: pool_get_def pool_10_def)
  from pool_clients_distinct [OF _ _ r] r show ?thesis by simp
qed

section \<open>Releasing an address below the pool\<close>

text \<open>
  \<^verbatim>\<open>in_pool\<close> only bounds the difference from above, so an address below the pool passes; \<^verbatim>\<open>free_bit\<close>
  then writes a word with a negative index, which makes the map one element larger than the pool.
\<close>

lemma loop_skip_full:
  "(\<And>x. i \<le> x \<Longrightarrow> x < n \<Longrightarrow> map_of al x = Some (- 1)) \<Longrightarrow> i \<le> n \<Longrightarrow> n \<le> int (length al) \<Longrightarrow>
     alloc_free_bit_loop i bit_pos al = alloc_free_bit_loop n (bit_pos + 32 * (n - i)) al"
proof (induction "nat (n - i)" arbitrary: i bit_pos)
  case 0
  then have "i = n" by simp
  then show ?case by simp
next
  case (Suc m)
  then have i: "i < int (length al)" "map_of al i = Some (- 1)" by auto
  have "alloc_free_bit_loop (i + 1) (bit_pos + 32) al
      = alloc_free_bit_loop n (bit_pos + 32 + 32 * (n - (i + 1))) al"
    using Suc.hyps(2) Suc.prems by (intro Suc.hyps(1)) auto
  with i show ?case
    by (simp add: alloc_free_bit_loop.simps [of i] smap_index_present algebra_simps)
qed

lemma full_words:
  assumes "pool_wf p" and "offsets p = {0..<num p}" and "0 \<le> x" "x < int (length (alloc p))"
  shows "map_of (alloc p) x = Some (- 1)"
proof -
  from assms(1) have "dense (alloc p)" by (simp add: pool_wf_def)
  from denseD [OF this assms(3,4)] obtain w where w: "map_of (alloc p) x = Some w" by blast
  have "bit w j" if "j < 32" for j
  proof -
    let ?k = "32 * x + int j"
    have k: "0 \<le> ?k" "?k < 32 * int (length (alloc p))" using assms(3,4) that by auto
    have "al_bit (alloc p) ?k"
    proof (cases "?k < num p")
      case True
      with k assms(2) have "?k \<in> offsets p" by auto
      then show ?thesis by (simp add: offsets_def)
    qed (use assms(1) k in \<open>simp add: pool_wf_def\<close>)
    then show ?thesis using w div_mod_block [of x ?k] that by (simp add: al_bit_def)
  qed
  then have "w = - 1" by (intro bit_word_eqI) simp
  with w show ?thesis by simp
qed

text \<open>
  releasing an address just below an exhausted pool is accepted and breaks the pool: the next
  allocation succeeds and returns the first address after the pool, which was never configured.
\<close>

theorem release_below_pool_corrupts:
  assumes wf: "pool_wf p" and full: "offsets p = {0..<num p}" and m: "num p mod 32 = 0"
    and d: "- (2 ^ 31) < sint (be32toh (start p))" and pos: "0 < num p"
  shows "\<exists>p1 p2. free_address (addr_of p (- 1)) p = Inr (True, p1)
    \<and> alloc_address p1 = (True, addr_of p (num p), p2)"
proof -
  let ?al = "alloc p" and ?n = "int (length (alloc p))"
  have n: "32 * ?n = num p" using wf m by (simp add: pool_wf_def) presburger
  have dense: "dense ?al" using wf by (simp add: pool_wf_def)
  then have "- 1 \<notin> dom (map_of ?al)" "?n \<notin> dom (map_of ?al)"
    unfolding dense_def by (metis zero_le_one neg_0_le_iff_le not_one_le_zero, blast)
  then have none: "map_of ?al (- 1) = None" "map_of ?al ?n = None" by (simp_all add: domIff)
  have "of_int (sint (be32toh (start p)) - 1) = be32toh (start p) - 1" by simp
  moreover have "sint (of_int (sint (be32toh (start p)) - 1) :: u32)
      = signed_take_bit 31 (sint (be32toh (start p)) - 1)" by (simp only: sint_sbintrunc') simp
  moreover have "signed_take_bit 31 (sint (be32toh (start p)) - 1) = sint (be32toh (start p)) - 1"
    using d sint_lt [of "be32toh (start p)"] by (intro signed_take_bit_int_eq_self) auto
  ultimately have "sint (be32toh (start p) - 1) = sint (be32toh (start p)) - 1" by simp
  then have inp: "in_pool (addr_of p (- 1)) p = Inr True"
    using pos by (simp add: in_pool_def addr_of_def int32_def)
  let ?al1 = "smap_assign (?al @ [(- 1, 0)]) (- 1) (0 :: u32)"
  let ?p1 = "p\<lparr>alloc := ?al1\<rparr>"
  have free: "free_address (addr_of p (- 1)) p = Inr (True, ?p1)"
    using inp pos none by (simp add: free_address_def free_bit_def smap_index_def addr_of_def Let_def)
  have len: "length ?al1 = Suc (length ?al)"
    by (subst length_smap_assign_present) (auto simp: none)
  have look: "map_of ?al1 x = (if x = - 1 then Some 0 else map_of ?al x)" for x
    by (simp add: map_add_def split: option.splits)
  have "alloc_free_bit_loop 0 0 ?al1 = alloc_free_bit_loop ?n (0 + 32 * (?n - 0)) ?al1"
    using full_words [OF wf full] len by (intro loop_skip_full) (auto simp: look)
  also have "\<dots> = (True, 32 * ?n, smap_assign (?al1 @ [(?n, 0)]) ?n (set_bit 0 0))"
    using len none by (simp add: alloc_free_bit_loop.simps [of ?n] smap_index_def map_add_def Let_def
        first_clear.simps [of 0 0])
  finally have "\<exists>p2. alloc_address ?p1 = (True, addr_of p (num p), p2)"
    using n by (simp add: alloc_address_def alloc_free_bit_def addr_of_def)
  with free show ?thesis by blast
qed

theorem release_below_pool_corrupts_witness:
  "\<exists>p1 p2 :: ipv4_pool.
     free_address (htobe32 0x0A00001F) \<lparr>start = htobe32 0x0A000020, num = 32, alloc = [(0, - 1)]\<rparr>
       = Inr (True, p1)
     \<and> alloc_address p1 = (True, htobe32 0x0A000040, p2)"
proof -
  let ?p = "\<lparr>start = htobe32 0x0A000020, num = 32, alloc = [(0, - 1)]\<rparr> :: ipv4_pool"
  have bits: "al_bit [(0, - 1)] k" if "0 \<le> k" "k < 32" for k
  proof -
    from that have "k div 32 = 0" by simp
    moreover from that have "nat (k mod 32) < 32" by simp
    ultimately show ?thesis by (simp add: al_bit_def)
  qed
  have "pool_wf ?p" by (auto simp: pool_wf_def dense_def)
  moreover have "offsets ?p = {0..<num ?p}" using bits by (auto simp: offsets_def)
  ultimately show ?thesis using release_below_pool_corrupts [of ?p] by (simp add: addr_of_def)
qed

section \<open>Properties of the address allocation of an APN\<close>

definition paa_wf :: "paa_dynamic \<Rightarrow> bool" where
  "paa_wf d \<longleftrightarrow> (\<forall>k p. ipv4_pools d k = Some p \<longrightarrow> pool_wf p)"

lemma pool_default_wf: "pool_wf ipv4_pool_default"
  by (auto simp: pool_wf_def ipv4_pool_default_def dense_def)

lemma pool4_wf: "paa_wf d \<Longrightarrow> pool_wf (pool4 d k)"
  by (auto simp: paa_wf_def pool4_def pool_default_wf split: option.splits)

lemma pool4_upd: "pool4 (d\<lparr>ipv4_pools := (ipv4_pools d)(k \<mapsto> p)\<rparr>) j = (if j = k then p else pool4 d j)"
  by (simp add: pool4_def)

lemma paa_wf_upd: "paa_wf d \<Longrightarrow> pool_wf p \<Longrightarrow> paa_wf (d\<lparr>ipv4_pools := (ipv4_pools d)(k \<mapsto> p)\<rparr>)"
  by (simp add: paa_wf_def)

lemma alloc4_first_spec:
  "paa_wf d \<Longrightarrow> alloc4_first ks paa d = (ok, paa', d') \<Longrightarrow>
     paa_wf d' \<and> apns d' = apns d \<and>
     (if ok then \<exists>k \<in> set ks. \<exists>j \<in> {0..<num (pool4 d k)} - offsets (pool4 d k).
           ipv4_address paa' = addr_of (pool4 d k) j
           \<and> (\<forall>i. offsets (pool4 d' i) = (if i = k then insert j (offsets (pool4 d i)) else offsets (pool4 d i)))
      else (\<forall>k \<in> set ks. offsets (pool4 d k) = {0..<num (pool4 d k)})
           \<and> (\<forall>i. pool4 d' i = pool4 d i))"
proof (induction ks arbitrary: paa d)
  case Nil
  then show ?case by auto
next
  case (Cons k ks)
  have wf: "pool_wf (pool4 d k)" using Cons.prems(1) by (rule pool4_wf)
  show ?case
  proof (cases "offsets (pool4 d k) = {0..<num (pool4 d k)}")
    case True
    let ?d = "d\<lparr>ipv4_pools := (ipv4_pools d)(k \<mapsto> pool4 d k)\<rparr>"
    have same: "pool4 ?d i = pool4 d i" for i by (simp add: pool4_upd)
    have "alloc4_first ks (paa\<lparr>ipv4_address := 0\<rparr>) ?d = (ok, paa', d')"
      using Cons.prems(2) alloc_address_full [OF wf True] by (simp add: Let_def)
    from Cons.IH [OF paa_wf_upd [OF Cons.prems(1) wf] this, unfolded same] True show ?thesis
      by (cases ok) (simp_all, blast?)
  next
    case False
    obtain j p' where r: "alloc_address (pool4 d k) = (True, addr_of (pool4 d k) j, p')"
      "j \<in> {0..<num (pool4 d k)} - offsets (pool4 d k)" "pool_wf p'"
      "offsets p' = insert j (offsets (pool4 d k))"
      using alloc_address_free [OF wf False] .
    then have ok: "ok" "paa' = paa\<lparr>ipv4_address := addr_of (pool4 d k) j\<rparr>"
      "d' = d\<lparr>ipv4_pools := (ipv4_pools d)(k \<mapsto> p')\<rparr>"
      using Cons.prems(2) by (simp_all add: Let_def)
    with r Cons.prems(1) show ?thesis
      by (auto simp: paa_wf_upd pool4_upd intro!: bexI [of _ j])
  qed
qed

lemma alloc4_first_total:
  assumes "paa_wf d" and "alloc4_first ks paa d = (ok, paa', d')"
  shows "paa_wf d' \<and> apns d' = apns d
    \<and> ok = (\<exists>k \<in> set ks. offsets (pool4 d k) \<noteq> {0..<num (pool4 d k)})
    \<and> (if ok then \<exists>k \<in> set ks. \<exists>j \<in> {0..<num (pool4 d k)} - offsets (pool4 d k).
           ipv4_address paa' = addr_of (pool4 d k) j
           \<and> (\<forall>i. offsets (pool4 d' i) = (if i = k then insert j (offsets (pool4 d i)) else offsets (pool4 d i)))
       else \<forall>i. pool4 d' i = pool4 d i)"
proof (cases ok)
  case True
  note spec = alloc4_first_spec [OF assms, unfolded if_P [OF True]]
  then have "\<exists>k \<in> set ks. offsets (pool4 d k) \<noteq> {0..<num (pool4 d k)}" by fast
  with True spec show ?thesis unfolding if_P [OF True] by blast
next
  case False
  note spec = alloc4_first_spec [OF assms, unfolded if_not_P [OF False]]
  with False show ?thesis unfolding if_not_P [OF False] by blast
qed

text \<open>
  C7: an IPv4 request for a configured APN always returns. It succeeds exactly when one of the
  pools of the APN has a free address; the address it returns is a free one of such a pool, and
  afterwards that address is allocated, with no other pool and no other address touched. When it
  fails, no pool has changed.
\<close>

theorem get_free_paa_ipv4:
  assumes "paa_wf d" and "apns d l = Some ap" and "pdn_type paa = PDN_TYPE_E_IPV4"
  shows "\<exists>ok paa' d'. get_free_paa l paa d = Inr (ok, paa', d') \<and> paa_wf d' \<and> apns d' = apns d
    \<and> ok = (\<exists>k \<in> set (ipv4_pool_ids ap). offsets (pool4 d k) \<noteq> {0..<num (pool4 d k)})
    \<and> (if ok then \<exists>k \<in> set (ipv4_pool_ids ap). \<exists>j \<in> {0..<num (pool4 d k)} - offsets (pool4 d k).
           ipv4_address paa' = addr_of (pool4 d k) j
           \<and> (\<forall>i. offsets (pool4 d' i) = (if i = k then insert j (offsets (pool4 d i)) else offsets (pool4 d i)))
       else \<forall>i. pool4 d' i = pool4 d i)"
proof -
  obtain ok paa' d' where r: "alloc4_first (ipv4_pool_ids ap) paa d = (ok, paa', d')"
    by (metis prod_cases3)
  with assms have "get_free_paa l paa d = Inr (ok, paa', d')" by (simp add: get_free_paa_def)
  from conjI [OF this alloc4_first_total [OF assms(1) r]] show ?thesis by blast
qed

definition paa_10 :: paa_dynamic where
  "paa_10 = add_pool ''internet'' 0 (htobe32 0x0A000001) 3 paa_dynamic_init"

definition paa_req :: paa where
  "paa_req = \<lparr>pdn_type = PDN_TYPE_E_IPV4, ipv6_prefix_length = 0, ipv6_address = 0, ipv4_address = 0\<rparr>"

lemma paa_10_simps:
  "paa_wf paa_10" "apns paa_10 ''internet'' = Some \<lparr>ipv4_pool_ids = [0], ipv6_pool_ids = []\<rparr>"
  "pool4 paa_10 0 = pool_10"
  using pool_10_inv(1)
  by (simp_all add: paa_10_def add_pool_def paa_dynamic_init_def Let_def paa_wf_def pool_10_def pool4_def)

theorem get_free_paa_ipv4_witness:
  "\<exists>paa' d'. get_free_paa ''internet'' paa_req paa_10 = Inr (True, paa', d') \<and> paa_wf d'"
proof -
  have ne: "offsets (pool4 paa_10 0) \<noteq> {0..<num (pool4 paa_10 0)}"
    by (simp add: paa_10_simps pool_10_inv)
  have "pdn_type paa_req = PDN_TYPE_E_IPV4" by (simp add: paa_req_def)
  from get_free_paa_ipv4 [OF paa_10_simps(1,2) this] ne show ?thesis by auto
qed

lemma free4_first_single:
  "free_address a (pool4 d k) = Inr (True, p) \<Longrightarrow>
     free4_first [k] a d = Inr (True, d\<lparr>ipv4_pools := (ipv4_pools d)(k \<mapsto> p)\<rparr>)"
  by (simp add: Let_def)

text \<open>
  C8: for an APN with one IPv4 pool, which is what the start-up code configures, releasing the PAA
  that an IPv4 request returned is accepted and restores the allocated addresses of every pool.
\<close>

theorem get_release_paa_roundtrip:
  assumes wf: "paa_wf d" and ap: "apns d l = Some ap" "ipv4_pool_ids ap = [k]"
    and ns: "no_straddle (pool4 d k)" and v4: "pdn_type paa = PDN_TYPE_E_IPV4"
    and get: "get_free_paa l paa d = Inr (True, paa', d1)"
  shows "\<exists>d2. release_paa l paa' d1 = Inr (True, d2) \<and> paa_wf d2
    \<and> (\<forall>i. offsets (pool4 d2 i) = offsets (pool4 d i))"
proof -
  let ?p = "pool4 d k"
  have p: "pool_wf ?p" using wf by (rule pool4_wf)
  obtain a p1 where al: "alloc_address ?p = (True, a, p1)"
    and r: "paa' = paa\<lparr>ipv4_address := a\<rparr>" "d1 = d\<lparr>ipv4_pools := (ipv4_pools d)(k \<mapsto> p1)\<rparr>"
    using get ap v4 by (auto simp: get_free_paa_def Let_def split: prod.splits if_splits)
  obtain p2 where fr: "free_address a p1 = Inr (True, p2)" and p2: "pool_wf p2" "offsets p2 = offsets ?p"
    using alloc_free_ok [OF p ns al] by blast
  have "pool_wf p1" using alloc_free_ok [OF p ns al] by blast
  with wf have "paa_wf d1" using r(2) by (simp add: paa_wf_upd)
  moreover have "release_paa l paa' d1 = Inr (True, d1\<lparr>ipv4_pools := (ipv4_pools d1)(k \<mapsto> p2)\<rparr>)"
    using ap v4 r fr by (simp add: release_paa_def pool4_upd Let_def)
  ultimately show ?thesis using p2 r(2) paa_wf_upd [of d1 p2 k] pool4_upd by simp
qed

theorem get_release_paa_roundtrip_witness:
  "\<exists>paa' d1 d2. get_free_paa ''internet'' paa_req paa_10 = Inr (True, paa', d1)
     \<and> release_paa ''internet'' paa' d1 = Inr (True, d2)
     \<and> offsets (pool4 d2 0) = {}"
proof -
  have "offsets pool_10 \<noteq> {0..<num pool_10}" by (simp add: pool_10_inv)
  from alloc_address_free [OF pool_10_inv(1) this] obtain j p1 where
    "alloc_address pool_10 = (True, addr_of pool_10 j, p1)" by metis
  then obtain paa' d1 where g: "get_free_paa ''internet'' paa_req paa_10 = Inr (True, paa', d1)"
    by (simp add: get_free_paa_def paa_10_simps paa_req_def Let_def)
  have "no_straddle (pool4 paa_10 0)" by (simp add: paa_10_simps pool_10_inv)
  moreover have "pdn_type paa_req = PDN_TYPE_E_IPV4" by (simp add: paa_req_def)
  ultimately show ?thesis
    using get_release_paa_roundtrip [OF paa_10_simps(1,2) _ _ _ g, of 0] g
    by (auto simp: paa_10_simps pool_10_inv)
qed

section \<open>The pools that the configuration sets up\<close>

text \<open>The states of the singleton: configured at start-up, then used by get and release calls.\<close>

inductive paa_reach :: "pdn_cfg list \<Rightarrow> paa_dynamic \<Rightarrow> bool" for ps where
  reach_config: "paa_reach ps (apply_config 0 ps paa_dynamic_init)"
| reach_get: "paa_reach ps d \<Longrightarrow> get_free_paa l paa d = Inr (ok, paa', d') \<Longrightarrow> paa_reach ps d'"
| reach_release: "paa_reach ps d \<Longrightarrow> release_paa l paa d = Inr (ok, d') \<Longrightarrow> paa_reach ps d'"
| reach_release4: "paa_reach ps d \<Longrightarrow> release_paa_ipv4 l a d = Inr (ok, d') \<Longrightarrow> paa_reach ps d'"

lemma alloc4_first_apns: "alloc4_first ks paa d = (ok, paa', d') \<Longrightarrow> apns d' = apns d"
  by (induction ks arbitrary: paa d) (auto simp: Let_def split: prod.splits if_splits)

lemma alloc4_all_apns: "alloc4_all ks s paa d = (ok, paa', d') \<Longrightarrow> apns d' = apns d"
  by (induction ks arbitrary: s paa d) (auto split: prod.splits)

lemma alloc6_first_apns: "alloc6_first ks paa d = (ok, paa', d') \<Longrightarrow> apns d' = apns d"
  by (induction ks arbitrary: paa d) (auto simp: Let_def split: prod.splits if_splits)

lemma free4_first_apns: "free4_first ks a d = Inr (ok, d') \<Longrightarrow> apns d' = apns d"
  by (induction ks arbitrary: d) (auto simp: Let_def split: sum.splits prod.splits if_splits)

lemma get_free_paa_apns: "get_free_paa l paa d = Inr (ok, paa', d') \<Longrightarrow> apns d' = apns d"
  by (auto simp: get_free_paa_def alloc4_first_apns split: option.splits if_splits prod.splits
      dest!: alloc4_first_apns alloc4_all_apns alloc6_first_apns)

lemma release_paa_apns: "release_paa l paa d = Inr (ok, d') \<Longrightarrow> apns d' = apns d"
  "release_paa_ipv4 l a d = Inr (ok, d') \<Longrightarrow> apns d' = apns d"
  by (auto simp: release_paa_def release_paa_ipv4_def split: option.splits if_splits
      dest!: free4_first_apns)

lemma paa_reach_apns: "paa_reach ps d \<Longrightarrow> apns d = apns (apply_config 0 ps paa_dynamic_init)"
  by (induction rule: paa_reach.induct) (auto dest: get_free_paa_apns release_paa_apns)

definition apns_v4 :: "paa_dynamic \<Rightarrow> bool" where
  "apns_v4 d \<longleftrightarrow> (\<forall>ap \<in> ran (apns d). ipv6_pool_ids ap = [])"

lemma add_pool_apns:
  assumes "0 \<le> n"
  shows "apns (add_pool6 l (n + 1) x len (add_pool l n first rng d))
    = (case apns d l of None \<Rightarrow> (apns d)(l \<mapsto> \<lparr>ipv4_pool_ids = [of_int n], ipv6_pool_ids = []\<rparr>)
       | Some _ \<Rightarrow> apns d)"
  using assms by (simp add: add_pool_def add_pool6_def Let_def split: option.splits)

lemma add_pool_ipv4_pools:
  assumes "0 \<le> n"
  shows "ipv4_pools (add_pool6 l (n + 1) x len (add_pool l n first rng d))
    = (case ipv4_pools d (of_int n) of
         None \<Rightarrow> (ipv4_pools d)(of_int n \<mapsto> ipv4_pool_new first rng) | Some _ \<Rightarrow> ipv4_pools d)"
  using assms by (simp add: add_pool_def add_pool6_def Let_def split: option.splits)

lemma apply_config_v4: "apns_v4 d \<Longrightarrow> 0 \<le> n \<Longrightarrow> apns_v4 (apply_config n ps d)"
proof (induction n ps d rule: apply_config.induct)
  case (2 n p ps d)
  from "2.prems" have "apns_v4 (add_pool6 (apn_label p) (n + 1) (paa_pool6_prefix p) (paa_pool6_prefix_len p)
         (add_pool (apn_label p) n (ue_pool_range_low p)
            (be32toh (ue_pool_range_high p) - be32toh (ue_pool_range_low p)) d))"
    unfolding apns_v4_def add_pool_apns [OF "2.prems"(2)]
    by (cases "apns d (apn_label p)") (simp_all add: ran_map_upd)
  with 2 show ?case by simp
qed simp

lemma paa_reach_v4: "paa_reach ps d \<Longrightarrow> apns_v4 d"
  using paa_reach_apns [of ps d] apply_config_v4 [of paa_dynamic_init 0 ps]
  by (simp add: apns_v4_def paa_dynamic_init_def)

text \<open>
  the IPv6 pools of the configuration are never used. In every state the program can reach from
  its start-up configuration, an IPv6 request fails and changes nothing, and an IPv4v6 request never
  succeeds: it fails, or it dereferences the end of the list of pools.
\<close>

theorem configured_ipv6_unusable:
  assumes "paa_reach ps d"
  shows "(pdn_type paa = PDN_TYPE_E_IPV6 \<longrightarrow> get_free_paa l paa d = Inr (False, paa, d))
    \<and> (pdn_type paa = PDN_TYPE_E_IPV4V6 \<longrightarrow>
         get_free_paa l paa d = Inl Deref_end \<or> (\<exists>paa' d'. get_free_paa l paa d = Inr (False, paa', d')))"
proof (cases "apns d l")
  case None
  then show ?thesis by (simp add: get_free_paa_def)
next
  case (Some ap)
  with paa_reach_v4 [OF assms] have "ipv6_pool_ids ap = []" by (auto simp: apns_v4_def intro: ranI)
  with Some show ?thesis
    by (auto simp: get_free_paa_def pdn_type_defs split: prod.splits)
qed

definition cfg_10 :: pdn_cfg where
  "cfg_10 = \<lparr>apn_label = ''internet'', ue_pool_range_low = htobe32 0x0A000001,
     ue_pool_range_high = htobe32 0x0A000004, paa_pool6_prefix = 0x20010db8, paa_pool6_prefix_len = 64\<rparr>"

theorem configured_ipv6_unusable_witness:
  "get_free_paa ''internet'' (paa_req\<lparr>pdn_type := PDN_TYPE_E_IPV6\<rparr>)
       (apply_config 0 [cfg_10] paa_dynamic_init)
     = Inr (False, paa_req\<lparr>pdn_type := PDN_TYPE_E_IPV6\<rparr>, apply_config 0 [cfg_10] paa_dynamic_init)"
  using configured_ipv6_unusable [OF reach_config [of "[cfg_10]"],
      where paa = "paa_req\<lparr>pdn_type := PDN_TYPE_E_IPV6\<rparr>" and l = "''internet''"] by simp

lemma of_int_u32_inject:
  "0 \<le> a \<Longrightarrow> a < 2 ^ 32 \<Longrightarrow> 0 \<le> b \<Longrightarrow> b < 2 ^ 32 \<Longrightarrow> (of_int a :: u32) = of_int b \<Longrightarrow> a = b"
  using word_of_int_eq_iff [where 'a = 32, of a b] by (simp add: take_bit_int_eq_self)

lemma apply_config_other:
  assumes "l \<notin> apn_label ` set ps" and "k < n" and "0 \<le> k" and "n + 2 * int (length ps) < 2 ^ 31"
  shows "apns (apply_config n ps d) l = apns d l"
    and "ipv4_pools (apply_config n ps d) (of_int k) = ipv4_pools d (of_int k)"
proof -
  from assms show "apns (apply_config n ps d) l = apns d l"
    by (induction n ps d rule: apply_config.induct) (auto simp: add_pool_def add_pool6_def Let_def)
  from assms show "ipv4_pools (apply_config n ps d) (of_int k) = ipv4_pools d (of_int k)"
  proof (induction n ps d rule: apply_config.induct)
    case (2 n p ps d)
    then have "(of_int n :: u32) \<noteq> of_int k" using of_int_u32_inject [of n k] by auto
    with 2 show ?case by (auto simp: add_pool_def add_pool6_def Let_def)
  qed simp
qed

lemma apply_config_nth:
  assumes "distinct (map apn_label ps)" and "0 \<le> n" and "n + 2 * int (length ps) < 2 ^ 31"
    and "\<forall>i. n \<le> i \<longrightarrow> i < n + 2 * int (length ps) \<longrightarrow> ipv4_pools d (of_int i) = None"
    and "\<forall>p \<in> set ps. apns d (apn_label p) = None" and "i < length ps"
  shows "apns (apply_config n ps d) (apn_label (ps ! i))
           = Some \<lparr>ipv4_pool_ids = [of_int (n + 2 * int i)], ipv6_pool_ids = []\<rparr>
       \<and> ipv4_pools (apply_config n ps d) (of_int (n + 2 * int i))
           = Some (ipv4_pool_new (ue_pool_range_low (ps ! i))
               (be32toh (ue_pool_range_high (ps ! i)) - be32toh (ue_pool_range_low (ps ! i))))"
  using assms
proof (induction n ps d arbitrary: i rule: apply_config.induct)
  case (2 n p ps d)
  let ?d = "add_pool6 (apn_label p) (n + 1) (paa_pool6_prefix p) (paa_pool6_prefix_len p)
         (add_pool (apn_label p) n (ue_pool_range_low p)
            (be32toh (ue_pool_range_high p) - be32toh (ue_pool_range_low p)) d)"
  have n: "ipv4_pools d (of_int n) = None" using "2.prems"(2-4) by simp
  have d: "apns ?d = (apns d)(apn_label p \<mapsto> \<lparr>ipv4_pool_ids = [of_int n], ipv6_pool_ids = []\<rparr>)"
    "ipv4_pools ?d = (ipv4_pools d)(of_int n \<mapsto> ipv4_pool_new (ue_pool_range_low p)
       (be32toh (ue_pool_range_high p) - be32toh (ue_pool_range_low p)))"
    using "2.prems"(2,5) n by (simp_all add: add_pool_def add_pool6_def Let_def)
  show ?case
  proof (cases i)
    case 0
    have "apn_label p \<notin> apn_label ` set ps" using "2.prems"(1) by simp
    from apply_config_other [OF this, of n "n + 2"] "2.prems"(2,3) d 0 show ?thesis by simp
  next
    case (Suc j)
    have new: "ipv4_pools ?d (of_int i) = None"
      if "n + 2 \<le> i" "i < n + 2 + 2 * int (length ps)" for i
      using that "2.prems"(2-4) of_int_u32_inject [of i n] d(2) by auto
    have "apns ?d (apn_label q) = None" if "q \<in> set ps" for q
      using that "2.prems"(1,5) d(1) by (metis fun_upd_other distinct.simps(2) image_eqI list.set_map list.simps(9) list.set_intros(2))
    with 2 Suc new show ?thesis by (simp add: algebra_simps)
  qed
qed simp

lemma sint_nonneg_unat:
  fixes r :: u32
  assumes "unat r < 2 ^ 31"
  shows "0 \<le> sint r"
proof -
  have "int (unat r) < int (2 ^ 31)" using assms by (simp only: of_nat_less_iff)
  then have "uint r < 2 ^ 31" by simp
  then have "sint (of_int (uint r) :: u32) = uint r" by (intro sint_of_int_small) simp_all
  then show ?thesis by simp
qed

lemma pool_range_image:
  assumes "be32toh (start p) = low" and "low \<le> high"
  shows "addr_of p ` {0..<int (unat (high - low))} = htobe32 ` {low..<high}"
proof -
  have hb: "unat high < 2 ^ LENGTH(32)" by (rule unsigned_less)
  have "(\<lambda>k. low + of_int k) ` {0..<int (unat (high - low))} = {low..<high}" (is "?f ` ?A = _")
  proof (intro subset_antisym subsetI)
    fix x assume "x \<in> ?f ` ?A"
    then obtain k where k: "0 \<le> k" "k < uint (high - low)" "x = low + of_int k" by auto
    then have "uint (of_int k :: u32) = k"
      using uint_bounded [of "high - low"] by (simp add: uint_word_of_int take_bit_int_eq_self)
    with k have "of_int k < high - low" by (simp add: word_less_def)
    with assms(2) have "unat low + unat (of_int k :: u32) < unat high"
      by (auto simp: word_less_nat_alt word_le_nat_alt unat_sub)
    moreover from this have "unat x = unat low + unat (of_int k :: u32)"
      using hb k(3) by (simp add: unat_word_ariths)
    ultimately show "x \<in> {low..<high}" by (simp add: word_less_nat_alt word_le_nat_alt)
  next
    fix x assume x: "x \<in> {low..<high}"
    then have "x = ?f (uint (x - low))" by simp
    moreover have "x - low < high - low" using x assms(2) by (auto simp: word_less_nat_alt word_le_nat_alt unat_sub)
    ultimately show "x \<in> ?f ` ?A" by (intro image_eqI [of _ _ "uint (x - low)"]) (auto simp: word_less_def)
  qed
  then have "htobe32 ` ?f ` ?A = htobe32 ` {low..<high}" by simp
  then show ?thesis using assms(1) by (simp only: addr_of_def [abs_def] image_image)
qed

text \<open>
  After start-up each configured PDN (the labels being distinct) has one IPv4 pool. It starts at
  the configured low address and has \<^verbatim>\<open>high - low\<close> addresses, all free, so the configured high
  address is not one of them.
\<close>

theorem apply_config_ipv4_pools:
  assumes "distinct (map apn_label ps)" and "2 * int (length ps) < 2 ^ 31" and "i < length ps"
    and "low = be32toh (ue_pool_range_low (ps ! i))" and "high = be32toh (ue_pool_range_high (ps ! i))"
    and "low \<le> high" and "unat (high - low) < 2 ^ 31"
  shows "let d = apply_config 0 ps paa_dynamic_init in
    \<exists>k. apns d (apn_label (ps ! i)) = Some \<lparr>ipv4_pool_ids = [k], ipv6_pool_ids = []\<rparr>
      \<and> pool_wf (pool4 d k) \<and> offsets (pool4 d k) = {}
      \<and> pool_univ (pool4 d k) = htobe32 ` {low..<high}
      \<and> ue_pool_range_high (ps ! i) \<notin> pool_univ (pool4 d k)"
proof -
  let ?d = "apply_config 0 ps paa_dynamic_init"
  have nth: "apns ?d (apn_label (ps ! i)) = Some \<lparr>ipv4_pool_ids = [of_int (2 * int i)], ipv6_pool_ids = []\<rparr>"
    "pool4 ?d (of_int (2 * int i)) = ipv4_pool_new (ue_pool_range_low (ps ! i)) (high - low)"
    using apply_config_nth [OF assms(1), of 0 paa_dynamic_init i] assms(2-5)
    by (simp_all add: paa_dynamic_init_def pool4_def)
  have "0 \<le> sint (high - low)" using assms(7) by (rule sint_nonneg_unat)
  note new = pool_new_wf [OF this, of "ue_pool_range_low (ps ! i)"]
  have univ: "pool_univ (pool4 ?d (of_int (2 * int i))) = htobe32 ` {low..<high}"
    unfolding nth(2) pool_univ_def using pool_range_image [OF _ assms(6)] assms(4) new by metis
  moreover have "ue_pool_range_high (ps ! i) = htobe32 high" using assms(5) by simp
  ultimately show ?thesis using nth new by (auto simp: Let_def)
qed

theorem apply_config_ipv4_pools_witness:
  "\<exists>k. apns (apply_config 0 [cfg_10] paa_dynamic_init) ''internet''
         = Some \<lparr>ipv4_pool_ids = [k], ipv6_pool_ids = []\<rparr>
     \<and> pool_univ (pool4 (apply_config 0 [cfg_10] paa_dynamic_init) k) = htobe32 ` {0x0A000001..<0x0A000004}
     \<and> htobe32 0x0A000004 \<notin> pool_univ (pool4 (apply_config 0 [cfg_10] paa_dynamic_init) k)"
  using apply_config_ipv4_pools [of "[cfg_10]" 0, OF _ _ _ refl refl]
  by (simp add: cfg_10_def Let_def del: apply_config.simps) blast

end
