(* ===== verification/Pfcp_Assoc.thy ===== *)
theory Pfcp_Assoc
  imports Transport Paa_Dynamic
begin

text \<open>
  The user-plane nodes of the PGW (\<^verbatim>\<open>oai_spgwc/PfcpUpNodes.cpp\<close>), the PFCP associations with them
  (\<^verbatim>\<open>oai_spgwc/pgw_pfcp_association.cpp\<close>) with their heartbeat timers, and the part of
  \<^verbatim>\<open>pgw_config\<close> that says which node serves which APN and area. The two components call each other
  and are one state here. A \<^verbatim>\<open>folly::AtomicHashMap\<close> keyed by the 32-bit hash of a node identity is
  a list of pairs in its iteration order. \<^verbatim>\<open>std::hash\<close> of the standard library is a parameter
  (\<open>std_hash\<close>), as is the choice of \<^verbatim>\<open>up_nodes_associated.begin()\<close>, the element with the lowest
  address of a set of pointers. The messages given to the PFCP stack are a trace.
\<close>

section \<open>Node identities\<close>

text \<open>\<^verbatim>\<open>u1\<close> is a union: the IPv4 address is the first word of the IPv6 address.\<close>

record node_id =
  node_id_type :: u8
  w0 :: u32
  w1 :: u32
  w2 :: u32
  w3 :: u32
  fqdn :: string

definition NODE_ID_TYPE_IPV4_ADDRESS :: u8 where "NODE_ID_TYPE_IPV4_ADDRESS = 0"
definition NODE_ID_TYPE_IPV6_ADDRESS :: u8 where "NODE_ID_TYPE_IPV6_ADDRESS = 1"
definition NODE_ID_TYPE_FQDN :: u8 where "NODE_ID_TYPE_FQDN = 2"

definition node_id_default :: node_id where
  "node_id_default = \<lparr>node_id_type = 0, w0 = 0, w1 = 0, w2 = 0, w3 = 0, fqdn = []\<rparr>"

definition node_id_eq_string :: "node_id \<Rightarrow> string \<Rightarrow> bool" where
  "node_id_eq_string n f \<longleftrightarrow> node_id_type n = NODE_ID_TYPE_FQDN \<and> fqdn n = f"

record std_hash =
  hash_uint32 :: "u32 \<Rightarrow> u64"
  hash_std_string :: "string \<Rightarrow> u64"

definition hash_node_id :: "std_hash \<Rightarrow> node_id \<Rightarrow> u64" where
  "hash_node_id h k =
     (if node_id_type k = NODE_ID_TYPE_IPV4_ADDRESS then hash_uint32 h (w0 k)
      else if node_id_type k = NODE_ID_TYPE_IPV6_ADDRESS then ucast (w0 k XOR w1 k XOR w2 k XOR w3 k)
      else if node_id_type k = NODE_ID_TYPE_FQDN then hash_std_string h (fqdn k)
      else 0)"

text \<open>The F-SEIDs of the sessions of a node; \<^verbatim>\<open>std::set\<close> keeps them in the order of \<open>fseid_less\<close>.\<close>

record fseid =
  fs_v4 :: bool
  fs_v6 :: bool
  fs_seid :: seid
  fs_ipv4 :: u32
  fs_w0 :: u32
  fs_w1 :: u32
  fs_w2 :: u32
  fs_w3 :: u32

definition fseid_default :: fseid where
  "fseid_default = \<lparr>fs_v4 = False, fs_v6 = False, fs_seid = 0, fs_ipv4 = 0, fs_w0 = 0, fs_w1 = 0, fs_w2 = 0, fs_w3 = 0\<rparr>"

definition join64 :: "u32 \<Rightarrow> u32 \<Rightarrow> u64" where
  "join64 a b = push_bit 32 (ucast a) OR ucast b"

definition fseid_less :: "fseid \<Rightarrow> fseid \<Rightarrow> bool" where
  "fseid_less t i =
     (if fs_seid i < fs_seid t then True
      else if fs_seid i > fs_seid t then False
      else if fs_v4 i = fs_v4 t \<and> fs_ipv4 i > fs_ipv4 t then True
      else if fs_v4 i = fs_v4 t \<and> fs_ipv4 i < fs_ipv4 t then False
      else if fs_v4 i \<noteq> fs_v4 t \<and> fs_v4 t then True
      else if fs_v6 i = fs_v6 t then
        (let i64 = join64 (fs_w0 i) (fs_w1 i); t64 = join64 (fs_w0 t) (fs_w1 t) in
         if i64 < t64 then True
         else if i64 > t64 then False
         else (let i64 = join64 (fs_w2 i) (fs_w3 i); t64 = join64 (fs_w2 t) (fs_w3 t) in
               if i64 < t64 then True else False))
      else fs_v6 t)"

fun sset_insert :: "('a \<Rightarrow> 'a \<Rightarrow> bool) \<Rightarrow> 'a \<Rightarrow> 'a list \<Rightarrow> 'a list" where
  "sset_insert lt x [] = [x]"
| "sset_insert lt x (y # ys) =
     (if lt x y then x # y # ys else if lt y x then y # sset_insert lt x ys else y # ys)"

fun sset_erase :: "('a \<Rightarrow> 'a \<Rightarrow> bool) \<Rightarrow> 'a \<Rightarrow> 'a list \<Rightarrow> 'a list" where
  "sset_erase lt x [] = []"
| "sset_erase lt x (y # ys) =
     (if lt x y then y # ys else if lt y x then y # sset_erase lt x ys else ys)"

fun sset_has :: "('a \<Rightarrow> 'a \<Rightarrow> bool) \<Rightarrow> 'a \<Rightarrow> 'a list \<Rightarrow> bool" where
  "sset_has lt x [] = False"
| "sset_has lt x (y # ys) = (if lt x y then False else if lt y x then sset_has lt x ys else True)"

section \<open>State\<close>

datatype association_state =
  kAssocNullState | kAssocKnownPossible | kAssocInitiatedState | kAssocSetupState | kAssocUnstable | kAssocLost

text \<open>Two information elements the components store and hand on without looking at them.\<close>

typedecl up_function_features
typedecl user_plane_ip_resource_information

record pfcp_association =
  a_node_id :: node_id
  a_hash_node_id :: u64
  a_id :: string
  a_recovery_time_stamp :: u32
  a_function_features :: "up_function_features option"
  a_user_plane_ip_resource_information :: "user_plane_ip_resource_information option"
  a_remote_endpoint :: endpoint
  sessions :: "fseid list"
  timer_heartbeat :: timer_id
  num_retries_timer_heartbeat :: int
  trxn_id_heartbeat :: u64
  is_restore_sessions_pending :: bool
  is_trigger_heartbeat_request_procedure :: bool
  timer_association :: timer_id
  a_state :: association_state

definition pfcp_association_new :: "std_hash \<Rightarrow> node_id \<Rightarrow> pfcp_association" where
  "pfcp_association_new h n =
     \<lparr>a_node_id = n, a_hash_node_id = hash_node_id h n, a_id = [], a_recovery_time_stamp = 0,
      a_function_features = None, a_user_plane_ip_resource_information = None,
      a_remote_endpoint = endpoint_default, sessions = [], timer_heartbeat = ITTI_INVALID_TIMER_ID,
      num_retries_timer_heartbeat = 0, trxn_id_heartbeat = 0, is_restore_sessions_pending = False,
      is_trigger_heartbeat_request_procedure = True, timer_association = ITTI_INVALID_TIMER_ID,
      a_state = kAssocNullState\<rparr>"

text \<open>
  The constructors with the elements of a set-up message. The last one leaves the state and the
  heartbeat flag uninitialised; its only caller assigns both at once.
\<close>

definition pfcp_association_new_request ::
  "std_hash \<Rightarrow> node_id \<Rightarrow> u32 \<Rightarrow> up_function_features option \<Rightarrow> user_plane_ip_resource_information option \<Rightarrow> pfcp_association" where
  "pfcp_association_new_request h n rts uff upiri =
     (pfcp_association_new h n)\<lparr>a_recovery_time_stamp := rts, a_function_features := uff,
        a_user_plane_ip_resource_information := upiri\<rparr>"

definition pfcp_association_new_response ::
  "std_hash \<Rightarrow> node_id \<Rightarrow> u32 \<Rightarrow> up_function_features option \<Rightarrow> pfcp_association" where
  "pfcp_association_new_response h n rts uff =
     (pfcp_association_new h n)\<lparr>a_recovery_time_stamp := rts, a_function_features := uff\<rparr>"

record PfcpUpNode =
  n_id :: string
  n_node_id :: node_id
  n_hash_node_id :: u64
  n_peer_recovery_time_stamp :: u32
  n_peer_function_features :: "up_function_features option"
  n_remote_endpoint :: endpoint
  n_association_state :: association_state
  consecutive_failed_echo_proc :: u32
  consecutive_successful_echo_proc :: u32
  failed_echo_proc :: u64
  successful_echo_proc :: u64
  restarts :: u64

definition PfcpUpNode_new :: "string \<Rightarrow> PfcpUpNode" where
  "PfcpUpNode_new i =
     \<lparr>n_id = i, n_node_id = node_id_default, n_hash_node_id = 0, n_peer_recovery_time_stamp = 0,
      n_peer_function_features = None, n_remote_endpoint = endpoint_default,
      n_association_state = kAssocNullState, consecutive_failed_echo_proc = 0,
      consecutive_successful_echo_proc = 0, failed_echo_proc = 0, successful_echo_proc = 0, restarts = 0\<rparr>"

text \<open>The PFCP causes and the messages handed to the PFCP stack.\<close>

definition CAUSE_VALUE_REQUEST_ACCEPTED :: u8 where "CAUSE_VALUE_REQUEST_ACCEPTED = 1"
definition CAUSE_VALUE_REQUEST_REJECTED :: u8 where "CAUSE_VALUE_REQUEST_REJECTED = 64"

datatype sx_node_msg =
    Association_setup_response u64 u8 node_id endpoint
  | Heartbeat_request u64 endpoint

text \<open>\<^verbatim>\<open>itti_sx_restore\<close> messages of the restore procedure.\<close>

datatype sx_restore_msg = Sx_restore "fseid list"

record 'p up_plane =
  associations :: "(u32 \<times> pfcp_association) list"
  pending_associations :: "pfcp_association list"
  up_nodes :: "(u32 \<times> PfcpUpNode) list"
  pending_nodes :: "PfcpUpNode list"
  up_mw :: "'p itti_mw"
  trxn_ids :: "u64 uint_generator"
  sx_out :: "sx_node_msg list"
  restore_out :: "sx_restore_msg list"

text \<open>What is read of the configuration.\<close>

record tai_core =
  tai_mcc_mnc :: "u8 list"
  tracking_area_code :: u16

record uli_info =
  uli_tai :: bool
  tai1 :: tai_core

definition is_tai :: "uli_info \<Rightarrow> tai_core \<Rightarrow> bool" where
  "is_tai u t \<longleftrightarrow> uli_tai u \<and> tai1 u = t"

record PdnCfg = pdn_cfg +
  apn :: string
  cfg_pdn_type :: u8

record up_node_cfg =
  u_tai :: tai_core
  pdn_index :: nat
  u_id :: string

record up_cfg =
  pdns :: "PdnCfg list"
  nodes :: "up_node_cfg list"
  association_heartbeat_period_ms :: u32
  sx_addr4 :: u32
  sx_addr6 :: "u32 \<times> u32 \<times> u32 \<times> u32"

section \<open>Configuration\<close>

text \<open>The comparison is on the addresses as they are in memory, in network byte order.\<close>

definition is_in_pool :: "PdnCfg \<Rightarrow> paa \<Rightarrow> bool" where
  "is_in_pool c p =
     (if pdn_type p = PDN_TYPE_E_IPV4
      then ue_pool_range_low c \<le> ipv4_address p \<and> ipv4_address p \<le> ue_pool_range_high c
      else False)"

fun GetUpNodes_loop ::
  "up_cfg \<Rightarrow> string \<Rightarrow> uli_info \<Rightarrow> paa \<Rightarrow> up_node_cfg list \<Rightarrow> up_node_cfg list \<Rightarrow> up_node_cfg list outcome" where
  "GetUpNodes_loop cfg a uli p [] acc = Inr acc"
| "GetUpNodes_loop cfg a uli p (n # ns) acc =
     (if pdn_index n < length (pdns cfg) then
        (let c = pdns cfg ! pdn_index n in
         if is_ip_assigned p \<and> \<not> is_in_pool c p then GetUpNodes_loop cfg a uli p ns acc
         else if a = apn c \<and> is_tai uli (u_tai n) then GetUpNodes_loop cfg a uli p ns (acc @ [n])
         else GetUpNodes_loop cfg a uli p ns acc)
      else Inl Out_of_range)"

definition GetUpNodes :: "up_cfg \<Rightarrow> string \<Rightarrow> uli_info \<Rightarrow> paa \<Rightarrow> (bool \<times> up_node_cfg list) outcome" where
  "GetUpNodes cfg a uli p =
     obind (GetUpNodes_loop cfg a uli p (nodes cfg) []) (\<lambda>ns. Inr (length ns > 0, ns))"

definition IsDottedApnHandled :: "up_cfg \<Rightarrow> string \<Rightarrow> u8 \<Rightarrow> bool" where
  "IsDottedApnHandled cfg t_apn t = list_ex (\<lambda>p. t_apn = apn p \<and> t = cfg_pdn_type p) (pdns cfg)"

definition sx_has_addr6 :: "up_cfg \<Rightarrow> bool" where
  "sx_has_addr6 cfg = (case sx_addr6 cfg of (a, b, c, d) \<Rightarrow> a OR b OR c OR d \<noteq> 0)"

definition GetPfcpNodeId :: "up_cfg \<Rightarrow> int \<times> node_id" where
  "GetPfcpNodeId cfg =
     (if sx_addr4 cfg \<noteq> 0 then
        (RETURNok, node_id_default\<lparr>node_id_type := NODE_ID_TYPE_IPV4_ADDRESS, w0 := sx_addr4 cfg\<rparr>)
      else if sx_has_addr6 cfg then
        (case sx_addr6 cfg of (a, b, c, d) \<Rightarrow>
           (RETURNok, node_id_default\<lparr>node_id_type := NODE_ID_TYPE_IPV6_ADDRESS, w0 := a, w1 := b, w2 := c, w3 := d\<rparr>))
      else (RETURNerror, node_id_default))"

definition GetPfcpFseid :: "up_cfg \<Rightarrow> int \<times> fseid" where
  "GetPfcpFseid cfg =
     (let f1 = (if sx_addr4 cfg \<noteq> 0 then fseid_default\<lparr>fs_v4 := True, fs_ipv4 := sx_addr4 cfg\<rparr> else fseid_default);
          f2 = (if sx_has_addr6 cfg
                then (case sx_addr6 cfg of (a, b, c, d) \<Rightarrow>
                        f1\<lparr>fs_v6 := True, fs_w0 := a, fs_w1 := b, fs_w2 := c, fs_w3 := d\<rparr>)
                else f1)
      in (if sx_addr4 cfg \<noteq> 0 \<or> sx_has_addr6 cfg then RETURNok else RETURNerror, f2))"

section \<open>Associations\<close>

definition get_association :: "std_hash \<Rightarrow> node_id \<Rightarrow> 'p up_plane \<Rightarrow> pfcp_association option" where
  "get_association h n s = map_of (associations s) (ucast (hash_node_id h n))"

text \<open>The object under a key, changed in place; and a new one.\<close>

definition put_association :: "u32 \<Rightarrow> pfcp_association \<Rightarrow> 'p up_plane \<Rightarrow> 'p up_plane" where
  "put_association k a s = s\<lparr>associations := AList.update k a (associations s)\<rparr>"

definition association_add_session :: "fseid \<Rightarrow> pfcp_association \<Rightarrow> pfcp_association" where
  "association_add_session f a = a\<lparr>sessions := sset_insert fseid_less f (sessions a)\<rparr>"

definition has_session :: "fseid \<Rightarrow> pfcp_association \<Rightarrow> bool" where
  "has_session f a = sset_has fseid_less f (sessions a)"

definition association_del_session :: "fseid \<Rightarrow> pfcp_association \<Rightarrow> pfcp_association" where
  "association_del_session f a = a\<lparr>sessions := sset_erase fseid_less f (sessions a)\<rparr>"

definition notify_add_session :: "std_hash \<Rightarrow> node_id \<Rightarrow> fseid \<Rightarrow> 'p up_plane \<Rightarrow> 'p up_plane" where
  "notify_add_session h n f s =
     (case get_association h n s of
        None \<Rightarrow> s
      | Some a \<Rightarrow> put_association (ucast (hash_node_id h n)) (association_add_session f a) s)"

definition get_association_fseid :: "fseid \<Rightarrow> 'p up_plane \<Rightarrow> (u32 \<times> pfcp_association) option" where
  "get_association_fseid f s = find (\<lambda>(k, a). has_session f a) (associations s)"

definition notify_del_session :: "fseid \<Rightarrow> 'p up_plane \<Rightarrow> 'p up_plane" where
  "notify_del_session f s =
     (case get_association_fseid f s of
        None \<Rightarrow> s
      | Some (k, a) \<Rightarrow> put_association k (association_del_session f a) s)"

text \<open>\<^verbatim>\<open>sx_session_restore_procedure::run\<close>: the sessions in messages of at most 64.\<close>

fun restore_run :: "fseid list \<Rightarrow> fseid list \<Rightarrow> sx_restore_msg list" where
  "restore_run msg [] = (if msg = [] then [] else [Sx_restore msg])"
| "restore_run msg (f # fs) =
     (let msg' = msg @ [f] in
      if length msg' \<ge> 64 then Sx_restore msg' # restore_run [] fs else restore_run msg' fs)"

text \<open>The procedure takes the sessions out of the association.\<close>

definition restore_sx_sessions :: "std_hash \<Rightarrow> node_id \<Rightarrow> 'p up_plane \<Rightarrow> 'p up_plane" where
  "restore_sx_sessions h n s =
     (case get_association h n s of
        None \<Rightarrow> s
      | Some a \<Rightarrow>
          if sessions a = [] then s
          else put_association (ucast (hash_node_id h n))
                 (a\<lparr>is_restore_sessions_pending := True, sessions := []\<rparr>)
                 (s\<lparr>restore_out := restore_out s @ restore_run [] (sessions a)\<rparr>))"

definition TASK_PGWC_SX_TRIGGER_HEARTBEAT_REQUEST :: u64 where
  "TASK_PGWC_SX_TRIGGER_HEARTBEAT_REQUEST = 11"

definition trigger_heartbeat_request_procedure ::
  "up_cfg \<Rightarrow> time_point \<Rightarrow> u32 \<Rightarrow> 'p up_plane \<Rightarrow> 'p up_plane" where
  "trigger_heartbeat_request_procedure cfg now k s =
     (case map_of (associations s) k of
        None \<Rightarrow> s
      | Some a \<Rightarrow>
          (case timer_setup now (association_heartbeat_period_ms cfg div 1000)
                  ((association_heartbeat_period_ms cfg mod 1000) * 1000) TASK_PGWC_SX
                  TASK_PGWC_SX_TRIGGER_HEARTBEAT_REQUEST (a_hash_node_id a) (up_mw s) of
             (t, m) \<Rightarrow> put_association k (a\<lparr>timer_heartbeat := t\<rparr>) (s\<lparr>up_mw := m\<rparr>)))"

definition remove_heartbeat_timer :: "pfcp_association \<Rightarrow> 'p up_plane \<Rightarrow> 'p up_plane" where
  "remove_heartbeat_timer a s = s\<lparr>up_mw := snd (timer_remove (timer_heartbeat a) (up_mw s))\<rparr>"

definition add_association_request ::
  "std_hash \<Rightarrow> up_cfg \<Rightarrow> time_point \<Rightarrow> u64 \<Rightarrow> endpoint \<Rightarrow> node_id \<Rightarrow> string \<Rightarrow> u32 \<Rightarrow> up_function_features option \<Rightarrow>
     user_plane_ip_resource_information option \<Rightarrow> 'p up_plane \<Rightarrow> bool \<times> 'p up_plane" where
  "add_association_request h cfg now trxn ep n i rts uff upiri s =
     (let k = ucast (hash_node_id h n);
          go = (\<lambda>restore a s1.
            (let s2 = put_association k (a\<lparr>a_state := kAssocSetupState, a_remote_endpoint := ep\<rparr>) s1 in
             case GetPfcpNodeId cfg of (rc, this_node_id) \<Rightarrow>
               if rc = RETURNok then
                 (let s3 = s2\<lparr>sx_out := sx_out s2 @ [Association_setup_response trxn CAUSE_VALUE_REQUEST_ACCEPTED this_node_id ep]\<rparr>;
                      s4 = (if is_trigger_heartbeat_request_procedure a
                            then trigger_heartbeat_request_procedure cfg now k s3 else s3)
                  in (True, if restore then restore_sx_sessions h n s4 else s4))
               else (False, s2)))
      in case get_association h n s of
           Some a \<Rightarrow>
             (let s1 = remove_heartbeat_timer a s in
              if a_recovery_time_stamp a = rts then (True, s1)
              else go True (a\<lparr>a_recovery_time_stamp := rts, a_function_features := uff,
                     a_user_plane_ip_resource_information := upiri,
                     is_trigger_heartbeat_request_procedure := True\<rparr>) s1)
         | None \<Rightarrow> go False ((pfcp_association_new_request h n rts uff upiri)\<lparr>a_id := i\<rparr>) s)"

definition add_association_response ::
  "std_hash \<Rightarrow> up_cfg \<Rightarrow> time_point \<Rightarrow> endpoint \<Rightarrow> node_id \<Rightarrow> u32 \<Rightarrow> up_function_features option \<Rightarrow>
     'p up_plane \<Rightarrow> bool \<times> 'p up_plane" where
  "add_association_response h cfg now ep n rts uff s =
     (let k = ucast (hash_node_id h n);
          go = (\<lambda>restore a s1.
            (let s2 = trigger_heartbeat_request_procedure cfg now k
                        (put_association k (a\<lparr>a_state := kAssocSetupState, a_remote_endpoint := ep\<rparr>) s1)
             in (True, if restore then restore_sx_sessions h n s2 else s2)))
      in case get_association h n s of
           Some a \<Rightarrow>
             (let s1 = remove_heartbeat_timer a s in
              if a_recovery_time_stamp a = rts then (True, s1)
              else go True (a\<lparr>a_recovery_time_stamp := rts, a_function_features := uff,
                     is_trigger_heartbeat_request_procedure := True\<rparr>) s1)
         | None \<Rightarrow> go False ((pfcp_association_new_response h n rts uff)
                     \<lparr>is_trigger_heartbeat_request_procedure := True\<rparr>) s)"

text \<open>\<^verbatim>\<open>pgwc_sxab::send_heartbeat_request\<close>; \<^verbatim>\<open>set_port\<close> writes the port into the socket address.\<close>

definition pfcp_default_port :: u16 where "pfcp_default_port = 8805"

definition set_port :: "u16 \<Rightarrow> endpoint \<Rightarrow> endpoint" where
  "set_port p e = e\<lparr>addr_storage := (addr_storage e)[2 := be_bytes 2 p ! 0, 3 := be_bytes 2 p ! 1]\<rparr>"

definition send_heartbeat_request :: "u32 \<Rightarrow> pfcp_association \<Rightarrow> 'p up_plane \<Rightarrow> 'p up_plane outcome" where
  "send_heartbeat_request k a s =
     (case uint_uid_get_uid (trxn_ids s) of
        None \<Rightarrow> Inl Endless_loop
      | Some (t, g) \<Rightarrow>
          Inr (put_association k (a\<lparr>trxn_id_heartbeat := t\<rparr>)
                 (s\<lparr>trxn_ids := g, sx_out := sx_out s @ [Heartbeat_request t (set_port pfcp_default_port (a_remote_endpoint a))]\<rparr>)))"

definition initiate_heartbeat_request :: "u64 \<Rightarrow> 'p up_plane \<Rightarrow> 'p up_plane outcome" where
  "initiate_heartbeat_request arg2 s =
     (let k = ucast arg2 in
      case map_of (associations s) k of
        None \<Rightarrow> Inr s
      | Some a \<Rightarrow>
          if is_trigger_heartbeat_request_procedure a
          then send_heartbeat_request k (a\<lparr>num_retries_timer_heartbeat := 0\<rparr>) s
          else Inr s)"

section \<open>User-plane nodes\<close>

definition PFCP_ASSOCIATION_HEARTBEAT_MAX_RETRIES :: nat where
  "PFCP_ASSOCIATION_HEARTBEAT_MAX_RETRIES = 2"

definition node_NotifyNodeNotReachable :: "PfcpUpNode \<Rightarrow> PfcpUpNode" where
  "node_NotifyNodeNotReachable n =
     (let n1 = n\<lparr>consecutive_failed_echo_proc := consecutive_failed_echo_proc n + 1,
                 failed_echo_proc := failed_echo_proc n + 1, consecutive_successful_echo_proc := 0\<rparr>
      in if n_association_state n1 = kAssocSetupState then n1\<lparr>n_association_state := kAssocUnstable\<rparr>
         else if n_association_state n1 = kAssocUnstable
                 \<and> PFCP_ASSOCIATION_HEARTBEAT_MAX_RETRIES \<le> unat (consecutive_failed_echo_proc n1)
              then n1\<lparr>n_association_state := kAssocLost\<rparr>
         else n1)"

definition node_NotifyNodeReachable :: "PfcpUpNode \<Rightarrow> PfcpUpNode" where
  "node_NotifyNodeReachable n =
     (let n1 = (if n_association_state n = kAssocLost then n\<lparr>n_association_state := kAssocKnownPossible\<rparr>
                else if n_association_state n = kAssocUnstable \<and> 10 < unat (consecutive_successful_echo_proc n)
                then n\<lparr>n_association_state := kAssocSetupState\<rparr> else n)
      in n1\<lparr>consecutive_failed_echo_proc := 0,
            consecutive_successful_echo_proc := consecutive_successful_echo_proc n1 + 1,
            successful_echo_proc := successful_echo_proc n1 + 1\<rparr>)"

definition node_NotifyNodeRestarted :: "PfcpUpNode \<Rightarrow> PfcpUpNode" where
  "node_NotifyNodeRestarted n = n\<lparr>restarts := restarts n + 1\<rparr>"

text \<open>The order of \<^verbatim>\<open>std::string\<close>: lexicographic, on the bytes.\<close>

fun string_less :: "string \<Rightarrow> string \<Rightarrow> bool" where
  "string_less xs [] = False"
| "string_less [] (y # ys) = True"
| "string_less (x # xs) (y # ys) =
     (if of_char x < (of_char y :: nat) then True else if of_char y < (of_char x :: nat) then False
      else string_less xs ys)"

text \<open>The constructor: one pending node for every identity of the configuration.\<close>

definition PfcpUpNodes_new :: "up_cfg \<Rightarrow> 'p itti_mw \<Rightarrow> 'p up_plane" where
  "PfcpUpNodes_new cfg m =
     \<lparr>associations = [], pending_associations = [], up_nodes = [],
      pending_nodes = map PfcpUpNode_new (foldl (\<lambda>xs n. sset_insert string_less (u_id n) xs) [] (nodes cfg)),
      up_mw = m, trxn_ids = uint_uid_generator_init, sx_out = [], restore_out = []\<rparr>"

text \<open>\<^verbatim>\<open>notify_node_unreachable\<close>: the statement \<^verbatim>\<open>sa->state_ == kAssocLost;\<close> compares and changes nothing.\<close>

definition notify_node_unreachable :: "u64 \<Rightarrow> 'p up_plane \<Rightarrow> 'p up_plane" where
  "notify_node_unreachable hash s =
     (case map_of (associations s) (ucast hash) of
        None \<Rightarrow> s
      | Some a \<Rightarrow> put_association (ucast hash) a s)"

definition GetUpNode :: "u64 \<Rightarrow> 'p up_plane \<Rightarrow> PfcpUpNode option" where
  "GetUpNode hash s = map_of (up_nodes s) (ucast hash)"

text \<open>The first pending node with a property, changed in place.\<close>

fun update_first :: "('a \<Rightarrow> bool) \<Rightarrow> ('a \<Rightarrow> 'a) \<Rightarrow> 'a list \<Rightarrow> 'a list" where
  "update_first P f [] = []"
| "update_first P f (x # xs) = (if P x then f x # xs else x # update_first P f xs)"

definition NotifyNodeNotReachable :: "u64 \<Rightarrow> 'p up_plane \<Rightarrow> 'p up_plane" where
  "NotifyNodeNotReachable hash s =
     (case GetUpNode hash s of
        Some su \<Rightarrow>
          (let su' = node_NotifyNodeNotReachable su in
           if n_association_state su' = kAssocLost then
             notify_node_unreachable hash
               (s\<lparr>up_nodes := AList.delete (ucast (n_hash_node_id su')) (AList.update (ucast hash) su' (up_nodes s)),
                  pending_nodes := pending_nodes s @ [su']\<rparr>)
           else s\<lparr>up_nodes := AList.update (ucast hash) su' (up_nodes s)\<rparr>)
      | None \<Rightarrow> s\<lparr>pending_nodes :=
          update_first (\<lambda>n. n_hash_node_id n = hash) node_NotifyNodeNotReachable (pending_nodes s)\<rparr>)"

definition NotifyNodeReachable :: "u64 \<Rightarrow> 'p up_plane \<Rightarrow> 'p up_plane" where
  "NotifyNodeReachable hash s =
     (case GetUpNode hash s of
        Some su \<Rightarrow> s\<lparr>up_nodes := AList.update (ucast hash) (node_NotifyNodeReachable su) (up_nodes s)\<rparr>
      | None \<Rightarrow> s\<lparr>pending_nodes :=
          update_first (\<lambda>n. n_hash_node_id n = hash) node_NotifyNodeReachable (pending_nodes s)\<rparr>)"

definition NotifyNodeRestarted :: "u64 \<Rightarrow> 'p up_plane \<Rightarrow> 'p up_plane" where
  "NotifyNodeRestarted hash s =
     (case GetUpNode hash s of
        Some su \<Rightarrow> s\<lparr>up_nodes := AList.update (ucast hash) (node_NotifyNodeRestarted su) (up_nodes s)\<rparr>
      | None \<Rightarrow> s)"

text \<open>
  The walk over the pending nodes in the two set-up handlers: the first node without an
  association that the peer names, by the identity it had or by its configured name.
\<close>

definition awaits :: "node_id \<Rightarrow> PfcpUpNode \<Rightarrow> bool" where
  "awaits n u \<longleftrightarrow> (n_association_state u = kAssocNullState \<or> n_association_state u = kAssocLost)
     \<and> (n_node_id u = n \<or> node_id_eq_string n (n_id u))"

fun extract_first :: "('a \<Rightarrow> bool) \<Rightarrow> 'a list \<Rightarrow> ('a list \<times> 'a \<times> 'a list) option" where
  "extract_first P [] = None"
| "extract_first P (x # xs) =
     (if P x then Some ([], x, xs)
      else (case extract_first P xs of None \<Rightarrow> None | Some (ys, y, zs) \<Rightarrow> Some (x # ys, y, zs)))"

text \<open>\<^verbatim>\<open>up_nodes_.insert\<close> leaves an element that is there already as it is.\<close>

definition up_nodes_insert :: "u32 \<Rightarrow> PfcpUpNode \<Rightarrow> (u32 \<times> PfcpUpNode) list \<Rightarrow> (u32 \<times> PfcpUpNode) list" where
  "up_nodes_insert k n m = (case map_of m k of None \<Rightarrow> m @ [(k, n)] | Some _ \<Rightarrow> m)"

definition node_associated ::
  "std_hash \<Rightarrow> endpoint \<Rightarrow> node_id \<Rightarrow> u32 \<Rightarrow> up_function_features option \<Rightarrow> PfcpUpNode \<Rightarrow> PfcpUpNode" where
  "node_associated h ep n rts uff u =
     u\<lparr>n_association_state := kAssocSetupState, n_node_id := n, n_hash_node_id := hash_node_id h n,
       n_remote_endpoint := ep, n_peer_recovery_time_stamp := rts, n_peer_function_features := uff\<rparr>"

definition AssociationSetupRequest ::
  "std_hash \<Rightarrow> up_cfg \<Rightarrow> time_point \<Rightarrow> u64 \<Rightarrow> endpoint \<Rightarrow> node_id \<Rightarrow> u32 \<Rightarrow> up_function_features option \<Rightarrow>
     user_plane_ip_resource_information option \<Rightarrow> 'p up_plane \<Rightarrow> 'p up_plane" where
  "AssociationSetupRequest h cfg now trxn ep n rts uff upiri s =
     (if pending_nodes s = [] then
        (case GetPfcpNodeId cfg of (rc, this_node_id) \<Rightarrow>
           if rc = RETURNok
           then s\<lparr>sx_out := sx_out s @ [Association_setup_response trxn CAUSE_VALUE_REQUEST_REJECTED this_node_id ep]\<rparr>
           else s)
      else (case extract_first (awaits n) (pending_nodes s) of
              None \<Rightarrow> s
            | Some (ys, u, zs) \<Rightarrow>
                (case add_association_request h cfg now trxn ep n (n_id u) rts uff upiri s of
                   (ok, s1) \<Rightarrow>
                     if ok then
                       (let u' = node_associated h ep n rts uff u
                        in s1\<lparr>up_nodes := up_nodes_insert (ucast (n_hash_node_id u')) u' (up_nodes s1),
                              pending_nodes := ys @ zs\<rparr>)
                     else s1)))"

definition AssociationSetupResp ::
  "std_hash \<Rightarrow> up_cfg \<Rightarrow> time_point \<Rightarrow> endpoint \<Rightarrow> node_id \<Rightarrow> u32 \<Rightarrow> up_function_features option \<Rightarrow>
     'p up_plane \<Rightarrow> 'p up_plane" where
  "AssociationSetupResp h cfg now ep n rts uff s =
     (case extract_first (awaits n) (pending_nodes s) of
        None \<Rightarrow> s
      | Some (ys, u, zs) \<Rightarrow>
          (case add_association_response h cfg now ep n rts uff s of
             (ok, s1) \<Rightarrow>
               if ok then
                 (let u' = node_associated h ep n rts uff u
                  in s1\<lparr>up_nodes := up_nodes_insert (ucast (n_hash_node_id u')) u' (up_nodes s1),
                        pending_nodes := ys @ zs\<rparr>)
               else s1))"

section \<open>Heartbeats\<close>

definition timeout_heartbeat_request :: "up_cfg \<Rightarrow> time_point \<Rightarrow> u64 \<Rightarrow> 'p up_plane \<Rightarrow> 'p up_plane" where
  "timeout_heartbeat_request cfg now trxn s =
     (case find (\<lambda>(k, a). trxn_id_heartbeat a = trxn) (associations s) of
        None \<Rightarrow> s
      | Some (k, a) \<Rightarrow>
          (let a' = a\<lparr>trxn_id_heartbeat := 0\<rparr>;
               s1 = remove_heartbeat_timer a' (put_association k a' s)
           in NotifyNodeNotReachable (a_hash_node_id a') (trigger_heartbeat_request_procedure cfg now k s1)))"

definition assoc_handle_heartbeat_response ::
  "up_cfg \<Rightarrow> time_point \<Rightarrow> u64 \<Rightarrow> u32 \<Rightarrow> 'p up_plane \<Rightarrow> 'p up_plane" where
  "assoc_handle_heartbeat_response cfg now trxn rts s =
     (case find (\<lambda>(k, a). trxn_id_heartbeat a = trxn) (associations s) of
        None \<Rightarrow> s
      | Some (k, a) \<Rightarrow>
          (let a' = a\<lparr>trxn_id_heartbeat := 0\<rparr>;
               s1 = remove_heartbeat_timer a' (put_association k a' s)
           in if a_recovery_time_stamp a' = rts
              then NotifyNodeReachable (a_hash_node_id a') (trigger_heartbeat_request_procedure cfg now k s1)
              else NotifyNodeRestarted (a_hash_node_id a') s1))"

definition assoc_handle_heartbeat_request :: "endpoint \<Rightarrow> u32 \<Rightarrow> 'p up_plane \<Rightarrow> 'p up_plane" where
  "assoc_handle_heartbeat_request ep rts s =
     (case find (\<lambda>(k, a). a_remote_endpoint a = ep) (associations s) of
        None \<Rightarrow> s
      | Some (k, a) \<Rightarrow>
          if a_recovery_time_stamp a = rts then NotifyNodeReachable (a_hash_node_id a) s
          else NotifyNodeRestarted (a_hash_node_id a) s)"

section \<open>Selection of a user-plane node\<close>

text \<open>
  The candidates are kept with their keys. They go into a \<^verbatim>\<open>std::set\<close> of pointers, of which the
  first is taken: \<open>lowest\<close> says, of the keys of some associations, which of the objects has the
  lowest address.
\<close>

definition candidates :: "up_node_cfg list \<Rightarrow> 'p up_plane \<Rightarrow> (u32 \<times> pfcp_association) list" where
  "candidates ns s =
     concat (map (\<lambda>n. filter (\<lambda>(k, a). a_id a = u_id n \<and> a_state a = kAssocSetupState) (associations s)) ns)"

definition select_up_node ::
  "(u32 list \<Rightarrow> u32) \<Rightarrow> up_cfg \<Rightarrow> string \<Rightarrow> uli_info \<Rightarrow> paa \<Rightarrow> 'p up_plane \<Rightarrow> (bool \<times> node_id) outcome" where
  "select_up_node lowest cfg a uli p s =
     (if associations s = [] then Inr (False, node_id_default)
      else obind (GetUpNodes cfg a uli p) (\<lambda>(ok, ns).
        if ok then
          (case map_of (candidates ns s) (lowest (map fst (candidates ns s))) of
             Some x \<Rightarrow> Inr (True, a_node_id x)
           | None \<Rightarrow> Inr (False, node_id_default))
        else Inr (False, node_id_default)))"

text \<open>\<^verbatim>\<open>add_peer_candidate_node\<close>: one pending association for each identity.\<close>

fun remove_first :: "('a \<Rightarrow> bool) \<Rightarrow> 'a list \<Rightarrow> 'a list" where
  "remove_first P [] = []"
| "remove_first P (x # xs) = (if P x then xs else x # remove_first P xs)"

definition add_peer_candidate_node :: "std_hash \<Rightarrow> node_id \<Rightarrow> 'p up_plane \<Rightarrow> bool \<times> 'p up_plane" where
  "add_peer_candidate_node h n s =
     (True, s\<lparr>pending_associations :=
        remove_first (\<lambda>a. a_node_id a = n) (pending_associations s) @ [pfcp_association_new h n]\<rparr>)"

section \<open>What the operations leave alone\<close>

lemma map_of_update_same: "map_of xs k = Some a \<Longrightarrow> AList.update k a xs = xs"
  by (induction xs) (auto split: if_splits)

lemma notify_node_unreachable_id [simp]: "notify_node_unreachable hash s = s"
  by (simp add: notify_node_unreachable_def put_association_def map_of_update_same split: option.split)

lemma node_notify_proj [proj_simps]:
  "associations (NotifyNodeNotReachable hash s) = associations s"
  "associations (NotifyNodeReachable hash s) = associations s"
  "associations (NotifyNodeRestarted hash s) = associations s"
  by (simp_all add: NotifyNodeNotReachable_def NotifyNodeReachable_def NotifyNodeRestarted_def Let_def
      split: option.split)

text \<open>
  What the selection reads of an association. The heartbeat procedures change other fields of it
  only.
\<close>

definition view :: "pfcp_association \<Rightarrow> node_id \<times> string \<times> association_state" where
  "view a = (a_node_id a, a_id a, a_state a)"

definition views :: "'p up_plane \<Rightarrow> (u32 \<times> node_id \<times> string \<times> association_state) list" where
  "views s = map (\<lambda>(k, a). (k, view a)) (associations s)"

lemma views_put:
  "map_of (associations s) k = Some a \<Longrightarrow> view b = view a \<Longrightarrow> views (put_association k b s) = views s"
proof -
  have "map_of xs k = Some a \<Longrightarrow> view b = view a \<Longrightarrow>
      map (\<lambda>(k, a). (k, view a)) (AList.update k b xs) = map (\<lambda>(k, a). (k, view a)) xs" for xs
    by (induction xs) (auto split: if_splits)
  then show "map_of (associations s) k = Some a \<Longrightarrow> view b = view a \<Longrightarrow> views (put_association k b s) = views s"
    by (simp add: views_def put_association_def)
qed

lemma candidates_views:
  "map (\<lambda>(k, a). (k, view a)) (candidates ns s)
     = concat (map (\<lambda>n. filter (\<lambda>(k, _, i, st). i = u_id n \<and> st = kAssocSetupState) (views s)) ns)"
proof -
  have "map (\<lambda>(k, a). (k, view a)) (filter (\<lambda>(k, a). a_id a = i \<and> a_state a = kAssocSetupState) xs)
      = filter (\<lambda>(k, _, j, st). j = i \<and> st = kAssocSetupState) (map (\<lambda>(k, a). (k, view a)) xs)"
    for i and xs :: "(u32 \<times> pfcp_association) list"
    by (induction xs) (auto simp: view_def)
  then show ?thesis by (simp add: candidates_def views_def map_concat comp_def)
qed

lemma select_up_node_views:
  assumes "views s = views t"
  shows "select_up_node lowest cfg a uli p s = select_up_node lowest cfg a uli p t"
proof -
  have c: "map (\<lambda>(k, a). (k, view a)) (candidates ns s) = map (\<lambda>(k, a). (k, view a)) (candidates ns t)" for ns
    by (simp only: candidates_views assms)
  have "map fst (map (\<lambda>(k, a). (k, view a)) xs) = map fst xs" for xs :: "(u32 \<times> pfcp_association) list"
    by (simp add: comp_def case_prod_unfold)
  then have k: "map fst (candidates ns s) = map fst (candidates ns t)" for ns
    by (metis (no_types) c)
  have m: "map_option view (map_of (candidates ns s) i) = map_option view (map_of (candidates ns t) i)" for ns i
    using arg_cong [OF c [of ns], of "\<lambda>xs. map_of xs i"] by (simp add: map_of_map)
  have "associations s = [] \<longleftrightarrow> associations t = []"
    using assms by (metis views_def map_is_Nil_conv)
  moreover have "(case map_of (candidates ns s) i of Some x \<Rightarrow> Inr (True, a_node_id x) | None \<Rightarrow> Inr (False, node_id_default))
      = (case map_of (candidates ns t) i of Some x \<Rightarrow> (Inr (True, a_node_id x) :: (bool \<times> node_id) outcome)
         | None \<Rightarrow> Inr (False, node_id_default))" for ns i
    using m [of ns i]
    by (cases "map_of (candidates ns s) i"; cases "map_of (candidates ns t) i") (auto simp: view_def)
  ultimately show ?thesis by (simp add: select_up_node_def k cong: if_cong)
qed

lemma views_trigger [proj_simps]: "views (trigger_heartbeat_request_procedure cfg now k s) = views s"
proof -
  have "views (s\<lparr>up_mw := m\<rparr>) = views s" for m by (simp add: views_def)
  then show ?thesis
    by (auto simp: trigger_heartbeat_request_procedure_def view_def split: option.split prod.split
        intro!: trans [OF views_put])
qed

lemma views_remove_timer [proj_simps]: "views (remove_heartbeat_timer a s) = views s"
  by (simp add: remove_heartbeat_timer_def views_def)

lemma views_node_notify [proj_simps]:
  "views (NotifyNodeNotReachable hash s) = views s"
  "views (NotifyNodeReachable hash s) = views s"
  "views (NotifyNodeRestarted hash s) = views s"
  by (simp_all add: views_def proj_simps)

lemma find_pair_map_of:
  "distinct (map fst xs) \<Longrightarrow> find P xs = Some (k, a) \<Longrightarrow> map_of xs k = Some a"
  by (metis find_Some_iff map_of_is_SomeI nth_mem)

text \<open>
  Whatever the heartbeats of a node say, they never change which user-plane node is selected:
  a node whose heartbeats time out, until it is counted as lost, stays selectable.
\<close>

theorem heartbeats_never_change_selection:
  assumes "smap_wf (associations s)"
    and "t \<in> {timeout_heartbeat_request cfg now trxn s, assoc_handle_heartbeat_response cfg now trxn rts s,
              assoc_handle_heartbeat_request ep rts s}"
  shows "select_up_node lowest cfg' a uli p t = select_up_node lowest cfg' a uli p s"
proof -
  have put: "views (put_association k (b\<lparr>trxn_id_heartbeat := x\<rparr>) s) = views s"
    if "find P (associations s) = Some (k, b)" for P k b x
    using find_pair_map_of [OF assms(1) that] by (rule views_put) (simp add: view_def)
  have "views t = views s"
    using assms(2)
    by (auto simp: timeout_heartbeat_request_def assoc_handle_heartbeat_response_def
        assoc_handle_heartbeat_request_def proj_simps put Let_def split: option.split)
  then show ?thesis by (rule select_up_node_views)
qed

section \<open>Restoring sessions\<close>

text \<open>The restore messages carry all the sessions, in order, in groups of one to 64.\<close>

lemma restore_run_batches:
  "length msg < 64 \<Longrightarrow>
     concat (map (\<lambda>m. case m of Sx_restore xs \<Rightarrow> xs) (restore_run msg fs)) = msg @ fs
     \<and> list_all (\<lambda>m. case m of Sx_restore xs \<Rightarrow> 0 < length xs \<and> length xs \<le> 64) (restore_run msg fs)"
  by (induction msg fs rule: restore_run.induct) (auto simp: Let_def)

section \<open>Which node is selected\<close>

lemma GetUpNodes_loop_filter:
  assumes "list_all (\<lambda>n. pdn_index n < length (pdns cfg)) ns"
  shows "GetUpNodes_loop cfg a uli p ns acc = Inr (acc @ filter (\<lambda>n.
     let c = pdns cfg ! pdn_index n in (is_ip_assigned p \<longrightarrow> is_in_pool c p) \<and> a = apn c \<and> is_tai uli (u_tai n)) ns)"
  using assms by (induction ns arbitrary: acc) (auto simp: Let_def)

text \<open>The associations a session may use, by the configuration and the state of the tables.\<close>

definition serves :: "up_cfg \<Rightarrow> string \<Rightarrow> uli_info \<Rightarrow> paa \<Rightarrow> up_node_cfg \<Rightarrow> bool" where
  "serves cfg a uli p n \<longleftrightarrow>
     (let c = pdns cfg ! pdn_index n in
      (if is_ip_assigned p then is_in_pool c p else True) \<and> apn c = a \<and> uli_tai uli \<and> tai1 uli = u_tai n)"

definition suitable :: "up_cfg \<Rightarrow> string \<Rightarrow> uli_info \<Rightarrow> paa \<Rightarrow> 'p up_plane \<Rightarrow> pfcp_association set" where
  "suitable cfg a uli p s =
     {x \<in> snd ` set (associations s). a_state x = kAssocSetupState \<and>
        (\<exists>n \<in> set (nodes cfg). serves cfg a uli p n \<and> u_id n = a_id x)}"

lemma candidates_suitable:
  "snd ` set (candidates (filter (serves cfg a uli p) (nodes cfg)) s) = suitable cfg a uli p s"
  by (force simp: candidates_def suitable_def)

lemma GetUpNodes_serves:
  assumes "list_all (\<lambda>n. pdn_index n < length (pdns cfg)) (nodes cfg)"
  shows "GetUpNodes cfg a uli p = Inr (filter (serves cfg a uli p) (nodes cfg) \<noteq> [], filter (serves cfg a uli p) (nodes cfg))"
proof -
  have "(\<lambda>n. let c = pdns cfg ! pdn_index n in (is_ip_assigned p \<longrightarrow> is_in_pool c p) \<and> a = apn c \<and> is_tai uli (u_tai n))
      = serves cfg a uli p"
    by (auto simp: fun_eq_iff serves_def is_tai_def Let_def)
  then show ?thesis by (simp add: GetUpNodes_def GetUpNodes_loop_filter [OF assms])
qed


section \<open>The life of a node\<close>

text \<open>What can happen: set-up messages, the heartbeat timer, and the three ends of a heartbeat.\<close>

inductive up_step :: "std_hash \<Rightarrow> up_cfg \<Rightarrow> 'p up_plane \<Rightarrow> 'p up_plane \<Rightarrow> bool" for h cfg where
  setup_request: "up_step h cfg s (AssociationSetupRequest h cfg now trxn ep n rts uff upiri s)"
| setup_response: "up_step h cfg s (AssociationSetupResp h cfg now ep n rts uff s)"
| timer: "initiate_heartbeat_request arg2 s = Inr t \<Longrightarrow> up_step h cfg s t"
| silent: "up_step h cfg s (timeout_heartbeat_request cfg now trxn s)"
| response: "up_step h cfg s (assoc_handle_heartbeat_response cfg now trxn rts s)"
| request: "up_step h cfg s (assoc_handle_heartbeat_request ep rts s)"

inductive up_steps :: "std_hash \<Rightarrow> up_cfg \<Rightarrow> 'p up_plane \<Rightarrow> 'p up_plane \<Rightarrow> bool" for h cfg where
  up_refl: "up_steps h cfg s s"
| up_next: "up_steps h cfg s t \<Longrightarrow> up_step h cfg t u \<Longrightarrow> up_steps h cfg s u"

inductive_cases up_stepE: "up_step h cfg s t"

text \<open>The tables are indexed by the hashes of the nodes, and the states of the nodes fit their table.\<close>

definition assoc_ok :: "std_hash \<Rightarrow> u32 \<times> pfcp_association \<Rightarrow> bool" where
  "assoc_ok h x \<longleftrightarrow> fst x = ucast (a_hash_node_id (snd x)) \<and> a_hash_node_id (snd x) = hash_node_id h (a_node_id (snd x))
     \<and> a_state (snd x) = kAssocSetupState"

definition up_ok :: "std_hash \<Rightarrow> u32 \<times> PfcpUpNode \<Rightarrow> bool" where
  "up_ok h x \<longleftrightarrow> fst x = ucast (n_hash_node_id (snd x)) \<and> n_hash_node_id (snd x) = hash_node_id h (n_node_id (snd x))
     \<and> n_association_state (snd x) \<in> {kAssocSetupState, kAssocUnstable}"

definition pending_ok :: "PfcpUpNode \<Rightarrow> bool" where
  "pending_ok u \<longleftrightarrow> n_association_state u \<in> {kAssocNullState, kAssocLost, kAssocKnownPossible}"

definition up_inv :: "std_hash \<Rightarrow> 'p up_plane \<Rightarrow> bool" where
  "up_inv h s \<longleftrightarrow> smap_wf (associations s) \<and> smap_wf (up_nodes s)
     \<and> list_all (assoc_ok h) (associations s) \<and> list_all (up_ok h) (up_nodes s)
     \<and> list_all pending_ok (pending_nodes s)
     \<and> fst ` set (up_nodes s) \<subseteq> fst ` set (associations s)"

lemma list_all_update: "list_all P xs \<Longrightarrow> P (k, v) \<Longrightarrow> list_all P (AList.update k v xs)"
  by (induction xs) auto

lemma list_all_delete: "list_all P xs \<Longrightarrow> list_all P (AList.delete k xs)"
  by (auto simp: AList.delete_eq list_all_iff)

lemma list_all_map_of: "list_all P xs \<Longrightarrow> map_of xs k = Some v \<Longrightarrow> P (k, v)"
  by (metis list_all_iff map_of_SomeD)

lemma list_all_update_first:
  "list_all P xs \<Longrightarrow> (\<And>x. P x \<Longrightarrow> P (f x)) \<Longrightarrow> list_all P (update_first Q f xs)"
  by (induction xs) auto

lemma extract_firstD: "extract_first P xs = Some (ys, y, zs) \<Longrightarrow> xs = ys @ y # zs \<and> P y"
  by (induction xs arbitrary: ys) (auto split: if_splits option.splits)

lemma up_inv_frame:
  "associations t = associations s \<Longrightarrow> up_nodes t = up_nodes s \<Longrightarrow> pending_nodes t = pending_nodes s \<Longrightarrow>
     up_inv h t = up_inv h s"
  by (simp add: up_inv_def)

lemma put_association_proj [simp]:
  "up_nodes (put_association k a s) = up_nodes s" "pending_nodes (put_association k a s) = pending_nodes s"
  "associations (put_association k a s) = AList.update k a (associations s)"
  by (simp_all add: put_association_def)

lemma up_inv_put: "up_inv h s \<Longrightarrow> assoc_ok h (k, a) \<Longrightarrow> up_inv h (put_association k a s)"
  unfolding up_inv_def by (auto simp: distinct_update list_all_update dom_update)

lemma up_inv_assoc: "up_inv h s \<Longrightarrow> map_of (associations s) k = Some a \<Longrightarrow> assoc_ok h (k, a)"
  unfolding up_inv_def by (auto intro: list_all_map_of)

lemma up_inv_trigger: "up_inv h s \<Longrightarrow> up_inv h (trigger_heartbeat_request_procedure cfg now k s)"
  unfolding trigger_heartbeat_request_procedure_def
  by (auto split: option.split prod.split dest: up_inv_assoc simp: assoc_ok_def intro!: up_inv_put
      simp: up_inv_frame [of "s\<lparr>up_mw := _\<rparr>" s])

lemma trigger_proj [simp]:
  "up_nodes (trigger_heartbeat_request_procedure cfg now k s) = up_nodes s"
  "pending_nodes (trigger_heartbeat_request_procedure cfg now k s) = pending_nodes s"
  by (simp_all add: trigger_heartbeat_request_procedure_def split: option.split prod.split)

lemma trigger_dom [simp]:
  "fst ` set (associations (trigger_heartbeat_request_procedure cfg now k s)) = fst ` set (associations s)"
  by (auto simp: trigger_heartbeat_request_procedure_def dom_update split: option.split prod.split
      dest: map_of_SomeD intro: rev_image_eqI)

lemma remove_timer_proj [simp]:
  "up_nodes (remove_heartbeat_timer a s) = up_nodes s"
  "pending_nodes (remove_heartbeat_timer a s) = pending_nodes s"
  "associations (remove_heartbeat_timer a s) = associations s"
  by (simp_all add: remove_heartbeat_timer_def)

lemma restore_proj [simp]:
  "up_nodes (restore_sx_sessions h n s) = up_nodes s"
  "pending_nodes (restore_sx_sessions h n s) = pending_nodes s"
  by (simp_all add: restore_sx_sessions_def split: option.split)

lemma up_inv_restore: "up_inv h s \<Longrightarrow> up_inv h (restore_sx_sessions h n s)"
  unfolding restore_sx_sessions_def get_association_def
  by (auto split: option.split dest: up_inv_assoc simp: assoc_ok_def intro!: up_inv_put
      simp: up_inv_frame [of "s\<lparr>restore_out := _\<rparr>" s])

lemma restore_dom [simp]:
  "fst ` set (associations (restore_sx_sessions h n s)) = fst ` set (associations s)"
  by (auto simp: restore_sx_sessions_def get_association_def dom_update split: option.split
      dest: map_of_SomeD intro: rev_image_eqI)

text \<open>What adding an association gives: the invariant, an association of the node, the nodes unchanged.\<close>

definition added :: "std_hash \<Rightarrow> node_id \<Rightarrow> 'p up_plane \<Rightarrow> bool \<Rightarrow> 'p up_plane \<Rightarrow> bool" where
  "added h n s ok t \<longleftrightarrow> up_inv h t \<and> up_nodes t = up_nodes s \<and> pending_nodes t = pending_nodes s
     \<and> ucast (hash_node_id h n) \<in> fst ` set (associations t)"

lemma add_association_new_ok:
  "assoc_ok h (ucast (hash_node_id h n), (pfcp_association_new_request h n rts uff upiri)
      \<lparr>a_id := i, a_state := kAssocSetupState, a_remote_endpoint := ep\<rparr>)"
  "assoc_ok h (ucast (hash_node_id h n), (pfcp_association_new_response h n rts uff)
      \<lparr>is_trigger_heartbeat_request_procedure := b, a_state := kAssocSetupState, a_remote_endpoint := ep\<rparr>)"
  by (simp_all add: assoc_ok_def pfcp_association_new_request_def pfcp_association_new_response_def
      pfcp_association_new_def)

lemma added_put:
  assumes "up_inv h s" and "assoc_ok h (ucast (hash_node_id h n), a)"
  shows "added h n s ok (put_association (ucast (hash_node_id h n)) a s)"
  using assms by (auto simp: added_def up_inv_put dom_update)

lemma added_frame:
  assumes "added h n s ok t" and "associations u = associations t" and "up_nodes u = up_nodes t"
    and "pending_nodes u = pending_nodes t"
  shows "added h n s ok' u"
  using assms up_inv_frame [OF assms(2-4)] by (simp add: added_def)

lemma added_trigger: "added h n s ok t \<Longrightarrow> added h n s ok' (trigger_heartbeat_request_procedure cfg now k t)"
  by (simp add: added_def up_inv_trigger)

lemma added_restore: "added h n s ok t \<Longrightarrow> added h n s ok' (restore_sx_sessions h n t)"
  by (simp add: added_def up_inv_restore)

lemma added_from:
  "added h n s ok t \<Longrightarrow> up_nodes s = up_nodes s' \<Longrightarrow> pending_nodes s = pending_nodes s' \<Longrightarrow> added h n s' ok t"
  by (simp add: added_def)

lemma added_known:
  assumes "up_inv h s" and "get_association h n s = Some a"
  shows "added h n s ok (remove_heartbeat_timer a' s)"
    and "up_inv h (remove_heartbeat_timer a' s)"
    and "assoc_ok h (ucast (hash_node_id h n), a)"
proof -
  have m: "map_of (associations s) (ucast (hash_node_id h n)) = Some a"
    using assms(2) by (simp add: get_association_def)
  have u: "up_inv h (remove_heartbeat_timer a' s)" using assms(1) by (subst up_inv_frame) simp_all
  then show "added h n s ok (remove_heartbeat_timer a' s)"
    using map_of_SomeD [OF m] by (force simp: added_def)
  show "up_inv h (remove_heartbeat_timer a' s)" by (fact u)
  show "assoc_ok h (ucast (hash_node_id h n), a)" using assms(1) m by (rule up_inv_assoc)
qed

lemma add_association_request_added:
  assumes "up_inv h s" and "add_association_request h cfg now trxn ep n i rts uff upiri s = (ok, t)"
  shows "added h n s ok t"
proof (cases "get_association h n s")
  case None
  with assms show ?thesis
    by (auto simp: add_association_request_def Let_def split: prod.splits if_splits
        intro!: added_trigger added_put add_association_new_ok
        intro: added_frame [OF added_put [OF _ add_association_new_ok(1)]])
next
  case (Some a)
  note k = added_known [OF assms(1) Some]
  from k(3) have ok: "assoc_ok h (ucast (hash_node_id h n), a\<lparr>a_recovery_time_stamp := rts, a_function_features := uff,
      a_user_plane_ip_resource_information := upiri, is_trigger_heartbeat_request_procedure := True,
      a_state := kAssocSetupState, a_remote_endpoint := ep\<rparr>)"
    by (simp add: assoc_ok_def)
  have put: "added h n s b (put_association (ucast (hash_node_id h n)) (a\<lparr>a_recovery_time_stamp := rts, a_function_features := uff,
      a_user_plane_ip_resource_information := upiri, is_trigger_heartbeat_request_procedure := True,
      a_state := kAssocSetupState, a_remote_endpoint := ep\<rparr>) (remove_heartbeat_timer a s))" for b
    by (rule added_from [OF added_put [OF k(2) ok]]) simp_all
  show ?thesis
    using assms(2) Some k(1) put
    by (auto simp: add_association_request_def Let_def split: prod.splits if_splits
        intro!: added_restore added_trigger intro: added_frame [OF put])
qed

lemma add_association_response_added:
  assumes "up_inv h s" and "add_association_response h cfg now ep n rts uff s = (ok, t)"
  shows "added h n s ok t"
proof (cases "get_association h n s")
  case None
  with assms show ?thesis
    by (auto simp: add_association_response_def Let_def
        intro!: added_trigger added_put add_association_new_ok)
next
  case (Some a)
  note k = added_known [OF assms(1) Some]
  from k(3) have ok: "assoc_ok h (ucast (hash_node_id h n), a\<lparr>a_recovery_time_stamp := rts, a_function_features := uff,
      is_trigger_heartbeat_request_procedure := True, a_state := kAssocSetupState, a_remote_endpoint := ep\<rparr>)"
    by (simp add: assoc_ok_def)
  show ?thesis
    using assms(2) Some k(1)
    by (auto simp: add_association_response_def Let_def split: if_splits
        intro!: added_restore added_trigger added_from [OF added_put [OF k(2) ok]])
qed

lemma up_inv_move:
  assumes "up_inv h t" and "pending_nodes t = ys @ u # zs"
    and "ucast (hash_node_id h n) \<in> fst ` set (associations t)"
  shows "up_inv h (t\<lparr>up_nodes := up_nodes_insert (ucast (n_hash_node_id (node_associated h ep n rts uff u)))
       (node_associated h ep n rts uff u) (up_nodes t), pending_nodes := ys @ zs\<rparr>)"
proof -
  let ?u = "node_associated h ep n rts uff u"
  have u: "n_hash_node_id ?u = hash_node_id h n" "up_ok h (ucast (hash_node_id h n), ?u)"
    by (simp_all add: node_associated_def up_ok_def)
  then show ?thesis
    using assms unfolding up_inv_def up_nodes_insert_def
    by (auto split: option.split simp: map_of_eq_None_iff)
qed

lemma up_inv_setup_request:
  assumes "up_inv h s"
  shows "up_inv h (AssociationSetupRequest h cfg now trxn ep n rts uff upiri s)"
  using assms
  by (auto simp: AssociationSetupRequest_def Let_def up_inv_frame [of "s\<lparr>sx_out := _\<rparr>" s] added_def
      split: prod.splits option.splits
      dest!: extract_firstD add_association_request_added [OF assms] intro!: up_inv_move)

lemma up_inv_setup_response:
  assumes "up_inv h s"
  shows "up_inv h (AssociationSetupResp h cfg now ep n rts uff s)"
  using assms
  by (auto simp: AssociationSetupResp_def Let_def added_def split: prod.splits option.splits
      dest!: extract_firstD add_association_response_added [OF assms] intro!: up_inv_move)

lemma node_notify_hash [simp]:
  "n_hash_node_id (node_NotifyNodeNotReachable u) = n_hash_node_id u"
  "n_hash_node_id (node_NotifyNodeReachable u) = n_hash_node_id u"
  "n_hash_node_id (node_NotifyNodeRestarted u) = n_hash_node_id u"
  "n_node_id (node_NotifyNodeNotReachable u) = n_node_id u"
  "n_node_id (node_NotifyNodeReachable u) = n_node_id u"
  "n_node_id (node_NotifyNodeRestarted u) = n_node_id u"
  "n_id (node_NotifyNodeNotReachable u) = n_id u"
  "n_id (node_NotifyNodeReachable u) = n_id u"
  by (simp_all add: node_NotifyNodeNotReachable_def node_NotifyNodeReachable_def node_NotifyNodeRestarted_def Let_def)

lemma node_notify_ok:
  "up_ok h (k, u) \<Longrightarrow> n_association_state (node_NotifyNodeNotReachable u) \<noteq> kAssocLost \<Longrightarrow>
     up_ok h (k, node_NotifyNodeNotReachable u)"
  "up_ok h (k, u) \<Longrightarrow> up_ok h (k, node_NotifyNodeReachable u)"
  "up_ok h (k, u) \<Longrightarrow> up_ok h (k, node_NotifyNodeRestarted u)"
  "pending_ok u \<Longrightarrow> pending_ok (node_NotifyNodeNotReachable u)"
  "pending_ok u \<Longrightarrow> pending_ok (node_NotifyNodeReachable u)"
  by (auto simp: up_ok_def pending_ok_def node_NotifyNodeNotReachable_def node_NotifyNodeReachable_def
      node_NotifyNodeRestarted_def Let_def)

lemma up_inv_update_node:
  assumes "up_inv h s" and "GetUpNode hash s = Some u" and "up_ok h (ucast hash, v)"
  shows "up_inv h (s\<lparr>up_nodes := AList.update (ucast hash) v (up_nodes s)\<rparr>)"
proof -
  have "ucast hash \<in> fst ` set (up_nodes s)" using assms(2) map_of_SomeD by (force simp: GetUpNode_def)
  with assms(1,3) show ?thesis unfolding up_inv_def
    by (auto simp: distinct_update list_all_update dom_update)
qed

lemma up_inv_update_pending:
  assumes "up_inv h s" and "\<And>u. pending_ok u \<Longrightarrow> pending_ok (f u)"
  shows "up_inv h (s\<lparr>pending_nodes := update_first P f (pending_nodes s)\<rparr>)"
  using assms unfolding up_inv_def by (auto intro: list_all_update_first)

lemma up_inv_up_ok: "up_inv h s \<Longrightarrow> GetUpNode hash s = Some u \<Longrightarrow> up_ok h (ucast hash, u)"
  unfolding up_inv_def GetUpNode_def by (auto intro: list_all_map_of)

lemma delete_update_same: "AList.delete k (AList.update k v xs) = AList.delete k xs"
  by (induction xs) (auto simp: AList.delete_eq)

lemma up_inv_lost:
  assumes "up_inv h s" and "pending_ok v"
  shows "up_inv h (s\<lparr>up_nodes := AList.delete k (AList.update k v (up_nodes s)), pending_nodes := pending_nodes s @ [v]\<rparr>)"
proof -
  have "fst ` set (AList.delete k (up_nodes s)) \<subseteq> fst ` set (up_nodes s)"
    and "smap_wf (up_nodes s) \<Longrightarrow> smap_wf (AList.delete k (up_nodes s))"
    by (auto simp: AList.delete_eq distinct_map_filter)
  with assms show ?thesis unfolding up_inv_def delete_update_same by (auto simp: list_all_delete)
qed

lemma up_inv_not_reachable:
  assumes "up_inv h s"
  shows "up_inv h (NotifyNodeNotReachable hash s)"
proof (cases "GetUpNode hash s")
  case None
  then show ?thesis
    using up_inv_update_pending [OF assms node_notify_ok(4)] by (simp add: NotifyNodeNotReachable_def)
next
  case (Some u)
  let ?v = "node_NotifyNodeNotReachable u"
  have ok: "up_ok h (ucast hash, u)" using assms Some by (rule up_inv_up_ok)
  then have k: "ucast (n_hash_node_id u) = (ucast hash :: u32)" by (simp add: up_ok_def)
  show ?thesis
  proof (cases "n_association_state ?v = kAssocLost")
    case True
    then have "pending_ok ?v" by (simp add: pending_ok_def)
    with True Some show ?thesis
      using up_inv_lost [OF assms, of ?v "ucast hash"] by (simp add: NotifyNodeNotReachable_def Let_def k)
  next
    case False
    with Some show ?thesis
      using up_inv_update_node [OF assms Some node_notify_ok(1) [OF ok False]]
      by (simp add: NotifyNodeNotReachable_def Let_def)
  qed
qed

lemma up_inv_reachable:
  assumes "up_inv h s"
  shows "up_inv h (NotifyNodeReachable hash s)" and "up_inv h (NotifyNodeRestarted hash s)"
  using up_inv_update_pending [OF assms node_notify_ok(5)] assms
    up_inv_update_node [OF assms _ node_notify_ok(2) [OF up_inv_up_ok [OF assms]]]
    up_inv_update_node [OF assms _ node_notify_ok(3) [OF up_inv_up_ok [OF assms]]]
  by (simp_all add: NotifyNodeReachable_def NotifyNodeRestarted_def split: option.split)

lemma up_inv_found:
  assumes "up_inv h s" and "find P (associations s) = Some (k, a)"
    and "\<And>x. assoc_ok h (k, x) \<Longrightarrow> assoc_ok h (k, f x)"
  shows "up_inv h (remove_heartbeat_timer b (put_association k (f a) s))"
proof -
  have "smap_wf (associations s)" using assms(1) by (simp add: up_inv_def)
  then have "assoc_ok h (k, a)" using assms(1,2) by (metis up_inv_assoc find_pair_map_of)
  then have "up_inv h (put_association k (f a) s)" using assms(1,3) by (simp add: up_inv_put)
  then show ?thesis by (subst up_inv_frame) simp_all
qed

lemma up_inv_step: "up_step h cfg s t \<Longrightarrow> up_inv h s \<Longrightarrow> up_inv h t"
proof (induction rule: up_step.induct)
  case (setup_request s now trxn ep n rts uff upiri)
  then show ?case by (rule up_inv_setup_request)
next
  case (setup_response s now ep n rts uff)
  then show ?case by (rule up_inv_setup_response)
next
  case (timer arg2 s t)
  then show ?case
    by (auto simp: initiate_heartbeat_request_def send_heartbeat_request_def Let_def assoc_ok_def
        up_inv_frame [of "s\<lparr>trxn_ids := _, sx_out := _\<rparr>" s]
        split: option.splits if_splits dest: up_inv_assoc intro!: up_inv_put)
next
  case (silent s now trxn)
  then show ?case
    using up_inv_found [of h s _ _ _ "\<lambda>x. x\<lparr>trxn_id_heartbeat := 0\<rparr>"]
    by (auto simp: timeout_heartbeat_request_def Let_def assoc_ok_def split: option.split
        intro!: up_inv_not_reachable up_inv_trigger)
next
  case (response s now trxn rts)
  then show ?case
    using up_inv_found [of h s _ _ _ "\<lambda>x. x\<lparr>trxn_id_heartbeat := 0\<rparr>"]
    by (auto simp: assoc_handle_heartbeat_response_def Let_def assoc_ok_def split: option.split
        intro!: up_inv_reachable up_inv_trigger)
next
  case (request s ep rts)
  then show ?case
    by (auto simp: assoc_handle_heartbeat_request_def split: option.split intro: up_inv_reachable)
qed

lemma up_inv_init: "up_inv h (PfcpUpNodes_new cfg m)"
  by (simp add: up_inv_def PfcpUpNodes_new_def list_all_iff pending_ok_def PfcpUpNode_new_def)

text \<open>
  C30: In every reachable state the associations and the user-plane nodes are filed under the
  hashes of their identities, every association is set up, the nodes in use are set up or unstable
  and have an association, and the nodes that wait for one are not.
\<close>

theorem up_plane_consistent:
  assumes "up_steps h cfg (PfcpUpNodes_new cfg m) s"
  shows "up_inv h s"
  using assms
proof (induction "PfcpUpNodes_new cfg m" s rule: up_steps.induct)
  case up_refl
  show ?case by (rule up_inv_init)
next
  case (up_next t u)
  then show ?case by (blast intro: up_inv_step)
qed

section \<open>A node that comes back\<close>

text \<open>
  A node counted as lost waits for a new association. When a heartbeat of it is answered
  meanwhile, it becomes \<^const>\<open>kAssocKnownPossible\<close>, a state from which no message brings it back.
\<close>

definition shut_out :: "string \<Rightarrow> 'p up_plane \<Rightarrow> bool" where
  "shut_out i s \<longleftrightarrow> (\<exists>u \<in> set (pending_nodes s). n_id u = i \<and> n_association_state u = kAssocKnownPossible)"

lemma shut_out_update_first:
  assumes "\<exists>u \<in> set xs. n_id u = i \<and> n_association_state u = kAssocKnownPossible"
    and "\<And>u. n_id (f u) = n_id u"
    and "\<And>u. n_association_state u = kAssocKnownPossible \<Longrightarrow> n_association_state (f u) = kAssocKnownPossible"
  shows "\<exists>u \<in> set (update_first P f xs). n_id u = i \<and> n_association_state u = kAssocKnownPossible"
  using assms by (induction xs) auto

lemma node_notify_known:
  "n_association_state u = kAssocKnownPossible \<Longrightarrow> n_association_state (node_NotifyNodeNotReachable u) = kAssocKnownPossible"
  "n_association_state u = kAssocKnownPossible \<Longrightarrow> n_association_state (node_NotifyNodeReachable u) = kAssocKnownPossible"
  by (simp_all add: node_NotifyNodeNotReachable_def node_NotifyNodeReachable_def Let_def)

lemma shut_out_notify:
  assumes "shut_out i s"
  shows "shut_out i (NotifyNodeNotReachable hash s)" and "shut_out i (NotifyNodeReachable hash s)"
    and "shut_out i (NotifyNodeRestarted hash s)"
  using assms shut_out_update_first [of "pending_nodes s" i node_NotifyNodeNotReachable]
    shut_out_update_first [of "pending_nodes s" i node_NotifyNodeReachable]
  by (auto simp: shut_out_def NotifyNodeNotReachable_def NotifyNodeReachable_def NotifyNodeRestarted_def Let_def
      node_notify_known split: option.split)

lemma shut_out_move:
  assumes "shut_out i s" and "pending_nodes s = ys @ u # zs" and "awaits n u" and "pending_nodes t = ys @ zs"
  shows "shut_out i t"
  using assms by (auto simp: shut_out_def awaits_def)

lemma shut_out_frame: "shut_out i s \<Longrightarrow> pending_nodes t = pending_nodes s \<Longrightarrow> shut_out i t"
  by (simp add: shut_out_def)

lemma add_association_pending:
  "add_association_request h cfg now trxn ep n i rts uff upiri s = (ok, t) \<Longrightarrow> pending_nodes t = pending_nodes s"
  "add_association_response h cfg now ep n rts uff s = (ok, t) \<Longrightarrow> pending_nodes t = pending_nodes s"
  by (auto simp: add_association_request_def add_association_response_def Let_def
      split: option.splits prod.splits if_splits)

lemma shut_out_setup:
  assumes "shut_out i s"
  shows "shut_out i (AssociationSetupRequest h cfg now trxn ep n rts uff upiri s)"
    and "shut_out i (AssociationSetupResp h cfg now ep n rts uff s)"
  using assms
  by (auto simp: AssociationSetupRequest_def AssociationSetupResp_def Let_def
      split: prod.splits option.splits dest!: extract_firstD add_association_pending
      intro: shut_out_move [OF assms] shut_out_frame [OF assms])

lemma shut_out_step: "up_step h cfg s t \<Longrightarrow> shut_out i s \<Longrightarrow> shut_out i t"
proof (induction rule: up_step.induct)
  case (timer arg2 s t)
  then show ?case
    by (auto simp: initiate_heartbeat_request_def send_heartbeat_request_def Let_def
        split: option.splits if_splits intro: shut_out_frame)
next
  case (silent s now trxn)
  then show ?case
    by (auto simp: timeout_heartbeat_request_def Let_def split: option.split
        intro!: shut_out_notify intro: shut_out_frame)
next
  case (response s now trxn rts)
  then show ?case
    by (auto simp: assoc_handle_heartbeat_response_def Let_def split: option.split
        intro!: shut_out_notify intro: shut_out_frame)
next
  case (request s ep rts)
  then show ?case
    by (auto simp: assoc_handle_heartbeat_request_def split: option.split intro: shut_out_notify)
qed (auto intro: shut_out_setup)

text \<open>
  A user-plane node that was lost and then answers a heartbeat is shut out for good: whatever
  happens afterwards, set-up requests of the node included, it stays in the list of pending nodes
  in a state in which no association is accepted from it.
\<close>

theorem returned_node_shut_out:
  assumes "find (\<lambda>(k, a). trxn_id_heartbeat a = trxn) (associations s) = Some (k, a)"
    and "a_recovery_time_stamp a = rts"
    and "GetUpNode (a_hash_node_id a) s = None"
    and "find (\<lambda>u. n_hash_node_id u = a_hash_node_id a) (pending_nodes s) = Some u"
    and "n_association_state u = kAssocLost"
    and "up_steps h cfg (assoc_handle_heartbeat_response cfg now trxn rts s) t"
  shows "shut_out (n_id u) t"
proof -
  have first: "find P xs = Some u \<Longrightarrow> f u \<in> set (update_first P f xs)" for P f and xs :: "PfcpUpNode list"
    by (induction xs) (auto split: if_splits)
  have up: "up_nodes (trigger_heartbeat_request_procedure cfg now k (remove_heartbeat_timer b (put_association k' b' s))) = up_nodes s"
    for b b' k' by simp
  have "shut_out (n_id u) (assoc_handle_heartbeat_response cfg now trxn rts s)"
    using assms(1-5) first [OF assms(4), of node_NotifyNodeReachable]
    by (auto simp: assoc_handle_heartbeat_response_def Let_def NotifyNodeReachable_def GetUpNode_def shut_out_def
        node_NotifyNodeReachable_def intro!: bexI [of _ "node_NotifyNodeReachable u"])
  with assms(6) show ?thesis
  proof (induction "assoc_handle_heartbeat_response cfg now trxn rts s" t rule: up_steps.induct)
    case (up_next t v)
    then show ?case by (blast intro: shut_out_step)
  qed
qed

section \<open>Examples\<close>

definition demo_hash :: std_hash where
  "demo_hash = \<lparr>hash_uint32 = ucast, hash_std_string = (\<lambda>xs. of_nat (length xs))\<rparr>"

definition demo_node :: node_id where
  "demo_node = node_id_default\<lparr>node_id_type := NODE_ID_TYPE_FQDN, fqdn := ''upf''\<rparr>"

definition demo_tai :: tai_core where
  "demo_tai = \<lparr>tai_mcc_mnc = [2, 0, 8, 9, 5, 15], tracking_area_code = 1\<rparr>"

definition demo_up_cfg :: up_cfg where
  "demo_up_cfg =
     \<lparr>pdns = [\<lparr>apn_label = ''oai'', ue_pool_range_low = htobe32 0x0A000002, ue_pool_range_high = htobe32 0x0A000101,
               paa_pool6_prefix = 0, paa_pool6_prefix_len = 64, apn = ''oai'', cfg_pdn_type = PDN_TYPE_E_IPV4\<rparr>],
      nodes = [\<lparr>u_tai = demo_tai, pdn_index = 0, u_id = ''upf''\<rparr>],
      association_heartbeat_period_ms = 10000, sx_addr4 = htobe32 0x7F000001, sx_addr6 = (0, 0, 0, 0)\<rparr>"

text \<open>The node is lost, its association is still there, and a heartbeat is under way.\<close>

definition demo_assoc :: pfcp_association where
  "demo_assoc = (pfcp_association_new_request demo_hash demo_node 5 None None)
     \<lparr>a_id := ''upf'', a_state := kAssocSetupState, trxn_id_heartbeat := 9\<rparr>"

definition demo_lost :: PfcpUpNode where
  "demo_lost = (PfcpUpNode_new ''upf'')\<lparr>n_node_id := demo_node, n_hash_node_id := hash_node_id demo_hash demo_node,
     n_association_state := kAssocLost\<rparr>"

definition demo_up :: "unit up_plane" where
  "demo_up = (PfcpUpNodes_new demo_up_cfg (itti_mw_init 0))
     \<lparr>associations := [(3, demo_assoc)], pending_nodes := [demo_lost]\<rparr>"

definition demo_uli :: uli_info where
  "demo_uli = \<lparr>uli_tai = True, tai1 = demo_tai\<rparr>"

definition demo_no_paa :: paa where
  "demo_no_paa = \<lparr>pdn_type = PDN_TYPE_E_IPV4, ipv6_prefix_length = 0, ipv6_address = 0, ipv4_address = 0\<rparr>"

lemma demo_selected:
  "select_up_node hd demo_up_cfg ''oai'' demo_uli demo_no_paa demo_up = Inr (True, demo_node)"
  by (simp add: select_up_node_def demo_up_def GetUpNodes_def demo_up_cfg_def is_ip_assigned_def demo_no_paa_def
      is_tai_def demo_uli_def candidates_def demo_assoc_def pfcp_association_new_request_def pfcp_association_new_def)

theorem heartbeats_never_change_selection_witness:
  "select_up_node hd demo_up_cfg ''oai'' demo_uli demo_no_paa (timeout_heartbeat_request demo_up_cfg 0 9 demo_up)
     = Inr (True, demo_node)"
  using heartbeats_never_change_selection [of demo_up "timeout_heartbeat_request demo_up_cfg 0 9 demo_up" demo_up_cfg 0 9 0
      endpoint_default hd demo_up_cfg "''oai''" demo_uli demo_no_paa]
  by (simp add: demo_selected) (simp add: demo_up_def)


theorem up_plane_consistent_witness:
  "up_inv demo_hash (AssociationSetupRequest demo_hash demo_up_cfg 0 7 endpoint_default demo_node 5 None None
     (PfcpUpNodes_new demo_up_cfg (itti_mw_init 0)))"
  by (rule up_plane_consistent [OF up_next [OF up_refl setup_request]])

theorem returned_node_shut_out_witness:
  "shut_out ''upf'' (AssociationSetupRequest demo_hash demo_up_cfg 0 7 endpoint_default demo_node 6 None None
     (assoc_handle_heartbeat_response demo_up_cfg 0 9 5 demo_up))"
proof -
  have "shut_out (n_id demo_lost) (AssociationSetupRequest demo_hash demo_up_cfg 0 7 endpoint_default demo_node 6 None None
     (assoc_handle_heartbeat_response demo_up_cfg 0 9 5 demo_up))"
    by (rule returned_node_shut_out [where k = 3 and a = demo_assoc and trxn = 9, OF _ _ _ _ _ up_next [OF up_refl setup_request]])
      (simp_all add: demo_up_def demo_assoc_def demo_lost_def PfcpUpNodes_new_def GetUpNode_def
        pfcp_association_new_request_def pfcp_association_new_def)
  then show ?thesis by (simp add: demo_lost_def PfcpUpNode_new_def)
qed

text \<open>
  The configured range goes from 10.0.0.2 to 10.0.1.1. Compared byte-swapped it is empty: a
  session that asks for 10.0.0.9 finds no node.
\<close>

lemma is_in_pool_byte_order:
  "\<not> is_in_pool (pdns demo_up_cfg ! 0) (demo_no_paa\<lparr>ipv4_address := htobe32 0x0A000009\<rparr>)"
  by code_simp

text \<open>
  An association that the PGW asked for itself has no name, and a named node is never selected
  through it.
\<close>

lemma requested_association_not_selectable:
  assumes "get_association h n s = None" and "\<And>nd. nd \<in> set ns \<Longrightarrow> u_id nd \<noteq> []"
    and "add_association_response h cfg now ep n rts uff s = (ok, t)"
  shows "candidates ns t = candidates ns s"
proof -
  have new: "AList.update k a xs = xs @ [(k, a)]" if "map_of xs k = None" for k and a :: pfcp_association and xs
    using that by (induction xs) (auto split: if_splits)
  have again: "AList.update k a (xs @ [(k, b)]) = xs @ [(k, a)]" if "map_of xs k = None"
    for k and a b :: pfcp_association and xs
    using that by (induction xs) (auto split: if_splits)
  have "\<exists>k a. associations t = associations s @ [(k, a)] \<and> a_id a = []"
    using assms(1,3) unfolding get_association_def
    by (auto simp: add_association_response_def get_association_def Let_def trigger_heartbeat_request_procedure_def
        new again pfcp_association_new_response_def pfcp_association_new_def split: option.splits prod.splits)
  then obtain k a where ka: "associations t = associations s @ [(k, a)]" "a_id a = []" by blast
  have "filter (\<lambda>(k, a). a_id a = u_id nd \<and> a_state a = kAssocSetupState) (associations t)
      = filter (\<lambda>(k, a). a_id a = u_id nd \<and> a_state a = kAssocSetupState) (associations s)" if "nd \<in> set ns" for nd
    using assms(2) [OF that] ka by auto
  then show ?thesis by (simp add: candidates_def cong: map_cong)
qed

end
