(* ===== verification/Pgw_Pco.thy ===== *)
theory Pgw_Pco
  imports Itti
begin

text \<open>
  Protocol configuration options (\<^verbatim>\<open>oai_spgwc/pgw_pco.cpp\<close>): the answer of the PGW to the options a
  UE sends with its session request, in particular to the IPCP packets that ask for DNS servers.
  \<^verbatim>\<open>char\<close> is signed, as on the hosts the sources are built for. The contents of an option are read
  with \<^verbatim>\<open>at\<close>, which throws outside the string; lengths are \<^verbatim>\<open>size_t\<close> and wrap around. A loop that
  never ends has no result (\<^const>\<open>None\<close>, then \<^const>\<open>Endless_loop\<close>). Asserts are taken as enabled.
\<close>

section \<open>Data\<close>

definition PCO_UNSPEC_MAXIMUM_PROTOCOL_ID_OR_CONTAINER_ID :: nat where
  "PCO_UNSPEC_MAXIMUM_PROTOCOL_ID_OR_CONTAINER_ID = 30"
definition PCO_PROTOCOL_IDENTIFIER_IPCP :: u16 where
  "PCO_PROTOCOL_IDENTIFIER_IPCP = 0x8021"
definition PCO_CONTAINER_IDENTIFIER_IP_ADDRESS_ALLOCATION_VIA_NAS_SIGNALLING :: u16 where
  "PCO_CONTAINER_IDENTIFIER_IP_ADDRESS_ALLOCATION_VIA_NAS_SIGNALLING = 0x000A"
definition PCO_CONTAINER_IDENTIFIER_DNS_SERVER_IPV4_ADDRESS_REQUEST :: u16 where
  "PCO_CONTAINER_IDENTIFIER_DNS_SERVER_IPV4_ADDRESS_REQUEST = 0x000D"
definition PCO_CONTAINER_IDENTIFIER_DNS_SERVER_IPV4_ADDRESS :: u16 where
  "PCO_CONTAINER_IDENTIFIER_DNS_SERVER_IPV4_ADDRESS = 0x000D"
definition PCO_CONTAINER_IDENTIFIER_IPV4_LINK_MTU_REQUEST :: u16 where
  "PCO_CONTAINER_IDENTIFIER_IPV4_LINK_MTU_REQUEST = 0x0010"
definition PCO_CONTAINER_IDENTIFIER_IPV4_LINK_MTU :: u16 where
  "PCO_CONTAINER_IDENTIFIER_IPV4_LINK_MTU = 0x0010"
definition IPCP_CODE_CONFIGURE_ACK :: u8 where "IPCP_CODE_CONFIGURE_ACK = 2"
definition IPCP_CODE_CONFIGURE_NACK :: u8 where "IPCP_CODE_CONFIGURE_NACK = 3"
definition IPCP_OPTION_PRIMARY_DNS_SERVER_IP_ADDRESS :: u8 where
  "IPCP_OPTION_PRIMARY_DNS_SERVER_IP_ADDRESS = 0x81"
definition IPCP_OPTION_SECONDARY_DNS_SERVER_IP_ADDRESS :: u8 where
  "IPCP_OPTION_SECONDARY_DNS_SERVER_IP_ADDRESS = 0x83"
definition INADDR_ANY :: u32 where "INADDR_ANY = 0"
definition INADDR_NONE :: u32 where "INADDR_NONE = 0xFFFFFFFF"

lemmas pco_consts =
  PCO_UNSPEC_MAXIMUM_PROTOCOL_ID_OR_CONTAINER_ID_def PCO_PROTOCOL_IDENTIFIER_IPCP_def
  PCO_CONTAINER_IDENTIFIER_IP_ADDRESS_ALLOCATION_VIA_NAS_SIGNALLING_def
  PCO_CONTAINER_IDENTIFIER_DNS_SERVER_IPV4_ADDRESS_REQUEST_def
  PCO_CONTAINER_IDENTIFIER_DNS_SERVER_IPV4_ADDRESS_def
  PCO_CONTAINER_IDENTIFIER_IPV4_LINK_MTU_REQUEST_def PCO_CONTAINER_IDENTIFIER_IPV4_LINK_MTU_def
  IPCP_CODE_CONFIGURE_ACK_def IPCP_CODE_CONFIGURE_NACK_def
  IPCP_OPTION_PRIMARY_DNS_SERVER_IP_ADDRESS_def IPCP_OPTION_SECONDARY_DNS_SERVER_IP_ADDRESS_def
  INADDR_ANY_def INADDR_NONE_def RETURNok_def RETURNerror_def

record pco_protocol_or_container_id =
  pid :: u16
  pid_length :: u8
  pid_contents :: bytes

definition pco_protocol_or_container_id_default :: pco_protocol_or_container_id where
  "pco_protocol_or_container_id_default = \<lparr>pid = 0, pid_length = 0, pid_contents = []\<rparr>"

text \<open>\<^verbatim>\<open>protocol_configuration_options_t\<close> with its array of thirty elements.\<close>

record protocol_configuration_options =
  pco_ext :: u8
  pco_spare :: u8
  configuration_protocol :: u8
  num_ids :: u8
  pids :: "pco_protocol_or_container_id list"

definition protocol_configuration_options_default :: protocol_configuration_options where
  "protocol_configuration_options_default =
     \<lparr>pco_ext = 0, pco_spare = 0, configuration_protocol = 0, num_ids = 0,
      pids = replicate PCO_UNSPEC_MAXIMUM_PROTOCOL_ID_OR_CONTAINER_ID pco_protocol_or_container_id_default\<rparr>"

record protocol_configuration_options_ids =
  pi_ipcp :: bool
  ci_dns_server_ipv4_address_request :: bool
  ci_ip_address_allocation_via_nas_signalling :: bool
  ci_ipv4_address_allocation_via_dhcpv4 :: bool
  ci_ipv4_link_mtu_request :: bool

definition protocol_configuration_options_ids_default :: protocol_configuration_options_ids where
  "protocol_configuration_options_ids_default =
     \<lparr>pi_ipcp = False, ci_dns_server_ipv4_address_request = False,
      ci_ip_address_allocation_via_nas_signalling = False,
      ci_ipv4_address_allocation_via_dhcpv4 = False, ci_ipv4_link_mtu_request = False\<rparr>"

text \<open>What the code reads of \<^verbatim>\<open>pgw_cfg.spgw_app_\<close>; the addresses are in network byte order.\<close>

record spgw_app_cfg =
  default_dnsv4 :: u32
  default_dns_secv4 :: u32
  default_ue_mtu_ipv4 :: u32
  force_push_pco :: bool

section \<open>The operations\<close>

definition pco_push_protocol_or_container_id ::
  "protocol_configuration_options \<Rightarrow> pco_protocol_or_container_id \<Rightarrow> (int \<times> protocol_configuration_options) outcome" where
  "pco_push_protocol_or_container_id pco poc_id =
     (if PCO_UNSPEC_MAXIMUM_PROTOCOL_ID_OR_CONTAINER_ID \<le> unat (num_ids pco) then Inr (RETURNerror, pco)
      else if unat (pid_length poc_id) \<noteq> length (pid_contents poc_id) then Inl Assert_failed
      else Inr (RETURNok, pco\<lparr>pids := (pids pco)[unat (num_ids pco) := poc_id], num_ids := num_ids pco + 1\<rparr>))"

definition contents_at :: "bytes \<Rightarrow> u64 \<Rightarrow> u8 outcome" where
  "contents_at c i = (if unat i < length c then Inr (c ! unat i) else Inl Out_of_range)"

text \<open>
  The address an option carries: the bytes are cast from \<^verbatim>\<open>char\<close> to \<^verbatim>\<open>uint32_t\<close>, shifted and
  combined. The cast extends the sign.
\<close>

definition join_chars :: "u8 \<Rightarrow> u8 \<Rightarrow> u8 \<Rightarrow> u8 \<Rightarrow> u32" where
  "join_chars a b c d =
     htobe32 (push_bit 24 (scast a) OR push_bit 16 (scast b) OR push_bit 8 (scast c) OR scast d)"

text \<open>The four bytes of an address in network byte order, as they are in memory.\<close>

definition addr_bytes :: "u32 \<Rightarrow> bytes" where
  "addr_bytes w = [ucast (w AND 0xFF), ucast (drop_bit 8 w AND 0xFF), ucast (drop_bit 16 w AND 0xFF),
                   ucast (drop_bit 24 w AND 0xFF)]"

record ipcp_out =
  out_code :: u8
  out_length :: u16
  out_prim :: u32
  out_sec :: u32
  out_contents :: bytes

text \<open>
  One DNS option: the code of the answer and the address put into it. The two cases of the
  source differ in the variables only.
\<close>

definition ipcp_dns ::
  "u32 \<Rightarrow> bytes \<Rightarrow> u64 \<Rightarrow> u8 \<Rightarrow> u8 \<Rightarrow> u32 \<Rightarrow> (u8 \<times> u32) outcome" where
  "ipcp_dns cfg_addr c i len code out =
     (if 6 \<le> unat len then
        obind (contents_at c (i + 2)) (\<lambda>b0.
        obind (contents_at c (i + 3)) (\<lambda>b1.
        obind (contents_at c (i + 4)) (\<lambda>b2.
        obind (contents_at c (i + 5)) (\<lambda>b3.
          let a = join_chars b0 b1 b2 b3 in
          if a = INADDR_ANY then Inr (IPCP_CODE_CONFIGURE_NACK, cfg_addr)
          else if cfg_addr \<noteq> a then Inr (IPCP_CODE_CONFIGURE_NACK, cfg_addr)
          else Inr (code, a)))))
      else Inr (code, out))"

definition ipcp_option :: "spgw_app_cfg \<Rightarrow> bytes \<Rightarrow> u64 \<Rightarrow> u8 \<Rightarrow> u8 \<Rightarrow> ipcp_out \<Rightarrow> ipcp_out outcome" where
  "ipcp_option cfg c i opt len out =
     (if opt = IPCP_OPTION_PRIMARY_DNS_SERVER_IP_ADDRESS then
        obind (ipcp_dns (default_dnsv4 cfg) c i len (out_code out) (out_prim out)) (\<lambda>(code, a).
          Inr (out\<lparr>out_code := code, out_prim := a, out_length := out_length out + 6,
                 out_contents := out_contents out @ [opt, 6] @ addr_bytes a\<rparr>))
      else if opt = IPCP_OPTION_SECONDARY_DNS_SERVER_IP_ADDRESS then
        obind (ipcp_dns (default_dns_secv4 cfg) c i len (out_code out) (out_sec out)) (\<lambda>(code, a).
          Inr (out\<lparr>out_code := code, out_sec := a, out_length := out_length out + 6,
                 out_contents := out_contents out @ [opt, 6] @ addr_bytes a\<rparr>))
      else Inr out)"

partial_function (option) ipcp_loop ::
  "spgw_app_cfg \<Rightarrow> bytes \<Rightarrow> u64 \<Rightarrow> u64 \<Rightarrow> ipcp_out \<Rightarrow> ipcp_out outcome option" where
  "ipcp_loop cfg c remaining i out =
     (if 2 \<le> unat remaining then
        (case contents_at c i of
           Inl e \<Rightarrow> Some (Inl e)
         | Inr opt \<Rightarrow>
             (case contents_at c (i + 1) of
                Inl e \<Rightarrow> Some (Inl e)
              | Inr len \<Rightarrow>
                  (case ipcp_option cfg c i opt len out of
                     Inl e \<Rightarrow> Some (Inl e)
                   | Inr out' \<Rightarrow> ipcp_loop cfg c (remaining - ucast len) (i + ucast len) out')))
      else Some (Inr out))"

definition process_pco_request_ipcp ::
  "spgw_app_cfg \<Rightarrow> protocol_configuration_options \<Rightarrow> pco_protocol_or_container_id \<Rightarrow>
     (int \<times> protocol_configuration_options) outcome" where
  "process_pco_request_ipcp cfg pco_resp poc_id =
     (let c = pid_contents poc_id in
      obind (contents_at c 0) (\<lambda>req_code.
      obind (contents_at c 1) (\<lambda>req_identifier.
      obind (contents_at c 2) (\<lambda>_.
      obind (contents_at c 3) (\<lambda>_.
        case ipcp_loop cfg c (ucast (pid_length poc_id) - 4) 4
               \<lparr>out_code = IPCP_CODE_CONFIGURE_ACK, out_length = 4, out_prim = INADDR_NONE,
                out_sec = INADDR_NONE, out_contents = [0, 0, 0, 0]\<rparr> of
          None \<Rightarrow> Inl Endless_loop
        | Some r \<Rightarrow> obind r (\<lambda>out.
            pco_push_protocol_or_container_id pco_resp
              \<lparr>pid = pid poc_id, pid_length = ucast (out_length out),
               pid_contents = (out_contents out)[0 := out_code out, 1 := req_identifier,
                 2 := ucast (drop_bit 8 (out_length out)), 3 := ucast (out_length out AND 0xFF)]\<rparr>))))))"

definition process_pco_dns_server_request ::
  "spgw_app_cfg \<Rightarrow> protocol_configuration_options \<Rightarrow> (int \<times> protocol_configuration_options) outcome" where
  "process_pco_dns_server_request cfg pco_resp =
     pco_push_protocol_or_container_id pco_resp
       \<lparr>pid = PCO_CONTAINER_IDENTIFIER_DNS_SERVER_IPV4_ADDRESS, pid_length = 4,
        pid_contents = addr_bytes (default_dnsv4 cfg)\<rparr>"

definition process_pco_link_mtu_request ::
  "spgw_app_cfg \<Rightarrow> protocol_configuration_options \<Rightarrow> (int \<times> protocol_configuration_options) outcome" where
  "process_pco_link_mtu_request cfg pco_resp =
     pco_push_protocol_or_container_id pco_resp
       \<lparr>pid = PCO_CONTAINER_IDENTIFIER_IPV4_LINK_MTU, pid_length = 2,
        pid_contents = [ucast (drop_bit 8 (default_ue_mtu_ipv4 cfg)), ucast (default_ue_mtu_ipv4 cfg AND 0xFF)]\<rparr>"

type_synonym pco_state = "protocol_configuration_options \<times> protocol_configuration_options_ids"

text \<open>One element of the request.\<close>

definition process_pco_id ::
  "spgw_app_cfg \<Rightarrow> pco_protocol_or_container_id \<Rightarrow> pco_state \<Rightarrow> pco_state outcome" where
  "process_pco_id cfg poc_id st =
     (case st of (pco_resp, pco_ids) \<Rightarrow>
        if pid poc_id = PCO_PROTOCOL_IDENTIFIER_IPCP then
          obind (process_pco_request_ipcp cfg pco_resp poc_id) (\<lambda>(_, r). Inr (r, pco_ids\<lparr>pi_ipcp := True\<rparr>))
        else if pid poc_id = PCO_CONTAINER_IDENTIFIER_DNS_SERVER_IPV4_ADDRESS_REQUEST then
          obind (process_pco_dns_server_request cfg pco_resp) (\<lambda>(_, r).
            Inr (r, pco_ids\<lparr>ci_dns_server_ipv4_address_request := True\<rparr>))
        else if pid poc_id = PCO_CONTAINER_IDENTIFIER_IP_ADDRESS_ALLOCATION_VIA_NAS_SIGNALLING then
          Inr (pco_resp, pco_ids\<lparr>ci_ip_address_allocation_via_nas_signalling := True\<rparr>)
        else if pid poc_id = PCO_CONTAINER_IDENTIFIER_IPV4_LINK_MTU_REQUEST then
          obind (process_pco_link_mtu_request cfg pco_resp) (\<lambda>(_, r).
            Inr (r, pco_ids\<lparr>ci_ipv4_link_mtu_request := True\<rparr>))
        else Inr st)"

fun process_pco_loop ::
  "spgw_app_cfg \<Rightarrow> protocol_configuration_options \<Rightarrow> nat list \<Rightarrow> pco_state \<Rightarrow> pco_state outcome" where
  "process_pco_loop cfg req [] st = Inr st"
| "process_pco_loop cfg req (k # ks) st =
     (if k < length (pids req) then obind (process_pco_id cfg (pids req ! k) st) (process_pco_loop cfg req ks)
      else Inl Out_of_range)"

definition process_pco_request ::
  "spgw_app_cfg \<Rightarrow> protocol_configuration_options \<Rightarrow> protocol_configuration_options \<Rightarrow>
     protocol_configuration_options_ids \<Rightarrow> pco_state outcome" where
  "process_pco_request cfg pco_req pco_resp pco_ids =
     (let r0 = (if configuration_protocol pco_req = 0
                then pco_resp\<lparr>pco_ext := 1, pco_spare := 0, num_ids := 0,
                       configuration_protocol := configuration_protocol pco_req\<rparr>
                else pco_resp)
      in obind (process_pco_loop cfg pco_req [0..<unat (num_ids pco_req)] (r0, pco_ids)) (\<lambda>(r1, i1).
           if force_push_pco cfg then
             (let i2 = i1\<lparr>ci_ip_address_allocation_via_nas_signalling := True\<rparr> in
              obind (if ci_dns_server_ipv4_address_request i2 then Inr (RETURNok, r1)
                     else process_pco_dns_server_request cfg r1) (\<lambda>(_, r2).
              obind (if ci_ipv4_link_mtu_request i2 then Inr (RETURNok, r2)
                     else process_pco_link_mtu_request cfg r2) (\<lambda>(_, r3).
                Inr (r3, i2))))
           else Inr (r1, i1)))"

section \<open>Well-formed IPCP requests\<close>

text \<open>
  The abstract view of an IPCP packet: a sequence of options, each a type and a payload. On the
  wire an option is its type, the length of the whole option, and the payload.
\<close>

type_synonym ipcp_opt = "u8 \<times> bytes"

definition opt_wire :: "ipcp_opt \<Rightarrow> bytes" where
  "opt_wire x = (case x of (t, p) \<Rightarrow> t # of_nat (2 + length p) # p)"

definition opts_wire :: "ipcp_opt list \<Rightarrow> bytes" where
  "opts_wire xs = concat (map opt_wire xs)"

definition is_dns :: "u8 \<Rightarrow> bool" where
  "is_dns t \<longleftrightarrow> t = IPCP_OPTION_PRIMARY_DNS_SERVER_IP_ADDRESS \<or> t = IPCP_OPTION_SECONDARY_DNS_SERVER_IP_ADDRESS"

definition dns_of :: "spgw_app_cfg \<Rightarrow> u8 \<Rightarrow> u32" where
  "dns_of cfg t = (if t = IPCP_OPTION_PRIMARY_DNS_SERVER_IP_ADDRESS then default_dnsv4 cfg else default_dns_secv4 cfg)"

text \<open>The address a payload asks for, as the code reads it.\<close>

definition asked :: "bytes \<Rightarrow> u32" where
  "asked p = join_chars (p ! 0) (p ! 1) (p ! 2) (p ! 3)"

text \<open>The answer: every DNS option with the configured server, the other options left out.\<close>

definition answer :: "spgw_app_cfg \<Rightarrow> ipcp_opt \<Rightarrow> bytes" where
  "answer cfg x = (if is_dns (fst x) then [fst x, 6] @ addr_bytes (dns_of cfg (fst x)) else [])"

definition answers :: "spgw_app_cfg \<Rightarrow> ipcp_opt list \<Rightarrow> bytes" where
  "answers cfg xs = concat (map (answer cfg) xs)"

text \<open>The options the PGW agrees to: a DNS option that asks for the configured server.\<close>

definition agreed :: "spgw_app_cfg \<Rightarrow> ipcp_opt \<Rightarrow> bool" where
  "agreed cfg x \<longleftrightarrow> (if is_dns (fst x) then asked (snd x) \<noteq> INADDR_ANY \<and> asked (snd x) = dns_of cfg (fst x) else True)"

definition opt_ok :: "ipcp_opt \<Rightarrow> bool" where
  "opt_ok x \<longleftrightarrow> (if is_dns (fst x) then 4 \<le> length (snd x) else True)"

lemma unat_of_nat_small: "n < 2 ^ LENGTH('a) \<Longrightarrow> unat (of_nat n :: 'a::len word) = n"
  by (simp add: unat_of_nat)

lemma ucast_of_nat_small:
  "n < 2 ^ LENGTH('a) \<Longrightarrow> ucast (of_nat n :: 'a::len word) = (of_nat n :: 'b::len word)"
  by (metis of_nat_unat unat_of_nat_small)

lemma ucast_low_byte: "ucast ((w :: u16) AND 0xFF) = (ucast w :: u8)"
proof -
  have m: "(0xFF :: u16) = mask 8" by (simp add: mask_eq_exp_minus_1)
  show ?thesis unfolding m by (rule bit_word_eqI) (simp add: bit_simps)
qed

lemma contents_at_of_nat:
  "n < 2 ^ 64 \<Longrightarrow> contents_at c (of_nat n) = (if n < length c then Inr (c ! n) else Inl Out_of_range)"
  by (simp add: contents_at_def unat_of_nat_small)

lemma contents_at_offset:
  "length pre + k < 2 ^ 64 \<Longrightarrow> k < length suf \<Longrightarrow>
     contents_at (pre @ suf) (of_nat (length pre) + of_nat k) = Inr (suf ! k)"
  using contents_at_of_nat [of "length pre + k" "pre @ suf"] by (simp add: nth_append)

lemma length_opt_wire [simp]: "length (opt_wire (t, p)) = 2 + length p"
  by (simp add: opt_wire_def)

text \<open>The effect of one well-formed option on the answer.\<close>

definition ipcp_answer_dns :: "u32 \<Rightarrow> bytes \<Rightarrow> u8 \<Rightarrow> u32 \<Rightarrow> u8 \<times> u32" where
  "ipcp_answer_dns cfg_addr p code out =
     (if 4 \<le> length p
      then if asked p \<noteq> INADDR_ANY \<and> asked p = cfg_addr then (code, cfg_addr) else (IPCP_CODE_CONFIGURE_NACK, cfg_addr)
      else (code, out))"

definition ipcp_step :: "spgw_app_cfg \<Rightarrow> ipcp_out \<Rightarrow> ipcp_opt \<Rightarrow> ipcp_out" where
  "ipcp_step cfg out x =
     (case x of (t, p) \<Rightarrow>
        if t = IPCP_OPTION_PRIMARY_DNS_SERVER_IP_ADDRESS then
          (case ipcp_answer_dns (default_dnsv4 cfg) p (out_code out) (out_prim out) of (code, a) \<Rightarrow>
             out\<lparr>out_code := code, out_prim := a, out_length := out_length out + 6,
                 out_contents := out_contents out @ [t, 6] @ addr_bytes a\<rparr>)
        else if t = IPCP_OPTION_SECONDARY_DNS_SERVER_IP_ADDRESS then
          (case ipcp_answer_dns (default_dns_secv4 cfg) p (out_code out) (out_sec out) of (code, a) \<Rightarrow>
             out\<lparr>out_code := code, out_sec := a, out_length := out_length out + 6,
                 out_contents := out_contents out @ [t, 6] @ addr_bytes a\<rparr>)
        else out)"

lemma ipcp_dns_payload:
  assumes "length pre + length p + 2 \<le> 255"
  shows "ipcp_dns cfg_addr (pre @ opt_wire (t, p) @ suf) (of_nat (length pre)) (of_nat (2 + length p)) code out
     = Inr (ipcp_answer_dns cfg_addr p code out)"
proof -
  have at: "4 \<le> length p \<Longrightarrow> k < 4 \<Longrightarrow>
      contents_at (pre @ opt_wire (t, p) @ suf) (of_nat (length pre) + of_nat (k + 2)) = Inr (p ! k)" for k
    using assms contents_at_offset [of pre "k + 2" "opt_wire (t, p) @ suf"]
    by (simp add: opt_wire_def nth_append)
  have len: "6 \<le> unat (of_nat (2 + length p) :: u8) \<longleftrightarrow> 4 \<le> length p"
    using assms by (subst unat_of_nat_small) auto
  show ?thesis
    using at [of 0] at [of 1] at [of 2] at [of 3]
    unfolding ipcp_dns_def len ipcp_answer_dns_def by (auto simp: Let_def asked_def)
qed

lemma ipcp_option_payload:
  assumes "length pre + length p + 2 \<le> 255"
  shows "ipcp_option cfg (pre @ opt_wire (t, p) @ suf) (of_nat (length pre)) t (of_nat (2 + length p)) out
     = Inr (ipcp_step cfg out (t, p))"
  unfolding ipcp_option_def ipcp_step_def ipcp_dns_payload [OF assms] by (simp split: prod.splits)

lemma ipcp_loop_wire:
  "length (pre @ opts_wire xs @ suf) \<le> 255 \<Longrightarrow>
     ipcp_loop cfg (pre @ opts_wire xs @ suf) (of_nat (length (opts_wire xs @ suf))) (of_nat (length pre)) out
       = ipcp_loop cfg (pre @ opts_wire xs @ suf) (of_nat (length suf)) (of_nat (length (pre @ opts_wire xs)))
           (foldl (ipcp_step cfg) out xs)"
proof (induction xs arbitrary: pre out)
  case Nil
  then show ?case by (simp add: opts_wire_def)
next
  case (Cons x xs)
  obtain t p where x: "x = (t, p)" by force
  let ?n = "2 + length p" and ?c = "pre @ opts_wire (x # xs) @ suf" and ?r = "opts_wire xs @ suf"
  have c: "?c = pre @ opt_wire (t, p) @ ?r" and c': "?c = (pre @ opt_wire (t, p)) @ opts_wire xs @ suf"
    and len: "length (opts_wire (x # xs) @ suf) = ?n + length ?r"
    and pos: "length (pre @ opts_wire (x # xs)) = length ((pre @ opt_wire (t, p)) @ opts_wire xs)"
    by (simp_all add: opts_wire_def x)
  from Cons.prems len have b: "length pre + (?n + length ?r) \<le> 255" by simp
  have ge: "2 \<le> unat (of_nat (length (opts_wire (x # xs) @ suf)) :: u64)"
    using b unfolding len by (subst unat_of_nat_small) auto
  have at0: "contents_at ?c (of_nat (length pre)) = Inr t"
    using b contents_at_offset [of pre 0 "opt_wire (t, p) @ ?r"] unfolding c by (simp add: opt_wire_def)
  have at1: "contents_at ?c (of_nat (length pre) + 1) = Inr (of_nat ?n)"
    using b contents_at_offset [of pre 1 "opt_wire (t, p) @ ?r"] unfolding c by (simp add: opt_wire_def)
  have opt: "ipcp_option cfg ?c (of_nat (length pre)) t (of_nat ?n) out = Inr (ipcp_step cfg out x)"
    using ipcp_option_payload [of pre p cfg t ?r out] b unfolding c by (simp add: x del: of_nat_add)
  have u: "ucast (of_nat ?n :: u8) = (of_nat ?n :: u64)" using b by (intro ucast_of_nat_small) simp
  have r: "of_nat (length (opts_wire (x # xs) @ suf)) - of_nat ?n = (of_nat (length ?r) :: u64)"
    and l: "of_nat (length pre) + of_nat ?n = (of_nat (length (pre @ opt_wire (t, p))) :: u64)"
    unfolding len by simp_all
  have "ipcp_loop cfg ?c (of_nat (length (opts_wire (x # xs) @ suf))) (of_nat (length pre)) out
      = ipcp_loop cfg ?c (of_nat (length ?r)) (of_nat (length (pre @ opt_wire (t, p)))) (ipcp_step cfg out x)"
    by (subst ipcp_loop.simps) (simp only: ge at0 at1 opt u r l if_True sum.case)
  also have "\<dots> = ipcp_loop cfg ?c (of_nat (length suf)) (of_nat (length ((pre @ opt_wire (t, p)) @ opts_wire xs)))
      (foldl (ipcp_step cfg) (ipcp_step cfg out x) xs)"
    unfolding c' by (rule Cons.IH) (use b in simp)
  finally show ?case unfolding pos by simp
qed

lemma ipcp_loop_end: "ipcp_loop cfg c 0 i out = Some (Inr out)"
  by (subst ipcp_loop.simps) simp

lemma ipcp_step_dns:
  assumes "opt_ok x"
  shows "out_contents (ipcp_step cfg out x) = out_contents out @ answer cfg x"
    and "out_length (ipcp_step cfg out x) = out_length out + of_nat (length (answer cfg x))"
    and "out_code (ipcp_step cfg out x) = (if agreed cfg x then out_code out else IPCP_CODE_CONFIGURE_NACK)"
  using assms
  by (auto simp: ipcp_step_def opt_ok_def answer_def agreed_def is_dns_def dns_of_def ipcp_answer_dns_def
      addr_bytes_def split: prod.splits)

lemma ipcp_fold_dns:
  assumes "list_all opt_ok xs"
  shows "out_contents (foldl (ipcp_step cfg) out xs) = out_contents out @ answers cfg xs"
    and "out_length (foldl (ipcp_step cfg) out xs) = out_length out + of_nat (length (answers cfg xs))"
    and "out_code (foldl (ipcp_step cfg) out xs)
           = (if list_all (agreed cfg) xs then out_code out else IPCP_CODE_CONFIGURE_NACK)"
  using assms by (induction xs arbitrary: out) (simp_all add: answers_def ipcp_step_dns)

lemma length_answers: "list_all opt_ok xs \<Longrightarrow> length (answers cfg xs) \<le> length (opts_wire xs)"
  by (induction xs) (auto simp: answers_def opts_wire_def answer_def opt_ok_def addr_bytes_def opt_wire_def)



text \<open>A UE asks for the two servers of the default configuration, one of them unspecified.\<close>

definition demo_cfg :: spgw_app_cfg where
  "demo_cfg = \<lparr>default_dnsv4 = htobe32 0x08080808, default_dns_secv4 = htobe32 0x08080404,
               default_ue_mtu_ipv4 = 1464, force_push_pco = False\<rparr>"

definition demo_opts :: "ipcp_opt list" where
  "demo_opts = [(0x81, [8, 8, 8, 8]), (0x83, [0, 0, 0, 0])]"

lemma demo_opts_ok:
  "length (opts_wire demo_opts) = 12" "list_all opt_ok demo_opts" "\<not> list_all (agreed demo_cfg) demo_opts"
  "answers demo_cfg demo_opts = [0x81, 6, 8, 8, 8, 8, 0x83, 6, 8, 8, 4, 4]"
  "opts_wire demo_opts = [0x81, 6, 8, 8, 8, 8, 0x83, 6, 0, 0, 0, 0]"
  by code_simp+


section \<open>Malformed IPCP requests\<close>

lemma ipcp_loop_zero_length:
  assumes "2 \<le> unat remaining" and "contents_at c i = Inr opt" and "contents_at c (i + 1) = Inr 0"
    and "\<not> is_dns opt"
  shows "ipcp_loop cfg c remaining i out = None"
proof (rule ccontr)
  assume "ipcp_loop cfg c remaining i out \<noteq> None"
  then obtain y where "ipcp_loop cfg c remaining i out = Some y" by blast
  then have "\<not> (2 \<le> unat remaining \<and> contents_at c i = Inr opt \<and> contents_at c (i + 1) = Inr 0)"
  proof (rule ipcp_loop.raw_induct [where P = "\<lambda>_ c' r' i' _ _.
      \<not> (2 \<le> unat r' \<and> contents_at c' i' = Inr opt \<and> contents_at c' (i' + 1) = Inr 0)", rotated])
    show "\<not> (2 \<le> unat r' \<and> contents_at c' i' = Inr opt \<and> contents_at c' (i' + 1) = Inr 0)"
      if "\<And>cfg c r i out y. rec cfg c r i out = Some y \<Longrightarrow>
            \<not> (2 \<le> unat r \<and> contents_at c i = Inr opt \<and> contents_at c (i + 1) = Inr 0)"
        and "(if 2 \<le> unat r' then
               (case contents_at c' i' of Inl e \<Rightarrow> Some (Inl e)
                | Inr opt \<Rightarrow> (case contents_at c' (i' + 1) of Inl e \<Rightarrow> Some (Inl e)
                   | Inr len \<Rightarrow> (case ipcp_option cfg' c' i' opt len out' of Inl e \<Rightarrow> Some (Inl e)
                      | Inr out'' \<Rightarrow> rec cfg' c' (r' - ucast len) (i' + ucast len) out'')))
             else Some (Inr out')) = Some y'"
      for rec cfg' c' r' i' out' y'
      using that assms(4) by (auto simp: ipcp_option_def is_dns_def)
  qed
  with assms show False by blast
qed

lemma process_pco_request_ipcp_endless:
  assumes "4 \<le> length (pid_contents p)"
    and "ipcp_loop cfg (pid_contents p) (ucast (pid_length p) - 4) 4
           \<lparr>out_code = IPCP_CODE_CONFIGURE_ACK, out_length = 4, out_prim = INADDR_NONE,
            out_sec = INADDR_NONE, out_contents = [0, 0, 0, 0]\<rparr> = None"
  shows "process_pco_request_ipcp cfg r p = Inl Endless_loop"
  using assms by (auto simp: process_pco_request_ipcp_def contents_at_def Let_def)

text \<open>
  C40: An IPCP option of length zero makes the PGW hang: whatever well-formed options come before
  it, \<^verbatim>\<open>process_pco_request\<close> never returns (the option is not one of the DNS options; for those the
  answer grows in every round until the memory is exhausted).
\<close>

theorem ipcp_zero_length_option_hangs:
  assumes "\<not> is_dns t" and "length (opts_wire xs @ [t, 0] @ rest) \<le> 251"
    and "0 < unat (num_ids req)"
    and "pids req = \<lparr>pid = PCO_PROTOCOL_IDENTIFIER_IPCP,
           pid_length = of_nat (4 + length (opts_wire xs @ [t, 0] @ rest)),
           pid_contents = [code, ident, l1, l0] @ opts_wire xs @ [t, 0] @ rest\<rparr> # others"
  shows "process_pco_request cfg req resp ids = Inl Endless_loop"
proof -
  let ?hdr = "[code, ident, l1, l0]" and ?suf = "[t, 0] @ rest"
  let ?c = "?hdr @ opts_wire xs @ ?suf" and ?body = "opts_wire xs @ ?suf"
  let ?init = "\<lparr>out_code = IPCP_CODE_CONFIGURE_ACK, out_length = 4, out_prim = INADDR_NONE,
              out_sec = INADDR_NONE, out_contents = [0, 0, 0, 0]\<rparr>"
  have b: "length ?c \<le> 255" using assms(2) by simp
  have rem: "ucast (of_nat (4 + length ?body) :: u8) - 4 = (of_nat (length ?body) :: u64)"
    using assms(2) by (subst ucast_of_nat_small) simp_all
  have at: "contents_at ?c (of_nat (length (?hdr @ opts_wire xs)) + of_nat k) = Inr (?suf ! k)" if "k < 2" for k
    using that assms(2) contents_at_offset [of "?hdr @ opts_wire xs" k ?suf] by simp
  have "2 \<le> unat (of_nat (length ?suf) :: u64)"
    using b by (subst unat_of_nat_small) auto
  then have "ipcp_loop cfg ?c (of_nat (length ?suf)) (of_nat (length (?hdr @ opts_wire xs))) out = None" for out
    using at [of 0] at [of 1] assms(1) by (intro ipcp_loop_zero_length [where opt = t]) simp_all
  then have loop: "ipcp_loop cfg ?c (of_nat (length ?body)) 4 ?init = None"
    using ipcp_loop_wire [OF b, of cfg ?init] by simp
  let ?p = "\<lparr>pid = PCO_PROTOCOL_IDENTIFIER_IPCP, pid_length = of_nat (4 + length ?body), pid_contents = ?c\<rparr>"
  have "process_pco_request_ipcp cfg r ?p = Inl Endless_loop" for r
    using loop by (intro process_pco_request_ipcp_endless)
      (simp_all only: rem pco_protocol_or_container_id.simps, simp)
  then show ?thesis
    using assms(3)
    by (simp add: process_pco_request_def process_pco_id_def upt_conv_Cons assms(4) Let_def)
qed

definition demo_bad_request :: protocol_configuration_options where
  "demo_bad_request = protocol_configuration_options_default
     \<lparr>num_ids := 1, pids := [\<lparr>pid = PCO_PROTOCOL_IDENTIFIER_IPCP, pid_length = 12,
        pid_contents = [1, 5, 0, 12, 0x81, 6, 8, 8, 8, 8, 3, 0]\<rparr>]\<rparr>"

theorem ipcp_zero_length_option_hangs_witness:
  "process_pco_request demo_cfg demo_bad_request protocol_configuration_options_default
     protocol_configuration_options_ids_default = Inl Endless_loop"
  using ipcp_zero_length_option_hangs [of 3 "[(0x81, [8, 8, 8, 8])]" "[]" demo_bad_request 1 5 0 12 "[]"
      demo_cfg protocol_configuration_options_default protocol_configuration_options_ids_default]
  by (simp add: demo_bad_request_def is_dns_def opts_wire_def opt_wire_def
      IPCP_OPTION_PRIMARY_DNS_SERVER_IP_ADDRESS_def IPCP_OPTION_SECONDARY_DNS_SERVER_IP_ADDRESS_def)

text \<open>
  An address with a last byte above 127 is read with its first three bytes all set, so a request
  for exactly the configured server is refused.
\<close>

lemma join_chars_high_byte:
  assumes "bit d 7"
  shows "be32toh (join_chars a b c d) = NOT (mask 8) OR ucast d"
proof -
  have "bit d n" if "7 \<le> n" "n < 8" for n
  proof -
    from that have "n = 7" by simp
    with assms show ?thesis by simp
  qed
  then show ?thesis
    unfolding join_chars_def be32toh_htobe32
    using assms by (intro bit_word_eqI) (auto simp: bit_simps min_def dest: bit_imp_le_length split: if_splits)
qed

lemma be_bytes_4:
  "be_bytes 4 w = [ucast (drop_bit 24 w), ucast (drop_bit 16 w), ucast (drop_bit 8 w), ucast w]"
  by (simp add: eval_nat_numeral drop_bit_drop_bit)

lemma high_byte_server_refused:
  assumes "bit d 7" and "default_dnsv4 cfg = htobe32 (word_of_be [a, b, c, d])" and "[a, b, c] \<noteq> [-1, -1, -1]"
  shows "\<not> agreed cfg (IPCP_OPTION_PRIMARY_DNS_SERVER_IP_ADDRESS, [a, b, c, d])"
proof
  let ?w = "word_of_be [a, b, c, d] :: u32"
  assume "agreed cfg (IPCP_OPTION_PRIMARY_DNS_SERVER_IP_ADDRESS, [a, b, c, d])"
  then have "join_chars a b c d = htobe32 ?w"
    using assms(2) by (simp add: agreed_def is_dns_def dns_of_def asked_def)
  then have w: "?w = NOT (mask 8) OR ucast d"
    using join_chars_high_byte [OF assms(1), of a b c] by simp
  have "be_bytes 4 ?w = [a, b, c, d]"
    using be_bytes_word_of_be [of "[a, b, c, d]", where 'a = 32] by (simp add: be_bytes_4)
  moreover have "ucast (drop_bit k ?w) = (- 1 :: u8)" if "k \<in> {8, 16, 24}" for k
    unfolding w using that by (intro bit_word_eqI) (auto simp: bit_simps)
  ultimately show False using assms(3) by (auto simp: be_bytes_4)
qed

lemma short_dns_fold:
  "out_length (foldl (ipcp_step cfg) out (replicate n (0x81, []))) = out_length out + of_nat (6 * n)"
  "length (out_contents (foldl (ipcp_step cfg) out (replicate n (0x81, [])))) = length (out_contents out) + 6 * n"
  by (induction n arbitrary: out)
    (simp_all add: ipcp_step_def ipcp_answer_dns_def IPCP_OPTION_PRIMARY_DNS_SERVER_IP_ADDRESS_def addr_bytes_def)

text \<open>
  Forty-two DNS options without an address fit into a request, but the answer is longer than its
  length byte can say: the assertion on the two lengths fails.
\<close>

lemma many_dns_options_assert:
  "process_pco_request_ipcp demo_cfg protocol_configuration_options_default
       \<lparr>pid = PCO_PROTOCOL_IDENTIFIER_IPCP, pid_length = 88,
        pid_contents = [1, 5, 0, 88] @ opts_wire (replicate 42 (0x81, []))\<rparr> = Inl Assert_failed"
proof -
  let ?c = "[1, 5, 0, 88] @ opts_wire (replicate 42 (0x81, []))"
  let ?init = "\<lparr>out_code = IPCP_CODE_CONFIGURE_ACK, out_length = 4, out_prim = INADDR_NONE,
              out_sec = INADDR_NONE, out_contents = [0, 0, 0, 0]\<rparr>"
  let ?fin = "foldl (ipcp_step demo_cfg) ?init (replicate 42 (0x81, []))"
  have len: "length (opts_wire (replicate 42 (0x81, []))) = 84"
    by (simp add: opts_wire_def opt_wire_def map_replicate_const length_concat sum_list_replicate)
  have "ipcp_loop demo_cfg ?c 84 4 ?init = Some (Inr ?fin)"
    using ipcp_loop_wire [of "[1, 5, 0, 88]" "replicate 42 (0x81, [])" "[]" demo_cfg ?init]
    by (simp add: len ipcp_loop_end)
  moreover have "unat (ucast (out_length ?fin) :: u8) \<noteq> length (out_contents ?fin)"
    unfolding short_dns_fold by simp
  ultimately show ?thesis
    by (simp add: process_pco_request_ipcp_def contents_at_def Let_def pco_push_protocol_or_container_id_def
        protocol_configuration_options_default_def PCO_UNSPEC_MAXIMUM_PROTOCOL_ID_OR_CONTAINER_ID_def)
qed

end
