(* ===== verification/Pgw_Context.thy ===== *)
theory Pgw_Context
  imports Pfcp_Assoc Pgw_Pco
begin

text \<open>
  The contexts of the PGW: EPS bearers, PDN connections, APN contexts and UE contexts
  (\<^verbatim>\<open>oai_spgwc/pgw_context.hpp\<close>, \<^verbatim>\<open>oai_spgwc/pgw_context.cpp\<close>), the tables of \<^verbatim>\<open>pgw_app\<close> that find
  them by IMSI, by TEID and by SEID, and the allocation of TEIDs (\<^verbatim>\<open>oai_spgwc/pgw_app.cpp\<close>).
  The code keeps these objects behind \<^verbatim>\<open>std::shared_ptr\<close> and reaches one object from several
  places. The store has one heap for each class, a function from addresses; a pointer is an
  address, a pointer that may be null an \<open>option\<close>. A shared pointer never dangles, so the heaps
  are total. Strings that are only printed are left out.
\<close>

section \<open>Information elements\<close>

text \<open>\<^verbatim>\<open>fteid_t\<close> of \<^verbatim>\<open>common/3gpp_29.274.h\<close>.\<close>

record fteid =
  f_v4 :: bool
  f_v6 :: bool
  interface_type :: u8
  teid_gre_key :: teid
  f_ipv4_address :: u32
  f_ipv6_address :: in6_addr

definition fteid_default :: fteid where
  "fteid_default = \<lparr>f_v4 = False, f_v6 = False, interface_type = 0, teid_gre_key = 0,
     f_ipv4_address = 0, f_ipv6_address = 0\<rparr>"

definition fteid_is_zero :: "fteid \<Rightarrow> bool" where
  "fteid_is_zero f \<longleftrightarrow> \<not> f_v4 f \<and> \<not> f_v6 f"

definition S5_S8_PGW_GTP_U :: u8 where "S5_S8_PGW_GTP_U = 5"
definition S5_S8_SGW_GTP_C :: u8 where "S5_S8_SGW_GTP_C = 6"
definition S5_S8_PGW_GTP_C :: u8 where "S5_S8_PGW_GTP_C = 7"

definition UNASSIGNED_TEID :: teid where "UNASSIGNED_TEID = 0"

definition EPS_BEARER_IDENTITY_UNASSIGNED :: u8 where "EPS_BEARER_IDENTITY_UNASSIGNED = 0"
definition EPS_BEARER_IDENTITY_FIRST :: u8 where "EPS_BEARER_IDENTITY_FIRST = 5"
definition EPS_BEARER_IDENTITY_LAST :: u8 where "EPS_BEARER_IDENTITY_LAST = 15"

lemmas ebi_defs = EPS_BEARER_IDENTITY_UNASSIGNED_def EPS_BEARER_IDENTITY_FIRST_def EPS_BEARER_IDENTITY_LAST_def

text \<open>\<^verbatim>\<open>imsi_t\<close>: eight bytes of two digits each, the low half first.\<close>

record imsi =
  imsi_b :: bytes
  num_digits :: u32

definition imsi_default :: imsi where
  "imsi_default = \<lparr>imsi_b = replicate 8 0, num_digits = 0\<rparr>"

fun to_imsi64_loop :: "bytes \<Rightarrow> u64 \<Rightarrow> u64" where
  "to_imsi64_loop [] n = n"
| "to_imsi64_loop (b # bs) n =
     (let d2 = drop_bit 4 (b AND 0xf0); d1 = b AND 0x0f in
      if d1 < 10 then
        (let n1 = n * 10 + ucast d1 in
         if d2 < 10 then to_imsi64_loop bs (n1 * 10 + ucast d2) else n1)
      else n)"

definition to_imsi64 :: "imsi \<Rightarrow> u64" where
  "to_imsi64 i = to_imsi64_loop (imsi_b i) 0"

text \<open>\<^verbatim>\<open>cause_t\<close>; the offending element is never set by the PGW.\<close>

record cause =
  cause_value :: u8
  pce :: bool
  bce :: bool
  cs :: bool

definition cause_of :: "u8 \<Rightarrow> cause" where
  "cause_of v = \<lparr>cause_value = v, pce = False, bce = False, cs = False\<rparr>"

definition REQUEST_ACCEPTED :: u8 where "REQUEST_ACCEPTED = 16"
definition REQUEST_ACCEPTED_PARTIALLY :: u8 where "REQUEST_ACCEPTED_PARTIALLY = 17"
definition CONTEXT_NOT_FOUND :: u8 where "CONTEXT_NOT_FOUND = 64"
definition SYSTEM_FAILURE :: u8 where "SYSTEM_FAILURE = 72"
definition NO_RESOURCES_AVAILABLE :: u8 where "NO_RESOURCES_AVAILABLE = 73"
definition MISSING_OR_UNKNOWN_APN :: u8 where "MISSING_OR_UNKNOWN_APN = 78"
definition PREFERRED_PDN_TYPE_NOT_SUPPORTED :: u8 where "PREFERRED_PDN_TYPE_NOT_SUPPORTED = 83"
definition ALL_DYNAMIC_ADDRESSES_ARE_OCCUPIED :: u8 where "ALL_DYNAMIC_ADDRESSES_ARE_OCCUPIED = 84"
definition REQUEST_REJECTED :: u8 where "REQUEST_REJECTED = 94"
definition APN_CONGESTION :: u8 where "APN_CONGESTION = 113"

lemmas cause_defs = REQUEST_ACCEPTED_def REQUEST_ACCEPTED_PARTIALLY_def CONTEXT_NOT_FOUND_def
  SYSTEM_FAILURE_def NO_RESOURCES_AVAILABLE_def MISSING_OR_UNKNOWN_APN_def
  PREFERRED_PDN_TYPE_NOT_SUPPORTED_def ALL_DYNAMIC_ADDRESSES_ARE_OCCUPIED_def
  REQUEST_REJECTED_def APN_CONGESTION_def

text \<open>\<^verbatim>\<open>ambr_t\<close>: uplink and downlink.\<close>

type_synonym ambr = "u32 \<times> u32"

section \<open>EPS bearers\<close>

text \<open>
  \<^verbatim>\<open>pgw_eps_bearer\<close>. Of the quality of service the code reads the priority level only, and nothing
  sets the traffic flow template.
\<close>

record pgw_eps_bearer =
  ebi :: u8
  sgw_fteid_s5_s8_up :: fteid
  pgw_fteid_s5_s8_up :: fteid
  eps_bearer_qos_pl :: u8
  pdr_id_ul :: u16
  pdr_id_dl :: u16
  far_id_ul :: "bool \<times> u32"
  far_id_dl :: "bool \<times> u32"
  b_released :: bool

definition pgw_eps_bearer_new :: pgw_eps_bearer where
  "pgw_eps_bearer_new =
     \<lparr>ebi = EPS_BEARER_IDENTITY_UNASSIGNED, sgw_fteid_s5_s8_up = fteid_default,
      pgw_fteid_s5_s8_up = fteid_default, eps_bearer_qos_pl = 0, pdr_id_ul = 0, pdr_id_dl = 0,
      far_id_ul = (False, 0), far_id_dl = (False, 0), b_released = False\<rparr>"

definition release_access_bearer :: "pgw_eps_bearer \<Rightarrow> pgw_eps_bearer" where
  "release_access_bearer b = b\<lparr>b_released := True\<rparr>"

definition bearer_deallocate_ressources :: "pgw_eps_bearer \<Rightarrow> pgw_eps_bearer" where
  "bearer_deallocate_ressources b = pgw_eps_bearer_new"

section \<open>PDN connections\<close>

text \<open>\<^verbatim>\<open>eps_bearers\<close> is a \<^verbatim>\<open>std::map\<close>, iterated in the order of its keys.\<close>

type_synonym bearers = "(u8 \<times> pgw_eps_bearer) list"

record pgw_pdn_connection =
  p_ipv4 :: bool
  p_ipv6 :: bool
  p_ipv4_address :: u32
  p_ipv6_address :: in6_addr
  p_pdn_type :: u8
  sgw_fteid_s5_s8_cp :: fteid
  pgw_fteid_s5_s8_cp :: fteid
  default_bearer :: u8
  eps_bearers :: bearers
  p_released :: bool
  p_seid :: seid
  up_fseid :: fseid
  pdr_id_generator :: "u16 uint_generator"
  far_id_generator :: "u32 uint_generator"

definition pdn_clear :: "pgw_pdn_connection \<Rightarrow> pgw_pdn_connection" where
  "pdn_clear p =
     p\<lparr>p_ipv4 := False, p_ipv6 := False, p_ipv4_address := INADDR_ANY, p_ipv6_address := 0,
       p_pdn_type := PDN_TYPE_E_IPV4, sgw_fteid_s5_s8_cp := fteid_default, pgw_fteid_s5_s8_cp := fteid_default,
       default_bearer := EPS_BEARER_IDENTITY_UNASSIGNED, p_seid := 0, up_fseid := fseid_default,
       eps_bearers := [], p_released := False\<rparr>"

definition pgw_pdn_connection_new :: pgw_pdn_connection where
  "pgw_pdn_connection_new =
     \<lparr>p_ipv4 = False, p_ipv6 = False, p_ipv4_address = INADDR_ANY, p_ipv6_address = 0,
      p_pdn_type = PDN_TYPE_E_IPV4, sgw_fteid_s5_s8_cp = fteid_default, pgw_fteid_s5_s8_cp = fteid_default,
      default_bearer = EPS_BEARER_IDENTITY_UNASSIGNED, eps_bearers = [], p_released = False, p_seid = 0,
      up_fseid = fseid_default, pdr_id_generator = uint_generator_init, far_id_generator = uint_generator_init\<rparr>"

definition bearers_insert :: "u8 \<Rightarrow> pgw_eps_bearer \<Rightarrow> bearers \<Rightarrow> bearers" where
  "bearers_insert k b m = insort_key fst (k, b) (AList.delete k m)"

text \<open>The overloads of \<^verbatim>\<open>get_eps_bearer\<close> and \<^verbatim>\<open>find_eps_bearer\<close> that search.\<close>

definition get_eps_bearer_pdr :: "u16 \<Rightarrow> pgw_pdn_connection \<Rightarrow> pgw_eps_bearer option" where
  "get_eps_bearer_pdr pdr_id p = find (\<lambda>b. pdr_id_ul b = pdr_id \<or> pdr_id_dl b = pdr_id) (map snd (eps_bearers p))"

definition get_eps_bearer_far :: "u32 \<Rightarrow> pgw_pdn_connection \<Rightarrow> pgw_eps_bearer option" where
  "get_eps_bearer_far far_id p =
     find (\<lambda>b. fst (far_id_ul b) \<and> snd (far_id_ul b) = far_id \<or> fst (far_id_dl b) \<and> snd (far_id_dl b) = far_id)
       (map snd (eps_bearers p))"

definition get_eps_bearer_ebi :: "u8 \<Rightarrow> pgw_pdn_connection \<Rightarrow> pgw_eps_bearer option" where
  "get_eps_bearer_ebi e p = find (\<lambda>b. ebi b = e) (map snd (eps_bearers p))"

definition find_eps_bearer :: "u16 \<Rightarrow> pgw_pdn_connection \<Rightarrow> pgw_eps_bearer option" where
  "find_eps_bearer pdr_id p = find (\<lambda>b. pdr_id_ul b = pdr_id \<or> pdr_id_dl b = pdr_id) (map snd (eps_bearers p))"

definition has_eps_bearer :: "u16 \<Rightarrow> pgw_pdn_connection \<Rightarrow> u8 option" where
  "has_eps_bearer pdr_id p =
     (case find (\<lambda>b. pdr_id_ul b = pdr_id \<or> pdr_id_dl b = pdr_id) (map snd (eps_bearers p)) of
        Some b \<Rightarrow> Some (ebi b) | None \<Rightarrow> None)"

text \<open>The overload that indexes the map, and inserts an empty bearer for an unknown identity.\<close>

definition get_eps_bearer_ref :: "u8 \<Rightarrow> pgw_pdn_connection \<Rightarrow> pgw_eps_bearer \<times> pgw_pdn_connection" where
  "get_eps_bearer_ref e p =
     (case map_of (eps_bearers p) e of
        Some b \<Rightarrow> (b, p)
      | None \<Rightarrow> (pgw_eps_bearer_new, p\<lparr>eps_bearers := bearers_insert e pgw_eps_bearer_new (eps_bearers p)\<rparr>))"

definition add_eps_bearer :: "pgw_eps_bearer \<Rightarrow> pgw_pdn_connection \<Rightarrow> pgw_pdn_connection" where
  "add_eps_bearer b p =
     (if EPS_BEARER_IDENTITY_FIRST \<le> ebi b \<and> ebi b \<le> EPS_BEARER_IDENTITY_LAST
      then p\<lparr>eps_bearers := bearers_insert (ebi b) b (eps_bearers p)\<rparr> else p)"

definition remove_eps_bearer :: "u8 \<Rightarrow> pgw_pdn_connection \<Rightarrow> pgw_pdn_connection" where
  "remove_eps_bearer e p =
     (case get_eps_bearer_ref e p of (_, p1) \<Rightarrow> p1\<lparr>eps_bearers := AList.delete e (eps_bearers p1)\<rparr>)"

definition pdn_set :: "paa \<Rightarrow> pgw_pdn_connection \<Rightarrow> pgw_pdn_connection" where
  "pdn_set a p =
     (if pdn_type a = PDN_TYPE_E_IPV4 then
        p\<lparr>p_ipv4 := True, p_ipv6 := False, p_ipv4_address := ipv4_address a\<rparr>
      else if pdn_type a = PDN_TYPE_E_IPV6 then
        p\<lparr>p_ipv4 := False, p_ipv6 := True, p_ipv6_address := ipv6_address a\<rparr>
      else if pdn_type a = PDN_TYPE_E_IPV4V6 then
        p\<lparr>p_ipv4 := True, p_ipv6 := True, p_ipv4_address := ipv4_address a, p_ipv6_address := ipv6_address a\<rparr>
      else if pdn_type a = PDN_TYPE_E_NON_IP then p\<lparr>p_ipv4 := False, p_ipv6 := False\<rparr>
      else p)"

definition generate_seid :: "u32 \<Rightarrow> pgw_pdn_connection \<Rightarrow> pgw_pdn_connection" where
  "generate_seid inst p =
     p\<lparr>p_seid := ucast (teid_gre_key (pgw_fteid_s5_s8_cp p)) OR push_bit 32 (ucast inst)\<rparr>"

definition generate_far_id :: "pgw_pdn_connection \<Rightarrow> (u32 \<times> pgw_pdn_connection) outcome" where
  "generate_far_id p =
     (case get_uid (far_id_generator p) of
        None \<Rightarrow> Inl Endless_loop
      | Some (i, g) \<Rightarrow> Inr (i, p\<lparr>far_id_generator := g\<rparr>))"

definition release_far_id :: "u32 \<Rightarrow> pgw_pdn_connection \<Rightarrow> pgw_pdn_connection" where
  "release_far_id i p = p\<lparr>far_id_generator := free_uid i (far_id_generator p)\<rparr>"

definition generate_pdr_id :: "pgw_pdn_connection \<Rightarrow> (u16 \<times> pgw_pdn_connection) outcome" where
  "generate_pdr_id p =
     (case get_uid (pdr_id_generator p) of
        None \<Rightarrow> Inl Endless_loop
      | Some (i, g) \<Rightarrow> Inr (i, p\<lparr>pdr_id_generator := g\<rparr>))"

definition release_pdr_id :: "u16 \<Rightarrow> pgw_pdn_connection \<Rightarrow> pgw_pdn_connection" where
  "release_pdr_id i p = p\<lparr>pdr_id_generator := free_uid i (pdr_id_generator p)\<rparr>"

section \<open>Messages\<close>

text \<open>
  What the PGW reads and writes of the messages of the S5/S8 interface
  (\<^verbatim>\<open>common/msg/itti_msg_s5s8.hpp\<close>, \<^verbatim>\<open>gtpv2c/msg_gtpv2c.hpp\<close>). An element with a presence flag is an
  \<open>option\<close>; one that the code reads without looking at the flag has its default value when it is
  absent.
\<close>

record 'ies s5s8_msg =
  s_teid :: teid
  gtpc_tx_id :: u64
  s_r_endpoint :: endpoint
  gtp_ies :: 'ies

record bearer_context_to_be_created =
  tbc_eps_bearer_id :: u8
  tbc_pl :: u8

record create_session_request =
  cs_imsi :: "imsi option"
  cs_indication_uimsi :: "bool option"
  cs_sender_fteid_for_cp :: fteid
  cs_apn :: string
  cs_pdn_type :: "u8 option"
  cs_paa :: "paa option"
  cs_ambr :: "ambr option"
  cs_pco :: protocol_configuration_options
  cs_uli :: uli_info
  bearer_contexts_to_be_created :: "bearer_context_to_be_created list"

text \<open>\<^verbatim>\<open>paa_t()\<close>, and the value of the PDN type and of the PAA when they are absent.\<close>

definition paa_default :: paa where
  "paa_default = \<lparr>pdn_type = PDN_TYPE_E_IPV4, ipv6_prefix_length = 0, ipv6_address = 0, ipv4_address = 0\<rparr>"

definition cs_pdn_type_value :: "create_session_request \<Rightarrow> u8" where
  "cs_pdn_type_value r = (case cs_pdn_type r of Some t \<Rightarrow> t | None \<Rightarrow> PDN_TYPE_E_IPV4)"

definition cs_paa_value :: "create_session_request \<Rightarrow> paa" where
  "cs_paa_value r = (case cs_paa r of Some a \<Rightarrow> a | None \<Rightarrow> paa_default)"

record bearer_context_created =
  bcc_eps_bearer_id :: u8
  bcc_cause :: cause
  bcc_s5_s8_u_pgw_fteid :: "fteid option"

record create_session_response =
  csr_cause :: "cause option"
  csr_paa :: "paa option"
  csr_pco :: "protocol_configuration_options option"
  csr_s5_s8_pgw_fteid :: "fteid option"
  csr_apn_ambr :: "ambr option"
  bearer_contexts_created :: "bearer_context_created list"

definition create_session_response_new :: create_session_response where
  "create_session_response_new =
     \<lparr>csr_cause = None, csr_paa = None, csr_pco = None, csr_s5_s8_pgw_fteid = None, csr_apn_ambr = None,
      bearer_contexts_created = []\<rparr>"

record bearer_context_to_be_modified =
  tbm_eps_bearer_id :: "u8 option"
  s1_u_enb_fteid :: "fteid option"
  s5_s8_u_sgw_fteid :: "fteid option"

definition tbm_ebi :: "bearer_context_to_be_modified \<Rightarrow> u8" where
  "tbm_ebi b = (case tbm_eps_bearer_id b of Some e \<Rightarrow> e | None \<Rightarrow> EPS_BEARER_IDENTITY_UNASSIGNED)"

record modify_bearer_request =
  mb_sender_fteid_for_cp :: "fteid option"
  bearer_contexts_to_be_modified :: "bearer_context_to_be_modified list"

record bearer_context_modified =
  bcm_eps_bearer_id :: u8
  bcm_cause :: cause
  bcm_s1_u_sgw_fteid :: "fteid option"

record modify_bearer_response =
  mbr_cause :: "cause option"
  bearer_contexts_modified :: "bearer_context_modified list"

definition modify_bearer_response_new :: modify_bearer_response where
  "modify_bearer_response_new = \<lparr>mbr_cause = None, bearer_contexts_modified = []\<rparr>"

record delete_session_request =
  ds_sender_fteid_for_cp :: "fteid option"

text \<open>Delete session and release access bearers responses carry a cause, and so does the
  acknowledgement of a downlink data notification.\<close>

type_synonym cause_ies = "cause option"

text \<open>
  The messages of the Sx interface (\<^verbatim>\<open>common/msg/itti_msg_sxab.hpp\<close>, \<^verbatim>\<open>pfcp/msg_pfcp.hpp\<close>).
\<close>

record 'ies sxab_msg =
  x_seid :: seid
  x_trxn_id :: u64
  x_r_endpoint :: endpoint
  pfcp_ies :: 'ies

record pfcp_fteid =
  pf_chid :: bool
  pf_ch :: bool
  pf_v4 :: bool
  pf_v6 :: bool
  pf_teid :: teid
  pf_ipv4_address :: u32
  pf_ipv6_address :: in6_addr

definition pfcp_fteid_default :: pfcp_fteid where
  "pfcp_fteid_default = \<lparr>pf_chid = False, pf_ch = False, pf_v4 = False, pf_v6 = False, pf_teid = 0,
     pf_ipv4_address = 0, pf_ipv6_address = 0\<rparr>"

record ue_ip_address =
  ue_sd :: bool
  ue_v4 :: bool
  ue_v6 :: bool
  ue_ipv4_address :: u32
  ue_ipv6_address :: in6_addr

definition ue_ip_address_default :: ue_ip_address where
  "ue_ip_address_default = \<lparr>ue_sd = False, ue_v4 = False, ue_v6 = False, ue_ipv4_address = 0, ue_ipv6_address = 0\<rparr>"

record apply_action =
  dupl :: bool
  nocp :: bool
  buff :: bool
  forw :: bool
  aa_drop :: bool

definition apply_action_default :: apply_action where
  "apply_action_default = \<lparr>dupl = False, nocp = False, buff = False, forw = False, aa_drop = False\<rparr>"

record outer_header_creation =
  outer_header_creation_description :: u16
  ohc_teid :: teid
  ohc_ipv4_address :: u32

definition INTERFACE_VALUE_ACCESS :: u8 where "INTERFACE_VALUE_ACCESS = 0"
definition INTERFACE_VALUE_CORE :: u8 where "INTERFACE_VALUE_CORE = 1"
definition OUTER_HEADER_CREATION_GTPU_UDP_IPV4 :: u16 where "OUTER_HEADER_CREATION_GTPU_UDP_IPV4 = 0x0100"
definition OUTER_HEADER_REMOVAL_GTPU_UDP_IPV4 :: u8 where "OUTER_HEADER_REMOVAL_GTPU_UDP_IPV4 = 0"

record pdi =
  source_interface :: u8
  local_fteid :: "pfcp_fteid option"
  pdi_ue_ip_address :: ue_ip_address

record create_pdr =
  cp_pdr_id :: u16
  cp_precedence :: u32
  cp_pdi :: pdi
  cp_outer_header_removal :: "u8 option"
  cp_far_id :: u32

record create_far =
  cf_far_id :: u32
  cf_apply_action :: apply_action
  cf_destination_interface :: u8
  cf_outer_header_creation :: "outer_header_creation option"

record update_far =
  uf_far_id :: u32
  uf_apply_action :: apply_action
  uf_outer_header_creation :: "outer_header_creation option"

record session_establishment_request =
  ser_node_id :: node_id
  ser_cp_fseid :: fseid
  ser_create_pdrs :: "create_pdr list"
  ser_create_fars :: "create_far list"

record session_modification_request =
  smr_create_pdrs :: "create_pdr list"
  smr_create_fars :: "create_far list"
  smr_update_fars :: "update_far list"

definition session_modification_request_new :: session_modification_request where
  "session_modification_request_new = \<lparr>smr_create_pdrs = [], smr_create_fars = [], smr_update_fars = []\<rparr>"

record created_pdr =
  cd_pdr_id :: "u16 option"
  cd_local_fteid :: "pfcp_fteid option"

record session_establishment_response =
  se_cause :: "u8 option"
  se_up_fseid :: "fseid option"
  se_created_pdrs :: "created_pdr list"

record session_modification_response =
  sm_cause :: "u8 option"
  sm_created_pdrs :: "created_pdr list"

text \<open>A report: whether it has a report type with the flag \<^verbatim>\<open>dldr\<close>, and the PDR of its downlink
  data report.\<close>

record session_report_request =
  sr_dldr :: "bool option"
  sr_downlink_data_report :: "u16 option option"

text \<open>What the application sends.\<close>

datatype pgw_msg =
    S5S8_CREATE_SESSION_RESPONSE "create_session_response s5s8_msg"
  | S5S8_MODIFY_BEARER_RESPONSE "modify_bearer_response s5s8_msg"
  | S5S8_DELETE_SESSION_RESPONSE "cause_ies s5s8_msg"
  | S5S8_RELEASE_ACCESS_BEARERS_RESPONSE "cause_ies s5s8_msg"
  | S5S8_DOWNLINK_DATA_NOTIFICATION "u8 s5s8_msg"
  | SXAB_SESSION_ESTABLISHMENT_REQUEST "session_establishment_request sxab_msg"
  | SXAB_SESSION_MODIFICATION_REQUEST "session_modification_request sxab_msg"
  | SXAB_SESSION_DELETION_REQUEST "unit sxab_msg"
  | SXAB_SESSION_REPORT_RESPONSE "u8 sxab_msg"

section \<open>Procedures, contexts and tables\<close>

text \<open>
  The classes derived from \<^verbatim>\<open>pgw_procedure\<close> (\<^verbatim>\<open>oai_spgwc/pgwc_procedure.hpp\<close>) with the members that
  their handlers read.
\<close>

datatype procedure_class =
    Session_establishment_procedure "create_session_request s5s8_msg" "create_session_response s5s8_msg"
  | Modify_bearer_procedure "modify_bearer_request s5s8_msg" "modify_bearer_response s5s8_msg"
      session_modification_request
  | Release_access_bearers_procedure "cause_ies s5s8_msg"
  | Delete_session_procedure "cause_ies s5s8_msg" nat
  | Downlink_data_report_procedure

record pgw_procedure =
  proc_trxn_id :: u64
  ppc :: nat
  proc_class :: procedure_class

record apn_context =
  in_use :: bool
  apn_in_use :: string
  apn_ambr :: ambr
  pdn_connections :: "nat list"

definition apn_context_new :: apn_context where
  "apn_context_new = \<lparr>in_use = False, apn_in_use = [], apn_ambr = (0, 0), pdn_connections = []\<rparr>"

record pgw_context =
  c_imsi :: imsi
  imsi_unauthenticated_indicator :: bool
  c_apns :: "nat list"
  pending_procedures :: "(nat \<times> pgw_procedure) list"

definition pgw_context_new :: pgw_context where
  "pgw_context_new =
     \<lparr>c_imsi = imsi_default, imsi_unauthenticated_indicator = False, c_apns = [], pending_procedures = []\<rparr>"

text \<open>
  The state of the application. A procedure is referred to from the list of its context only; it
  is kept there with its address. \<open>up\<close> is the state of the components it calls, with the queues
  its messages are put in.
\<close>

record pgw_app =
  teid_s5s8_cp_generator :: teid
  s5s8cplteid :: "teid set"
  imsi2pgw_context :: "u64 \<rightharpoonup> nat"
  s5s8lteid2pgw_context :: "teid \<rightharpoonup> nat"
  seid2pgw_context :: "seid \<rightharpoonup> nat"
  ctxs :: "nat \<Rightarrow> pgw_context"
  apn_ctxs :: "nat \<Rightarrow> apn_context"
  pdn_ctxs :: "nat \<Rightarrow> pgw_pdn_connection"
  next_addr :: nat
  pools :: paa_dynamic
  up :: "pgw_msg up_plane"

record pgw_cfg =
  cfg_up :: up_cfg
  cfg_app :: spgw_app_cfg
  s5s8_addr4 :: u32
  cfg_instance :: u32
  pfcp_port :: u16
  gtpv2c_port :: u16

section \<open>The tables and the allocation of TEIDs\<close>

definition is_s5s8c_teid_exist :: "teid \<Rightarrow> pgw_app \<Rightarrow> bool" where
  "is_s5s8c_teid_exist t s \<longleftrightarrow> t \<in> s5s8cplteid s"

partial_function (option) generate_teid_loop :: "teid \<Rightarrow> pgw_app \<Rightarrow> (teid \<times> pgw_app) option" where
  "generate_teid_loop t s =
     (if is_s5s8c_teid_exist t s \<or> t = UNASSIGNED_TEID
      then generate_teid_loop (teid_s5s8_cp_generator s + 1)
             (s\<lparr>teid_s5s8_cp_generator := teid_s5s8_cp_generator s + 1\<rparr>)
      else Some (t, s\<lparr>s5s8cplteid := insert t (s5s8cplteid s)\<rparr>))"

definition generate_s5s8_cp_teid :: "pgw_app \<Rightarrow> (teid \<times> pgw_app) option" where
  "generate_s5s8_cp_teid s =
     (let t = teid_s5s8_cp_generator s + 1 in generate_teid_loop t (s\<lparr>teid_s5s8_cp_generator := t\<rparr>))"

definition free_s5s8c_teid :: "teid \<Rightarrow> pgw_app \<Rightarrow> pgw_app" where
  "free_s5s8c_teid t s = s\<lparr>s5s8cplteid := s5s8cplteid s - {t}\<rparr>"

definition build_s5s8_cp_fteid :: "u32 \<Rightarrow> teid \<Rightarrow> fteid" where
  "build_s5s8_cp_fteid a t =
     \<lparr>f_v4 = True, f_v6 = False, interface_type = S5_S8_PGW_GTP_C, teid_gre_key = t, f_ipv4_address = a,
      f_ipv6_address = 0\<rparr>"

definition generate_s5s8_cp_fteid :: "u32 \<Rightarrow> pgw_app \<Rightarrow> (fteid \<times> pgw_app) outcome" where
  "generate_s5s8_cp_fteid a s =
     (case generate_s5s8_cp_teid s of
        None \<Rightarrow> Inl Endless_loop
      | Some (t, s1) \<Rightarrow> Inr (build_s5s8_cp_fteid a t, s1))"

definition free_s5s8_cp_fteid :: "fteid \<Rightarrow> pgw_app \<Rightarrow> pgw_app" where
  "free_s5s8_cp_fteid f s =
     free_s5s8c_teid (teid_gre_key f)
       (s\<lparr>s5s8lteid2pgw_context := map_erase (s5s8lteid2pgw_context s) (teid_gre_key f)\<rparr>)"

definition is_s5s8cpgw_fteid_2_pgw_context :: "fteid \<Rightarrow> pgw_app \<Rightarrow> bool" where
  "is_s5s8cpgw_fteid_2_pgw_context f s \<longleftrightarrow> s5s8lteid2pgw_context s (teid_gre_key f) \<noteq> None"

definition s5s8cpgw_fteid_2_pgw_context :: "fteid \<Rightarrow> pgw_app \<Rightarrow> nat option" where
  "s5s8cpgw_fteid_2_pgw_context f s =
     (if is_s5s8cpgw_fteid_2_pgw_context f s then s5s8lteid2pgw_context s (teid_gre_key f) else None)"

definition set_s5s8cpgw_fteid_2_pgw_context :: "fteid \<Rightarrow> nat \<Rightarrow> pgw_app \<Rightarrow> pgw_app" where
  "set_s5s8cpgw_fteid_2_pgw_context f c s =
     s\<lparr>s5s8lteid2pgw_context := (s5s8lteid2pgw_context s)(teid_gre_key f \<mapsto> c)\<rparr>"

definition is_imsi64_2_pgw_context :: "u64 \<Rightarrow> pgw_app \<Rightarrow> bool" where
  "is_imsi64_2_pgw_context i s \<longleftrightarrow> imsi2pgw_context s i \<noteq> None"

definition imsi64_2_pgw_context :: "u64 \<Rightarrow> pgw_app \<Rightarrow> nat outcome" where
  "imsi64_2_pgw_context i s = (case imsi2pgw_context s i of Some c \<Rightarrow> Inr c | None \<Rightarrow> Inl Out_of_range)"

definition set_imsi64_2_pgw_context :: "u64 \<Rightarrow> nat \<Rightarrow> pgw_app \<Rightarrow> pgw_app" where
  "set_imsi64_2_pgw_context i c s = s\<lparr>imsi2pgw_context := (imsi2pgw_context s)(i \<mapsto> c)\<rparr>"

definition set_seid_2_pgw_context :: "seid \<Rightarrow> nat \<Rightarrow> pgw_app \<Rightarrow> pgw_app" where
  "set_seid_2_pgw_context i c s = s\<lparr>seid2pgw_context := (seid2pgw_context s)(i \<mapsto> c)\<rparr>"

definition seid_2_pgw_context :: "seid \<Rightarrow> pgw_app \<Rightarrow> nat option" where
  "seid_2_pgw_context i s = seid2pgw_context s i"

definition delete_pgw_context :: "nat \<Rightarrow> pgw_app \<Rightarrow> pgw_app" where
  "delete_pgw_context c s =
     s\<lparr>imsi2pgw_context := map_erase (imsi2pgw_context s) (to_imsi64 (c_imsi (ctxs s c)))\<rparr>"

section \<open>Objects in the store\<close>

definition upd_ctx :: "nat \<Rightarrow> (pgw_context \<Rightarrow> pgw_context) \<Rightarrow> pgw_app \<Rightarrow> pgw_app" where
  "upd_ctx c f s = s\<lparr>ctxs := (ctxs s)(c := f (ctxs s c))\<rparr>"

definition upd_apn :: "nat \<Rightarrow> (apn_context \<Rightarrow> apn_context) \<Rightarrow> pgw_app \<Rightarrow> pgw_app" where
  "upd_apn a f s = s\<lparr>apn_ctxs := (apn_ctxs s)(a := f (apn_ctxs s a))\<rparr>"

definition upd_pdn :: "nat \<Rightarrow> (pgw_pdn_connection \<Rightarrow> pgw_pdn_connection) \<Rightarrow> pgw_app \<Rightarrow> pgw_app" where
  "upd_pdn p f s = s\<lparr>pdn_ctxs := (pdn_ctxs s)(p := f (pdn_ctxs s p))\<rparr>"

text \<open>\<^verbatim>\<open>new\<close>: the next address, with the given object.\<close>

definition new_ctx :: "pgw_context \<Rightarrow> pgw_app \<Rightarrow> nat \<times> pgw_app" where
  "new_ctx x s = (next_addr s, upd_ctx (next_addr s) (\<lambda>_. x) (s\<lparr>next_addr := next_addr s + 1\<rparr>))"

definition new_apn :: "apn_context \<Rightarrow> pgw_app \<Rightarrow> nat \<times> pgw_app" where
  "new_apn x s = (next_addr s, upd_apn (next_addr s) (\<lambda>_. x) (s\<lparr>next_addr := next_addr s + 1\<rparr>))"

definition new_pdn :: "pgw_pdn_connection \<Rightarrow> pgw_app \<Rightarrow> nat \<times> pgw_app" where
  "new_pdn x s = (next_addr s, upd_pdn (next_addr s) (\<lambda>_. x) (s\<lparr>next_addr := next_addr s + 1\<rparr>))"

lemmas store_defs = upd_ctx_def upd_apn_def upd_pdn_def new_ctx_def new_apn_def new_pdn_def

section \<open>APN contexts\<close>

definition insert_pdn_connection :: "nat \<Rightarrow> nat \<Rightarrow> pgw_app \<Rightarrow> pgw_app" where
  "insert_pdn_connection a p s = upd_apn a (\<lambda>x. x\<lparr>pdn_connections := pdn_connections x @ [p]\<rparr>) s"

text \<open>The TEID a search compares: of the PGW itself (\<^verbatim>\<open>is_local_teid\<close>) or of the peer.\<close>

definition pdn_teid :: "bool \<Rightarrow> pgw_pdn_connection \<Rightarrow> teid" where
  "pdn_teid is_local p =
     (if is_local then teid_gre_key (pgw_fteid_s5_s8_cp p) else teid_gre_key (sgw_fteid_s5_s8_cp p))"

definition apn_find_pdn :: "teid \<Rightarrow> bool \<Rightarrow> nat \<Rightarrow> pgw_app \<Rightarrow> nat option" where
  "apn_find_pdn t is_local a s =
     find (\<lambda>p. t = pdn_teid is_local (pdn_ctxs s p)) (pdn_connections (apn_ctxs s a))"

definition apn_find_pdn_pdr :: "u16 \<Rightarrow> nat \<Rightarrow> pgw_app \<Rightarrow> (nat \<times> u8) option" where
  "apn_find_pdn_pdr pdr_id a s =
     (case find (\<lambda>p. has_eps_bearer pdr_id (pdn_ctxs s p) \<noteq> None) (pdn_connections (apn_ctxs s a)) of
        None \<Rightarrow> None
      | Some p \<Rightarrow> Some (p, the (has_eps_bearer pdr_id (pdn_ctxs s p))))"

text \<open>\<^verbatim>\<open>pgw_pdn_connection::deallocate_ressources\<close>.\<close>

definition pdn_deallocate_ressources :: "string \<Rightarrow> nat \<Rightarrow> pgw_app \<Rightarrow> pgw_app outcome" where
  "pdn_deallocate_ressources apn_name p s =
     obind (if p_ipv4 (pdn_ctxs s p)
            then (case release_paa_ipv4 apn_name (p_ipv4_address (pdn_ctxs s p)) (pools s) of
                    Inl e \<Rightarrow> Inl e | Inr (_, d) \<Rightarrow> Inr (s\<lparr>pools := d\<rparr>))
            else Inr s) (\<lambda>s1.
       Inr (upd_pdn p pdn_clear (free_s5s8_cp_fteid (pgw_fteid_s5_s8_cp (pdn_ctxs s1 p)) s1)))"

text \<open>The resources of a connection are released twice: before the search and when it is found.\<close>

definition apn_delete_pdn_connection :: "nat \<Rightarrow> nat \<Rightarrow> pgw_app \<Rightarrow> pgw_app outcome" where
  "apn_delete_pdn_connection a p s =
     obind (pdn_deallocate_ressources (apn_in_use (apn_ctxs s a)) p s) (\<lambda>s1.
       if p \<in> set (pdn_connections (apn_ctxs s1 a))
       then obind (pdn_deallocate_ressources (apn_in_use (apn_ctxs s1 a)) p s1) (\<lambda>s2.
              Inr (upd_apn a (\<lambda>x. x\<lparr>pdn_connections := remove1 p (pdn_connections x)\<rparr>) s2))
       else Inr s1)"

fun pdns_deallocate :: "string \<Rightarrow> nat list \<Rightarrow> pgw_app \<Rightarrow> pgw_app outcome" where
  "pdns_deallocate apn_name [] s = Inr s"
| "pdns_deallocate apn_name (p # ps) s =
     obind (pdn_deallocate_ressources apn_name p s) (pdns_deallocate apn_name ps)"

definition apn_deallocate_ressources :: "nat \<Rightarrow> pgw_app \<Rightarrow> pgw_app outcome" where
  "apn_deallocate_ressources a s =
     obind (pdns_deallocate (apn_in_use (apn_ctxs s a)) (pdn_connections (apn_ctxs s a)) s) (\<lambda>s1.
       Inr (upd_apn a (\<lambda>x. x\<lparr>pdn_connections := [], in_use := False, apn_ambr := (0, 0)\<rparr>) s1))"

section \<open>UE contexts\<close>

fun find_in_apns :: "(nat \<Rightarrow> 'a option) \<Rightarrow> nat list \<Rightarrow> (nat \<times> 'a) option" where
  "find_in_apns f [] = None"
| "find_in_apns f (a # as) = (case f a of Some p \<Rightarrow> Some (a, p) | None \<Rightarrow> find_in_apns f as)"

definition find_pdn_connection :: "teid \<Rightarrow> bool \<Rightarrow> nat \<Rightarrow> pgw_app \<Rightarrow> (nat \<times> nat) option" where
  "find_pdn_connection t is_local c s = find_in_apns (\<lambda>a. apn_find_pdn t is_local a s) (c_apns (ctxs s c))"

definition find_pdn_connection_pdr :: "u16 \<Rightarrow> nat \<Rightarrow> pgw_app \<Rightarrow> (nat \<times> u8) option" where
  "find_pdn_connection_pdr pdr_id c s =
     (case find_in_apns (\<lambda>a. apn_find_pdn_pdr pdr_id a s) (c_apns (ctxs s c)) of
        None \<Rightarrow> None | Some (_, r) \<Rightarrow> Some r)"

definition find_apn_context :: "string \<Rightarrow> nat \<Rightarrow> pgw_app \<Rightarrow> nat option" where
  "find_apn_context apn_name c s = find (\<lambda>a. apn_name = apn_in_use (apn_ctxs s a)) (c_apns (ctxs s c))"

definition find_pdn_connection_apn :: "string \<Rightarrow> teid \<Rightarrow> bool \<Rightarrow> nat \<Rightarrow> pgw_app \<Rightarrow> (nat \<times> nat) option" where
  "find_pdn_connection_apn apn_name t is_local c s =
     (case find_apn_context apn_name c s of
        None \<Rightarrow> None
      | Some a \<Rightarrow> (case apn_find_pdn t is_local a s of None \<Rightarrow> None | Some p \<Rightarrow> Some (a, p)))"

definition insert_apn :: "nat \<Rightarrow> nat \<Rightarrow> pgw_app \<Rightarrow> pgw_app" where
  "insert_apn c a s = upd_ctx c (\<lambda>x. x\<lparr>c_apns := c_apns x @ [a]\<rparr>) s"

definition delete_apn_context :: "nat \<Rightarrow> nat \<Rightarrow> pgw_app \<Rightarrow> pgw_app outcome" where
  "delete_apn_context c a s =
     (if a \<in> set (c_apns (ctxs s c))
      then obind (apn_deallocate_ressources a s) (\<lambda>s1.
             Inr (upd_ctx c (\<lambda>x. x\<lparr>c_apns := remove1 a (c_apns x)\<rparr>) s1))
      else Inr s)"

definition delete_pdn_connection :: "nat \<Rightarrow> nat \<Rightarrow> nat \<Rightarrow> pgw_app \<Rightarrow> pgw_app outcome" where
  "delete_pdn_connection c a p s =
     obind (apn_delete_pdn_connection a p s) (\<lambda>s1.
       if pdn_connections (apn_ctxs s1 a) = [] then delete_apn_context c a s1 else Inr s1)"

definition insert_procedure :: "nat \<Rightarrow> nat \<times> pgw_procedure \<Rightarrow> pgw_app \<Rightarrow> pgw_app" where
  "insert_procedure c pr s = upd_ctx c (\<lambda>x. x\<lparr>pending_procedures := pending_procedures x @ [pr]\<rparr>) s"

definition find_procedure :: "nat \<Rightarrow> u64 \<Rightarrow> pgw_app \<Rightarrow> (nat \<times> pgw_procedure) option" where
  "find_procedure c t s = find (\<lambda>(_, pr). proc_trxn_id pr = t) (pending_procedures (ctxs s c))"

definition remove_procedure :: "nat \<Rightarrow> nat \<Rightarrow> pgw_app \<Rightarrow> pgw_app" where
  "remove_procedure c a s =
     upd_ctx c (\<lambda>x. x\<lparr>pending_procedures := remove_first (\<lambda>(a', _). a' = a) (pending_procedures x)\<rparr>) s"

section \<open>The allocation of TEIDs\<close>

lemma generate_teid_loop_Some:
  assumes ret: "generate_teid_loop t s = Some r"
  shows "fst r \<notin> s5s8cplteid s \<and> fst r \<noteq> 0 \<and> (\<exists>g. snd r = s\<lparr>teid_s5s8_cp_generator := g,
     s5s8cplteid := insert (fst r) (s5s8cplteid s)\<rparr>)"
proof (rule generate_teid_loop.raw_induct [where P = "\<lambda>t s r. fst r \<notin> s5s8cplteid s \<and> fst r \<noteq> 0
     \<and> (\<exists>g. snd r = s\<lparr>teid_s5s8_cp_generator := g, s5s8cplteid := insert (fst r) (s5s8cplteid s)\<rparr>)",
     OF _ ret], goal_cases)
  case (1 f t s r)
  show ?case
  proof (cases "is_s5s8c_teid_exist t s \<or> t = UNASSIGNED_TEID")
    case True
    with 1 show ?thesis by fastforce
  next
    case False
    with 1(2) have "r = (t, s\<lparr>s5s8cplteid := insert t (s5s8cplteid s)\<rparr>)" by simp
    with False show ?thesis
      by (intro conjI exI [of _ "teid_s5s8_cp_generator s"]) (simp_all add: is_s5s8c_teid_exist_def UNASSIGNED_TEID_def)
  qed
qed

lemma generate_teid_loop_first:
  "t = teid_s5s8_cp_generator s \<Longrightarrow> t + of_nat k \<notin> insert 0 (s5s8cplteid s) \<Longrightarrow>
     (\<And>j. j < k \<Longrightarrow> t + of_nat j \<in> insert 0 (s5s8cplteid s)) \<Longrightarrow>
     generate_teid_loop t s = Some (t + of_nat k,
       s\<lparr>teid_s5s8_cp_generator := t + of_nat k, s5s8cplteid := insert (t + of_nat k) (s5s8cplteid s)\<rparr>)"
proof (induction k arbitrary: t s)
  case 0
  then show ?case
    by (subst generate_teid_loop.simps) (simp add: is_s5s8c_teid_exist_def UNASSIGNED_TEID_def)
next
  case (Suc k)
  let ?s = "s\<lparr>teid_s5s8_cp_generator := teid_s5s8_cp_generator s + 1\<rparr>"
  have "t \<in> insert 0 (s5s8cplteid s)" using Suc.prems(3) [of 0] by simp
  then have "generate_teid_loop t s = generate_teid_loop (t + 1) ?s"
    using Suc.prems(1)
    by (subst generate_teid_loop.simps) (auto simp: is_s5s8c_teid_exist_def UNASSIGNED_TEID_def)
  also have "\<dots> = Some (t + 1 + of_nat k, ?s\<lparr>teid_s5s8_cp_generator := t + 1 + of_nat k,
      s5s8cplteid := insert (t + 1 + of_nat k) (s5s8cplteid ?s)\<rparr>)"
  proof (rule Suc.IH)
    show "t + 1 = teid_s5s8_cp_generator ?s" using Suc.prems(1) by simp
    show "t + 1 + of_nat k \<notin> insert 0 (s5s8cplteid ?s)" using Suc.prems(2) by (simp add: algebra_simps)
    show "t + 1 + of_nat j \<in> insert 0 (s5s8cplteid ?s)" if "j < k" for j
      using Suc.prems(3) [of "Suc j"] that by (simp add: algebra_simps)
  qed
  finally show ?case by (simp add: algebra_simps)
qed

lemma generate_s5s8_cp_teid_Some:
  assumes "generate_s5s8_cp_teid s = Some (t, s1)"
  shows "t \<notin> s5s8cplteid s" "t \<noteq> 0"
    "\<exists>g. s1 = s\<lparr>teid_s5s8_cp_generator := g, s5s8cplteid := insert t (s5s8cplteid s)\<rparr>"
proof -
  from assms have "generate_teid_loop (teid_s5s8_cp_generator s + 1)
      (s\<lparr>teid_s5s8_cp_generator := teid_s5s8_cp_generator s + 1\<rparr>) = Some (t, s1)"
    by (simp add: generate_s5s8_cp_teid_def Let_def)
  from generate_teid_loop_Some [OF this]
  show "t \<notin> s5s8cplteid s" "t \<noteq> 0"
    "\<exists>g. s1 = s\<lparr>teid_s5s8_cp_generator := g, s5s8cplteid := insert t (s5s8cplteid s)\<rparr>" by simp_all
qed

lemma generate_s5s8_cp_teid_total:
  assumes "insert 0 (s5s8cplteid s) \<noteq> UNIV"
  shows "\<exists>t s1. generate_s5s8_cp_teid s = Some (t, s1)"
proof -
  obtain k where "teid_s5s8_cp_generator s + 1 + of_nat k \<notin> insert 0 (s5s8cplteid s)"
    "\<And>j. j < k \<Longrightarrow> teid_s5s8_cp_generator s + 1 + of_nat j \<in> insert 0 (s5s8cplteid s)"
    using first_free [OF assms, of "teid_s5s8_cp_generator s + 1"] by blast
  then show ?thesis
    unfolding generate_s5s8_cp_teid_def Let_def by (subst generate_teid_loop_first [of _ _ k]) auto
qed

text \<open>The TEIDs of the application are a managed source of identifiers; 0 is never handed out.\<close>

interpretation teids: managed_ids generate_s5s8_cp_teid free_s5s8c_teid s5s8cplteid "\<lambda>_. - {0}" "\<lambda>_. True"
proof
  fix s :: pgw_app and i s'
  assume "generate_s5s8_cp_teid s = Some (i, s')"
  from generate_s5s8_cp_teid_Some [OF this]
  show "i \<in> - {0} - s5s8cplteid s"
    and "True \<and> s5s8cplteid s' = insert i (s5s8cplteid s) \<and> - {0 :: teid} = - {0}" by auto
next
  fix s :: pgw_app and i
  show "True \<and> s5s8cplteid (free_s5s8c_teid i s) = s5s8cplteid s - {i} \<and> - {0 :: teid} = - {0}"
    by (simp add: free_s5s8c_teid_def)
next
  fix s :: pgw_app
  assume "generate_s5s8_cp_teid s = None"
  then have "insert 0 (s5s8cplteid s) = UNIV" using generate_s5s8_cp_teid_total [of s] by force
  then show "- {0} \<subseteq> s5s8cplteid s" by auto
qed

end
