(* ===== verification/Pgw_Procedures.thy ===== *)
theory Pgw_Procedures
  imports Pgw_Context
begin

text \<open>
  The session procedures of the PGW (\<^verbatim>\<open>oai_spgwc/pgwc_procedure.cpp\<close>), the handlers of
  \<^verbatim>\<open>pgw_context\<close> that start and resume them (\<^verbatim>\<open>oai_spgwc/pgw_context.cpp\<close>) and the handlers of
  \<^verbatim>\<open>pgw_app\<close> that find the context of a message (\<^verbatim>\<open>oai_spgwc/pgw_app.cpp\<close>). Messages go into the
  queues of the inter-task interface and are numbered when they are sent.
\<close>

section \<open>Conversions\<close>

definition paa_to_pfcp_ue_ip_address :: "paa \<Rightarrow> ue_ip_address \<Rightarrow> ue_ip_address" where
  "paa_to_pfcp_ue_ip_address a u =
     (if pdn_type a = PDN_TYPE_E_IPV4 then u\<lparr>ue_v4 := True, ue_ipv4_address := ipv4_address a\<rparr>
      else if pdn_type a = PDN_TYPE_E_IPV6 then u\<lparr>ue_v6 := True, ue_ipv6_address := ipv6_address a\<rparr>
      else if pdn_type a = PDN_TYPE_E_IPV4V6 then
        u\<lparr>ue_v4 := True, ue_v6 := True, ue_ipv4_address := ipv4_address a, ue_ipv6_address := ipv6_address a\<rparr>
      else u)"

definition pdn_ip_to_pfcp_ue_ip_address :: "u8 \<Rightarrow> u32 \<Rightarrow> in6_addr \<Rightarrow> ue_ip_address \<Rightarrow> ue_ip_address" where
  "pdn_ip_to_pfcp_ue_ip_address t a4 a6 u =
     (if t = PDN_TYPE_E_IPV4 then u\<lparr>ue_v4 := True, ue_ipv4_address := a4\<rparr>
      else if t = PDN_TYPE_E_IPV6 then u\<lparr>ue_v6 := True, ue_ipv6_address := a6\<rparr>
      else if t = PDN_TYPE_E_IPV4V6 then
        u\<lparr>ue_v4 := True, ue_v6 := True, ue_ipv4_address := a4, ue_ipv6_address := a6\<rparr>
      else u)"

definition pfcp_to_core_fteid :: "pfcp_fteid \<Rightarrow> fteid \<Rightarrow> fteid" where
  "pfcp_to_core_fteid pf f =
     f\<lparr>f_v4 := pf_v4 pf, f_v6 := pf_v6 pf, f_ipv4_address := pf_ipv4_address pf,
       f_ipv6_address := pf_ipv6_address pf, teid_gre_key := pf_teid pf\<rparr>"

definition CAUSE_VALUE_PFCP_ENTITY_IN_CONGESTION :: u8 where "CAUSE_VALUE_PFCP_ENTITY_IN_CONGESTION = 74"

definition pfcp_cause_to_core_cause :: "u8 \<Rightarrow> cause \<Rightarrow> cause" where
  "pfcp_cause_to_core_cause v c =
     c\<lparr>cause_value :=
         if v = CAUSE_VALUE_REQUEST_ACCEPTED then REQUEST_ACCEPTED
         else if v = CAUSE_VALUE_REQUEST_REJECTED then REQUEST_REJECTED
         else if v = CAUSE_VALUE_PFCP_ENTITY_IN_CONGESTION then APN_CONGESTION
         else SYSTEM_FAILURE\<rparr>"

section \<open>What the procedures share\<close>

definition RETURNclear :: int where "RETURNclear = 2"

text \<open>
  The parameters of the application: the hash functions and the order of pointers that the
  selection of a node depends on, the configuration, and the bytes of a socket address that the
  constructor of \<^verbatim>\<open>endpoint\<close> leaves as they are.
\<close>

record pgw_env =
  e_hash :: std_hash
  e_lowest :: "u32 list \<Rightarrow> u32"
  e_cfg :: pgw_cfg
  e_uninit :: bytes

text \<open>\<^verbatim>\<open>endpoint(const struct in_addr&, const uint16_t)\<close>: family, port and address.\<close>

definition endpoint_ipv4 :: "bytes \<Rightarrow> u32 \<Rightarrow> u16 \<Rightarrow> endpoint" where
  "endpoint_ipv4 rest a port =
     \<lparr>addr_storage = [2, 0] @ be_bytes 2 port @ addr_bytes a @ rest, addr_storage_len = 16\<rparr>"

definition app_send :: "task_id \<Rightarrow> pgw_msg \<Rightarrow> pgw_app \<Rightarrow> int \<times> pgw_app" where
  "app_send dest m s =
     (case itti_msg_new (App_body m) TASK_PGWC_APP dest (up_mw (up s)) of (im, q1) \<Rightarrow>
      case send_msg im q1 of (ret, q2) \<Rightarrow> (ret, s\<lparr>up := (up s)\<lparr>up_mw := q2\<rparr>\<rparr>))"

text \<open>A send whose failure is only logged.\<close>

definition app_send_log :: "task_id \<Rightarrow> pgw_msg \<Rightarrow> pgw_app \<Rightarrow> pgw_app" where
  "app_send_log dest m s = snd (app_send dest m s)"

text \<open>\<^verbatim>\<open>pgw_procedure()\<close>: a new procedure takes a transaction identifier.\<close>

definition generate_trxn_id :: "pgw_app \<Rightarrow> (u64 \<times> pgw_app) outcome" where
  "generate_trxn_id s =
     (case uint_uid_get_uid (trxn_ids (up s)) of
        None \<Rightarrow> Inl Endless_loop
      | Some (t, g) \<Rightarrow> Inr (t, s\<lparr>up := (up s)\<lparr>trxn_ids := g\<rparr>\<rparr>))"

text \<open>
  A handler puts a procedure into the list of its context before it runs it and takes it out when
  \<^verbatim>\<open>run\<close> does not return \<^verbatim>\<open>RETURNok\<close>. \<^verbatim>\<open>run\<close> does not look at the list; the model adds the
  procedure afterwards, with the members \<^verbatim>\<open>run\<close> has set.
\<close>

definition keep_procedure :: "nat \<Rightarrow> int \<Rightarrow> pgw_procedure \<Rightarrow> pgw_app \<Rightarrow> pgw_app" where
  "keep_procedure c ret pr s =
     (if ret = RETURNok then insert_procedure c (next_addr s, pr) (s\<lparr>next_addr := next_addr s + 1\<rparr>)
      else s\<lparr>next_addr := next_addr s + 1\<rparr>)"

section \<open>Session establishment\<close>

text \<open>The rules for the uplink of one bearer.\<close>

definition establish_bearer ::
  "paa \<Rightarrow> bearer_context_to_be_created \<Rightarrow> pgw_pdn_connection \<times> session_establishment_request \<Rightarrow>
     (pgw_pdn_connection \<times> session_establishment_request) outcome" where
  "establish_bearer a it st =
     (case st of (p, ser) \<Rightarrow>
        obind (generate_far_id p) (\<lambda>(far_id, p1).
        obind (generate_pdr_id p1) (\<lambda>(pdr_id, p2).
          let create_far = \<lparr>cf_far_id = far_id, cf_apply_action = apply_action_default\<lparr>forw := True\<rparr>,
                cf_destination_interface = INTERFACE_VALUE_CORE, cf_outer_header_creation = None\<rparr>;
              pdi = \<lparr>source_interface = INTERFACE_VALUE_ACCESS, local_fteid = Some (pfcp_fteid_default\<lparr>pf_ch := True\<rparr>),
                pdi_ue_ip_address = paa_to_pfcp_ue_ip_address a ue_ip_address_default\<rparr>;
              create_pdr = \<lparr>cp_pdr_id = pdr_id, cp_precedence = ucast (tbc_pl it), cp_pdi = pdi,
                cp_outer_header_removal = Some OUTER_HEADER_REMOVAL_GTPU_UDP_IPV4, cp_far_id = far_id\<rparr>;
              b = pgw_eps_bearer_new\<lparr>far_id_ul := (True, far_id), pdr_id_ul := pdr_id, ebi := tbc_eps_bearer_id it\<rparr>
          in Inr (add_eps_bearer b p2,
                  ser\<lparr>ser_create_pdrs := ser_create_pdrs ser @ [create_pdr],
                      ser_create_fars := ser_create_fars ser @ [create_far]\<rparr>))))"

fun establish_bearers ::
  "paa \<Rightarrow> bearer_context_to_be_created list \<Rightarrow> pgw_pdn_connection \<times> session_establishment_request \<Rightarrow>
     (pgw_pdn_connection \<times> session_establishment_request) outcome" where
  "establish_bearers a [] st = Inr st"
| "establish_bearers a (it # its) st = obind (establish_bearer a it st) (establish_bearers a its)"

definition csr_paa_value :: "create_session_response \<Rightarrow> paa" where
  "csr_paa_value r = (case csr_paa r of Some a \<Rightarrow> a | None \<Rightarrow> paa_default)"

definition session_establishment_run ::
  "pgw_env \<Rightarrow> create_session_request s5s8_msg \<Rightarrow> create_session_response s5s8_msg \<Rightarrow> nat \<Rightarrow> u64 \<Rightarrow> nat \<Rightarrow>
     pgw_app \<Rightarrow> (int \<times> create_session_response s5s8_msg \<times> pgw_app) outcome" where
  "session_establishment_run env req resp c trxn p s =
     (let fail = (\<lambda>v. resp\<lparr>gtp_ies := (gtp_ies resp)\<lparr>csr_cause := Some ((cause_of v)\<lparr>pce := True\<rparr>)\<rparr>\<rparr>);
          cfg = cfg_up (e_cfg env)
      in obind (select_up_node (e_lowest env) cfg (cs_apn (gtp_ies req)) (cs_uli (gtp_ies req))
                 (cs_paa_value (gtp_ies req)) (up s)) (\<lambda>(found, up_node_id).
         if \<not> found then Inr (RETURNerror, fail NO_RESOURCES_AVAILABLE, s)
         else (case get_association (e_hash env) up_node_id (up s) of
                 None \<Rightarrow> Inr (RETURNerror, fail SYSTEM_FAILURE, s)
               | Some sa \<Rightarrow>
                   let p1 = generate_seid (cfg_instance (e_cfg env)) (pdn_ctxs s p);
                       cp_fseid = (snd (GetPfcpFseid cfg))\<lparr>fs_seid := p_seid p1\<rparr>;
                       ser0 = \<lparr>ser_node_id = snd (GetPfcpNodeId cfg), ser_cp_fseid = cp_fseid,
                               ser_create_pdrs = [], ser_create_fars = []\<rparr>
                   in obind (establish_bearers (csr_paa_value (gtp_ies resp))
                               (bearer_contexts_to_be_created (gtp_ies req)) (p1, ser0)) (\<lambda>(p2, ser).
                        case app_send TASK_PGWC_SX
                               (SXAB_SESSION_ESTABLISHMENT_REQUEST
                                  \<lparr>x_seid = 0, x_trxn_id = trxn, x_r_endpoint = a_remote_endpoint sa, pfcp_ies = ser\<rparr>)
                               (set_seid_2_pgw_context (fs_seid cp_fseid) c (upd_pdn p (\<lambda>_. p2) s)) of
                          (ret, s1) \<Rightarrow> Inr (if ret = RETURNok then RETURNok else RETURNerror, resp, s1)))))"

text \<open>The answer of the user plane: the TEIDs it has chosen go into the bearers.\<close>

fun created_pdrs_loop :: "created_pdr list \<Rightarrow> pgw_pdn_connection \<Rightarrow> pgw_pdn_connection" where
  "created_pdrs_loop [] p = p"
| "created_pdrs_loop (it # its) p =
     created_pdrs_loop its
       (case cd_pdr_id it of
          None \<Rightarrow> p
        | Some pdr_id \<Rightarrow>
            (case get_eps_bearer_pdr pdr_id p of
               None \<Rightarrow> p
             | Some b \<Rightarrow>
                 (case cd_local_fteid it of
                    None \<Rightarrow> p
                  | Some f \<Rightarrow>
                      add_eps_bearer (b\<lparr>pgw_fteid_s5_s8_up :=
                        (pfcp_to_core_fteid f (pgw_fteid_s5_s8_up b))\<lparr>interface_type := S5_S8_PGW_GTP_U\<rparr>\<rparr>) p)))"

definition bearer_context_created_for :: "pgw_pdn_connection \<Rightarrow> bearer_context_to_be_created \<Rightarrow> bearer_context_created" where
  "bearer_context_created_for p it =
     (case get_eps_bearer_ebi (tbc_eps_bearer_id it) p of
        None \<Rightarrow> \<lparr>bcc_eps_bearer_id = ebi pgw_eps_bearer_new, bcc_cause = cause_of SYSTEM_FAILURE,
                 bcc_s5_s8_u_pgw_fteid = None\<rparr>
      | Some b \<Rightarrow>
          if fteid_is_zero (pgw_fteid_s5_s8_up b)
          then \<lparr>bcc_eps_bearer_id = ebi b, bcc_cause = cause_of SYSTEM_FAILURE, bcc_s5_s8_u_pgw_fteid = None\<rparr>
          else \<lparr>bcc_eps_bearer_id = ebi b, bcc_cause = cause_of REQUEST_ACCEPTED,
                bcc_s5_s8_u_pgw_fteid = Some (pgw_fteid_s5_s8_up b)\<rparr>)"

definition session_establishment_handle ::
  "create_session_request s5s8_msg \<Rightarrow> create_session_response s5s8_msg \<Rightarrow> nat \<Rightarrow> session_establishment_response \<Rightarrow>
     pgw_app \<Rightarrow> pgw_app" where
  "session_establishment_handle trigger s5_pending p resp s =
     (let p0 = pdn_ctxs s p;
          p1 = (if se_cause resp = Some CAUSE_VALUE_REQUEST_ACCEPTED
                then (case se_up_fseid resp of Some f \<Rightarrow> p0\<lparr>up_fseid := f\<rparr> | None \<Rightarrow> p0) else p0);
          p2 = created_pdrs_loop (se_created_pdrs resp) p1;
          reply = s5_pending\<lparr>gtp_ies := (gtp_ies s5_pending)\<lparr>bearer_contexts_created :=
                     bearer_contexts_created (gtp_ies s5_pending) @
                       map (bearer_context_created_for p2) (bearer_contexts_to_be_created (gtp_ies trigger))\<rparr>\<rparr>
      in app_send_log TASK_PGWC_S5S8 (S5S8_CREATE_SESSION_RESPONSE reply) (upd_pdn p (\<lambda>_. p2) s))"

section \<open>Create session\<close>

text \<open>
  The address of a PDN connection: the one of the request if it has one, otherwise one of the pools.
  The same lines stand in three branches of the handler. \<^verbatim>\<open>get_free_paa\<close> works on the PAA of the
  request, or on an empty one, whose type is IPv4.
\<close>

definition request_paa :: "string \<Rightarrow> create_session_request \<Rightarrow> paa_dynamic \<Rightarrow> (bool \<times> paa \<times> cause \<times> paa_dynamic) outcome" where
  "request_paa apn_name req d =
     (if cs_paa req = None \<or> \<not> is_ip_assigned (cs_paa_value req) then
        obind (get_free_paa apn_name (cs_paa_value req) d) (\<lambda>(success, a, d1).
          Inr (success, a,
               if success then cause_of REQUEST_ACCEPTED
               else (cause_of ALL_DYNAMIC_ADDRESSES_ARE_OCCUPIED)\<lparr>pce := True\<rparr>, d1))
      else Inr (True, cs_paa_value req, cause_of REQUEST_ACCEPTED, d))"

definition allocate_paa ::
  "string \<Rightarrow> create_session_request \<Rightarrow> protocol_configuration_options_ids \<Rightarrow> u8 \<Rightarrow> paa_dynamic \<Rightarrow>
     (bool \<times> paa \<times> cause \<times> paa_dynamic) outcome" where
  "allocate_paa apn_name req pco_ids t d =
     (if t = PDN_TYPE_E_IPV4 then
        (if \<not> ci_ipv4_address_allocation_via_dhcpv4 pco_ids then request_paa apn_name req d
         else Inr (False, paa_default, cause_of REQUEST_ACCEPTED, d))
      else if t = PDN_TYPE_E_IPV6 \<or> t = PDN_TYPE_E_IPV4V6 then request_paa apn_name req d
      else Inr (False, paa_default, (cause_of PREFERRED_PDN_TYPE_NOT_SUPPORTED)\<lparr>pce := True\<rparr>, d))"

text \<open>The APN context and the PDN connection of the request, made when they are not there.\<close>

definition ensure_apn :: "create_session_request \<Rightarrow> nat \<Rightarrow> nat option \<Rightarrow> pgw_app \<Rightarrow> nat \<times> pgw_app" where
  "ensure_apn req c sa s =
     (case sa of
        Some a \<Rightarrow> (a, s)
      | None \<Rightarrow>
          (case new_apn (apn_context_new\<lparr>in_use := True, apn_in_use := cs_apn req,
                   apn_ambr := (case cs_ambr req of Some v \<Rightarrow> v | None \<Rightarrow> (0, 0))\<rparr>) s of
             (a, s1) \<Rightarrow> (a, insert_apn c a s1)))"

definition ensure_pdn :: "u32 \<Rightarrow> create_session_request \<Rightarrow> nat \<Rightarrow> nat \<Rightarrow> nat option \<Rightarrow> pgw_app \<Rightarrow> (nat \<times> pgw_app) outcome" where
  "ensure_pdn addr4 req c a sp s =
     (case sp of
        Some p \<Rightarrow> Inr (p, s)
      | None \<Rightarrow>
          (case bearer_contexts_to_be_created req of
             [] \<Rightarrow> Inl Out_of_range
           | b # _ \<Rightarrow>
               obind (generate_s5s8_cp_fteid addr4 s) (\<lambda>(f, s1).
                 case new_pdn (pgw_pdn_connection_new\<lparr>p_pdn_type := cs_pdn_type_value req,
                        default_bearer := tbc_eps_bearer_id b, sgw_fteid_s5_s8_cp := cs_sender_fteid_for_cp req,
                        pgw_fteid_s5_s8_cp := f\<rparr>) (set_s5s8cpgw_fteid_2_pgw_context f c s1) of
                   (p, s2) \<Rightarrow> Inr (p, insert_pdn_connection a p s2))))"

text \<open>The end of the handler: a refusal gives the address back and answers at once.\<close>

definition refuse_session ::
  "create_session_request s5s8_msg \<Rightarrow> create_session_response s5s8_msg \<Rightarrow> nat \<Rightarrow> nat \<Rightarrow> pgw_app \<Rightarrow> pgw_app outcome" where
  "refuse_session req resp a p s =
     (let t = p_pdn_type (pdn_ctxs s p);
          ies = gtp_ies resp;
          bcc = (\<lambda>it. \<lparr>bcc_eps_bearer_id = tbc_eps_bearer_id it, bcc_cause = cause_of NO_RESOURCES_AVAILABLE,
                       bcc_s5_s8_u_pgw_fteid = None\<rparr>);
          reply = resp\<lparr>gtp_ies := ies\<lparr>csr_pco := None, csr_apn_ambr := None, csr_paa := None,
                     bearer_contexts_created := bearer_contexts_created ies @
                       map bcc (bearer_contexts_to_be_created (gtp_ies req))\<rparr>\<rparr>
      in obind (case csr_paa ies of
                  None \<Rightarrow> Inr s
                | Some free_paa \<Rightarrow>
                    if t = PDN_TYPE_E_IPV4 \<or> t = PDN_TYPE_E_IPV4V6 then
                      (case release_paa_ipv4 (apn_in_use (apn_ctxs s a)) (ipv4_address free_paa) (pools s) of
                         Inl e \<Rightarrow> Inl e | Inr (_, d) \<Rightarrow> Inr (s\<lparr>pools := d\<rparr>))
                    else Inr s) (\<lambda>s1.
           Inr (app_send_log TASK_PGWC_S5S8 (S5S8_CREATE_SESSION_RESPONSE reply) s1)))"

text \<open>The accepting part: the answer is filled in and the procedure started.\<close>

definition accept_session ::
  "pgw_env \<Rightarrow> create_session_request s5s8_msg \<Rightarrow> create_session_response s5s8_msg \<Rightarrow> bool \<Rightarrow> paa \<Rightarrow>
     protocol_configuration_options \<Rightarrow> nat \<Rightarrow> nat \<Rightarrow> nat \<Rightarrow> pgw_app \<Rightarrow> (create_session_response s5s8_msg \<times> pgw_app) outcome" where
  "accept_session env req resp set_paa a4 pco_resp c a p s =
     (let ies = gtp_ies resp;
          s1 = (if set_paa then upd_pdn p (pdn_set a4) s
                else if cs_paa (gtp_ies req) \<noteq> None \<and> is_ip_assigned (cs_paa_value (gtp_ies req))
                then upd_pdn p (pdn_set (cs_paa_value (gtp_ies req))) s else s);
          resp1 = resp\<lparr>gtp_ies := ies\<lparr>csr_paa := (if set_paa then Some a4 else csr_paa ies), csr_pco := Some pco_resp,
                     csr_s5_s8_pgw_fteid := Some (pgw_fteid_s5_s8_cp (pdn_ctxs s1 p)),
                     csr_apn_ambr := Some (apn_ambr (apn_ctxs s1 a))\<rparr>\<rparr>
      in obind (generate_trxn_id s1) (\<lambda>(trxn, s2).
         obind (session_establishment_run env req resp1 c trxn p s2) (\<lambda>(ret, resp2, s3).
           Inr (resp2, keep_procedure c ret
                  \<lparr>proc_trxn_id = trxn, ppc = p, proc_class = Session_establishment_procedure req resp2\<rparr> s3))))"

text \<open>The rest of the handler, when the address of the connection is known or refused.\<close>

definition answer_session ::
  "pgw_env \<Rightarrow> create_session_request s5s8_msg \<Rightarrow> nat \<Rightarrow> nat \<Rightarrow> nat \<Rightarrow> protocol_configuration_options \<Rightarrow> bool \<Rightarrow> paa \<Rightarrow>
     cause \<Rightarrow> pgw_app \<Rightarrow> pgw_app outcome" where
  "answer_session env csreq c a p pco_resp set_paa a4 cause s =
     (let resp = \<lparr>s_teid = teid_gre_key (sgw_fteid_s5_s8_cp (pdn_ctxs s p)), gtpc_tx_id = gtpc_tx_id csreq,
                  s_r_endpoint = s_r_endpoint csreq,
                  gtp_ies = create_session_response_new\<lparr>csr_cause := Some cause\<rparr>\<rparr>
      in obind (if cause_value cause = REQUEST_ACCEPTED
                then accept_session env csreq resp set_paa a4 pco_resp c a p s
                else Inr (resp, s)) (\<lambda>(resp1, s1).
           if map_option cause_value (csr_cause (gtp_ies resp1)) \<noteq> Some REQUEST_ACCEPTED
           then refuse_session csreq resp1 a p s1 else Inr s1))"

text \<open>The first lines: the identity of the UE and the flag that it is not authenticated.\<close>

definition ctx_set_imsi :: "create_session_request \<Rightarrow> pgw_context \<Rightarrow> pgw_context" where
  "ctx_set_imsi ies x =
     x\<lparr>c_imsi := (case cs_imsi ies of Some i \<Rightarrow> i | None \<Rightarrow> c_imsi x),
       imsi_unauthenticated_indicator := (cs_indication_uimsi ies = Some True \<or> imsi_unauthenticated_indicator x)\<rparr>"

definition ctx_create_session :: "pgw_env \<Rightarrow> create_session_request s5s8_msg \<Rightarrow> nat \<Rightarrow> pgw_app \<Rightarrow> pgw_app outcome" where
  "ctx_create_session env csreq c s =
     (let ies = gtp_ies csreq; found = find_pdn_connection_apn (cs_apn ies) (s_teid csreq) True c s in
      case ensure_apn ies c (map_option fst found) (upd_ctx c (ctx_set_imsi ies) s) of (a, s2) \<Rightarrow>
        obind (ensure_pdn (s5s8_addr4 (e_cfg env)) ies c a (map_option snd found) s2) (\<lambda>(p, s3).
        obind (process_pco_request (cfg_app (e_cfg env)) (cs_pco ies) protocol_configuration_options_default
                 protocol_configuration_options_ids_default) (\<lambda>(pco_resp, pco_ids).
        obind (allocate_paa (apn_in_use (apn_ctxs s3 a)) ies pco_ids (p_pdn_type (pdn_ctxs s3 p)) (pools s3))
          (\<lambda>(set_paa, a4, cause, d).
             answer_session env csreq c a p pco_resp set_paa a4 cause (s3\<lparr>pools := d\<rparr>)))))"

text \<open>
  The handler of the application. A request with an IMSI that is not authenticated is dropped, as
  is one without an IMSI and without a TEID.
\<close>

definition send_create_session_response_cause :: "u64 \<Rightarrow> teid \<Rightarrow> endpoint \<Rightarrow> cause \<Rightarrow> pgw_app \<Rightarrow> pgw_app" where
  "send_create_session_response_cause tx t e v s =
     app_send_log TASK_PGWC_S5S8 (S5S8_CREATE_SESSION_RESPONSE
       \<lparr>s_teid = t, gtpc_tx_id = tx, s_r_endpoint = e,
        gtp_ies = create_session_response_new\<lparr>csr_cause := Some v\<rparr>\<rparr>) s"

definition app_create_session :: "pgw_env \<Rightarrow> create_session_request s5s8_msg \<Rightarrow> pgw_app \<Rightarrow> pgw_app outcome" where
  "app_create_session env csreq s =
     (let ies = gtp_ies csreq; sender = cs_sender_fteid_for_cp ies;
          refuse = (\<lambda>v. Inr (send_create_session_response_cause (gtpc_tx_id csreq) (teid_gre_key sender)
                              (s_r_endpoint csreq) (cause_of v) s))
      in if interface_type sender \<noteq> S5_S8_SGW_GTP_C then Inr s
         else if teid_gre_key sender = 0 then Inr s
         else if s_teid csreq \<noteq> 0 \<and> \<not> is_s5s8c_teid_exist (s_teid csreq) s then refuse CONTEXT_NOT_FOUND
         else if \<not> IsDottedApnHandled (cfg_up (e_cfg env)) (cs_apn ies) (cs_pdn_type_value ies)
         then refuse MISSING_OR_UNKNOWN_APN
         else (case cs_imsi ies of
                 Some imsi \<Rightarrow>
                   if cs_indication_uimsi ies = Some True then Inr s
                   else if is_imsi64_2_pgw_context (to_imsi64 imsi) s
                   then obind (imsi64_2_pgw_context (to_imsi64 imsi) s) (\<lambda>c. ctx_create_session env csreq c s)
                   else (case new_ctx pgw_context_new s of (c, s1) \<Rightarrow>
                           ctx_create_session env csreq c (set_imsi64_2_pgw_context (to_imsi64 imsi) c s1))
               | None \<Rightarrow>
                   if s_teid csreq \<noteq> 0 then
                     (if is_s5s8c_teid_exist (s_teid csreq) s
                      then (case s5s8cpgw_fteid_2_pgw_context
                                   (build_s5s8_cp_fteid (s5s8_addr4 (e_cfg env)) (s_teid csreq)) s of
                              None \<Rightarrow> Inl Deref_null
                            | Some c \<Rightarrow> ctx_create_session env csreq c s)
                      else Inr s)
                   else Inr s))"

section \<open>Modify bearer\<close>

text \<open>
  The rules of a bearer that is modified. \<^verbatim>\<open>peb\<close> is a reference to the bearer in the map of the
  connection; it is a value here, put back at the end of the iteration. The downlink gets a
  forwarding rule towards the eNodeB, updated if it exists.
\<close>

definition modify_far_dl ::
  "fteid \<Rightarrow> pgw_eps_bearer \<times> pgw_pdn_connection \<times> session_modification_request \<Rightarrow>
     (u32 \<times> pgw_eps_bearer \<times> pgw_pdn_connection \<times> session_modification_request) outcome" where
  "modify_far_dl v st =
     (case st of (peb, p, smr) \<Rightarrow>
        let ohc = \<lparr>outer_header_creation_description = OUTER_HEADER_CREATION_GTPU_UDP_IPV4,
                   ohc_teid = teid_gre_key v, ohc_ipv4_address = f_ipv4_address v\<rparr>;
            action = apply_action_default\<lparr>forw := True\<rparr>
        in if fst (far_id_dl peb) \<and> snd (far_id_dl peb) \<noteq> 0 then
             Inr (snd (far_id_dl peb), peb\<lparr>far_id_dl := (True, snd (far_id_dl peb))\<rparr>, p,
                  smr\<lparr>smr_update_fars := smr_update_fars smr @
                    [\<lparr>uf_far_id = snd (far_id_dl peb), uf_apply_action = action, uf_outer_header_creation = Some ohc\<rparr>]\<rparr>)
           else
             obind (generate_far_id p) (\<lambda>(far_id, p1).
               Inr (far_id, peb\<lparr>far_id_dl := (True, far_id)\<rparr>, p1,
                    smr\<lparr>smr_create_fars := smr_create_fars smr @
                      [\<lparr>cf_far_id = far_id, cf_apply_action = action, cf_destination_interface = INTERFACE_VALUE_ACCESS,
                        cf_outer_header_creation = Some ohc\<rparr>]\<rparr>)))"

text \<open>
  The detection rule of the downlink. If there is one the code updates the forwarding rule of the
  uplink, to forward again after a release.
\<close>

definition modify_pdr_dl ::
  "u32 \<Rightarrow> pgw_eps_bearer \<times> pgw_pdn_connection \<times> session_modification_request \<Rightarrow>
     (pgw_eps_bearer \<times> pgw_pdn_connection \<times> session_modification_request) outcome" where
  "modify_pdr_dl far_id st =
     (case st of (peb, p, smr) \<Rightarrow>
        if pdr_id_dl peb = 0 then
          (let u0 = ue_ip_address_default;
               u1 = (if p_ipv4 p then u0\<lparr>ue_v4 := True, ue_sd := True, ue_ipv4_address := p_ipv4_address p\<rparr> else u0);
               u2 = (if p_ipv6 p then u1\<lparr>ue_v6 := True, ue_ipv6_address := p_ipv6_address p\<rparr> else u1)
           in obind (generate_pdr_id p) (\<lambda>(pdr_id, p1).
                Inr (peb\<lparr>pdr_id_dl := pdr_id\<rparr>, p1,
                     smr\<lparr>smr_create_pdrs := smr_create_pdrs smr @
                       [\<lparr>cp_pdr_id = pdr_id, cp_precedence = ucast (eps_bearer_qos_pl peb),
                         cp_pdi = \<lparr>source_interface = INTERFACE_VALUE_CORE, local_fteid = None, pdi_ue_ip_address = u2\<rparr>,
                         cp_outer_header_removal = None, cp_far_id = far_id\<rparr>]\<rparr>)))
        else
          Inr (peb\<lparr>far_id_dl := (True, snd (far_id_dl peb))\<rparr>, p,
               smr\<lparr>smr_update_fars := smr_update_fars smr @
                 [\<lparr>uf_far_id = snd (far_id_ul peb), uf_apply_action = apply_action_default\<lparr>forw := True\<rparr>,
                   uf_outer_header_creation = None\<rparr>]\<rparr>))"

text \<open>The rules of the uplink, when they are missing. The flag says whether a message is needed.\<close>

definition modify_ul ::
  "bool \<Rightarrow> pgw_eps_bearer \<times> pgw_pdn_connection \<times> session_modification_request \<Rightarrow>
     (bool \<times> pgw_eps_bearer \<times> pgw_pdn_connection \<times> session_modification_request) outcome" where
  "modify_ul send_sx st =
     (case st of (peb, p, smr) \<Rightarrow>
        if fteid_is_zero (pgw_fteid_s5_s8_up peb) then Inr (send_sx, peb, p, smr)
        else
          obind (if \<not> fst (far_id_ul peb) \<or> snd (far_id_ul peb) = 0 then
                   obind (generate_far_id p) (\<lambda>(far_id, p1).
                     Inr (True, far_id, peb\<lparr>far_id_ul := (True, far_id)\<rparr>, p1,
                          smr\<lparr>smr_create_fars := smr_create_fars smr @
                            [\<lparr>cf_far_id = far_id, cf_apply_action = apply_action_default\<lparr>forw := True\<rparr>,
                              cf_destination_interface = INTERFACE_VALUE_CORE, cf_outer_header_creation = None\<rparr>]\<rparr>))
                 else Inr (send_sx, snd (far_id_ul peb), peb, p, smr)) (\<lambda>(send1, far_id, peb1, p1, smr1).
          if pdr_id_ul peb1 = 0 then
            obind (generate_pdr_id p1) (\<lambda>(pdr_id, p2).
              Inr (True, peb1\<lparr>pdr_id_ul := pdr_id\<rparr>, p2,
                   smr1\<lparr>smr_create_pdrs := smr_create_pdrs smr1 @
                     [\<lparr>cp_pdr_id = pdr_id, cp_precedence = ucast (eps_bearer_qos_pl peb1),
                       cp_pdi = \<lparr>source_interface = INTERFACE_VALUE_ACCESS,
                         local_fteid = Some (pfcp_fteid_default\<lparr>pf_ch := True\<rparr>),
                         pdi_ue_ip_address = pdn_ip_to_pfcp_ue_ip_address (p_pdn_type p2) (p_ipv4_address p2)
                           (p_ipv6_address p2) ue_ip_address_default\<rparr>,
                       cp_outer_header_removal = Some OUTER_HEADER_REMOVAL_GTPU_UDP_IPV4, cp_far_id = far_id\<rparr>]\<rparr>))
          else Inr (send1, peb1, p1, smr1)))"

text \<open>
  One bearer of the request. The state of the loop is the flag, the connection, the message to
  the user plane and the answer.
\<close>

type_synonym modify_state =
  "bool \<times> pgw_pdn_connection \<times> session_modification_request \<times> modify_bearer_response"

definition mb_reply :: "u8 \<Rightarrow> u8 \<Rightarrow> modify_bearer_response \<Rightarrow> modify_bearer_response" where
  "mb_reply v e r =
     r\<lparr>mbr_cause := Some ((cause_of v)\<lparr>pce := True\<rparr>),
       bearer_contexts_modified := bearer_contexts_modified r @
         [\<lparr>bcm_eps_bearer_id = e, bcm_cause = cause_of v, bcm_s1_u_sgw_fteid = None\<rparr>]\<rparr>"

definition modify_bearer :: "bearer_context_to_be_modified \<Rightarrow> modify_state \<Rightarrow> modify_state outcome" where
  "modify_bearer it st =
     (case st of (send_sx, p, smr, r) \<Rightarrow>
      case get_eps_bearer_ref (tbm_ebi it) p of (peb, p0) \<Rightarrow>
        if ebi peb \<noteq> tbm_ebi it then Inr (send_sx, p0, smr, mb_reply SYSTEM_FAILURE (ebi peb) r)
        else if (case s1_u_enb_fteid it of Some v \<Rightarrow> v = sgw_fteid_s5_s8_up peb \<and> \<not> b_released peb | None \<Rightarrow> False)
        then Inr (send_sx, p0, smr, mb_reply REQUEST_ACCEPTED (ebi peb) r)
        else
          obind (case s1_u_enb_fteid it of
                   None \<Rightarrow> Inr (send_sx, peb, p0, smr)
                 | Some v \<Rightarrow>
                     obind (modify_far_dl v (peb, p0, smr)) (\<lambda>(far_id, st1).
                     obind (modify_pdr_dl far_id st1) (\<lambda>st2. Inr (True, st2)))) (\<lambda>(send1, st1).
          obind (modify_ul send1 st1) (\<lambda>(send2, peb2, p2, smr2).
            Inr (send2,
                 add_eps_bearer peb2 (p2\<lparr>eps_bearers := bearers_insert (tbm_ebi it) peb2 (eps_bearers p2)\<rparr>),
                 smr2, r))))"

fun modify_bearers :: "bearer_context_to_be_modified list \<Rightarrow> modify_state \<Rightarrow> modify_state outcome" where
  "modify_bearers [] st = Inr st"
| "modify_bearers (it # its) st = obind (modify_bearer it st) (modify_bearers its)"

definition up_endpoint :: "pgw_env \<Rightarrow> pgw_pdn_connection \<Rightarrow> endpoint" where
  "up_endpoint env p = endpoint_ipv4 (e_uninit env) (fs_ipv4 (up_fseid p)) (pfcp_port (e_cfg env))"

definition modify_bearer_run ::
  "pgw_env \<Rightarrow> modify_bearer_request s5s8_msg \<Rightarrow> modify_bearer_response s5s8_msg \<Rightarrow> u64 \<Rightarrow> nat \<Rightarrow> pgw_app \<Rightarrow>
     (int \<times> procedure_class \<times> pgw_app) outcome" where
  "modify_bearer_run env req resp trxn p s =
     (let p0 = pdn_ctxs s p in
      obind (modify_bearers (bearer_contexts_to_be_modified (gtp_ies req))
               (False, p0, session_modification_request_new, gtp_ies resp)) (\<lambda>(send_sx, p1, smr, r).
        let s1 = upd_pdn p (\<lambda>_. p1) s;
            resp1 = resp\<lparr>gtpc_tx_id := gtpc_tx_id req, gtp_ies := r\<rparr>;
            pr = Modify_bearer_procedure req resp1 smr
        in if send_sx then
             (case app_send TASK_PGWC_SX (SXAB_SESSION_MODIFICATION_REQUEST
                     \<lparr>x_seid = fs_seid (up_fseid p0), x_trxn_id = trxn, x_r_endpoint = up_endpoint env p0,
                      pfcp_ies = smr\<rparr>) s1 of
                (ret, s2) \<Rightarrow> Inr (if ret = RETURNok then RETURNok else RETURNerror, pr, s2))
           else Inr (RETURNclear, pr, app_send_log TASK_PGWC_S5S8 (S5S8_MODIFY_BEARER_RESPONSE resp1) s1)))"

text \<open>
  The answer of the user plane. Each PDR it has created is booked on the first bearer that is left
  in the request, which is then taken out.
\<close>

definition take_sgw_fteid :: "bearer_context_to_be_modified \<Rightarrow> pgw_eps_bearer \<Rightarrow> pgw_eps_bearer" where
  "take_sgw_fteid it b =
     (let b1 = (case s5_s8_u_sgw_fteid it of Some f \<Rightarrow> b\<lparr>sgw_fteid_s5_s8_up := f\<rparr> | None \<Rightarrow> b)
      in case s1_u_enb_fteid it of Some f \<Rightarrow> b1\<lparr>sgw_fteid_s5_s8_up := f\<rparr> | None \<Rightarrow> b1)"

definition bearer_modified :: "pgw_eps_bearer \<Rightarrow> bearer_context_modified" where
  "bearer_modified b = \<lparr>bcm_eps_bearer_id = ebi b, bcm_cause = cause_of REQUEST_ACCEPTED,
     bcm_s1_u_sgw_fteid = Some (pgw_fteid_s5_s8_up b)\<rparr>"

type_synonym modified_state =
  "bearer_context_to_be_modified list \<times> pgw_pdn_connection \<times> bearer_context_modified list"

definition modified_created_pdr :: "created_pdr \<Rightarrow> modified_state \<Rightarrow> modified_state" where
  "modified_created_pdr cd st =
     (case st of (todo, p, done) \<Rightarrow>
        (case cd_pdr_id cd of
           None \<Rightarrow> st
         | Some pdr_id \<Rightarrow>
             (case get_eps_bearer_pdr pdr_id p of
                None \<Rightarrow> st
              | Some b \<Rightarrow>
                  (case todo of
                     [] \<Rightarrow> st
                   | it # rest \<Rightarrow>
                       let b1 = take_sgw_fteid it b;
                           b2 = (case cd_local_fteid cd of
                                   None \<Rightarrow> b1
                                 | Some f \<Rightarrow> b1\<lparr>pgw_fteid_s5_s8_up :=
                                     (pfcp_to_core_fteid f (pgw_fteid_s5_s8_up b1))\<lparr>interface_type := S5_S8_PGW_GTP_U\<rparr>\<rparr>);
                           b3 = b2\<lparr>b_released := False\<rparr>
                       in (rest, add_eps_bearer b3 p, done @ [bearer_modified b3])))))"

definition modified_update_far :: "update_far \<Rightarrow> modified_state \<Rightarrow> modified_state" where
  "modified_update_far uf st =
     (case st of (todo, p, done) \<Rightarrow>
        (case get_eps_bearer_far (uf_far_id uf) p of
           None \<Rightarrow> st
         | Some b \<Rightarrow>
             (case find (\<lambda>it. tbm_ebi it = ebi b) todo of
                None \<Rightarrow> st
              | Some it \<Rightarrow> let b1 = take_sgw_fteid it b in (todo, add_eps_bearer b1 p, done @ [bearer_modified b1]))))"

text \<open>The cause of the answer: partial if the user plane and a bearer do not agree.\<close>

definition merge_cause :: "bearer_context_modified list \<Rightarrow> u8 \<Rightarrow> cause \<Rightarrow> cause" where
  "merge_cause done e c =
     (case find (\<lambda>m. bcm_eps_bearer_id m = e) done of
        None \<Rightarrow> c
      | Some m \<Rightarrow>
          if (cause_value c = REQUEST_ACCEPTED) \<noteq> (cause_value (bcm_cause m) = REQUEST_ACCEPTED)
          then c\<lparr>cause_value := REQUEST_ACCEPTED_PARTIALLY\<rparr> else c)"

fun merge_causes :: "bearer_context_modified list \<Rightarrow> bearer_context_to_be_modified list \<Rightarrow> cause \<Rightarrow> cause" where
  "merge_causes done [] c = c"
| "merge_causes done (it # its) c =
     merge_causes done its (case tbm_eps_bearer_id it of None \<Rightarrow> c | Some e \<Rightarrow> merge_cause done e c)"

definition modify_bearer_handle ::
  "modify_bearer_request s5s8_msg \<Rightarrow> modify_bearer_response s5s8_msg \<Rightarrow> session_modification_request \<Rightarrow> nat \<Rightarrow>
     session_modification_response \<Rightarrow> pgw_app \<Rightarrow> pgw_app" where
  "modify_bearer_handle trigger s5_pending smr p resp s =
     (let cause_gtp = (case sm_cause resp of
                         None \<Rightarrow> cause_of REQUEST_ACCEPTED
                       | Some v \<Rightarrow> pfcp_cause_to_core_cause v (cause_of REQUEST_ACCEPTED));
          st1 = fold modified_created_pdr (sm_created_pdrs resp)
                  (bearer_contexts_to_be_modified (gtp_ies trigger), pdn_ctxs s p,
                   bearer_contexts_modified (gtp_ies s5_pending));
          st2 = (if sm_cause resp = Some CAUSE_VALUE_REQUEST_ACCEPTED
                 then fold modified_update_far (smr_update_fars smr) st1 else st1)
      in case st2 of (todo, p1, done) \<Rightarrow>
           app_send_log TASK_PGWC_S5S8 (S5S8_MODIFY_BEARER_RESPONSE
             (s5_pending\<lparr>gtp_ies := \<lparr>mbr_cause = Some (merge_causes done todo cause_gtp),
                                    bearer_contexts_modified = done\<rparr>\<rparr>)) (upd_pdn p (\<lambda>_. p1) s))"

definition ctx_find :: "fteid option \<Rightarrow> teid \<Rightarrow> nat \<Rightarrow> pgw_app \<Rightarrow> (nat \<times> nat) option" where
  "ctx_find sender t c s =
     (case sender of Some f \<Rightarrow> find_pdn_connection (teid_gre_key f) False c s | None \<Rightarrow> find_pdn_connection t True c s)"

definition send_modify_bearer_response_cause_context_not_found :: "u64 \<Rightarrow> teid \<Rightarrow> endpoint \<Rightarrow> pgw_app \<Rightarrow> pgw_app" where
  "send_modify_bearer_response_cause_context_not_found tx t e s =
     app_send_log TASK_PGWC_S5S8 (S5S8_MODIFY_BEARER_RESPONSE
       \<lparr>s_teid = t, gtpc_tx_id = tx, s_r_endpoint = e,
        gtp_ies = modify_bearer_response_new\<lparr>mbr_cause := Some (cause_of CONTEXT_NOT_FOUND)\<rparr>\<rparr>) s"

definition send_delete_session_response_cause_context_not_found :: "u64 \<Rightarrow> teid \<Rightarrow> endpoint \<Rightarrow> pgw_app \<Rightarrow> pgw_app" where
  "send_delete_session_response_cause_context_not_found tx t e s =
     app_send_log TASK_PGWC_S5S8 (S5S8_DELETE_SESSION_RESPONSE
       \<lparr>s_teid = t, gtpc_tx_id = tx, s_r_endpoint = e, gtp_ies = Some (cause_of CONTEXT_NOT_FOUND)\<rparr>) s"

text \<open>The message a handler prepares for the peer of a connection.\<close>

definition s5_answer :: "'r s5s8_msg \<Rightarrow> nat \<Rightarrow> 'a \<Rightarrow> pgw_app \<Rightarrow> 'a s5s8_msg" where
  "s5_answer trigger p ies s =
     \<lparr>s_teid = teid_gre_key (sgw_fteid_s5_s8_cp (pdn_ctxs s p)), gtpc_tx_id = gtpc_tx_id trigger,
      s_r_endpoint = s_r_endpoint trigger, gtp_ies = ies\<rparr>"

definition ctx_modify_bearer :: "pgw_env \<Rightarrow> modify_bearer_request s5s8_msg \<Rightarrow> nat \<Rightarrow> pgw_app \<Rightarrow> pgw_app outcome" where
  "ctx_modify_bearer env mbreq c s =
     (case ctx_find (mb_sender_fteid_for_cp (gtp_ies mbreq)) (s_teid mbreq) c s of
        Some (_, p) \<Rightarrow>
          obind (generate_trxn_id s) (\<lambda>(trxn, s1).
          obind (modify_bearer_run env mbreq (s5_answer mbreq p modify_bearer_response_new s1) trxn p s1) (\<lambda>(ret, pr, s2).
            Inr (keep_procedure c ret \<lparr>proc_trxn_id = trxn, ppc = p, proc_class = pr\<rparr> s2)))
      | None \<Rightarrow>
          (case mb_sender_fteid_for_cp (gtp_ies mbreq) of
             Some f \<Rightarrow> Inr (send_modify_bearer_response_cause_context_not_found (gtpc_tx_id mbreq) (teid_gre_key f)
                              (s_r_endpoint mbreq) s)
           | None \<Rightarrow> Inr s))"

text \<open>When the TEID is not known the application answers with the wrong message, as in the handler
  of a delete session request.\<close>

definition bad_sender :: "fteid option \<Rightarrow> bool" where
  "bad_sender sender = (case sender of None \<Rightarrow> False | Some f \<Rightarrow> interface_type f \<noteq> S5_S8_SGW_GTP_C \<or> teid_gre_key f = 0)"

definition app_modify_bearer :: "pgw_env \<Rightarrow> modify_bearer_request s5s8_msg \<Rightarrow> pgw_app \<Rightarrow> pgw_app outcome" where
  "app_modify_bearer env mbreq s =
     (let sender = mb_sender_fteid_for_cp (gtp_ies mbreq) in
      if bad_sender sender then Inr s
      else (case s5s8cpgw_fteid_2_pgw_context (build_s5s8_cp_fteid (s5s8_addr4 (e_cfg env)) (s_teid mbreq)) s of
              Some c \<Rightarrow> ctx_modify_bearer env mbreq c s
            | None \<Rightarrow>
                (case sender of
                   Some f \<Rightarrow> Inr (send_delete_session_response_cause_context_not_found (gtpc_tx_id mbreq)
                                    (teid_gre_key f) (s_r_endpoint mbreq) s)
                 | None \<Rightarrow> Inr s)))"

section \<open>Release access bearers\<close>

text \<open>
  The loop goes through the map of bearers by an iterator, here through all keys in their order.
  \<^verbatim>\<open>add_eps_bearer\<close> erases the element of the key it writes; when this is the element the iterator
  stands at, going on with the iterator is undefined.
\<close>

definition release_bearer_ies :: "pgw_eps_bearer \<Rightarrow> update_far list" where
  "release_bearer_ies b =
     (if fst (far_id_dl b)
      then [\<lparr>uf_far_id = snd (far_id_dl b), uf_apply_action = apply_action_default\<lparr>nocp := True\<rparr>,
             uf_outer_header_creation = None\<rparr>] else [])
     @ (if fst (far_id_ul b)
        then [\<lparr>uf_far_id = snd (far_id_ul b), uf_apply_action = apply_action_default\<lparr>aa_drop := True\<rparr>,
               uf_outer_header_creation = None\<rparr>] else [])"

fun release_loop :: "u8 list \<Rightarrow> pgw_pdn_connection \<Rightarrow> update_far list \<Rightarrow> (pgw_pdn_connection \<times> update_far list) outcome" where
  "release_loop [] p fars = Inr (p, fars)"
| "release_loop (k # ks) p fars =
     (case map_of (eps_bearers p) k of
        None \<Rightarrow> release_loop ks p fars
      | Some b \<Rightarrow>
          let b2 = release_access_bearer b; p1 = add_eps_bearer b2 p in
          if EPS_BEARER_IDENTITY_FIRST \<le> ebi b2 \<and> ebi b2 \<le> EPS_BEARER_IDENTITY_LAST \<and> ebi b2 = k
          then Inl Dangling_iterator
          else release_loop ks p1 (fars @ release_bearer_ies b))"

definition all_keys :: "u8 list" where
  "all_keys = map of_nat [0..<256]"

definition release_access_bearers_run ::
  "pgw_env \<Rightarrow> 'r s5s8_msg \<Rightarrow> cause_ies s5s8_msg \<Rightarrow> u64 \<Rightarrow> nat \<Rightarrow> pgw_app \<Rightarrow> (int \<times> procedure_class \<times> pgw_app) outcome" where
  "release_access_bearers_run env req resp trxn p s =
     (let p0 = pdn_ctxs s p in
      obind (release_loop all_keys p0 []) (\<lambda>(p1, fars).
        case app_send TASK_PGWC_SX (SXAB_SESSION_MODIFICATION_REQUEST
               \<lparr>x_seid = fs_seid (up_fseid p0), x_trxn_id = trxn, x_r_endpoint = up_endpoint env p0,
                pfcp_ies = session_modification_request_new\<lparr>smr_update_fars := fars\<rparr>\<rparr>) (upd_pdn p (\<lambda>_. p1) s) of
          (ret, s1) \<Rightarrow> Inr (if ret = RETURNok then RETURNok else RETURNerror,
                            Release_access_bearers_procedure (resp\<lparr>gtpc_tx_id := gtpc_tx_id req\<rparr>), s1)))"

definition release_access_bearers_handle :: "cause_ies s5s8_msg \<Rightarrow> session_modification_response \<Rightarrow> pgw_app \<Rightarrow> pgw_app" where
  "release_access_bearers_handle s5_pending resp s =
     (let v = (case sm_cause resp of Some v \<Rightarrow> v | None \<Rightarrow> 0) in
      app_send_log TASK_PGWC_S5S8 (S5S8_RELEASE_ACCESS_BEARERS_RESPONSE
        (s5_pending\<lparr>gtp_ies := Some (pfcp_cause_to_core_cause v (cause_of 0))\<rparr>)) s)"

definition send_release_access_bearers_response_cause_request_accepted :: "u64 \<Rightarrow> teid \<Rightarrow> endpoint \<Rightarrow> pgw_app \<Rightarrow> pgw_app" where
  "send_release_access_bearers_response_cause_request_accepted tx t e s =
     app_send_log TASK_PGWC_S5S8 (S5S8_RELEASE_ACCESS_BEARERS_RESPONSE
       \<lparr>s_teid = t, gtpc_tx_id = tx, s_r_endpoint = e, gtp_ies = Some (cause_of REQUEST_ACCEPTED)\<rparr>) s"

text \<open>When the connection is not found the handler reads the TEID of the peer through the pointer
  that it has just left null.\<close>

definition ctx_release_access_bearers :: "pgw_env \<Rightarrow> 'r s5s8_msg \<Rightarrow> nat \<Rightarrow> pgw_app \<Rightarrow> pgw_app outcome" where
  "ctx_release_access_bearers env req c s =
     (case find_pdn_connection (s_teid req) True c s of
        Some (_, p) \<Rightarrow>
          if \<not> p_released (pdn_ctxs s p) then
            obind (generate_trxn_id s) (\<lambda>(trxn, s1).
            obind (release_access_bearers_run env req (s5_answer req p None s1) trxn p s1) (\<lambda>(ret, pr, s2).
              Inr (keep_procedure c ret \<lparr>proc_trxn_id = trxn, ppc = p, proc_class = pr\<rparr> s2)))
          else Inr (send_release_access_bearers_response_cause_request_accepted (gtpc_tx_id req)
                      (teid_gre_key (sgw_fteid_s5_s8_cp (pdn_ctxs s p))) (s_r_endpoint req) s)
      | None \<Rightarrow> Inl Deref_null)"

definition app_release_access_bearers :: "pgw_env \<Rightarrow> 'r s5s8_msg \<Rightarrow> pgw_app \<Rightarrow> pgw_app outcome" where
  "app_release_access_bearers env req s =
     (case s5s8cpgw_fteid_2_pgw_context (build_s5s8_cp_fteid (s5s8_addr4 (e_cfg env)) (s_teid req)) s of
        Some c \<Rightarrow> ctx_release_access_bearers env req c s
      | None \<Rightarrow> Inr s)"

section \<open>Delete session\<close>

definition delete_session_run ::
  "pgw_env \<Rightarrow> delete_session_request s5s8_msg \<Rightarrow> cause_ies s5s8_msg \<Rightarrow> nat \<Rightarrow> u64 \<Rightarrow> nat \<Rightarrow> pgw_app \<Rightarrow>
     int \<times> procedure_class \<times> pgw_app" where
  "delete_session_run env req resp c trxn p s =
     (let p0 = pdn_ctxs s p in
      case app_send TASK_PGWC_SX (SXAB_SESSION_DELETION_REQUEST
             \<lparr>x_seid = fs_seid (up_fseid p0), x_trxn_id = trxn, x_r_endpoint = up_endpoint env p0, pfcp_ies = ()\<rparr>) s of
        (ret, s1) \<Rightarrow> (if ret = RETURNok then RETURNok else RETURNerror,
                      Delete_session_procedure (resp\<lparr>gtpc_tx_id := gtpc_tx_id req\<rparr>) c, s1))"

text \<open>The session is removed whatever the user plane answers.\<close>

definition delete_session_handle :: "cause_ies s5s8_msg \<Rightarrow> nat \<Rightarrow> nat \<Rightarrow> u8 option \<Rightarrow> pgw_app \<Rightarrow> pgw_app outcome" where
  "delete_session_handle s5_pending c p cause_resp s =
     (let v = (case cause_resp of
                 None \<Rightarrow> REQUEST_ACCEPTED
               | Some x \<Rightarrow> if x = CAUSE_VALUE_REQUEST_ACCEPTED then REQUEST_ACCEPTED else CONTEXT_NOT_FOUND);
          s1 = app_send_log TASK_PGWC_S5S8 (S5S8_DELETE_SESSION_RESPONSE (s5_pending\<lparr>gtp_ies := Some (cause_of v)\<rparr>)) s
      in case find_pdn_connection (teid_gre_key (pgw_fteid_s5_s8_cp (pdn_ctxs s1 p))) True c s1 of
           Some (a, p') \<Rightarrow> delete_pdn_connection c a p' s1
         | None \<Rightarrow> Inr s1)"

definition ctx_delete_session :: "pgw_env \<Rightarrow> delete_session_request s5s8_msg \<Rightarrow> nat \<Rightarrow> pgw_app \<Rightarrow> pgw_app outcome" where
  "ctx_delete_session env dsreq c s =
     (case ctx_find (ds_sender_fteid_for_cp (gtp_ies dsreq)) (s_teid dsreq) c s of
        Some (_, p) \<Rightarrow>
          obind (generate_trxn_id s) (\<lambda>(trxn, s1).
            case delete_session_run env dsreq (s5_answer dsreq p None s1) c trxn p s1 of (ret, pr, s2) \<Rightarrow>
              Inr (keep_procedure c ret \<lparr>proc_trxn_id = trxn, ppc = p, proc_class = pr\<rparr> s2))
      | None \<Rightarrow>
          (case ds_sender_fteid_for_cp (gtp_ies dsreq) of
             Some f \<Rightarrow> Inr (send_delete_session_response_cause_context_not_found (gtpc_tx_id dsreq) (teid_gre_key f)
                              (s_r_endpoint dsreq) s)
           | None \<Rightarrow> Inr s))"

definition app_delete_session :: "pgw_env \<Rightarrow> delete_session_request s5s8_msg \<Rightarrow> pgw_app \<Rightarrow> pgw_app outcome" where
  "app_delete_session env dsreq s =
     (let sender = ds_sender_fteid_for_cp (gtp_ies dsreq) in
      if bad_sender sender then Inr s
      else (case s5s8cpgw_fteid_2_pgw_context (build_s5s8_cp_fteid (s5s8_addr4 (e_cfg env)) (s_teid dsreq)) s of
              Some c \<Rightarrow>
                obind (ctx_delete_session env dsreq c s) (\<lambda>s1.
                  Inr (if c_apns (ctxs s1 c) = [] then delete_pgw_context c s1 else s1))
            | None \<Rightarrow>
                (case sender of
                   Some f \<Rightarrow> Inr (send_delete_session_response_cause_context_not_found (gtpc_tx_id dsreq)
                                    (teid_gre_key f) (s_r_endpoint dsreq) s)
                 | None \<Rightarrow> Inr s)))"

section \<open>Downlink data\<close>

text \<open>\<^verbatim>\<open>downlink_data_report_procedure\<close> has the transaction identifier of the report.\<close>

definition downlink_data_report_run :: "pgw_env \<Rightarrow> u64 \<Rightarrow> nat \<Rightarrow> u8 \<Rightarrow> pgw_app \<Rightarrow> int \<times> pgw_app" where
  "downlink_data_report_run env trxn p e s =
     (let sgw = sgw_fteid_s5_s8_cp (pdn_ctxs s p) in
      case app_send TASK_PGWC_S5S8 (S5S8_DOWNLINK_DATA_NOTIFICATION
             \<lparr>s_teid = teid_gre_key sgw, gtpc_tx_id = trxn,
              s_r_endpoint = endpoint_ipv4 (e_uninit env) (f_ipv4_address sgw) (gtpv2c_port (e_cfg env)),
              gtp_ies = e\<rparr>) s of
        (ret, s1) \<Rightarrow> (if ret = RETURNok then RETURNok else RETURNerror, s1))"

definition downlink_data_report_handle :: "pgw_env \<Rightarrow> u64 \<Rightarrow> nat \<Rightarrow> cause_ies \<Rightarrow> pgw_app \<Rightarrow> pgw_app" where
  "downlink_data_report_handle env trxn p ack s =
     (case ack of
        None \<Rightarrow> s
      | Some v \<Rightarrow>
          app_send_log TASK_PGWC_SX (SXAB_SESSION_REPORT_RESPONSE
            \<lparr>x_seid = fs_seid (up_fseid (pdn_ctxs s p)), x_trxn_id = trxn, x_r_endpoint = up_endpoint env (pdn_ctxs s p),
             pfcp_ies = (if cause_value v = REQUEST_ACCEPTED then CAUSE_VALUE_REQUEST_ACCEPTED
                         else CAUSE_VALUE_REQUEST_REJECTED)\<rparr>) s)"

definition ctx_session_report :: "pgw_env \<Rightarrow> session_report_request sxab_msg \<Rightarrow> nat \<Rightarrow> pgw_app \<Rightarrow> pgw_app" where
  "ctx_session_report env req c s =
     (if sr_dldr (pfcp_ies req) = Some True then
        (case sr_downlink_data_report (pfcp_ies req) of
           Some (Some pdr_id) \<Rightarrow>
             (case find_pdn_connection_pdr pdr_id c s of
                None \<Rightarrow> s
              | Some (p, e) \<Rightarrow>
                  (case downlink_data_report_run env (x_trxn_id req) p e s of (ret, s1) \<Rightarrow>
                     keep_procedure c ret
                       \<lparr>proc_trxn_id = x_trxn_id req, ppc = p, proc_class = Downlink_data_report_procedure\<rparr> s1))
         | _ \<Rightarrow> s)
      else s)"

section \<open>Answers\<close>

text \<open>
  An answer is handled by the procedure with its transaction identifier, if the class of the
  procedure has a handler for it, and the procedure is removed in any case.
\<close>

definition proc_session_establishment_response :: "pgw_procedure \<Rightarrow> session_establishment_response \<Rightarrow> pgw_app \<Rightarrow> pgw_app" where
  "proc_session_establishment_response pr resp s =
     (case proc_class pr of
        Session_establishment_procedure trigger s5_pending \<Rightarrow> session_establishment_handle trigger s5_pending (ppc pr) resp s
      | _ \<Rightarrow> s)"

definition proc_session_modification_response :: "pgw_procedure \<Rightarrow> session_modification_response \<Rightarrow> pgw_app \<Rightarrow> pgw_app" where
  "proc_session_modification_response pr resp s =
     (case proc_class pr of
        Modify_bearer_procedure trigger s5_pending smr \<Rightarrow> modify_bearer_handle trigger s5_pending smr (ppc pr) resp s
      | Release_access_bearers_procedure s5_pending \<Rightarrow> release_access_bearers_handle s5_pending resp s
      | _ \<Rightarrow> s)"

definition proc_session_deletion_response :: "pgw_procedure \<Rightarrow> u8 option \<Rightarrow> pgw_app \<Rightarrow> pgw_app outcome" where
  "proc_session_deletion_response pr resp s =
     (case proc_class pr of
        Delete_session_procedure s5_pending c \<Rightarrow> delete_session_handle s5_pending c (ppc pr) resp s
      | _ \<Rightarrow> Inr s)"

definition proc_downlink_data_notification_acknowledge :: "pgw_env \<Rightarrow> pgw_procedure \<Rightarrow> cause_ies \<Rightarrow> pgw_app \<Rightarrow> pgw_app" where
  "proc_downlink_data_notification_acknowledge env pr ack s =
     (case proc_class pr of
        Downlink_data_report_procedure \<Rightarrow> downlink_data_report_handle env (proc_trxn_id pr) (ppc pr) ack s
      | _ \<Rightarrow> s)"

definition ctx_session_establishment_response ::
  "session_establishment_response sxab_msg \<Rightarrow> nat \<Rightarrow> pgw_app \<Rightarrow> pgw_app" where
  "ctx_session_establishment_response resp c s =
     (case find_procedure c (x_trxn_id resp) s of
        None \<Rightarrow> s
      | Some (a, pr) \<Rightarrow> remove_procedure c a (proc_session_establishment_response pr (pfcp_ies resp) s))"

definition ctx_session_modification_response ::
  "session_modification_response sxab_msg \<Rightarrow> nat \<Rightarrow> pgw_app \<Rightarrow> pgw_app" where
  "ctx_session_modification_response resp c s =
     (case find_procedure c (x_trxn_id resp) s of
        None \<Rightarrow> s
      | Some (a, pr) \<Rightarrow> remove_procedure c a (proc_session_modification_response pr (pfcp_ies resp) s))"

definition ctx_session_deletion_response :: "u8 option sxab_msg \<Rightarrow> nat \<Rightarrow> pgw_app \<Rightarrow> pgw_app outcome" where
  "ctx_session_deletion_response resp c s =
     (case find_procedure c (x_trxn_id resp) s of
        None \<Rightarrow> Inr s
      | Some (a, pr) \<Rightarrow>
          obind (proc_session_deletion_response pr (pfcp_ies resp) s) (\<lambda>s1. Inr (remove_procedure c a s1)))"

definition ctx_downlink_data_notification_acknowledge :: "pgw_env \<Rightarrow> cause_ies s5s8_msg \<Rightarrow> nat \<Rightarrow> pgw_app \<Rightarrow> pgw_app" where
  "ctx_downlink_data_notification_acknowledge env ack c s =
     (case find_procedure c (gtpc_tx_id ack) s of
        None \<Rightarrow> s
      | Some (a, pr) \<Rightarrow> remove_procedure c a (proc_downlink_data_notification_acknowledge env pr (gtp_ies ack) s))"

definition app_session_establishment_response :: "session_establishment_response sxab_msg \<Rightarrow> pgw_app \<Rightarrow> pgw_app" where
  "app_session_establishment_response resp s =
     (case seid_2_pgw_context (x_seid resp) s of Some c \<Rightarrow> ctx_session_establishment_response resp c s | None \<Rightarrow> s)"

definition app_session_modification_response :: "session_modification_response sxab_msg \<Rightarrow> pgw_app \<Rightarrow> pgw_app" where
  "app_session_modification_response resp s =
     (case seid_2_pgw_context (x_seid resp) s of Some c \<Rightarrow> ctx_session_modification_response resp c s | None \<Rightarrow> s)"

definition app_session_deletion_response :: "u8 option sxab_msg \<Rightarrow> pgw_app \<Rightarrow> pgw_app outcome" where
  "app_session_deletion_response resp s =
     (case seid_2_pgw_context (x_seid resp) s of
        None \<Rightarrow> Inr s
      | Some c \<Rightarrow>
          obind (ctx_session_deletion_response resp c s) (\<lambda>s1.
            Inr (if c_apns (ctxs s1 c) = [] then delete_pgw_context c s1 else s1)))"

definition app_session_report :: "pgw_env \<Rightarrow> session_report_request sxab_msg \<Rightarrow> pgw_app \<Rightarrow> pgw_app" where
  "app_session_report env req s =
     (case seid_2_pgw_context (x_seid req) s of Some c \<Rightarrow> ctx_session_report env req c s | None \<Rightarrow> s)"

definition app_downlink_data_notification_acknowledge :: "pgw_env \<Rightarrow> cause_ies s5s8_msg \<Rightarrow> pgw_app \<Rightarrow> pgw_app" where
  "app_downlink_data_notification_acknowledge env ack s =
     (case s5s8cpgw_fteid_2_pgw_context (build_s5s8_cp_fteid (s5s8_addr4 (e_cfg env)) (s_teid ack)) s of
        Some c \<Rightarrow> ctx_downlink_data_notification_acknowledge env ack c s
      | None \<Rightarrow> s)"

text \<open>The messages the task \<^verbatim>\<open>TASK_PGWC_APP\<close> dispatches to the session handlers.\<close>

datatype pgw_event =
    Create_session "create_session_request s5s8_msg"
  | Modify_bearer "modify_bearer_request s5s8_msg"
  | Release_access_bearers "unit s5s8_msg"
  | Delete_session "delete_session_request s5s8_msg"
  | Downlink_data_notification_acknowledge "cause_ies s5s8_msg"
  | Session_establishment_response "session_establishment_response sxab_msg"
  | Session_modification_response "session_modification_response sxab_msg"
  | Session_deletion_response "u8 option sxab_msg"
  | Session_report_request "session_report_request sxab_msg"

fun pgw_app_task :: "pgw_env \<Rightarrow> pgw_event \<Rightarrow> pgw_app \<Rightarrow> pgw_app outcome" where
  "pgw_app_task env (Create_session m) s = app_create_session env m s"
| "pgw_app_task env (Modify_bearer m) s = app_modify_bearer env m s"
| "pgw_app_task env (Release_access_bearers m) s = app_release_access_bearers env m s"
| "pgw_app_task env (Delete_session m) s = app_delete_session env m s"
| "pgw_app_task env (Downlink_data_notification_acknowledge m) s = Inr (app_downlink_data_notification_acknowledge env m s)"
| "pgw_app_task env (Session_establishment_response m) s = Inr (app_session_establishment_response m s)"
| "pgw_app_task env (Session_modification_response m) s = Inr (app_session_modification_response m s)"
| "pgw_app_task env (Session_deletion_response m) s = app_session_deletion_response m s"
| "pgw_app_task env (Session_report_request m) s = Inr (app_session_report env m s)"

end
