(* ===== verification/Pgw_Session.thy ===== *)
theory Pgw_Session
  imports Pgw_Procedures
begin

text \<open>
  The sessions of the PGW as a whole: the tables of TEIDs and the contexts agree after every message,
  no handler follows a null pointer, and what the peer and the user plane see of a session that is
  set up and torn down.
\<close>

section \<open>The directory of sessions\<close>

text \<open>
  What the invariant is about: the set \<open>T\<close> of TEIDs in use, the table \<open>M\<close> from TEIDs to contexts, the
  APN contexts \<open>A c\<close> of a context, the PDN connections \<open>P a\<close> of an APN context, and the TEID \<open>G p\<close> of
  a connection. Addresses from \<open>n\<close> on are not in use. Every object has one owner, a TEID leads to the
  context that owns the connection with this TEID, and there is one such connection.
\<close>

definition forest :: "(nat \<Rightarrow> nat list) \<Rightarrow> (nat \<Rightarrow> nat list) \<Rightarrow> nat \<Rightarrow> bool" where
  "forest A P n \<longleftrightarrow>
     (\<forall>x \<ge> n. A x = [] \<and> P x = [])
     \<and> (\<forall>x. distinct (A x) \<and> set (A x) \<subseteq> {..<n}) \<and> (\<forall>x. distinct (P x) \<and> set (P x) \<subseteq> {..<n})
     \<and> (\<forall>x y. x \<noteq> y \<longrightarrow> set (A x) \<inter> set (A y) = {}) \<and> (\<forall>x y. x \<noteq> y \<longrightarrow> set (P x) \<inter> set (P y) = {})"

definition members :: "(nat \<Rightarrow> nat list) \<Rightarrow> (nat \<Rightarrow> nat list) \<Rightarrow> nat \<Rightarrow> nat set" where
  "members A P c = (\<Union>a \<in> set (A c). set (P a))"

definition directory_ok ::
  "teid set \<Rightarrow> (teid \<rightharpoonup> nat) \<Rightarrow> (nat \<Rightarrow> nat list) \<Rightarrow> (nat \<Rightarrow> nat list) \<Rightarrow> (nat \<Rightarrow> teid) \<Rightarrow> nat \<Rightarrow> bool" where
  "directory_ok T M A P G n \<longleftrightarrow>
     T = dom M \<and> 0 \<notin> T \<and> forest A P n
     \<and> (\<forall>t c. M t = Some c \<longleftrightarrow> t \<in> G ` members A P c) \<and> inj_on G (\<Union>c. members A P c)"

lemma forest_mono: "forest A P n \<Longrightarrow> n \<le> n' \<Longrightarrow> forest A P n'"
  unfolding forest_def by (meson lessThan_subset_iff order_trans)

lemma directory_ok_mono: "directory_ok T M A P G n \<Longrightarrow> n \<le> n' \<Longrightarrow> directory_ok T M A P G n'"
  unfolding directory_ok_def using forest_mono by blast

lemma forest_new:
  assumes "forest A P n"
  shows "n \<notin> set (A c)" "n \<notin> set (P a)" "A n = []" "P n = []" "n \<notin> members A P c"
  using assms unfolding forest_def members_def by blast+

lemma forest_add_apn:
  assumes f: "forest A P n" and c: "c < n"
  shows "forest (A(c := A c @ [n])) P (Suc n)"
proof -
  note new = forest_new [OF f]
  from f show ?thesis unfolding forest_def using c new(1,3,4) by (auto simp: less_Suc_eq) (metis disjoint_iff lessThan_iff less_irrefl subsetD)+
qed

lemma forest_add_pdn:
  assumes f: "forest A P n" and a: "a < n"
  shows "forest A (P(a := P a @ [n])) (Suc n)"
proof -
  note new = forest_new [OF f]
  from f show ?thesis unfolding forest_def using a new(2,3,4) by (auto simp: less_Suc_eq) (metis disjoint_iff lessThan_iff less_irrefl subsetD)+
qed

lemma forest_shrink:
  assumes "forest A P n" "\<And>x. set (A' x) \<subseteq> set (A x)" "\<And>x. set (P' x) \<subseteq> set (P x)"
    "\<And>x. distinct (A' x)" "\<And>x. distinct (P' x)"
  shows "forest A' P' n"
proof -
  have empty: "A' x = []" if "A x = []" for x using assms(2) [of x] that by simp
  have empty': "P' x = []" if "P x = []" for x using assms(3) [of x] that by simp
  from assms(1) show ?thesis unfolding forest_def
    using assms(2-5) empty empty' by (meson disjoint_iff subset_eq)
qed

lemma forestD:
  assumes "forest A P n"
  shows "distinct (A c)" "distinct (P a)" "a \<in> set (A c) \<Longrightarrow> a < n" "p \<in> set (P a) \<Longrightarrow> p < n"
    "a \<in> set (A c) \<Longrightarrow> a \<in> set (A c') \<Longrightarrow> c = c'" "p \<in> set (P a) \<Longrightarrow> p \<in> set (P a') \<Longrightarrow> a = a'"
    "A c \<noteq> [] \<Longrightarrow> c < n"
  using assms unfolding forest_def by (blast, blast, blast, blast, blast, blast, meson not_le)

lemma members_owner:
  assumes "forest A P n" and "p \<in> members A P c" and "p \<in> members A P c'"
  shows "c = c'"
  using assms forestD(5,6) unfolding members_def by fast

lemma directory_ok_add_apn:
  assumes d: "directory_ok T M A P G n" and c: "c < n"
  shows "directory_ok T M (A(c := A c @ [n])) P G (Suc n)"
proof -
  from d have f: "forest A P n" by (simp add: directory_ok_def)
  have "members (A(c := A c @ [n])) P = members A P"
    using forest_new(4) [OF f] by (auto simp: members_def fun_eq_iff)
  with d forest_add_apn [OF f c] show ?thesis by (auto simp only: directory_ok_def)
qed

lemma directory_ok_add_pdn:
  assumes d: "directory_ok T M A P G n" and a: "a \<in> set (A c)" and t: "t \<notin> T" "t \<noteq> 0"
  shows "directory_ok (insert t T) (M(t \<mapsto> c)) A (P(a := P a @ [n])) (G(n := t)) (Suc n)"
proof -
  from d have f: "forest A P n" and T: "T = dom M" and z: "0 \<notin> T"
    and M: "\<And>t c. M t = Some c \<longleftrightarrow> t \<in> G ` members A P c" and inj: "inj_on G (\<Union>c. members A P c)"
    by (auto simp: directory_ok_def)
  have mem: "members A (P(a := P a @ [n])) c' = members A P c' \<union> (if c' = c then {n} else {})" for c'
  proof (cases "c' = c")
    case True
    with a show ?thesis by (auto simp: members_def split: if_splits)
  next
    case False
    with forestD(5) [OF f a] have "a \<notin> set (A c')" by auto
    then have "(\<Union>x \<in> set (A c'). set ((P(a := P a @ [n])) x)) = (\<Union>x \<in> set (A c'). set (P x))"
      by (intro SUP_cong) auto
    with False show ?thesis by (simp add: members_def)
  qed
  have n: "n \<notin> members A P c'" for c' by (rule forest_new(5) [OF f])
  have img: "(G(n := t)) ` members A P c' = G ` members A P c'" for c' using n by (auto simp: image_def)
  have old: "t \<notin> G ` members A P c'" for c' using M t(1) T by (metis domI)
  have "(M(t \<mapsto> c)) t' = Some c' \<longleftrightarrow> t' \<in> (G(n := t)) ` members A (P(a := P a @ [n])) c'" for t' c'
    using M [of t' c'] old [of c'] unfolding mem image_Un img by auto
  moreover have "inj_on (G(n := t)) (\<Union>c'. members A (P(a := P a @ [n])) c')"
  proof -
    have "(\<Union>c'. members A (P(a := P a @ [n])) c') = insert n (\<Union>c'. members A P c')"
      unfolding mem by (auto split: if_splits)
    moreover have "inj_on (G(n := t)) (\<Union>c'. members A P c')"
      using inj n by (auto simp: inj_on_def)
    moreover have "t \<notin> (G(n := t)) ` (\<Union>c'. members A P c')" unfolding image_UN img using old by blast
    ultimately show ?thesis using n by (simp add: image_UN)
  qed
  ultimately show ?thesis
    using forest_add_pdn [OF f forestD(3) [OF f a]] T z t(2) by (auto simp: directory_ok_def)
qed

lemma directory_ok_remove_pdn:
  assumes d: "directory_ok T M A P G n" and a: "a \<in> set (A c)" and p: "p \<in> set (P a)"
  shows "directory_ok (T - {G p}) (M(G p := None)) A (P(a := remove1 p (P a))) (G(p := 0)) n"
proof -
  from d have f: "forest A P n" and T: "T = dom M" and z: "0 \<notin> T"
    and M: "\<And>t c. M t = Some c \<longleftrightarrow> t \<in> G ` members A P c" and inj: "inj_on G (\<Union>c. members A P c)"
    by (auto simp: directory_ok_def)
  have own: "p \<in> members A P c" using a p by (auto simp: members_def)
  have mem: "members A (P(a := remove1 p (P a))) c' = members A P c' - {p}" for c'
    using forestD(6) [OF f p] forestD(2) [OF f, of a]
    by (auto simp: members_def set_remove1_eq split: if_splits)
  have img: "(G(p := 0)) ` (members A P c' - {p}) = G ` (members A P c' - {p})" for c' by (auto simp: image_def)
  have im: "G ` (members A P c' - {p}) = G ` members A P c' - {G p}" for c'
  proof
    show "G ` (members A P c' - {p}) \<subseteq> G ` members A P c' - {G p}"
    proof
      fix t assume "t \<in> G ` (members A P c' - {p})"
      then obtain q where q: "q \<in> members A P c'" "q \<noteq> p" "t = G q" by auto
      with inj own have "G q \<noteq> G p" by (auto simp: inj_on_def)
      with q show "t \<in> G ` members A P c' - {G p}" by auto
    qed
  qed auto
  have "(M(G p := None)) t' = Some c' \<longleftrightarrow> t' \<in> (G(p := 0)) ` members A (P(a := remove1 p (P a))) c'" for t' c'
    using M [of t' c'] unfolding mem img im by auto
  moreover have "inj_on (G(p := 0)) (\<Union>c'. members A (P(a := remove1 p (P a))) c')"
    unfolding mem using inj by (auto simp: inj_on_def)
  moreover have "forest A (P(a := remove1 p (P a))) n"
    by (rule forest_shrink [OF f]) (use forestD(1,2) [OF f] notin_set_remove1 in \<open>auto simp: distinct_remove1\<close>)
  ultimately show ?thesis using T z by (auto simp: directory_ok_def)
qed

lemma directory_ok_remove_apn:
  assumes d: "directory_ok T M A P G n" and a: "P a = []"
  shows "directory_ok T M (A(c := remove1 a (A c))) P G n"
proof -
  from d have f: "forest A P n" by (simp add: directory_ok_def)
  have "members (A(c := remove1 a (A c))) P = members A P"
    using a forestD(1) [OF f, of c] by (auto simp: members_def fun_eq_iff set_remove1_eq)
  moreover have "forest (A(c := remove1 a (A c))) P n"
    by (rule forest_shrink [OF f]) (use forestD(1,2) [OF f] notin_set_remove1 in \<open>auto simp: distinct_remove1\<close>)
  ultimately show ?thesis using d by (auto simp only: directory_ok_def)
qed

section \<open>The invariant of the application\<close>

abbreviation pdn_local_teid :: "pgw_app \<Rightarrow> nat \<Rightarrow> teid" where
  "pdn_local_teid s p \<equiv> teid_gre_key (pgw_fteid_s5_s8_cp (pdn_ctxs s p))"

definition pgw_inv :: "pgw_app \<Rightarrow> bool" where
  "pgw_inv s \<longleftrightarrow>
     directory_ok (s5s8cplteid s) (s5s8lteid2pgw_context s) (\<lambda>c. c_apns (ctxs s c))
       (\<lambda>a. pdn_connections (apn_ctxs s a)) (pdn_local_teid s) (next_addr s)
     \<and> (\<forall>i c. imsi2pgw_context s i = Some c \<longrightarrow> c < next_addr s)"

text \<open>A step that leaves alone what the invariant is about.\<close>

definition same_directory :: "pgw_app \<Rightarrow> pgw_app \<Rightarrow> bool" where
  "same_directory s s' \<longleftrightarrow>
     s5s8cplteid s' = s5s8cplteid s \<and> s5s8lteid2pgw_context s' = s5s8lteid2pgw_context s
     \<and> (\<forall>c. c_apns (ctxs s' c) = c_apns (ctxs s c))
     \<and> (\<forall>a. pdn_connections (apn_ctxs s' a) = pdn_connections (apn_ctxs s a))
     \<and> (\<forall>p. pdn_local_teid s' p = pdn_local_teid s p)
     \<and> next_addr s \<le> next_addr s'
     \<and> (\<forall>i c. imsi2pgw_context s' i = Some c \<longrightarrow> imsi2pgw_context s i = Some c)"

lemma same_directory_refl [simp]: "same_directory s s"
  by (simp add: same_directory_def)

lemma same_directory_trans: "same_directory s s1 \<Longrightarrow> same_directory s1 s2 \<Longrightarrow> same_directory s s2"
  unfolding same_directory_def by (auto intro: order_trans)

lemma same_directory_inv:
  assumes "same_directory s s'" and "pgw_inv s"
  shows "pgw_inv s'"
proof -
  from assms(2) have d: "directory_ok (s5s8cplteid s) (s5s8lteid2pgw_context s) (\<lambda>c. c_apns (ctxs s c))
       (\<lambda>a. pdn_connections (apn_ctxs s a)) (pdn_local_teid s) (next_addr s)"
    and i: "\<And>i c. imsi2pgw_context s i = Some c \<Longrightarrow> c < next_addr s" by (auto simp: pgw_inv_def)
  from assms(1) have n: "next_addr s \<le> next_addr s'"
    and im: "\<And>i c. imsi2pgw_context s' i = Some c \<Longrightarrow> imsi2pgw_context s i = Some c"
    and eq: "s5s8cplteid s' = s5s8cplteid s" "s5s8lteid2pgw_context s' = s5s8lteid2pgw_context s"
      "(\<lambda>c. c_apns (ctxs s' c)) = (\<lambda>c. c_apns (ctxs s c))"
      "(\<lambda>a. pdn_connections (apn_ctxs s' a)) = (\<lambda>a. pdn_connections (apn_ctxs s a))"
      "pdn_local_teid s' = pdn_local_teid s"
    by (auto simp: same_directory_def fun_eq_iff)
  show ?thesis
    unfolding pgw_inv_def eq using directory_ok_mono [OF d n] i [OF im] n by (auto intro: less_le_trans)
qed

named_theorems same_dir \<open>steps that keep the directory of sessions\<close>

lemma same_dir_fields [same_dir]:
  "same_directory s (s\<lparr>up := u\<rparr>)" "same_directory s (s\<lparr>pools := d\<rparr>)"
  "same_directory s (s\<lparr>seid2pgw_context := m\<rparr>)" "next_addr s \<le> n \<Longrightarrow> same_directory s (s\<lparr>next_addr := n\<rparr>)"
  by (simp_all add: same_directory_def)

lemma same_dir_upd_ctx [same_dir]:
  "(\<And>x. c_apns (f x) = c_apns x) \<Longrightarrow> same_directory s (upd_ctx c f s)"
  by (simp add: same_directory_def upd_ctx_def)

lemma same_dir_upd_pdn [same_dir]:
  "pgw_fteid_s5_s8_cp (f (pdn_ctxs s p)) = pgw_fteid_s5_s8_cp (pdn_ctxs s p) \<Longrightarrow> same_directory s (upd_pdn p f s)"
  by (simp add: same_directory_def upd_pdn_def)

lemma same_dir_set_seid [same_dir]: "same_directory s (set_seid_2_pgw_context i c s)"
  by (simp add: set_seid_2_pgw_context_def same_dir)

lemma same_dir_app_send [same_dir]:
  "same_directory s (snd (app_send dest m s))" "same_directory s (app_send_log dest m s)"
  by (simp_all add: app_send_log_def app_send_def same_dir split: prod.split)

lemma same_dir_app_send_eq: "app_send dest m s = (ret, s1) \<Longrightarrow> same_directory s s1"
  using same_dir_app_send(1) [of s dest m] by simp

lemma same_dir_generate_trxn_id: "generate_trxn_id s = Inr (t, s1) \<Longrightarrow> same_directory s s1"
  by (auto simp: generate_trxn_id_def same_dir split: option.splits)

lemma same_dir_insert_procedure [same_dir]: "same_directory s (insert_procedure c pr s)"
  by (simp add: insert_procedure_def same_dir)

lemma same_dir_remove_procedure [same_dir]: "same_directory s (remove_procedure c a s)"
  by (simp add: remove_procedure_def same_dir)

lemma same_dir_keep_procedure [same_dir]: "same_directory s (keep_procedure c ret pr s)"
proof -
  have "same_directory s (s\<lparr>next_addr := next_addr s + 1\<rparr>)" by (simp add: same_dir)
  with same_directory_trans [OF this same_dir_insert_procedure] show ?thesis
    by (simp add: keep_procedure_def)
qed

lemma same_dir_delete_pgw_context [same_dir]: "same_directory s (delete_pgw_context c s)"
  by (simp add: same_directory_def delete_pgw_context_def)

section \<open>What the procedures do to a connection\<close>

text \<open>Only the setup and the release of a connection change its TEIDs.\<close>

lemma add_eps_bearer_fteid [simp]:
  "pgw_fteid_s5_s8_cp (add_eps_bearer b p) = pgw_fteid_s5_s8_cp p"
  by (simp add: add_eps_bearer_def)

lemma pdn_set_fteid [simp]: "pgw_fteid_s5_s8_cp (pdn_set a p) = pgw_fteid_s5_s8_cp p"
  by (simp add: pdn_set_def)

lemma generate_ids_fteid:
  "generate_far_id p = Inr (i, p1) \<Longrightarrow> pgw_fteid_s5_s8_cp p1 = pgw_fteid_s5_s8_cp p"
  "generate_pdr_id p = Inr (j, p1) \<Longrightarrow> pgw_fteid_s5_s8_cp p1 = pgw_fteid_s5_s8_cp p"
  by (auto simp: generate_far_id_def generate_pdr_id_def split: option.splits)

lemma establish_bearers_fteid:
  "establish_bearers a its (p, ser) = Inr (p1, ser1) \<Longrightarrow> pgw_fteid_s5_s8_cp p1 = pgw_fteid_s5_s8_cp p"
proof (induction its arbitrary: p ser)
  case (Cons it its)
  from Cons.prems obtain p2 ser2 where 1: "establish_bearer a it (p, ser) = Inr (p2, ser2)"
    and 2: "establish_bearers a its (p2, ser2) = Inr (p1, ser1)" by (auto simp: obind_Inr_iff)
  from 1 have "pgw_fteid_s5_s8_cp p2 = pgw_fteid_s5_s8_cp p"
    by (auto simp: establish_bearer_def obind_Inr_iff Let_def dest!: generate_ids_fteid)
  with Cons.IH [OF 2] show ?case by simp
qed simp

lemma created_pdrs_loop_fteid [simp]:
  "pgw_fteid_s5_s8_cp (created_pdrs_loop its p) = pgw_fteid_s5_s8_cp p"
  by (induction its arbitrary: p) (simp_all split: option.split)

lemma get_eps_bearer_ref_fteid:
  "get_eps_bearer_ref e p = (b, p1) \<Longrightarrow> pgw_fteid_s5_s8_cp p1 = pgw_fteid_s5_s8_cp p"
  by (auto simp: get_eps_bearer_ref_def split: option.splits)

lemma modify_dl_fteid:
  "modify_far_dl v (peb, p, smr) = Inr (i, peb1, p1, smr1) \<Longrightarrow> pgw_fteid_s5_s8_cp p1 = pgw_fteid_s5_s8_cp p"
  "modify_pdr_dl i (peb, p, smr) = Inr (peb1, p1, smr1) \<Longrightarrow> pgw_fteid_s5_s8_cp p1 = pgw_fteid_s5_s8_cp p"
  by (auto simp: modify_far_dl_def modify_pdr_dl_def Let_def obind_Inr_iff split: if_splits dest!: generate_ids_fteid)

lemma modify_ul_fteid:
  "modify_ul f (peb, p, smr) = Inr (f1, peb1, p1, smr1) \<Longrightarrow> pgw_fteid_s5_s8_cp p1 = pgw_fteid_s5_s8_cp p"
  by (auto simp: modify_ul_def obind_Inr_iff split: if_splits dest!: generate_ids_fteid)

lemma modify_bearer_fteid:
  assumes "modify_bearer it (f, p, smr, r) = Inr (f1, p1, smr1, r1)"
  shows "pgw_fteid_s5_s8_cp p1 = pgw_fteid_s5_s8_cp p"
proof -
  obtain peb p0 where 0: "get_eps_bearer_ref (tbm_ebi it) p = (peb, p0)" by fastforce
  note ref = get_eps_bearer_ref_fteid [OF 0]
  from assms 0 ref show ?thesis
    by (auto simp: modify_bearer_def obind_Inr_iff split: if_splits option.splits
        dest!: modify_dl_fteid modify_ul_fteid)
qed

lemma modify_bearers_fteid:
  "modify_bearers its (f, p, smr, r) = Inr (f1, p1, smr1, r1) \<Longrightarrow> pgw_fteid_s5_s8_cp p1 = pgw_fteid_s5_s8_cp p"
proof (induction its arbitrary: f p smr r)
  case (Cons it its)
  then obtain f2 p2 smr2 r2 where 1: "modify_bearer it (f, p, smr, r) = Inr (f2, p2, smr2, r2)"
    and 2: "modify_bearers its (f2, p2, smr2, r2) = Inr (f1, p1, smr1, r1)" by (auto simp: obind_Inr_iff)
  from Cons.IH [OF 2] modify_bearer_fteid [OF 1] show ?case by simp
qed simp

lemma modified_fteid:
  "pgw_fteid_s5_s8_cp (fst (snd (modified_created_pdr cd st))) = pgw_fteid_s5_s8_cp (fst (snd st))"
  "pgw_fteid_s5_s8_cp (fst (snd (modified_update_far uf st))) = pgw_fteid_s5_s8_cp (fst (snd st))"
  by (cases st; auto simp: modified_created_pdr_def modified_update_far_def Let_def split: option.splits list.splits)+

lemma fold_modified_fteid:
  "pgw_fteid_s5_s8_cp (fst (snd (fold modified_created_pdr cds st))) = pgw_fteid_s5_s8_cp (fst (snd st))"
  "pgw_fteid_s5_s8_cp (fst (snd (fold modified_update_far ufs st))) = pgw_fteid_s5_s8_cp (fst (snd st))"
proof -
  show "pgw_fteid_s5_s8_cp (fst (snd (fold modified_created_pdr cds st))) = pgw_fteid_s5_s8_cp (fst (snd st))"
    by (induction cds arbitrary: st) (simp_all add: modified_fteid)
  show "pgw_fteid_s5_s8_cp (fst (snd (fold modified_update_far ufs st))) = pgw_fteid_s5_s8_cp (fst (snd st))"
    by (induction ufs arbitrary: st) (simp_all add: modified_fteid)
qed

lemma release_loop_fteid:
  "release_loop ks p fars = Inr (p1, fars1) \<Longrightarrow> pgw_fteid_s5_s8_cp p1 = pgw_fteid_s5_s8_cp p"
proof (induction ks arbitrary: p fars)
  case (Cons k ks)
  then show ?case by (auto simp: Let_def split: option.splits if_splits dest!: Cons.IH)
qed simp

section \<open>Steps that keep the directory\<close>

lemma same_dir_upd_send:
  assumes "pgw_fteid_s5_s8_cp x = pgw_fteid_s5_s8_cp (pdn_ctxs s p)"
  shows "same_directory s (snd (app_send dest m (upd_pdn p (\<lambda>_. x) s)))"
    "same_directory s (snd (app_send dest m (set_seid_2_pgw_context i c (upd_pdn p (\<lambda>_. x) s))))"
proof -
  note u = same_dir_upd_pdn [of "\<lambda>_. x" s p, OF assms]
  show "same_directory s (snd (app_send dest m (upd_pdn p (\<lambda>_. x) s)))"
    by (rule same_directory_trans [OF u]) (rule same_dir_app_send)
  show "same_directory s (snd (app_send dest m (set_seid_2_pgw_context i c (upd_pdn p (\<lambda>_. x) s))))"
    by (rule same_directory_trans [OF u], rule same_directory_trans [OF same_dir_set_seid]) (rule same_dir_app_send)
qed

lemma same_dir_session_establishment_run:
  assumes "session_establishment_run env req resp c trxn p s = Inr (ret, resp1, s1)"
  shows "same_directory s s1"
proof -
  have send: "same_directory s (snd (app_send dest m (set_seid_2_pgw_context j c (upd_pdn p (\<lambda>_. p2) s))))"
    if "establish_bearers a its (generate_seid i (pdn_ctxs s p), ser0) = Inr (p2, ser)" for a its i ser0 p2 ser dest m j
    using establish_bearers_fteid [OF that] by (intro same_dir_upd_send) (simp add: generate_seid_def)
  from assms show ?thesis
    by (auto simp: session_establishment_run_def Let_def obind_Inr_iff case_prod_beta
        split: if_splits option.splits intro: send)
qed

lemma same_dir_modify_bearer_run:
  assumes "modify_bearer_run env req resp trxn p s = Inr (ret, pr, s1)"
  shows "same_directory s s1"
proof -
  from assms obtain f p1 smr r where m: "modify_bearers (bearer_contexts_to_be_modified (gtp_ies req))
      (False, pdn_ctxs s p, session_modification_request_new, gtp_ies resp) = Inr (f, p1, smr, r)"
    by (auto simp: modify_bearer_run_def obind_Inr_iff Let_def)
  note up = same_dir_upd_send(1) [OF modify_bearers_fteid [OF m]]
  from assms m show ?thesis
    by (auto simp: modify_bearer_run_def Let_def app_send_log_def up split: if_splits prod.splits)
       (metis snd_conv up)+
qed

lemma same_dir_release_access_bearers_run:
  assumes "release_access_bearers_run env req resp trxn p s = Inr (ret, pr, s1)"
  shows "same_directory s s1"
proof -
  from assms obtain p1 fars where l: "release_loop all_keys (pdn_ctxs s p) [] = Inr (p1, fars)"
    by (auto simp: release_access_bearers_run_def obind_Inr_iff Let_def)
  note up = same_dir_upd_send(1) [OF release_loop_fteid [OF l]]
  from assms l show ?thesis
    by (auto simp: release_access_bearers_run_def Let_def split: prod.splits) (metis snd_conv up)+
qed

lemma same_dir_delete_session_run [same_dir]:
  "same_directory s (snd (snd (delete_session_run env req resp c trxn p s)))"
  by (simp add: delete_session_run_def Let_def case_prod_beta same_dir)

lemma same_dir_downlink_data_report_run:
  "downlink_data_report_run env trxn p e s = (ret, s1) \<Longrightarrow> same_directory s s1"
  by (auto simp: downlink_data_report_run_def Let_def split: prod.splits dest: same_dir_app_send_eq)

lemma same_dir_handle [same_dir]:
  "same_directory s (session_establishment_handle req s5 p resp s)"
  "same_directory s (modify_bearer_handle mreq ms5 smr p mresp s)"
  "same_directory s (release_access_bearers_handle rs5 mresp s)"
  "same_directory s (downlink_data_report_handle env trxn p ack s)"
proof -
  show "same_directory s (session_establishment_handle req s5 p resp s)"
    unfolding session_establishment_handle_def Let_def app_send_log_def
    by (rule same_dir_upd_send) (simp split: option.split)
  show "same_directory s (modify_bearer_handle mreq ms5 smr p mresp s)"
  proof -
    have "same_directory s (app_send_log d m (upd_pdn p (\<lambda>_. p1) s))"
      if "pgw_fteid_s5_s8_cp p1 = pgw_fteid_s5_s8_cp (pdn_ctxs s p)" for d m p1
      unfolding app_send_log_def by (rule same_dir_upd_send [OF that])
    moreover have "pgw_fteid_s5_s8_cp (fst (snd (if b then fold modified_update_far ufs (fold modified_created_pdr cds (todo, pdn_ctxs s p, dn))
       else fold modified_created_pdr cds (todo, pdn_ctxs s p, dn)))) = pgw_fteid_s5_s8_cp (pdn_ctxs s p)" for b ufs cds todo dn
      by (simp add: fold_modified_fteid)
    ultimately show ?thesis
      unfolding modify_bearer_handle_def Let_def by (simp add: case_prod_beta del: if_split)
  qed
qed (simp_all add: release_access_bearers_handle_def downlink_data_report_handle_def Let_def same_dir split: option.split)

lemma same_dir_proc [same_dir]:
  "same_directory s (proc_session_establishment_response pr se s)"
  "same_directory s (proc_session_modification_response pr sm s)"
  "same_directory s (proc_downlink_data_notification_acknowledge env pr ack s)"
  by (simp_all add: proc_session_establishment_response_def proc_session_modification_response_def
      proc_downlink_data_notification_acknowledge_def same_dir split: procedure_class.split)

lemma same_dir_then_remove [same_dir]: "same_directory s s1 \<Longrightarrow> same_directory s (remove_procedure c a s1)"
  by (rule same_directory_trans [OF _ same_dir_remove_procedure])

lemma same_dir_app_responses [same_dir]:
  "same_directory s (app_session_establishment_response se s)"
  "same_directory s (app_session_modification_response sm s)"
  "same_directory s (app_downlink_data_notification_acknowledge env ack s)"
  by (simp_all add: app_session_establishment_response_def app_session_modification_response_def
      app_downlink_data_notification_acknowledge_def ctx_session_establishment_response_def
      ctx_session_modification_response_def ctx_downlink_data_notification_acknowledge_def same_dir
      split: option.split prod.split)

lemma same_dir_keep: "same_directory s s1 \<Longrightarrow> same_directory s (keep_procedure c ret pr s1)"
  by (rule same_directory_trans [OF _ same_dir_keep_procedure])

lemma same_dir_app_session_report [same_dir]: "same_directory s (app_session_report env req s)"
  by (auto simp: app_session_report_def ctx_session_report_def split: option.split prod.split
      intro: same_dir_keep same_dir_downlink_data_report_run)

section \<open>Setup and release of a connection\<close>

lemma pgw_invD:
  assumes "pgw_inv s"
  shows "directory_ok (s5s8cplteid s) (s5s8lteid2pgw_context s) (\<lambda>c. c_apns (ctxs s c))
       (\<lambda>a. pdn_connections (apn_ctxs s a)) (pdn_local_teid s) (next_addr s)"
    "imsi2pgw_context s i = Some c \<Longrightarrow> c < next_addr s"
  using assms by (auto simp: pgw_inv_def)

lemma inv_new_apn:
  assumes inv: "pgw_inv s" and c: "c < next_addr s" and x: "pdn_connections x = []"
  shows "pgw_inv (insert_apn c (next_addr s) (snd (new_apn x s)))"
    "next_addr s \<in> set (c_apns (ctxs (insert_apn c (next_addr s) (snd (new_apn x s))) c))"
proof -
  let ?s = "insert_apn c (next_addr s) (snd (new_apn x s))"
  have new: "pdn_connections (apn_ctxs s (next_addr s)) = []"
    using forest_new(4) pgw_invD(1) [OF inv] unfolding directory_ok_def by blast
  have eq: "(\<lambda>c'. c_apns (ctxs ?s c')) = (\<lambda>c'. c_apns (ctxs s c'))(c := c_apns (ctxs s c) @ [next_addr s])"
    "(\<lambda>a. pdn_connections (apn_ctxs ?s a)) = (\<lambda>a. pdn_connections (apn_ctxs s a))"
    using x new by (auto simp: fun_eq_iff insert_apn_def store_defs)
  have "directory_ok (s5s8cplteid ?s) (s5s8lteid2pgw_context ?s) (\<lambda>c'. c_apns (ctxs ?s c'))
      (\<lambda>a. pdn_connections (apn_ctxs ?s a)) (pdn_local_teid ?s) (next_addr ?s)"
    using directory_ok_add_apn [OF pgw_invD(1) [OF inv] c] unfolding eq by (simp add: insert_apn_def store_defs)
  moreover have "c' < next_addr ?s" if "imsi2pgw_context ?s i = Some c'" for i c'
    using that pgw_invD(2) [OF inv, of i c'] by (simp add: insert_apn_def store_defs less_SucI)
  ultimately show "pgw_inv ?s" by (simp add: pgw_inv_def)
  show "next_addr s \<in> set (c_apns (ctxs ?s c))" by (simp add: insert_apn_def store_defs)
qed

lemma inv_new_pdn:
  assumes inv: "pgw_inv s" and a: "a \<in> set (c_apns (ctxs s c))" and t: "t \<notin> s5s8cplteid s" "t \<noteq> 0"
    and x: "teid_gre_key (pgw_fteid_s5_s8_cp x) = t" "teid_gre_key f = t"
    and s1: "s1 = s\<lparr>teid_s5s8_cp_generator := g, s5s8cplteid := insert t (s5s8cplteid s)\<rparr>"
    and s2: "new_pdn x (set_s5s8cpgw_fteid_2_pgw_context f c s1) = (p, s2)"
  shows "pgw_inv (insert_pdn_connection a p s2)"
proof -
  let ?s = "insert_pdn_connection a p s2"
  from s2 s1 have p: "p = next_addr s" by (simp add: store_defs set_s5s8cpgw_fteid_2_pgw_context_def)
  have eq: "(\<lambda>c'. c_apns (ctxs ?s c')) = (\<lambda>c'. c_apns (ctxs s c'))"
    "(\<lambda>a'. pdn_connections (apn_ctxs ?s a')) =
       (\<lambda>a'. pdn_connections (apn_ctxs s a'))(a := pdn_connections (apn_ctxs s a) @ [next_addr s])"
    "pdn_local_teid ?s = (pdn_local_teid s)(next_addr s := t)"
    using s1 s2 x p
    by (auto simp: fun_eq_iff insert_pdn_connection_def store_defs set_s5s8cpgw_fteid_2_pgw_context_def)
  have tab: "s5s8cplteid ?s = insert t (s5s8cplteid s)" "s5s8lteid2pgw_context ?s = (s5s8lteid2pgw_context s)(t \<mapsto> c)"
    "next_addr ?s = Suc (next_addr s)" "imsi2pgw_context ?s = imsi2pgw_context s"
    using s1 s2 x by (auto simp: insert_pdn_connection_def store_defs set_s5s8cpgw_fteid_2_pgw_context_def)
  show ?thesis
    unfolding pgw_inv_def eq tab
    using directory_ok_add_pdn [OF pgw_invD(1) [OF inv] a t] pgw_invD(2) [OF inv] by (auto simp: less_SucI)
qed

text \<open>The state after the resources of a connection are released, when the pools are \<open>d\<close>.\<close>

definition dealloc :: "nat \<Rightarrow> paa_dynamic \<Rightarrow> pgw_app \<Rightarrow> pgw_app" where
  "dealloc p d s = s\<lparr>s5s8lteid2pgw_context := map_erase (s5s8lteid2pgw_context s) (pdn_local_teid s p),
      s5s8cplteid := s5s8cplteid s - {pdn_local_teid s p}, pools := d,
      pdn_ctxs := (pdn_ctxs s)(p := pdn_clear (pdn_ctxs s p))\<rparr>"

definition release_ipv4 :: "string \<Rightarrow> nat \<Rightarrow> pgw_app \<Rightarrow> (bool \<times> paa_dynamic) outcome" where
  "release_ipv4 apn_name p s =
     (if p_ipv4 (pdn_ctxs s p) then release_paa_ipv4 apn_name (p_ipv4_address (pdn_ctxs s p)) (pools s)
      else Inr (False, pools s))"

lemma pdn_deallocate_eq:
  "pdn_deallocate_ressources apn_name p s = obind (release_ipv4 apn_name p s) (\<lambda>(_, d). Inr (dealloc p d s))"
proof (cases "p_ipv4 (pdn_ctxs s p)")
  case True
  then show ?thesis
    by (cases "release_paa_ipv4 apn_name (p_ipv4_address (pdn_ctxs s p)) (pools s)")
      (simp_all add: pdn_deallocate_ressources_def release_ipv4_def dealloc_def free_s5s8_cp_fteid_def
        free_s5s8c_teid_def upd_pdn_def case_prod_beta)
next
  case False
  then show ?thesis
    by (simp add: pdn_deallocate_ressources_def release_ipv4_def dealloc_def free_s5s8_cp_fteid_def
        free_s5s8c_teid_def upd_pdn_def)
qed

lemma pdn_clear_simps [simp]:
  "p_ipv4 (pdn_clear x) = False" "pgw_fteid_s5_s8_cp (pdn_clear x) = fteid_default" "pdn_clear (pdn_clear x) = pdn_clear x"
  by (simp_all add: pdn_clear_def)

lemma dealloc_simps [simp]:
  "pdn_ctxs (dealloc p d s) = (pdn_ctxs s)(p := pdn_clear (pdn_ctxs s p))" "apn_ctxs (dealloc p d s) = apn_ctxs s"
  "ctxs (dealloc p d s) = ctxs s" "pools (dealloc p d s) = d" "next_addr (dealloc p d s) = next_addr s"
  "imsi2pgw_context (dealloc p d s) = imsi2pgw_context s" "up (dealloc p d s) = up s"
  "s5s8cplteid (dealloc p d s) = s5s8cplteid s - {pdn_local_teid s p}"
  "s5s8lteid2pgw_context (dealloc p d s) = map_erase (s5s8lteid2pgw_context s) (pdn_local_teid s p)"
  "seid2pgw_context (dealloc p d s) = seid2pgw_context s"
  by (simp_all add: dealloc_def)

text \<open>The second release finds the connection cleared and takes TEID 0 out of the tables.\<close>

lemma dealloc_twice:
  assumes "s5s8lteid2pgw_context s 0 = None" "0 \<notin> s5s8cplteid s"
  shows "dealloc p d (dealloc p d s) = dealloc p d s"
proof -
  have "map_erase (map_erase (s5s8lteid2pgw_context s) t) 0 = map_erase (s5s8lteid2pgw_context s) t" for t
    using assms(1) by (auto simp: fun_eq_iff)
  then show ?thesis
    using assms(2) by (simp add: dealloc_def fteid_default_def)
qed

text \<open>What is left after a connection is deleted: \<open>a\<close> is empty afterwards or not.\<close>

definition drop_pdn :: "nat \<Rightarrow> nat \<Rightarrow> paa_dynamic \<Rightarrow> pgw_app \<Rightarrow> pgw_app" where
  "drop_pdn a p d s = upd_apn a (\<lambda>x. x\<lparr>pdn_connections := remove1 p (pdn_connections x)\<rparr>) (dealloc p d s)"

definition drop_apn :: "nat \<Rightarrow> nat \<Rightarrow> pgw_app \<Rightarrow> pgw_app" where
  "drop_apn c a s = upd_ctx c (\<lambda>x. x\<lparr>c_apns := remove1 a (c_apns x)\<rparr>)
     (upd_apn a (\<lambda>x. x\<lparr>pdn_connections := [], in_use := False, apn_ambr := (0, 0)\<rparr>) s)"

lemma delete_pdn_connection_eq:
  assumes "s5s8lteid2pgw_context s 0 = None" "0 \<notin> s5s8cplteid s"
    and "a \<in> set (c_apns (ctxs s c))" "p \<in> set (pdn_connections (apn_ctxs s a))"
  shows "delete_pdn_connection c a p s =
     obind (release_ipv4 (apn_in_use (apn_ctxs s a)) p s) (\<lambda>(_, d).
       Inr (if remove1 p (pdn_connections (apn_ctxs s a)) = [] then drop_apn c a (drop_pdn a p d s) else drop_pdn a p d s))"
proof -
  have second: "pdn_deallocate_ressources n p (dealloc p d s) = Inr (dealloc p d s)" for n d
    using dealloc_twice [OF assms(1,2)] by (simp add: pdn_deallocate_eq release_ipv4_def)
  have del: "apn_delete_pdn_connection a p s =
      obind (release_ipv4 (apn_in_use (apn_ctxs s a)) p s) (\<lambda>(_, d). Inr (drop_pdn a p d s))"
    using assms(4)
    by (cases "release_ipv4 (apn_in_use (apn_ctxs s a)) p s")
      (auto simp: apn_delete_pdn_connection_def pdn_deallocate_eq [of _ _ s] second drop_pdn_def)
  have "delete_apn_context c a (drop_pdn a p d s) = Inr (drop_apn c a (drop_pdn a p d s))"
    if "remove1 p (pdn_connections (apn_ctxs s a)) = []" for d
    using that assms(3)
    by (simp add: delete_apn_context_def apn_deallocate_ressources_def drop_apn_def drop_pdn_def upd_apn_def)
  then show ?thesis
    unfolding delete_pdn_connection_def del
    by (cases "release_ipv4 (apn_in_use (apn_ctxs s a)) p s") (auto simp: drop_pdn_def upd_apn_def)
qed

lemma inv_zero:
  assumes "pgw_inv s"
  shows "s5s8lteid2pgw_context s 0 = None" "0 \<notin> s5s8cplteid s" "s5s8cplteid s = dom (s5s8lteid2pgw_context s)"
  using pgw_invD(1) [OF assms] by (auto simp: directory_ok_def)

lemma inv_drop_pdn:
  assumes inv: "pgw_inv s" and a: "a \<in> set (c_apns (ctxs s c))" and p: "p \<in> set (pdn_connections (apn_ctxs s a))"
  shows "pgw_inv (drop_pdn a p d s)"
proof -
  let ?s = "drop_pdn a p d s"
  have eq: "(\<lambda>c'. c_apns (ctxs ?s c')) = (\<lambda>c'. c_apns (ctxs s c'))"
    "(\<lambda>a'. pdn_connections (apn_ctxs ?s a')) =
       (\<lambda>a'. pdn_connections (apn_ctxs s a'))(a := remove1 p (pdn_connections (apn_ctxs s a)))"
    "pdn_local_teid ?s = (pdn_local_teid s)(p := 0)" "next_addr ?s = next_addr s"
    "s5s8cplteid ?s = s5s8cplteid s - {pdn_local_teid s p}"
    "s5s8lteid2pgw_context ?s = (s5s8lteid2pgw_context s)(pdn_local_teid s p := None)"
    "imsi2pgw_context ?s = imsi2pgw_context s"
    by (auto simp: fun_eq_iff drop_pdn_def upd_apn_def fteid_default_def map_erase_def)
  show ?thesis
    unfolding pgw_inv_def eq
    using directory_ok_remove_pdn [OF pgw_invD(1) [OF inv] a p] pgw_invD(2) [OF inv] by blast
qed

lemma inv_drop_apn:
  assumes inv: "pgw_inv s" and a: "pdn_connections (apn_ctxs s a) = []"
  shows "pgw_inv (drop_apn c a s)"
proof -
  let ?s = "drop_apn c a s"
  have eq: "(\<lambda>c'. c_apns (ctxs ?s c')) = (\<lambda>c'. c_apns (ctxs s c'))(c := remove1 a (c_apns (ctxs s c)))"
    "(\<lambda>a'. pdn_connections (apn_ctxs ?s a')) = (\<lambda>a'. pdn_connections (apn_ctxs s a'))"
    "pdn_local_teid ?s = pdn_local_teid s" "next_addr ?s = next_addr s" "s5s8cplteid ?s = s5s8cplteid s"
    "s5s8lteid2pgw_context ?s = s5s8lteid2pgw_context s" "imsi2pgw_context ?s = imsi2pgw_context s"
    using a by (auto simp: fun_eq_iff drop_apn_def upd_apn_def upd_ctx_def)
  show ?thesis
    unfolding pgw_inv_def eq
    using directory_ok_remove_apn [OF pgw_invD(1) [OF inv] a] pgw_invD(2) [OF inv] by blast
qed

lemma inv_delete_pdn_connection:
  assumes inv: "pgw_inv s" and a: "a \<in> set (c_apns (ctxs s c))" and p: "p \<in> set (pdn_connections (apn_ctxs s a))"
    and r: "delete_pdn_connection c a p s = Inr s1"
  shows "pgw_inv s1"
proof -
  from r obtain d where s1: "s1 = (if remove1 p (pdn_connections (apn_ctxs s a)) = []
      then drop_apn c a (drop_pdn a p d s) else drop_pdn a p d s)"
    unfolding delete_pdn_connection_eq [OF inv_zero(1,2) [OF inv] a p] by (auto simp: obind_Inr_iff)
  moreover have "pdn_connections (apn_ctxs (drop_pdn a p d s) a) = remove1 p (pdn_connections (apn_ctxs s a))"
    by (simp add: drop_pdn_def upd_apn_def)
  ultimately show ?thesis using inv_drop_pdn [OF inv a p, of d] inv_drop_apn by (auto split: if_splits)
qed

lemma find_in_apns_Some:
  "find_in_apns f as = Some (a, r) \<Longrightarrow> a \<in> set as \<and> f a = Some r"
  by (induction as) (auto split: option.splits)

lemma find_in_apns_None: "find_in_apns f as = None \<longleftrightarrow> (\<forall>a \<in> set as. f a = None)"
  by (induction as) (auto split: option.split)

lemma find_pdn_connection_Some:
  assumes "find_pdn_connection t loc c s = Some (a, p)"
  shows "a \<in> set (c_apns (ctxs s c))" "p \<in> set (pdn_connections (apn_ctxs s a))" "pdn_teid loc (pdn_ctxs s p) = t"
  using find_in_apns_Some [OF assms [unfolded find_pdn_connection_def]]
  by (auto simp: apn_find_pdn_def find_Some_iff)

text \<open>A TEID of the table is that of one connection of the context it leads to.\<close>

lemma find_pdn_connection_local:
  assumes inv: "pgw_inv s" and t: "s5s8lteid2pgw_context s t = Some c"
  obtains a p where "find_pdn_connection t True c s = Some (a, p)" "a \<in> set (c_apns (ctxs s c))"
    "p \<in> set (pdn_connections (apn_ctxs s a))" "pdn_local_teid s p = t"
proof -
  from pgw_invD(1) [OF inv] t obtain a p where "a \<in> set (c_apns (ctxs s c))"
      "p \<in> set (pdn_connections (apn_ctxs s a))" "pdn_local_teid s p = t"
    by (auto simp: directory_ok_def members_def)
  then have "find_pdn_connection t True c s \<noteq> None"
    by (auto simp: find_pdn_connection_def find_in_apns_None apn_find_pdn_def find_None_iff pdn_teid_def)
  then obtain a p where "find_pdn_connection t True c s = Some (a, p)" by auto
  with find_pdn_connection_Some [OF this] that show ?thesis by (simp add: pdn_teid_def)
qed

section \<open>Every message keeps the invariant\<close>

lemma inv_delete_session_handle:
  assumes inv: "pgw_inv s" and r: "delete_session_handle s5 c p v s = Inr s1"
  shows "pgw_inv s1"
proof -
  have inv1: "pgw_inv (app_send_log d m s)" for d m by (rule same_directory_inv [OF same_dir_app_send(2) inv])
  have del: "pgw_inv s2" if "find_pdn_connection t True c (app_send_log d m s) = Some (a, p')"
    "delete_pdn_connection c a p' (app_send_log d m s) = Inr s2" for t d m a p' s2
    by (rule inv_delete_pdn_connection [OF inv1 find_pdn_connection_Some(1,2) [OF that(1)] that(2)])
  from r show ?thesis
    unfolding delete_session_handle_def Let_def by (auto split: option.splits intro: inv1 del)
qed

lemma inv_app_session_deletion_response:
  assumes inv: "pgw_inv s" and r: "app_session_deletion_response resp s = Inr s1"
  shows "pgw_inv s1"
proof -
  have proc: "pgw_inv s2" if "proc_session_deletion_response pr v s = Inr s2" for pr v s2
    using that inv by (auto simp: proc_session_deletion_response_def split: procedure_class.splits
        intro: inv_delete_session_handle)
  have ctx: "pgw_inv s2" if "ctx_session_deletion_response resp c s = Inr s2" for c s2
    using that inv by (auto simp: ctx_session_deletion_response_def obind_Inr_iff split: option.splits
        intro: same_directory_inv [OF same_dir_remove_procedure proc])
  from r inv show ?thesis
    by (auto simp: app_session_deletion_response_def obind_Inr_iff split: option.splits if_splits
        intro: same_directory_inv [OF same_dir_delete_pgw_context ctx] ctx)
qed

lemma inv_app_delete_session:
  assumes inv: "pgw_inv s" and r: "app_delete_session env req s = Inr s1"
  shows "pgw_inv s1"
proof -
  have ctx: "same_directory s s2" if "ctx_delete_session env req c s = Inr s2" for c s2
    using that by (auto simp: ctx_delete_session_def obind_Inr_iff send_delete_session_response_cause_context_not_found_def
        same_dir case_prod_beta split: option.splits
        dest!: same_dir_generate_trxn_id intro!: same_dir_keep
        intro: same_directory_trans [OF _ same_dir_delete_session_run])
  have "same_directory s s1"
    using r by (auto simp: app_delete_session_def Let_def obind_Inr_iff same_dir
        send_delete_session_response_cause_context_not_found_def split: if_splits option.splits
        dest: ctx intro: same_directory_trans [OF ctx same_dir_delete_pgw_context])
  then show ?thesis using inv by (rule same_directory_inv)
qed

lemma inv_app_modify_bearer:
  assumes inv: "pgw_inv s" and r: "app_modify_bearer env req s = Inr s1"
  shows "pgw_inv s1"
proof -
  have ctx: "same_directory s s2" if "ctx_modify_bearer env req c s = Inr s2" for c s2
    using that by (auto simp: ctx_modify_bearer_def obind_Inr_iff send_modify_bearer_response_cause_context_not_found_def
        same_dir split: option.splits prod.splits
        dest!: same_dir_generate_trxn_id same_dir_modify_bearer_run
        intro!: same_dir_keep dest: same_directory_trans)
  have "same_directory s s1"
    using r by (auto simp: app_modify_bearer_def Let_def same_dir
        send_delete_session_response_cause_context_not_found_def split: if_splits option.splits dest: ctx)
  then show ?thesis using inv by (rule same_directory_inv)
qed

lemma inv_app_release_access_bearers:
  assumes inv: "pgw_inv s" and r: "app_release_access_bearers env req s = Inr s1"
  shows "pgw_inv s1"
proof -
  have ctx: "same_directory s s2" if "ctx_release_access_bearers env req c s = Inr s2" for c s2
    using that by (auto simp: ctx_release_access_bearers_def obind_Inr_iff
        send_release_access_bearers_response_cause_request_accepted_def same_dir
        split: option.splits prod.splits if_splits
        dest!: same_dir_generate_trxn_id same_dir_release_access_bearers_run
        intro!: same_dir_keep dest: same_directory_trans)
  have "same_directory s s1"
    using r by (auto simp: app_release_access_bearers_def split: option.splits dest: ctx)
  then show ?thesis using inv by (rule same_directory_inv)
qed

lemma inv_ensure_apn:
  assumes "pgw_inv s" "c < next_addr s" "ensure_apn req c None s = (a, s1)"
  shows "pgw_inv s1 \<and> a \<in> set (c_apns (ctxs s1 c))"
  using assms inv_new_apn [OF assms(1,2)]
  by (auto simp: ensure_apn_def new_apn_def apn_context_new_def split: option.splits)

lemma generate_fteid_Inr:
  assumes "generate_s5s8_cp_fteid addr4 s = Inr (f, s1)"
  obtains t g where "t \<notin> s5s8cplteid s" "t \<noteq> 0" "f = build_s5s8_cp_fteid addr4 t"
    "s1 = s\<lparr>teid_s5s8_cp_generator := g, s5s8cplteid := insert t (s5s8cplteid s)\<rparr>"
proof -
  from assms obtain t where g: "generate_s5s8_cp_teid s = Some (t, s1)" and f: "f = build_s5s8_cp_fteid addr4 t"
    by (auto simp: generate_s5s8_cp_fteid_def split: option.splits)
  from generate_s5s8_cp_teid_Some [OF g] f that show ?thesis by blast
qed

lemma inv_ensure_pdn:
  assumes inv: "pgw_inv s" and a: "a \<in> set (c_apns (ctxs s c))" and r: "ensure_pdn addr4 req c a None s = Inr (p, s1)"
  shows "pgw_inv s1"
proof -
  from r obtain b bs where bs: "bearer_contexts_to_be_created req = b # bs"
    by (cases "bearer_contexts_to_be_created req") (auto simp: ensure_pdn_def)
  let ?x = "\<lambda>f. pgw_pdn_connection_new\<lparr>p_pdn_type := cs_pdn_type_value req,
      default_bearer := tbc_eps_bearer_id b, sgw_fteid_s5_s8_cp := cs_sender_fteid_for_cp req, pgw_fteid_s5_s8_cp := f\<rparr>"
  from r bs obtain f s2 where g: "generate_s5s8_cp_fteid addr4 s = Inr (f, s2)"
    and s1: "s1 = insert_pdn_connection a p (snd (new_pdn (?x f) (set_s5s8cpgw_fteid_2_pgw_context f c s2)))"
    and p: "p = fst (new_pdn (?x f) (set_s5s8cpgw_fteid_2_pgw_context f c s2))"
    by (auto simp: ensure_pdn_def obind_Inr_iff case_prod_beta)
  from generate_fteid_Inr [OF g] obtain t gen where t: "t \<notin> s5s8cplteid s" "t \<noteq> 0" "f = build_s5s8_cp_fteid addr4 t"
    "s2 = s\<lparr>teid_s5s8_cp_generator := gen, s5s8cplteid := insert t (s5s8cplteid s)\<rparr>" by blast
  show ?thesis
    unfolding s1 by (rule inv_new_pdn [OF inv a t(1,2) _ _ t(4)]) (use p t(3) in \<open>auto simp: build_s5s8_cp_fteid_def\<close>)
qed

lemma same_dir_accept_session:
  assumes "accept_session env req resp f a4 pco c a p s = Inr (resp1, s1)"
  shows "same_directory s s1"
proof -
  let ?s = "if f then upd_pdn p (pdn_set a4) s
     else if cs_paa (gtp_ies req) \<noteq> None \<and> is_ip_assigned (cs_paa_value (gtp_ies req))
     then upd_pdn p (pdn_set (cs_paa_value (gtp_ies req))) s else s"
  have "same_directory s ?s" by (auto simp: same_dir)
  moreover from assms obtain trxn s2 ret s3 resp' pr where "generate_trxn_id ?s = Inr (trxn, s2)"
    "session_establishment_run env req resp' c trxn p s2 = Inr (ret, resp1, s3)"
    "s1 = keep_procedure c ret pr s3"
    unfolding accept_session_def Let_def obind_Inr_iff by (fastforce simp: obind_Inr_iff)
  ultimately show ?thesis
    by (meson same_dir_generate_trxn_id same_dir_session_establishment_run same_dir_keep same_directory_trans)
qed

lemma same_dir_refuse_session:
  assumes "refuse_session req resp a p s = Inr s1"
  shows "same_directory s s1"
proof -
  have "same_directory s (app_send_log d m (s\<lparr>pools := x\<rparr>))" for d m x
    by (rule same_directory_trans [OF same_dir_fields(2) same_dir_app_send(2)])
  with assms show ?thesis
    by (auto simp: refuse_session_def Let_def obind_Inr_iff same_dir split: option.splits if_splits sum.splits)
qed

lemma same_dir_answer_session:
  assumes "answer_session env req c a p pco f a4 v s = Inr s1"
  shows "same_directory s s1"
proof -
  let ?r = "\<lparr>s_teid = teid_gre_key (sgw_fteid_s5_s8_cp (pdn_ctxs s p)), gtpc_tx_id = gtpc_tx_id req,
      s_r_endpoint = s_r_endpoint req, gtp_ies = create_session_response_new\<lparr>csr_cause := Some v\<rparr>\<rparr>"
  from assms obtain resp s2 where acc: "s2 = s \<or> accept_session env req ?r f a4 pco c a p s = Inr (resp, s2)"
    and fin: "s1 = s2 \<or> refuse_session req resp a p s2 = Inr s1"
    by (cases "cause_value v = REQUEST_ACCEPTED") (auto simp: answer_session_def Let_def obind_Inr_iff split: if_splits)
  from acc have "same_directory s s2" using same_dir_accept_session by auto
  moreover from fin have "same_directory s2 s1" using same_dir_refuse_session by auto
  ultimately show ?thesis by (rule same_directory_trans)
qed

lemma inv_ctx_create_session:
  assumes inv: "pgw_inv s" and c: "c < next_addr s" and r: "ctx_create_session env req c s = Inr s1"
  shows "pgw_inv s1"
proof -
  let ?ies = "gtp_ies req" and ?found = "find_pdn_connection_apn (cs_apn (gtp_ies req)) (s_teid req) True c s"
  let ?s0 = "upd_ctx c (ctx_set_imsi ?ies) s"
  obtain a s2 where a: "ensure_apn ?ies c (map_option fst ?found) ?s0 = (a, s2)" by fastforce
  from r a obtain p s3 pco f a4 v d where p: "ensure_pdn (s5s8_addr4 (e_cfg env)) ?ies c a (map_option snd ?found) s2 = Inr (p, s3)"
    and fin: "answer_session env req c a p pco f a4 v (s3\<lparr>pools := d\<rparr>) = Inr s1"
    by (auto simp: ctx_create_session_def Let_def obind_Inr_iff)
  have inv0: "pgw_inv ?s0" by (rule same_directory_inv [OF _ inv]) (simp add: same_dir ctx_set_imsi_def)
  have c0: "c < next_addr ?s0" using c by (simp add: upd_ctx_def)
  have inv3: "pgw_inv s3"
  proof (cases ?found)
    case None
    with a inv_ensure_apn [OF inv0 c0] have "pgw_inv s2 \<and> a \<in> set (c_apns (ctxs s2 c))" by simp
    with inv_ensure_pdn None p show ?thesis by auto
  next
    case (Some x)
    with a p inv0 show ?thesis by (auto simp: ensure_apn_def ensure_pdn_def)
  qed
  from same_directory_trans [OF same_dir_fields(2) same_dir_answer_session [OF fin]]
  show ?thesis using inv3 by (rule same_directory_inv)
qed

lemma inv_new_ctx:
  assumes inv: "pgw_inv s" and n: "new_ctx pgw_context_new s = (c, s1)"
  shows "pgw_inv (set_imsi64_2_pgw_context i c s1)" "c < next_addr (set_imsi64_2_pgw_context i c s1)"
proof -
  let ?s = "set_imsi64_2_pgw_context i c s1"
  have c: "c = next_addr s" and n1: "next_addr ?s = Suc (next_addr s)"
    using n by (auto simp: new_ctx_def upd_ctx_def set_imsi64_2_pgw_context_def)
  have new: "c_apns (ctxs s (next_addr s)) = []"
    using forest_new(3) pgw_invD(1) [OF inv] unfolding directory_ok_def by blast
  have eq: "(\<lambda>c'. c_apns (ctxs ?s c')) = (\<lambda>c'. c_apns (ctxs s c'))"
    "(\<lambda>a. pdn_connections (apn_ctxs ?s a)) = (\<lambda>a. pdn_connections (apn_ctxs s a))"
    "pdn_local_teid ?s = pdn_local_teid s" "s5s8cplteid ?s = s5s8cplteid s"
    "s5s8lteid2pgw_context ?s = s5s8lteid2pgw_context s"
    using n new by (auto simp: fun_eq_iff new_ctx_def upd_ctx_def set_imsi64_2_pgw_context_def pgw_context_new_def)
  have im: "c' < next_addr ?s" if "imsi2pgw_context ?s j = Some c'" for j c'
    using that n pgw_invD(2) [OF inv, of j c']
    by (auto simp: new_ctx_def upd_ctx_def set_imsi64_2_pgw_context_def less_SucI split: if_splits)
  show "pgw_inv ?s" using directory_ok_mono [OF pgw_invD(1) [OF inv], of "next_addr ?s"] im
    unfolding pgw_inv_def eq n1 by auto
  show "c < next_addr ?s" using c n1 by simp
qed

lemma inv_ctx_of_teid:
  assumes "pgw_inv s" "s5s8lteid2pgw_context s t = Some c"
  shows "c < next_addr s"
proof -
  from find_pdn_connection_local [OF assms] obtain a where "a \<in> set (c_apns (ctxs s c))" .
  then have "c_apns (ctxs s c) \<noteq> []" by auto
  moreover have "forest (\<lambda>c. c_apns (ctxs s c)) (\<lambda>a. pdn_connections (apn_ctxs s a)) (next_addr s)"
    using pgw_invD(1) [OF assms(1)] by (simp add: directory_ok_def)
  ultimately show ?thesis by (rule forestD(7) [rotated])
qed

lemma inv_app_create_session:
  assumes inv: "pgw_inv s" and r: "app_create_session env req s = Inr s1"
  shows "pgw_inv s1"
proof -
  have send: "pgw_inv (send_create_session_response_cause tx t e v s)" for tx t e v
    unfolding send_create_session_response_cause_def by (rule same_directory_inv [OF same_dir_app_send(2) inv])
  have imsi: "pgw_inv s2" if "imsi64_2_pgw_context i s = Inr c" "ctx_create_session env req c s = Inr s2" for i c s2
    using that pgw_invD(2) [OF inv, of i c] inv
    by (auto simp: imsi64_2_pgw_context_def split: option.splits intro: inv_ctx_create_session)
  have teid: "pgw_inv s2" if "s5s8cpgw_fteid_2_pgw_context f s = Some c" "ctx_create_session env req c s = Inr s2" for f c s2
    using that inv by (auto simp: s5s8cpgw_fteid_2_pgw_context_def split: if_splits
        intro: inv_ctx_create_session inv_ctx_of_teid)
  from r inv show ?thesis
    by (auto simp: app_create_session_def Let_def obind_Inr_iff send split: if_splits option.splits prod.splits
        dest: imsi teid inv_ctx_create_session [OF inv_new_ctx(1,2) [OF inv]])
qed

lemma pgw_app_task_inv:
  assumes "pgw_inv s" "pgw_app_task env e s = Inr s1"
  shows "pgw_inv s1"
  using assms
  by (cases e) (auto intro: inv_app_create_session inv_app_modify_bearer inv_app_release_access_bearers
      inv_app_delete_session inv_app_session_deletion_response
      same_directory_inv [OF same_dir_app_responses(1)] same_directory_inv [OF same_dir_app_responses(2)]
      same_directory_inv [OF same_dir_app_responses(3)] same_directory_inv [OF same_dir_app_session_report])

section \<open>No null pointer is followed\<close>

definition no_null :: "'a outcome \<Rightarrow> bool" where
  "no_null r \<longleftrightarrow> r \<noteq> Inl Deref_null"

named_theorems no_null_rules \<open>computations that follow no null pointer\<close>

lemma no_null_basic [simp]: "no_null (Inr x)" "no_null (Inl e) \<longleftrightarrow> e \<noteq> Deref_null"
  by (simp_all add: no_null_def)

lemma no_null_obind [no_null_rules]: "no_null r \<Longrightarrow> (\<And>x. r = Inr x \<Longrightarrow> no_null (f x)) \<Longrightarrow> no_null (obind r f)"
  by (cases r) (simp_all add: no_null_def)

lemma no_null_sum [no_null_rules]:
  "no_null r \<Longrightarrow> (\<And>x. r = Inr x \<Longrightarrow> no_null (f x)) \<Longrightarrow> no_null (case r of Inl e \<Rightarrow> Inl e | Inr x \<Rightarrow> f x)"
  by (cases r) (simp_all add: no_null_def)

lemma no_null_contents_at [no_null_rules]: "no_null (contents_at c i)"
  by (simp add: contents_at_def)

lemma no_null_ipcp_option [no_null_rules]: "no_null (ipcp_option cfg c i opt len out)"
  by (auto simp: ipcp_option_def ipcp_dns_def Let_def intro!: no_null_rules)

lemma no_null_ipcp_loop:
  assumes "ipcp_loop cfg c r i out = Some res"
  shows "no_null res"
proof (rule ipcp_loop.raw_induct [where P = "\<lambda>_ _ _ _ _ res. no_null res", OF _ assms], goal_cases)
  case (1 f cfg c r i out res)
  then show ?case
    using no_null_contents_at [of c i] no_null_contents_at [of c "i + 1"] no_null_ipcp_option [of cfg c i _ _ out]
    by (auto split: if_splits sum.splits)
qed

lemma no_null_push [no_null_rules]: "no_null (pco_push_protocol_or_container_id pco x)"
  by (simp add: pco_push_protocol_or_container_id_def)

lemma no_null_ipcp [no_null_rules]: "no_null (process_pco_request_ipcp cfg pco x)"
  by (auto simp: process_pco_request_ipcp_def Let_def split: option.split intro!: no_null_rules dest: no_null_ipcp_loop)

lemma no_null_pco_id [no_null_rules]: "no_null (process_pco_id cfg x st)"
  by (cases st) (auto simp: process_pco_id_def process_pco_dns_server_request_def process_pco_link_mtu_request_def
      intro!: no_null_rules)

lemma no_null_pco_loop [no_null_rules]: "no_null (process_pco_loop cfg req ks st)"
  by (induction ks arbitrary: st) (auto intro!: no_null_rules)

lemma no_null_pco [no_null_rules]: "no_null (process_pco_request cfg req resp ids)"
  by (auto simp: process_pco_request_def Let_def process_pco_dns_server_request_def process_pco_link_mtu_request_def
      intro!: no_null_rules)

lemma no_null_free_address [no_null_rules]: "no_null (free_address a p)"
  by (simp add: free_address_def in_pool_def Let_def int32_def split: sum.split bool.split if_split)

lemma no_null_free4_first [no_null_rules]: "no_null (free4_first ks a d)"
proof (induction ks arbitrary: d)
  case (Cons k ks)
  show ?case
    using no_null_free_address [of a "pool4 d k"] Cons.IH
    by (auto simp: Let_def split: sum.split)
qed simp

lemma no_null_release_paa [no_null_rules]: "no_null (release_paa_ipv4 n a d)"
  by (auto simp: release_paa_ipv4_def split: option.split intro: no_null_rules)

lemma no_null_get_free_paa [no_null_rules]: "no_null (get_free_paa n a d)"
  by (auto simp: get_free_paa_def split: option.split prod.split)

lemma no_null_GetUpNodes_loop [no_null_rules]: "no_null (GetUpNodes_loop cfg a u p ns acc)"
  by (induction ns arbitrary: acc) (auto simp: Let_def)

lemma no_null_select_up_node [no_null_rules]: "no_null (select_up_node l cfg a u p s)"
  by (auto simp: select_up_node_def GetUpNodes_def split: option.split intro!: no_null_rules)

lemma no_null_ids [no_null_rules]:
  "no_null (generate_far_id p)" "no_null (generate_pdr_id p)" "no_null (generate_trxn_id s)"
  "no_null (generate_s5s8_cp_fteid addr s)"
  by (auto simp: generate_far_id_def generate_pdr_id_def generate_trxn_id_def generate_s5s8_cp_fteid_def split: option.split)

lemma no_null_establish [no_null_rules]: "no_null (establish_bearers a its st)"
  by (induction its arbitrary: st)
    (auto simp: establish_bearer_def Let_def split: prod.split intro!: no_null_rules)

lemma no_null_session_establishment_run [no_null_rules]:
  "no_null (session_establishment_run env req resp c trxn p s)"
  by (auto simp: session_establishment_run_def Let_def split: prod.split option.split intro!: no_null_rules)

lemma no_null_answer_session [no_null_rules]: "no_null (answer_session env req c a p pco f a4 v s)"
proof -
  have "no_null (accept_session env req resp f a4 pco c a p s)" for resp
    by (auto simp: accept_session_def Let_def intro!: no_null_rules)
  moreover have "no_null (refuse_session req resp a p s')" for resp s'
    by (auto simp: refuse_session_def Let_def split: option.split intro!: no_null_rules)
  ultimately show ?thesis by (auto simp: answer_session_def Let_def intro!: no_null_rules)
qed

lemma no_null_ctx_create_session [no_null_rules]: "no_null (ctx_create_session env req c s)"
proof -
  have "no_null (ensure_pdn addr ies c a sp s')" for addr ies a sp s'
    by (auto simp: ensure_pdn_def split: option.split list.split prod.split intro!: no_null_rules)
  moreover have "no_null (allocate_paa n ies ids t d)" for n ies ids t d
    by (auto simp: allocate_paa_def request_paa_def intro!: no_null_rules)
  ultimately show ?thesis
    by (auto simp: ctx_create_session_def Let_def split: prod.split intro!: no_null_rules)
qed

lemma no_null_modify_bearer [no_null_rules]: "no_null (modify_bearer it st)"
proof -
  have dl: "no_null (modify_far_dl v x)" "no_null (modify_pdr_dl i y)" for v x i y
    by (cases x; cases y; auto simp: modify_far_dl_def modify_pdr_dl_def Let_def intro!: no_null_rules)+
  have ul: "no_null (modify_ul f x)" for f x
    by (cases x) (auto simp: modify_ul_def intro!: no_null_rules)
  show ?thesis
    by (cases st) (auto simp: modify_bearer_def split: prod.split option.split intro!: no_null_rules dl ul)
qed

lemma no_null_modify_bearers [no_null_rules]: "no_null (modify_bearers its st)"
  by (induction its arbitrary: st) (auto intro!: no_null_rules)

lemma no_null_app_modify_bearer [no_null_rules]: "no_null (app_modify_bearer env req s)"
proof -
  have "no_null (modify_bearer_run env req resp trxn p s')" for resp trxn p s'
    by (auto simp: modify_bearer_run_def Let_def split: prod.split intro!: no_null_rules)
  then have "no_null (ctx_modify_bearer env req c s)" for c
    by (auto simp: ctx_modify_bearer_def split: option.split prod.split intro!: no_null_rules)
  then show ?thesis by (auto simp: app_modify_bearer_def Let_def split: option.split)
qed

lemma no_null_app_delete_session [no_null_rules]: "no_null (app_delete_session env req s)"
proof -
  have "no_null (ctx_delete_session env req c s)" for c
    by (auto simp: ctx_delete_session_def split: option.split prod.split intro!: no_null_rules)
  then show ?thesis by (auto simp: app_delete_session_def Let_def split: option.split intro!: no_null_rules)
qed

lemma no_null_pdn_deallocate [no_null_rules]: "no_null (pdn_deallocate_ressources n p s)"
  by (auto simp: pdn_deallocate_ressources_def intro!: no_null_rules)

lemma no_null_app_session_deletion_response [no_null_rules]: "no_null (app_session_deletion_response resp s)"
proof -
  have "no_null (pdns_deallocate n ps s')" for n ps s'
    by (induction ps arbitrary: s') (auto intro!: no_null_rules)
  then have "no_null (delete_pdn_connection c a p s')" for c a p s'
    by (auto simp: delete_pdn_connection_def apn_delete_pdn_connection_def delete_apn_context_def
        apn_deallocate_ressources_def intro!: no_null_rules)
  then show ?thesis
    by (auto simp: app_session_deletion_response_def ctx_session_deletion_response_def
        proc_session_deletion_response_def delete_session_handle_def Let_def
        split: option.split procedure_class.split intro!: no_null_rules)
qed

text \<open>The two places that need the invariant: a TEID in use has a context, and this context has the
  connection.\<close>

lemma no_null_app_create_session:
  assumes "pgw_inv s"
  shows "no_null (app_create_session env req s)"
proof -
  have "s5s8cpgw_fteid_2_pgw_context (build_s5s8_cp_fteid (s5s8_addr4 (e_cfg env)) (s_teid req)) s \<noteq> None"
    if "is_s5s8c_teid_exist (s_teid req) s"
    using that inv_zero(3) [OF assms]
    by (auto simp: s5s8cpgw_fteid_2_pgw_context_def is_s5s8cpgw_fteid_2_pgw_context_def build_s5s8_cp_fteid_def
        is_s5s8c_teid_exist_def)
  moreover have "no_null (imsi64_2_pgw_context i s)" for i
    by (auto simp: imsi64_2_pgw_context_def split: option.split)
  ultimately show ?thesis
    by (auto simp: app_create_session_def Let_def split: option.split prod.split intro!: no_null_rules)
qed

lemma no_null_app_release_access_bearers:
  assumes "pgw_inv s"
  shows "no_null (app_release_access_bearers env req s)"
proof -
  have "no_null (release_loop ks p fars)" for ks p fars
    by (induction ks arbitrary: p fars) (auto simp: Let_def split: option.split)
  then have run: "no_null (release_access_bearers_run env req resp trxn p s')" for resp trxn p s'
    by (auto simp: release_access_bearers_run_def Let_def split: prod.split intro!: no_null_rules)
  have "no_null (ctx_release_access_bearers env req c s)"
    if "s5s8cpgw_fteid_2_pgw_context (build_s5s8_cp_fteid x (s_teid req)) s = Some c" for c x
  proof -
    from that have t: "s5s8lteid2pgw_context s (s_teid req) = Some c"
      by (auto simp: s5s8cpgw_fteid_2_pgw_context_def build_s5s8_cp_fteid_def split: if_splits)
    obtain a p where "find_pdn_connection (s_teid req) True c s = Some (a, p)"
      using find_pdn_connection_local [OF assms t] by blast
    then show ?thesis by (auto simp: ctx_release_access_bearers_def intro!: no_null_rules run)
  qed
  then show ?thesis by (auto simp: app_release_access_bearers_def split: option.split)
qed

lemma no_null_pgw_app_task: "pgw_inv s \<Longrightarrow> no_null (pgw_app_task env e s)"
  by (cases e) (auto intro: no_null_rules no_null_app_create_session no_null_app_release_access_bearers)

section \<open>Initial attach\<close>

text \<open>What has been put in the queue of a task, and that the task takes messages.\<close>

definition outbox :: "task_id \<Rightarrow> pgw_app \<Rightarrow> pgw_msg itti_body list" where
  "outbox t s = map body (queue_of (up_mw (up s)) t)"

definition listening :: "pgw_app \<Rightarrow> bool" where
  "listening s \<longleftrightarrow> task_ready (up_mw (up s)) TASK_PGWC_S5S8 \<and> task_ready (up_mw (up s)) TASK_PGWC_SX"

lemma app_send_listening:
  assumes "listening s" and "dest = TASK_PGWC_S5S8 \<or> dest = TASK_PGWC_SX"
  obtains q where "app_send dest m s = (RETURNok, s\<lparr>up := (up s)\<lparr>up_mw := q\<rparr>\<rparr>)"
    "listening (s\<lparr>up := (up s)\<lparr>up_mw := q\<rparr>\<rparr>)"
    "\<And>t. map body (queue_of q t) = outbox t s @ (if t = dest then [App_body m] else [])"
proof -
  obtain im q1 where im: "itti_msg_new (App_body m) TASK_PGWC_APP dest (up_mw (up s)) = (im, q1)" by fastforce
  then have im': "destination im = dest" "body im = App_body m" and q1: "itti_task_ctxts q1 = itti_task_ctxts (up_mw (up s))"
    by (auto simp: itti_msg_new_def increment_message_number_def)
  have rdy: "task_ready q1 t = task_ready (up_mw (up s)) t" "queue_of q1 t = queue_of (up_mw (up s)) t" for t
    using q1 by (simp_all add: task_ready_def queue_of_def)
  have dest: "dest < TASK_MAX" "dest \<noteq> TASK_ALL" "TASK_FIRST \<le> dest" using assms(2) by (auto simp: task_defs)
  have dr: "task_ready q1 dest" using assms by (auto simp: listening_def rdy)
  obtain ret q where q: "send_msg im q1 = (ret, q)" by fastforce
  have ret: "ret = RETURNok" using q dr im'(1) dest
    by (auto simp: send_msg_def task_ready_def split: option.splits)
  have qq: "queue_of q t = queue_of (up_mw (up s)) t @ (if t = dest then [im] else [])" for t
    using send_msg_queue [of im q1 t] q dr im'(1) dest(1,2) by (auto simp: rdy)
  have "task_ready q t = task_ready q1 t" for t
    using q dr im'(1) dest by (auto simp: send_msg_def push_msg_def task_ready_def split: option.splits if_splits)
  then have "listening (s\<lparr>up := (up s)\<lparr>up_mw := q\<rparr>\<rparr>)" using assms(1) by (simp add: listening_def rdy)
  moreover have "app_send dest m s = (RETURNok, s\<lparr>up := (up s)\<lparr>up_mw := q\<rparr>\<rparr>)"
    by (simp add: app_send_def im q ret)
  moreover have "map body (queue_of q t) = outbox t s @ (if t = dest then [App_body m] else [])" for t
    using im'(2) by (simp add: qq outbox_def)
  ultimately show ?thesis using that by blast
qed

text \<open>The first bearer of a new connection gets the first identifiers.\<close>

definition first_bearer :: "u8 \<Rightarrow> pgw_eps_bearer" where
  "first_bearer e = pgw_eps_bearer_new\<lparr>far_id_ul := (True, 1), pdr_id_ul := 1, ebi := e\<rparr>"

definition first_rules :: "paa \<Rightarrow> bearer_context_to_be_created \<Rightarrow> create_pdr \<times> create_far" where
  "first_rules a b =
     (\<lparr>cp_pdr_id = 1, cp_precedence = ucast (tbc_pl b),
       cp_pdi = \<lparr>source_interface = INTERFACE_VALUE_ACCESS, local_fteid = Some (pfcp_fteid_default\<lparr>pf_ch := True\<rparr>),
         pdi_ue_ip_address = paa_to_pfcp_ue_ip_address a ue_ip_address_default\<rparr>,
       cp_outer_header_removal = Some OUTER_HEADER_REMOVAL_GTPU_UDP_IPV4, cp_far_id = 1\<rparr>,
      \<lparr>cf_far_id = 1, cf_apply_action = apply_action_default\<lparr>forw := True\<rparr>,
       cf_destination_interface = INTERFACE_VALUE_CORE, cf_outer_header_creation = None\<rparr>)"

lemma first_uid: "get_uid uint_generator_init = Some (1, \<lparr>uid_generator = 1, uid_generated = {1}\<rparr>)"
  by (simp add: get_uid_def uint_generator_init_def get_uid_loop.simps)

lemma establish_first:
  assumes "far_id_generator p = uint_generator_init" "pdr_id_generator p = uint_generator_init" "eps_bearers p = []"
    and "EPS_BEARER_IDENTITY_FIRST \<le> tbc_eps_bearer_id b" "tbc_eps_bearer_id b \<le> EPS_BEARER_IDENTITY_LAST"
  shows "establish_bearers a [b] (p, ser) =
     Inr (p\<lparr>far_id_generator := \<lparr>uid_generator = 1, uid_generated = {1}\<rparr>,
            pdr_id_generator := \<lparr>uid_generator = 1, uid_generated = {1}\<rparr>,
            eps_bearers := [(tbc_eps_bearer_id b, first_bearer (tbc_eps_bearer_id b))]\<rparr>,
          ser\<lparr>ser_create_pdrs := ser_create_pdrs ser @ [fst (first_rules a b)],
              ser_create_fars := ser_create_fars ser @ [snd (first_rules a b)]\<rparr>)"
  using assms
  by (simp add: establish_bearer_def generate_far_id_def generate_pdr_id_def first_uid Let_def add_eps_bearer_def
      bearers_insert_def first_bearer_def first_rules_def)

text \<open>The flag for an allocation by DHCP is never set.\<close>

lemma process_pco_no_dhcp:
  assumes "process_pco_request cfg req resp ids = Inr (r, ids')"
    and "\<not> ci_ipv4_address_allocation_via_dhcpv4 ids"
  shows "\<not> ci_ipv4_address_allocation_via_dhcpv4 ids'"
proof -
  have one: "\<not> ci_ipv4_address_allocation_via_dhcpv4 (snd st')"
    if "process_pco_id cfg x st = Inr st'" "\<not> ci_ipv4_address_allocation_via_dhcpv4 (snd st)" for x st st'
    using that by (cases st) (auto simp: process_pco_id_def obind_Inr_iff split: if_splits)
  have "\<not> ci_ipv4_address_allocation_via_dhcpv4 (snd st')"
    if "process_pco_loop cfg req ks st = Inr st'" "\<not> ci_ipv4_address_allocation_via_dhcpv4 (snd st)" for ks st st'
    using that by (induction ks arbitrary: st) (auto simp: obind_Inr_iff split: if_splits dest: one)
  then show ?thesis
    using assms unfolding process_pco_request_def Let_def
    by (auto simp: obind_Inr_iff split: if_splits)
qed

text \<open>The connection of an initial attach before the user plane is asked, and after.\<close>

definition attach_seid :: "pgw_env \<Rightarrow> teid \<Rightarrow> seid" where
  "attach_seid env t = ucast t OR push_bit 32 (ucast (cfg_instance (e_cfg env)))"

definition attach_pdn :: "pgw_env \<Rightarrow> create_session_request \<Rightarrow> bearer_context_to_be_created \<Rightarrow> teid \<Rightarrow> pgw_pdn_connection" where
  "attach_pdn env ies b t = pgw_pdn_connection_new\<lparr>p_pdn_type := cs_pdn_type_value ies,
     default_bearer := tbc_eps_bearer_id b, sgw_fteid_s5_s8_cp := cs_sender_fteid_for_cp ies,
     pgw_fteid_s5_s8_cp := build_s5s8_cp_fteid (s5s8_addr4 (e_cfg env)) t\<rparr>"

definition attached_pdn :: "pgw_env \<Rightarrow> bearer_context_to_be_created \<Rightarrow> pgw_pdn_connection \<Rightarrow> pgw_pdn_connection" where
  "attached_pdn env b p =
     p\<lparr>p_seid := attach_seid env (teid_gre_key (pgw_fteid_s5_s8_cp p)),
       far_id_generator := \<lparr>uid_generator = 1, uid_generated = {1}\<rparr>,
       pdr_id_generator := \<lparr>uid_generator = 1, uid_generated = {1}\<rparr>,
       eps_bearers := [(tbc_eps_bearer_id b, first_bearer (tbc_eps_bearer_id b))]\<rparr>"

definition attach_request :: "pgw_env \<Rightarrow> pfcp_association \<Rightarrow> u64 \<Rightarrow> teid \<Rightarrow> paa \<Rightarrow> bearer_context_to_be_created \<Rightarrow> pgw_msg" where
  "attach_request env sa trxn t a b =
     SXAB_SESSION_ESTABLISHMENT_REQUEST
       \<lparr>x_seid = 0, x_trxn_id = trxn, x_r_endpoint = a_remote_endpoint sa,
        pfcp_ies = \<lparr>ser_node_id = snd (GetPfcpNodeId (cfg_up (e_cfg env))),
                    ser_cp_fseid = (snd (GetPfcpFseid (cfg_up (e_cfg env))))\<lparr>fs_seid := attach_seid env t\<rparr>,
                    ser_create_pdrs = [fst (first_rules a b)], ser_create_fars = [snd (first_rules a b)]\<rparr>\<rparr>"

lemma session_establishment_run_first:
  assumes sel: "select_up_node (e_lowest env) (cfg_up (e_cfg env)) (cs_apn (gtp_ies req)) (cs_uli (gtp_ies req))
      (cs_paa_value (gtp_ies req)) (up s) = Inr (True, n)"
    and sa: "get_association (e_hash env) n (up s) = Some sa"
    and gen: "far_id_generator (pdn_ctxs s p) = uint_generator_init" "pdr_id_generator (pdn_ctxs s p) = uint_generator_init"
      "eps_bearers (pdn_ctxs s p) = []"
    and b: "bearer_contexts_to_be_created (gtp_ies req) = [b]"
      "EPS_BEARER_IDENTITY_FIRST \<le> tbc_eps_bearer_id b" "tbc_eps_bearer_id b \<le> EPS_BEARER_IDENTITY_LAST"
    and lst: "listening s"
    and t: "t = pdn_local_teid s p"
  obtains q where "session_establishment_run env req resp c trxn p s = Inr (RETURNok, resp,
      s\<lparr>pdn_ctxs := (pdn_ctxs s)(p := attached_pdn env b (pdn_ctxs s p)),
        seid2pgw_context := (seid2pgw_context s)(attach_seid env t \<mapsto> c), up := (up s)\<lparr>up_mw := q\<rparr>\<rparr>)"
    "listening (s\<lparr>up := (up s)\<lparr>up_mw := q\<rparr>\<rparr>)"
    "\<And>x. map body (queue_of q x) = outbox x s @ (if x = TASK_PGWC_SX
       then [App_body (attach_request env sa trxn t (csr_paa_value (gtp_ies resp)) b)] else [])"
proof -
  let ?p = "generate_seid (cfg_instance (e_cfg env)) (pdn_ctxs s p)"
  let ?s = "set_seid_2_pgw_context (attach_seid env t) c (upd_pdn p (\<lambda>_. attached_pdn env b (pdn_ctxs s p)) s)"
  let ?m = "attach_request env sa trxn t (csr_paa_value (gtp_ies resp)) b"
  have gen': "far_id_generator ?p = uint_generator_init" "pdr_id_generator ?p = uint_generator_init" "eps_bearers ?p = []"
    using gen by (simp_all add: generate_seid_def)
  have seid: "p_seid ?p = attach_seid env t" by (simp add: generate_seid_def attach_seid_def t)
  have lst': "listening ?s" and out: "outbox x ?s = outbox x s" for x
    using lst by (simp_all add: listening_def outbox_def set_seid_2_pgw_context_def upd_pdn_def)
  obtain q where q: "app_send TASK_PGWC_SX ?m ?s = (RETURNok, ?s\<lparr>up := (up ?s)\<lparr>up_mw := q\<rparr>\<rparr>)"
    "listening (?s\<lparr>up := (up ?s)\<lparr>up_mw := q\<rparr>\<rparr>)"
    "\<And>x. map body (queue_of q x) = outbox x ?s @ (if x = TASK_PGWC_SX then [App_body ?m] else [])"
    by (rule app_send_listening [OF lst', of TASK_PGWC_SX ?m]) auto
  have "session_establishment_run env req resp c trxn p s = Inr (RETURNok, resp, ?s\<lparr>up := (up ?s)\<lparr>up_mw := q\<rparr>\<rparr>)"
    using q(1) unfolding session_establishment_run_def Let_def sel sa b(1) obind_simps prod.case
      establish_first [OF gen' b(2,3)]
    by (simp add: seid sa attach_request_def attached_pdn_def generate_seid_def attach_seid_def t)
  then show ?thesis using that q(2,3) out
    by (auto simp: set_seid_2_pgw_context_def upd_pdn_def listening_def)
qed

text \<open>
  A request for a first session: from an SGW, with an identity that is not known yet, for a
  configured APN of type IPv4, without an address and with one bearer.
\<close>

definition first_attach :: "pgw_env \<Rightarrow> create_session_request s5s8_msg \<Rightarrow> imsi \<Rightarrow> bearer_context_to_be_created \<Rightarrow> pgw_app \<Rightarrow> bool" where
  "first_attach env req i b s \<longleftrightarrow>
     interface_type (cs_sender_fteid_for_cp (gtp_ies req)) = S5_S8_SGW_GTP_C
     \<and> teid_gre_key (cs_sender_fteid_for_cp (gtp_ies req)) \<noteq> 0 \<and> s_teid req = 0
     \<and> IsDottedApnHandled (cfg_up (e_cfg env)) (cs_apn (gtp_ies req)) (cs_pdn_type_value (gtp_ies req))
     \<and> cs_imsi (gtp_ies req) = Some i \<and> cs_indication_uimsi (gtp_ies req) \<noteq> Some True
     \<and> imsi2pgw_context s (to_imsi64 i) = None
     \<and> cs_pdn_type_value (gtp_ies req) = PDN_TYPE_E_IPV4 \<and> cs_paa (gtp_ies req) = None
     \<and> bearer_contexts_to_be_created (gtp_ies req) = [b]
     \<and> EPS_BEARER_IDENTITY_FIRST \<le> tbc_eps_bearer_id b \<and> tbc_eps_bearer_id b \<le> EPS_BEARER_IDENTITY_LAST"

text \<open>The answer the PGW prepares, before the bearers are known.\<close>

definition attach_ies :: "pgw_env \<Rightarrow> create_session_request \<Rightarrow> teid \<Rightarrow> paa \<Rightarrow> protocol_configuration_options \<Rightarrow> create_session_response" where
  "attach_ies env ies t a4 pco =
     \<lparr>csr_cause = Some (cause_of REQUEST_ACCEPTED), csr_paa = Some a4, csr_pco = Some pco,
      csr_s5_s8_pgw_fteid = Some (build_s5s8_cp_fteid (s5s8_addr4 (e_cfg env)) t),
      csr_apn_ambr = Some (case cs_ambr ies of Some v \<Rightarrow> v | None \<Rightarrow> (0, 0)), bearer_contexts_created = []\<rparr>"

definition attach_answer :: "pgw_env \<Rightarrow> create_session_request s5s8_msg \<Rightarrow> create_session_response \<Rightarrow> create_session_response s5s8_msg" where
  "attach_answer env req ies =
     \<lparr>s_teid = teid_gre_key (cs_sender_fteid_for_cp (gtp_ies req)), gtpc_tx_id = gtpc_tx_id req,
      s_r_endpoint = s_r_endpoint req, gtp_ies = ies\<rparr>"

text \<open>The state when the connection has been made and its address allocated.\<close>

definition attach_state :: "pgw_env \<Rightarrow> create_session_request \<Rightarrow> imsi \<Rightarrow> bearer_context_to_be_created \<Rightarrow> teid \<Rightarrow> teid \<Rightarrow>
    paa_dynamic \<Rightarrow> pgw_app \<Rightarrow> pgw_app" where
  "attach_state env ies i b t g d s =
     (let c = next_addr s in
      s\<lparr>teid_s5s8_cp_generator := g, s5s8cplteid := insert t (s5s8cplteid s),
        imsi2pgw_context := (imsi2pgw_context s)(to_imsi64 i \<mapsto> c),
        s5s8lteid2pgw_context := (s5s8lteid2pgw_context s)(t \<mapsto> c),
        ctxs := (ctxs s)(c := \<lparr>c_imsi = i, imsi_unauthenticated_indicator = False, c_apns = [c + 1], pending_procedures = []\<rparr>),
        apn_ctxs := (apn_ctxs s)(c + 1 := \<lparr>in_use = True, apn_in_use = cs_apn ies,
          apn_ambr = (case cs_ambr ies of Some v \<Rightarrow> v | None \<Rightarrow> (0, 0)), pdn_connections = [c + 2]\<rparr>),
        pdn_ctxs := (pdn_ctxs s)(c + 2 := attach_pdn env ies b t), next_addr := c + 3, pools := d\<rparr>)"

lemma create_session_attach:
  assumes att: "first_attach env req i b s" and free: "insert 0 (s5s8cplteid s) \<noteq> UNIV"
    and pco: "process_pco_request (cfg_app (e_cfg env)) (cs_pco (gtp_ies req)) protocol_configuration_options_default
        protocol_configuration_options_ids_default = Inr (pco, ids)"
    and paa: "get_free_paa (cs_apn (gtp_ies req)) paa_default (pools s) = Inr (ok, a4, d)"
  obtains t g where "t \<notin> s5s8cplteid s" "t \<noteq> 0"
    "app_create_session env req s =
      answer_session env req (next_addr s) (next_addr s + 1) (next_addr s + 2) pco ok a4
        (if ok then cause_of REQUEST_ACCEPTED else (cause_of ALL_DYNAMIC_ADDRESSES_ARE_OCCUPIED)\<lparr>pce := True\<rparr>)
        (attach_state env (gtp_ies req) i b t g d s)"
proof -
  have ff: "interface_type (cs_sender_fteid_for_cp (gtp_ies req)) = S5_S8_SGW_GTP_C"
    "teid_gre_key (cs_sender_fteid_for_cp (gtp_ies req)) \<noteq> 0" "s_teid req = 0"
    "IsDottedApnHandled (cfg_up (e_cfg env)) (cs_apn (gtp_ies req)) (cs_pdn_type_value (gtp_ies req))"
    "cs_imsi (gtp_ies req) = Some i" "cs_indication_uimsi (gtp_ies req) \<noteq> Some True"
    "imsi2pgw_context s (to_imsi64 i) = None" "cs_pdn_type_value (gtp_ies req) = PDN_TYPE_E_IPV4"
    "cs_paa (gtp_ies req) = None" "bearer_contexts_to_be_created (gtp_ies req) = [b]"
    using att by (auto simp: first_attach_def)
  let ?c = "next_addr s" and ?ies = "gtp_ies req"
  let ?s1 = "set_imsi64_2_pgw_context (to_imsi64 i) ?c (snd (new_ctx pgw_context_new s))"
  have app: "app_create_session env req s = ctx_create_session env req ?c ?s1"
    using ff(1-7) by (simp add: app_create_session_def Let_def is_imsi64_2_pgw_context_def new_ctx_def)
  have none: "find_pdn_connection_apn (cs_apn ?ies) (s_teid req) True ?c ?s1 = None"
    by (simp add: find_pdn_connection_apn_def find_apn_context_def set_imsi64_2_pgw_context_def store_defs pgw_context_new_def)
  define s2 where "s2 = snd (ensure_apn ?ies ?c None (upd_ctx ?c (ctx_set_imsi ?ies) ?s1))"
  have apn: "ensure_apn ?ies ?c None (upd_ctx ?c (ctx_set_imsi ?ies) ?s1) = (?c + 1, s2)"
    by (simp add: s2_def ensure_apn_def new_apn_def set_imsi64_2_pgw_context_def new_ctx_def upd_ctx_def)
  have same: "s5s8cplteid s2 = s5s8cplteid s" "pools s2 = pools s"
    by (simp_all add: s2_def ensure_apn_def insert_apn_def set_imsi64_2_pgw_context_def store_defs)
  obtain t s3 where gen: "generate_s5s8_cp_teid s2 = Some (t, s3)"
    using generate_s5s8_cp_teid_total [of s2] free by (auto simp: same)
  from generate_s5s8_cp_teid_Some [OF this] obtain g where t: "t \<notin> s5s8cplteid s" "t \<noteq> 0"
    and s3: "s3 = s2\<lparr>teid_s5s8_cp_generator := g, s5s8cplteid := insert t (s5s8cplteid s)\<rparr>"
    by (auto simp: same)
  let ?st = "(attach_state env ?ies i b t g d s)\<lparr>pools := pools s\<rparr>"
  have pdn: "ensure_pdn (s5s8_addr4 (e_cfg env)) ?ies ?c (?c + 1) None s2 = Inr (?c + 2, ?st)"
    unfolding ensure_pdn_def generate_s5s8_cp_fteid_def gen s3
    using ff(5,6,8-10)
    by (simp add: attach_state_def Let_def s2_def ensure_apn_def insert_apn_def obind_simps
        set_imsi64_2_pgw_context_def store_defs set_s5s8cpgw_fteid_2_pgw_context_def build_s5s8_cp_fteid_def
        insert_pdn_connection_def attach_pdn_def ctx_set_imsi_def pgw_context_new_def apn_context_new_def eval_nat_numeral)
  have at: "apn_in_use (apn_ctxs ?st (?c + 1)) = cs_apn ?ies" "p_pdn_type (pdn_ctxs ?st (?c + 2)) = PDN_TYPE_E_IPV4"
    "pools ?st = pools s"
    using ff(8) by (simp_all add: attach_state_def Let_def attach_pdn_def)
  have dhcp: "\<not> ci_ipv4_address_allocation_via_dhcpv4 ids"
    by (rule process_pco_no_dhcp [OF pco]) (simp add: protocol_configuration_options_ids_default_def)
  have alloc: "allocate_paa (cs_apn ?ies) ?ies ids PDN_TYPE_E_IPV4 (pools s) =
      Inr (ok, a4, if ok then cause_of REQUEST_ACCEPTED else (cause_of ALL_DYNAMIC_ADDRESSES_ARE_OCCUPIED)\<lparr>pce := True\<rparr>, d)"
    using dhcp ff(9) paa by (simp add: allocate_paa_def request_paa_def cs_paa_value_def)
  have fin: "?st\<lparr>pools := d\<rparr> = attach_state env ?ies i b t g d s" by (simp add: attach_state_def Let_def)
  have "app_create_session env req s =
      answer_session env req ?c (?c + 1) (?c + 2) pco ok a4
        (if ok then cause_of REQUEST_ACCEPTED else (cause_of ALL_DYNAMIC_ADDRESSES_ARE_OCCUPIED)\<lparr>pce := True\<rparr>)
        (attach_state env ?ies i b t g d s)"
    unfolding app ctx_create_session_def Let_def none option.map apn prod.case pdn obind_simps pco at alloc fin ..
  then show ?thesis by (rule that [OF t])
qed

text \<open>The state of a connection that waits for the answer of the user plane.\<close>

definition awaiting ::
  "pgw_env \<Rightarrow> create_session_request s5s8_msg \<Rightarrow> bearer_context_to_be_created \<Rightarrow> teid \<Rightarrow> paa \<Rightarrow> protocol_configuration_options \<Rightarrow>
     u64 \<Rightarrow> nat \<Rightarrow> pgw_app \<Rightarrow> bool" where
  "awaiting env req b t a4 pco trxn c s \<longleftrightarrow>
     s5s8lteid2pgw_context s t = Some c \<and> seid2pgw_context s (attach_seid env t) = Some c
     \<and> c_apns (ctxs s c) = [c + 1] \<and> apn_in_use (apn_ctxs s (c + 1)) = cs_apn (gtp_ies req)
     \<and> pdn_connections (apn_ctxs s (c + 1)) = [c + 2]
     \<and> pdn_ctxs s (c + 2) = attached_pdn env b (pdn_set a4 (attach_pdn env (gtp_ies req) b t))
     \<and> pending_procedures (ctxs s c) = [(c + 3, \<lparr>proc_trxn_id = trxn, ppc = c + 2,
          proc_class = Session_establishment_procedure req (attach_answer env req (attach_ies env (gtp_ies req) t a4 pco))\<rparr>)]
     \<and> listening s"

lemma answer_session_accept:
  assumes att: "first_attach env req i b s" and lst: "listening s"
    and trxn: "uint_uid_get_uid (trxn_ids (up s)) = Some (trxn, g')"
    and sel: "select_up_node (e_lowest env) (cfg_up (e_cfg env)) (cs_apn (gtp_ies req)) (cs_uli (gtp_ies req))
      (cs_paa_value (gtp_ies req)) (up s) = Inr (True, n)"
    and sa: "get_association (e_hash env) n (up s) = Some sa"
  obtains s1 where
    "answer_session env req (next_addr s) (next_addr s + 1) (next_addr s + 2) pco True a4 (cause_of REQUEST_ACCEPTED)
       (attach_state env (gtp_ies req) i b t g d s) = Inr s1"
    "awaiting env req b t a4 pco trxn (next_addr s) s1" "pools s1 = d"
    "\<And>x. outbox x s1 = outbox x s @
       (if x = TASK_PGWC_SX then [App_body (attach_request env sa trxn t a4 b)] else [])"
proof -
  let ?c = "next_addr s" and ?ies = "gtp_ies req" and ?S = "attach_state env (gtp_ies req) i b t g d s"
  let ?resp = "attach_answer env req (attach_ies env ?ies t a4 pco)"
  let ?S2 = "(upd_pdn (?c + 2) (pdn_set a4) ?S)\<lparr>up := (up s)\<lparr>trxn_ids := g'\<rparr>\<rparr>"
  have pdn: "pdn_ctxs ?S2 (?c + 2) = pdn_set a4 (attach_pdn env ?ies b t)"
    by (simp add: attach_state_def upd_pdn_def Let_def)
  have pgw: "pgw_fteid_s5_s8_cp (pdn_set a4 p) = pgw_fteid_s5_s8_cp p" "far_id_generator (pdn_set a4 p) = far_id_generator p"
    "pdr_id_generator (pdn_set a4 p) = pdr_id_generator p" "eps_bearers (pdn_set a4 p) = eps_bearers p" for p
    by (simp_all add: pdn_set_def)
  have run: "select_up_node (e_lowest env) (cfg_up (e_cfg env)) (cs_apn ?ies) (cs_uli ?ies) (cs_paa_value ?ies) (up ?S2) = Inr (True, n)"
    "get_association (e_hash env) n (up ?S2) = Some sa"
    using sel sa select_up_node_views [of "(up s)\<lparr>trxn_ids := g'\<rparr>" "up s"] by (simp_all add: views_def get_association_def)
  have fresh: "far_id_generator (pdn_ctxs ?S2 (?c + 2)) = uint_generator_init"
    "pdr_id_generator (pdn_ctxs ?S2 (?c + 2)) = uint_generator_init" "eps_bearers (pdn_ctxs ?S2 (?c + 2)) = []"
    unfolding pdn pgw by (simp_all add: attach_pdn_def pgw_pdn_connection_new_def)
  have b: "bearer_contexts_to_be_created ?ies = [b]" "EPS_BEARER_IDENTITY_FIRST \<le> tbc_eps_bearer_id b"
    "tbc_eps_bearer_id b \<le> EPS_BEARER_IDENTITY_LAST" using att by (auto simp: first_attach_def)
  have lst2: "listening ?S2" and out: "outbox x ?S2 = outbox x s" for x
    using lst by (simp_all add: listening_def outbox_def)
  have t: "t = pdn_local_teid ?S2 (?c + 2)" unfolding pdn pgw
    by (simp add: attach_pdn_def build_s5s8_cp_fteid_def)
  obtain q where q: "session_establishment_run env req ?resp ?c trxn (?c + 2) ?S2 = Inr (RETURNok, ?resp,
      ?S2\<lparr>pdn_ctxs := (pdn_ctxs ?S2)(?c + 2 := attached_pdn env b (pdn_ctxs ?S2 (?c + 2))),
        seid2pgw_context := (seid2pgw_context ?S2)(attach_seid env t \<mapsto> ?c), up := (up ?S2)\<lparr>up_mw := q\<rparr>\<rparr>)"
    "listening (?S2\<lparr>up := (up ?S2)\<lparr>up_mw := q\<rparr>\<rparr>)"
    "\<And>x. map body (queue_of q x) = outbox x ?S2 @ (if x = TASK_PGWC_SX
       then [App_body (attach_request env sa trxn t (csr_paa_value (gtp_ies ?resp)) b)] else [])"
    by (rule session_establishment_run_first [where resp = ?resp and c = ?c and trxn = trxn, OF run fresh b lst2 t]) (rule that, assumption, assumption, blast)
  let ?s3 = "?S2\<lparr>pdn_ctxs := (pdn_ctxs ?S2)(?c + 2 := attached_pdn env b (pdn_ctxs ?S2 (?c + 2))),
        seid2pgw_context := (seid2pgw_context ?S2)(attach_seid env t \<mapsto> ?c), up := (up ?S2)\<lparr>up_mw := q\<rparr>\<rparr>"
  let ?s1 = "keep_procedure ?c RETURNok
     \<lparr>proc_trxn_id = trxn, ppc = ?c + 2, proc_class = Session_establishment_procedure req ?resp\<rparr> ?s3"
  have at: "apn_ambr (apn_ctxs (upd_pdn (?c + 2) (pdn_set a4) ?S) (?c + 1)) = (case cs_ambr ?ies of Some v \<Rightarrow> v | None \<Rightarrow> (0, 0))"
    "pgw_fteid_s5_s8_cp (pdn_ctxs (upd_pdn (?c + 2) (pdn_set a4) ?S) (?c + 2)) = build_s5s8_cp_fteid (s5s8_addr4 (e_cfg env)) t"
    "sgw_fteid_s5_s8_cp (pdn_ctxs ?S (?c + 2)) = cs_sender_fteid_for_cp ?ies"
    by (simp_all add: attach_state_def upd_pdn_def Let_def pgw attach_pdn_def)
  have gen: "generate_trxn_id (upd_pdn (?c + 2) (pdn_set a4) ?S) = Inr (trxn, ?S2)"
    using trxn by (simp add: generate_trxn_id_def upd_pdn_def attach_state_def Let_def)
  have resp: "\<lparr>s_teid = teid_gre_key (cs_sender_fteid_for_cp ?ies), gtpc_tx_id = gtpc_tx_id req,
      s_r_endpoint = s_r_endpoint req,
      gtp_ies = create_session_response_new\<lparr>csr_cause := Some (cause_of REQUEST_ACCEPTED)\<rparr>\<rparr>\<lparr>gtp_ies :=
        create_session_response_new\<lparr>csr_cause := Some (cause_of REQUEST_ACCEPTED)\<rparr>\<lparr>csr_paa := Some a4, csr_pco := Some pco,
          csr_s5_s8_pgw_fteid := Some (build_s5s8_cp_fteid (s5s8_addr4 (e_cfg env)) t),
          csr_apn_ambr := Some (case cs_ambr ?ies of Some v \<Rightarrow> v | None \<Rightarrow> (0, 0))\<rparr>\<rparr> = ?resp"
    by (simp add: attach_answer_def attach_ies_def create_session_response_new_def)
  have "answer_session env req ?c (?c + 1) (?c + 2) pco True a4 (cause_of REQUEST_ACCEPTED) ?S = Inr ?s1"
    unfolding answer_session_def Let_def accept_session_def if_True at gen
    using q(1) gen at resp by (simp add: attach_answer_def attach_ies_def cause_of_def)
  moreover have "awaiting env req b t a4 pco trxn ?c ?s1"
    using q(2) by (auto simp: awaiting_def keep_procedure_def insert_procedure_def store_defs attach_state_def Let_def listening_def)
  moreover have "pools ?s1 = d"
    by (simp add: keep_procedure_def insert_procedure_def store_defs attach_state_def Let_def)
  moreover have "outbox x ?s1 = outbox x s @
       (if x = TASK_PGWC_SX then [App_body (attach_request env sa trxn t a4 b)] else [])" for x
    using q(3) [of x] out [of x]
    by (simp add: outbox_def keep_procedure_def insert_procedure_def store_defs attach_answer_def attach_ies_def csr_paa_value_def)
  ultimately show ?thesis by (rule that)
qed

text \<open>The user plane accepts the session and has chosen the F-TEID \<open>f\<close> for the first rule.\<close>

definition accepted_by_up :: "pgw_env \<Rightarrow> teid \<Rightarrow> u64 \<Rightarrow> endpoint \<Rightarrow> fseid \<Rightarrow> pfcp_fteid \<Rightarrow> session_establishment_response sxab_msg" where
  "accepted_by_up env t trxn e fs f =
     \<lparr>x_seid = attach_seid env t, x_trxn_id = trxn, x_r_endpoint = e,
      pfcp_ies = \<lparr>se_cause = Some CAUSE_VALUE_REQUEST_ACCEPTED, se_up_fseid = Some fs,
                  se_created_pdrs = [\<lparr>cd_pdr_id = Some 1, cd_local_fteid = Some f\<rparr>]\<rparr>\<rparr>"

definition up_fteid_of :: "pfcp_fteid \<Rightarrow> fteid" where
  "up_fteid_of f = (pfcp_to_core_fteid f fteid_default)\<lparr>interface_type := S5_S8_PGW_GTP_U\<rparr>"

definition attach_reply ::
  "pgw_env \<Rightarrow> create_session_request s5s8_msg \<Rightarrow> bearer_context_to_be_created \<Rightarrow> teid \<Rightarrow> paa \<Rightarrow> protocol_configuration_options \<Rightarrow>
     pfcp_fteid \<Rightarrow> pgw_msg" where
  "attach_reply env req b t a4 pco f =
     S5S8_CREATE_SESSION_RESPONSE (attach_answer env req ((attach_ies env (gtp_ies req) t a4 pco)\<lparr>bearer_contexts_created :=
       [\<lparr>bcc_eps_bearer_id = tbc_eps_bearer_id b, bcc_cause = cause_of REQUEST_ACCEPTED,
         bcc_s5_s8_u_pgw_fteid = Some (up_fteid_of f)\<rparr>]\<rparr>))"

lemma created_pdrs_first:
  assumes "EPS_BEARER_IDENTITY_FIRST \<le> e" "e \<le> EPS_BEARER_IDENTITY_LAST" "eps_bearers p = [(e, first_bearer e)]"
  shows "created_pdrs_loop [\<lparr>cd_pdr_id = Some 1, cd_local_fteid = Some f\<rparr>] p =
    p\<lparr>eps_bearers := [(e, (first_bearer e)\<lparr>pgw_fteid_s5_s8_up := up_fteid_of f\<rparr>)]\<rparr>"
  using assms
  by (simp add: get_eps_bearer_pdr_def first_bearer_def add_eps_bearer_def bearers_insert_def up_fteid_of_def pgw_eps_bearer_new_def)

lemma establishment_answered:
  assumes aw: "awaiting env req b t a4 pco trxn c s" and b: "bearer_contexts_to_be_created (gtp_ies req) = [b]"
      "EPS_BEARER_IDENTITY_FIRST \<le> tbc_eps_bearer_id b" "tbc_eps_bearer_id b \<le> EPS_BEARER_IDENTITY_LAST"
    and f: "pf_v4 f \<or> pf_v6 f"
  obtains s1 where "app_session_establishment_response (accepted_by_up env t trxn e fs f) s = s1"
    "pending_procedures (ctxs s1 c) = []" "c_apns (ctxs s1 c) = c_apns (ctxs s c)" "apn_ctxs s1 = apn_ctxs s"
    "pdn_ctxs s1 (c + 2) = (pdn_ctxs s (c + 2))\<lparr>up_fseid := fs, eps_bearers := [(tbc_eps_bearer_id b,
       (first_bearer (tbc_eps_bearer_id b))\<lparr>pgw_fteid_s5_s8_up := up_fteid_of f\<rparr>)]\<rparr>"
    "s5s8lteid2pgw_context s1 = s5s8lteid2pgw_context s" "seid2pgw_context s1 = seid2pgw_context s" "pools s1 = pools s"
    "\<And>x. outbox x s1 = outbox x s @ (if x = TASK_PGWC_S5S8 then [App_body (attach_reply env req b t a4 pco f)] else [])"
proof -
  let ?e = "tbc_eps_bearer_id b"
  let ?p = "(pdn_ctxs s (c + 2))\<lparr>up_fseid := fs, eps_bearers := [(?e, (first_bearer ?e)\<lparr>pgw_fteid_s5_s8_up := up_fteid_of f\<rparr>)]\<rparr>"
  let ?s = "upd_pdn (c + 2) (\<lambda>_. ?p) s" and ?m = "attach_reply env req b t a4 pco f"
  have lst: "listening ?s" and out: "outbox x ?s = outbox x s" for x
    using aw by (simp_all add: awaiting_def listening_def outbox_def upd_pdn_def)
  obtain q where q: "app_send TASK_PGWC_S5S8 ?m ?s = (RETURNok, ?s\<lparr>up := (up ?s)\<lparr>up_mw := q\<rparr>\<rparr>)"
    "\<And>x. map body (queue_of q x) = outbox x ?s @ (if x = TASK_PGWC_S5S8 then [App_body ?m] else [])"
    by (rule app_send_listening [OF lst, of TASK_PGWC_S5S8 ?m]) auto
  have bs: "eps_bearers ((pdn_ctxs s (c + 2))\<lparr>up_fseid := fs\<rparr>) = [(?e, first_bearer ?e)]"
    using aw by (simp add: awaiting_def attached_pdn_def)
  have nz: "\<not> fteid_is_zero (up_fteid_of f)" using f by (simp add: fteid_is_zero_def up_fteid_of_def pfcp_to_core_fteid_def)
  have "bearer_context_created_for ?p b = \<lparr>bcc_eps_bearer_id = ?e, bcc_cause = cause_of REQUEST_ACCEPTED,
         bcc_s5_s8_u_pgw_fteid = Some (up_fteid_of f)\<rparr>"
    using nz by (simp add: bearer_context_created_for_def get_eps_bearer_ebi_def first_bearer_def)
  then have "session_establishment_handle req (attach_answer env req (attach_ies env (gtp_ies req) t a4 pco)) (c + 2)
      (pfcp_ies (accepted_by_up env t trxn e fs f)) s = ?s\<lparr>up := (up ?s)\<lparr>up_mw := q\<rparr>\<rparr>"
    using q(1) created_pdrs_first [OF b(2,3) bs, of f] b(1)
    by (simp add: session_establishment_handle_def accepted_by_up_def Let_def app_send_log_def attach_reply_def
        attach_answer_def attach_ies_def)
  moreover have "app_session_establishment_response (accepted_by_up env t trxn e fs f) s =
    remove_procedure c (c + 3) (session_establishment_handle req
      (attach_answer env req (attach_ies env (gtp_ies req) t a4 pco)) (c + 2) (pfcp_ies (accepted_by_up env t trxn e fs f)) s)"
    using aw by (simp add: awaiting_def app_session_establishment_response_def accepted_by_up_def seid_2_pgw_context_def
        ctx_session_establishment_response_def find_procedure_def proc_session_establishment_response_def)
  ultimately have "app_session_establishment_response (accepted_by_up env t trxn e fs f) s =
    remove_procedure c (c + 3) (?s\<lparr>up := (up ?s)\<lparr>up_mw := q\<rparr>\<rparr>)" by simp
  then show ?thesis
    by (rule that) (use aw q(2) out in \<open>auto simp: awaiting_def remove_procedure_def upd_ctx_def upd_pdn_def outbox_def\<close>)
qed

end
