(* ===== verification/Pgw_Properties.thy ===== *)
theory Pgw_Properties
  imports Pgw_Session
begin

text \<open>
  The properties of the sessions of the PGW over all runs of its task: what holds in every reachable
  state, what an initial attach and the deletion of a session do from the request of the SGW to the
  answer it gets, and what goes wrong when access bearers are released and when a session is refused.
\<close>

section \<open>Runs\<close>

text \<open>
  The application at start-up, with the pools of the configuration and the user plane as it is. A run
  is a sequence of messages to \<^verbatim>\<open>TASK_PGWC_APP\<close>; between them the queues, the associations and the
  transaction identifiers may change in any way, which covers the other tasks.
\<close>

definition pgw_app_new :: "paa_dynamic \<Rightarrow> pgw_msg up_plane \<Rightarrow> pgw_app" where
  "pgw_app_new d u =
     \<lparr>teid_s5s8_cp_generator = 0, s5s8cplteid = {}, imsi2pgw_context = Map.empty,
      s5s8lteid2pgw_context = Map.empty, seid2pgw_context = Map.empty, ctxs = (\<lambda>_. pgw_context_new),
      apn_ctxs = (\<lambda>_. apn_context_new), pdn_ctxs = (\<lambda>_. pgw_pdn_connection_new), next_addr = 0, pools = d, up = u\<rparr>"

inductive pgw_reachable :: "pgw_env \<Rightarrow> pgw_app \<Rightarrow> bool" for env where
  pgw_start: "pgw_reachable env (pgw_app_new d u)"
| pgw_task: "pgw_reachable env s \<Longrightarrow> pgw_app_task env e s = Inr s1 \<Longrightarrow> pgw_reachable env s1"
| pgw_other: "pgw_reachable env s \<Longrightarrow> pgw_reachable env (s\<lparr>up := u\<rparr>)"

lemma pgw_reachable_inv: "pgw_reachable env s \<Longrightarrow> pgw_inv s"
proof (induction rule: pgw_reachable.induct)
  case (pgw_start d u)
  show ?case
    by (auto simp: pgw_inv_def pgw_app_new_def directory_ok_def forest_def members_def pgw_context_new_def
        apn_context_new_def)
next
  case (pgw_task s e s1)
  then show ?case by (auto intro: pgw_app_task_inv)
next
  case (pgw_other s u)
  then show ?case by (simp add: pgw_inv_def)
qed

text \<open>The PDN connections of a context.\<close>

definition connections :: "pgw_app \<Rightarrow> nat \<Rightarrow> nat set" where
  "connections s c = (\<Union>a \<in> set (c_apns (ctxs s c)). set (pdn_connections (apn_ctxs s a)))"

section \<open>An initial attach\<close>

text \<open>
  C1: an initial attach. A request of an SGW for a new IMSI, a configured IPv4 APN and one bearer,
  with an address free in the pools, a TEID left and a user-plane node associated, makes the PGW send
  one session establishment request to that node, with one PDR and one FAR for the uplink of the
  bearer, and nothing to the SGW. When the node accepts and returns an F-TEID, the PGW sends exactly
  one answer: the request is accepted, with the address from the pool, a control-plane TEID that no
  other session has, and the bearer with the F-TEID of the node. The TEID then leads to the context
  of the UE and no procedure is pending.
\<close>

theorem session_setup:
  assumes att: "first_attach env req i b s" and lst: "listening s" and free: "insert 0 (s5s8cplteid s) \<noteq> UNIV"
    and pco: "process_pco_request (cfg_app (e_cfg env)) (cs_pco (gtp_ies req)) protocol_configuration_options_default
        protocol_configuration_options_ids_default = Inr (pco, ids)"
    and paa: "get_free_paa (cs_apn (gtp_ies req)) paa_default (pools s) = Inr (True, a4, d)"
    and trxn: "uint_uid_get_uid (trxn_ids (up s)) = Some (trxn, g)"
    and sel: "select_up_node (e_lowest env) (cfg_up (e_cfg env)) (cs_apn (gtp_ies req)) (cs_uli (gtp_ies req))
      (cs_paa_value (gtp_ies req)) (up s) = Inr (True, n)"
    and sa: "get_association (e_hash env) n (up s) = Some sa"
    and f: "pf_v4 f \<or> pf_v6 f"
  shows "\<exists>t s1 s2. t \<notin> s5s8cplteid s \<and> t \<noteq> 0
    \<and> pgw_app_task env (Create_session req) s = Inr s1 \<and> s5s8lteid2pgw_context s1 t = Some (next_addr s)
    \<and> outbox TASK_PGWC_SX s1 = outbox TASK_PGWC_SX s @ [App_body (attach_request env sa trxn t a4 b)]
    \<and> outbox TASK_PGWC_S5S8 s1 = outbox TASK_PGWC_S5S8 s
    \<and> pgw_app_task env (Session_establishment_response (accepted_by_up env t trxn e fs f)) s1 = Inr s2
    \<and> outbox TASK_PGWC_SX s2 = outbox TASK_PGWC_SX s1
    \<and> outbox TASK_PGWC_S5S8 s2 = outbox TASK_PGWC_S5S8 s @ [App_body (attach_reply env req b t a4 pco f)]
    \<and> pending_procedures (ctxs s2 (next_addr s)) = []"
proof -
  have b: "bearer_contexts_to_be_created (gtp_ies req) = [b]" "EPS_BEARER_IDENTITY_FIRST \<le> tbc_eps_bearer_id b"
    "tbc_eps_bearer_id b \<le> EPS_BEARER_IDENTITY_LAST" using att by (auto simp: first_attach_def)
  obtain t g1 where t: "t \<notin> s5s8cplteid s" "t \<noteq> 0" and cr: "app_create_session env req s =
      answer_session env req (next_addr s) (next_addr s + 1) (next_addr s + 2) pco True a4
        (cause_of REQUEST_ACCEPTED) (attach_state env (gtp_ies req) i b t g1 d s)"
    using create_session_attach [OF att free pco paa] by (metis (full_types))
  obtain s1 where s1: "answer_session env req (next_addr s) (next_addr s + 1) (next_addr s + 2) pco True a4
      (cause_of REQUEST_ACCEPTED) (attach_state env (gtp_ies req) i b t g1 d s) = Inr s1"
    and aw: "awaiting env req b t a4 pco trxn (next_addr s) s1"
    and o1: "\<And>x. outbox x s1 = outbox x s @
       (if x = TASK_PGWC_SX then [App_body (attach_request env sa trxn t a4 b)] else [])"
    by (rule answer_session_accept [OF att lst trxn sel sa]) blast
  obtain s2 where s2: "app_session_establishment_response (accepted_by_up env t trxn e fs f) s1 = s2"
    "pending_procedures (ctxs s2 (next_addr s)) = []"
    and o2: "\<And>x. outbox x s2 = outbox x s1 @ (if x = TASK_PGWC_S5S8 then [App_body (attach_reply env req b t a4 pco f)] else [])"
    by (rule establishment_answered [OF aw b f]) blast
  have ne: "TASK_PGWC_SX \<noteq> TASK_PGWC_S5S8" by (simp add: task_defs)
  show ?thesis
    by (rule exI [of _ t], rule exI [of _ s1], rule exI [of _ s2])
      (use t cr s1 s2 o1 o2 ne ne [symmetric] aw in \<open>simp add: awaiting_def\<close>)
qed

section \<open>An example\<close>

text \<open>One associated node, one APN with three addresses, and an SGW that asks for a session.\<close>

definition demo_mw :: "pgw_msg itti_mw" where
  "demo_mw = (itti_mw_init 0)\<lparr>itti_task_ctxts :=
     [TASK_PGWC_S5S8 \<mapsto> \<lparr>task_state = TASK_STATE_READY, joinable = False, msg_queue = []\<rparr>,
      TASK_PGWC_SX \<mapsto> \<lparr>task_state = TASK_STATE_READY, joinable = False, msg_queue = []\<rparr>]\<rparr>"

definition demo_plane :: "pgw_msg up_plane" where
  "demo_plane = (PfcpUpNodes_new demo_up_cfg demo_mw)\<lparr>associations := [(3, demo_assoc)]\<rparr>"

definition demo_env :: pgw_env where
  "demo_env = \<lparr>e_hash = demo_hash, e_lowest = hd,
     e_cfg = \<lparr>cfg_up = demo_up_cfg,
       cfg_app = \<lparr>default_dnsv4 = 0, default_dns_secv4 = 0, default_ue_mtu_ipv4 = 1358, force_push_pco = False\<rparr>,
       s5s8_addr4 = htobe32 0x7F000001, cfg_instance = 1, pfcp_port = 8805, gtpv2c_port = 2123\<rparr>,
     e_uninit = replicate 8 0\<rparr>"

definition demo_pools :: paa_dynamic where
  "demo_pools = add_pool ''oai'' 0 (htobe32 0x0A000001) 3 paa_dynamic_init"

definition demo_app :: pgw_app where
  "demo_app = pgw_app_new demo_pools demo_plane"

definition demo_bearer :: bearer_context_to_be_created where
  "demo_bearer = \<lparr>tbc_eps_bearer_id = 5, tbc_pl = 8\<rparr>"

definition demo_imsi :: imsi where
  "demo_imsi = \<lparr>imsi_b = [0x02, 0x98, 0x10, 0x32, 0x54, 0x76, 0x98, 0xF0], num_digits = 15\<rparr>"

definition demo_request :: "create_session_request s5s8_msg" where
  "demo_request =
     \<lparr>s_teid = 0, gtpc_tx_id = 1, s_r_endpoint = endpoint_default,
      gtp_ies = \<lparr>cs_imsi = Some demo_imsi, cs_indication_uimsi = None,
        cs_sender_fteid_for_cp = fteid_default\<lparr>f_v4 := True, interface_type := S5_S8_SGW_GTP_C, teid_gre_key := 7\<rparr>,
        cs_apn = ''oai'', cs_pdn_type = Some PDN_TYPE_E_IPV4, cs_paa = None, cs_ambr = None,
        cs_pco = protocol_configuration_options_default, cs_uli = demo_uli, bearer_contexts_to_be_created = [demo_bearer]\<rparr>\<rparr>"

definition demo_fteid :: pfcp_fteid where
  "demo_fteid = pfcp_fteid_default\<lparr>pf_v4 := True, pf_teid := 9, pf_ipv4_address := htobe32 0x7F000002\<rparr>"

lemma demo_first_attach: "first_attach demo_env demo_request demo_imsi demo_bearer demo_app"
  by (simp add: first_attach_def demo_request_def demo_env_def demo_up_cfg_def demo_app_def demo_bearer_def
      pgw_app_new_def IsDottedApnHandled_def cs_pdn_type_value_def ebi_defs)

lemma demo_listening: "listening demo_app"
  by (simp add: listening_def demo_app_def pgw_app_new_def demo_plane_def PfcpUpNodes_new_def demo_mw_def task_ready_def task_defs)

lemma demo_free: "insert 0 (s5s8cplteid demo_app) \<noteq> UNIV"
proof -
  have "(1 :: teid) \<notin> insert 0 (s5s8cplteid demo_app)" by (simp add: demo_app_def pgw_app_new_def)
  then show ?thesis by blast
qed

lemma demo_pco: "\<exists>pco ids. process_pco_request (cfg_app (e_cfg demo_env)) (cs_pco (gtp_ies demo_request))
    protocol_configuration_options_default protocol_configuration_options_ids_default = Inr (pco, ids)"
  by (simp add: process_pco_request_def demo_env_def demo_request_def protocol_configuration_options_default_def Let_def)

lemma demo_paa:
  "\<exists>a4 d d'. get_free_paa (cs_apn (gtp_ies demo_request)) paa_default (pools demo_app) = Inr (True, a4, d)
     \<and> release_paa_ipv4 ''oai'' (ipv4_address a4) d = Inr (True, d') \<and> pdn_type a4 = PDN_TYPE_E_IPV4"
proof -
  have ap: "apns demo_pools ''oai'' = Some \<lparr>ipv4_pool_ids = [0], ipv6_pool_ids = []\<rparr>" and p: "pool4 demo_pools 0 = pool_10"
    by (simp_all add: demo_pools_def add_pool_def paa_dynamic_init_def Let_def pool_10_def pool4_def)
  obtain ok a q where al: "alloc_address pool_10 = (ok, a, q)" by (metis prod_cases3)
  have ok using alloc_address_free [OF pool_10_inv(1)] al by (auto simp: pool_10_inv)
  with alloc_free_ok [OF pool_10_inv(1,4)] al obtain q' where "free_address a q = Inr (True, q')" by metis
  with al \<open>ok\<close> ap p show ?thesis
    by (simp add: get_free_paa_def demo_request_def demo_app_def pgw_app_new_def paa_default_def Let_def
        release_paa_ipv4_def pool4_upd)
qed

lemma demo_trxn: "\<exists>trxn g. uint_uid_get_uid (trxn_ids (up demo_app)) = Some (trxn, g)"
  by (simp add: demo_app_def pgw_app_new_def demo_plane_def PfcpUpNodes_new_def first_uid uint_uid_eq)

lemma demo_node_selected:
  "select_up_node (e_lowest demo_env) (cfg_up (e_cfg demo_env)) (cs_apn (gtp_ies demo_request)) (cs_uli (gtp_ies demo_request))
     (cs_paa_value (gtp_ies demo_request)) (up demo_app) = Inr (True, demo_node)"
  by (simp add: select_up_node_def demo_app_def pgw_app_new_def demo_plane_def GetUpNodes_def demo_up_cfg_def is_ip_assigned_def
      demo_request_def demo_env_def cs_paa_value_def paa_default_def is_tai_def demo_uli_def candidates_def demo_assoc_def
      pfcp_association_new_request_def pfcp_association_new_def)

lemma demo_association: "get_association (e_hash demo_env) demo_node (up demo_app) = Some demo_assoc"
  by (simp add: get_association_def demo_env_def demo_app_def pgw_app_new_def demo_plane_def demo_node_def demo_hash_def
      hash_node_id_def NODE_ID_TYPE_FQDN_def NODE_ID_TYPE_IPV4_ADDRESS_def NODE_ID_TYPE_IPV6_ADDRESS_def)

theorem session_setup_witness:
  "\<exists>pco a4 trxn t s1 s2.
     pgw_app_task demo_env (Create_session demo_request) demo_app = Inr s1
     \<and> outbox TASK_PGWC_SX s1 = outbox TASK_PGWC_SX demo_app @ [App_body (attach_request demo_env demo_assoc trxn t a4 demo_bearer)]
     \<and> pgw_app_task demo_env (Session_establishment_response (accepted_by_up demo_env t trxn endpoint_default fseid_default demo_fteid)) s1 = Inr s2
     \<and> outbox TASK_PGWC_S5S8 s2 = outbox TASK_PGWC_S5S8 demo_app @
         [App_body (attach_reply demo_env demo_request demo_bearer t a4 pco demo_fteid)]"
proof -
  obtain pco ids where pco: "process_pco_request (cfg_app (e_cfg demo_env)) (cs_pco (gtp_ies demo_request))
      protocol_configuration_options_default protocol_configuration_options_ids_default = Inr (pco, ids)" using demo_pco by blast
  obtain a4 d where paa: "get_free_paa (cs_apn (gtp_ies demo_request)) paa_default (pools demo_app) = Inr (True, a4, d)"
    using demo_paa by metis
  obtain trxn g where trxn: "uint_uid_get_uid (trxn_ids (up demo_app)) = Some (trxn, g)" using demo_trxn by blast
  have f: "pf_v4 demo_fteid \<or> pf_v6 demo_fteid" by (simp add: demo_fteid_def)
  from session_setup [OF demo_first_attach demo_listening demo_free pco paa trxn demo_node_selected demo_association f,
      of endpoint_default fseid_default]
  show ?thesis by blast
qed

text \<open>The state of the example when the session is established, with the queues empty again.\<close>

definition demo_session :: "pgw_app \<Rightarrow> teid \<Rightarrow> bool" where
  "demo_session s t \<longleftrightarrow>
     pgw_reachable demo_env s \<and> up s = demo_plane \<and> s5s8lteid2pgw_context s t = Some 0
     \<and> seid2pgw_context s (attach_seid demo_env t) = Some 0 \<and> pending_procedures (ctxs s 0) = []
     \<and> find_pdn_connection t True 0 s = Some (1, 2) \<and> (\<exists>d. release_ipv4 (apn_in_use (apn_ctxs s 1)) 2 s = Inr (True, d))
     \<and> \<not> p_released (pdn_ctxs s 2) \<and> (\<exists>b. map_of (eps_bearers (pdn_ctxs s 2)) 5 = Some b \<and> ebi b = 5)"

lemma demo_established: "\<exists>s t. demo_session s t"
proof -
  let ?e = demo_env and ?r = demo_request
  obtain pco ids where pco: "process_pco_request (cfg_app (e_cfg ?e)) (cs_pco (gtp_ies ?r))
      protocol_configuration_options_default protocol_configuration_options_ids_default = Inr (pco, ids)" using demo_pco by blast
  obtain a4 d d' where paa: "get_free_paa (cs_apn (gtp_ies ?r)) paa_default (pools demo_app) = Inr (True, a4, d)"
    and rel: "release_paa_ipv4 ''oai'' (ipv4_address a4) d = Inr (True, d')" and v4: "pdn_type a4 = PDN_TYPE_E_IPV4"
    using demo_paa by metis
  obtain trxn g' where trxn: "uint_uid_get_uid (trxn_ids (up demo_app)) = Some (trxn, g')" using demo_trxn by blast
  have n0: "next_addr demo_app = 0" by (simp add: demo_app_def pgw_app_new_def)
  obtain t g where cr: "app_create_session ?e ?r demo_app =
      answer_session ?e ?r (next_addr demo_app) (next_addr demo_app + 1) (next_addr demo_app + 2) pco True a4
        (cause_of REQUEST_ACCEPTED) (attach_state ?e (gtp_ies ?r) demo_imsi demo_bearer t g d demo_app)"
    using create_session_attach [OF demo_first_attach demo_free pco paa] by (metis (full_types))
  obtain s1 where s1: "answer_session ?e ?r (next_addr demo_app) (next_addr demo_app + 1)
        (next_addr demo_app + 2) pco True a4 (cause_of REQUEST_ACCEPTED)
        (attach_state ?e (gtp_ies ?r) demo_imsi demo_bearer t g d demo_app) = Inr s1"
      and aw: "awaiting ?e ?r demo_bearer t a4 pco trxn (next_addr demo_app) s1" and d: "pools s1 = d"
    by (rule answer_session_accept [OF demo_first_attach demo_listening trxn demo_node_selected demo_association]) blast
  have b: "bearer_contexts_to_be_created (gtp_ies ?r) = [demo_bearer]" "EPS_BEARER_IDENTITY_FIRST \<le> tbc_eps_bearer_id demo_bearer"
    "tbc_eps_bearer_id demo_bearer \<le> EPS_BEARER_IDENTITY_LAST" "pf_v4 demo_fteid \<or> pf_v6 demo_fteid"
    by (simp_all add: demo_request_def demo_bearer_def ebi_defs demo_fteid_def)
  obtain s2 where s2: "app_session_establishment_response (accepted_by_up ?e t trxn endpoint_default fseid_default demo_fteid) s1 = s2"
    "pending_procedures (ctxs s2 0) = []" "c_apns (ctxs s2 0) = c_apns (ctxs s1 0)" "apn_ctxs s2 = apn_ctxs s1"
    "pdn_ctxs s2 2 = (pdn_ctxs s1 2)\<lparr>up_fseid := fseid_default, eps_bearers := [(tbc_eps_bearer_id demo_bearer,
       (first_bearer (tbc_eps_bearer_id demo_bearer))\<lparr>pgw_fteid_s5_s8_up := up_fteid_of demo_fteid\<rparr>)]\<rparr>"
    "s5s8lteid2pgw_context s2 = s5s8lteid2pgw_context s1" "seid2pgw_context s2 = seid2pgw_context s1" "pools s2 = pools s1"
    by (rule establishment_answered [OF aw [unfolded n0] b, of endpoint_default fseid_default, unfolded add_0]) blast
  have "pgw_reachable ?e demo_app" unfolding demo_app_def by (rule pgw_start)
  moreover have "pgw_app_task ?e (Create_session ?r) demo_app = Inr s1" using cr s1 by simp
  moreover have "pgw_app_task ?e (Session_establishment_response
      (accepted_by_up ?e t trxn endpoint_default fseid_default demo_fteid)) s1 = Inr s2" using s2(1) by simp
  ultimately have r: "pgw_reachable ?e (s2\<lparr>up := demo_plane\<rparr>)" by (metis pgw_task pgw_other)
  have "demo_session (s2\<lparr>up := demo_plane\<rparr>) t"
    using r s2(2-8) aw rel d v4 unfolding demo_session_def awaiting_def n0 add_0
    by (auto simp: find_pdn_connection_def apn_find_pdn_def pdn_teid_def attached_pdn_def attach_pdn_def pdn_set_def
        build_s5s8_cp_fteid_def release_ipv4_def demo_request_def demo_bearer_def first_bearer_def pgw_pdn_connection_new_def)
  then show ?thesis by blast
qed

section \<open>Every reachable state\<close>

text \<open>
  C3: in every state the task can reach, the TEIDs marked used are those of the table and 0 is not
  among them; a TEID leads to a context exactly when this context has a PDN connection with this
  TEID, and no two PDN connections of the application have the same TEID.
\<close>

theorem pgw_sessions_consistent:
  assumes "pgw_reachable env s"
  shows "s5s8cplteid s = dom (s5s8lteid2pgw_context s) \<and> 0 \<notin> s5s8cplteid s
    \<and> (\<forall>t c. s5s8lteid2pgw_context s t = Some c \<longleftrightarrow> (\<exists>p \<in> connections s c. pdn_local_teid s p = t))
    \<and> inj_on (pdn_local_teid s) (\<Union>c. connections s c)"
  using pgw_invD(1) [OF pgw_reachable_inv [OF assms]]
  unfolding directory_ok_def members_def connections_def image_def by auto

theorem pgw_sessions_consistent_witness:
  "\<exists>s t p. pgw_reachable demo_env s \<and> t \<in> s5s8cplteid s \<and> p \<in> connections s 0 \<and> pdn_local_teid s p = t"
proof -
  obtain s t where s: "pgw_reachable demo_env s" and t: "s5s8lteid2pgw_context s t = Some 0"
    using demo_established by (auto simp: demo_session_def)
  from pgw_sessions_consistent [OF s] t
  have "t \<in> s5s8cplteid s" "\<exists>p \<in> connections s 0. pdn_local_teid s p = t" by blast+
  with s show ?thesis by blast
qed

text \<open>
  C4: no handler of the task follows a null pointer, in any state the task can reach and for any
  message. The handler of a release access bearers request has a branch that would: it reads the peer
  of a connection it has not found.
\<close>

theorem pgw_no_null_dereference:
  assumes "pgw_reachable env s"
  shows "pgw_app_task env e s \<noteq> Inl Deref_null"
  using no_null_pgw_app_task [OF pgw_reachable_inv [OF assms], of env e] by (simp add: no_null_def)

theorem pgw_no_null_dereference_witness:
  "pgw_app_task demo_env (Release_access_bearers \<lparr>s_teid = 1, gtpc_tx_id = 1, s_r_endpoint = endpoint_default, gtp_ies = ()\<rparr>)
     demo_app \<noteq> Inl Deref_null"
  unfolding demo_app_def by (rule pgw_no_null_dereference [OF pgw_start])

section \<open>The end of a session\<close>

lemma app_send_log_listening:
  assumes "listening s" and "dest = TASK_PGWC_S5S8 \<or> dest = TASK_PGWC_SX"
  obtains q where "app_send_log dest m s = s\<lparr>up := (up s)\<lparr>up_mw := q\<rparr>\<rparr>"
    "\<And>t. map body (queue_of q t) = outbox t s @ (if t = dest then [App_body m] else [])"
  by (rule app_send_listening [OF assms, of m]) (auto simp: app_send_log_def intro: that)

text \<open>What the task sends to the user plane and to the SGW.\<close>

definition deletion_request :: "pgw_env \<Rightarrow> u64 \<Rightarrow> pgw_pdn_connection \<Rightarrow> pgw_msg" where
  "deletion_request env trxn p = SXAB_SESSION_DELETION_REQUEST
     \<lparr>x_seid = fs_seid (up_fseid p), x_trxn_id = trxn, x_r_endpoint = up_endpoint env p, pfcp_ies = ()\<rparr>"

definition deletion_reply :: "delete_session_request s5s8_msg \<Rightarrow> pgw_pdn_connection \<Rightarrow> u8 option \<Rightarrow> pgw_msg" where
  "deletion_reply req p v = S5S8_DELETE_SESSION_RESPONSE
     \<lparr>s_teid = teid_gre_key (sgw_fteid_s5_s8_cp p), gtpc_tx_id = gtpc_tx_id req, s_r_endpoint = s_r_endpoint req,
      gtp_ies = Some (cause_of (if v = None \<or> v = Some CAUSE_VALUE_REQUEST_ACCEPTED then REQUEST_ACCEPTED else CONTEXT_NOT_FOUND))\<rparr>"

definition deletion_procedure :: "delete_session_request s5s8_msg \<Rightarrow> u64 \<Rightarrow> nat \<Rightarrow> nat \<Rightarrow> pgw_app \<Rightarrow> pgw_procedure" where
  "deletion_procedure req trxn c p s = \<lparr>proc_trxn_id = trxn, ppc = p,
     proc_class = Delete_session_procedure (s5_answer req p None s) c\<rparr>"

lemma delete_session_requested:
  assumes t: "s5s8lteid2pgw_context s (s_teid req) = Some c" and sender: "ds_sender_fteid_for_cp (gtp_ies req) = None"
    and find: "find_pdn_connection (s_teid req) True c s = Some (a, p)" and lst: "listening s"
    and trxn: "uint_uid_get_uid (trxn_ids (up s)) = Some (trxn, g)"
  obtains q where "app_delete_session env req s = Inr (insert_procedure c (next_addr s, deletion_procedure req trxn c p s)
      (s\<lparr>up := (up s)\<lparr>trxn_ids := g, up_mw := q\<rparr>, next_addr := next_addr s + 1\<rparr>))"
    "listening (s\<lparr>up := (up s)\<lparr>up_mw := q\<rparr>\<rparr>)"
    "\<And>x. map body (queue_of q x) = outbox x s @ (if x = TASK_PGWC_SX then [App_body (deletion_request env trxn (pdn_ctxs s p))] else [])"
proof -
  let ?s = "s\<lparr>up := (up s)\<lparr>trxn_ids := g\<rparr>\<rparr>" and ?m = "deletion_request env trxn (pdn_ctxs s p)"
  have lst': "listening ?s" and out: "outbox x ?s = outbox x s" for x using lst by (simp_all add: listening_def outbox_def)
  obtain q where q: "app_send TASK_PGWC_SX ?m ?s = (RETURNok, ?s\<lparr>up := (up ?s)\<lparr>up_mw := q\<rparr>\<rparr>)"
    "listening (?s\<lparr>up := (up ?s)\<lparr>up_mw := q\<rparr>\<rparr>)"
    "\<And>x. map body (queue_of q x) = outbox x ?s @ (if x = TASK_PGWC_SX then [App_body ?m] else [])"
    by (rule app_send_listening [OF lst', of TASK_PGWC_SX ?m]) auto
  have ne: "c_apns (ctxs s c) \<noteq> []" using find_pdn_connection_Some(1) [OF find] by auto
  have "app_delete_session env req s = Inr (insert_procedure c (next_addr s, deletion_procedure req trxn c p s)
      (s\<lparr>up := (up s)\<lparr>trxn_ids := g, up_mw := q\<rparr>, next_addr := next_addr s + 1\<rparr>))"
    using t sender find trxn ne q(1)
    by (simp add: app_delete_session_def bad_sender_def s5s8cpgw_fteid_2_pgw_context_def is_s5s8cpgw_fteid_2_pgw_context_def
        build_s5s8_cp_fteid_def ctx_delete_session_def ctx_find_def generate_trxn_id_def delete_session_run_def Let_def
        deletion_request_def keep_procedure_def insert_procedure_def upd_ctx_def deletion_procedure_def s5_answer_def)
  then show ?thesis using q(2,3) out that by (auto simp: listening_def)
qed

text \<open>What is left of the connections when one is dropped.\<close>

lemma connections_dropped:
  assumes inv: "pgw_inv s" and a: "a \<in> set (c_apns (ctxs s c))" and p: "p \<in> set (pdn_connections (apn_ctxs s a))"
  shows "connections (drop_pdn a p d s) c = connections s c - {p}"
    "remove1 p (pdn_connections (apn_ctxs s a)) = [] \<Longrightarrow> connections (drop_apn c a (drop_pdn a p d s)) c = connections s c - {p}"
proof -
  have f: "forest (\<lambda>c. c_apns (ctxs s c)) (\<lambda>a. pdn_connections (apn_ctxs s a)) (next_addr s)"
    using pgw_invD(1) [OF inv] by (simp add: directory_ok_def)
  have other: "p \<notin> set (pdn_connections (apn_ctxs s a'))" if "a' \<noteq> a" for a' using forestD(6) [OF f p] that by auto
  have dst: "distinct (pdn_connections (apn_ctxs s a))" "distinct (c_apns (ctxs s c))" using forestD(1,2) [OF f] by auto
  show one: "connections (drop_pdn a p d s) c = connections s c - {p}"
    using a dst other by (auto simp: connections_def drop_pdn_def upd_apn_def split: if_splits)
  show "connections (drop_apn c a (drop_pdn a p d s)) c = connections s c - {p}"
    if "remove1 p (pdn_connections (apn_ctxs s a)) = []"
    unfolding one [symmetric] using that dst
    by (auto simp: connections_def drop_apn_def drop_pdn_def upd_apn_def upd_ctx_def set_remove1_eq split: if_splits)
qed

lemma delete_pdn_connection_effect:
  assumes inv: "pgw_inv s" and find: "find_pdn_connection t True c s = Some (a, p)"
    and rel: "release_ipv4 (apn_in_use (apn_ctxs s a)) p s = Inr (r, d)"
  obtains s1 where "delete_pdn_connection c a p s = Inr s1" "up s1 = up s" "pools s1 = d"
    "s5s8cplteid s1 = s5s8cplteid s - {t}" "s5s8lteid2pgw_context s1 = (s5s8lteid2pgw_context s)(t := None)"
    "connections s1 c = connections s c - {p}" "pending_procedures (ctxs s1 c) = pending_procedures (ctxs s c)"
    "c_imsi (ctxs s1 c) = c_imsi (ctxs s c)"
proof -
  note f = find_pdn_connection_Some [OF find]
  let ?s1 = "if remove1 p (pdn_connections (apn_ctxs s a)) = [] then drop_apn c a (drop_pdn a p d s) else drop_pdn a p d s"
  have del: "delete_pdn_connection c a p s = Inr ?s1"
    by (simp add: delete_pdn_connection_eq [OF inv_zero(1,2) [OF inv] f(1,2)] rel)
  have con: "connections ?s1 c = connections s c - {p}" using connections_dropped [OF inv f(1,2), of d] by simp
  show ?thesis
    by (rule that [OF del _ _ _ _ con]) (use f(3) in \<open>auto simp: drop_apn_def drop_pdn_def upd_apn_def upd_ctx_def pdn_teid_def map_erase_def\<close>)
qed

lemma delete_session_confirmed:
  assumes inv: "pgw_inv s" and lst: "listening s" and seid: "seid2pgw_context s (x_seid resp) = Some c"
    and find: "find_pdn_connection t True c s = Some (a, p)"
    and pr: "find_procedure c (x_trxn_id resp) s = Some (n, deletion_procedure req trxn c p s)"
    and rel: "release_ipv4 (apn_in_use (apn_ctxs s a)) p s = Inr (r, d)"
  obtains s1 where "app_session_deletion_response resp s = Inr s1" "pools s1 = d"
    "\<And>x. outbox x s1 = outbox x s @ (if x = TASK_PGWC_S5S8 then [App_body (deletion_reply req (pdn_ctxs s p) (pfcp_ies resp))] else [])"
    "s5s8cplteid s1 = s5s8cplteid s - {t}" "s5s8lteid2pgw_context s1 = (s5s8lteid2pgw_context s)(t := None)"
    "connections s1 c = connections s c - {p}"
    "pending_procedures (ctxs s1 c) = remove_first (\<lambda>(n', _). n' = n) (pending_procedures (ctxs s c))"
    "c_apns (ctxs s1 c) = [] \<longrightarrow> imsi2pgw_context s1 (to_imsi64 (c_imsi (ctxs s c))) = None"
proof -
  let ?m = "deletion_reply req (pdn_ctxs s p) (pfcp_ies resp)"
  obtain q where q: "app_send_log TASK_PGWC_S5S8 ?m s = s\<lparr>up := (up s)\<lparr>up_mw := q\<rparr>\<rparr>"
    "\<And>x. map body (queue_of q x) = outbox x s @ (if x = TASK_PGWC_S5S8 then [App_body ?m] else [])"
    by (rule app_send_log_listening [OF lst, of TASK_PGWC_S5S8 ?m]) auto
  let ?s = "s\<lparr>up := (up s)\<lparr>up_mw := q\<rparr>\<rparr>"
  have inv': "pgw_inv ?s" using inv by (simp add: pgw_inv_def)
  have find': "find_pdn_connection t True c ?s = Some (a, p)"
    using find by (simp add: find_pdn_connection_def apn_find_pdn_def)
  have rel': "release_ipv4 (apn_in_use (apn_ctxs ?s a)) p ?s = Inr (r, d)" using rel by (simp add: release_ipv4_def split: if_splits)
  obtain s2 where s2: "delete_pdn_connection c a p ?s = Inr s2" "up s2 = up ?s" "pools s2 = d"
    "s5s8cplteid s2 = s5s8cplteid ?s - {t}" "s5s8lteid2pgw_context s2 = (s5s8lteid2pgw_context ?s)(t := None)"
    "connections s2 c = connections ?s c - {p}" "pending_procedures (ctxs s2 c) = pending_procedures (ctxs ?s c)"
    "c_imsi (ctxs s2 c) = c_imsi (ctxs ?s c)"
    by (rule delete_pdn_connection_effect [OF inv' find' rel'])
  have t: "t = pdn_local_teid s p" using find_pdn_connection_Some(3) [OF find] by (simp add: pdn_teid_def)
  have reply: "S5S8_DELETE_SESSION_RESPONSE ((s5_answer req p None s)\<lparr>gtp_ies := Some (cause_of (case pfcp_ies resp of
       None \<Rightarrow> REQUEST_ACCEPTED | Some x \<Rightarrow> if x = CAUSE_VALUE_REQUEST_ACCEPTED then REQUEST_ACCEPTED else CONTEXT_NOT_FOUND))\<rparr>) = ?m"
    by (auto simp: deletion_reply_def s5_answer_def split: option.split)
  have h: "delete_session_handle (s5_answer req p None s) c p (pfcp_ies resp) s = Inr s2"
    unfolding delete_session_handle_def Let_def reply q(1) using find' s2(1) by (simp add: t)
  let ?s3 = "remove_procedure c n s2"
  have res: "app_session_deletion_response resp s = Inr (if c_apns (ctxs ?s3 c) = [] then delete_pgw_context c ?s3 else ?s3)"
    using seid pr h by (simp add: app_session_deletion_response_def seid_2_pgw_context_def ctx_session_deletion_response_def
        proc_session_deletion_response_def deletion_procedure_def)
  have con: "connections (if c_apns (ctxs ?s3 c) = [] then delete_pgw_context c ?s3 else ?s3) c = connections s c - {p}"
  proof -
    have "connections (remove_procedure c n s2) c = connections s2 c" "connections (delete_pgw_context c x) c = connections x c" for x
      by (simp_all add: connections_def remove_procedure_def upd_ctx_def delete_pgw_context_def)
    moreover have "connections ?s c = connections s c" by (simp add: connections_def)
    ultimately show ?thesis using s2(6) by simp
  qed
  show ?thesis
    by (rule that [OF res _ _ _ _ con])
      (use s2(2-5,7,8) q(2) in \<open>auto simp: remove_procedure_def upd_ctx_def delete_pgw_context_def outbox_def map_erase_def\<close>)
qed



section \<open>Releasing access bearers\<close>

text \<open>A bearer kept under its own identity, in the range of identities.\<close>

definition proper_bearer :: "u8 \<Rightarrow> pgw_pdn_connection \<Rightarrow> bool" where
  "proper_bearer k p \<longleftrightarrow> EPS_BEARER_IDENTITY_FIRST \<le> k \<and> k \<le> EPS_BEARER_IDENTITY_LAST
     \<and> (\<exists>b. map_of (eps_bearers p) k = Some b \<and> ebi b = k)"

lemma map_of_insort_key:
  "k \<notin> fst ` set m \<Longrightarrow> map_of (insort_key fst (k, b) m) = (map_of m)(k \<mapsto> b)"
  by (induction m) (auto simp: fun_eq_iff)

lemma map_of_bearers_insert: "map_of (bearers_insert k b m) = (map_of m)(k \<mapsto> b)"
  unfolding bearers_insert_def
  by (subst map_of_insort_key [OF delete_notin_dom]) (simp add: fun_eq_iff delete_conv')

lemma proper_bearer_add: "proper_bearer k p \<Longrightarrow> proper_bearer k (add_eps_bearer b p)"
  by (auto simp: proper_bearer_def add_eps_bearer_def map_of_bearers_insert)

lemma release_loop_dangling:
  "k \<in> set ks \<Longrightarrow> proper_bearer k p \<Longrightarrow> release_loop ks p fars = Inl Dangling_iterator"
proof (induction ks arbitrary: p fars)
  case (Cons x ks)
  show ?case
  proof (cases "map_of (eps_bearers p) x")
    case None
    with Cons.prems have "x \<noteq> k" by (auto simp: proper_bearer_def)
    with None Cons show ?thesis by simp
  next
    case (Some b)
    show ?thesis
    proof (cases "EPS_BEARER_IDENTITY_FIRST \<le> ebi b \<and> ebi b \<le> EPS_BEARER_IDENTITY_LAST \<and> ebi b = x")
      case True
      then show ?thesis by (auto simp: Some Let_def release_access_bearer_def)
    next
      case False
      with Some Cons.prems have "x \<noteq> k" by (auto simp: proper_bearer_def)
      with Cons.prems have "k \<in> set ks" by simp
      from Cons.IH [OF this proper_bearer_add [OF Cons.prems(2), of "release_access_bearer b"]]
      show ?thesis using False by (simp add: Some Let_def release_access_bearer_def)
    qed
  qed
qed simp

lemma all_keys_UNIV: "k \<in> set all_keys"
proof -
  have "k = of_nat (unat k)" "unat k < 256" using unsigned_less [of k] by simp_all
  then show ?thesis unfolding all_keys_def by (metis atLeastLessThan_iff image_eqI le0 list.set_map set_upt)
qed

text \<open>
  C35: a release access bearers request for a connection that has an established bearer is undefined
  behaviour. The loop over the bearers writes each bearer back with \<^verbatim>\<open>add_eps_bearer\<close>, which erases
  the element the loop stands at, and then goes on from it. Every session whose establishment was
  requested has such a bearer.
\<close>

theorem release_access_bearers_dangling:
  assumes "s5s8lteid2pgw_context s (s_teid req) = Some c" and "find_pdn_connection (s_teid req) True c s = Some (a, p)"
    and "\<not> p_released (pdn_ctxs s p)" and "proper_bearer k (pdn_ctxs s p)"
    and "uint_uid_get_uid (trxn_ids (up s)) = Some (trxn, g)"
  shows "pgw_app_task env (Release_access_bearers req) s = Inl Dangling_iterator"
  using assms release_loop_dangling [OF all_keys_UNIV assms(4)]
  by (simp add: app_release_access_bearers_def s5s8cpgw_fteid_2_pgw_context_def is_s5s8cpgw_fteid_2_pgw_context_def
      build_s5s8_cp_fteid_def ctx_release_access_bearers_def generate_trxn_id_def release_access_bearers_run_def Let_def)

theorem release_access_bearers_dangling_witness:
  "\<exists>s t. demo_session s t \<and> pgw_app_task demo_env (Release_access_bearers
     \<lparr>s_teid = t, gtpc_tx_id = 2, s_r_endpoint = endpoint_default, gtp_ies = ()\<rparr>) s = Inl Dangling_iterator"
proof -
  obtain s t where st: "demo_session s t" using demo_established by blast
  have trxn: "uint_uid_get_uid (trxn_ids (up s)) = Some (1, \<lparr>uid_generator = 1, uid_generated = {1}\<rparr>)"
    using st by (simp add: demo_session_def demo_plane_def PfcpUpNodes_new_def first_uid uint_uid_eq)
  have "pgw_app_task demo_env (Release_access_bearers
     \<lparr>s_teid = t, gtpc_tx_id = 2, s_r_endpoint = endpoint_default, gtp_ies = ()\<rparr>) s = Inl Dangling_iterator"
    by (rule release_access_bearers_dangling [of s _ 0 1 2 5, OF _ _ _ _ trxn])
      (use st in \<open>auto simp: demo_session_def proper_bearer_def ebi_defs\<close>)
  with st show ?thesis by blast
qed

section \<open>A refused session\<close>

text \<open>The answer of a request for which there is no user-plane node.\<close>

definition refusal :: "pgw_env \<Rightarrow> create_session_request s5s8_msg \<Rightarrow> bearer_context_to_be_created \<Rightarrow> teid \<Rightarrow> pgw_msg" where
  "refusal env req b t = S5S8_CREATE_SESSION_RESPONSE (attach_answer env req
     \<lparr>csr_cause = Some ((cause_of NO_RESOURCES_AVAILABLE)\<lparr>pce := True\<rparr>), csr_paa = None, csr_pco = None,
      csr_s5_s8_pgw_fteid = Some (build_s5s8_cp_fteid (s5s8_addr4 (e_cfg env)) t), csr_apn_ambr = None,
      bearer_contexts_created = [\<lparr>bcc_eps_bearer_id = tbc_eps_bearer_id b, bcc_cause = cause_of NO_RESOURCES_AVAILABLE,
        bcc_s5_s8_u_pgw_fteid = None\<rparr>]\<rparr>)"

text \<open>
  C36: when no user-plane node is found for an initial attach, the request is refused and the address
  goes back to the pool, but the session stays: its TEID is in use and leads to the context, the
  context has the PDN connection, and the connection still has the address, which the pool may now
  give to another UE; deleting this connection would then release the address of the other one.
\<close>

theorem refused_session_stays:
  assumes att: "first_attach env req i b s" and lst: "listening s" and free: "insert 0 (s5s8cplteid s) \<noteq> UNIV"
    and pco: "process_pco_request (cfg_app (e_cfg env)) (cs_pco (gtp_ies req)) protocol_configuration_options_default
        protocol_configuration_options_ids_default = Inr (pco, ids)"
    and paa: "get_free_paa (cs_apn (gtp_ies req)) paa_default (pools s) = Inr (True, a4, d)" "pdn_type a4 = PDN_TYPE_E_IPV4"
    and trxn: "uint_uid_get_uid (trxn_ids (up s)) = Some (trxn, g)"
    and sel: "select_up_node (e_lowest env) (cfg_up (e_cfg env)) (cs_apn (gtp_ies req)) (cs_uli (gtp_ies req))
      (cs_paa_value (gtp_ies req)) (up s) = Inr (False, n)"
    and rel: "release_paa_ipv4 (cs_apn (gtp_ies req)) (ipv4_address a4) d = Inr (ok, d')"
  shows "\<exists>t s1. pgw_app_task env (Create_session req) s = Inr s1
    \<and> outbox TASK_PGWC_S5S8 s1 = outbox TASK_PGWC_S5S8 s @ [App_body (refusal env req b t)]
    \<and> outbox TASK_PGWC_SX s1 = outbox TASK_PGWC_SX s \<and> pools s1 = d'
    \<and> t \<notin> s5s8cplteid s \<and> t \<in> s5s8cplteid s1 \<and> s5s8lteid2pgw_context s1 t = Some (next_addr s)
    \<and> next_addr s + 2 \<in> connections s1 (next_addr s) \<and> pdn_local_teid s1 (next_addr s + 2) = t
    \<and> p_ipv4 (pdn_ctxs s1 (next_addr s + 2)) \<and> p_ipv4_address (pdn_ctxs s1 (next_addr s + 2)) = ipv4_address a4"
proof -
  let ?c = "next_addr s" and ?ies = "gtp_ies req"
  have b: "bearer_contexts_to_be_created ?ies = [b]" "cs_pdn_type_value ?ies = PDN_TYPE_E_IPV4"
    using att by (auto simp: first_attach_def)
  obtain t g1 where t: "t \<notin> s5s8cplteid s" "t \<noteq> 0" and cr: "app_create_session env req s =
      answer_session env req ?c (?c + 1) (?c + 2) pco True a4 (cause_of REQUEST_ACCEPTED) (attach_state env ?ies i b t g1 d s)"
    using create_session_attach [OF att free pco paa(1)] by (metis (full_types))
  define S where "S = upd_pdn (?c + 2) (pdn_set a4) (attach_state env ?ies i b t g1 d s)"
  let ?S = "S\<lparr>up := (up s)\<lparr>trxn_ids := g\<rparr>, next_addr := ?c + 4, pools := d'\<rparr>"
  have S: "up S = up s" "pools S = d" "next_addr S = ?c + 3" "apn_in_use (apn_ctxs S (?c + 1)) = cs_apn ?ies"
    "pdn_ctxs S (?c + 2) = pdn_set a4 (attach_pdn env ?ies b t)" "s5s8cplteid S = insert t (s5s8cplteid s)"
    "s5s8lteid2pgw_context S t = Some ?c" "?c + 2 \<in> connections S ?c"
    by (simp_all add: S_def attach_state_def upd_pdn_def Let_def connections_def)
  have pdn: "p_pdn_type (pdn_set a4 p) = p_pdn_type p" "pgw_fteid_s5_s8_cp (pdn_set a4 p) = pgw_fteid_s5_s8_cp p"
    "p_ipv4 (pdn_set a4 p)" "p_ipv4_address (pdn_set a4 p) = ipv4_address a4" for p
    using paa(2) by (simp_all add: pdn_set_def)
  have lst': "listening ?S" and out: "outbox x ?S = outbox x s" for x using lst by (simp_all add: listening_def outbox_def)
  obtain q where q: "app_send_log TASK_PGWC_S5S8 (refusal env req b t) ?S = ?S\<lparr>up := (up ?S)\<lparr>up_mw := q\<rparr>\<rparr>"
    "\<And>x. map body (queue_of q x) = outbox x ?S @ (if x = TASK_PGWC_S5S8 then [App_body (refusal env req b t)] else [])"
    by (rule app_send_log_listening [OF lst', of TASK_PGWC_S5S8 "refusal env req b t"]) auto
  have sel': "select_up_node (e_lowest env) (cfg_up (e_cfg env)) (cs_apn ?ies) (cs_uli ?ies) (cs_paa_value ?ies)
      ((up s)\<lparr>trxn_ids := g\<rparr>) = Inr (False, n)"
    using sel select_up_node_views [of "(up s)\<lparr>trxn_ids := g\<rparr>" "up s"] by (simp add: views_def)
  have sgw: "sgw_fteid_s5_s8_cp (pdn_ctxs (attach_state env ?ies i b t g1 d s) (?c + 2)) = cs_sender_fteid_for_cp ?ies"
    "pgw_fteid_s5_s8_cp (attach_pdn env ?ies b t) = build_s5s8_cp_fteid (s5s8_addr4 (e_cfg env)) t"
    "p_pdn_type (attach_pdn env ?ies b t) = PDN_TYPE_E_IPV4"
    using b(2) by (simp_all add: attach_state_def Let_def attach_pdn_def)
  let ?resp = "attach_answer env req (create_session_response_new\<lparr>csr_cause := Some (cause_of REQUEST_ACCEPTED)\<rparr>)"
  let ?ies2 = "(attach_ies env ?ies t a4 pco)\<lparr>csr_cause := Some ((cause_of NO_RESOURCES_AVAILABLE)\<lparr>pce := True\<rparr>),
    csr_apn_ambr := Some (apn_ambr (apn_ctxs S (?c + 1)))\<rparr>"
  have acc: "accept_session env req ?resp True a4 pco ?c (?c + 1) (?c + 2) (attach_state env ?ies i b t g1 d s) =
      Inr (attach_answer env req ?ies2, S\<lparr>up := (up s)\<lparr>trxn_ids := g\<rparr>, next_addr := ?c + 4\<rparr>)"
    unfolding accept_session_def Let_def if_True S_def [symmetric]
    using trxn sel' by (simp add: generate_trxn_id_def S pdn sgw session_establishment_run_def Let_def keep_procedure_def
        attach_answer_def attach_ies_def create_session_response_new_def del: add_2_eq_Suc')
  have ref: "refuse_session req (attach_answer env req ?ies2) (?c + 1) (?c + 2) (S\<lparr>up := (up s)\<lparr>trxn_ids := g\<rparr>, next_addr := ?c + 4\<rparr>)
      = Inr (app_send_log TASK_PGWC_S5S8 (refusal env req b t) ?S)"
    using rel b(1) by (simp add: refuse_session_def S S(4) [simplified] pdn sgw refusal_def attach_answer_def attach_ies_def Let_def
        del: add_2_eq_Suc')
  have resp: "\<lparr>s_teid = teid_gre_key (cs_sender_fteid_for_cp ?ies), gtpc_tx_id = gtpc_tx_id req, s_r_endpoint = s_r_endpoint req,
      gtp_ies = create_session_response_new\<lparr>csr_cause := Some (cause_of REQUEST_ACCEPTED)\<rparr>\<rparr> = ?resp"
    by (simp add: attach_answer_def)
  have "app_create_session env req s = Inr (?S\<lparr>up := (up ?S)\<lparr>up_mw := q\<rparr>\<rparr>)"
    unfolding cr answer_session_def Let_def sgw resp acc using ref q(1)
    by (simp add: acc attach_answer_def cause_of_def cause_defs)
  then have task: "pgw_app_task env (Create_session req) s = Inr (?S\<lparr>up := (up ?S)\<lparr>up_mw := q\<rparr>\<rparr>)" by simp
  have ne: "TASK_PGWC_SX \<noteq> TASK_PGWC_S5S8" by (simp add: task_defs)
  have con: "?c + 2 \<in> connections (?S\<lparr>up := (up ?S)\<lparr>up_mw := q\<rparr>\<rparr>) ?c" using S(8) by (simp add: connections_def)
  show ?thesis
    by (rule exI [of _ t], rule exI [of _ "?S\<lparr>up := (up ?S)\<lparr>up_mw := q\<rparr>\<rparr>"])
      (use task con t S pdn sgw(2) q(2) out ne in \<open>simp add: outbox_def build_s5s8_cp_fteid_def del: add_2_eq_Suc'\<close>)
qed

text \<open>The example without an associated node.\<close>

theorem refused_session_stays_witness:
  "\<exists>(a4 :: paa) t s1. pgw_app_task demo_env (Create_session demo_request) (demo_app\<lparr>up := (up demo_app)\<lparr>associations := []\<rparr>\<rparr>) = Inr s1
    \<and> outbox TASK_PGWC_S5S8 s1 = outbox TASK_PGWC_S5S8 demo_app @ [App_body (refusal demo_env demo_request demo_bearer t)]
    \<and> t \<in> s5s8cplteid s1 \<and> p_ipv4_address (pdn_ctxs s1 (next_addr demo_app + 2)) = ipv4_address a4"
proof -
  let ?s = "demo_app\<lparr>up := (up demo_app)\<lparr>associations := []\<rparr>\<rparr>"
  have att: "first_attach demo_env demo_request demo_imsi demo_bearer ?s"
    using demo_first_attach by (auto simp: first_attach_def)
  have lst: "listening ?s" using demo_listening by (simp add: listening_def)
  have free: "insert 0 (s5s8cplteid ?s) \<noteq> UNIV" using demo_free by simp
  obtain pco ids where pco: "process_pco_request (cfg_app (e_cfg demo_env)) (cs_pco (gtp_ies demo_request))
      protocol_configuration_options_default protocol_configuration_options_ids_default = Inr (pco, ids)" using demo_pco by blast
  obtain a4 d d' where paa: "get_free_paa (cs_apn (gtp_ies demo_request)) paa_default (pools ?s) = Inr (True, a4, d)"
    "pdn_type a4 = PDN_TYPE_E_IPV4" and rel: "release_paa_ipv4 (cs_apn (gtp_ies demo_request)) (ipv4_address a4) d = Inr (True, d')"
    using demo_paa by (auto simp: demo_request_def)
  obtain trxn g where trxn: "uint_uid_get_uid (trxn_ids (up ?s)) = Some (trxn, g)" using demo_trxn by auto
  have sel: "select_up_node (e_lowest demo_env) (cfg_up (e_cfg demo_env)) (cs_apn (gtp_ies demo_request))
      (cs_uli (gtp_ies demo_request)) (cs_paa_value (gtp_ies demo_request)) (up ?s) = Inr (False, node_id_default)"
    by (simp add: select_up_node_def)
  have eq: "outbox x ?s = outbox x demo_app" "next_addr ?s = next_addr demo_app" for x by (simp_all add: outbox_def)
  from refused_session_stays [OF att lst free pco paa trxn sel rel, unfolded eq] show ?thesis by blast
qed

end
