(* ===== verification/Streams.thy ===== *)
theory Streams
  imports Prelude
begin

text \<open>
  Reading and writing of messages (\<^verbatim>\<open>common/serializable.hpp\<close> and the uses of \<^verbatim>\<open>std::istream\<close> and
  \<^verbatim>\<open>std::ostream\<close> in the codecs). An output stream is the bytes written to it. An input stream is the
  bytes left and whether it is good; a read that asks for more than is left takes what there is,
  leaves the rest of the buffer as it was and turns the stream bad; every later read leaves its
  buffer alone. The interface that the codecs of the protocols implement is a locale.
\<close>

record istream =
  left :: bytes
  good :: bool

definition istream_of :: "bytes \<Rightarrow> istream" where
  "istream_of bs = \<lparr>left = bs, good = True\<rparr>"

text \<open>\<^verbatim>\<open>is.read(buf, n)\<close>, where \<open>buf\<close> is what the \<open>n\<close> bytes of memory held before.\<close>

definition is_read :: "bytes \<Rightarrow> istream \<Rightarrow> bytes \<times> istream" where
  "is_read buf s =
     (if \<not> good s then (buf, s)
      else if length buf \<le> length (left s)
           then (take (length buf) (left s), s\<lparr>left := drop (length buf) (left s)\<rparr>)
           else (left s @ drop (length (left s)) buf, \<lparr>left = [], good = False\<rparr>))"

lemma length_is_read: "is_read buf s = (bs, s') \<Longrightarrow> length bs = length buf"
  by (auto simp: is_read_def split: if_splits)

lemma is_read_append [simp]:
  "length buf = length bs \<Longrightarrow> is_read buf (istream_of (bs @ r)) = (bs, istream_of r)"
  by (simp add: is_read_def istream_of_def)

lemma is_read_Cons [simp]: "is_read [x] (istream_of (b # r)) = ([b], istream_of r)"
  using is_read_append [of "[x]" "[b]" r] by simp

lemma is_read_Cons3 [simp]:
  "is_read [x, y, z] (istream_of (a # b # c # r)) = ([a, b, c], istream_of r)"
  using is_read_append [of "[x, y, z]" "[a, b, c]" r] by simp

text \<open>
  Reading an integer field that is converted from network byte order afterwards (\<^verbatim>\<open>ntohs\<close>, \<^verbatim>\<open>ntohl\<close>,
  \<^verbatim>\<open>be64toh\<close>): the field lies in memory least significant byte first.
\<close>

definition mem_bytes :: "nat \<Rightarrow> 'a::len word \<Rightarrow> bytes" where
  "mem_bytes n w = rev (be_bytes n w)"

definition read_u8 :: "u8 \<Rightarrow> istream \<Rightarrow> u8 \<times> istream" where
  "read_u8 old s = (case is_read [old] s of (bs, s') \<Rightarrow> (hd bs, s'))"

definition read_be :: "nat \<Rightarrow> 'a::len word \<Rightarrow> istream \<Rightarrow> 'a word \<times> istream" where
  "read_be n old s = (case is_read (mem_bytes n old) s of (bs, s') \<Rightarrow> (word_of_be bs, s'))"

text \<open>A field that is not converted: the bytes read are the bytes of the field in memory.\<close>

definition read_raw :: "nat \<Rightarrow> 'a::len word \<Rightarrow> istream \<Rightarrow> 'a word \<times> istream" where
  "read_raw n old s = (case is_read (mem_bytes n old) s of (bs, s') \<Rightarrow> (word_of_be (rev bs), s'))"

lemma length_mem_bytes [simp]: "length (mem_bytes n w) = n"
  by (simp add: mem_bytes_def)

lemma read_u8_Cons [simp]: "read_u8 old (istream_of (b # r)) = (b, istream_of r)"
  by (simp add: read_u8_def)

lemma read_be_append:
  "length bs = n \<Longrightarrow> read_be n old (istream_of (bs @ r)) = (word_of_be bs, istream_of r)"
  by (simp add: read_be_def)

lemma read_be_be_bytes [simp]:
  "8 * n = LENGTH('a) \<Longrightarrow> read_be n old (istream_of (be_bytes n (w :: 'a::len word) @ r)) = (w, istream_of r)"
  by (simp add: read_be_def)

lemma read_raw_append:
  "length bs = n \<Longrightarrow> read_raw n old (istream_of (bs @ r)) = (word_of_be (rev bs), istream_of r)"
  by (simp add: read_raw_def)

lemma read_raw_mem_bytes [simp]:
  "8 * n = LENGTH('a) \<Longrightarrow> read_raw n old (istream_of (mem_bytes n (w :: 'a::len word) @ r)) = (w, istream_of r)"
  using read_raw_append [of "mem_bytes n w" n old r] by (simp add: mem_bytes_def)

text \<open>Reads never give bytes back.\<close>

lemma is_read_left: "is_read buf s = (bs, s') \<Longrightarrow> length (left s') \<le> length (left s)"
  by (auto simp: is_read_def split: if_splits)

lemma read_left:
  "read_u8 old s = (x, s') \<Longrightarrow> length (left s') \<le> length (left s)"
  "read_be n w s = (y, s') \<Longrightarrow> length (left s') \<le> length (left s)"
  "read_raw n w s = (y, s') \<Longrightarrow> length (left s') \<le> length (left s)"
  by (auto simp: read_u8_def read_be_def read_raw_def split: prod.splits dest: is_read_left)

text \<open>Shared by the parsers of both protocols.\<close>

lemma if_SomeE:
  "(if c then Some a else e) = Some a' \<Longrightarrow> (a = a' \<Longrightarrow> P) \<Longrightarrow> (e = Some a' \<Longrightarrow> P) \<Longrightarrow> P"
  by (simp split: if_splits)

lemma unat_u16: "unat (w :: u16) < 2 ^ 16"
  using unsigned_less [of w, where 'a = nat] by simp

section \<open>Sequence numbers\<close>

text \<open>Both message headers carry a sequence number of three bytes.\<close>

lemma seq_bytes:
  fixes w :: u32
  shows "push_bit 16 (ucast (ucast (drop_bit 8 (drop_bit 8 w) AND 0xFF) :: u8))
    OR push_bit 8 (ucast (ucast (drop_bit 8 w AND 0xFF) :: u8)) OR ucast (ucast (w AND 0xFF) :: u8)
    = take_bit 24 w" (is "?l = _")
proof (rule bit_word_eqI)
  fix n assume "n < LENGTH(32)"
  consider "n < 8" | "8 \<le> n" "n < 16" | "16 \<le> n" by linarith
  then show "bit ?l n = bit (take_bit 24 w) n" unfolding and_masks by cases (auto simp: bit_simps)
qed

section \<open>Codecs\<close>

text \<open>
  What a class with \<^verbatim>\<open>dump_to\<close> and \<^verbatim>\<open>load_from\<close> promises for the values it can represent: loading what
  was dumped gives the value back and leaves the stream after it.
\<close>

locale codec =
  fixes enc :: "'v \<Rightarrow> bytes" and dec :: "istream \<Rightarrow> 'v \<times> istream" and ok :: "'v \<Rightarrow> bool"
  assumes dec_enc: "ok v \<Longrightarrow> dec (istream_of (enc v @ r)) = (v, istream_of r)"
begin

lemma dec_enc_end: "ok v \<Longrightarrow> dec (istream_of (enc v)) = (v, istream_of [])"
  using dec_enc [of v "[]"] by simp

text \<open>A field that is on the wire only when a flag says so.\<close>

lemma dec_enc_if:
  assumes "ok v" and "flag \<or> v = d"
  shows "(if flag then dec (istream_of ((if flag then enc v else []) @ r))
          else (d, istream_of ((if flag then enc v else []) @ r))) = (v, istream_of r)"
  using assms dec_enc [of v r] by auto

lemma unique_decoding:
  assumes "ok v" and "ok w" and "enc v @ r = enc w @ q"
  shows "v = w \<and> r = q"
proof -
  have "dec (istream_of (enc v @ r)) = dec (istream_of (enc w @ q))" using assms(3) by simp
  with assms(1,2) have "v = w \<and> istream_of r = istream_of q" by (simp add: dec_enc)
  then show ?thesis by (simp add: istream_of_def)
qed

lemma enc_inject: "ok v \<Longrightarrow> ok w \<Longrightarrow> enc v = enc w \<Longrightarrow> v = w"
  using unique_decoding [of v w "[]" "[]"] by simp

lemma no_proper_prefix: "ok v \<Longrightarrow> ok w \<Longrightarrow> enc w = enc v @ r \<Longrightarrow> r = []"
  using unique_decoding [of w v "[]" r] by simp

fun dec_list :: "nat \<Rightarrow> istream \<Rightarrow> 'v list \<times> istream" where
  "dec_list 0 s = ([], s)"
| "dec_list (Suc n) s = (case dec s of (v, s') \<Rightarrow> case dec_list n s' of (vs, s'') \<Rightarrow> (v # vs, s''))"

lemma dec_list_enc:
  "\<forall>v \<in> set vs. ok v \<Longrightarrow>
     dec_list (length vs) (istream_of (concat (map enc vs) @ r)) = (vs, istream_of r)"
  by (induction vs) (simp_all add: dec_enc)

end

end
