(* ===== verification/Pfcp_Msg.thy ===== *)
theory Pfcp_Msg
  imports Streams
begin

text \<open>
  The frame of PFCP messages (\<^verbatim>\<open>pfcp/3gpp_29.244.hpp\<close>): the type-length header of an information
  element with its optional enterprise identifier, the message header with its optional SEID and
  24-bit sequence number, the accounting of lengths by \<^verbatim>\<open>add_ie\<close>. The information elements are a
  parameter of the message here.
\<close>

section \<open>The header of an information element\<close>

record pfcp_tlv =
  ptlv_type :: u16
  ptlv_length :: u16
  enterprise_id :: u16

definition pfcp_tlv_ie_length :: u16 where "pfcp_tlv_ie_length = 4"

definition pfcp_tlv_new :: "u16 \<Rightarrow> u16 \<Rightarrow> u16 \<Rightarrow> pfcp_tlv" where
  "pfcp_tlv_new t l e = \<lparr>ptlv_type = t, ptlv_length = l, enterprise_id = e\<rparr>"

definition pfcp_tlv_dump_to :: "pfcp_tlv \<Rightarrow> bytes" where
  "pfcp_tlv_dump_to t =
     be_bytes 2 (ptlv_type t) @ be_bytes 2 (ptlv_length t)
       @ (if ptlv_type t AND 0x8000 \<noteq> 0 then be_bytes 2 (enterprise_id t) else [])"

definition pfcp_tlv_load_from :: "pfcp_tlv \<Rightarrow> istream \<Rightarrow> pfcp_tlv \<times> istream" where
  "pfcp_tlv_load_from t s =
     (case read_be 2 (ptlv_type t) s of (ty, s1) \<Rightarrow>
      case read_be 2 (ptlv_length t) s1 of (l, s2) \<Rightarrow>
      case (if ty AND 0x8000 \<noteq> 0 then read_be 2 (enterprise_id t) s2 else (enterprise_id t, s2)) of (e, s3) \<Rightarrow>
        (\<lparr>ptlv_type = ty, ptlv_length = l, enterprise_id = e\<rparr>, s3))"

text \<open>An element of no enterprise keeps the identifier that the object had before it was loaded.\<close>

interpretation ptlv: codec pfcp_tlv_dump_to "pfcp_tlv_load_from t0"
  "\<lambda>t. ptlv_type t AND 0x8000 \<noteq> 0 \<or> enterprise_id t = enterprise_id t0" for t0
  by unfold_locales (auto simp: pfcp_tlv_dump_to_def pfcp_tlv_load_from_def)

section \<open>The message header\<close>

text \<open>
  The bits of \<^verbatim>\<open>u1\<close>, from the least significant one: S, MP, spare (three), version (three); the low four
  bits of \<^verbatim>\<open>u2\<close> are spare, the high four are the message priority.
\<close>

record pfcp_msg_header =
  pu1 :: u8
  pmessage_type :: u8
  pmessage_length :: u16
  seid :: u64
  psequence_number :: u32
  pu2 :: u8

definition pfcp_msg_header_default :: pfcp_msg_header where
  "pfcp_msg_header_default =
     \<lparr>pu1 = 0x20, pmessage_type = 0, pmessage_length = 3 + 1, seid = 0, psequence_number = 0, pu2 = 0\<rparr>"

definition has_seid :: "'a pfcp_msg_header_scheme \<Rightarrow> bool" where
  "has_seid h \<longleftrightarrow> bit (pu1 h) 0"

definition set_seid :: "u64 \<Rightarrow> 'a pfcp_msg_header_scheme \<Rightarrow> 'a pfcp_msg_header_scheme" where
  "set_seid s h =
     (let h1 = h\<lparr>seid := s\<rparr> in
      if has_seid h then h1
      else h1\<lparr>pu1 := set_bit 0 (pu1 h), pmessage_length := pmessage_length h + 8\<rparr>)"

definition pfcp_set_sequence_number :: "u32 \<Rightarrow> 'a pfcp_msg_header_scheme \<Rightarrow> 'a pfcp_msg_header_scheme" where
  "pfcp_set_sequence_number sn h = h\<lparr>psequence_number := sn AND 0x00FFFFFF\<rparr>"

text \<open>\<^verbatim>\<open>dump_to\<close> clears the spare bits, and the priority of a message without the MP flag.\<close>

definition pfcp_header_dump_to :: "'a pfcp_msg_header_scheme \<Rightarrow> bytes \<times> 'a pfcp_msg_header_scheme" where
  "pfcp_header_dump_to h =
     (let b1 = pu1 h AND 0xE3;
          b2 = pu2 h AND 0xF0;
          sn2 = ucast (psequence_number h AND 0xFF) :: u8;
          sn1 = ucast (drop_bit 8 (psequence_number h) AND 0xFF) :: u8;
          sn0 = ucast (drop_bit 8 (drop_bit 8 (psequence_number h)) AND 0xFF) :: u8;
          b2' = (if bit b1 1 then b2 else b2 AND 0x0F)
      in ([b1, pmessage_type h] @ be_bytes 2 (pmessage_length h)
            @ (if bit b1 0 then be_bytes 8 (seid h) else [])
            @ [sn0, sn1, sn2, b2'],
          h\<lparr>pu1 := b1, pu2 := b2'\<rparr>))"

definition pfcp_header_load_from ::
  "bytes \<Rightarrow> 'a pfcp_msg_header_scheme \<Rightarrow> istream \<Rightarrow> 'a pfcp_msg_header_scheme \<times> istream" where
  "pfcp_header_load_from sn h s =
     (case read_u8 (pu1 h) s of (b1, s1) \<Rightarrow>
      case read_u8 (pmessage_type h) s1 of (mt, s2) \<Rightarrow>
      case read_be 2 (pmessage_length h) s2 of (len, s3) \<Rightarrow>
      case (if bit b1 0 then read_be 8 (seid h) s3 else (0, s3)) of (sd, s4) \<Rightarrow>
      case is_read sn s4 of (sn', s5) \<Rightarrow>
      case read_u8 (pu2 h) s5 of (b2, s6) \<Rightarrow>
        (h\<lparr>pu1 := b1, pmessage_type := mt, pmessage_length := len, seid := sd,
           psequence_number := push_bit 16 (ucast (sn' ! 0)) OR push_bit 8 (ucast (sn' ! 1)) OR ucast (sn' ! 2),
           pu2 := b2\<rparr>, s6))"

section \<open>Messages\<close>

record 'ie pfcp_msg = pfcp_msg_header +
  premote_port :: u16
  pies :: "'ie list"

definition pfcp_msg_default :: "'ie pfcp_msg" where
  "pfcp_msg_default = pfcp_msg_header.extend pfcp_msg_header_default \<lparr>premote_port = 0, pies = []\<rparr>"

definition pfcp_add_ie :: "('ie \<Rightarrow> u16) \<Rightarrow> 'ie \<Rightarrow> 'ie pfcp_msg \<Rightarrow> 'ie pfcp_msg" where
  "pfcp_add_ie len ie m =
     m\<lparr>pies := pies m @ [ie], pmessage_length := pmessage_length m + pfcp_tlv_ie_length + len ie\<rparr>"

definition pfcp_msg_dump_to :: "('ie \<Rightarrow> bytes) \<Rightarrow> 'ie pfcp_msg \<Rightarrow> bytes \<times> 'ie pfcp_msg" where
  "pfcp_msg_dump_to dump m =
     (case pfcp_header_dump_to m of (bs, m') \<Rightarrow> (bs @ concat (map dump (pies m')), m'))"

text \<open>\<^verbatim>\<open>pfcp_msg(pfcp_ies)\<close>: a default header with the type, and the elements added one by one.\<close>

definition pfcp_msg_of_ies :: "('ie \<Rightarrow> u16) \<Rightarrow> u8 \<Rightarrow> 'ie list \<Rightarrow> 'ie pfcp_msg" where
  "pfcp_msg_of_ies len t xs = foldl (\<lambda>m ie. pfcp_add_ie len ie m) (pfcp_msg_default\<lparr>pmessage_type := t\<rparr>) xs"

text \<open>What \<^verbatim>\<open>msg.dump_to(oss)\<close> does to the message itself.\<close>

definition pfcp_dumped :: "'ie pfcp_msg \<Rightarrow> 'ie pfcp_msg" where
  "pfcp_dumped m = snd (pfcp_header_dump_to m)"

section \<open>The codec of the header\<close>

text \<open>The headers that \<^verbatim>\<open>dump_to\<close> leaves as they are.\<close>

definition pfcp_header_ok :: "'a pfcp_msg_header_scheme \<Rightarrow> bool" where
  "pfcp_header_ok h \<longleftrightarrow> pu1 h AND 0xE3 = pu1 h \<and> pu2 h AND 0xF0 = pu2 h
     \<and> (\<not> has_seid h \<longrightarrow> seid h = 0) \<and> (\<not> bit (pu1 h) 1 \<longrightarrow> pu2 h = 0)
     \<and> psequence_number h AND 0xFFFFFF = psequence_number h"

lemma pfcp_header_dump_ok:
  "pfcp_header_ok h \<Longrightarrow> pfcp_header_dump_to h = ([pu1 h, pmessage_type h] @ be_bytes 2 (pmessage_length h)
     @ (if has_seid h then be_bytes 8 (seid h) else [])
     @ [ucast (drop_bit 8 (drop_bit 8 (psequence_number h)) AND 0xFF),
        ucast (drop_bit 8 (psequence_number h) AND 0xFF), ucast (psequence_number h AND 0xFF), pu2 h], h)"
  by (auto simp: pfcp_header_dump_to_def pfcp_header_ok_def has_seid_def Let_def)

lemma pfcp_header_load_dump:
  assumes ok: "pfcp_header_ok h"
  shows "pfcp_header_load_from [x, y, z] g (istream_of (fst (pfcp_header_dump_to h) @ r))
    = (g\<lparr>pu1 := pu1 h, pmessage_type := pmessage_type h, pmessage_length := pmessage_length h, seid := seid h,
         psequence_number := psequence_number h, pu2 := pu2 h\<rparr>, istream_of r)"
proof -
  have sn: "take_bit 24 (psequence_number h) = psequence_number h"
    using ok by (simp add: pfcp_header_ok_def and_masks)
  show ?thesis
  proof (cases "has_seid h")
    case True
    then show ?thesis using ok sn seq_bytes [of "psequence_number h"]
      by (simp add: pfcp_header_dump_ok pfcp_header_load_from_def has_seid_def)
  next
    case False
    then show ?thesis using ok sn seq_bytes [of "psequence_number h"]
      by (simp add: pfcp_header_dump_ok pfcp_header_load_from_def has_seid_def pfcp_header_ok_def)
  qed
qed

interpretation phdr: codec "fst \<circ> pfcp_header_dump_to" "pfcp_header_load_from [x, y, z] h0"
  "pfcp_header_ok :: pfcp_msg_header \<Rightarrow> bool" for x y z and h0 :: pfcp_msg_header
  by unfold_locales (simp add: pfcp_header_load_dump)

section \<open>Messages the stack builds\<close>

lemma pfcp_dumped_simps [simp]:
  "psequence_number (pfcp_dumped m) = psequence_number m" "pmessage_type (pfcp_dumped m) = pmessage_type m"
  "pies (pfcp_dumped m) = pies m" "pmessage_length (pfcp_dumped m) = pmessage_length m"
  by (simp_all add: pfcp_dumped_def pfcp_header_dump_to_def Let_def)

lemma pfcp_set_sequence_number_simps [simp]:
  "psequence_number (pfcp_set_sequence_number sn m) = sn AND 0xFFFFFF"
  "pmessage_type (pfcp_set_sequence_number sn m) = pmessage_type m"
  by (simp_all add: pfcp_set_sequence_number_def)

lemma set_seid_type [simp]: "pmessage_type (set_seid t m) = pmessage_type m"
  by (simp add: set_seid_def Let_def)

lemma pfcp_msg_of_ies_header:
  "pmessage_type (pfcp_msg_of_ies len t xs) = t" "pu1 (pfcp_msg_of_ies len t xs) = 0x20"
  "pu2 (pfcp_msg_of_ies len t xs) = 0"
proof -
  have "pmessage_type (foldl (\<lambda>m ie. pfcp_add_ie len ie m) m xs) = pmessage_type m
    \<and> pu1 (foldl (\<lambda>m ie. pfcp_add_ie len ie m) m xs) = pu1 m
    \<and> pu2 (foldl (\<lambda>m ie. pfcp_add_ie len ie m) m xs) = pu2 m" for m
    by (induction xs arbitrary: m) (simp_all add: pfcp_add_ie_def)
  then show "pmessage_type (pfcp_msg_of_ies len t xs) = t" "pu1 (pfcp_msg_of_ies len t xs) = 0x20"
    "pu2 (pfcp_msg_of_ies len t xs) = 0"
    by (simp_all add: pfcp_msg_of_ies_def pfcp_msg_default_def pfcp_msg_header_default_def pfcp_msg_header.defs)
qed

text \<open>They are not changed by \<^verbatim>\<open>dump_to\<close>, so retransmissions are identical.\<close>

lemma pfcp_dumped_id: "pu1 m AND 0xE3 = pu1 m \<Longrightarrow> pu2 m = 0 \<Longrightarrow> pfcp_dumped m = m"
  by (simp add: pfcp_dumped_def pfcp_header_dump_to_def Let_def)

lemma pfcp_dumped_request [simp]:
  "pfcp_dumped (pfcp_set_sequence_number q (pfcp_msg_of_ies len t xs)) = pfcp_set_sequence_number q (pfcp_msg_of_ies len t xs)"
  "pfcp_dumped (pfcp_set_sequence_number q (set_seid r (pfcp_msg_of_ies len t xs)))
     = pfcp_set_sequence_number q (set_seid r (pfcp_msg_of_ies len t xs))"
  by (rule pfcp_dumped_id;
      simp add: pfcp_set_sequence_number_def set_seid_def has_seid_def Let_def pfcp_msg_of_ies_header set_bit_eq_or)+

end
