(* ===== verification/Gtpv2c_Msg.thy ===== *)
theory Gtpv2c_Msg
  imports Streams
begin

text \<open>
  The frame of GTPv2-C messages (\<^verbatim>\<open>gtpv2c/3gpp_29.274.hpp\<close>): the type-length-instance header of an
  information element, the message header with its optional TEID and its 24-bit sequence number, the
  accounting of lengths by \<^verbatim>\<open>add_ie\<close>, and the conversion of names between the dotted and the
  length-prefixed form. The information elements themselves are a parameter of the message here.
\<close>

section \<open>The header of an information element\<close>

record gtpv2c_tlv =
  tlv_type :: u8
  tlv_length :: u16
  tlv_u1 :: u8

definition tlv_ie_length :: u16 where "tlv_ie_length = 4"

definition gtpv2c_tlv_default :: gtpv2c_tlv where
  "gtpv2c_tlv_default = \<lparr>tlv_type = 0, tlv_length = 0, tlv_u1 = 0\<rparr>"

text \<open>The low four bits of \<^verbatim>\<open>u1\<close> are the instance, the high four are spare.\<close>

definition gtpv2c_tlv_new :: "u8 \<Rightarrow> u16 \<Rightarrow> u8 \<Rightarrow> gtpv2c_tlv" where
  "gtpv2c_tlv_new t l i = \<lparr>tlv_type = t, tlv_length = l, tlv_u1 = i AND 0x0F\<rparr>"

definition set_instance :: "u8 \<Rightarrow> gtpv2c_tlv \<Rightarrow> gtpv2c_tlv" where
  "set_instance i t = t\<lparr>tlv_u1 := (tlv_u1 t AND 0xF0) OR (i AND 0x0F)\<rparr>"

definition get_instance :: "gtpv2c_tlv \<Rightarrow> u8" where
  "get_instance t = tlv_u1 t AND 0x0F"

definition tlv_dump_to :: "gtpv2c_tlv \<Rightarrow> bytes" where
  "tlv_dump_to t = [tlv_type t] @ be_bytes 2 (tlv_length t) @ [tlv_u1 t]"

definition tlv_load_from :: "gtpv2c_tlv \<Rightarrow> istream \<Rightarrow> gtpv2c_tlv \<times> istream" where
  "tlv_load_from t s =
     (case read_u8 (tlv_type t) s of (ty, s1) \<Rightarrow>
      case read_be 2 (tlv_length t) s1 of (l, s2) \<Rightarrow>
      case read_u8 (tlv_u1 t) s2 of (u, s3) \<Rightarrow>
        (\<lparr>tlv_type = ty, tlv_length = l, tlv_u1 = u\<rparr>, s3))"

interpretation tlv: codec tlv_dump_to "tlv_load_from t0" "\<lambda>_. True"
  by unfold_locales (simp add: tlv_dump_to_def tlv_load_from_def)

lemma length_tlv_dump [simp]: "length (tlv_dump_to t) = 4"
  by (simp add: tlv_dump_to_def)

lemma get_set_instance: "get_instance (set_instance i t) = i AND 0x0F"
proof -
  have "(((tlv_u1 t AND 0xF0) OR (i AND 0x0F)) AND 0x0F) = i AND 0x0F"
    unfolding and_masks by (rule bit_word_eqI) (auto simp: bit_simps)
  then show ?thesis by (simp add: get_instance_def set_instance_def)
qed

section \<open>The message header\<close>

text \<open>
  The bits of \<^verbatim>\<open>u1\<close>, from the least significant one: spare (two), MP, T, P, version (three); the low
  four bits of \<^verbatim>\<open>u2\<close> are spare, the high four are the message priority.
\<close>

record gtpv2c_msg_header =
  u1 :: u8
  message_type :: u8
  message_length :: u16
  h_teid :: u32
  sequence_number :: u32
  u2 :: u8

definition gtpv2c_msg_header_default :: gtpv2c_msg_header where
  "gtpv2c_msg_header_default =
     \<lparr>u1 = 0x40, message_type = 0, message_length = 3 + 1, h_teid = 0, sequence_number = 0, u2 = 0\<rparr>"

definition has_teid :: "'a gtpv2c_msg_header_scheme \<Rightarrow> bool" where
  "has_teid h \<longleftrightarrow> bit (u1 h) 3"

definition set_teid :: "u32 \<Rightarrow> 'a gtpv2c_msg_header_scheme \<Rightarrow> 'a gtpv2c_msg_header_scheme" where
  "set_teid tid h =
     (let h1 = h\<lparr>h_teid := tid\<rparr> in
      if has_teid h then h1
      else h1\<lparr>u1 := set_bit 3 (u1 h), message_length := message_length h + 4\<rparr>)"

definition set_sequence_number :: "u32 \<Rightarrow> 'a gtpv2c_msg_header_scheme \<Rightarrow> 'a gtpv2c_msg_header_scheme" where
  "set_sequence_number sn h = h\<lparr>sequence_number := sn AND 0x00FFFFFF\<rparr>"

text \<open>
  \<^verbatim>\<open>dump_to\<close> also writes to the header: it clears the spare bits, the MP flag of a message with no
  TEID (after that flag has been written out) and the priority of a message without the MP flag.
\<close>

definition header_dump_to :: "'a gtpv2c_msg_header_scheme \<Rightarrow> bytes \<times> 'a gtpv2c_msg_header_scheme" where
  "header_dump_to h =
     (let b1 = u1 h AND 0xFC;
          b2 = u2 h AND 0xF0;
          b1' = (if bit b1 3 then b1 else unset_bit 2 b1);
          sn2 = ucast (sequence_number h AND 0xFF) :: u8;
          sn1 = ucast (drop_bit 8 (sequence_number h) AND 0xFF) :: u8;
          sn0 = ucast (drop_bit 8 (drop_bit 8 (sequence_number h)) AND 0xFF) :: u8;
          b2' = (if bit b1' 2 then b2 else b2 AND 0x0F)
      in ([b1, message_type h] @ be_bytes 2 (message_length h)
            @ (if bit b1 3 then be_bytes 4 (h_teid h) else [])
            @ [sn0, sn1, sn2, b2'],
          h\<lparr>u1 := b1', u2 := b2'\<rparr>))"

text \<open>\<open>sn\<close> is the uninitialised array the sequence number is read into.\<close>

definition header_load_from ::
  "bytes \<Rightarrow> 'a gtpv2c_msg_header_scheme \<Rightarrow> istream \<Rightarrow> 'a gtpv2c_msg_header_scheme \<times> istream" where
  "header_load_from sn h s =
     (case read_u8 (u1 h) s of (b1, s1) \<Rightarrow>
      case read_u8 (message_type h) s1 of (mt, s2) \<Rightarrow>
      case read_be 2 (message_length h) s2 of (len, s3) \<Rightarrow>
      case (if bit b1 3 then read_be 4 (h_teid h) s3 else (0, s3)) of (tid, s4) \<Rightarrow>
      case is_read sn s4 of (sn', s5) \<Rightarrow>
      case read_u8 (u2 h) s5 of (b2, s6) \<Rightarrow>
        (h\<lparr>u1 := b1, message_type := mt, message_length := len, h_teid := tid,
           sequence_number := push_bit 16 (ucast (sn' ! 0)) OR push_bit 8 (ucast (sn' ! 1)) OR ucast (sn' ! 2),
           u2 := b2\<rparr>, s6))"

section \<open>Messages\<close>

record 'ie gtpv2c_msg = gtpv2c_msg_header +
  remote_port :: u16
  ies :: "'ie list"

definition gtpv2c_msg_default :: "'ie gtpv2c_msg" where
  "gtpv2c_msg_default = gtpv2c_msg_header.extend gtpv2c_msg_header_default \<lparr>remote_port = 0, ies = []\<rparr>"

text \<open>\<open>len\<close> gives the length field of an information element; sums wrap at 16 bits.\<close>

definition add_ie :: "('ie \<Rightarrow> u16) \<Rightarrow> 'ie \<Rightarrow> 'ie gtpv2c_msg \<Rightarrow> 'ie gtpv2c_msg" where
  "add_ie len ie m =
     m\<lparr>ies := ies m @ [ie], message_length := message_length m + tlv_ie_length + len ie\<rparr>"

definition msg_dump_to :: "('ie \<Rightarrow> bytes) \<Rightarrow> 'ie gtpv2c_msg \<Rightarrow> bytes \<times> 'ie gtpv2c_msg" where
  "msg_dump_to dump m =
     (case header_dump_to m of (bs, m') \<Rightarrow> (bs @ concat (map dump (ies m')), m'))"

section \<open>The codec of the header\<close>

text \<open>
  The headers that \<^verbatim>\<open>dump_to\<close> leaves as they are: spare bits clear, no MP flag without a TEID, no
  priority without the MP flag, no TEID value without the T flag, a sequence number of 24 bits.
\<close>

definition header_ok :: "'a gtpv2c_msg_header_scheme \<Rightarrow> bool" where
  "header_ok h \<longleftrightarrow> u1 h AND 0xFC = u1 h \<and> u2 h AND 0xF0 = u2 h
     \<and> (\<not> has_teid h \<longrightarrow> h_teid h = 0 \<and> \<not> bit (u1 h) 2) \<and> (\<not> bit (u1 h) 2 \<longrightarrow> u2 h = 0)
     \<and> sequence_number h AND 0xFFFFFF = sequence_number h"

lemma header_dump_ok:
  "header_ok h \<Longrightarrow> header_dump_to h = ([u1 h, message_type h] @ be_bytes 2 (message_length h)
     @ (if has_teid h then be_bytes 4 (h_teid h) else [])
     @ [ucast (drop_bit 8 (drop_bit 8 (sequence_number h)) AND 0xFF),
        ucast (drop_bit 8 (sequence_number h) AND 0xFF), ucast (sequence_number h AND 0xFF), u2 h], h)"
  by (auto simp: header_dump_to_def header_ok_def has_teid_def Let_def unset_bit_clear)

lemma header_load_dump:
  assumes ok: "header_ok h"
  shows "header_load_from [x, y, z] g (istream_of (fst (header_dump_to h) @ r))
    = (g\<lparr>u1 := u1 h, message_type := message_type h, message_length := message_length h, h_teid := h_teid h,
         sequence_number := sequence_number h, u2 := u2 h\<rparr>, istream_of r)"
proof -
  have sn: "take_bit 24 (sequence_number h) = sequence_number h" using ok by (simp add: header_ok_def and_masks)
  show ?thesis
  proof (cases "has_teid h")
    case True
    then show ?thesis using ok sn seq_bytes [of "sequence_number h"]
      by (simp add: header_dump_ok header_load_from_def has_teid_def)
  next
    case False
    then show ?thesis using ok sn seq_bytes [of "sequence_number h"]
      by (simp add: header_dump_ok header_load_from_def has_teid_def header_ok_def)
  qed
qed

interpretation hdr: codec "fst \<circ> header_dump_to" "header_load_from [x, y, z] h0" header_ok
  for x y z and h0 :: gtpv2c_msg_header
  by unfold_locales (simp add: header_load_dump)

end
