(* ===== verification/Name_Codec.thy ===== *)
theory Name_Codec
  imports Streams
begin

text \<open>
  Access point names, network instances and FQDNs on the wire: \<^verbatim>\<open>string_to_dotted\<close> and
  \<^verbatim>\<open>dotted_to_string\<close>, which \<^verbatim>\<open>gtpv2c_ie\<close> (\<^verbatim>\<open>gtpv2c/3gpp_29.274.hpp\<close>) and \<^verbatim>\<open>pfcp_ie\<close>
  (\<^verbatim>\<open>pfcp/3gpp_29.244.hpp\<close>) have the same text of. A loop that never ends is the value \<open>None\<close>.
\<close>

section \<open>The conversions\<close>

text \<open>
  \<open>value\<close> is the uninitialised array the result is built in, \<open>lpos\<close> the index \<^verbatim>\<open>last_size\<close> points to.
  \<^verbatim>\<open>offset\<close> is an 8-bit counter; \<^verbatim>\<open>str[str.length()]\<close> is the terminating zero.
\<close>

partial_function (option) s2d_loop ::
  "bytes \<Rightarrow> u8 \<Rightarrow> nat \<Rightarrow> u8 \<Rightarrow> bytes \<Rightarrow> (nat \<times> u8 \<times> bytes) option" where
  "s2d_loop str offset lpos word_length value =
     (let c = (if unat offset < length str then str ! unat offset else 0) in
      if c = 0 then Some (lpos, word_length, value)
      else if c = 0x2E
           then s2d_loop str (offset + 1) (unat offset + 1) 0 (value[lpos := word_length])
           else s2d_loop str (offset + 1) lpos (word_length + 1) (value[unat offset + 1 := c]))"

definition string_to_dotted :: "bytes \<Rightarrow> bytes \<Rightarrow> bytes option" where
  "string_to_dotted value str =
     (case s2d_loop str 0 0 0 value of
        None \<Rightarrow> None
      | Some (lpos, word_length, value') \<Rightarrow> Some (take (length str + 1) (value'[lpos := word_length])))"

text \<open>
  \<^verbatim>\<open>char\<close> is signed, so a byte above 127 counts as a negative length: the sum with the offset is
  then compared as an unsigned number, and \<^verbatim>\<open>append\<close> with a negative count throws.
\<close>

partial_function (option) d2s_loop ::
  "bytes \<Rightarrow> u16 \<Rightarrow> bytes \<Rightarrow> bool \<Rightarrow> (bool \<times> bytes) outcome option" where
  "d2s_loop dot offset no_dot result =
     (if unat offset < length dot then
        (let c = dot ! unat offset; d = sint c; p = int (unat offset) + d in
         if d < 64 then
           (if 0 \<le> p \<and> p \<le> int (length dot) then
              (if d < 0 then Some (Inl Length_error)
               else d2s_loop dot (offset + 1 + of_int d)
                      (no_dot @ (if offset \<noteq> 0 then [0x2E] else [])
                        @ take (nat d) (drop (Suc (unat offset)) (dot @ [0]))) result)
            else d2s_loop dot (offset + 1 + of_int d) no_dot result)
         else d2s_loop dot (offset + 1) (no_dot @ [c]) False)
      else Some (Inr (result, no_dot)))"

definition dotted_to_string :: "bytes \<Rightarrow> (bool \<times> bytes) outcome option" where
  "dotted_to_string dot = d2s_loop dot 0 [] True"

definition pfcp_string_to_dotted :: "bytes \<Rightarrow> bytes \<Rightarrow> bytes option" where
  "pfcp_string_to_dotted = string_to_dotted"

definition pfcp_dotted_to_string :: "bytes \<Rightarrow> (bool \<times> bytes) outcome option" where
  "pfcp_dotted_to_string = dotted_to_string"

section \<open>Labels\<close>

text \<open>The abstract view: a name is a sequence of labels; on the wire each has its length in front.\<close>

fun labels :: "bytes \<Rightarrow> bytes \<Rightarrow> bytes list" where
  "labels cur [] = [cur]"
| "labels cur (c # cs) = (if c = 0x2E then cur # labels [] cs else labels (cur @ [c]) cs)"

definition wire :: "bytes list \<Rightarrow> bytes" where
  "wire ls = concat (map (\<lambda>l. of_nat (length l) # l) ls)"

fun join :: "bytes list \<Rightarrow> bytes" where
  "join [] = []"
| "join [l] = l"
| "join (l # ls) = l @ 0x2E # join ls"

lemma labels_nonempty [simp]: "labels cur cs \<noteq> []"
  by (induction cur cs rule: labels.induct) auto

lemma join_Cons: "ls \<noteq> [] \<Longrightarrow> join (l # ls) = l @ 0x2E # join ls"
  by (cases ls) auto

lemma join_labels: "join (labels cur cs) = cur @ cs"
  by (induction cur cs rule: labels.induct) (auto simp: join_Cons)

lemma length_wire_labels: "length (wire (labels cur cs)) = Suc (length cur + length cs)"
  by (induction cur cs rule: labels.induct) (auto simp: wire_def)

lemma unat_of_nat_u8: "n < 256 \<Longrightarrow> unat (of_nat n :: u8) = n"
  by (simp add: unat_of_nat)

lemma s2d_loop_spec:
  assumes "\<forall>c \<in> set cs. c \<noteq> 0" and "length str < 256" and "str = done @ cs"
    and "length P + length cur = length done" and "length rest = length cs"
  shows "\<exists>lpos wl v. s2d_loop str (of_nat (length done)) (length P) (of_nat (length cur)) (P @ [x] @ cur @ rest)
      = Some (lpos, wl, v) \<and> v[lpos := wl] = P @ wire (labels cur cs)"
  using assms
proof (induction cs arbitrary: "done" P cur x rest)
  case Nil
  then have "\<not> unat (of_nat (length done) :: u8) < length str" "rest = []" by (simp_all add: unat_of_nat_u8)
  then have "s2d_loop str (of_nat (length done)) (length P) (of_nat (length cur)) (P @ [x] @ cur @ rest)
      = Some (length P, of_nat (length cur), P @ [x] @ cur)"
    by (subst s2d_loop.simps) simp
  then show ?case by (simp add: wire_def list_update_append)
next
  case (Cons c cs)
  then obtain r rs where rest: "rest = r # rs" "length rs = length cs" by (cases rest) auto
  have k: "unat (of_nat (length done) :: u8) = length done" "length done < length str"
    using Cons.prems(2,3) by (simp_all add: unat_of_nat_u8)
  have c: "str ! length done = c" "c \<noteq> 0" using Cons.prems(1,3) by (simp_all add: nth_append)
  have suc: "of_nat (length done) + 1 = (of_nat (length (done @ [c])) :: u8)" by simp
  have str: "str = (done @ [c]) @ cs" using Cons.prems(3) by simp
  note IH = Cons.IH [OF _ Cons.prems(2) str _ rest(2)]
  show ?case
  proof (cases "c = 0x2E")
    case True
    have "s2d_loop str (of_nat (length done)) (length P) (of_nat (length cur)) (P @ [x] @ cur @ rest)
      = s2d_loop str (of_nat (length (done @ [c]))) (length (P @ [of_nat (length cur)] @ cur)) (of_nat (length []))
          ((P @ [of_nat (length cur)] @ cur) @ [r] @ [] @ rs)"
      using k c True rest Cons.prems(4)
      by (subst s2d_loop.simps) (simp add: Let_def list_update_append suc)
    then show ?thesis
      using IH [of "P @ [of_nat (length cur)] @ cur" "[]" r] Cons.prems True by (simp add: wire_def)
  next
    case False
    have upd: "(P @ [x] @ cur @ rest)[Suc (length done) := c] = P @ [x] @ (cur @ [c]) @ rs"
      using list_update_length [of "P @ [x] @ cur" r rs c] rest(1) Cons.prems(4) by simp
    have "s2d_loop str (of_nat (length done)) (length P) (of_nat (length cur)) (P @ [x] @ cur @ rest)
      = s2d_loop str (of_nat (length (done @ [c]))) (length P) (of_nat (length (cur @ [c])))
          (P @ [x] @ (cur @ [c]) @ rs)"
      using k c False upd
      by (subst s2d_loop.simps) (simp add: Let_def suc add.commute)
    then show ?thesis using IH [of P "cur @ [c]" x] Cons.prems False by simp
  qed
qed

lemma string_to_dotted_wire:
  assumes "0 \<notin> set str" and "length str < 256" and "length value = length str + 1"
  shows "string_to_dotted value str = Some (wire (labels [] str))"
proof -
  obtain x rest where v: "value = x # rest" using assms(3) by (cases "value") auto
  have "\<forall>c \<in> set str. c \<noteq> 0" using assms(1) by auto
  from s2d_loop_spec [OF this assms(2), of "[]" "[]" "[]" rest x] v assms(3)
  show ?thesis using length_wire_labels [of "[]" str] by (auto simp: string_to_dotted_def)
qed

lemma d2s_loop_wire:
  assumes "\<forall>l \<in> set ls. length l < 64" and "length (pre @ wire ls) < 2 ^ 16"
  shows "d2s_loop (pre @ wire ls) (of_nat (length pre)) acc res
    = Some (Inr (res, acc @ (if ls = [] then [] else (if pre = [] then [] else [0x2E]) @ join ls)))"
  using assms
proof (induction ls arbitrary: pre acc)
  case Nil
  then show ?case by (subst d2s_loop.simps) (simp add: wire_def unat_of_nat)
next
  case (Cons l ls)
  let ?c = "of_nat (length l) :: u8"
  have l: "length l < 64" using Cons.prems(1) by simp
  have off: "unat (of_nat (length pre) :: u16) = length pre" using Cons.prems(2) by (simp add: unat_of_nat)
  have dot: "pre @ wire (l # ls) = (pre @ ?c # l) @ wire ls" by (simp add: wire_def)
  have d: "sint ?c = int (length l)"
    using l signed_take_bit_int_eq_self [of 7 "int (length l)"] by (simp add: signed_of_nat)
  have z: "(of_nat (length pre) = (0 :: u16)) \<longleftrightarrow> pre = []"
    using off by (metis length_0_conv unat_0 unat_eq_0)
  have "d2s_loop (pre @ wire (l # ls)) (of_nat (length pre)) acc res
      = d2s_loop ((pre @ ?c # l) @ wire ls) (of_nat (length (pre @ ?c # l)))
          (acc @ (if pre = [] then [] else [0x2E]) @ l) res"
    using l d z off unfolding dot
    by (subst d2s_loop.simps) (simp add: Let_def nth_append add_ac)
  then show ?case
    using Cons.IH [of "pre @ ?c # l" "acc @ (if pre = [] then [] else [0x2E]) @ l"] Cons.prems dot
    by (simp add: join_Cons)
qed

lemma dotted_to_string_wire:
  assumes "length str < 256" and "\<forall>l \<in> set (labels [] str). length l < 64"
  shows "dotted_to_string (wire (labels [] str)) = Some (Inr (True, str))"
proof -
  have "length (wire (labels [] str)) < 2 ^ 16" using assms(1) by (simp add: length_wire_labels)
  with d2s_loop_wire [of "labels [] str" "[]" "[]" True] assms(2)
  show ?thesis by (simp add: dotted_to_string_def join_labels)
qed

section \<open>Properties\<close>

text \<open>
  C33: a name without zero bytes, of at most 255 characters and with labels of fewer than 64, survives
  the wire: \<^verbatim>\<open>string_to_dotted\<close> returns its labels with their lengths in front, whatever the
  uninitialised array held, and \<^verbatim>\<open>dotted_to_string\<close> turns that back into the name.
\<close>

theorem name_roundtrip:
  assumes "0 \<notin> set str" and "length str < 256" and "\<forall>l \<in> set (labels [] str). length l < 64"
    and "length value = length str + 1"
  shows "\<exists>d. string_to_dotted value str = Some d \<and> d = wire (labels [] str)
    \<and> dotted_to_string d = Some (Inr (True, str))"
  using string_to_dotted_wire [OF assms(1,2,4)] dotted_to_string_wire [OF assms(2,3)] by simp

theorem name_roundtrip_witness:
  "\<exists>d. string_to_dotted [0, 0, 0, 0] [0x61, 0x2E, 0x62] = Some d \<and> d = [1, 0x61, 1, 0x62]
     \<and> dotted_to_string d = Some (Inr (True, [0x61, 0x2E, 0x62]))"
  using name_roundtrip [of "[0x61, 0x2E, 0x62]" "[0, 0, 0, 0]"] by (simp add: wire_def)

text \<open>
  C38: a received name that begins with the byte 0xFF is never decoded: the loop of
  \<^verbatim>\<open>dotted_to_string\<close> stays at offset 0 for ever, so the thread that loads such an APN or FQDN hangs.
\<close>

theorem dotted_to_string_hangs: "dotted_to_string (0xFF # rest) = None"
proof -
  let ?P = "\<lambda>dot offset no_dot result y. \<not> (dot = 0xFF # rest \<and> offset = (0 :: u16))"
  have "?P (0xFF # rest) 0 [] True y" if "d2s_loop (0xFF # rest) 0 [] True = Some y" for y
  proof (rule d2s_loop.raw_induct [where P = ?P, OF _ that])
    fix f dot offset no_dot result y
    assume IH: "\<And>dot offset no_dot result y. f dot offset no_dot result = Some y \<Longrightarrow>
        ?P dot offset no_dot result y"
      and body: "(if unat offset < length dot then
        (let c = dot ! unat offset; d = sint c; p = int (unat offset) + d in
         if d < 64 then
           (if 0 \<le> p \<and> p \<le> int (length dot) then
              (if d < 0 then Some (Inl Length_error)
               else f dot (offset + 1 + of_int d)
                      (no_dot @ (if offset \<noteq> 0 then [0x2E] else [])
                        @ take (nat d) (drop (Suc (unat offset)) (dot @ [0]))) result)
            else f dot (offset + 1 + of_int d) no_dot result)
         else f dot (offset + 1) (no_dot @ [c]) False)
      else Some (Inr (result, no_dot))) = Some y"
    show "?P dot offset no_dot result y"
      using body IH [of dot 0 no_dot result y] by auto
  qed
  then show ?thesis unfolding dotted_to_string_def by fastforce
qed

end
