(* ===== verification/Gtpv2c_Ie.thy ===== *)
theory Gtpv2c_Ie
  imports Gtpv2c_Msg Name_Codec Gtp_Types
begin

text \<open>
  The information elements of GTPv2-C that the gateway understands (\<^verbatim>\<open>gtpv2c/3gpp_29.274.hpp\<close>): the
  fields of every class, its \<^verbatim>\<open>dump_to\<close> and its \<^verbatim>\<open>load_from\<close>. A \<^verbatim>\<open>load_from\<close> runs on the object that
  the factory has just made from the type-length header, so the constructor from a header is the
  initial value here. What memory holds that nobody initialised is the parameter \<open>junk\<close>.
\<close>

section \<open>Exceptions\<close>

text \<open>
  The exceptions of the codecs (\<^verbatim>\<open>common/3gpp_29.274.h\<close>), and undefined behaviour as one more way not
  to return.
\<close>

datatype gtpc_error =
    Tlv_bad_length u8 u16
  | Ie_value u8 string
  | Msg_bad_length u8 u16
  | Msg_illegal_ie u8 u8
  | Undefined ub

type_synonym 'a gtpc_result = "gtpc_error + 'a"

text \<open>An array of \<open>n\<close> bytes on the stack before it is written.\<close>

definition fresh :: "(nat \<Rightarrow> u8) \<Rightarrow> nat \<Rightarrow> bytes" where
  "fresh junk n = map junk [0..<n]"

lemma length_fresh [simp]: "length (fresh junk n) = n"
  by (simp add: fresh_def)

text \<open>The types of the information elements that the factory knows.\<close>

definition GTP_IE_IMSI :: u8 where "GTP_IE_IMSI = 1"
definition GTP_IE_CAUSE :: u8 where "GTP_IE_CAUSE = 2"
definition GTP_IE_RECOVERY_RESTART_COUNTER :: u8 where "GTP_IE_RECOVERY_RESTART_COUNTER = 3"
definition GTP_IE_ACCESS_POINT_NAME :: u8 where "GTP_IE_ACCESS_POINT_NAME = 71"
definition GTP_IE_AGGREGATE_MAXIMUM_BIT_RATE :: u8 where "GTP_IE_AGGREGATE_MAXIMUM_BIT_RATE = 72"
definition GTP_IE_EPS_BEARER_ID :: u8 where "GTP_IE_EPS_BEARER_ID = 73"
definition GTP_IE_IP_ADDRESS :: u8 where "GTP_IE_IP_ADDRESS = 74"
definition GTP_IE_MOBILE_EQUIPMENT_IDENTITY :: u8 where "GTP_IE_MOBILE_EQUIPMENT_IDENTITY = 75"
definition GTP_IE_MSISDN :: u8 where "GTP_IE_MSISDN = 76"
definition GTP_IE_INDICATION :: u8 where "GTP_IE_INDICATION = 77"
definition GTP_IE_PROTOCOL_CONFIGURATION_OPTIONS :: u8 where "GTP_IE_PROTOCOL_CONFIGURATION_OPTIONS = 78"
definition GTP_IE_PDN_ADDRESS_ALLOCATION :: u8 where "GTP_IE_PDN_ADDRESS_ALLOCATION = 79"
definition GTP_IE_BEARER_QUALITY_OF_SERVICE :: u8 where "GTP_IE_BEARER_QUALITY_OF_SERVICE = 80"
definition GTP_IE_FLOW_QUALITY_OF_SERVICE :: u8 where "GTP_IE_FLOW_QUALITY_OF_SERVICE = 81"
definition GTP_IE_RAT_TYPE :: u8 where "GTP_IE_RAT_TYPE = 82"
definition GTP_IE_SERVING_NETWORK :: u8 where "GTP_IE_SERVING_NETWORK = 83"
definition GTP_IE_EPS_BEARER_LEVEL_TRAFFIC_FLOW_TEMPLATE :: u8 where
  "GTP_IE_EPS_BEARER_LEVEL_TRAFFIC_FLOW_TEMPLATE = 84"
definition GTP_IE_USER_LOCATION_INFORMATION :: u8 where "GTP_IE_USER_LOCATION_INFORMATION = 86"
definition GTP_IE_FULLY_QUALIFIED_TUNNEL_ENDPOINT_IDENTIFIER :: u8 where
  "GTP_IE_FULLY_QUALIFIED_TUNNEL_ENDPOINT_IDENTIFIER = 87"
definition GTP_IE_DELAY_VALUE :: u8 where "GTP_IE_DELAY_VALUE = 92"
definition GTP_IE_BEARER_CONTEXT :: u8 where "GTP_IE_BEARER_CONTEXT = 93"
definition GTP_IE_CHARGING_ID :: u8 where "GTP_IE_CHARGING_ID = 94"
definition GTP_IE_BEARER_FLAGS :: u8 where "GTP_IE_BEARER_FLAGS = 97"
definition GTP_IE_PDN_TYPE :: u8 where "GTP_IE_PDN_TYPE = 99"
definition GTP_IE_UE_TIME_ZONE :: u8 where "GTP_IE_UE_TIME_ZONE = 114"
definition GTP_IE_APN_RESTRICTION :: u8 where "GTP_IE_APN_RESTRICTION = 127"
definition GTP_IE_SELECTION_MODE :: u8 where "GTP_IE_SELECTION_MODE = 128"
definition GTP_IE_FQ_CSID :: u8 where "GTP_IE_FQ_CSID = 132"
definition GTP_IE_NODE_TYPE :: u8 where "GTP_IE_NODE_TYPE = 135"
definition GTP_IE_NODE_FEATURES :: u8 where "GTP_IE_NODE_FEATURES = 152"
definition GTP_IE_CIOT_OPTIMIZATIONS_SUPPORT_INDICATION :: u8 where
  "GTP_IE_CIOT_OPTIMIZATIONS_SUPPORT_INDICATION = 194"

lemmas gtp_ie_types =
  GTP_IE_IMSI_def GTP_IE_CAUSE_def GTP_IE_RECOVERY_RESTART_COUNTER_def GTP_IE_ACCESS_POINT_NAME_def
  GTP_IE_AGGREGATE_MAXIMUM_BIT_RATE_def GTP_IE_EPS_BEARER_ID_def GTP_IE_IP_ADDRESS_def
  GTP_IE_MOBILE_EQUIPMENT_IDENTITY_def GTP_IE_MSISDN_def GTP_IE_INDICATION_def
  GTP_IE_PROTOCOL_CONFIGURATION_OPTIONS_def GTP_IE_PDN_ADDRESS_ALLOCATION_def
  GTP_IE_BEARER_QUALITY_OF_SERVICE_def GTP_IE_FLOW_QUALITY_OF_SERVICE_def GTP_IE_RAT_TYPE_def
  GTP_IE_SERVING_NETWORK_def GTP_IE_EPS_BEARER_LEVEL_TRAFFIC_FLOW_TEMPLATE_def
  GTP_IE_USER_LOCATION_INFORMATION_def GTP_IE_FULLY_QUALIFIED_TUNNEL_ENDPOINT_IDENTIFIER_def
  GTP_IE_DELAY_VALUE_def GTP_IE_BEARER_CONTEXT_def GTP_IE_CHARGING_ID_def GTP_IE_BEARER_FLAGS_def
  GTP_IE_PDN_TYPE_def GTP_IE_UE_TIME_ZONE_def GTP_IE_APN_RESTRICTION_def GTP_IE_SELECTION_MODE_def
  GTP_IE_FQ_CSID_def GTP_IE_NODE_TYPE_def GTP_IE_NODE_FEATURES_def
  GTP_IE_CIOT_OPTIMIZATIONS_SUPPORT_INDICATION_def

section \<open>The interface of an information element\<close>

text \<open>
  What a class of information elements promises for the values \<open>ok\<close> with their header: \<^verbatim>\<open>dump_to\<close>
  writes the header and as many bytes as its length field says, keeps the header, and \<^verbatim>\<open>load_from\<close> on
  those bytes gives the value back and stops right after them. A stable class also keeps the value,
  so that the element can be dumped again, as a retransmission does.
\<close>

locale ie_codec =
  fixes dump :: "gtpv2c_tlv \<Rightarrow> 'v \<Rightarrow> (bytes \<times> gtpv2c_tlv \<times> 'v) gtpc_result"
    and load :: "gtpv2c_tlv \<Rightarrow> istream \<Rightarrow> ('v \<times> istream) gtpc_result"
    and ok :: "gtpv2c_tlv \<Rightarrow> 'v \<Rightarrow> bool"
  assumes dump_load: "ok t v \<Longrightarrow> \<exists>bs v'. dump t v = Inr (tlv_dump_to t @ bs, t, v')
      \<and> length bs = unat (tlv_length t) \<and> (\<forall>r. load t (istream_of (bs @ r)) = Inr (v, istream_of r))"
begin

lemma dump_loadE:
  assumes "ok t v"
  obtains bs v' where "dump t v = Inr (tlv_dump_to t @ bs, t, v')" and "length bs = unat (tlv_length t)"
    and "\<And>r. load t (istream_of (bs @ r)) = Inr (v, istream_of r)"
  using dump_load [OF assms] by blast

lemma dump_length:
  "ok t v \<Longrightarrow> dump t v = Inr (bs, t', v') \<Longrightarrow> t' = t \<and> length bs = 4 + unat (tlv_length t)"
  by (erule dump_loadE) auto

text \<open>Two values that dump to the same bytes are the same.\<close>

lemma dump_inject:
  assumes "ok t v" and "ok t w" and "dump t v = Inr (bs, t1, v')" and "dump t w = Inr (bs, t2, w')"
  shows "v = w"
proof -
  from assms(1,3) obtain p where p: "bs = tlv_dump_to t @ p" "load t (istream_of p) = Inr (v, istream_of [])"
    by (elim dump_loadE) (metis Inr_inject append_Nil2 prod.inject)
  from assms(2,4) obtain q where "bs = tlv_dump_to t @ q" "load t (istream_of q) = Inr (w, istream_of [])"
    by (elim dump_loadE) (metis Inr_inject append_Nil2 prod.inject)
  with p show ?thesis by simp
qed

end

locale stable_ie_codec = ie_codec +
  assumes dump_same: "ok t v \<Longrightarrow> dump t v = Inr (bs, t', v') \<Longrightarrow> t' = t \<and> v' = v"
begin

lemma dump_again: "ok t v \<Longrightarrow> dump t v = Inr (bs, t', v') \<Longrightarrow> dump t' v' = Inr (bs, t', v')"
  using dump_same by blast

end

lemma stable_ie_codecI:
  assumes "\<And>t v. ok t v \<Longrightarrow> \<exists>bs. dump t v = Inr (tlv_dump_to t @ bs, t, v)
      \<and> length bs = unat (tlv_length t) \<and> (\<forall>r. load t (istream_of (bs @ r)) = Inr (v, istream_of r))"
  shows "stable_ie_codec dump load ok"
proof
  fix t v bs t' v' assume "ok t v"
  from assms [OF this] show "\<exists>bs v'. dump t v = Inr (tlv_dump_to t @ bs, t, v')
      \<and> length bs = unat (tlv_length t) \<and> (\<forall>r. load t (istream_of (bs @ r)) = Inr (v, istream_of r))"
    by blast
  from assms [OF \<open>ok t v\<close>] show "t' = t \<and> v' = v" if "dump t v = Inr (bs, t', v')" using that by auto
qed

lemma tlv_same_length [simp]: "tlv_length t = l \<Longrightarrow> t\<lparr>tlv_length := l\<rparr> = t"
  by auto

text \<open>The classes whose \<^verbatim>\<open>dump_to\<close> neither fails nor writes to the object.\<close>

abbreviation pure_dump :: "(gtpv2c_tlv \<Rightarrow> 'v \<Rightarrow> bytes) \<Rightarrow> gtpv2c_tlv \<Rightarrow> 'v \<Rightarrow> (bytes \<times> gtpv2c_tlv \<times> 'v) gtpc_result"
  where "pure_dump d t v \<equiv> Inr (d t v, t, v)"

lemma ie_codec_pureI:
  assumes "\<And>t v. ok t v \<Longrightarrow> d t v = tlv_dump_to t @ p v \<and> length (p v) = unat (tlv_length t)"
    and "\<And>t v r. ok t v \<Longrightarrow> ld t (istream_of (p v @ r)) = Inr (v, istream_of r)"
  shows "stable_ie_codec (pure_dump d) ld ok"
  using assms by (intro stable_ie_codecI) auto

section \<open>Subscriber and equipment identities\<close>

text \<open>
  Three classes keep up to 16 binary coded digits in an array of eight bytes. The array is read and
  written through its byte view with the length of the header, which nothing bounds.
\<close>

record bcd8 =
  bcd_b :: bytes
  num_digits :: u32

definition bcd8_new :: bcd8 where
  "bcd8_new = \<lparr>bcd_b = replicate 8 0, num_digits = 0\<rparr>"

definition imsi_dump_to :: "gtpv2c_tlv \<Rightarrow> bcd8 \<Rightarrow> (bytes \<times> gtpv2c_tlv \<times> bcd8) gtpc_result" where
  "imsi_dump_to t v =
     (let n = unat (tlv_length t) in
      if n > length (bcd_b v) then Inl (Undefined Out_of_range)
      else Inr (tlv_dump_to t @ take n (bcd_b v), t, v))"

definition imsi_load_from :: "gtpv2c_tlv \<Rightarrow> bcd8 \<Rightarrow> istream \<Rightarrow> (bcd8 \<times> istream) gtpc_result" where
  "imsi_load_from t v s =
     (let n = unat (tlv_length t) in
      if n = 0 \<or> n > length (bcd_b v) then Inl (Undefined Out_of_range)
      else case is_read (take n (bcd_b v)) s of (bs, s') \<Rightarrow>
        (let d = ucast (tlv_length t) * 2;
             d' = (if bs ! (n - 1) AND 0xF0 = 0xF0 then d - 1 else d)
         in Inr (\<lparr>bcd_b = bs @ drop n (bcd_b v), num_digits = (if d' > 15 then 15 else d')\<rparr>, s')))"

definition mei_dump_to :: "gtpv2c_tlv \<Rightarrow> bcd8 \<Rightarrow> (bytes \<times> gtpv2c_tlv \<times> bcd8) gtpc_result" where
  "mei_dump_to t v =
     (let n = unat (tlv_length t) in
      if n > length (bcd_b v) then Inl (Undefined Out_of_range)
      else Inr (tlv_dump_to t @ take n (bcd_b v), t, v))"

definition mei_load_from :: "gtpv2c_tlv \<Rightarrow> bcd8 \<Rightarrow> istream \<Rightarrow> (bcd8 \<times> istream) gtpc_result" where
  "mei_load_from t v s =
     (let n = unat (tlv_length t) in
      if n = 0 \<or> n > length (bcd_b v) then Inl (Undefined Out_of_range)
      else case is_read (take n (bcd_b v)) s of (bs, s') \<Rightarrow>
        (let d = ucast (tlv_length t) * 2;
             d' = (if bs ! (n - 1) AND 0xF0 = 0xF0 then d - 1 else d)
         in Inr (\<lparr>bcd_b = bs @ drop n (bcd_b v), num_digits = (if d' > 15 then 15 else d')\<rparr>, s')))"

text \<open>The MSISDN is the one whose \<^verbatim>\<open>dump_to\<close> computes the length and fills the last digit.\<close>

definition msisdn_dump_to :: "gtpv2c_tlv \<Rightarrow> bcd8 \<Rightarrow> (bytes \<times> gtpv2c_tlv \<times> bcd8) gtpc_result" where
  "msisdn_dump_to t v =
     (let d = (if num_digits v > 15 then 15 else num_digits v);
          n = unat (d div 2);
          b = (if bit d 0 then (bcd_b v)[n := bcd_b v ! n OR 0xF0] else bcd_b v);
          m = (if bit d 0 then n + 1 else n);
          t' = t\<lparr>tlv_length := of_nat m\<rparr>
      in Inr (tlv_dump_to t' @ take m b, t', \<lparr>bcd_b = b, num_digits = d\<rparr>))"

definition msisdn_load_from :: "gtpv2c_tlv \<Rightarrow> bcd8 \<Rightarrow> istream \<Rightarrow> (bcd8 \<times> istream) gtpc_result" where
  "msisdn_load_from t v s =
     (let n = unat (tlv_length t) in
      if n = 0 \<or> n > length (bcd_b v) then Inl (Undefined Out_of_range)
      else case is_read (take n (bcd_b v)) s of (bs, s') \<Rightarrow>
        (let d = ucast (tlv_length t) * 2;
             d' = (if bs ! (n - 1) AND 0xF0 = 0xF0 then d - 1 else d)
         in Inr (\<lparr>bcd_b = bs @ drop n (bcd_b v), num_digits = d'\<rparr>, s')))"

section \<open>Causes, counters, names and rates\<close>

record cause_ie =
  cause_value :: u8
  cause_u1 :: u8
  type_of_the_offending_ie :: u8
  length_of_the_offending_ie :: u16
  cause_u2 :: u8

definition MANDATORY_IE_INCORRECT :: u8 where "MANDATORY_IE_INCORRECT = 69"

definition cause_new :: cause_ie where
  "cause_new = \<lparr>cause_value = 0, cause_u1 = 0, type_of_the_offending_ie = 0,
     length_of_the_offending_ie = 0, cause_u2 = 0\<rparr>"

definition cause_dump_to :: "gtpv2c_tlv \<Rightarrow> cause_ie \<Rightarrow> (bytes \<times> gtpv2c_tlv \<times> cause_ie) gtpc_result" where
  "cause_dump_to t v =
     (let t' = t\<lparr>tlv_length := (if cause_value v = MANDATORY_IE_INCORRECT then 6 else 2)\<rparr> in
      Inr (tlv_dump_to t' @ [cause_value v, cause_u1 v]
             @ (if tlv_length t' = 6
                then type_of_the_offending_ie v # be_bytes 2 (length_of_the_offending_ie v) else []),
           t', v))"

definition cause_load_from :: "gtpv2c_tlv \<Rightarrow> cause_ie \<Rightarrow> istream \<Rightarrow> (cause_ie \<times> istream) gtpc_result" where
  "cause_load_from t v s =
     (case read_u8 (cause_value v) s of (c, s1) \<Rightarrow>
      case read_u8 (cause_u1 v) s1 of (b1, s2) \<Rightarrow>
      if tlv_length t = 6 then
        (case read_u8 (type_of_the_offending_ie v) s2 of (ty, s3) \<Rightarrow>
         case read_be 2 (length_of_the_offending_ie v) s3 of (l, s4) \<Rightarrow>
         case read_u8 (cause_u2 v) s4 of (b2, s5) \<Rightarrow>
           Inr (\<lparr>cause_value = c, cause_u1 = b1, type_of_the_offending_ie = ty,
                  length_of_the_offending_ie = l, cause_u2 = b2\<rparr>, s5))
      else Inr (v\<lparr>cause_value := c, cause_u1 := b1\<rparr>, s2))"

definition recovery_dump_to :: "gtpv2c_tlv \<Rightarrow> u8 \<Rightarrow> bytes" where
  "recovery_dump_to t c = tlv_dump_to t @ [c]"

definition recovery_load_from :: "gtpv2c_tlv \<Rightarrow> u8 \<Rightarrow> istream \<Rightarrow> (u8 \<times> istream) gtpc_result" where
  "recovery_load_from t c s = Inr (read_u8 c s)"

text \<open>
  An access point name is kept in its dotted form. \<^verbatim>\<open>dump_to\<close> sets the length from the converted
  name; the conversions may run for ever or throw (theory \<^verbatim>\<open>Name_Codec\<close>).
\<close>

definition apn_dump_to ::
  "(nat \<Rightarrow> u8) \<Rightarrow> gtpv2c_tlv \<Rightarrow> bytes \<Rightarrow> (bytes \<times> gtpv2c_tlv \<times> bytes) gtpc_result" where
  "apn_dump_to junk t apn =
     (case string_to_dotted (fresh junk (length apn + 1)) apn of
        None \<Rightarrow> Inl (Undefined Endless_loop)
      | Some dotted \<Rightarrow>
          (let t' = t\<lparr>tlv_length := of_nat (length dotted)\<rparr>
           in Inr (tlv_dump_to t' @ dotted, t', apn)))"

definition apn_load_from ::
  "(nat \<Rightarrow> u8) \<Rightarrow> gtpv2c_tlv \<Rightarrow> istream \<Rightarrow> (bytes \<times> istream) gtpc_result" where
  "apn_load_from junk t s =
     (case is_read (fresh junk (unat (tlv_length t))) s of (dot, s') \<Rightarrow>
      case dotted_to_string dot of
        None \<Rightarrow> Inl (Undefined Endless_loop)
      | Some (Inl u) \<Rightarrow> Inl (Undefined u)
      | Some (Inr (_, apn)) \<Rightarrow> Inr (apn, s'))"

record ambr_ie =
  apn_ambr_for_uplink :: u32
  apn_ambr_for_downlink :: u32

definition ambr_new :: ambr_ie where
  "ambr_new = \<lparr>apn_ambr_for_uplink = 0, apn_ambr_for_downlink = 0\<rparr>"

definition ambr_dump_to :: "gtpv2c_tlv \<Rightarrow> ambr_ie \<Rightarrow> bytes" where
  "ambr_dump_to t v =
     tlv_dump_to t @ be_bytes 4 (apn_ambr_for_uplink v) @ be_bytes 4 (apn_ambr_for_downlink v)"

definition ambr_load_from :: "gtpv2c_tlv \<Rightarrow> ambr_ie \<Rightarrow> istream \<Rightarrow> (ambr_ie \<times> istream) gtpc_result" where
  "ambr_load_from t v s =
     (case read_be 4 (apn_ambr_for_uplink v) s of (ul, s1) \<Rightarrow>
      case read_be 4 (apn_ambr_for_downlink v) s1 of (dl, s2) \<Rightarrow>
        Inr (\<lparr>apn_ambr_for_uplink = ul, apn_ambr_for_downlink = dl\<rparr>, s2))"

definition ebi_dump_to :: "gtpv2c_tlv \<Rightarrow> u8 \<Rightarrow> bytes" where
  "ebi_dump_to t b = tlv_dump_to t @ [b]"

definition ebi_load_from :: "gtpv2c_tlv \<Rightarrow> u8 \<Rightarrow> istream \<Rightarrow> (u8 \<times> istream) gtpc_result" where
  "ebi_load_from t b s = Inr (read_u8 b s)"

text \<open>
  The union of the two address forms is its sixteen bytes; the IPv4 address is the first four of
  them. \<^verbatim>\<open>load_from\<close> does not set \<^verbatim>\<open>is_ipv4\<close>.
\<close>

record ip_address_ie =
  ip_u1 :: bytes
  is_ipv4 :: bool

definition ip_address_new :: ip_address_ie where
  "ip_address_new = \<lparr>ip_u1 = replicate 16 0, is_ipv4 = True\<rparr>"

definition ip_address_dump_to :: "gtpv2c_tlv \<Rightarrow> ip_address_ie \<Rightarrow> bytes" where
  "ip_address_dump_to t v = tlv_dump_to t @ (if is_ipv4 v then take 4 (ip_u1 v) else ip_u1 v)"

definition ip_address_load_from ::
  "gtpv2c_tlv \<Rightarrow> ip_address_ie \<Rightarrow> istream \<Rightarrow> (ip_address_ie \<times> istream) gtpc_result" where
  "ip_address_load_from t v s =
     (if tlv_length t = 4 then
        (case is_read (take 4 (ip_u1 v)) s of (bs, s') \<Rightarrow> Inr (v\<lparr>ip_u1 := bs @ drop 4 (ip_u1 v)\<rparr>, s'))
      else if tlv_length t = 16 then
        (case is_read (ip_u1 v) s of (bs, s') \<Rightarrow> Inr (v\<lparr>ip_u1 := bs\<rparr>, s'))
      else Inl (Tlv_bad_length (tlv_type t) (tlv_length t)))"

section \<open>Indication flags and protocol configuration options\<close>

record indication_ie =
  ind_u1 :: u8
  ind_u2 :: u8
  ind_u3 :: u8
  ind_u4 :: u8
  ind_u5 :: u8
  ind_u6 :: u8
  ind_u7 :: u8

definition indication_new :: indication_ie where
  "indication_new = \<lparr>ind_u1 = 0, ind_u2 = 0, ind_u3 = 0, ind_u4 = 0, ind_u5 = 0, ind_u6 = 0, ind_u7 = 0\<rparr>"

definition indication_dump_to :: "gtpv2c_tlv \<Rightarrow> indication_ie \<Rightarrow> bytes" where
  "indication_dump_to t v =
     (let l = tlv_length t in
      tlv_dump_to t @ [ind_u1 v] @ (if l > 1 then [ind_u2 v] else []) @ (if l > 2 then [ind_u3 v] else [])
        @ (if l > 3 then [ind_u4 v] else []) @ (if l > 4 then [ind_u5 v] else [])
        @ (if l > 5 then [ind_u6 v] else []) @ (if l > 6 then [ind_u7 v] else []))"

definition indication_load_from ::
  "gtpv2c_tlv \<Rightarrow> indication_ie \<Rightarrow> istream \<Rightarrow> (indication_ie \<times> istream) gtpc_result" where
  "indication_load_from t v s =
     (let l = tlv_length t in
      if l < 1 then Inl (Tlv_bad_length (tlv_type t) l)
      else
        (case read_u8 (ind_u1 v) s of (b1, s1) \<Rightarrow>
         case (if l > 1 then read_u8 (ind_u2 v) s1 else (ind_u2 v, s1)) of (b2, s2) \<Rightarrow>
         case (if l > 2 then read_u8 (ind_u3 v) s2 else (ind_u3 v, s2)) of (b3, s3) \<Rightarrow>
         case (if l > 3 then read_u8 (ind_u4 v) s3 else (ind_u4 v, s3)) of (b4, s4) \<Rightarrow>
         case (if l > 4 then read_u8 (ind_u5 v) s4 else (ind_u5 v, s4)) of (b5, s5) \<Rightarrow>
         case (if l > 5 then read_u8 (ind_u6 v) s5 else (ind_u6 v, s5)) of (b6, s6) \<Rightarrow>
         case (if l > 6 then read_u8 (ind_u7 v) s6 else (ind_u7 v, s6)) of (b7, s7) \<Rightarrow>
           Inr (\<lparr>ind_u1 = b1, ind_u2 = b2, ind_u3 = b3, ind_u4 = b4, ind_u5 = b5, ind_u6 = b6,
                  ind_u7 = b7\<rparr>, s7)))"

record protocol_or_container_id =
  protocol_id :: u16
  length_of_protocol_id_contents :: u8
  protocol_id_contents :: bytes

definition container_new :: protocol_or_container_id where
  "container_new = \<lparr>protocol_id = 0, length_of_protocol_id_contents = 0, protocol_id_contents = []\<rparr>"

definition container_dump_to :: "protocol_or_container_id \<Rightarrow> bytes" where
  "container_dump_to c =
     be_bytes 2 (protocol_id c) @ [length_of_protocol_id_contents c] @ protocol_id_contents c"

definition container_load_from ::
  "(nat \<Rightarrow> u8) \<Rightarrow> protocol_or_container_id \<Rightarrow> istream \<Rightarrow> protocol_or_container_id \<times> istream" where
  "container_load_from junk c s =
     (case read_be 2 (protocol_id c) s of (pid, s1) \<Rightarrow>
      case read_u8 (length_of_protocol_id_contents c) s1 of (l, s2) \<Rightarrow>
      case is_read (fresh junk (unat l)) s2 of (bs, s3) \<Rightarrow>
        (\<lparr>protocol_id = pid, length_of_protocol_id_contents = l, protocol_id_contents = bs\<rparr>, s3))"

record pco_ie =
  pco_u1 :: u8
  num_protocol_or_container_id :: u8
  protocol_or_container_ids :: "protocol_or_container_id list"

definition pco_new :: pco_ie where
  "pco_new = \<lparr>pco_u1 = 0x80, num_protocol_or_container_id = 0, protocol_or_container_ids = []\<rparr>"

definition pco_dump_to :: "gtpv2c_tlv \<Rightarrow> pco_ie \<Rightarrow> bytes" where
  "pco_dump_to t v =
     tlv_dump_to t @ [pco_u1 v] @ concat (map container_dump_to (protocol_or_container_ids v))"

text \<open>Every turn of the loop takes three or more off \<^verbatim>\<open>remaining_size\<close>.\<close>

function pco_loop ::
  "(nat \<Rightarrow> u8) \<Rightarrow> gtpv2c_tlv \<Rightarrow> int \<Rightarrow> pco_ie \<Rightarrow> istream \<Rightarrow> (pco_ie \<times> istream) gtpc_result" where
  "pco_loop junk t remaining_size v s =
     (if remaining_size > 0 then
        (case container_load_from junk container_new s of (c, s') \<Rightarrow>
         let n = int (unat (length_of_protocol_id_contents c)) + 3 in
         if n \<le> remaining_size
         then pco_loop junk t (remaining_size - n)
                (v\<lparr>protocol_or_container_ids := protocol_or_container_ids v @ [c],
                   num_protocol_or_container_id := num_protocol_or_container_id v + 1\<rparr>) s'
         else Inl (Tlv_bad_length (tlv_type t) (tlv_length t)))
      else Inr (v, s))"
  by pat_completeness auto
termination by (relation "measure (\<lambda>(_, _, n, _). nat n)") (auto simp del: of_nat_unat)

declare pco_loop.simps [simp del]

definition pco_load_from ::
  "(nat \<Rightarrow> u8) \<Rightarrow> gtpv2c_tlv \<Rightarrow> pco_ie \<Rightarrow> istream \<Rightarrow> (pco_ie \<times> istream) gtpc_result" where
  "pco_load_from junk t v s =
     (case read_u8 (pco_u1 v) s of (b, s') \<Rightarrow>
        pco_loop junk t (int (unat (tlv_length t)) - 1)
          (v\<lparr>pco_u1 := b, num_protocol_or_container_id := 0\<rparr>) s')"

definition bearer_tft_dump_to :: "gtpv2c_tlv \<Rightarrow> u8 \<Rightarrow> bytes" where
  "bearer_tft_dump_to t b = tlv_dump_to t @ [b]"

definition bearer_tft_load_from :: "gtpv2c_tlv \<Rightarrow> u8 \<Rightarrow> istream \<Rightarrow> (u8 \<times> istream) gtpc_result" where
  "bearer_tft_load_from t b s = Inr (read_u8 b s)"

section \<open>Elements of a fixed length\<close>

text \<open>The elements below check the length of the header before they read.\<close>

definition charging_id_dump_to :: "gtpv2c_tlv \<Rightarrow> u32 \<Rightarrow> bytes" where
  "charging_id_dump_to t c = tlv_dump_to t @ be_bytes 4 c"

definition charging_id_load_from :: "gtpv2c_tlv \<Rightarrow> u32 \<Rightarrow> istream \<Rightarrow> (u32 \<times> istream) gtpc_result" where
  "charging_id_load_from t c s =
     (if tlv_length t \<noteq> 4 then Inl (Tlv_bad_length (tlv_type t) (tlv_length t)) else Inr (read_be 4 c s))"

definition bearer_flags_dump_to :: "gtpv2c_tlv \<Rightarrow> u8 \<Rightarrow> bytes" where
  "bearer_flags_dump_to t b = tlv_dump_to t @ [b]"

definition bearer_flags_load_from :: "gtpv2c_tlv \<Rightarrow> u8 \<Rightarrow> istream \<Rightarrow> (u8 \<times> istream) gtpc_result" where
  "bearer_flags_load_from t b s =
     (if tlv_length t \<noteq> 1 then Inl (Tlv_bad_length (tlv_type t) (tlv_length t)) else Inr (read_u8 b s))"

definition pdn_type_dump_to :: "gtpv2c_tlv \<Rightarrow> u8 \<Rightarrow> bytes" where
  "pdn_type_dump_to t b = tlv_dump_to t @ [b]"

definition pdn_type_load_from :: "gtpv2c_tlv \<Rightarrow> u8 \<Rightarrow> istream \<Rightarrow> (u8 \<times> istream) gtpc_result" where
  "pdn_type_load_from t b s =
     (if tlv_length t \<noteq> 1 then Inl (Tlv_bad_length (tlv_type t) (tlv_length t)) else Inr (read_u8 b s))"

definition rat_type_dump_to :: "gtpv2c_tlv \<Rightarrow> u8 \<Rightarrow> bytes" where
  "rat_type_dump_to t b = tlv_dump_to t @ [b]"

definition rat_type_load_from :: "gtpv2c_tlv \<Rightarrow> u8 \<Rightarrow> istream \<Rightarrow> (u8 \<times> istream) gtpc_result" where
  "rat_type_load_from t b s =
     (if tlv_length t \<noteq> 1 then Inl (Tlv_bad_length (GTP_IE_RAT_TYPE) (tlv_length t)) else Inr (read_u8 b s))"

definition delay_value_dump_to :: "gtpv2c_tlv \<Rightarrow> u8 \<Rightarrow> bytes" where
  "delay_value_dump_to t b = tlv_dump_to t @ [b]"

definition delay_value_load_from :: "gtpv2c_tlv \<Rightarrow> u8 \<Rightarrow> istream \<Rightarrow> (u8 \<times> istream) gtpc_result" where
  "delay_value_load_from t b s =
     (if tlv_length t \<noteq> 1 then Inl (Tlv_bad_length (tlv_type t) (tlv_length t)) else Inr (read_u8 b s))"

definition apn_restriction_dump_to :: "gtpv2c_tlv \<Rightarrow> u8 \<Rightarrow> bytes" where
  "apn_restriction_dump_to t b = tlv_dump_to t @ [b]"

definition apn_restriction_load_from :: "gtpv2c_tlv \<Rightarrow> u8 \<Rightarrow> istream \<Rightarrow> (u8 \<times> istream) gtpc_result" where
  "apn_restriction_load_from t b s =
     (if tlv_length t \<noteq> 1 then Inl (Tlv_bad_length (tlv_type t) (tlv_length t)) else Inr (read_u8 b s))"

definition selection_mode_dump_to :: "gtpv2c_tlv \<Rightarrow> u8 \<Rightarrow> bytes" where
  "selection_mode_dump_to t b = tlv_dump_to t @ [b]"

definition selection_mode_load_from :: "gtpv2c_tlv \<Rightarrow> u8 \<Rightarrow> istream \<Rightarrow> (u8 \<times> istream) gtpc_result" where
  "selection_mode_load_from t b s =
     (if tlv_length t \<noteq> 1 then Inl (Tlv_bad_length (tlv_type t) (tlv_length t)) else Inr (read_u8 b s))"

definition node_type_dump_to :: "gtpv2c_tlv \<Rightarrow> u8 \<Rightarrow> bytes" where
  "node_type_dump_to t b = tlv_dump_to t @ [b]"

definition node_type_load_from :: "gtpv2c_tlv \<Rightarrow> u8 \<Rightarrow> istream \<Rightarrow> (u8 \<times> istream) gtpc_result" where
  "node_type_load_from t b s =
     (if tlv_length t \<noteq> 1 then Inl (Tlv_bad_length (tlv_type t) (tlv_length t)) else Inr (read_u8 b s))"

definition node_features_dump_to :: "gtpv2c_tlv \<Rightarrow> u8 \<Rightarrow> bytes" where
  "node_features_dump_to t b = tlv_dump_to t @ [b]"

definition node_features_load_from :: "gtpv2c_tlv \<Rightarrow> u8 \<Rightarrow> istream \<Rightarrow> (u8 \<times> istream) gtpc_result" where
  "node_features_load_from t b s =
     (if tlv_length t \<noteq> 1 then Inl (Tlv_bad_length (tlv_type t) (tlv_length t)) else Inr (read_u8 b s))"

definition ciot_optimizations_dump_to :: "gtpv2c_tlv \<Rightarrow> u8 \<Rightarrow> bytes" where
  "ciot_optimizations_dump_to t b = tlv_dump_to t @ [b]"

definition ciot_optimizations_load_from :: "gtpv2c_tlv \<Rightarrow> u8 \<Rightarrow> istream \<Rightarrow> (u8 \<times> istream) gtpc_result" where
  "ciot_optimizations_load_from t b s =
     (if tlv_length t \<noteq> 1 then Inl (Tlv_bad_length (tlv_type t) (tlv_length t)) else Inr (read_u8 b s))"

record ue_time_zone_ie =
  time_zone :: u8
  utz_u1 :: u8

definition ue_time_zone_new :: ue_time_zone_ie where
  "ue_time_zone_new = \<lparr>time_zone = 0, utz_u1 = 0\<rparr>"

definition ue_time_zone_dump_to :: "gtpv2c_tlv \<Rightarrow> ue_time_zone_ie \<Rightarrow> bytes" where
  "ue_time_zone_dump_to t v = tlv_dump_to t @ [time_zone v, utz_u1 v]"

definition ue_time_zone_load_from ::
  "gtpv2c_tlv \<Rightarrow> ue_time_zone_ie \<Rightarrow> istream \<Rightarrow> (ue_time_zone_ie \<times> istream) gtpc_result" where
  "ue_time_zone_load_from t v s =
     (if tlv_length t \<noteq> 2 then Inl (Tlv_bad_length (tlv_type t) (tlv_length t))
      else case read_u8 (time_zone v) s of (z, s1) \<Rightarrow>
           case read_u8 (utz_u1 v) s1 of (b, s2) \<Rightarrow> Inr (\<lparr>time_zone = z, utz_u1 = b\<rparr>, s2))"

record serving_network_ie =
  sn_u1 :: u8
  sn_u2 :: u8
  sn_u3 :: u8

definition serving_network_new :: serving_network_ie where
  "serving_network_new = \<lparr>sn_u1 = 0, sn_u2 = 0, sn_u3 = 0\<rparr>"

definition serving_network_dump_to :: "gtpv2c_tlv \<Rightarrow> serving_network_ie \<Rightarrow> bytes" where
  "serving_network_dump_to t v = tlv_dump_to t @ [sn_u1 v, sn_u2 v, sn_u3 v]"

definition serving_network_load_from ::
  "gtpv2c_tlv \<Rightarrow> serving_network_ie \<Rightarrow> istream \<Rightarrow> (serving_network_ie \<times> istream) gtpc_result" where
  "serving_network_load_from t v s =
     (if tlv_length t \<noteq> 3 then Inl (Tlv_bad_length GTP_IE_SERVING_NETWORK (tlv_length t))
      else case read_u8 (sn_u1 v) s of (b1, s1) \<Rightarrow>
           case read_u8 (sn_u2 v) s1 of (b2, s2) \<Rightarrow>
           case read_u8 (sn_u3 v) s2 of (b3, s3) \<Rightarrow> Inr (\<lparr>sn_u1 = b1, sn_u2 = b2, sn_u3 = b3\<rparr>, s3))"

text \<open>The four bit rates of the quality of service are arrays of five bytes.\<close>

record bearer_qos_ie =
  bq_u1 :: u8
  bq_label_qci :: u8
  bq_maximum_bit_rate_for_uplink :: bytes
  bq_maximum_bit_rate_for_downlink :: bytes
  bq_guaranted_bit_rate_for_uplink :: bytes
  bq_guaranted_bit_rate_for_downlink :: bytes

definition bearer_qos_new :: bearer_qos_ie where
  "bearer_qos_new = \<lparr>bq_u1 = 0, bq_label_qci = 0,
     bq_maximum_bit_rate_for_uplink = replicate 5 0, bq_maximum_bit_rate_for_downlink = replicate 5 0,
     bq_guaranted_bit_rate_for_uplink = replicate 5 0, bq_guaranted_bit_rate_for_downlink = replicate 5 0\<rparr>"

definition bearer_qos_dump_to :: "gtpv2c_tlv \<Rightarrow> bearer_qos_ie \<Rightarrow> bytes" where
  "bearer_qos_dump_to t v =
     tlv_dump_to t @ [bq_u1 v, bq_label_qci v]
       @ bq_maximum_bit_rate_for_uplink v @ bq_maximum_bit_rate_for_downlink v
       @ bq_guaranted_bit_rate_for_uplink v @ bq_guaranted_bit_rate_for_downlink v"

definition bearer_qos_load_from ::
  "gtpv2c_tlv \<Rightarrow> bearer_qos_ie \<Rightarrow> istream \<Rightarrow> (bearer_qos_ie \<times> istream) gtpc_result" where
  "bearer_qos_load_from t v s =
     (if tlv_length t \<noteq> 22 then Inl (Tlv_bad_length GTP_IE_BEARER_QUALITY_OF_SERVICE (tlv_length t))
      else case read_u8 (bq_u1 v) s of (b, s1) \<Rightarrow>
           case read_u8 (bq_label_qci v) s1 of (q, s2) \<Rightarrow>
           case is_read (bq_maximum_bit_rate_for_uplink v) s2 of (mu, s3) \<Rightarrow>
           case is_read (bq_maximum_bit_rate_for_downlink v) s3 of (md, s4) \<Rightarrow>
           case is_read (bq_guaranted_bit_rate_for_uplink v) s4 of (gu, s5) \<Rightarrow>
           case is_read (bq_guaranted_bit_rate_for_downlink v) s5 of (gd, s6) \<Rightarrow>
             Inr (\<lparr>bq_u1 = b, bq_label_qci = q,
                    bq_maximum_bit_rate_for_uplink = mu, bq_maximum_bit_rate_for_downlink = md,
                    bq_guaranted_bit_rate_for_uplink = gu, bq_guaranted_bit_rate_for_downlink = gd\<rparr>, s6))"

record flow_qos_ie =
  fq_label_qci :: u8
  fq_maximum_bit_rate_for_uplink :: bytes
  fq_maximum_bit_rate_for_downlink :: bytes
  fq_guaranted_bit_rate_for_uplink :: bytes
  fq_guaranted_bit_rate_for_downlink :: bytes

definition flow_qos_new :: flow_qos_ie where
  "flow_qos_new = \<lparr>fq_label_qci = 0,
     fq_maximum_bit_rate_for_uplink = replicate 5 0, fq_maximum_bit_rate_for_downlink = replicate 5 0,
     fq_guaranted_bit_rate_for_uplink = replicate 5 0, fq_guaranted_bit_rate_for_downlink = replicate 5 0\<rparr>"

definition flow_qos_dump_to :: "gtpv2c_tlv \<Rightarrow> flow_qos_ie \<Rightarrow> bytes" where
  "flow_qos_dump_to t v =
     tlv_dump_to t @ [fq_label_qci v]
       @ fq_maximum_bit_rate_for_uplink v @ fq_maximum_bit_rate_for_downlink v
       @ fq_guaranted_bit_rate_for_uplink v @ fq_guaranted_bit_rate_for_downlink v"

definition flow_qos_load_from ::
  "gtpv2c_tlv \<Rightarrow> flow_qos_ie \<Rightarrow> istream \<Rightarrow> (flow_qos_ie \<times> istream) gtpc_result" where
  "flow_qos_load_from t v s =
     (if tlv_length t \<noteq> 21 then Inl (Tlv_bad_length GTP_IE_FLOW_QUALITY_OF_SERVICE (tlv_length t))
      else case read_u8 (fq_label_qci v) s of (q, s2) \<Rightarrow>
           case is_read (fq_maximum_bit_rate_for_uplink v) s2 of (mu, s3) \<Rightarrow>
           case is_read (fq_maximum_bit_rate_for_downlink v) s3 of (md, s4) \<Rightarrow>
           case is_read (fq_guaranted_bit_rate_for_uplink v) s4 of (gu, s5) \<Rightarrow>
           case is_read (fq_guaranted_bit_rate_for_downlink v) s5 of (gd, s6) \<Rightarrow>
             Inr (\<lparr>fq_label_qci = q,
                    fq_maximum_bit_rate_for_uplink = mu, fq_maximum_bit_rate_for_downlink = md,
                    fq_guaranted_bit_rate_for_uplink = gu, fq_guaranted_bit_rate_for_downlink = gd\<rparr>, s6))"

section \<open>Addresses and tunnel endpoints\<close>

text \<open>
  An \<^verbatim>\<open>in_addr\<close> is the word that memory holds in network byte order; an \<^verbatim>\<open>in6_addr\<close> is its sixteen
  bytes. Neither is converted on the way in or out.
\<close>

definition ipv6_address_dump_to :: "bytes \<Rightarrow> bytes" where
  "ipv6_address_dump_to a = a"

definition ipv6_address_load_from :: "bytes \<Rightarrow> istream \<Rightarrow> bytes \<times> istream" where
  "ipv6_address_load_from a s = is_read a s"

definition ipv4_address_dump_to :: "u32 \<Rightarrow> bytes" where
  "ipv4_address_dump_to a = mem_bytes 4 a"

definition ipv4_address_load_from :: "u32 \<Rightarrow> istream \<Rightarrow> u32 \<times> istream" where
  "ipv4_address_load_from a s = read_raw 4 a s"

definition in6addr_any :: bytes where
  "in6addr_any = replicate 16 0"

record paa_ie =
  paa_u1 :: u8
  paa_ipv6_prefix_length :: u8
  paa_ipv6_address :: bytes
  paa_ipv4_address :: u32

text \<open>The constructor sets the PDN type and leaves the five spare bits as they are in memory.\<close>

definition paa_new :: "(nat \<Rightarrow> u8) \<Rightarrow> paa_ie" where
  "paa_new junk = \<lparr>paa_u1 = (junk 0 AND 0xF8) OR PDN_TYPE_E_NON_IP, paa_ipv6_prefix_length = 0,
     paa_ipv6_address = in6addr_any, paa_ipv4_address = 0\<rparr>"

definition paa_dump_to :: "gtpv2c_tlv \<Rightarrow> paa_ie \<Rightarrow> (bytes \<times> gtpv2c_tlv \<times> paa_ie) gtpc_result" where
  "paa_dump_to t v =
     (let ty = paa_u1 v AND 0x07; h = tlv_dump_to t @ [paa_u1 v] in
      if ty = PDN_TYPE_E_IPV4 then Inr (h @ ipv4_address_dump_to (paa_ipv4_address v), t, v)
      else if ty = PDN_TYPE_E_IPV6
           then Inr (h @ [paa_ipv6_prefix_length v] @ ipv6_address_dump_to (paa_ipv6_address v), t, v)
      else if ty = PDN_TYPE_E_IPV4V6
           then Inr (h @ [paa_ipv6_prefix_length v] @ ipv6_address_dump_to (paa_ipv6_address v)
                       @ ipv4_address_dump_to (paa_ipv4_address v), t, v)
      else if ty = PDN_TYPE_E_NON_IP then Inr (h, t, v)
      else Inl (Ie_value GTP_IE_PDN_ADDRESS_ALLOCATION ''pdn_type''))"

definition paa_load_from :: "gtpv2c_tlv \<Rightarrow> paa_ie \<Rightarrow> istream \<Rightarrow> (paa_ie \<times> istream) gtpc_result" where
  "paa_load_from t v s =
     (case read_u8 (paa_u1 v) s of (b, s1) \<Rightarrow>
      let ty = b AND 0x07; bad = Inl (Tlv_bad_length GTP_IE_PDN_ADDRESS_ALLOCATION (tlv_length t)) in
      if ty = PDN_TYPE_E_IPV4 then
        (if tlv_length t \<noteq> 5 then bad
         else case ipv4_address_load_from (paa_ipv4_address v) s1 of (a, s2) \<Rightarrow>
           Inr (\<lparr>paa_u1 = b, paa_ipv6_prefix_length = 0, paa_ipv6_address = in6addr_any,
                  paa_ipv4_address = a\<rparr>, s2))
      else if ty = PDN_TYPE_E_IPV6 then
        (if tlv_length t \<noteq> 18 then bad
         else case read_u8 (paa_ipv6_prefix_length v) s1 of (p, s2) \<Rightarrow>
              case ipv6_address_load_from (paa_ipv6_address v) s2 of (a, s3) \<Rightarrow>
           Inr (\<lparr>paa_u1 = b, paa_ipv6_prefix_length = p, paa_ipv6_address = a, paa_ipv4_address = 0\<rparr>, s3))
      else if ty = PDN_TYPE_E_IPV4V6 then
        (if tlv_length t \<noteq> 22 then bad
         else case read_u8 (paa_ipv6_prefix_length v) s1 of (p, s2) \<Rightarrow>
              case ipv6_address_load_from (paa_ipv6_address v) s2 of (a6, s3) \<Rightarrow>
              case ipv4_address_load_from (paa_ipv4_address v) s3 of (a, s4) \<Rightarrow>
           Inr (\<lparr>paa_u1 = b, paa_ipv6_prefix_length = p, paa_ipv6_address = a6, paa_ipv4_address = a\<rparr>, s4))
      else if ty = PDN_TYPE_E_NON_IP then
        (if tlv_length t \<noteq> 1 then bad
         else Inr (\<lparr>paa_u1 = b, paa_ipv6_prefix_length = 0, paa_ipv6_address = in6addr_any,
                     paa_ipv4_address = 0\<rparr>, s1))
      else Inl (Ie_value GTP_IE_PDN_ADDRESS_ALLOCATION ''pdn_type''))"

text \<open>The bits of \<^verbatim>\<open>u1\<close> of an F-TEID: the interface type (six), V6, V4.\<close>

record fteid_ie =
  fteid_u1 :: u8
  teid_gre_key :: u32
  fteid_ipv4_address :: u32
  fteid_ipv6_address :: bytes

definition fteid_new :: fteid_ie where
  "fteid_new = \<lparr>fteid_u1 = 0, teid_gre_key = 0, fteid_ipv4_address = 0, fteid_ipv6_address = in6addr_any\<rparr>"

definition fteid_dump_to :: "gtpv2c_tlv \<Rightarrow> fteid_ie \<Rightarrow> bytes" where
  "fteid_dump_to t v =
     tlv_dump_to t @ [fteid_u1 v] @ be_bytes 4 (teid_gre_key v)
       @ (if bit (fteid_u1 v) 7 then ipv4_address_dump_to (fteid_ipv4_address v) else [])
       @ (if bit (fteid_u1 v) 6 then ipv6_address_dump_to (fteid_ipv6_address v) else [])"

definition fteid_check_length :: "u8 \<Rightarrow> u16" where
  "fteid_check_length b = 5 + (if bit b 7 then 4 else 0) + (if bit b 6 then 16 else 0)"

definition fteid_load_from :: "gtpv2c_tlv \<Rightarrow> fteid_ie \<Rightarrow> istream \<Rightarrow> (fteid_ie \<times> istream) gtpc_result" where
  "fteid_load_from t v s =
     (case read_u8 (fteid_u1 v) s of (b, s1) \<Rightarrow>
      if tlv_length t \<noteq> fteid_check_length b then Inl (Tlv_bad_length (tlv_type t) (tlv_length t))
      else case read_be 4 (teid_gre_key v) s1 of (k, s2) \<Rightarrow>
           case (if bit b 7 then ipv4_address_load_from (fteid_ipv4_address v) s2
                 else (fteid_ipv4_address v, s2)) of (a4, s3) \<Rightarrow>
           case (if bit b 6 then ipv6_address_load_from (fteid_ipv6_address v) s3
                 else (fteid_ipv6_address v, s3)) of (a6, s4) \<Rightarrow>
             Inr (\<lparr>fteid_u1 = b, teid_gre_key = k, fteid_ipv4_address = a4, fteid_ipv6_address = a6\<rparr>, s4))"

text \<open>
  The node identity of a set of PDN connections is a union of an IPv4 address, an IPv6 address and
  three 16-bit numbers, kept here as its sixteen bytes. \<^verbatim>\<open>dump_to\<close> converts the identifiers of the
  vector in place.
\<close>

record fq_csid_ie =
  csid_u1 :: u8
  csid_u2 :: bytes
  pdn_connection_set_identifier :: "u16 list"

definition fq_csid_new :: fq_csid_ie where
  "fq_csid_new = \<lparr>csid_u1 = 0, csid_u2 = replicate 16 0, pdn_connection_set_identifier = []\<rparr>"

definition GLOBAL_UNICAST_IPv4 :: u8 where "GLOBAL_UNICAST_IPv4 = 0"
definition GLOBAL_UNICAST_IPv6 :: u8 where "GLOBAL_UNICAST_IPv6 = 1"
definition TYPE_EXOTIC :: u8 where "TYPE_EXOTIC = 2"

lemmas node_id_defs = GLOBAL_UNICAST_IPv4_def GLOBAL_UNICAST_IPv6_def TYPE_EXOTIC_def

definition exotic_mcc :: "bytes \<Rightarrow> u16" where "exotic_mcc u = word_of_be (rev (take 2 u))"
definition exotic_mnc :: "bytes \<Rightarrow> u16" where "exotic_mnc u = word_of_be (rev (take 2 (drop 2 u)))"
definition exotic_operator_specific_id :: "bytes \<Rightarrow> u16" where
  "exotic_operator_specific_id u = word_of_be (rev (take 2 (drop 4 u)))"

definition exotic_set :: "u16 \<Rightarrow> u16 \<Rightarrow> u16 \<Rightarrow> bytes \<Rightarrow> bytes" where
  "exotic_set mcc mnc osi u = mem_bytes 2 mcc @ mem_bytes 2 mnc @ mem_bytes 2 osi @ drop 6 u"

definition bswap16 :: "u16 \<Rightarrow> u16" where
  "bswap16 w = word_of_be (mem_bytes 2 w)"

definition fq_csid_dump_to :: "gtpv2c_tlv \<Rightarrow> fq_csid_ie \<Rightarrow> (bytes \<times> gtpv2c_tlv \<times> fq_csid_ie) gtpc_result" where
  "fq_csid_dump_to t v =
     (let ty = drop_bit 4 (csid_u1 v);
          h = tlv_dump_to t @ [csid_u1 v];
          xs = map bswap16 (pdn_connection_set_identifier v);
          csids = concat (map (mem_bytes 2) xs);
          v' = v\<lparr>pdn_connection_set_identifier := xs\<rparr>;
          u = csid_u2 v;
          exo = (1000 * uint (exotic_mcc u) + uint (exotic_mnc u)) * 2 ^ 12
      in
      if ty = GLOBAL_UNICAST_IPv4 then Inr (h @ take 4 u @ csids, t, v')
      else if ty = GLOBAL_UNICAST_IPv6 then Inr (h @ u @ csids, t, v')
      else if ty = TYPE_EXOTIC then
        (if exo \<ge> 2 ^ 32 then Inl (Undefined Signed_overflow)
         else Inr (h @ be_bytes 4 (word_of_int exo OR ucast (exotic_operator_specific_id u) :: u32) @ csids, t, v'))
      else Inl (Ie_value GTP_IE_FQ_CSID ''node_id_type''))"

text \<open>\<^verbatim>\<open>x\<close> is uninitialised before each read.\<close>

fun csids_load :: "(nat \<Rightarrow> u8) \<Rightarrow> nat \<Rightarrow> u16 list \<Rightarrow> istream \<Rightarrow> u16 list \<times> istream" where
  "csids_load junk 0 xs s = (xs, s)"
| "csids_load junk (Suc n) xs s =
     (case is_read (fresh junk 2) s of (bs, s') \<Rightarrow> csids_load junk n (xs @ [word_of_be bs]) s')"

definition fq_csid_load_from ::
  "(nat \<Rightarrow> u8) \<Rightarrow> gtpv2c_tlv \<Rightarrow> fq_csid_ie \<Rightarrow> istream \<Rightarrow> (fq_csid_ie \<times> istream) gtpc_result" where
  "fq_csid_load_from junk t v s =
     (case read_u8 (csid_u1 v) s of (b, s1) \<Rightarrow>
      let ty = drop_bit 4 b;
          n = unat (b AND 0x0F);
          bad = Inl (Tlv_bad_length (tlv_type t) (tlv_length t));
          rest = (\<lambda>u s2. case csids_load junk n (pdn_connection_set_identifier v) s2 of (xs, s3) \<Rightarrow>
                    Inr (\<lparr>csid_u1 = b, csid_u2 = u, pdn_connection_set_identifier = xs\<rparr>, s3))
      in
      if ty = GLOBAL_UNICAST_IPv4 then
        (if unat (tlv_length t) < 5 + n * 2 then bad
         else case is_read (take 4 (csid_u2 v)) s1 of (a, s2) \<Rightarrow> rest (a @ drop 4 (csid_u2 v)) s2)
      else if ty = GLOBAL_UNICAST_IPv6 then
        (if unat (tlv_length t) < 17 + n * 2 then bad
         else case is_read (csid_u2 v) s1 of (a, s2) \<Rightarrow> rest a s2)
      else if ty = TYPE_EXOTIC then
        (if unat (tlv_length t) < 5 + n * 2 then bad
         else case read_be 4 (0 :: u32) s1 of (e, s2) \<Rightarrow>
           rest (exotic_set (ucast (drop_bit 12 e div 1000)) (ucast (drop_bit 12 e mod 1000))
                   (ucast (e AND 0xFFF)) (csid_u2 v)) s2)
      else Inl (Ie_value GTP_IE_FQ_CSID ''node_id_type''))"

end
