(* ===== verification/Pfcp_Types.thy ===== *)
theory Pfcp_Types
  imports Pfcp_Msg Gtpv2c_Ie
begin

text \<open>
  The types that the PFCP codecs share with the rest of the gateway (\<^verbatim>\<open>common/3gpp_29.244.h\<close>): the
  exceptions, the types of the information elements and the structures that the applications fill
  and read, one per class of elements. A structure with one member is that member, a one-bit field is
  a Boolean, a wider bit field an octet that the codecs cut to its width, an \<^verbatim>\<open>in_addr\<close> the word memory
  holds, an \<^verbatim>\<open>in6_addr\<close> its sixteen bytes, a string its bytes. The spare bits are left out.
\<close>

section \<open>Exceptions\<close>

text \<open>
  The exceptions of the codecs, without the place they are thrown at, and undefined behaviour as one
  more way not to return.
\<close>

datatype pfcp_error =
    Ptlv_bad_length u16 u16
  | Pie_value u16 string
  | Pie_unimplemented u16
  | Pmsg_bad_length u8 u16 u16 u16
  | Pmsg_illegal_ie u8 u16
  | Pundefined ub

type_synonym 'a pfcp_result = "pfcp_error + 'a"

definition rbind :: "'a pfcp_result \<Rightarrow> ('a \<Rightarrow> 'b pfcp_result) \<Rightarrow> 'b pfcp_result" where
  "rbind r f = (case r of Inl e \<Rightarrow> Inl e | Inr a \<Rightarrow> f a)"

lemma rbind_simps [simp]: "rbind (Inr a) f = f a" "rbind (Inl e) f = Inl e"
  by (simp_all add: rbind_def)

lemma rbind_Inr_iff: "rbind r f = Inr b \<longleftrightarrow> (\<exists>a. r = Inr a \<and> f a = Inr b)"
  by (cases r) simp_all

section \<open>The types of the information elements\<close>

definition PFCP_IE_CREATE_PDR :: u16 where "PFCP_IE_CREATE_PDR = 1"
definition PFCP_IE_PDI :: u16 where "PFCP_IE_PDI = 2"
definition PFCP_IE_CREATE_FAR :: u16 where "PFCP_IE_CREATE_FAR = 3"
definition PFCP_IE_FORWARDING_PARAMETERS :: u16 where "PFCP_IE_FORWARDING_PARAMETERS = 4"
definition PFCP_IE_DUPLICATING_PARAMETERS :: u16 where "PFCP_IE_DUPLICATING_PARAMETERS = 5"
definition PFCP_IE_CREATE_URR :: u16 where "PFCP_IE_CREATE_URR = 6"
definition PFCP_IE_CREATE_QER :: u16 where "PFCP_IE_CREATE_QER = 7"
definition PFCP_IE_CREATED_PDR :: u16 where "PFCP_IE_CREATED_PDR = 8"
definition PFCP_IE_UPDATE_PDR :: u16 where "PFCP_IE_UPDATE_PDR = 9"
definition PFCP_IE_UPDATE_FAR :: u16 where "PFCP_IE_UPDATE_FAR = 10"
definition PFCP_IE_UPDATE_FORWARDING_PARAMETERS :: u16 where "PFCP_IE_UPDATE_FORWARDING_PARAMETERS = 11"
definition PFCP_IE_UPDATE_BAR_WITHIN_PFCP_SESSION_REPORT_RESPONSE :: u16 where
  "PFCP_IE_UPDATE_BAR_WITHIN_PFCP_SESSION_REPORT_RESPONSE = 12"
definition PFCP_IE_UPDATE_URR :: u16 where "PFCP_IE_UPDATE_URR = 13"
definition PFCP_IE_UPDATE_QER :: u16 where "PFCP_IE_UPDATE_QER = 14"
definition PFCP_IE_REMOVE_PDR :: u16 where "PFCP_IE_REMOVE_PDR = 15"
definition PFCP_IE_REMOVE_FAR :: u16 where "PFCP_IE_REMOVE_FAR = 16"
definition PFCP_IE_REMOVE_URR :: u16 where "PFCP_IE_REMOVE_URR = 17"
definition PFCP_IE_REMOVE_QER :: u16 where "PFCP_IE_REMOVE_QER = 18"
definition PFCP_IE_CAUSE :: u16 where "PFCP_IE_CAUSE = 19"
definition PFCP_IE_SOURCE_INTERFACE :: u16 where "PFCP_IE_SOURCE_INTERFACE = 20"
definition PFCP_IE_F_TEID :: u16 where "PFCP_IE_F_TEID = 21"
definition PFCP_IE_NETWORK_INSTANCE :: u16 where "PFCP_IE_NETWORK_INSTANCE = 22"
definition PFCP_IE_SDF_FILTER :: u16 where "PFCP_IE_SDF_FILTER = 23"
definition PFCP_IE_APPLICATION_ID :: u16 where "PFCP_IE_APPLICATION_ID = 24"
definition PFCP_IE_GATE_STATUS :: u16 where "PFCP_IE_GATE_STATUS = 25"
definition PFCP_IE_MBR :: u16 where "PFCP_IE_MBR = 26"
definition PFCP_IE_GBR :: u16 where "PFCP_IE_GBR = 27"
definition PFCP_IE_QER_CORRELATION_ID :: u16 where "PFCP_IE_QER_CORRELATION_ID = 28"
definition PFCP_IE_PRECEDENCE :: u16 where "PFCP_IE_PRECEDENCE = 29"
definition PFCP_IE_TRANSPORT_LEVEL_MARKING :: u16 where "PFCP_IE_TRANSPORT_LEVEL_MARKING = 30"
definition PFCP_IE_VOLUME_THRESHOLD :: u16 where "PFCP_IE_VOLUME_THRESHOLD = 31"
definition PFCP_IE_TIME_THRESHOLD :: u16 where "PFCP_IE_TIME_THRESHOLD = 32"
definition PFCP_IE_MONITORING_TIME :: u16 where "PFCP_IE_MONITORING_TIME = 33"
definition PFCP_IE_SUBSEQUENT_VOLUME_THRESHOLD :: u16 where "PFCP_IE_SUBSEQUENT_VOLUME_THRESHOLD = 34"
definition PFCP_IE_SUBSEQUENT_TIME_THRESHOLD :: u16 where "PFCP_IE_SUBSEQUENT_TIME_THRESHOLD = 35"
definition PFCP_IE_INACTIVITY_DETECTION_TIME :: u16 where "PFCP_IE_INACTIVITY_DETECTION_TIME = 36"
definition PFCP_IE_REPORTING_TRIGGERS :: u16 where "PFCP_IE_REPORTING_TRIGGERS = 37"
definition PFCP_IE_REPORT_TYPE :: u16 where "PFCP_IE_REPORT_TYPE = 39"
definition PFCP_IE_OFFENDING_IE :: u16 where "PFCP_IE_OFFENDING_IE = 40"
definition PFCP_IE_FORWARDING_POLICY :: u16 where "PFCP_IE_FORWARDING_POLICY = 41"
definition PFCP_IE_DESTINATION_INTERFACE :: u16 where "PFCP_IE_DESTINATION_INTERFACE = 42"
definition PFCP_IE_UP_FUNCTION_FEATURES :: u16 where "PFCP_IE_UP_FUNCTION_FEATURES = 43"
definition PFCP_IE_APPLY_ACTION :: u16 where "PFCP_IE_APPLY_ACTION = 44"
definition PFCP_IE_PACKET_DETECTION_RULE_ID :: u16 where "PFCP_IE_PACKET_DETECTION_RULE_ID = 56"
definition PFCP_IE_F_SEID :: u16 where "PFCP_IE_F_SEID = 57"
definition PFCP_IE_NODE_ID :: u16 where "PFCP_IE_NODE_ID = 60"
definition PFCP_IE_URR_ID :: u16 where "PFCP_IE_URR_ID = 81"
definition PFCP_IE_DOWNLINK_DATA_REPORT :: u16 where "PFCP_IE_DOWNLINK_DATA_REPORT = 83"
definition PFCP_IE_OUTER_HEADER_CREATION :: u16 where "PFCP_IE_OUTER_HEADER_CREATION = 84"
definition PFCP_IE_BAR_ID :: u16 where "PFCP_IE_BAR_ID = 88"
definition PFCP_IE_CP_FUNCTION_FEATURES :: u16 where "PFCP_IE_CP_FUNCTION_FEATURES = 89"
definition PFCP_IE_UE_IP_ADDRESS :: u16 where "PFCP_IE_UE_IP_ADDRESS = 93"
definition PFCP_IE_OUTER_HEADER_REMOVAL :: u16 where "PFCP_IE_OUTER_HEADER_REMOVAL = 95"
definition PFCP_IE_RECOVERY_TIME_STAMP :: u16 where "PFCP_IE_RECOVERY_TIME_STAMP = 96"
definition PFCP_IE_NODE_REPORT_TYPE :: u16 where "PFCP_IE_NODE_REPORT_TYPE = 101"
definition PFCP_IE_ACTIVATE_PREDEFINED_RULES :: u16 where "PFCP_IE_ACTIVATE_PREDEFINED_RULES = 106"
definition PFCP_IE_DEACTIVATE_PREDEFINED_RULES :: u16 where "PFCP_IE_DEACTIVATE_PREDEFINED_RULES = 107"
definition PFCP_IE_FAR_ID :: u16 where "PFCP_IE_FAR_ID = 108"
definition PFCP_IE_QER_ID :: u16 where "PFCP_IE_QER_ID = 109"
definition PFCP_IE_FAILED_RULE_ID :: u16 where "PFCP_IE_FAILED_RULE_ID = 114"
definition PFCP_IE_USER_PLANE_IP_RESOURCE_INFORMATION :: u16 where
  "PFCP_IE_USER_PLANE_IP_RESOURCE_INFORMATION = 116"
definition PFCP_IE_USER_PLANE_INACTIVITY_TIMER :: u16 where "PFCP_IE_USER_PLANE_INACTIVITY_TIMER = 117"
definition PFCP_IE_QFI :: u16 where "PFCP_IE_QFI = 124"
definition PFCP_IE_CREATE_TRAFFIC_ENDPOINT :: u16 where "PFCP_IE_CREATE_TRAFFIC_ENDPOINT = 127"
definition PFCP_IE_USER_ID :: u16 where "PFCP_IE_USER_ID = 141"

lemmas pfcp_ie_types =
  PFCP_IE_CREATE_PDR_def PFCP_IE_PDI_def PFCP_IE_CREATE_FAR_def PFCP_IE_FORWARDING_PARAMETERS_def
  PFCP_IE_DUPLICATING_PARAMETERS_def PFCP_IE_CREATE_URR_def PFCP_IE_CREATE_QER_def PFCP_IE_CREATED_PDR_def
  PFCP_IE_UPDATE_PDR_def PFCP_IE_UPDATE_FAR_def PFCP_IE_UPDATE_FORWARDING_PARAMETERS_def
  PFCP_IE_UPDATE_BAR_WITHIN_PFCP_SESSION_REPORT_RESPONSE_def PFCP_IE_UPDATE_URR_def PFCP_IE_UPDATE_QER_def
  PFCP_IE_REMOVE_PDR_def PFCP_IE_REMOVE_FAR_def PFCP_IE_REMOVE_URR_def PFCP_IE_REMOVE_QER_def
  PFCP_IE_CAUSE_def PFCP_IE_SOURCE_INTERFACE_def PFCP_IE_F_TEID_def PFCP_IE_NETWORK_INSTANCE_def
  PFCP_IE_SDF_FILTER_def PFCP_IE_APPLICATION_ID_def PFCP_IE_GATE_STATUS_def PFCP_IE_MBR_def
  PFCP_IE_GBR_def PFCP_IE_QER_CORRELATION_ID_def PFCP_IE_PRECEDENCE_def PFCP_IE_TRANSPORT_LEVEL_MARKING_def
  PFCP_IE_VOLUME_THRESHOLD_def PFCP_IE_TIME_THRESHOLD_def PFCP_IE_MONITORING_TIME_def
  PFCP_IE_SUBSEQUENT_VOLUME_THRESHOLD_def PFCP_IE_SUBSEQUENT_TIME_THRESHOLD_def
  PFCP_IE_INACTIVITY_DETECTION_TIME_def PFCP_IE_REPORTING_TRIGGERS_def PFCP_IE_REPORT_TYPE_def
  PFCP_IE_OFFENDING_IE_def PFCP_IE_FORWARDING_POLICY_def PFCP_IE_DESTINATION_INTERFACE_def
  PFCP_IE_UP_FUNCTION_FEATURES_def PFCP_IE_APPLY_ACTION_def PFCP_IE_PACKET_DETECTION_RULE_ID_def
  PFCP_IE_F_SEID_def PFCP_IE_NODE_ID_def PFCP_IE_URR_ID_def PFCP_IE_DOWNLINK_DATA_REPORT_def
  PFCP_IE_OUTER_HEADER_CREATION_def PFCP_IE_BAR_ID_def PFCP_IE_CP_FUNCTION_FEATURES_def
  PFCP_IE_UE_IP_ADDRESS_def PFCP_IE_OUTER_HEADER_REMOVAL_def PFCP_IE_RECOVERY_TIME_STAMP_def
  PFCP_IE_NODE_REPORT_TYPE_def PFCP_IE_ACTIVATE_PREDEFINED_RULES_def PFCP_IE_DEACTIVATE_PREDEFINED_RULES_def
  PFCP_IE_FAR_ID_def PFCP_IE_QER_ID_def PFCP_IE_FAILED_RULE_ID_def
  PFCP_IE_USER_PLANE_IP_RESOURCE_INFORMATION_def PFCP_IE_USER_PLANE_INACTIVITY_TIMER_def PFCP_IE_QFI_def
  PFCP_IE_CREATE_TRAFFIC_ENDPOINT_def PFCP_IE_USER_ID_def

section \<open>Core types\<close>

record fteid_t =
  ft_chid :: bool
  ft_ch :: bool
  ft_v4 :: bool
  ft_v6 :: bool
  ft_teid :: teid
  ft_ipv4_address :: u32
  ft_ipv6_address :: bytes
  ft_choose_id :: u8

record sdf_filter_t =
  sf_bid :: bool
  sf_fl :: bool
  sf_spi :: bool
  sf_ttc :: bool
  sf_fd :: bool
  sf_length_of_flow_description :: u16
  sf_flow_description :: bytes
  sf_tos_traffic_class :: bytes
  sf_security_parameter_index :: bytes
  sf_flow_label :: bytes
  sf_sdf_filter_id :: u32

record gate_status_t =
  ul_gate :: u8
  dl_gate :: u8

record mbr_t =
  ul_mbr :: u64
  dl_mbr :: u64

record gbr_t =
  ul_gbr :: u64
  dl_gbr :: u64

record volume_threshold_t =
  vt_tovol :: bool
  vt_ulvol :: bool
  vt_dlvol :: bool
  vt_total_volume :: u64
  vt_uplink_volume :: u64
  vt_downlink_volume :: u64

text \<open>\<^verbatim>\<open>subsequent_volume_threshold_s\<close> has the same members.\<close>

type_synonym subsequent_volume_threshold_t = volume_threshold_t

record reporting_triggers_t =
  rt_liusa :: bool
  rt_droth :: bool
  rt_stop :: bool
  rt_start :: bool
  rt_quhti :: bool
  rt_timth :: bool
  rt_volth :: bool
  rt_perio :: bool
  rt_eveth :: bool
  rt_macar :: bool
  rt_envcl :: bool
  rt_timqu :: bool
  rt_volqu :: bool

record report_type_t =
  upir :: bool
  erir :: bool
  usar :: bool
  dldr :: bool

record forwarding_policy_t =
  forwarding_policy_identifier_length :: u8
  forwarding_policy_identifier :: bytes

text \<open>The features of a user plane function: the structure says of each feature whether it is there.\<close>

datatype up_feature =
    BUCP | DDND | DLBD | TRST | FTUP | PFDM | HEEU | TREU
  | EMPU | PDIU | UDBC | QUOAC | TRACE | FRRT | PFDE | EPFAR
  | DPDRA | ADPDP | UEIP | SSET | MNOP | MTE | BUNDL | GCOM
  | MPAS | RTTL | VTIME | NORP | IPTV | IP6PL | TSCU | MPTCP
  | ATSSS_LL | QFQM | GPQM | MT_EDT | CIOT | ETHAR | DDDS | RDS
  | RTTWP

type_synonym up_function_features_t = "up_feature \<Rightarrow> bool"

definition up_has_features :: "up_function_features_t \<Rightarrow> bool" where
  "up_has_features f \<longleftrightarrow> f BUCP \<or> f DDND \<or> f DLBD \<or> f TRST \<or> f FTUP \<or> f PFDM \<or> f HEEU \<or> f TREU
     \<or> f EMPU \<or> f PDIU \<or> f UDBC \<or> f QUOAC \<or> f TRACE \<or> f FRRT"

record apply_action_t =
  ac_dupl :: bool
  ac_nocp :: bool
  ac_buff :: bool
  ac_forw :: bool
  ac_drop :: bool

record fseid_t =
  fsd_v4 :: bool
  fsd_v6 :: bool
  fsd_seid :: u64
  fsd_ipv4_address :: u32
  fsd_ipv6_address :: bytes

text \<open>\<^verbatim>\<open>u1\<close> is a union: the IPv4 address is the first four of its sixteen bytes.\<close>

record node_id_t =
  nid_type :: u8
  nid_u1 :: bytes
  nid_fqdn :: bytes

record outer_header_creation_t =
  oh_description :: u16
  oh_teid :: u32
  oh_ipv4_address :: u32
  oh_ipv6_address :: bytes
  oh_port_number :: u16

definition PFCP_OHC_GTPU_UDP_IPV4 :: u16 where "PFCP_OHC_GTPU_UDP_IPV4 = 0x0100"
definition PFCP_OHC_GTPU_UDP_IPV6 :: u16 where "PFCP_OHC_GTPU_UDP_IPV6 = 0x0200"
definition PFCP_OHC_UDP_IPV4 :: u16 where "PFCP_OHC_UDP_IPV4 = 0x0400"
definition PFCP_OHC_UDP_IPV6 :: u16 where "PFCP_OHC_UDP_IPV6 = 0x0800"

lemmas ohc_defs = PFCP_OHC_GTPU_UDP_IPV4_def PFCP_OHC_GTPU_UDP_IPV6_def PFCP_OHC_UDP_IPV4_def PFCP_OHC_UDP_IPV6_def

record cp_function_features_t =
  cff_ovrl :: bool
  cff_load :: bool

definition cp_has_features :: "cp_function_features_t \<Rightarrow> bool" where
  "cp_has_features f \<longleftrightarrow> cff_ovrl f \<or> cff_load f"

record ue_ip_address_t =
  uip_ipv6d :: bool
  uip_sd :: bool
  uip_v4 :: bool
  uip_v6 :: bool
  uip_ipv4_address :: u32
  uip_ipv6_address :: bytes
  uip_ipv6_prefix_delegation_bits :: u8

definition FAILED_RULE_ID_TYPE_PDR :: u8 where "FAILED_RULE_ID_TYPE_PDR = 0"
definition FAILED_RULE_ID_TYPE_FAR :: u8 where "FAILED_RULE_ID_TYPE_FAR = 1"
definition FAILED_RULE_ID_TYPE_QER :: u8 where "FAILED_RULE_ID_TYPE_QER = 2"
definition FAILED_RULE_ID_TYPE_URR :: u8 where "FAILED_RULE_ID_TYPE_URR = 3"
definition FAILED_RULE_ID_TYPE_BAR :: u8 where "FAILED_RULE_ID_TYPE_BAR = 4"

lemmas failed_rule_types = FAILED_RULE_ID_TYPE_PDR_def FAILED_RULE_ID_TYPE_FAR_def FAILED_RULE_ID_TYPE_QER_def
  FAILED_RULE_ID_TYPE_URR_def FAILED_RULE_ID_TYPE_BAR_def

record failed_rule_id_t =
  rule_id_type :: u8
  rule_id_value :: u32

record up_ip_resource_t =
  ipr_assosi :: bool
  ipr_assoni :: bool
  ipr_teidri :: u8
  ipr_v6 :: bool
  ipr_v4 :: bool
  ipr_teid_range :: u8
  ipr_ipv4_address :: u32
  ipr_ipv6_address :: bytes
  ipr_network_instance :: u16
  ipr_source_interface :: u8

record user_id_t =
  uid_naif :: bool
  uid_msisdnf :: bool
  uid_imeif :: bool
  uid_imsif :: bool
  uid_length_of_imsi :: u8
  uid_imsi :: bcd8
  uid_length_of_imei :: u8
  uid_imei :: bytes
  uid_length_of_msisdn :: u8
  uid_msisdn :: bcd8
  uid_length_of_nai :: u8
  uid_nai :: bytes

end
