(* ===== verification/Pfcp_Ie.thy ===== *)
theory Pfcp_Ie
  imports Pfcp_Types Name_Codec
begin

text \<open>
  The information elements of PFCP (\<^verbatim>\<open>pfcp/3gpp_29.244.hpp\<close>): for every class that is not a group the
  members of the class, its constructor from the core type (\<open>_of_core\<close>: the header and the members),
  its constructor from a header where that leaves members without a value (\<open>_new\<close>), \<^verbatim>\<open>to_core_type\<close>
  where it is not the identity, \<^verbatim>\<open>dump_to\<close> and \<^verbatim>\<open>load_from\<close>. The constructor of \<^verbatim>\<open>pfcp_ie\<close> takes the type
  as one byte. What memory holds that nobody initialised is the parameter \<open>junk\<close>.
\<close>

section \<open>Shared pieces\<close>

definition pfcp_ie_new :: "u16 \<Rightarrow> u16 \<Rightarrow> pfcp_tlv" where
  "pfcp_ie_new ty l = pfcp_tlv_new (ucast (ucast ty :: u8)) l 0"

definition set_length :: "u16 \<Rightarrow> pfcp_tlv \<Rightarrow> pfcp_tlv" where
  "set_length l t = t\<lparr>ptlv_length := l\<rparr>"

definition add_length :: "u16 \<Rightarrow> pfcp_tlv \<Rightarrow> pfcp_tlv" where
  "add_length l t = t\<lparr>ptlv_length := ptlv_length t + l\<rparr>"

abbreviation bad_length :: "pfcp_tlv \<Rightarrow> 'a pfcp_result" where
  "bad_length t \<equiv> Inl (Ptlv_bad_length (ptlv_type t) (ptlv_length t))"

text \<open>The one-bit fields of an octet, from the least significant bit.\<close>

definition flags :: "bool list \<Rightarrow> u8" where
  "flags bs = horner_sum of_bool 2 bs"

lemma bit_flags: "length bs \<le> 8 \<Longrightarrow> bit (flags bs) n \<longleftrightarrow> n < length bs \<and> bs ! n"
  by (auto simp: flags_def bit_horner_sum_bit_word_iff)

text \<open>Uninitialised members: \<open>n\<close> bytes at an offset of the object.\<close>

definition mem_word :: "(nat \<Rightarrow> u8) \<Rightarrow> nat \<Rightarrow> nat \<Rightarrow> 'a::len word" where
  "mem_word junk k n = word_of_be (map junk [k..<k + n])"

definition mem_array :: "(nat \<Rightarrow> u8) \<Rightarrow> nat \<Rightarrow> nat \<Rightarrow> bytes" where
  "mem_array junk k n = map junk [k..<k + n]"

lemma length_mem_array [simp]: "length (mem_array junk k n) = n"
  by (simp add: mem_array_def)

text \<open>A read, or a write, that a flag asks for.\<close>

definition read_if :: "bool \<Rightarrow> (istream \<Rightarrow> 'v \<times> istream) \<Rightarrow> 'v \<Rightarrow> istream \<Rightarrow> 'v \<times> istream" where
  "read_if c rd old s = (if c then rd s else (old, s))"

lemma read_if_simps [simp]: "read_if True rd old s = rd s" "read_if False rd old s = (old, s)"
  by (simp_all add: read_if_def)

abbreviation (input) only_if :: "bool \<Rightarrow> bytes \<Rightarrow> bytes" where
  "only_if c bs \<equiv> if c then bs else []"

text \<open>\<^verbatim>\<open>ipv4_address_dump_to\<close> and its companions, and the text of a number written with \<^verbatim>\<open>operator<<\<close>.\<close>

definition pfcp_ipv4_address_dump_to :: "u32 \<Rightarrow> bytes" where
  "pfcp_ipv4_address_dump_to a = mem_bytes 4 a"

definition pfcp_ipv4_address_load_from :: "u32 \<Rightarrow> istream \<Rightarrow> u32 \<times> istream" where
  "pfcp_ipv4_address_load_from a s = read_raw 4 a s"

definition pfcp_ipv6_address_dump_to :: "bytes \<Rightarrow> bytes" where
  "pfcp_ipv6_address_dump_to a = a"

definition pfcp_ipv6_address_load_from :: "bytes \<Rightarrow> istream \<Rightarrow> bytes \<times> istream" where
  "pfcp_ipv6_address_load_from a s = is_read a s"

lemmas pfcp_address_defs = pfcp_ipv4_address_dump_to_def pfcp_ipv4_address_load_from_def
  pfcp_ipv6_address_dump_to_def pfcp_ipv6_address_load_from_def

fun decimal :: "nat \<Rightarrow> bytes" where
  "decimal n = (if n < 10 then [of_nat (48 + n)] else decimal (n div 10) @ [of_nat (48 + n mod 10)])"

declare decimal.simps [simp del]

text \<open>The classes whose \<^verbatim>\<open>dump_to\<close> neither fails nor writes to the object.\<close>

abbreviation pdump :: "(pfcp_tlv \<Rightarrow> 'v \<Rightarrow> bytes) \<Rightarrow> pfcp_tlv \<Rightarrow> 'v \<Rightarrow> (bytes \<times> pfcp_tlv \<times> 'v) pfcp_result"
  where "pdump d t v \<equiv> Inr (d t v, t, v)"

section \<open>One number\<close>

text \<open>Elements of one octet.\<close>

definition pfcp_cause_of_core :: "u8 \<Rightarrow> pfcp_tlv \<times> u8" where
  "pfcp_cause_of_core b = (pfcp_ie_new PFCP_IE_CAUSE 1, b)"

definition pfcp_cause_dump_to :: "pfcp_tlv \<Rightarrow> u8 \<Rightarrow> bytes" where
  "pfcp_cause_dump_to t v = pfcp_tlv_dump_to t @ [v]"

definition pfcp_cause_load_from :: "pfcp_tlv \<Rightarrow> u8 \<Rightarrow> istream \<Rightarrow> (u8 \<times> istream) pfcp_result" where
  "pfcp_cause_load_from t v s = (if ptlv_length t \<noteq> 1 then bad_length t else Inr (read_u8 v s))"

definition pfcp_source_interface_of_core :: "u8 \<Rightarrow> pfcp_tlv \<times> u8" where
  "pfcp_source_interface_of_core b = (pfcp_ie_new PFCP_IE_SOURCE_INTERFACE 1, b)"

definition pfcp_source_interface_dump_to :: "pfcp_tlv \<Rightarrow> u8 \<Rightarrow> bytes" where
  "pfcp_source_interface_dump_to t v = pfcp_tlv_dump_to t @ [v]"

definition pfcp_source_interface_load_from :: "pfcp_tlv \<Rightarrow> u8 \<Rightarrow> istream \<Rightarrow> (u8 \<times> istream) pfcp_result" where
  "pfcp_source_interface_load_from t v s = (if ptlv_length t \<noteq> 1 then bad_length t else Inr (read_u8 v s))"

definition pfcp_destination_interface_of_core :: "u8 \<Rightarrow> pfcp_tlv \<times> u8" where
  "pfcp_destination_interface_of_core b = (pfcp_ie_new PFCP_IE_DESTINATION_INTERFACE 1, b)"

definition pfcp_destination_interface_dump_to :: "pfcp_tlv \<Rightarrow> u8 \<Rightarrow> bytes" where
  "pfcp_destination_interface_dump_to t v = pfcp_tlv_dump_to t @ [v]"

definition pfcp_destination_interface_load_from :: "pfcp_tlv \<Rightarrow> u8 \<Rightarrow> istream \<Rightarrow> (u8 \<times> istream) pfcp_result" where
  "pfcp_destination_interface_load_from t v s = (if ptlv_length t \<noteq> 1 then bad_length t else Inr (read_u8 v s))"

definition pfcp_bar_id_of_core :: "u8 \<Rightarrow> pfcp_tlv \<times> u8" where
  "pfcp_bar_id_of_core b = (pfcp_ie_new PFCP_IE_BAR_ID 1, b)"

definition pfcp_bar_id_dump_to :: "pfcp_tlv \<Rightarrow> u8 \<Rightarrow> bytes" where
  "pfcp_bar_id_dump_to t v = pfcp_tlv_dump_to t @ [v]"

definition pfcp_bar_id_load_from :: "pfcp_tlv \<Rightarrow> u8 \<Rightarrow> istream \<Rightarrow> (u8 \<times> istream) pfcp_result" where
  "pfcp_bar_id_load_from t v s = (if ptlv_length t \<noteq> 1 then bad_length t else Inr (read_u8 v s))"

text \<open>\<^verbatim>\<open>dump_to\<close> sets the length.\<close>

definition pfcp_outer_header_removal_of_core :: "u8 \<Rightarrow> pfcp_tlv \<times> u8" where
  "pfcp_outer_header_removal_of_core b = (pfcp_ie_new PFCP_IE_OUTER_HEADER_REMOVAL 1, b)"

definition pfcp_outer_header_removal_dump_to ::
  "pfcp_tlv \<Rightarrow> u8 \<Rightarrow> (bytes \<times> pfcp_tlv \<times> u8) pfcp_result" where
  "pfcp_outer_header_removal_dump_to t v =
     (let t' = set_length 1 t in Inr (pfcp_tlv_dump_to t' @ [v], t', v))"

definition pfcp_outer_header_removal_load_from :: "pfcp_tlv \<Rightarrow> u8 \<Rightarrow> istream \<Rightarrow> (u8 \<times> istream) pfcp_result" where
  "pfcp_outer_header_removal_load_from t v s = (if ptlv_length t \<noteq> 1 then bad_length t else Inr (read_u8 v s))"

text \<open>Elements of a number in network byte order.\<close>

definition pfcp_offending_ie_of_core :: "u16 \<Rightarrow> pfcp_tlv \<times> u16" where
  "pfcp_offending_ie_of_core b = (pfcp_ie_new PFCP_IE_OFFENDING_IE 2, b)"

definition pfcp_offending_ie_dump_to :: "pfcp_tlv \<Rightarrow> u16 \<Rightarrow> bytes" where
  "pfcp_offending_ie_dump_to t v = pfcp_tlv_dump_to t @ be_bytes 2 v"

definition pfcp_offending_ie_load_from :: "pfcp_tlv \<Rightarrow> u16 \<Rightarrow> istream \<Rightarrow> (u16 \<times> istream) pfcp_result" where
  "pfcp_offending_ie_load_from t v s = (if ptlv_length t \<noteq> 2 then bad_length t else Inr (read_be 2 v s))"

definition pfcp_pdr_id_of_core :: "u16 \<Rightarrow> pfcp_tlv \<times> u16" where
  "pfcp_pdr_id_of_core b = (pfcp_ie_new PFCP_IE_PACKET_DETECTION_RULE_ID 2, b)"

definition pfcp_pdr_id_dump_to :: "pfcp_tlv \<Rightarrow> u16 \<Rightarrow> bytes" where
  "pfcp_pdr_id_dump_to t v = pfcp_tlv_dump_to t @ be_bytes 2 v"

definition pfcp_pdr_id_load_from :: "pfcp_tlv \<Rightarrow> u16 \<Rightarrow> istream \<Rightarrow> (u16 \<times> istream) pfcp_result" where
  "pfcp_pdr_id_load_from t v s = (if ptlv_length t \<noteq> 2 then bad_length t else Inr (read_be 2 v s))"

definition pfcp_precedence_of_core :: "u32 \<Rightarrow> pfcp_tlv \<times> u32" where
  "pfcp_precedence_of_core b = (pfcp_ie_new PFCP_IE_PRECEDENCE 4, b)"

definition pfcp_precedence_dump_to :: "pfcp_tlv \<Rightarrow> u32 \<Rightarrow> bytes" where
  "pfcp_precedence_dump_to t v = pfcp_tlv_dump_to t @ be_bytes 4 v"

definition pfcp_precedence_load_from :: "pfcp_tlv \<Rightarrow> u32 \<Rightarrow> istream \<Rightarrow> (u32 \<times> istream) pfcp_result" where
  "pfcp_precedence_load_from t v s = (if ptlv_length t \<noteq> 4 then bad_length t else Inr (read_be 4 v s))"

definition pfcp_time_threshold_of_core :: "u32 \<Rightarrow> pfcp_tlv \<times> u32" where
  "pfcp_time_threshold_of_core b = (pfcp_ie_new PFCP_IE_TIME_THRESHOLD 4, b)"

definition pfcp_time_threshold_dump_to :: "pfcp_tlv \<Rightarrow> u32 \<Rightarrow> bytes" where
  "pfcp_time_threshold_dump_to t v = pfcp_tlv_dump_to t @ be_bytes 4 v"

definition pfcp_time_threshold_load_from :: "pfcp_tlv \<Rightarrow> u32 \<Rightarrow> istream \<Rightarrow> (u32 \<times> istream) pfcp_result" where
  "pfcp_time_threshold_load_from t v s = (if ptlv_length t \<noteq> 4 then bad_length t else Inr (read_be 4 v s))"

definition pfcp_monitoring_time_of_core :: "u32 \<Rightarrow> pfcp_tlv \<times> u32" where
  "pfcp_monitoring_time_of_core b = (pfcp_ie_new PFCP_IE_MONITORING_TIME 4, b)"

definition pfcp_monitoring_time_dump_to :: "pfcp_tlv \<Rightarrow> u32 \<Rightarrow> bytes" where
  "pfcp_monitoring_time_dump_to t v = pfcp_tlv_dump_to t @ be_bytes 4 v"

definition pfcp_monitoring_time_load_from :: "pfcp_tlv \<Rightarrow> u32 \<Rightarrow> istream \<Rightarrow> (u32 \<times> istream) pfcp_result" where
  "pfcp_monitoring_time_load_from t v s = (if ptlv_length t \<noteq> 4 then bad_length t else Inr (read_be 4 v s))"

definition pfcp_subsequent_time_threshold_of_core :: "u32 \<Rightarrow> pfcp_tlv \<times> u32" where
  "pfcp_subsequent_time_threshold_of_core b = (pfcp_ie_new PFCP_IE_SUBSEQUENT_TIME_THRESHOLD 4, b)"

definition pfcp_subsequent_time_threshold_dump_to :: "pfcp_tlv \<Rightarrow> u32 \<Rightarrow> bytes" where
  "pfcp_subsequent_time_threshold_dump_to t v = pfcp_tlv_dump_to t @ be_bytes 4 v"

definition pfcp_subsequent_time_threshold_load_from :: "pfcp_tlv \<Rightarrow> u32 \<Rightarrow> istream \<Rightarrow> (u32 \<times> istream) pfcp_result" where
  "pfcp_subsequent_time_threshold_load_from t v s = (if ptlv_length t \<noteq> 4 then bad_length t else Inr (read_be 4 v s))"

definition pfcp_inactivity_detection_time_of_core :: "u32 \<Rightarrow> pfcp_tlv \<times> u32" where
  "pfcp_inactivity_detection_time_of_core b = (pfcp_ie_new PFCP_IE_INACTIVITY_DETECTION_TIME 4, b)"

definition pfcp_inactivity_detection_time_dump_to :: "pfcp_tlv \<Rightarrow> u32 \<Rightarrow> bytes" where
  "pfcp_inactivity_detection_time_dump_to t v = pfcp_tlv_dump_to t @ be_bytes 4 v"

definition pfcp_inactivity_detection_time_load_from :: "pfcp_tlv \<Rightarrow> u32 \<Rightarrow> istream \<Rightarrow> (u32 \<times> istream) pfcp_result" where
  "pfcp_inactivity_detection_time_load_from t v s = (if ptlv_length t \<noteq> 4 then bad_length t else Inr (read_be 4 v s))"

definition pfcp_recovery_time_stamp_of_core :: "u32 \<Rightarrow> pfcp_tlv \<times> u32" where
  "pfcp_recovery_time_stamp_of_core b = (pfcp_ie_new PFCP_IE_RECOVERY_TIME_STAMP 4, b)"

definition pfcp_recovery_time_stamp_dump_to :: "pfcp_tlv \<Rightarrow> u32 \<Rightarrow> bytes" where
  "pfcp_recovery_time_stamp_dump_to t v = pfcp_tlv_dump_to t @ be_bytes 4 v"

definition pfcp_recovery_time_stamp_load_from :: "pfcp_tlv \<Rightarrow> u32 \<Rightarrow> istream \<Rightarrow> (u32 \<times> istream) pfcp_result" where
  "pfcp_recovery_time_stamp_load_from t v s = (if ptlv_length t \<noteq> 4 then bad_length t else Inr (read_be 4 v s))"

definition pfcp_far_id_of_core :: "u32 \<Rightarrow> pfcp_tlv \<times> u32" where
  "pfcp_far_id_of_core b = (pfcp_ie_new PFCP_IE_FAR_ID 4, b)"

definition pfcp_far_id_dump_to :: "pfcp_tlv \<Rightarrow> u32 \<Rightarrow> bytes" where
  "pfcp_far_id_dump_to t v = pfcp_tlv_dump_to t @ be_bytes 4 v"

definition pfcp_far_id_load_from :: "pfcp_tlv \<Rightarrow> u32 \<Rightarrow> istream \<Rightarrow> (u32 \<times> istream) pfcp_result" where
  "pfcp_far_id_load_from t v s = (if ptlv_length t \<noteq> 4 then bad_length t else Inr (read_be 4 v s))"

definition pfcp_qer_id_of_core :: "u32 \<Rightarrow> pfcp_tlv \<times> u32" where
  "pfcp_qer_id_of_core b = (pfcp_ie_new PFCP_IE_QER_ID 4, b)"

definition pfcp_qer_id_dump_to :: "pfcp_tlv \<Rightarrow> u32 \<Rightarrow> bytes" where
  "pfcp_qer_id_dump_to t v = pfcp_tlv_dump_to t @ be_bytes 4 v"

definition pfcp_qer_id_load_from :: "pfcp_tlv \<Rightarrow> u32 \<Rightarrow> istream \<Rightarrow> (u32 \<times> istream) pfcp_result" where
  "pfcp_qer_id_load_from t v s = (if ptlv_length t \<noteq> 4 then bad_length t else Inr (read_be 4 v s))"

definition pfcp_user_plane_inactivity_timer_of_core :: "u32 \<Rightarrow> pfcp_tlv \<times> u32" where
  "pfcp_user_plane_inactivity_timer_of_core b = (pfcp_ie_new PFCP_IE_USER_PLANE_INACTIVITY_TIMER 4, b)"

definition pfcp_user_plane_inactivity_timer_dump_to :: "pfcp_tlv \<Rightarrow> u32 \<Rightarrow> bytes" where
  "pfcp_user_plane_inactivity_timer_dump_to t v = pfcp_tlv_dump_to t @ be_bytes 4 v"

definition pfcp_user_plane_inactivity_timer_load_from :: "pfcp_tlv \<Rightarrow> u32 \<Rightarrow> istream \<Rightarrow> (u32 \<times> istream) pfcp_result" where
  "pfcp_user_plane_inactivity_timer_load_from t v s = (if ptlv_length t \<noteq> 4 then bad_length t else Inr (read_be 4 v s))"

text \<open>A correlation identifier has four bytes, but \<^verbatim>\<open>load_from\<close> asks for the length one.\<close>

definition pfcp_qer_correlation_id_of_core :: "u32 \<Rightarrow> pfcp_tlv \<times> u32" where
  "pfcp_qer_correlation_id_of_core b = (pfcp_ie_new PFCP_IE_QER_CORRELATION_ID 4, b)"

definition pfcp_qer_correlation_id_dump_to :: "pfcp_tlv \<Rightarrow> u32 \<Rightarrow> bytes" where
  "pfcp_qer_correlation_id_dump_to t v = pfcp_tlv_dump_to t @ be_bytes 4 v"

definition pfcp_qer_correlation_id_load_from :: "pfcp_tlv \<Rightarrow> u32 \<Rightarrow> istream \<Rightarrow> (u32 \<times> istream) pfcp_result" where
  "pfcp_qer_correlation_id_load_from t v s = (if ptlv_length t \<noteq> 1 then bad_length t else Inr (read_be 4 v s))"

text \<open>The identifier of a URR is converted to network byte order, but the host's bytes are written.\<close>

definition pfcp_urr_id_of_core :: "u32 \<Rightarrow> pfcp_tlv \<times> u32" where
  "pfcp_urr_id_of_core b = (pfcp_ie_new PFCP_IE_URR_ID 4, b)"

definition pfcp_urr_id_dump_to :: "pfcp_tlv \<Rightarrow> u32 \<Rightarrow> bytes" where
  "pfcp_urr_id_dump_to t v = pfcp_tlv_dump_to t @ mem_bytes 4 v"

definition pfcp_urr_id_load_from :: "pfcp_tlv \<Rightarrow> u32 \<Rightarrow> istream \<Rightarrow> (u32 \<times> istream) pfcp_result" where
  "pfcp_urr_id_load_from t v s = (if ptlv_length t \<noteq> 4 then bad_length t else Inr (read_be 4 v s))"

section \<open>Flags and small fields\<close>

definition pfcp_gate_status_of_core :: "gate_status_t \<Rightarrow> pfcp_tlv \<times> u8" where
  "pfcp_gate_status_of_core b =
     (pfcp_ie_new PFCP_IE_GATE_STATUS 1, push_bit 2 (ul_gate b AND 0x03) OR (dl_gate b AND 0x03))"

definition pfcp_gate_status_to_core :: "u8 \<Rightarrow> gate_status_t" where
  "pfcp_gate_status_to_core o1 = \<lparr>ul_gate = drop_bit 2 o1 AND 0x03, dl_gate = o1 AND 0x03\<rparr>"

definition pfcp_gate_status_dump_to :: "pfcp_tlv \<Rightarrow> u8 \<Rightarrow> bytes" where
  "pfcp_gate_status_dump_to t o1 = pfcp_tlv_dump_to t @ [o1]"

definition pfcp_gate_status_load_from :: "pfcp_tlv \<Rightarrow> u8 \<Rightarrow> istream \<Rightarrow> (u8 \<times> istream) pfcp_result" where
  "pfcp_gate_status_load_from t o1 s = (if ptlv_length t \<noteq> 1 then bad_length t else Inr (read_u8 o1 s))"

definition pfcp_reporting_triggers_of_core :: "reporting_triggers_t \<Rightarrow> pfcp_tlv \<times> u8 \<times> u8" where
  "pfcp_reporting_triggers_of_core b =
     (pfcp_ie_new PFCP_IE_REPORTING_TRIGGERS 2,
      flags [rt_perio b, rt_volth b, rt_timth b, rt_quhti b, rt_start b, rt_stop b, rt_droth b, rt_liusa b],
      flags [rt_volqu b, rt_timqu b, rt_envcl b, rt_macar b, rt_eveth b])"

definition pfcp_reporting_triggers_to_core :: "u8 \<times> u8 \<Rightarrow> reporting_triggers_t" where
  "pfcp_reporting_triggers_to_core v = (case v of (o1, o2) \<Rightarrow>
     \<lparr>rt_liusa = bit o1 7, rt_droth = bit o1 6, rt_stop = bit o1 5, rt_start = bit o1 4,
      rt_quhti = bit o1 3, rt_timth = bit o1 2, rt_volth = bit o1 1, rt_perio = bit o1 0,
      rt_eveth = bit o2 4, rt_macar = bit o2 3, rt_envcl = bit o2 2, rt_timqu = bit o2 1, rt_volqu = bit o2 0\<rparr>)"

definition pfcp_reporting_triggers_dump_to ::
  "pfcp_tlv \<Rightarrow> u8 \<times> u8 \<Rightarrow> (bytes \<times> pfcp_tlv \<times> u8 \<times> u8) pfcp_result" where
  "pfcp_reporting_triggers_dump_to t v =
     (let t' = set_length 2 t in Inr (pfcp_tlv_dump_to t' @ [fst v, snd v], t', v))"

definition pfcp_reporting_triggers_load_from ::
  "pfcp_tlv \<Rightarrow> u8 \<times> u8 \<Rightarrow> istream \<Rightarrow> ((u8 \<times> u8) \<times> istream) pfcp_result" where
  "pfcp_reporting_triggers_load_from t v s =
     (if ptlv_length t \<noteq> 2 then bad_length t
      else case read_u8 (fst v) s of (o1, s1) \<Rightarrow>
           case read_u8 (snd v) s1 of (o2, s2) \<Rightarrow> Inr ((o1, o2), s2))"

definition pfcp_report_type_of_core :: "report_type_t \<Rightarrow> pfcp_tlv \<times> u8" where
  "pfcp_report_type_of_core b = (pfcp_ie_new PFCP_IE_REPORT_TYPE 1, flags [dldr b, usar b, erir b, upir b])"

definition pfcp_report_type_to_core :: "u8 \<Rightarrow> report_type_t" where
  "pfcp_report_type_to_core o1 = \<lparr>upir = bit o1 3, erir = bit o1 2, usar = bit o1 1, dldr = bit o1 0\<rparr>"

definition pfcp_report_type_dump_to :: "pfcp_tlv \<Rightarrow> u8 \<Rightarrow> bytes" where
  "pfcp_report_type_dump_to t o1 = pfcp_tlv_dump_to t @ [o1]"

definition pfcp_report_type_load_from :: "pfcp_tlv \<Rightarrow> u8 \<Rightarrow> istream \<Rightarrow> (u8 \<times> istream) pfcp_result" where
  "pfcp_report_type_load_from t o1 s = (if ptlv_length t \<noteq> 1 then bad_length t else Inr (read_u8 o1 s))"

definition pfcp_apply_action_of_core :: "apply_action_t \<Rightarrow> pfcp_tlv \<times> u8" where
  "pfcp_apply_action_of_core b =
     (pfcp_ie_new PFCP_IE_APPLY_ACTION 1, flags [ac_drop b, ac_forw b, ac_buff b, ac_nocp b, ac_dupl b])"

definition pfcp_apply_action_to_core :: "u8 \<Rightarrow> apply_action_t" where
  "pfcp_apply_action_to_core o1 =
     \<lparr>ac_dupl = bit o1 4, ac_nocp = bit o1 3, ac_buff = bit o1 2, ac_forw = bit o1 1, ac_drop = bit o1 0\<rparr>"

definition pfcp_apply_action_dump_to :: "pfcp_tlv \<Rightarrow> u8 \<Rightarrow> bytes" where
  "pfcp_apply_action_dump_to t o1 = pfcp_tlv_dump_to t @ [o1]"

definition pfcp_apply_action_load_from :: "pfcp_tlv \<Rightarrow> u8 \<Rightarrow> istream \<Rightarrow> (u8 \<times> istream) pfcp_result" where
  "pfcp_apply_action_load_from t o1 s = (if ptlv_length t \<noteq> 1 then bad_length t else Inr (read_u8 o1 s))"

definition pfcp_cp_function_features_of_core :: "cp_function_features_t \<Rightarrow> pfcp_tlv \<times> u8" where
  "pfcp_cp_function_features_of_core b =
     (pfcp_ie_new PFCP_IE_CP_FUNCTION_FEATURES 1, flags [cff_load b, cff_ovrl b])"

definition pfcp_cp_function_features_to_core :: "u8 \<Rightarrow> cp_function_features_t" where
  "pfcp_cp_function_features_to_core o1 = \<lparr>cff_ovrl = bit o1 1, cff_load = bit o1 0\<rparr>"

definition pfcp_cp_function_features_dump_to :: "pfcp_tlv \<Rightarrow> u8 \<Rightarrow> bytes" where
  "pfcp_cp_function_features_dump_to t o1 = pfcp_tlv_dump_to t @ [o1]"

definition pfcp_cp_function_features_load_from :: "pfcp_tlv \<Rightarrow> u8 \<Rightarrow> istream \<Rightarrow> (u8 \<times> istream) pfcp_result" where
  "pfcp_cp_function_features_load_from t o1 s = (if ptlv_length t \<noteq> 1 then bad_length t else Inr (read_u8 o1 s))"

definition pfcp_qfi_of_core :: "u8 \<Rightarrow> pfcp_tlv \<times> u8" where
  "pfcp_qfi_of_core b = (pfcp_ie_new PFCP_IE_QFI 1, b AND 0x3F)"

definition pfcp_qfi_to_core :: "u8 \<Rightarrow> u8" where
  "pfcp_qfi_to_core o1 = o1 AND 0x3F"

definition pfcp_qfi_dump_to :: "pfcp_tlv \<Rightarrow> u8 \<Rightarrow> bytes" where
  "pfcp_qfi_dump_to t o1 = pfcp_tlv_dump_to t @ [o1]"

definition pfcp_qfi_load_from :: "pfcp_tlv \<Rightarrow> u8 \<Rightarrow> istream \<Rightarrow> (u8 \<times> istream) pfcp_result" where
  "pfcp_qfi_load_from t o1 s = (if ptlv_length t \<noteq> 1 then bad_length t else Inr (read_u8 o1 s))"

text \<open>
  A node report type: the constructor drops the flag of the core type, and \<^verbatim>\<open>to_core_type\<close> copies the
  other way, from the core type into the element. The core type is the flag \<^verbatim>\<open>upfr\<close>.
\<close>

definition pfcp_node_report_type_of_core :: "bool \<Rightarrow> pfcp_tlv \<times> u8" where
  "pfcp_node_report_type_of_core b = (pfcp_ie_new PFCP_IE_NODE_REPORT_TYPE 1, 0)"

definition pfcp_node_report_type_to_core :: "u8 \<Rightarrow> bool \<Rightarrow> u8 \<times> bool" where
  "pfcp_node_report_type_to_core o1 b = (flags [b], b)"

definition pfcp_node_report_type_dump_to :: "pfcp_tlv \<Rightarrow> u8 \<Rightarrow> bytes" where
  "pfcp_node_report_type_dump_to t o1 = pfcp_tlv_dump_to t @ [o1]"

definition pfcp_node_report_type_load_from :: "pfcp_tlv \<Rightarrow> u8 \<Rightarrow> istream \<Rightarrow> (u8 \<times> istream) pfcp_result" where
  "pfcp_node_report_type_load_from t o1 s = (if ptlv_length t \<noteq> 1 then bad_length t else Inr (read_u8 o1 s))"

text \<open>
  The features of a user plane function: six octets. \<^verbatim>\<open>load_from\<close> reads six octets from an element of
  any length up to six.
\<close>

definition up_octets :: "up_feature list list" where
  "up_octets =
     [[BUCP, DDND, DLBD, TRST, FTUP, PFDM, HEEU, TREU],
      [EMPU, PDIU, UDBC, QUOAC, TRACE, FRRT, PFDE, EPFAR],
      [DPDRA, ADPDP, UEIP, SSET, MNOP, MTE, BUNDL, GCOM],
      [MPAS, RTTL, VTIME, NORP, IPTV, IP6PL, TSCU, MPTCP],
      [ATSSS_LL, QFQM, GPQM, MT_EDT, CIOT, ETHAR, DDDS, RDS],
      [RTTWP]]"

definition pfcp_up_function_features_of_core :: "up_function_features_t \<Rightarrow> pfcp_tlv \<times> bytes" where
  "pfcp_up_function_features_of_core b =
     (pfcp_ie_new PFCP_IE_UP_FUNCTION_FEATURES 6, map (\<lambda>fs. flags (map b fs)) up_octets)"

definition pfcp_up_function_features_to_core :: "bytes \<Rightarrow> up_function_features_t" where
  "pfcp_up_function_features_to_core us f =
     list_ex (\<lambda>(u, fs). list_ex (\<lambda>(i, g). g = f \<and> bit u i) (enumerate 0 fs)) (zip us up_octets)"

definition pfcp_up_function_features_dump_to ::
  "pfcp_tlv \<Rightarrow> bytes \<Rightarrow> (bytes \<times> pfcp_tlv \<times> bytes) pfcp_result" where
  "pfcp_up_function_features_dump_to t us =
     (let t' = set_length 6 t in Inr (pfcp_tlv_dump_to t' @ us, t', us))"

fun read_octets :: "bytes \<Rightarrow> istream \<Rightarrow> bytes \<times> istream" where
  "read_octets [] s = ([], s)"
| "read_octets (u # us) s =
     (case read_u8 u s of (u', s1) \<Rightarrow> case read_octets us s1 of (us', s2) \<Rightarrow> (u' # us', s2))"

definition pfcp_up_function_features_load_from ::
  "pfcp_tlv \<Rightarrow> bytes \<Rightarrow> istream \<Rightarrow> (bytes \<times> istream) pfcp_result" where
  "pfcp_up_function_features_load_from t us s =
     (if ptlv_length t > 6 then bad_length t else Inr (read_octets us s))"

section \<open>Bit rates and volumes\<close>

text \<open>The arrays of five bytes are filled from the last one on.\<close>

definition pfcp_mbr_of_core :: "mbr_t \<Rightarrow> pfcp_tlv \<times> bytes \<times> bytes" where
  "pfcp_mbr_of_core b =
     (pfcp_ie_new PFCP_IE_MBR 10,
      be_bytes 5 (ul_mbr b AND 0x000000FFFFFFFFFF), be_bytes 5 (dl_mbr b AND 0x000000FFFFFFFFFF))"

definition pfcp_mbr_to_core :: "bytes \<times> bytes \<Rightarrow> mbr_t" where
  "pfcp_mbr_to_core v = \<lparr>ul_mbr = word_of_be (fst v), dl_mbr = word_of_be (snd v)\<rparr>"

definition pfcp_mbr_dump_to :: "pfcp_tlv \<Rightarrow> bytes \<times> bytes \<Rightarrow> bytes" where
  "pfcp_mbr_dump_to t v = pfcp_tlv_dump_to t @ fst v @ snd v"

definition pfcp_mbr_load_from ::
  "pfcp_tlv \<Rightarrow> bytes \<times> bytes \<Rightarrow> istream \<Rightarrow> ((bytes \<times> bytes) \<times> istream) pfcp_result" where
  "pfcp_mbr_load_from t v s =
     (if ptlv_length t \<noteq> 10 then bad_length t
      else case is_read (fst v) s of (ul, s1) \<Rightarrow>
           case is_read (snd v) s1 of (dl, s2) \<Rightarrow> Inr ((ul, dl), s2))"

definition pfcp_gbr_of_core :: "gbr_t \<Rightarrow> pfcp_tlv \<times> bytes \<times> bytes" where
  "pfcp_gbr_of_core b =
     (pfcp_ie_new PFCP_IE_GBR 10,
      be_bytes 5 (ul_gbr b AND 0x000000FFFFFFFFFF), be_bytes 5 (dl_gbr b AND 0x000000FFFFFFFFFF))"

definition pfcp_gbr_to_core :: "bytes \<times> bytes \<Rightarrow> gbr_t" where
  "pfcp_gbr_to_core v = \<lparr>ul_gbr = word_of_be (fst v), dl_gbr = word_of_be (snd v)\<rparr>"

definition pfcp_gbr_dump_to :: "pfcp_tlv \<Rightarrow> bytes \<times> bytes \<Rightarrow> bytes" where
  "pfcp_gbr_dump_to t v = pfcp_tlv_dump_to t @ fst v @ snd v"

definition pfcp_gbr_load_from ::
  "pfcp_tlv \<Rightarrow> bytes \<times> bytes \<Rightarrow> istream \<Rightarrow> ((bytes \<times> bytes) \<times> istream) pfcp_result" where
  "pfcp_gbr_load_from t v s =
     (if ptlv_length t \<noteq> 10 then bad_length t
      else case is_read (fst v) s of (ul, s1) \<Rightarrow>
           case is_read (snd v) s1 of (dl, s2) \<Rightarrow> Inr ((ul, dl), s2))"

text \<open>
  Volume thresholds. \<^verbatim>\<open>load_from\<close> never reads the octet of the flags, so it goes by what memory held
  when the object was made, and it converts the uplink and the downlink volume into \<^verbatim>\<open>total_volume\<close>.
\<close>

record volume_threshold_ie =
  vti_u1 :: u8
  vti_total_volume :: u64
  vti_uplink_volume :: u64
  vti_downlink_volume :: u64

definition pfcp_volume_members :: "volume_threshold_t \<Rightarrow> volume_threshold_ie" where
  "pfcp_volume_members b =
     \<lparr>vti_u1 = flags [vt_tovol b, vt_ulvol b, vt_dlvol b],
      vti_total_volume = (if vt_tovol b then vt_total_volume b else 0),
      vti_uplink_volume = (if vt_ulvol b then vt_uplink_volume b else 0),
      vti_downlink_volume = (if vt_dlvol b then vt_downlink_volume b else 0)\<rparr>"

definition volume_length :: "u8 \<Rightarrow> u16" where
  "volume_length o1 = 1 + (if bit o1 0 then 8 else 0) + (if bit o1 1 then 8 else 0) + (if bit o1 2 then 8 else 0)"

definition pfcp_volume_threshold_of_core :: "volume_threshold_t \<Rightarrow> pfcp_tlv \<times> volume_threshold_ie" where
  "pfcp_volume_threshold_of_core b =
     (let v = pfcp_volume_members b in (pfcp_ie_new PFCP_IE_VOLUME_THRESHOLD (volume_length (vti_u1 v)), v))"

definition pfcp_volume_threshold_new :: "(nat \<Rightarrow> u8) \<Rightarrow> volume_threshold_ie" where
  "pfcp_volume_threshold_new junk =
     \<lparr>vti_u1 = junk 0, vti_total_volume = mem_word junk 1 8, vti_uplink_volume = mem_word junk 9 8,
      vti_downlink_volume = mem_word junk 17 8\<rparr>"

definition pfcp_volume_threshold_to_core :: "volume_threshold_ie \<Rightarrow> volume_threshold_t" where
  "pfcp_volume_threshold_to_core v =
     \<lparr>vt_tovol = bit (vti_u1 v) 0, vt_ulvol = bit (vti_u1 v) 1, vt_dlvol = bit (vti_u1 v) 2,
      vt_total_volume = (if bit (vti_u1 v) 0 then vti_total_volume v else 0),
      vt_uplink_volume = (if bit (vti_u1 v) 1 then vti_uplink_volume v else 0),
      vt_downlink_volume = (if bit (vti_u1 v) 2 then vti_downlink_volume v else 0)\<rparr>"

definition pfcp_volume_threshold_dump_to ::
  "pfcp_tlv \<Rightarrow> volume_threshold_ie \<Rightarrow> (bytes \<times> pfcp_tlv \<times> volume_threshold_ie) pfcp_result" where
  "pfcp_volume_threshold_dump_to t v =
     (let o1 = vti_u1 v; t' = set_length (volume_length o1) t in
      Inr (pfcp_tlv_dump_to t' @ [o1]
             @ only_if (bit o1 0) (be_bytes 8 (vti_total_volume v))
             @ only_if (bit o1 1) (be_bytes 8 (vti_uplink_volume v))
             @ only_if (bit o1 2) (be_bytes 8 (vti_downlink_volume v)), t', v))"

definition pfcp_volume_threshold_load_from ::
  "pfcp_tlv \<Rightarrow> volume_threshold_ie \<Rightarrow> istream \<Rightarrow> (volume_threshold_ie \<times> istream) pfcp_result" where
  "pfcp_volume_threshold_load_from t v s =
     (if ptlv_length t < 1 then bad_length t
      else case read_if (bit (vti_u1 v) 0) (read_be 8 (vti_total_volume v)) (vti_total_volume v) s of (tot, s1) \<Rightarrow>
           case read_if (bit (vti_u1 v) 1) (read_raw 8 (vti_uplink_volume v)) (vti_uplink_volume v) s1 of (ul, s2) \<Rightarrow>
           case read_if (bit (vti_u1 v) 2) (read_raw 8 (vti_downlink_volume v)) (vti_downlink_volume v) s2 of (dl, s3) \<Rightarrow>
             Inr (\<lparr>vti_u1 = vti_u1 v,
                   vti_total_volume = (if bit (vti_u1 v) 2 then word_of_be (mem_bytes 8 dl)
                                       else if bit (vti_u1 v) 1 then word_of_be (mem_bytes 8 ul) else tot),
                   vti_uplink_volume = ul, vti_downlink_volume = dl\<rparr>, s3))"

definition pfcp_subsequent_volume_threshold_of_core ::
  "subsequent_volume_threshold_t \<Rightarrow> pfcp_tlv \<times> volume_threshold_ie" where
  "pfcp_subsequent_volume_threshold_of_core b =
     (let v = pfcp_volume_members b
      in (pfcp_ie_new PFCP_IE_SUBSEQUENT_VOLUME_THRESHOLD (volume_length (vti_u1 v)), v))"

definition pfcp_subsequent_volume_threshold_to_core :: "volume_threshold_ie \<Rightarrow> subsequent_volume_threshold_t" where
  "pfcp_subsequent_volume_threshold_to_core v =
     \<lparr>vt_tovol = bit (vti_u1 v) 0, vt_ulvol = bit (vti_u1 v) 1, vt_dlvol = bit (vti_u1 v) 2,
      vt_total_volume = (if bit (vti_u1 v) 0 then vti_total_volume v else 0),
      vt_uplink_volume = (if bit (vti_u1 v) 1 then vti_uplink_volume v else 0),
      vt_downlink_volume = (if bit (vti_u1 v) 2 then vti_downlink_volume v else 0)\<rparr>"

definition pfcp_subsequent_volume_threshold_dump_to ::
  "pfcp_tlv \<Rightarrow> volume_threshold_ie \<Rightarrow> (bytes \<times> pfcp_tlv \<times> volume_threshold_ie) pfcp_result" where
  "pfcp_subsequent_volume_threshold_dump_to t v =
     (let o1 = vti_u1 v; t' = set_length (volume_length o1) t in
      Inr (pfcp_tlv_dump_to t' @ [o1]
             @ only_if (bit o1 0) (be_bytes 8 (vti_total_volume v))
             @ only_if (bit o1 1) (be_bytes 8 (vti_uplink_volume v))
             @ only_if (bit o1 2) (be_bytes 8 (vti_downlink_volume v)), t', v))"

definition pfcp_subsequent_volume_threshold_load_from ::
  "pfcp_tlv \<Rightarrow> volume_threshold_ie \<Rightarrow> istream \<Rightarrow> (volume_threshold_ie \<times> istream) pfcp_result" where
  "pfcp_subsequent_volume_threshold_load_from t v s =
     (if ptlv_length t < 1 then bad_length t
      else case read_if (bit (vti_u1 v) 0) (read_be 8 (vti_total_volume v)) (vti_total_volume v) s of (tot, s1) \<Rightarrow>
           case read_if (bit (vti_u1 v) 1) (read_raw 8 (vti_uplink_volume v)) (vti_uplink_volume v) s1 of (ul, s2) \<Rightarrow>
           case read_if (bit (vti_u1 v) 2) (read_raw 8 (vti_downlink_volume v)) (vti_downlink_volume v) s2 of (dl, s3) \<Rightarrow>
             Inr (\<lparr>vti_u1 = vti_u1 v,
                   vti_total_volume = (if bit (vti_u1 v) 2 then word_of_be (mem_bytes 8 dl)
                                       else if bit (vti_u1 v) 1 then word_of_be (mem_bytes 8 ul) else tot),
                   vti_uplink_volume = ul, vti_downlink_volume = dl\<rparr>, s3))"

section \<open>Names\<close>

text \<open>
  A network instance is kept in its wire form: the constructor converts, \<^verbatim>\<open>to_core_type\<close> does not
  convert back.
\<close>

definition pfcp_network_instance_of_core :: "(nat \<Rightarrow> u8) \<Rightarrow> bytes \<Rightarrow> (pfcp_tlv \<times> bytes) pfcp_result" where
  "pfcp_network_instance_of_core junk b =
     (case pfcp_string_to_dotted (fresh junk (length b + 1)) b of
        None \<Rightarrow> Inl (Pundefined Endless_loop)
      | Some dotted \<Rightarrow> Inr (pfcp_ie_new PFCP_IE_NETWORK_INSTANCE (of_nat (length dotted)), dotted))"

definition pfcp_network_instance_dump_to :: "pfcp_tlv \<Rightarrow> bytes \<Rightarrow> bytes" where
  "pfcp_network_instance_dump_to t v = pfcp_tlv_dump_to t @ v"

definition pfcp_network_instance_load_from ::
  "(nat \<Rightarrow> u8) \<Rightarrow> pfcp_tlv \<Rightarrow> istream \<Rightarrow> (bytes \<times> istream) pfcp_result" where
  "pfcp_network_instance_load_from junk t s = Inr (is_read (fresh junk (unat (ptlv_length t))) s)"

definition pfcp_application_id_of_core :: "bytes \<Rightarrow> pfcp_tlv \<times> bytes" where
  "pfcp_application_id_of_core b = (pfcp_ie_new PFCP_IE_APPLICATION_ID (of_nat (length b)), b)"

definition pfcp_application_id_dump_to :: "pfcp_tlv \<Rightarrow> bytes \<Rightarrow> bytes" where
  "pfcp_application_id_dump_to t v = pfcp_tlv_dump_to t @ v"

definition pfcp_application_id_load_from ::
  "(nat \<Rightarrow> u8) \<Rightarrow> pfcp_tlv \<Rightarrow> istream \<Rightarrow> (bytes \<times> istream) pfcp_result" where
  "pfcp_application_id_load_from junk t s = Inr (is_read (fresh junk (unat (ptlv_length t))) s)"

text \<open>\<^verbatim>\<open>dump_to\<close> throws after it has written the header.\<close>

definition pfcp_transport_level_marking_of_core :: "bytes \<Rightarrow> pfcp_tlv \<times> bytes" where
  "pfcp_transport_level_marking_of_core b = (pfcp_ie_new PFCP_IE_TRANSPORT_LEVEL_MARKING (of_nat (length b)), b)"

definition pfcp_transport_level_marking_dump_to ::
  "pfcp_tlv \<Rightarrow> bytes \<Rightarrow> (bytes \<times> pfcp_tlv \<times> bytes) pfcp_result" where
  "pfcp_transport_level_marking_dump_to t v =
     (if ptlv_length t \<noteq> 2 then bad_length t else Inr (pfcp_tlv_dump_to t @ v, t, v))"

definition pfcp_transport_level_marking_load_from ::
  "(nat \<Rightarrow> u8) \<Rightarrow> pfcp_tlv \<Rightarrow> istream \<Rightarrow> (bytes \<times> istream) pfcp_result" where
  "pfcp_transport_level_marking_load_from junk t s =
     (if ptlv_length t \<noteq> 2 then bad_length t else Inr (is_read (fresh junk 2) s))"

definition pfcp_forwarding_policy_of_core :: "forwarding_policy_t \<Rightarrow> pfcp_tlv \<times> forwarding_policy_t" where
  "pfcp_forwarding_policy_of_core b =
     (pfcp_ie_new PFCP_IE_FORWARDING_POLICY (of_nat (1 + length (forwarding_policy_identifier b))), b)"

definition pfcp_forwarding_policy_dump_to :: "pfcp_tlv \<Rightarrow> forwarding_policy_t \<Rightarrow> bytes" where
  "pfcp_forwarding_policy_dump_to t v =
     pfcp_tlv_dump_to t @ [forwarding_policy_identifier_length v] @ forwarding_policy_identifier v"

definition pfcp_forwarding_policy_new :: forwarding_policy_t where
  "pfcp_forwarding_policy_new = \<lparr>forwarding_policy_identifier_length = 0, forwarding_policy_identifier = []\<rparr>"

definition pfcp_forwarding_policy_load_from ::
  "(nat \<Rightarrow> u8) \<Rightarrow> pfcp_tlv \<Rightarrow> forwarding_policy_t \<Rightarrow> istream \<Rightarrow> (forwarding_policy_t \<times> istream) pfcp_result" where
  "pfcp_forwarding_policy_load_from junk t v s =
     (if ptlv_length t < 1 then bad_length t
      else case read_u8 (forwarding_policy_identifier_length v) s of (l, s1) \<Rightarrow>
        if unat (ptlv_length t) \<noteq> 1 + unat l then bad_length t
        else case is_read (fresh junk (unat l)) s1 of (e, s2) \<Rightarrow>
          Inr (\<lparr>forwarding_policy_identifier_length = l, forwarding_policy_identifier = e\<rparr>, s2))"

definition pfcp_activate_predefined_rules_of_core :: "bytes \<Rightarrow> pfcp_tlv \<times> bytes" where
  "pfcp_activate_predefined_rules_of_core b = (pfcp_ie_new PFCP_IE_ACTIVATE_PREDEFINED_RULES (of_nat (length b)), b)"

definition pfcp_activate_predefined_rules_dump_to ::
  "pfcp_tlv \<Rightarrow> bytes \<Rightarrow> (bytes \<times> pfcp_tlv \<times> bytes) pfcp_result" where
  "pfcp_activate_predefined_rules_dump_to t v =
     (let t' = set_length (of_nat (length v)) t in Inr (pfcp_tlv_dump_to t' @ v, t', v))"

definition pfcp_activate_predefined_rules_load_from ::
  "(nat \<Rightarrow> u8) \<Rightarrow> pfcp_tlv \<Rightarrow> istream \<Rightarrow> (bytes \<times> istream) pfcp_result" where
  "pfcp_activate_predefined_rules_load_from junk t s =
     (if ptlv_length t = 0 then bad_length t else Inr (is_read (fresh junk (unat (ptlv_length t))) s))"

definition pfcp_deactivate_predefined_rules_of_core :: "bytes \<Rightarrow> pfcp_tlv \<times> bytes" where
  "pfcp_deactivate_predefined_rules_of_core b = (pfcp_ie_new PFCP_IE_DEACTIVATE_PREDEFINED_RULES (of_nat (length b)), b)"

definition pfcp_deactivate_predefined_rules_dump_to ::
  "pfcp_tlv \<Rightarrow> bytes \<Rightarrow> (bytes \<times> pfcp_tlv \<times> bytes) pfcp_result" where
  "pfcp_deactivate_predefined_rules_dump_to t v =
     (let t' = set_length (of_nat (length v)) t in Inr (pfcp_tlv_dump_to t' @ v, t', v))"

definition pfcp_deactivate_predefined_rules_load_from ::
  "(nat \<Rightarrow> u8) \<Rightarrow> pfcp_tlv \<Rightarrow> istream \<Rightarrow> (bytes \<times> istream) pfcp_result" where
  "pfcp_deactivate_predefined_rules_load_from junk t s =
     (if ptlv_length t = 0 then bad_length t else Inr (is_read (fresh junk (unat (ptlv_length t))) s))"

text \<open>
  An SDF filter. The length counts neither the flow label nor the filter identifier, and the
  identifier is written as decimal text.
\<close>

record sdf_filter_ie =
  sfi_u1 :: u8
  sfi_length_of_flow_description :: u16
  sfi_flow_description :: bytes
  sfi_tos_traffic_class :: bytes
  sfi_security_parameter_index :: bytes
  sfi_flow_label :: bytes
  sfi_sdf_filter_id :: u32

definition pfcp_sdf_filter_of_core :: "sdf_filter_t \<Rightarrow> (pfcp_tlv \<times> sdf_filter_ie) pfcp_result" where
  "pfcp_sdf_filter_of_core b =
     (let t0 = pfcp_ie_new PFCP_IE_SDF_FILTER 2;
          t1 = (if sf_fd b then add_length (of_nat (2 + length (sf_flow_description b))) t0 else t0);
          t2 = (if sf_ttc b then add_length 2 t1 else t1);
          t3 = (if sf_spi b then add_length 4 t2 else t2)
      in if sf_ttc b \<and> length (sf_tos_traffic_class b) \<noteq> 2
         then Inl (Pie_value PFCP_IE_SDF_FILTER ''tos_traffic_class'')
         else if sf_spi b \<and> length (sf_security_parameter_index b) \<noteq> 4
         then Inl (Pie_value PFCP_IE_SDF_FILTER ''security_parameter_index'')
         else if sf_fl b \<and> length (sf_flow_label b) \<noteq> 3
         then Inl (Pie_value PFCP_IE_SDF_FILTER ''flow_label'')
         else Inr (t3,
           \<lparr>sfi_u1 = flags [sf_fd b, sf_ttc b, sf_spi b, sf_fl b, sf_bid b],
            sfi_length_of_flow_description = (if sf_fd b then sf_length_of_flow_description b else 0),
            sfi_flow_description = (if sf_fd b then sf_flow_description b else []),
            sfi_tos_traffic_class = (if sf_ttc b then sf_tos_traffic_class b else []),
            sfi_security_parameter_index = (if sf_spi b then sf_security_parameter_index b else []),
            sfi_flow_label = (if sf_fl b then sf_flow_label b else []),
            sfi_sdf_filter_id = (if sf_bid b then sf_sdf_filter_id b else 0)\<rparr>))"

definition pfcp_sdf_filter_new :: "(nat \<Rightarrow> u8) \<Rightarrow> sdf_filter_ie" where
  "pfcp_sdf_filter_new junk =
     \<lparr>sfi_u1 = junk 0, sfi_length_of_flow_description = mem_word junk 1 2, sfi_flow_description = [],
      sfi_tos_traffic_class = [], sfi_security_parameter_index = [], sfi_flow_label = [],
      sfi_sdf_filter_id = mem_word junk 3 4\<rparr>"

definition pfcp_sdf_filter_to_core :: "sdf_filter_ie \<Rightarrow> sdf_filter_t" where
  "pfcp_sdf_filter_to_core v =
     (let o1 = sfi_u1 v in
      \<lparr>sf_bid = bit o1 4, sf_fl = bit o1 3, sf_spi = bit o1 2, sf_ttc = bit o1 1, sf_fd = bit o1 0,
       sf_length_of_flow_description = (if bit o1 0 then sfi_length_of_flow_description v else 0),
       sf_flow_description = (if bit o1 0 then sfi_flow_description v else []),
       sf_tos_traffic_class = (if bit o1 1 then sfi_tos_traffic_class v else []),
       sf_security_parameter_index = (if bit o1 2 then sfi_security_parameter_index v else []),
       sf_flow_label = (if bit o1 3 then sfi_flow_label v else []),
       sf_sdf_filter_id = (if bit o1 4 then sfi_sdf_filter_id v else 0)\<rparr>)"

definition pfcp_sdf_filter_dump_to :: "pfcp_tlv \<Rightarrow> sdf_filter_ie \<Rightarrow> bytes" where
  "pfcp_sdf_filter_dump_to t v =
     (let o1 = sfi_u1 v in
      pfcp_tlv_dump_to t @ [o1, 0]
        @ only_if (bit o1 0) (be_bytes 2 (sfi_length_of_flow_description v) @ sfi_flow_description v)
        @ only_if (bit o1 1) (sfi_tos_traffic_class v)
        @ only_if (bit o1 2) (sfi_security_parameter_index v)
        @ only_if (bit o1 3) (sfi_flow_label v)
        @ only_if (bit o1 4) (decimal (unat (sfi_sdf_filter_id v))))"

definition pfcp_sdf_filter_load_from ::
  "(nat \<Rightarrow> u8) \<Rightarrow> pfcp_tlv \<Rightarrow> sdf_filter_ie \<Rightarrow> istream \<Rightarrow> (sdf_filter_ie \<times> istream) pfcp_result" where
  "pfcp_sdf_filter_load_from junk t v s =
     (case read_u8 (sfi_u1 v) s of (o1, s1) \<Rightarrow>
      case read_u8 0 s1 of (spare, s2) \<Rightarrow>
      case read_if (bit o1 0) (read_be 2 (sfi_length_of_flow_description v)) (sfi_length_of_flow_description v) s2 of (l, s3) \<Rightarrow>
      case read_if (bit o1 0) (is_read (fresh junk (unat l))) (sfi_flow_description v) s3 of (fd, s4) \<Rightarrow>
      case read_if (bit o1 1) (is_read (fresh junk 2)) (sfi_tos_traffic_class v) s4 of (ttc, s5) \<Rightarrow>
      case read_if (bit o1 2) (is_read (fresh junk 4)) (sfi_security_parameter_index v) s5 of (spi, s6) \<Rightarrow>
      case read_if (bit o1 3) (is_read (fresh junk 3)) (sfi_flow_label v) s6 of (fl, s7) \<Rightarrow>
      case read_if (bit o1 4) (read_be 4 (sfi_sdf_filter_id v)) (sfi_sdf_filter_id v) s7 of (fid, s8) \<Rightarrow>
        Inr (\<lparr>sfi_u1 = o1, sfi_length_of_flow_description = l, sfi_flow_description = fd,
              sfi_tos_traffic_class = ttc, sfi_security_parameter_index = spi, sfi_flow_label = fl,
              sfi_sdf_filter_id = fid\<rparr>, s8))"

section \<open>Tunnel endpoints, sessions, nodes and addresses\<close>

text \<open>
  An F-TEID; \<^verbatim>\<open>u1\<close> has the flags V4, V6, CH, CHID. The constructor sets \<^verbatim>\<open>choose_id\<close> only when both CH and
  CHID are set; \<^verbatim>\<open>dump_to\<close> writes it whenever CHID is set.
\<close>

record pfcp_fteid_ie =
  fti_u1 :: u8
  fti_teid :: u32
  fti_ipv4_address :: u32
  fti_ipv6_address :: bytes
  fti_choose_id :: u8

definition pfcp_fteid_length :: "u8 \<Rightarrow> u16" where
  "pfcp_fteid_length o1 =
     1 + (if \<not> bit o1 2 then 4 + (if bit o1 0 then 4 else 0) + (if bit o1 1 then 16 else 0)
          else if bit o1 3 then 1 else 0)"

definition pfcp_fteid_of_core :: "(nat \<Rightarrow> u8) \<Rightarrow> fteid_t \<Rightarrow> pfcp_tlv \<times> pfcp_fteid_ie" where
  "pfcp_fteid_of_core junk b =
     (let o1 = (if \<not> ft_ch b then flags [ft_v4 b, ft_v6 b, False, ft_chid b] else flags [False, False, True, ft_chid b])
      in (pfcp_ie_new PFCP_IE_F_TEID (pfcp_fteid_length o1),
          \<lparr>fti_u1 = o1, fti_teid = ft_teid b,
           fti_ipv4_address = (if \<not> ft_ch b then ft_ipv4_address b else 0),
           fti_ipv6_address = (if \<not> ft_ch b then ft_ipv6_address b else in6addr_any),
           fti_choose_id = (if ft_ch b \<and> ft_chid b then ft_choose_id b else junk 0)\<rparr>))"

definition pfcp_fteid_new :: pfcp_fteid_ie where
  "pfcp_fteid_new =
     \<lparr>fti_u1 = 0, fti_teid = 0, fti_ipv4_address = 0, fti_ipv6_address = in6addr_any, fti_choose_id = 0\<rparr>"

definition pfcp_fteid_to_core :: "pfcp_fteid_ie \<Rightarrow> fteid_t" where
  "pfcp_fteid_to_core v =
     \<lparr>ft_chid = bit (fti_u1 v) 3, ft_ch = bit (fti_u1 v) 2, ft_v4 = bit (fti_u1 v) 0, ft_v6 = bit (fti_u1 v) 1,
      ft_teid = fti_teid v, ft_ipv4_address = fti_ipv4_address v, ft_ipv6_address = fti_ipv6_address v,
      ft_choose_id = fti_choose_id v\<rparr>"

definition pfcp_fteid_dump_to ::
  "pfcp_tlv \<Rightarrow> pfcp_fteid_ie \<Rightarrow> (bytes \<times> pfcp_tlv \<times> pfcp_fteid_ie) pfcp_result" where
  "pfcp_fteid_dump_to t v =
     (let o1 = fti_u1 v; t' = set_length (pfcp_fteid_length o1) t in
      Inr (pfcp_tlv_dump_to t' @ [o1]
             @ only_if (\<not> bit o1 2)
                 (be_bytes 4 (fti_teid v)
                    @ only_if (bit o1 0) (pfcp_ipv4_address_dump_to (fti_ipv4_address v))
                    @ only_if (bit o1 1) (pfcp_ipv6_address_dump_to (fti_ipv6_address v)))
             @ only_if (bit o1 3) [fti_choose_id v], t', v))"

definition pfcp_fteid_load_from ::
  "pfcp_tlv \<Rightarrow> pfcp_fteid_ie \<Rightarrow> istream \<Rightarrow> (pfcp_fteid_ie \<times> istream) pfcp_result" where
  "pfcp_fteid_load_from t v s =
     (case read_u8 (fti_u1 v) s of (o1, s1) \<Rightarrow>
      if ptlv_length t \<noteq> pfcp_fteid_length o1 then bad_length t
      else if \<not> bit o1 2 then
        (case read_be 4 (fti_teid v) s1 of (td, s2) \<Rightarrow>
         case read_if (bit o1 0) (pfcp_ipv4_address_load_from (fti_ipv4_address v)) (fti_ipv4_address v) s2 of (a4, s3) \<Rightarrow>
         case read_if (bit o1 1) (pfcp_ipv6_address_load_from (fti_ipv6_address v)) (fti_ipv6_address v) s3 of (a6, s4) \<Rightarrow>
           Inr (v\<lparr>fti_u1 := o1, fti_teid := td, fti_ipv4_address := a4, fti_ipv6_address := a6\<rparr>, s4))
      else
        (case read_if (bit o1 3) (read_u8 (fti_choose_id v)) (fti_choose_id v) s1 of (c, s2) \<Rightarrow>
           Inr (v\<lparr>fti_u1 := o1, fti_choose_id := c\<rparr>, s2)))"

text \<open>An F-SEID; \<^verbatim>\<open>u1\<close> has the flags V6, V4.\<close>

record pfcp_f_seid_ie =
  fsi_u1 :: u8
  fsi_seid :: u64
  fsi_ipv4_address :: u32
  fsi_ipv6_address :: bytes

definition pfcp_f_seid_length :: "u8 \<Rightarrow> u16" where
  "pfcp_f_seid_length o1 = 9 + (if bit o1 1 then 4 else 0) + (if bit o1 0 then 16 else 0)"

definition pfcp_f_seid_of_core :: "fseid_t \<Rightarrow> pfcp_tlv \<times> pfcp_f_seid_ie" where
  "pfcp_f_seid_of_core b =
     (let o1 = flags [fsd_v6 b, fsd_v4 b] in
      (pfcp_ie_new PFCP_IE_F_SEID (pfcp_f_seid_length o1),
       \<lparr>fsi_u1 = o1, fsi_seid = fsd_seid b,
        fsi_ipv4_address = (if fsd_v4 b then fsd_ipv4_address b else 0),
        fsi_ipv6_address = (if fsd_v6 b then fsd_ipv6_address b else in6addr_any)\<rparr>))"

definition pfcp_f_seid_new :: "(nat \<Rightarrow> u8) \<Rightarrow> pfcp_f_seid_ie" where
  "pfcp_f_seid_new junk =
     \<lparr>fsi_u1 = junk 0, fsi_seid = mem_word junk 1 8, fsi_ipv4_address = mem_word junk 9 4,
      fsi_ipv6_address = mem_array junk 13 16\<rparr>"

definition pfcp_f_seid_to_core :: "pfcp_f_seid_ie \<Rightarrow> fseid_t" where
  "pfcp_f_seid_to_core v =
     \<lparr>fsd_v4 = bit (fsi_u1 v) 1, fsd_v6 = bit (fsi_u1 v) 0, fsd_seid = fsi_seid v,
      fsd_ipv4_address = (if bit (fsi_u1 v) 1 then fsi_ipv4_address v else 0),
      fsd_ipv6_address = (if bit (fsi_u1 v) 0 then fsi_ipv6_address v else in6addr_any)\<rparr>"

definition pfcp_f_seid_dump_to ::
  "pfcp_tlv \<Rightarrow> pfcp_f_seid_ie \<Rightarrow> (bytes \<times> pfcp_tlv \<times> pfcp_f_seid_ie) pfcp_result" where
  "pfcp_f_seid_dump_to t v =
     (let o1 = fsi_u1 v; t' = set_length (pfcp_f_seid_length o1) t in
      Inr (pfcp_tlv_dump_to t' @ [o1] @ be_bytes 8 (fsi_seid v)
             @ only_if (bit o1 1) (pfcp_ipv4_address_dump_to (fsi_ipv4_address v))
             @ only_if (bit o1 0) (pfcp_ipv6_address_dump_to (fsi_ipv6_address v)), t', v))"

definition pfcp_f_seid_load_from ::
  "pfcp_tlv \<Rightarrow> pfcp_f_seid_ie \<Rightarrow> istream \<Rightarrow> (pfcp_f_seid_ie \<times> istream) pfcp_result" where
  "pfcp_f_seid_load_from t v s =
     (case read_u8 (fsi_u1 v) s of (o1, s1) \<Rightarrow>
      if ptlv_length t \<noteq> pfcp_f_seid_length o1 then bad_length t
      else case read_be 8 (fsi_seid v) s1 of (sd, s2) \<Rightarrow>
           case read_if (bit o1 1) (pfcp_ipv4_address_load_from (fsi_ipv4_address v)) (fsi_ipv4_address v) s2 of (a4, s3) \<Rightarrow>
           case read_if (bit o1 0) (pfcp_ipv6_address_load_from (fsi_ipv6_address v)) (fsi_ipv6_address v) s3 of (a6, s4) \<Rightarrow>
             Inr (\<lparr>fsi_u1 = o1, fsi_seid = sd, fsi_ipv4_address = a4, fsi_ipv6_address = a6\<rparr>, s4))"

text \<open>A node identity; the low half of \<^verbatim>\<open>u1\<close> is its type.\<close>

definition PFCP_NODE_ID_TYPE_IPV4_ADDRESS :: u8 where "PFCP_NODE_ID_TYPE_IPV4_ADDRESS = 0"
definition PFCP_NODE_ID_TYPE_IPV6_ADDRESS :: u8 where "PFCP_NODE_ID_TYPE_IPV6_ADDRESS = 1"
definition PFCP_NODE_ID_TYPE_FQDN :: u8 where "PFCP_NODE_ID_TYPE_FQDN = 2"

lemmas pfcp_node_id_types =
  PFCP_NODE_ID_TYPE_IPV4_ADDRESS_def PFCP_NODE_ID_TYPE_IPV6_ADDRESS_def PFCP_NODE_ID_TYPE_FQDN_def

record pfcp_node_id_ie =
  nii_u1 :: u8
  nii_ipv4_address :: u32
  nii_ipv6_address :: bytes
  nii_fqdn :: bytes

definition pfcp_node_id_of_core :: "node_id_t \<Rightarrow> pfcp_tlv \<times> pfcp_node_id_ie" where
  "pfcp_node_id_of_core b =
     (let ty = nid_type b AND 0x0F;
          t = pfcp_ie_new PFCP_IE_NODE_ID 1;
          v = \<lparr>nii_u1 = ty, nii_ipv4_address = 0, nii_ipv6_address = in6addr_any, nii_fqdn = []\<rparr>
      in if ty = PFCP_NODE_ID_TYPE_IPV4_ADDRESS
         then (add_length 4 t, v\<lparr>nii_ipv4_address := word_of_be (rev (take 4 (nid_u1 b)))\<rparr>)
         else if ty = PFCP_NODE_ID_TYPE_IPV6_ADDRESS
         then (add_length 16 t, v\<lparr>nii_ipv6_address := nid_u1 b\<rparr>)
         else if ty = PFCP_NODE_ID_TYPE_FQDN
         then (add_length (of_nat (length (nid_fqdn b) + 1)) t, v\<lparr>nii_fqdn := nid_fqdn b\<rparr>)
         else (t, v))"

definition pfcp_node_id_new :: "(nat \<Rightarrow> u8) \<Rightarrow> pfcp_node_id_ie" where
  "pfcp_node_id_new junk =
     \<lparr>nii_u1 = junk 0, nii_ipv4_address = mem_word junk 1 4, nii_ipv6_address = mem_array junk 5 16, nii_fqdn = []\<rparr>"

text \<open>\<^verbatim>\<open>to_core_type\<close> writes into a core type of zeros.\<close>

definition pfcp_node_id_to_core :: "pfcp_node_id_ie \<Rightarrow> node_id_t" where
  "pfcp_node_id_to_core v =
     (let ty = nii_u1 v AND 0x0F; c = \<lparr>nid_type = ty, nid_u1 = replicate 16 0, nid_fqdn = []\<rparr> in
      if ty = PFCP_NODE_ID_TYPE_IPV4_ADDRESS then c\<lparr>nid_u1 := mem_bytes 4 (nii_ipv4_address v) @ replicate 12 0\<rparr>
      else if ty = PFCP_NODE_ID_TYPE_IPV6_ADDRESS then c\<lparr>nid_u1 := nii_ipv6_address v\<rparr>
      else if ty = PFCP_NODE_ID_TYPE_FQDN then c\<lparr>nid_fqdn := nii_fqdn v\<rparr>
      else c)"

definition pfcp_node_id_dump_to ::
  "(nat \<Rightarrow> u8) \<Rightarrow> pfcp_tlv \<Rightarrow> pfcp_node_id_ie \<Rightarrow> (bytes \<times> pfcp_tlv \<times> pfcp_node_id_ie) pfcp_result" where
  "pfcp_node_id_dump_to junk t v =
     (let ty = nii_u1 v AND 0x0F; h = pfcp_tlv_dump_to t @ [nii_u1 v] in
      if ty = PFCP_NODE_ID_TYPE_IPV4_ADDRESS then Inr (h @ pfcp_ipv4_address_dump_to (nii_ipv4_address v), t, v)
      else if ty = PFCP_NODE_ID_TYPE_IPV6_ADDRESS then Inr (h @ pfcp_ipv6_address_dump_to (nii_ipv6_address v), t, v)
      else if ty = PFCP_NODE_ID_TYPE_FQDN then
        (case pfcp_string_to_dotted (fresh junk (length (nii_fqdn v) + 1)) (nii_fqdn v) of
           None \<Rightarrow> Inl (Pundefined Endless_loop)
         | Some dotted \<Rightarrow> Inr (h @ dotted, t, v))
      else Inr (h, t, v))"

definition pfcp_node_id_load_from ::
  "(nat \<Rightarrow> u8) \<Rightarrow> pfcp_tlv \<Rightarrow> pfcp_node_id_ie \<Rightarrow> istream \<Rightarrow> (pfcp_node_id_ie \<times> istream) pfcp_result" where
  "pfcp_node_id_load_from junk t v s =
     (case read_u8 (nii_u1 v) s of (o1, s1) \<Rightarrow>
      let check_length = ptlv_length t - 1; ty = o1 AND 0x0F in
      if ty = PFCP_NODE_ID_TYPE_IPV4_ADDRESS then
        (if check_length \<noteq> 4 then bad_length t
         else case pfcp_ipv4_address_load_from (nii_ipv4_address v) s1 of (a, s2) \<Rightarrow>
           Inr (v\<lparr>nii_u1 := o1, nii_ipv4_address := a\<rparr>, s2))
      else if ty = PFCP_NODE_ID_TYPE_IPV6_ADDRESS then
        (if check_length \<noteq> 16 then bad_length t
         else case pfcp_ipv6_address_load_from (nii_ipv6_address v) s1 of (a, s2) \<Rightarrow>
           Inr (v\<lparr>nii_u1 := o1, nii_ipv6_address := a\<rparr>, s2))
      else if ty = PFCP_NODE_ID_TYPE_FQDN then
        (if check_length = 0 then bad_length t
         else case is_read (fresh junk (unat check_length)) s1 of (dot, s2) \<Rightarrow>
           (case pfcp_dotted_to_string dot of
              None \<Rightarrow> Inl (Pundefined Endless_loop)
            | Some (Inl u) \<Rightarrow> Inl (Pundefined u)
            | Some (Inr (_, f)) \<Rightarrow> Inr (v\<lparr>nii_u1 := o1, nii_fqdn := f\<rparr>, s2)))
      else Inr (v\<lparr>nii_u1 := o1\<rparr>, s1))"

text \<open>The description of an outer header says which of the other fields are there.\<close>

definition ohc_teid_present :: "u16 \<Rightarrow> bool" where
  "ohc_teid_present d \<longleftrightarrow> d AND (PFCP_OHC_GTPU_UDP_IPV4 OR PFCP_OHC_GTPU_UDP_IPV6) \<noteq> 0"

definition ohc_v4_present :: "u16 \<Rightarrow> bool" where
  "ohc_v4_present d \<longleftrightarrow> d AND (PFCP_OHC_GTPU_UDP_IPV4 OR PFCP_OHC_UDP_IPV4) \<noteq> 0"

definition ohc_v6_present :: "u16 \<Rightarrow> bool" where
  "ohc_v6_present d \<longleftrightarrow> d AND (PFCP_OHC_GTPU_UDP_IPV6 OR PFCP_OHC_UDP_IPV6) \<noteq> 0"

definition ohc_port_present :: "u16 \<Rightarrow> bool" where
  "ohc_port_present d \<longleftrightarrow> d AND PFCP_OHC_UDP_IPV4 \<noteq> 0"

definition pfcp_outer_header_creation_of_core ::
  "outer_header_creation_t \<Rightarrow> pfcp_tlv \<times> outer_header_creation_t" where
  "pfcp_outer_header_creation_of_core b =
     (let d = oh_description b in
      (pfcp_ie_new PFCP_IE_OUTER_HEADER_CREATION
         (2 + (if ohc_teid_present d then 4 else 0) + (if ohc_v4_present d then 4 else 0)
            + (if ohc_v6_present d then 16 else 0) + (if ohc_port_present d then 2 else 0)),
       \<lparr>oh_description = d,
        oh_teid = (if ohc_teid_present d then oh_teid b else 0),
        oh_ipv4_address = (if ohc_v4_present d then oh_ipv4_address b else 0),
        oh_ipv6_address = (if ohc_v6_present d then oh_ipv6_address b else replicate 16 0),
        oh_port_number = (if ohc_port_present d then oh_port_number b else 0)\<rparr>))"

definition pfcp_outer_header_creation_new :: "(nat \<Rightarrow> u8) \<Rightarrow> outer_header_creation_t" where
  "pfcp_outer_header_creation_new junk =
     \<lparr>oh_description = mem_word junk 0 2, oh_teid = mem_word junk 2 4, oh_ipv4_address = mem_word junk 6 4,
      oh_ipv6_address = mem_array junk 10 16, oh_port_number = mem_word junk 26 2\<rparr>"

definition pfcp_outer_header_creation_dump_to :: "pfcp_tlv \<Rightarrow> outer_header_creation_t \<Rightarrow> bytes" where
  "pfcp_outer_header_creation_dump_to t v =
     (let d = oh_description v in
      pfcp_tlv_dump_to t @ be_bytes 2 d
        @ only_if (ohc_teid_present d) (be_bytes 4 (oh_teid v))
        @ only_if (ohc_v4_present d) (pfcp_ipv4_address_dump_to (oh_ipv4_address v))
        @ only_if (ohc_v6_present d) (pfcp_ipv6_address_dump_to (oh_ipv6_address v))
        @ only_if (ohc_port_present d) (be_bytes 2 (oh_port_number v)))"

definition pfcp_outer_header_creation_load_from ::
  "pfcp_tlv \<Rightarrow> outer_header_creation_t \<Rightarrow> istream \<Rightarrow> (outer_header_creation_t \<times> istream) pfcp_result" where
  "pfcp_outer_header_creation_load_from t v s =
     (if ptlv_length t < 4 then bad_length t
      else case read_be 2 (oh_description v) s of (d, s1) \<Rightarrow>
           case read_if (ohc_teid_present d) (read_be 4 (oh_teid v)) (oh_teid v) s1 of (td, s2) \<Rightarrow>
           case read_if (ohc_v4_present d) (pfcp_ipv4_address_load_from (oh_ipv4_address v)) (oh_ipv4_address v) s2 of (a4, s3) \<Rightarrow>
           case read_if (ohc_v6_present d) (pfcp_ipv6_address_load_from (oh_ipv6_address v)) (oh_ipv6_address v) s3 of (a6, s4) \<Rightarrow>
           case read_if (ohc_port_present d) (read_be 2 (oh_port_number v)) (oh_port_number v) s4 of (p, s5) \<Rightarrow>
             Inr (\<lparr>oh_description = d, oh_teid = td, oh_ipv4_address = a4, oh_ipv6_address = a6,
                   oh_port_number = p\<rparr>, s5))"

text \<open>The address of a UE; \<^verbatim>\<open>u1\<close> has the flags V6, V4, S/D, IPv6D.\<close>

record pfcp_ue_ip_address_ie =
  uii_u1 :: u8
  uii_ipv4_address :: u32
  uii_ipv6_address :: bytes
  uii_ipv6_prefix_delegation_bits :: u8

definition pfcp_ue_ip_address_length :: "u8 \<Rightarrow> u16" where
  "pfcp_ue_ip_address_length o1 =
     1 + (if bit o1 1 then 4 else 0) + (if bit o1 0 then 16 + (if bit o1 3 then 1 else 0) else 0)"

definition pfcp_ue_ip_address_of_core :: "ue_ip_address_t \<Rightarrow> pfcp_tlv \<times> pfcp_ue_ip_address_ie" where
  "pfcp_ue_ip_address_of_core b =
     (let o1 = flags [uip_v6 b, uip_v4 b, uip_sd b, uip_v6 b \<and> uip_ipv6d b] in
      (pfcp_ie_new PFCP_IE_UE_IP_ADDRESS (pfcp_ue_ip_address_length o1),
       \<lparr>uii_u1 = o1,
        uii_ipv4_address = (if uip_v4 b then uip_ipv4_address b else 0),
        uii_ipv6_address = (if uip_v6 b then uip_ipv6_address b else in6addr_any),
        uii_ipv6_prefix_delegation_bits =
          (if uip_v6 b \<and> uip_ipv6d b then uip_ipv6_prefix_delegation_bits b else 0)\<rparr>))"

definition pfcp_ue_ip_address_new :: "(nat \<Rightarrow> u8) \<Rightarrow> pfcp_ue_ip_address_ie" where
  "pfcp_ue_ip_address_new junk =
     \<lparr>uii_u1 = junk 0, uii_ipv4_address = mem_word junk 1 4, uii_ipv6_address = mem_array junk 5 16,
      uii_ipv6_prefix_delegation_bits = junk 21\<rparr>"

definition pfcp_ue_ip_address_to_core :: "pfcp_ue_ip_address_ie \<Rightarrow> ue_ip_address_t" where
  "pfcp_ue_ip_address_to_core v =
     (let o1 = uii_u1 v in
      \<lparr>uip_ipv6d = bit o1 0 \<and> bit o1 3, uip_sd = bit o1 2, uip_v4 = bit o1 1, uip_v6 = bit o1 0,
       uip_ipv4_address = (if bit o1 1 then uii_ipv4_address v else 0),
       uip_ipv6_address = (if bit o1 0 then uii_ipv6_address v else in6addr_any),
       uip_ipv6_prefix_delegation_bits =
         (if bit o1 0 \<and> bit o1 3 then uii_ipv6_prefix_delegation_bits v else 0)\<rparr>)"

definition pfcp_ue_ip_address_dump_to ::
  "pfcp_tlv \<Rightarrow> pfcp_ue_ip_address_ie \<Rightarrow> (bytes \<times> pfcp_tlv \<times> pfcp_ue_ip_address_ie) pfcp_result" where
  "pfcp_ue_ip_address_dump_to t v =
     (let o1 = uii_u1 v; t' = set_length (pfcp_ue_ip_address_length o1) t in
      Inr (pfcp_tlv_dump_to t' @ [o1]
             @ only_if (bit o1 1) (pfcp_ipv4_address_dump_to (uii_ipv4_address v))
             @ only_if (bit o1 0) (pfcp_ipv6_address_dump_to (uii_ipv6_address v)
                 @ only_if (bit o1 3) [uii_ipv6_prefix_delegation_bits v]), t', v))"

definition pfcp_ue_ip_address_load_from ::
  "pfcp_tlv \<Rightarrow> pfcp_ue_ip_address_ie \<Rightarrow> istream \<Rightarrow> (pfcp_ue_ip_address_ie \<times> istream) pfcp_result" where
  "pfcp_ue_ip_address_load_from t v s =
     (case read_u8 (uii_u1 v) s of (o1, s1) \<Rightarrow>
      if ptlv_length t \<noteq> pfcp_ue_ip_address_length o1 then bad_length t
      else case read_if (bit o1 1) (pfcp_ipv4_address_load_from (uii_ipv4_address v)) (uii_ipv4_address v) s1 of (a4, s2) \<Rightarrow>
           case read_if (bit o1 0) (pfcp_ipv6_address_load_from (uii_ipv6_address v)) (uii_ipv6_address v) s2 of (a6, s3) \<Rightarrow>
           case read_if (bit o1 0 \<and> bit o1 3) (read_u8 (uii_ipv6_prefix_delegation_bits v))
                  (uii_ipv6_prefix_delegation_bits v) s3 of (p, s4) \<Rightarrow>
             Inr (\<lparr>uii_u1 = o1, uii_ipv4_address = a4, uii_ipv6_address = a6,
                   uii_ipv6_prefix_delegation_bits = p\<rparr>, s4))"

section \<open>Failed rules, resources of a node and subscribers\<close>

text \<open>
  The length of a failed rule does not count the octet of the rule type that \<^verbatim>\<open>dump_to\<close> writes before
  the identifier, and \<^verbatim>\<open>load_from\<close> asks for the length one first, whatever the type.
\<close>

record failed_rule_id_ie =
  fri_u1 :: u8
  fri_rule_id_value :: u32

definition pfcp_failed_rule_id_of_core :: "failed_rule_id_t \<Rightarrow> pfcp_tlv \<times> failed_rule_id_ie" where
  "pfcp_failed_rule_id_of_core b =
     (let ty = rule_id_type b in
      (pfcp_ie_new PFCP_IE_FAILED_RULE_ID
         (if ty = FAILED_RULE_ID_TYPE_BAR then 1
          else if ty = FAILED_RULE_ID_TYPE_PDR then 2
          else if ty = FAILED_RULE_ID_TYPE_URR \<or> ty = FAILED_RULE_ID_TYPE_FAR \<or> ty = FAILED_RULE_ID_TYPE_QER then 4
          else 0),
       \<lparr>fri_u1 = ty AND 0x1F, fri_rule_id_value = rule_id_value b\<rparr>))"

definition pfcp_failed_rule_id_new :: failed_rule_id_ie where
  "pfcp_failed_rule_id_new = \<lparr>fri_u1 = 0, fri_rule_id_value = 0\<rparr>"

definition pfcp_failed_rule_id_to_core :: "failed_rule_id_ie \<Rightarrow> failed_rule_id_t" where
  "pfcp_failed_rule_id_to_core v = \<lparr>rule_id_type = fri_u1 v AND 0x1F, rule_id_value = fri_rule_id_value v\<rparr>"

definition pfcp_failed_rule_id_dump_to ::
  "pfcp_tlv \<Rightarrow> failed_rule_id_ie \<Rightarrow> (bytes \<times> pfcp_tlv \<times> failed_rule_id_ie) pfcp_result" where
  "pfcp_failed_rule_id_dump_to t v =
     (let h = pfcp_tlv_dump_to t @ [fri_u1 v] in
      if ptlv_length t = 1 then Inr (h @ [ucast (fri_rule_id_value v)], t, v)
      else if ptlv_length t = 2 then Inr (h @ be_bytes 2 (ucast (fri_rule_id_value v) :: u16), t, v)
      else if ptlv_length t = 4 then Inr (h @ be_bytes 4 (fri_rule_id_value v), t, v)
      else bad_length t)"

definition pfcp_failed_rule_id_load_from ::
  "(nat \<Rightarrow> u8) \<Rightarrow> pfcp_tlv \<Rightarrow> failed_rule_id_ie \<Rightarrow> istream \<Rightarrow> (failed_rule_id_ie \<times> istream) pfcp_result" where
  "pfcp_failed_rule_id_load_from junk t v s =
     (if ptlv_length t \<noteq> 1 then bad_length t
      else case read_u8 (fri_u1 v) s of (o1, s1) \<Rightarrow>
      let ty = o1 AND 0x1F in
      if ty = FAILED_RULE_ID_TYPE_BAR then
        (if ptlv_length t \<noteq> 1 then bad_length t
         else case read_u8 (junk 0) s1 of (b, s2) \<Rightarrow> Inr (\<lparr>fri_u1 = o1, fri_rule_id_value = ucast b\<rparr>, s2))
      else if ty = FAILED_RULE_ID_TYPE_PDR then
        (if ptlv_length t \<noteq> 2 then bad_length t
         else case read_be 2 (mem_word junk 0 2 :: u16) s1 of (w, s2) \<Rightarrow>
           Inr (\<lparr>fri_u1 = o1, fri_rule_id_value = ucast w\<rparr>, s2))
      else if ty = FAILED_RULE_ID_TYPE_URR \<or> ty = FAILED_RULE_ID_TYPE_FAR \<or> ty = FAILED_RULE_ID_TYPE_QER then
        (if ptlv_length t \<noteq> 4 then bad_length t
         else case read_be 4 (mem_word junk 0 4 :: u32) s1 of (w, s2) \<Rightarrow>
           Inr (\<lparr>fri_u1 = o1, fri_rule_id_value = w\<rparr>, s2))
      else Inl (Pie_value (ptlv_type t) ''rule_id_type''))"

text \<open>
  The IP resources of a user plane node; \<^verbatim>\<open>u1\<close> has the flags V4, V6, three bits TEIDRI, ASSONI, ASSOSI.
  \<^verbatim>\<open>dump_to\<close> always writes the TEID range, as a number of four bytes, and the network instance as a
  number of four bytes; the length counts nothing for the range and two for the instance. \<^verbatim>\<open>load_from\<close>
  reads one byte for the range and applies \<^verbatim>\<open>be32toh\<close> to it, which leaves zero.
\<close>

record up_ip_resource_ie =
  iri_u1 :: u8
  iri_teid_range :: u8
  iri_ipv4_address :: u32
  iri_ipv6_address :: bytes
  iri_network_instance :: u16
  iri_u2 :: u8

definition pfcp_user_plane_ip_resource_information_of_core :: "up_ip_resource_t \<Rightarrow> pfcp_tlv \<times> up_ip_resource_ie" where
  "pfcp_user_plane_ip_resource_information_of_core b =
     (pfcp_ie_new PFCP_IE_USER_PLANE_IP_RESOURCE_INFORMATION
        (1 + (if ipr_v4 b then 4 else 0) + (if ipr_v6 b then 16 else 0)
           + (if ipr_assoni b then 2 else 0) + (if ipr_assosi b then 1 else 0)),
      \<lparr>iri_u1 = flags [ipr_v4 b, ipr_v6 b, bit (ipr_teidri b) 0, bit (ipr_teidri b) 1, bit (ipr_teidri b) 2,
                       ipr_assoni b, ipr_assosi b],
       iri_teid_range = ipr_teid_range b,
       iri_ipv4_address = (if ipr_v4 b then ipr_ipv4_address b else 0),
       iri_ipv6_address = (if ipr_v6 b then ipr_ipv6_address b else in6addr_any),
       iri_network_instance = (if ipr_assoni b then ipr_network_instance b else 0),
       iri_u2 = (if ipr_assosi b then ipr_source_interface b AND 0x0F else 0)\<rparr>)"

definition pfcp_user_plane_ip_resource_information_new :: up_ip_resource_ie where
  "pfcp_user_plane_ip_resource_information_new =
     \<lparr>iri_u1 = 0, iri_teid_range = 0, iri_ipv4_address = 0, iri_ipv6_address = in6addr_any,
      iri_network_instance = 0, iri_u2 = 0\<rparr>"

definition pfcp_user_plane_ip_resource_information_to_core :: "up_ip_resource_ie \<Rightarrow> up_ip_resource_t" where
  "pfcp_user_plane_ip_resource_information_to_core v =
     (let o1 = iri_u1 v in
      \<lparr>ipr_assosi = bit o1 6, ipr_assoni = bit o1 5, ipr_teidri = drop_bit 2 o1 AND 0x07,
       ipr_v6 = bit o1 1, ipr_v4 = bit o1 0, ipr_teid_range = iri_teid_range v,
       ipr_ipv4_address = (if bit o1 0 then iri_ipv4_address v else 0),
       ipr_ipv6_address = (if bit o1 1 then iri_ipv6_address v else in6addr_any),
       ipr_network_instance = (if bit o1 5 then iri_network_instance v else 0),
       ipr_source_interface = (if bit o1 6 then iri_u2 v AND 0x0F else 0)\<rparr>)"

definition pfcp_user_plane_ip_resource_information_dump_to :: "pfcp_tlv \<Rightarrow> up_ip_resource_ie \<Rightarrow> bytes" where
  "pfcp_user_plane_ip_resource_information_dump_to t v =
     (let o1 = iri_u1 v in
      pfcp_tlv_dump_to t @ [o1] @ be_bytes 4 (ucast (iri_teid_range v) :: u32)
        @ only_if (bit o1 0) (pfcp_ipv4_address_dump_to (iri_ipv4_address v))
        @ only_if (bit o1 1) (pfcp_ipv6_address_dump_to (iri_ipv6_address v))
        @ only_if (bit o1 5) (be_bytes 4 (ucast (iri_network_instance v) :: u32))
        @ only_if (bit o1 6) [iri_u2 v])"

definition pfcp_user_plane_ip_resource_information_load_from ::
  "pfcp_tlv \<Rightarrow> up_ip_resource_ie \<Rightarrow> istream \<Rightarrow> (up_ip_resource_ie \<times> istream) pfcp_result" where
  "pfcp_user_plane_ip_resource_information_load_from t v s =
     (if ptlv_length t < 1 then bad_length t
      else case read_u8 (iri_u1 v) s of (o1, s1) \<Rightarrow>
           case read_u8 (iri_teid_range v) s1 of (tr, s2) \<Rightarrow>
           case read_if (bit o1 0) (pfcp_ipv4_address_load_from (iri_ipv4_address v)) (iri_ipv4_address v) s2 of (a4, s3) \<Rightarrow>
           case read_if (bit o1 1) (pfcp_ipv6_address_load_from (iri_ipv6_address v)) (iri_ipv6_address v) s3 of (a6, s4) \<Rightarrow>
           case read_if (bit o1 5) (read_be 2 (iri_network_instance v)) (iri_network_instance v) s4 of (ni, s5) \<Rightarrow>
           case read_if (bit o1 6) (read_u8 (iri_u2 v)) (iri_u2 v) s5 of (o2, s6) \<Rightarrow>
             Inr (\<lparr>iri_u1 = o1, iri_teid_range = ucast (be32toh (ucast tr)), iri_ipv4_address = a4,
                   iri_ipv6_address = a6, iri_network_instance = ni, iri_u2 = o2\<rparr>, s6))"

text \<open>
  The identities of a user; \<^verbatim>\<open>u1\<close> has the flags IMSIF, IMEIF, MSISDNF, NAIF. The constructor counts the
  identities into the length, and \<^verbatim>\<open>dump_to\<close> adds them once more; \<^verbatim>\<open>load_from\<close> asks for the length one.
  Digits are read into an array of eight bytes for as long as the octet before them says.
\<close>

record user_id_ie =
  uie_u1 :: u8
  uie_length_of_imsi :: u8
  uie_imsi :: bcd8
  uie_length_of_imei :: u8
  uie_imei :: bytes
  uie_length_of_msisdn :: u8
  uie_msisdn :: bcd8
  uie_length_of_nai :: u8
  uie_nai :: bytes

definition pfcp_user_id_of_core :: "user_id_t \<Rightarrow> pfcp_tlv \<times> user_id_ie" where
  "pfcp_user_id_of_core b =
     (pfcp_ie_new PFCP_IE_USER_ID
        (1 + (if uid_imsif b then 1 + ucast (uid_length_of_imsi b) else 0)
           + (if uid_imeif b then 1 + ucast (uid_length_of_imei b) else 0)
           + (if uid_msisdnf b then 1 + ucast (uid_length_of_msisdn b) else 0)
           + (if uid_naif b then 1 + ucast (uid_length_of_nai b) else 0)),
      \<lparr>uie_u1 = flags [uid_imsif b, uid_imeif b, uid_msisdnf b, uid_naif b],
       uie_length_of_imsi = (if uid_imsif b then uid_length_of_imsi b else 0),
       uie_imsi = (if uid_imsif b then uid_imsi b else bcd8_new),
       uie_length_of_imei = (if uid_imeif b then uid_length_of_imei b else 0),
       uie_imei = (if uid_imeif b then uid_imei b else []),
       uie_length_of_msisdn = (if uid_msisdnf b then uid_length_of_msisdn b else 0),
       uie_msisdn = (if uid_msisdnf b then uid_msisdn b else bcd8_new),
       uie_length_of_nai = (if uid_naif b then uid_length_of_nai b else 0),
       uie_nai = (if uid_naif b then uid_nai b else [])\<rparr>)"

definition pfcp_user_id_new :: "(nat \<Rightarrow> u8) \<Rightarrow> user_id_ie" where
  "pfcp_user_id_new junk =
     \<lparr>uie_u1 = junk 0, uie_length_of_imsi = junk 1,
      uie_imsi = \<lparr>bcd_b = mem_array junk 2 8, num_digits = mem_word junk 10 4\<rparr>,
      uie_length_of_imei = junk 14, uie_imei = [], uie_length_of_msisdn = junk 15,
      uie_msisdn = \<lparr>bcd_b = mem_array junk 16 8, num_digits = mem_word junk 24 4\<rparr>,
      uie_length_of_nai = junk 28, uie_nai = []\<rparr>"

definition pfcp_user_id_to_core :: "user_id_ie \<Rightarrow> user_id_t" where
  "pfcp_user_id_to_core v =
     (let o1 = uie_u1 v in
      \<lparr>uid_naif = bit o1 3, uid_msisdnf = bit o1 2, uid_imeif = bit o1 1, uid_imsif = bit o1 0,
       uid_length_of_imsi = (if bit o1 0 then uie_length_of_imsi v else 0),
       uid_imsi = (if bit o1 0 then uie_imsi v else bcd8_new),
       uid_length_of_imei = (if bit o1 1 then uie_length_of_imei v else 0),
       uid_imei = (if bit o1 1 then uie_imei v else []),
       uid_length_of_msisdn = (if bit o1 2 then uie_length_of_msisdn v else 0),
       uid_msisdn = (if bit o1 2 then uie_msisdn v else bcd8_new),
       uid_length_of_nai = (if bit o1 3 then uie_length_of_nai v else 0),
       uid_nai = (if bit o1 3 then uie_nai v else [])\<rparr>)"

definition fill_digits :: "bcd8 \<Rightarrow> u8 \<times> bcd8" where
  "fill_digits v =
     (let d = (if num_digits v > 15 then 15 else num_digits v); n = unat (d div 2) in
      if bit d 0 then (of_nat (n + 1), \<lparr>bcd_b = (bcd_b v)[n := bcd_b v ! n OR 0xF0], num_digits = d\<rparr>)
      else (of_nat n, \<lparr>bcd_b = bcd_b v, num_digits = d\<rparr>))"

definition pfcp_user_id_dump_to ::
  "pfcp_tlv \<Rightarrow> user_id_ie \<Rightarrow> (bytes \<times> pfcp_tlv \<times> user_id_ie) pfcp_result" where
  "pfcp_user_id_dump_to t v =
     (let o1 = uie_u1 v;
          v1 = (if bit o1 0 then (case fill_digits (uie_imsi v) of (l, d) \<Rightarrow>
                  v\<lparr>uie_length_of_imsi := l, uie_imsi := d\<rparr>) else v);
          t1 = (if bit o1 0 then add_length (1 + ucast (uie_length_of_imsi v1)) t else t);
          t2 = (if bit o1 1 then add_length (1 + ucast (uie_length_of_imei v1)) t1 else t1);
          v2 = (if bit o1 2 then (case fill_digits (uie_msisdn v1) of (l, d) \<Rightarrow>
                  v1\<lparr>uie_length_of_msisdn := l, uie_msisdn := d\<rparr>) else v1);
          t3 = (if bit o1 2 then add_length (1 + ucast (uie_length_of_msisdn v2)) t2 else t2);
          t4 = (if bit o1 3 then add_length (1 + ucast (uie_length_of_nai v2)) t3 else t3)
      in Inr (pfcp_tlv_dump_to t4 @ [o1]
           @ only_if (bit o1 0) (uie_length_of_imsi v2 # take (unat (uie_length_of_imsi v2)) (bcd_b (uie_imsi v2)))
           @ only_if (bit o1 1) (uie_length_of_imei v2 # uie_imei v2)
           @ only_if (bit o1 2) (uie_length_of_msisdn v2 # take (unat (uie_length_of_msisdn v2)) (bcd_b (uie_msisdn v2)))
           @ only_if (bit o1 3) (uie_length_of_nai v2 # uie_nai v2), t4, v2))"

text \<open>The digits of an IMSI or MSISDN: the octet with their number of bytes, the bytes, the count.\<close>

definition read_digits :: "u32 \<Rightarrow> u8 \<Rightarrow> bcd8 \<Rightarrow> istream \<Rightarrow> ((u8 \<times> bcd8) \<times> istream) pfcp_result" where
  "read_digits most l0 v s =
     (case read_u8 l0 s of (l, s1) \<Rightarrow>
      let n = unat l in
      if n = 0 \<or> n > length (bcd_b v) then Inl (Pundefined Out_of_range)
      else case is_read (take n (bcd_b v)) s1 of (bs, s2) \<Rightarrow>
        (let d = ucast l * 2; d' = (if bs ! (n - 1) AND 0xF0 = 0xF0 then d - 1 else d)
         in Inr ((l, \<lparr>bcd_b = bs @ drop n (bcd_b v), num_digits = (if d' > most then most else d')\<rparr>), s2)))"

definition read_text :: "(nat \<Rightarrow> u8) \<Rightarrow> u8 \<Rightarrow> istream \<Rightarrow> (u8 \<times> bytes) \<times> istream" where
  "read_text junk l0 s =
     (case read_u8 l0 s of (l, s1) \<Rightarrow> case is_read (fresh junk (unat l)) s1 of (e, s2) \<Rightarrow> ((l, e), s2))"

definition pfcp_user_id_load_from ::
  "(nat \<Rightarrow> u8) \<Rightarrow> pfcp_tlv \<Rightarrow> user_id_ie \<Rightarrow> istream \<Rightarrow> (user_id_ie \<times> istream) pfcp_result" where
  "pfcp_user_id_load_from junk t v s =
     (if ptlv_length t \<noteq> 1 then bad_length t
      else case read_u8 (uie_u1 v) s of (o1, s1) \<Rightarrow>
        rbind (if bit o1 0 then read_digits 15 (uie_length_of_imsi v) (uie_imsi v) s1
               else Inr ((uie_length_of_imsi v, uie_imsi v), s1)) (\<lambda>((l1, imsi), s2).
        case read_if (bit o1 1) (read_text junk (uie_length_of_imei v)) (uie_length_of_imei v, uie_imei v) s2 of
          ((l2, imei), s3) \<Rightarrow>
        rbind (if bit o1 2 then read_digits (- 1) (uie_length_of_msisdn v) (uie_msisdn v) s3
               else Inr ((uie_length_of_msisdn v, uie_msisdn v), s3)) (\<lambda>((l3, msisdn), s4).
        case read_if (bit o1 3) (read_text junk (uie_length_of_nai v)) (uie_length_of_nai v, uie_nai v) s4 of
          ((l4, nai), s5) \<Rightarrow>
          Inr (\<lparr>uie_u1 = o1, uie_length_of_imsi = l1, uie_imsi = imsi, uie_length_of_imei = l2,
                uie_imei = imei, uie_length_of_msisdn = l3, uie_msisdn = msisdn,
                uie_length_of_nai = l4, uie_nai = nai\<rparr>, s5))))"

end
