(* ===== verification/Pfcp_Codecs.thy ===== *)
theory Pfcp_Codecs
  imports Pfcp_Ie
begin

text \<open>
  What the classes of PFCP elements promise each other across the wire, as a locale, and which classes
  keep it. The sender makes an element from a core value and dumps it; the receiver reads the header,
  makes an object of the class for it, loads it and converts it back to a core value. \<open>recv\<close> is the
  core value that arrives, which is the one sent for every class but three: a network instance arrives
  in its wire form, the identifier of a URR with its bytes reversed, and an outer header with what the
  receiver's memory held in the fields that its description does not name.
\<close>

section \<open>The interface of a class\<close>

locale pfcp_class =
  fixes ty :: u16
    and of_core :: "'c \<Rightarrow> (pfcp_tlv \<times> 'v) pfcp_result"
    and dump :: "pfcp_tlv \<Rightarrow> 'v \<Rightarrow> (bytes \<times> pfcp_tlv \<times> 'v) pfcp_result"
    and load :: "pfcp_tlv \<Rightarrow> istream \<Rightarrow> ('v \<times> istream) pfcp_result"
    and to_core :: "'v \<Rightarrow> 'c"
    and ok :: "'c \<Rightarrow> bool"
    and recv :: "'c \<Rightarrow> 'c"
  assumes wire: "ok c \<Longrightarrow> \<exists>l v bs w. of_core c = Inr (pfcp_ie_new ty l, v)
      \<and> dump (pfcp_ie_new ty l) v = Inr (pfcp_tlv_dump_to (pfcp_ie_new ty l) @ bs, pfcp_ie_new ty l, v)
      \<and> length bs = unat l \<and> bs \<noteq> []
      \<and> (\<forall>r. load (pfcp_ie_new ty l) (istream_of (bs @ r)) = Inr (w, istream_of r)) \<and> to_core w = recv c"
begin

lemma wireE:
  assumes "ok c"
  obtains l v bs w where "of_core c = Inr (pfcp_ie_new ty l, v)"
    and "dump (pfcp_ie_new ty l) v = Inr (pfcp_tlv_dump_to (pfcp_ie_new ty l) @ bs, pfcp_ie_new ty l, v)"
    and "length bs = unat l" and "bs \<noteq> []"
    and "\<And>r. load (pfcp_ie_new ty l) (istream_of (bs @ r)) = Inr (w, istream_of r)" and "to_core w = recv c"
  using wire [OF assms] by blast

text \<open>Core values that arrive as they were sent are told apart by their bytes.\<close>

lemma wire_inject:
  assumes "ok c" "recv c = c" and "ok d" "recv d = d"
    and "of_core c = Inr (t, v)" "dump t v = Inr (bs, t', v')"
    and "of_core d = Inr (t, u)" "dump t u = Inr (bs, t'', u')"
  shows "c = d"
proof -
  from assms(1,5,6) obtain p w where p: "bs = pfcp_tlv_dump_to t @ p" "load t (istream_of p) = Inr (w, istream_of [])"
    "to_core w = recv c" by (elim wireE) (auto dest: spec [of _ "[]"])
  from assms(3,7,8) obtain q x where "bs = pfcp_tlv_dump_to t @ q" "load t (istream_of q) = Inr (x, istream_of [])"
    "to_core x = recv d" by (elim wireE) (auto dest: spec [of _ "[]"])
  with p assms(2,4) show ?thesis by simp
qed

end

lemma pfcp_classI:
  assumes "\<And>c. ok c \<Longrightarrow> of_core c = Inr (pfcp_ie_new ty (l c), v c)"
    and "\<And>c. ok c \<Longrightarrow> dump (pfcp_ie_new ty (l c)) (v c)
      = Inr (pfcp_tlv_dump_to (pfcp_ie_new ty (l c)) @ body c, pfcp_ie_new ty (l c), v c)"
    and "\<And>c. ok c \<Longrightarrow> length (body c) = unat (l c) \<and> body c \<noteq> []"
    and "\<And>c r. ok c \<Longrightarrow> load (pfcp_ie_new ty (l c)) (istream_of (body c @ r)) = Inr (w c, istream_of r)"
    and "\<And>c. ok c \<Longrightarrow> to_core (w c) = recv c"
  shows "pfcp_class ty of_core dump load to_core ok recv"
proof
  fix c assume "ok c"
  then show "\<exists>l v bs w. of_core c = Inr (pfcp_ie_new ty l, v)
      \<and> dump (pfcp_ie_new ty l) v = Inr (pfcp_tlv_dump_to (pfcp_ie_new ty l) @ bs, pfcp_ie_new ty l, v)
      \<and> length bs = unat l \<and> bs \<noteq> []
      \<and> (\<forall>r. load (pfcp_ie_new ty l) (istream_of (bs @ r)) = Inr (w, istream_of r)) \<and> to_core w = recv c"
    using assms by (intro exI [of _ "l c"] exI [of _ "v c"] exI [of _ "body c"] exI [of _ "w c"]) auto
qed

lemma pfcp_ie_new_simps [simp]:
  "ptlv_length (pfcp_ie_new ty l) = l" "set_length l' (pfcp_ie_new ty l) = pfcp_ie_new ty l'"
  "add_length l' (pfcp_ie_new ty l) = pfcp_ie_new ty (l + l')" "enterprise_id (pfcp_ie_new ty l) = 0"
  by (simp_all add: pfcp_ie_new_def pfcp_tlv_new_def set_length_def add_length_def)

lemma be_bytes_nonempty [simp]: "be_bytes n w = [] \<longleftrightarrow> n = 0" "mem_bytes n w = [] \<longleftrightarrow> n = 0"
  by (metis length_be_bytes length_0_conv) (metis length_mem_bytes length_0_conv)

section \<open>One number\<close>

lemmas octet_classI = pfcp_classI [where l = "\<lambda>_. 1" and v = "\<lambda>c. c" and body = "\<lambda>c. [c]" and w = "\<lambda>c. c"]

interpretation p_cause: pfcp_class PFCP_IE_CAUSE "\<lambda>c. Inr (pfcp_cause_of_core c)" "pdump pfcp_cause_dump_to"
  "\<lambda>t. pfcp_cause_load_from t old" "\<lambda>v. v" "\<lambda>_. True" "\<lambda>c. c" for old
  by (rule octet_classI) (simp_all add: pfcp_cause_of_core_def pfcp_cause_dump_to_def pfcp_cause_load_from_def)

interpretation p_source_interface: pfcp_class PFCP_IE_SOURCE_INTERFACE "\<lambda>c. Inr (pfcp_source_interface_of_core c)" "pdump pfcp_source_interface_dump_to"
  "\<lambda>t. pfcp_source_interface_load_from t old" "\<lambda>v. v" "\<lambda>_. True" "\<lambda>c. c" for old
  by (rule octet_classI) (simp_all add: pfcp_source_interface_of_core_def pfcp_source_interface_dump_to_def pfcp_source_interface_load_from_def)

interpretation p_destination_interface: pfcp_class PFCP_IE_DESTINATION_INTERFACE "\<lambda>c. Inr (pfcp_destination_interface_of_core c)" "pdump pfcp_destination_interface_dump_to"
  "\<lambda>t. pfcp_destination_interface_load_from t old" "\<lambda>v. v" "\<lambda>_. True" "\<lambda>c. c" for old
  by (rule octet_classI) (simp_all add: pfcp_destination_interface_of_core_def pfcp_destination_interface_dump_to_def pfcp_destination_interface_load_from_def)

interpretation p_bar_id: pfcp_class PFCP_IE_BAR_ID "\<lambda>c. Inr (pfcp_bar_id_of_core c)" "pdump pfcp_bar_id_dump_to"
  "\<lambda>t. pfcp_bar_id_load_from t old" "\<lambda>v. v" "\<lambda>_. True" "\<lambda>c. c" for old
  by (rule octet_classI) (simp_all add: pfcp_bar_id_of_core_def pfcp_bar_id_dump_to_def pfcp_bar_id_load_from_def)

interpretation p_outer_header_removal: pfcp_class PFCP_IE_OUTER_HEADER_REMOVAL "\<lambda>c. Inr (pfcp_outer_header_removal_of_core c)" pfcp_outer_header_removal_dump_to
  "\<lambda>t. pfcp_outer_header_removal_load_from t old" "\<lambda>v. v" "\<lambda>_. True" "\<lambda>c. c" for old
  by (rule octet_classI) (simp_all add: pfcp_outer_header_removal_of_core_def pfcp_outer_header_removal_dump_to_def pfcp_outer_header_removal_load_from_def Let_def)

text \<open>Numbers in network byte order.\<close>

lemmas be_classI = pfcp_classI [where v = "\<lambda>c. c" and w = "\<lambda>c. c"]
lemmas be2_classI = be_classI [where l = "\<lambda>_. 2" and body = "be_bytes 2"]
lemmas be4_classI = be_classI [where l = "\<lambda>_. 4" and body = "be_bytes 4"]

interpretation p_offending_ie: pfcp_class PFCP_IE_OFFENDING_IE "\<lambda>c. Inr (pfcp_offending_ie_of_core c)" "pdump pfcp_offending_ie_dump_to"
  "\<lambda>t. pfcp_offending_ie_load_from t old" "\<lambda>v. v" "\<lambda>_. True" "\<lambda>c. c" for old
  by (rule be2_classI) (simp_all add: pfcp_offending_ie_of_core_def pfcp_offending_ie_dump_to_def pfcp_offending_ie_load_from_def)

interpretation p_pdr_id: pfcp_class PFCP_IE_PACKET_DETECTION_RULE_ID "\<lambda>c. Inr (pfcp_pdr_id_of_core c)" "pdump pfcp_pdr_id_dump_to"
  "\<lambda>t. pfcp_pdr_id_load_from t old" "\<lambda>v. v" "\<lambda>_. True" "\<lambda>c. c" for old
  by (rule be2_classI) (simp_all add: pfcp_pdr_id_of_core_def pfcp_pdr_id_dump_to_def pfcp_pdr_id_load_from_def)

interpretation p_precedence: pfcp_class PFCP_IE_PRECEDENCE "\<lambda>c. Inr (pfcp_precedence_of_core c)" "pdump pfcp_precedence_dump_to"
  "\<lambda>t. pfcp_precedence_load_from t old" "\<lambda>v. v" "\<lambda>_. True" "\<lambda>c. c" for old
  by (rule be4_classI) (simp_all add: pfcp_precedence_of_core_def pfcp_precedence_dump_to_def pfcp_precedence_load_from_def)

interpretation p_time_threshold: pfcp_class PFCP_IE_TIME_THRESHOLD "\<lambda>c. Inr (pfcp_time_threshold_of_core c)" "pdump pfcp_time_threshold_dump_to"
  "\<lambda>t. pfcp_time_threshold_load_from t old" "\<lambda>v. v" "\<lambda>_. True" "\<lambda>c. c" for old
  by (rule be4_classI) (simp_all add: pfcp_time_threshold_of_core_def pfcp_time_threshold_dump_to_def pfcp_time_threshold_load_from_def)

interpretation p_monitoring_time: pfcp_class PFCP_IE_MONITORING_TIME "\<lambda>c. Inr (pfcp_monitoring_time_of_core c)" "pdump pfcp_monitoring_time_dump_to"
  "\<lambda>t. pfcp_monitoring_time_load_from t old" "\<lambda>v. v" "\<lambda>_. True" "\<lambda>c. c" for old
  by (rule be4_classI) (simp_all add: pfcp_monitoring_time_of_core_def pfcp_monitoring_time_dump_to_def pfcp_monitoring_time_load_from_def)

interpretation p_subsequent_time_threshold: pfcp_class PFCP_IE_SUBSEQUENT_TIME_THRESHOLD "\<lambda>c. Inr (pfcp_subsequent_time_threshold_of_core c)" "pdump pfcp_subsequent_time_threshold_dump_to"
  "\<lambda>t. pfcp_subsequent_time_threshold_load_from t old" "\<lambda>v. v" "\<lambda>_. True" "\<lambda>c. c" for old
  by (rule be4_classI) (simp_all add: pfcp_subsequent_time_threshold_of_core_def pfcp_subsequent_time_threshold_dump_to_def pfcp_subsequent_time_threshold_load_from_def)

interpretation p_inactivity_detection_time: pfcp_class PFCP_IE_INACTIVITY_DETECTION_TIME "\<lambda>c. Inr (pfcp_inactivity_detection_time_of_core c)" "pdump pfcp_inactivity_detection_time_dump_to"
  "\<lambda>t. pfcp_inactivity_detection_time_load_from t old" "\<lambda>v. v" "\<lambda>_. True" "\<lambda>c. c" for old
  by (rule be4_classI) (simp_all add: pfcp_inactivity_detection_time_of_core_def pfcp_inactivity_detection_time_dump_to_def pfcp_inactivity_detection_time_load_from_def)

interpretation p_recovery_time_stamp: pfcp_class PFCP_IE_RECOVERY_TIME_STAMP "\<lambda>c. Inr (pfcp_recovery_time_stamp_of_core c)" "pdump pfcp_recovery_time_stamp_dump_to"
  "\<lambda>t. pfcp_recovery_time_stamp_load_from t old" "\<lambda>v. v" "\<lambda>_. True" "\<lambda>c. c" for old
  by (rule be4_classI) (simp_all add: pfcp_recovery_time_stamp_of_core_def pfcp_recovery_time_stamp_dump_to_def pfcp_recovery_time_stamp_load_from_def)

interpretation p_far_id: pfcp_class PFCP_IE_FAR_ID "\<lambda>c. Inr (pfcp_far_id_of_core c)" "pdump pfcp_far_id_dump_to"
  "\<lambda>t. pfcp_far_id_load_from t old" "\<lambda>v. v" "\<lambda>_. True" "\<lambda>c. c" for old
  by (rule be4_classI) (simp_all add: pfcp_far_id_of_core_def pfcp_far_id_dump_to_def pfcp_far_id_load_from_def)

interpretation p_qer_id: pfcp_class PFCP_IE_QER_ID "\<lambda>c. Inr (pfcp_qer_id_of_core c)" "pdump pfcp_qer_id_dump_to"
  "\<lambda>t. pfcp_qer_id_load_from t old" "\<lambda>v. v" "\<lambda>_. True" "\<lambda>c. c" for old
  by (rule be4_classI) (simp_all add: pfcp_qer_id_of_core_def pfcp_qer_id_dump_to_def pfcp_qer_id_load_from_def)

interpretation p_user_plane_inactivity_timer: pfcp_class PFCP_IE_USER_PLANE_INACTIVITY_TIMER "\<lambda>c. Inr (pfcp_user_plane_inactivity_timer_of_core c)" "pdump pfcp_user_plane_inactivity_timer_dump_to"
  "\<lambda>t. pfcp_user_plane_inactivity_timer_load_from t old" "\<lambda>v. v" "\<lambda>_. True" "\<lambda>c. c" for old
  by (rule be4_classI) (simp_all add: pfcp_user_plane_inactivity_timer_of_core_def pfcp_user_plane_inactivity_timer_dump_to_def pfcp_user_plane_inactivity_timer_load_from_def)

text \<open>The identifier of a URR arrives with its bytes reversed.\<close>

interpretation p_urr_id: pfcp_class PFCP_IE_URR_ID "\<lambda>c. Inr (pfcp_urr_id_of_core c)" "pdump pfcp_urr_id_dump_to"
  "\<lambda>t. pfcp_urr_id_load_from t old" "\<lambda>v. v" "\<lambda>_. True" bswap32 for old
  by (rule pfcp_classI [where l = "\<lambda>_. 4" and v = "\<lambda>c. c" and body = "mem_bytes 4" and w = bswap32])
    (simp_all add: pfcp_urr_id_of_core_def pfcp_urr_id_dump_to_def pfcp_urr_id_load_from_def read_be_append mem_bytes_def bswap32_def)

section \<open>Flags and small fields\<close>

definition gate_status_ok :: "gate_status_t \<Rightarrow> bool" where
  "gate_status_ok c \<longleftrightarrow> ul_gate c < 4 \<and> dl_gate c < 4"

lemma word_less_4_cases: "(w :: u8) < 4 \<Longrightarrow> w = 0 \<or> w = 1 \<or> w = 2 \<or> w = 3"
proof -
  assume "w < 4"
  then have "unat w < 4" by (simp add: word_less_nat_alt)
  then have "unat w = 0 \<or> unat w = 1 \<or> unat w = 2 \<or> unat w = 3" by linarith
  then show ?thesis by (simp add: word_unat_eq_iff)
qed

lemma gate_status_back:
  "gate_status_ok c \<Longrightarrow> pfcp_gate_status_to_core (push_bit 2 (ul_gate c AND 0x03) OR (dl_gate c AND 0x03)) = c"
  by (cases c) (auto simp: gate_status_ok_def pfcp_gate_status_to_core_def dest!: word_less_4_cases)

text \<open>Objects of one octet that is written and read as it is.\<close>

lemma octet_members_classI:
  assumes "\<And>c. of_core c = Inr (pfcp_ie_new ty 1, v c)"
    and "\<And>t x. dump t x = Inr (pfcp_tlv_dump_to t @ [x], t, x)"
    and "\<And>t s. ptlv_length t = 1 \<Longrightarrow> load t s = Inr (read_u8 old s)"
    and "\<And>c. ok c \<Longrightarrow> to_core (v c) = recv c"
  shows "pfcp_class ty of_core dump load to_core ok recv"
  by (rule pfcp_classI [where l = "\<lambda>_. 1" and v = v and body = "\<lambda>c. [v c]" and w = v]) (simp_all add: assms)

interpretation p_gate_status: pfcp_class PFCP_IE_GATE_STATUS "\<lambda>c. Inr (pfcp_gate_status_of_core c)"
  "pdump pfcp_gate_status_dump_to" "\<lambda>t. pfcp_gate_status_load_from t old" pfcp_gate_status_to_core
  gate_status_ok "\<lambda>c. c" for old
  by (rule octet_members_classI)
    (simp_all add: pfcp_gate_status_of_core_def pfcp_gate_status_dump_to_def pfcp_gate_status_load_from_def,
     simp add: gate_status_back [simplified])

interpretation p_report_type: pfcp_class PFCP_IE_REPORT_TYPE "\<lambda>c. Inr (pfcp_report_type_of_core c)"
  "pdump pfcp_report_type_dump_to" "\<lambda>t. pfcp_report_type_load_from t old" pfcp_report_type_to_core
  "\<lambda>_. True" "\<lambda>c. c" for old
  by (rule octet_members_classI)
    (auto simp: pfcp_report_type_of_core_def pfcp_report_type_dump_to_def
       pfcp_report_type_load_from_def pfcp_report_type_to_core_def bit_flags intro!: report_type_t.equality)

interpretation p_apply_action: pfcp_class PFCP_IE_APPLY_ACTION "\<lambda>c. Inr (pfcp_apply_action_of_core c)"
  "pdump pfcp_apply_action_dump_to" "\<lambda>t. pfcp_apply_action_load_from t old" pfcp_apply_action_to_core
  "\<lambda>_. True" "\<lambda>c. c" for old
  by (rule octet_members_classI)
    (auto simp: pfcp_apply_action_of_core_def pfcp_apply_action_dump_to_def
       pfcp_apply_action_load_from_def pfcp_apply_action_to_core_def bit_flags intro!: apply_action_t.equality)

interpretation p_cp_function_features: pfcp_class PFCP_IE_CP_FUNCTION_FEATURES
  "\<lambda>c. Inr (pfcp_cp_function_features_of_core c)"
  "pdump pfcp_cp_function_features_dump_to" "\<lambda>t. pfcp_cp_function_features_load_from t old"
  pfcp_cp_function_features_to_core "\<lambda>_. True" "\<lambda>c. c" for old
  by (rule octet_members_classI)
    (auto simp: pfcp_cp_function_features_of_core_def pfcp_cp_function_features_dump_to_def
       pfcp_cp_function_features_load_from_def pfcp_cp_function_features_to_core_def bit_flags intro!: cp_function_features_t.equality)

interpretation p_qfi: pfcp_class PFCP_IE_QFI "\<lambda>c. Inr (pfcp_qfi_of_core c)"
  "pdump pfcp_qfi_dump_to" "\<lambda>t. pfcp_qfi_load_from t old" pfcp_qfi_to_core
  "\<lambda>_. True" "\<lambda>c. c AND 0x3F" for old
  by (rule octet_members_classI [where v = "\<lambda>c. c AND 0x3F"])
    (simp_all add: pfcp_qfi_of_core_def pfcp_qfi_dump_to_def pfcp_qfi_load_from_def pfcp_qfi_to_core_def
       and.assoc)

interpretation p_reporting_triggers: pfcp_class PFCP_IE_REPORTING_TRIGGERS
  "\<lambda>c. Inr (pfcp_reporting_triggers_of_core c)" pfcp_reporting_triggers_dump_to
  "\<lambda>t. pfcp_reporting_triggers_load_from t old" pfcp_reporting_triggers_to_core "\<lambda>_. True" "\<lambda>c. c" for old
  by (rule pfcp_classI [where l = "\<lambda>_. 2" and v = "\<lambda>c. snd (pfcp_reporting_triggers_of_core c)"
        and body = "\<lambda>c. (let v = snd (pfcp_reporting_triggers_of_core c) in [fst v, snd v])"
        and w = "\<lambda>c. snd (pfcp_reporting_triggers_of_core c)"])
    (simp_all add: pfcp_reporting_triggers_of_core_def pfcp_reporting_triggers_dump_to_def
       pfcp_reporting_triggers_load_from_def pfcp_reporting_triggers_to_core_def bit_flags Let_def)

text \<open>The features of a user plane function.\<close>

lemma read_octets_same:
  "length us = length vs \<Longrightarrow> read_octets us (istream_of (vs @ r)) = (vs, istream_of r)"
  by (induction us vs rule: list_induct2) simp_all

lemma length_up_octets: "length up_octets = 6" "up_octets \<noteq> []"
  by (simp_all add: up_octets_def)

lemma up_features_back: "pfcp_up_function_features_to_core (map (\<lambda>fs. flags (map c fs)) up_octets) = c"
proof
  fix f show "pfcp_up_function_features_to_core (map (\<lambda>fs. flags (map c fs)) up_octets) f = c f"
    by (cases f) (simp_all add: pfcp_up_function_features_to_core_def up_octets_def bit_flags)
qed

interpretation p_up_function_features: pfcp_class PFCP_IE_UP_FUNCTION_FEATURES
  "\<lambda>c. Inr (pfcp_up_function_features_of_core c)" pfcp_up_function_features_dump_to
  "\<lambda>t. pfcp_up_function_features_load_from t (replicate 6 0)" pfcp_up_function_features_to_core
  "\<lambda>_. True" "\<lambda>c. c"
  by (rule pfcp_classI [where l = "\<lambda>_. 6" and v = "\<lambda>c. map (\<lambda>fs. flags (map c fs)) up_octets"
        and body = "\<lambda>c. map (\<lambda>fs. flags (map c fs)) up_octets" and w = "\<lambda>c. map (\<lambda>fs. flags (map c fs)) up_octets"])
    (simp_all add: pfcp_up_function_features_of_core_def pfcp_up_function_features_dump_to_def
       pfcp_up_function_features_load_from_def up_features_back read_octets_same length_up_octets Let_def)

section \<open>Bit rates\<close>

definition rate_ok :: "u64 \<Rightarrow> bool" where
  "rate_ok w \<longleftrightarrow> w < 2 ^ 40"

lemma rate_back: "rate_ok w \<Longrightarrow> word_of_be (be_bytes 5 (w AND 0x000000FFFFFFFFFF)) = w"
proof -
  assume "rate_ok w"
  then have "take_bit 40 w = w" 
    by (simp add: rate_ok_def word_unat_eq_iff unsigned_take_bit_eq take_bit_nat_eq_self word_less_nat_alt)
  moreover have "w AND 0x000000FFFFFFFFFF = take_bit 40 w"
    by (simp add: take_bit_eq_mask mask_eq_exp_minus_1)
  ultimately show ?thesis by (simp add: word_of_be_be_bytes)
qed

definition mbr_ok :: "mbr_t \<Rightarrow> bool" where
  "mbr_ok c \<longleftrightarrow> rate_ok (ul_mbr c) \<and> rate_ok (dl_mbr c)"

definition gbr_ok :: "gbr_t \<Rightarrow> bool" where
  "gbr_ok c \<longleftrightarrow> rate_ok (ul_gbr c) \<and> rate_ok (dl_gbr c)"

interpretation p_mbr: pfcp_class PFCP_IE_MBR "\<lambda>c. Inr (pfcp_mbr_of_core c)"
  "pdump pfcp_mbr_dump_to" "\<lambda>t. pfcp_mbr_load_from t (replicate 5 0, replicate 5 0)" pfcp_mbr_to_core
  mbr_ok "\<lambda>c. c"
  by (rule pfcp_classI [where l = "\<lambda>_. 10" and v = "\<lambda>c. snd (pfcp_mbr_of_core c)"
        and body = "\<lambda>c. fst (snd (pfcp_mbr_of_core c)) @ snd (snd (pfcp_mbr_of_core c))"
        and w = "\<lambda>c. snd (pfcp_mbr_of_core c)"])
    (auto simp: pfcp_mbr_of_core_def pfcp_mbr_dump_to_def pfcp_mbr_load_from_def pfcp_mbr_to_core_def
       mbr_ok_def rate_back intro!: mbr_t.equality)

interpretation p_gbr: pfcp_class PFCP_IE_GBR "\<lambda>c. Inr (pfcp_gbr_of_core c)"
  "pdump pfcp_gbr_dump_to" "\<lambda>t. pfcp_gbr_load_from t (replicate 5 0, replicate 5 0)" pfcp_gbr_to_core
  gbr_ok "\<lambda>c. c"
  by (rule pfcp_classI [where l = "\<lambda>_. 10" and v = "\<lambda>c. snd (pfcp_gbr_of_core c)"
        and body = "\<lambda>c. fst (snd (pfcp_gbr_of_core c)) @ snd (snd (pfcp_gbr_of_core c))"
        and w = "\<lambda>c. snd (pfcp_gbr_of_core c)"])
    (auto simp: pfcp_gbr_of_core_def pfcp_gbr_dump_to_def pfcp_gbr_load_from_def pfcp_gbr_to_core_def
       gbr_ok_def rate_back intro!: gbr_t.equality)

section \<open>Names\<close>

text \<open>A text that fits an element.\<close>

definition text_ok :: "bytes \<Rightarrow> bool" where
  "text_ok c \<longleftrightarrow> c \<noteq> [] \<and> length c < 2 ^ 16"

lemma unat_length_u16: "length c < 2 ^ 16 \<Longrightarrow> unat (of_nat (length c) :: u16) = length c"
  by (simp add: unsigned_of_nat take_bit_nat_eq_self)

lemmas text_classI = pfcp_classI [where l = "\<lambda>c. of_nat (length c)" and v = "\<lambda>c. c" and body = "\<lambda>c. c" and w = "\<lambda>c. c"]

interpretation p_application_id: pfcp_class PFCP_IE_APPLICATION_ID "\<lambda>c. Inr (pfcp_application_id_of_core c)"
  "pdump pfcp_application_id_dump_to" "pfcp_application_id_load_from junk" "\<lambda>v. v" text_ok "\<lambda>c. c" for junk
  by (rule text_classI)
    (simp_all add: pfcp_application_id_of_core_def pfcp_application_id_dump_to_def pfcp_application_id_load_from_def
       text_ok_def unat_length_u16)

interpretation p_activate_predefined_rules: pfcp_class PFCP_IE_ACTIVATE_PREDEFINED_RULES
  "\<lambda>c. Inr (pfcp_activate_predefined_rules_of_core c)" pfcp_activate_predefined_rules_dump_to
  "pfcp_activate_predefined_rules_load_from junk" "\<lambda>v. v" text_ok "\<lambda>c. c" for junk
  by (rule text_classI)
    (simp_all add: pfcp_activate_predefined_rules_of_core_def pfcp_activate_predefined_rules_dump_to_def
       pfcp_activate_predefined_rules_load_from_def text_ok_def unat_length_u16 unat_eq_zero [symmetric] Let_def del: unat_eq_zero)

interpretation p_deactivate_predefined_rules: pfcp_class PFCP_IE_DEACTIVATE_PREDEFINED_RULES
  "\<lambda>c. Inr (pfcp_deactivate_predefined_rules_of_core c)" pfcp_deactivate_predefined_rules_dump_to
  "pfcp_deactivate_predefined_rules_load_from junk" "\<lambda>v. v" text_ok "\<lambda>c. c" for junk
  by (rule text_classI)
    (simp_all add: pfcp_deactivate_predefined_rules_of_core_def pfcp_deactivate_predefined_rules_dump_to_def
       pfcp_deactivate_predefined_rules_load_from_def text_ok_def unat_length_u16 unat_eq_zero [symmetric] Let_def del: unat_eq_zero)

interpretation p_transport_level_marking: pfcp_class PFCP_IE_TRANSPORT_LEVEL_MARKING
  "\<lambda>c. Inr (pfcp_transport_level_marking_of_core c)" pfcp_transport_level_marking_dump_to
  "pfcp_transport_level_marking_load_from junk" "\<lambda>v. v" "\<lambda>c. length c = 2" "\<lambda>c. c" for junk
  by (rule text_classI)
    (auto simp: pfcp_transport_level_marking_of_core_def pfcp_transport_level_marking_dump_to_def
       pfcp_transport_level_marking_load_from_def)

definition forwarding_policy_ok :: "forwarding_policy_t \<Rightarrow> bool" where
  "forwarding_policy_ok c \<longleftrightarrow>
     length (forwarding_policy_identifier c) = unat (forwarding_policy_identifier_length c)"

lemma unat_Suc_octet: "unat (1 + ucast (w :: u8) :: u16) = Suc (unat w)" "1 + ucast w \<noteq> (0 :: u16)"
proof -
  have "unat w < 2 ^ 8" using unsigned_less [of w, where 'a = nat] by simp
  then show "unat (1 + ucast w :: u16) = Suc (unat w)"
    by (simp add: unat_word_ariths unsigned_ucast_eq take_bit_nat_eq_self)
  then show "1 + ucast w \<noteq> (0 :: u16)" by (metis nat.distinct(1) unat_0)
qed

interpretation p_forwarding_policy: pfcp_class PFCP_IE_FORWARDING_POLICY
  "\<lambda>c. Inr (pfcp_forwarding_policy_of_core c)" "pdump pfcp_forwarding_policy_dump_to"
  "\<lambda>t. pfcp_forwarding_policy_load_from junk t pfcp_forwarding_policy_new" "\<lambda>v. v" forwarding_policy_ok "\<lambda>c. c" for junk
  by (rule pfcp_classI [where l = "\<lambda>c. of_nat (1 + length (forwarding_policy_identifier c))" and v = "\<lambda>c. c"
        and body = "\<lambda>c. forwarding_policy_identifier_length c # forwarding_policy_identifier c" and w = "\<lambda>c. c"])
    (auto simp: pfcp_forwarding_policy_of_core_def pfcp_forwarding_policy_dump_to_def
       pfcp_forwarding_policy_load_from_def forwarding_policy_ok_def unat_Suc_octet)

text \<open>
  A network instance arrives in its wire form. A name is one that \<^verbatim>\<open>string_to_dotted\<close> encodes.
\<close>

definition dotted_ok :: "bytes \<Rightarrow> bool" where
  "dotted_ok c \<longleftrightarrow> 0 \<notin> set c \<and> length c < 256"

lemma dotted_wire: "dotted_ok c \<Longrightarrow> pfcp_string_to_dotted (fresh junk (length c + 1)) c = Some (wire (labels [] c))"
  by (simp add: dotted_ok_def pfcp_string_to_dotted_def string_to_dotted_wire)

lemma length_dotted: "length (wire (labels [] c)) = Suc (length c)"
  by (simp add: length_wire_labels)

interpretation p_network_instance: pfcp_class PFCP_IE_NETWORK_INSTANCE "pfcp_network_instance_of_core junk"
  "pdump pfcp_network_instance_dump_to" "pfcp_network_instance_load_from junk'" "\<lambda>v. v"
  dotted_ok "\<lambda>c. wire (labels [] c)" for junk junk'
proof (rule pfcp_classI [where l = "\<lambda>c. of_nat (length c + 1)" and v = "\<lambda>c. wire (labels [] c)"
      and body = "\<lambda>c. wire (labels [] c)" and w = "\<lambda>c. wire (labels [] c)"])
  fix c assume c: "dotted_ok c"
  then have len: "unat (of_nat (length c + 1) :: u16) = length (wire (labels [] c))"
    by (simp add: length_dotted dotted_ok_def unsigned_of_nat take_bit_nat_eq_self del: of_nat_Suc of_nat_add)
  show "pfcp_network_instance_of_core junk c
      = Inr (pfcp_ie_new PFCP_IE_NETWORK_INSTANCE (of_nat (length c + 1)), wire (labels [] c))"
    using dotted_wire [OF c] by (simp add: pfcp_network_instance_of_core_def length_dotted)
  show "length (wire (labels [] c)) = unat (of_nat (length c + 1) :: u16) \<and> wire (labels [] c) \<noteq> []"
    using len length_dotted [of c] by auto
  show "pfcp_network_instance_load_from junk' (pfcp_ie_new PFCP_IE_NETWORK_INSTANCE (of_nat (length c + 1)))
      (istream_of (wire (labels [] c) @ r)) = Inr (wire (labels [] c), istream_of r)" for r
    using len by (simp add: pfcp_network_instance_load_from_def del: of_nat_Suc of_nat_add)
qed (simp_all add: pfcp_network_instance_dump_to_def)

text \<open>An SDF filter arrives when it has neither a flow label nor a filter identifier.\<close>

definition sdf_filter_ok :: "sdf_filter_t \<Rightarrow> bool" where
  "sdf_filter_ok c \<longleftrightarrow> \<not> sf_bid c \<and> \<not> sf_fl c \<and> sf_flow_label c = [] \<and> sf_sdf_filter_id c = 0
     \<and> (if sf_fd c then length (sf_flow_description c) = unat (sf_length_of_flow_description c)
                        \<and> length (sf_flow_description c) < 65526
        else sf_flow_description c = [] \<and> sf_length_of_flow_description c = 0)
     \<and> length (sf_tos_traffic_class c) = (if sf_ttc c then 2 else 0)
     \<and> length (sf_security_parameter_index c) = (if sf_spi c then 4 else 0)"

lemma unat_sdf_length:
  assumes "unat (w :: u16) < 65526"
  shows "unat (4 + w) = 4 + unat w" "unat (6 + w) = 6 + unat w" "unat (8 + w) = 8 + unat w" "unat (10 + w) = 10 + unat w"
  using assms by (simp_all add: unat_word_ariths)

interpretation p_sdf_filter: pfcp_class PFCP_IE_SDF_FILTER pfcp_sdf_filter_of_core
  "pdump pfcp_sdf_filter_dump_to" "\<lambda>t. pfcp_sdf_filter_load_from junk t (pfcp_sdf_filter_new junk)"
  pfcp_sdf_filter_to_core sdf_filter_ok "\<lambda>c. c" for junk
proof (rule pfcp_classI [where
      l = "\<lambda>c. 2 + (if sf_fd c then of_nat (2 + length (sf_flow_description c)) else 0)
        + (if sf_ttc c then 2 else 0) + (if sf_spi c then 4 else 0)"
      and v = "\<lambda>c. \<lparr>sfi_u1 = flags [sf_fd c, sf_ttc c, sf_spi c, False, False],
        sfi_length_of_flow_description = sf_length_of_flow_description c, sfi_flow_description = sf_flow_description c,
        sfi_tos_traffic_class = sf_tos_traffic_class c, sfi_security_parameter_index = sf_security_parameter_index c,
        sfi_flow_label = [], sfi_sdf_filter_id = 0\<rparr>"
      and body = "\<lambda>c. [flags [sf_fd c, sf_ttc c, sf_spi c, False, False], 0]
        @ only_if (sf_fd c) (be_bytes 2 (sf_length_of_flow_description c) @ sf_flow_description c)
        @ only_if (sf_ttc c) (sf_tos_traffic_class c) @ only_if (sf_spi c) (sf_security_parameter_index c)"
      and w = "\<lambda>c. (pfcp_sdf_filter_new junk)\<lparr>sfi_u1 := flags [sf_fd c, sf_ttc c, sf_spi c, False, False],
        sfi_length_of_flow_description := (if sf_fd c then sf_length_of_flow_description c
          else sfi_length_of_flow_description (pfcp_sdf_filter_new junk)),
        sfi_flow_description := sf_flow_description c, sfi_tos_traffic_class := sf_tos_traffic_class c,
        sfi_security_parameter_index := sf_security_parameter_index c, sfi_flow_label := []\<rparr>"])
  fix c assume c: "sdf_filter_ok c"
  show "pfcp_sdf_filter_of_core c = Inr (pfcp_ie_new PFCP_IE_SDF_FILTER
        (2 + (if sf_fd c then of_nat (2 + length (sf_flow_description c)) else 0)
        + (if sf_ttc c then 2 else 0) + (if sf_spi c then 4 else 0)),
      \<lparr>sfi_u1 = flags [sf_fd c, sf_ttc c, sf_spi c, False, False],
        sfi_length_of_flow_description = sf_length_of_flow_description c, sfi_flow_description = sf_flow_description c,
        sfi_tos_traffic_class = sf_tos_traffic_class c, sfi_security_parameter_index = sf_security_parameter_index c,
        sfi_flow_label = [], sfi_sdf_filter_id = 0\<rparr>)"
    using c by (auto simp: sdf_filter_ok_def pfcp_sdf_filter_of_core_def Let_def)
qed (auto simp: sdf_filter_ok_def pfcp_sdf_filter_dump_to_def pfcp_sdf_filter_load_from_def
    pfcp_sdf_filter_to_core_def pfcp_sdf_filter_new_def bit_flags Let_def unat_sdf_length intro!: sdf_filter_t.equality)

section \<open>Tunnel endpoints, sessions, nodes and addresses\<close>

text \<open>
  An F-TEID arrives when the fields that are not on the wire are zero, and CHID comes with CH.
\<close>

definition pfcp_fteid_ok :: "fteid_t \<Rightarrow> bool" where
  "pfcp_fteid_ok c \<longleftrightarrow> length (ft_ipv6_address c) = 16
     \<and> (\<not> ft_v4 c \<longrightarrow> ft_ipv4_address c = 0) \<and> (\<not> ft_v6 c \<longrightarrow> ft_ipv6_address c = in6addr_any)
     \<and> (if ft_ch c then \<not> ft_v4 c \<and> \<not> ft_v6 c \<and> ft_teid c = 0 \<and> (ft_chid c \<or> ft_choose_id c = 0)
        else \<not> ft_chid c \<and> ft_choose_id c = 0)"

lemma length_in6addr_any [simp]: "length in6addr_any = 16"
  by (simp add: in6addr_any_def)

abbreviation fteid_octet :: "fteid_t \<Rightarrow> u8" where
  "fteid_octet c \<equiv> flags [ft_v4 c, ft_v6 c, ft_ch c, ft_chid c]"

interpretation p_fteid: pfcp_class PFCP_IE_F_TEID "\<lambda>c. Inr (pfcp_fteid_of_core junk c)"
  pfcp_fteid_dump_to "\<lambda>t. pfcp_fteid_load_from t pfcp_fteid_new" pfcp_fteid_to_core pfcp_fteid_ok "\<lambda>c. c" for junk
proof (rule pfcp_classI [where l = "\<lambda>c. pfcp_fteid_length (fteid_octet c)"
      and v = "\<lambda>c. \<lparr>fti_u1 = fteid_octet c, fti_teid = ft_teid c, fti_ipv4_address = ft_ipv4_address c,
        fti_ipv6_address = ft_ipv6_address c, fti_choose_id = (if ft_chid c then ft_choose_id c else junk 0)\<rparr>"
      and body = "\<lambda>c. fteid_octet c # (if ft_ch c then only_if (ft_chid c) [ft_choose_id c]
        else be_bytes 4 (ft_teid c) @ only_if (ft_v4 c) (mem_bytes 4 (ft_ipv4_address c))
               @ only_if (ft_v6 c) (ft_ipv6_address c))"
      and w = "\<lambda>c. \<lparr>fti_u1 = fteid_octet c, fti_teid = ft_teid c, fti_ipv4_address = ft_ipv4_address c,
        fti_ipv6_address = ft_ipv6_address c, fti_choose_id = ft_choose_id c\<rparr>"])
qed (auto simp: pfcp_fteid_ok_def pfcp_fteid_of_core_def pfcp_fteid_dump_to_def pfcp_fteid_load_from_def
    pfcp_fteid_to_core_def pfcp_fteid_new_def pfcp_fteid_length_def bit_flags Let_def pfcp_address_defs intro!: fteid_t.equality)

definition fseid_ok :: "fseid_t \<Rightarrow> bool" where
  "fseid_ok c \<longleftrightarrow> length (fsd_ipv6_address c) = 16
     \<and> (\<not> fsd_v4 c \<longrightarrow> fsd_ipv4_address c = 0) \<and> (\<not> fsd_v6 c \<longrightarrow> fsd_ipv6_address c = in6addr_any)"

interpretation p_f_seid: pfcp_class PFCP_IE_F_SEID "\<lambda>c. Inr (pfcp_f_seid_of_core c)"
  pfcp_f_seid_dump_to "\<lambda>t. pfcp_f_seid_load_from t (pfcp_f_seid_new junk)" pfcp_f_seid_to_core fseid_ok "\<lambda>c. c" for junk
proof (rule pfcp_classI [where l = "\<lambda>c. pfcp_f_seid_length (flags [fsd_v6 c, fsd_v4 c])"
      and v = "\<lambda>c. \<lparr>fsi_u1 = flags [fsd_v6 c, fsd_v4 c], fsi_seid = fsd_seid c,
        fsi_ipv4_address = fsd_ipv4_address c, fsi_ipv6_address = fsd_ipv6_address c\<rparr>"
      and body = "\<lambda>c. flags [fsd_v6 c, fsd_v4 c] # be_bytes 8 (fsd_seid c)
        @ only_if (fsd_v4 c) (mem_bytes 4 (fsd_ipv4_address c)) @ only_if (fsd_v6 c) (fsd_ipv6_address c)"
      and w = "\<lambda>c. \<lparr>fsi_u1 = flags [fsd_v6 c, fsd_v4 c], fsi_seid = fsd_seid c,
        fsi_ipv4_address = (if fsd_v4 c then fsd_ipv4_address c else fsi_ipv4_address (pfcp_f_seid_new junk)),
        fsi_ipv6_address = (if fsd_v6 c then fsd_ipv6_address c else fsi_ipv6_address (pfcp_f_seid_new junk))\<rparr>"])
qed (auto simp: fseid_ok_def pfcp_f_seid_of_core_def pfcp_f_seid_dump_to_def pfcp_f_seid_load_from_def
    pfcp_f_seid_to_core_def pfcp_f_seid_new_def pfcp_f_seid_length_def bit_flags Let_def pfcp_address_defs intro!: fseid_t.equality)

definition pfcp_ue_ip_address_ok :: "ue_ip_address_t \<Rightarrow> bool" where
  "pfcp_ue_ip_address_ok c \<longleftrightarrow> length (uip_ipv6_address c) = 16
     \<and> (\<not> uip_v4 c \<longrightarrow> uip_ipv4_address c = 0) \<and> (\<not> uip_v6 c \<longrightarrow> uip_ipv6_address c = in6addr_any)
     \<and> (uip_ipv6d c \<longrightarrow> uip_v6 c) \<and> (\<not> uip_ipv6d c \<longrightarrow> uip_ipv6_prefix_delegation_bits c = 0)"

abbreviation ue_ip_octet :: "ue_ip_address_t \<Rightarrow> u8" where
  "ue_ip_octet c \<equiv> flags [uip_v6 c, uip_v4 c, uip_sd c, uip_ipv6d c]"

interpretation p_ue_ip_address: pfcp_class PFCP_IE_UE_IP_ADDRESS "\<lambda>c. Inr (pfcp_ue_ip_address_of_core c)"
  pfcp_ue_ip_address_dump_to "\<lambda>t. pfcp_ue_ip_address_load_from t (pfcp_ue_ip_address_new junk)"
  pfcp_ue_ip_address_to_core pfcp_ue_ip_address_ok "\<lambda>c. c" for junk
proof (rule pfcp_classI [where l = "\<lambda>c. pfcp_ue_ip_address_length (ue_ip_octet c)"
      and v = "\<lambda>c. \<lparr>uii_u1 = ue_ip_octet c, uii_ipv4_address = uip_ipv4_address c,
        uii_ipv6_address = uip_ipv6_address c, uii_ipv6_prefix_delegation_bits = uip_ipv6_prefix_delegation_bits c\<rparr>"
      and body = "\<lambda>c. ue_ip_octet c # only_if (uip_v4 c) (mem_bytes 4 (uip_ipv4_address c))
        @ only_if (uip_v6 c) (uip_ipv6_address c @ only_if (uip_ipv6d c) [uip_ipv6_prefix_delegation_bits c])"
      and w = "\<lambda>c. \<lparr>uii_u1 = ue_ip_octet c,
        uii_ipv4_address = (if uip_v4 c then uip_ipv4_address c else uii_ipv4_address (pfcp_ue_ip_address_new junk)),
        uii_ipv6_address = (if uip_v6 c then uip_ipv6_address c else uii_ipv6_address (pfcp_ue_ip_address_new junk)),
        uii_ipv6_prefix_delegation_bits = (if uip_ipv6d c then uip_ipv6_prefix_delegation_bits c
          else uii_ipv6_prefix_delegation_bits (pfcp_ue_ip_address_new junk))\<rparr>"])
qed (auto simp: pfcp_ue_ip_address_ok_def pfcp_ue_ip_address_of_core_def pfcp_ue_ip_address_dump_to_def
    pfcp_ue_ip_address_load_from_def pfcp_ue_ip_address_to_core_def pfcp_ue_ip_address_new_def
    pfcp_ue_ip_address_length_def bit_flags Let_def pfcp_address_defs intro!: ue_ip_address_t.equality)

text \<open>
  A node identity arrives when it is an address or a name that \<^verbatim>\<open>string_to_dotted\<close> and
  \<^verbatim>\<open>dotted_to_string\<close> carry, and the fields of the other types are empty.
\<close>

definition node_id_ok :: "node_id_t \<Rightarrow> bool" where
  "node_id_ok c \<longleftrightarrow> length (nid_u1 c) = 16
     \<and> (if nid_type c = PFCP_NODE_ID_TYPE_IPV4_ADDRESS then drop 4 (nid_u1 c) = replicate 12 0 \<and> nid_fqdn c = []
        else if nid_type c = PFCP_NODE_ID_TYPE_IPV6_ADDRESS then nid_fqdn c = []
        else nid_type c = PFCP_NODE_ID_TYPE_FQDN \<and> nid_u1 c = replicate 16 0 \<and> dotted_ok (nid_fqdn c)
           \<and> list_all (\<lambda>l. length l < 64) (labels [] (nid_fqdn c)))"

text \<open>The length of the element and its bytes after the header, by the type of the identity.\<close>

definition node_id_body :: "node_id_t \<Rightarrow> bytes" where
  "node_id_body c = nid_type c #
     (if nid_type c = PFCP_NODE_ID_TYPE_IPV4_ADDRESS then take 4 (nid_u1 c)
      else if nid_type c = PFCP_NODE_ID_TYPE_IPV6_ADDRESS then nid_u1 c else wire (labels [] (nid_fqdn c)))"

definition node_id_length :: "node_id_t \<Rightarrow> u16" where
  "node_id_length c = of_nat (length (node_id_body c))"

lemma node_id_cases:
  assumes "node_id_ok c"
  obtains (v4) "nid_type c = 0" "length (nid_u1 c) = 16" "drop 4 (nid_u1 c) = replicate 12 0" "nid_fqdn c = []"
  | (v6) "nid_type c = 1" "length (nid_u1 c) = 16" "nid_fqdn c = []"
  | (fqdn) "nid_type c = 2" "nid_u1 c = replicate 16 0" "dotted_ok (nid_fqdn c)"
      "\<forall>l \<in> set (labels [] (nid_fqdn c)). length l < 64"
  using assms that by (auto simp: node_id_ok_def pfcp_node_id_types list_all_iff split: if_splits)

lemma node_id_length_nat: "node_id_ok c \<Longrightarrow> unat (node_id_length c) = length (node_id_body c)"
  by (erule node_id_cases) (simp_all add: node_id_length_def node_id_body_def pfcp_node_id_types length_dotted
      dotted_ok_def unsigned_of_nat take_bit_nat_eq_self del: of_nat_Suc of_nat_add)

lemma mem_bytes_4: "length bs = 4 \<Longrightarrow> mem_bytes 4 (word_of_be (rev bs) :: u32) = bs"
  using be_bytes_word_of_be [of "rev bs", where 'a = 32] by (simp add: mem_bytes_def)

lemma node_id_load:
  assumes c: "node_id_ok c"
  shows "\<exists>w. (\<forall>r. pfcp_node_id_load_from junk (pfcp_ie_new PFCP_IE_NODE_ID (node_id_length c)) (pfcp_node_id_new junk)
      (istream_of (node_id_body c @ r)) = Inr (w, istream_of r)) \<and> pfcp_node_id_to_core w = c"
  using c
proof (cases rule: node_id_cases)
  case v4
  then have u: "take 4 (nid_u1 c) @ replicate 12 0 = nid_u1 c" by (metis append_take_drop_id)
  have l: "length (take 4 (nid_u1 c)) = 4" using v4 by simp
  show ?thesis
    using v4 u l by (intro exI [of _ "(pfcp_node_id_new junk)\<lparr>nii_u1 := 0, nii_ipv4_address := word_of_be (rev (take 4 (nid_u1 c)))\<rparr>"])
      (auto simp: pfcp_node_id_load_from_def pfcp_node_id_to_core_def pfcp_node_id_types node_id_body_def node_id_length_def
        Let_def pfcp_address_defs mem_bytes_4 read_raw_append intro!: node_id_t.equality)
next
  case v6
  then show ?thesis
    by (intro exI [of _ "(pfcp_node_id_new junk)\<lparr>nii_u1 := 1, nii_ipv6_address := nid_u1 c\<rparr>"])
      (auto simp: pfcp_node_id_load_from_def pfcp_node_id_to_core_def pfcp_node_id_types node_id_body_def node_id_length_def
        pfcp_node_id_new_def Let_def pfcp_address_defs intro!: node_id_t.equality)
next
  case fqdn
  let ?w = "wire (labels [] (nid_fqdn c))"
  have "node_id_length c - 1 = of_nat (length ?w)" using fqdn by (simp add: node_id_length_def node_id_body_def pfcp_node_id_types)
  moreover have "unat (of_nat (length ?w) :: u16) = length ?w"
    using fqdn(3) by (simp add: length_dotted dotted_ok_def unsigned_of_nat take_bit_nat_eq_self del: of_nat_Suc)
  ultimately have l: "unat (node_id_length c - 1) = length ?w" "node_id_length c - 1 \<noteq> 0"
    using length_dotted [of "nid_fqdn c"] by (auto simp: unat_eq_zero [symmetric] simp del: unat_eq_zero)
  have "pfcp_dotted_to_string ?w = Some (Inr (True, nid_fqdn c))"
    using fqdn by (simp add: pfcp_dotted_to_string_def dotted_ok_def dotted_to_string_wire)
  then show ?thesis using fqdn l
    by (intro exI [of _ "(pfcp_node_id_new junk)\<lparr>nii_u1 := 2, nii_fqdn := nid_fqdn c\<rparr>"])
      (auto simp: pfcp_node_id_load_from_def pfcp_node_id_to_core_def pfcp_node_id_types node_id_body_def
        Let_def intro!: node_id_t.equality)
qed

interpretation p_node_id: pfcp_class PFCP_IE_NODE_ID "\<lambda>c. Inr (pfcp_node_id_of_core c)" "pfcp_node_id_dump_to junk"
  "\<lambda>t. pfcp_node_id_load_from junk' t (pfcp_node_id_new junk')" pfcp_node_id_to_core node_id_ok "\<lambda>c. c" for junk junk'
proof
  fix c assume c: "node_id_ok c"
  let ?t = "pfcp_ie_new PFCP_IE_NODE_ID (node_id_length c)"
  let ?v = "snd (pfcp_node_id_of_core c)"
  obtain w where w: "\<forall>r. pfcp_node_id_load_from junk' ?t (pfcp_node_id_new junk') (istream_of (node_id_body c @ r))
      = Inr (w, istream_of r)" "pfcp_node_id_to_core w = c" using node_id_load [OF c, of junk'] by blast
  have "pfcp_node_id_of_core c = (?t, ?v)"
    using c by (cases rule: node_id_cases) (simp_all add: pfcp_node_id_of_core_def pfcp_node_id_types
        node_id_length_def node_id_body_def length_dotted Let_def)
  moreover have "pfcp_node_id_dump_to junk ?t ?v = Inr (pfcp_tlv_dump_to ?t @ node_id_body c, ?t, ?v)"
    using c by (cases rule: node_id_cases)
      (simp_all add: pfcp_node_id_of_core_def pfcp_node_id_dump_to_def pfcp_node_id_types node_id_body_def
        dotted_wire [simplified] Let_def pfcp_address_defs mem_bytes_4)
  ultimately show "\<exists>l v bs w. Inr (pfcp_node_id_of_core c) = Inr (pfcp_ie_new PFCP_IE_NODE_ID l, v)
      \<and> pfcp_node_id_dump_to junk (pfcp_ie_new PFCP_IE_NODE_ID l) v
          = Inr (pfcp_tlv_dump_to (pfcp_ie_new PFCP_IE_NODE_ID l) @ bs, pfcp_ie_new PFCP_IE_NODE_ID l, v)
      \<and> length bs = unat l \<and> bs \<noteq> []
      \<and> (\<forall>r. pfcp_node_id_load_from junk' (pfcp_ie_new PFCP_IE_NODE_ID l) (pfcp_node_id_new junk') (istream_of (bs @ r))
          = Inr (w, istream_of r)) \<and> pfcp_node_id_to_core w = c"
    using node_id_length_nat [OF c] w node_id_body_def [of c] by (metis list.discI)
qed

text \<open>
  An outer header arrives with its description and the fields that go with it; the other fields are
  what the receiver's memory held.
\<close>

definition ohc_ok :: "outer_header_creation_t \<Rightarrow> bool" where
  "ohc_ok c \<longleftrightarrow> length (oh_ipv6_address c) = 16
     \<and> (ohc_teid_present (oh_description c) \<or> ohc_v4_present (oh_description c) \<or> ohc_v6_present (oh_description c))"

definition ohc_recv :: "(nat \<Rightarrow> u8) \<Rightarrow> outer_header_creation_t \<Rightarrow> outer_header_creation_t" where
  "ohc_recv junk c =
     (let d = oh_description c; o0 = pfcp_outer_header_creation_new junk in
      \<lparr>oh_description = d,
       oh_teid = (if ohc_teid_present d then oh_teid c else oh_teid o0),
       oh_ipv4_address = (if ohc_v4_present d then oh_ipv4_address c else oh_ipv4_address o0),
       oh_ipv6_address = (if ohc_v6_present d then oh_ipv6_address c else oh_ipv6_address o0),
       oh_port_number = (if ohc_port_present d then oh_port_number c else oh_port_number o0)\<rparr>)"

interpretation p_outer_header_creation: pfcp_class PFCP_IE_OUTER_HEADER_CREATION
  "\<lambda>c. Inr (pfcp_outer_header_creation_of_core c)" "pdump pfcp_outer_header_creation_dump_to"
  "\<lambda>t. pfcp_outer_header_creation_load_from t (pfcp_outer_header_creation_new junk)" "\<lambda>v. v" ohc_ok "ohc_recv junk" for junk
proof (rule pfcp_classI [where l = "\<lambda>c. ptlv_length (fst (pfcp_outer_header_creation_of_core c))"
      and v = "\<lambda>c. snd (pfcp_outer_header_creation_of_core c)"
      and body = "\<lambda>c. be_bytes 2 (oh_description c)
        @ only_if (ohc_teid_present (oh_description c)) (be_bytes 4 (oh_teid c))
        @ only_if (ohc_v4_present (oh_description c)) (mem_bytes 4 (oh_ipv4_address c))
        @ only_if (ohc_v6_present (oh_description c)) (oh_ipv6_address c)
        @ only_if (ohc_port_present (oh_description c)) (be_bytes 2 (oh_port_number c))"
      and w = "ohc_recv junk"])
qed (auto simp: ohc_ok_def pfcp_outer_header_creation_of_core_def pfcp_outer_header_creation_dump_to_def
    pfcp_outer_header_creation_load_from_def pfcp_outer_header_creation_new_def ohc_recv_def Let_def pfcp_address_defs)

end
