(* ===== verification/Pfcp_Values.thy ===== *)
theory Pfcp_Values
  imports Pfcp_Codecs
begin

text \<open>
  The objects that are not groups, behind the virtual methods of \<^verbatim>\<open>pfcp_ie\<close>: the members of an object
  of any class, the core value it is made from or converted to, and the methods that dispatch on the
  class. \<^verbatim>\<open>value_load_from\<close> is the switch of the factory \<^verbatim>\<open>new_pfcp_ie_from_stream\<close>
  (\<^verbatim>\<open>pfcp/3gpp_29.244.cpp\<close>) over the types that are not groups; \<open>None\<close> is its \<^verbatim>\<open>default\<close> label.
\<close>

datatype (plugins only: code) pfcp_value =
    V_cause u8 | V_source_interface u8 | V_fteid pfcp_fteid_ie | V_network_instance bytes
  | V_sdf_filter sdf_filter_ie | V_application_id bytes | V_gate_status u8
  | V_mbr "bytes \<times> bytes" | V_gbr "bytes \<times> bytes" | V_qer_correlation_id u32
  | V_precedence u32 | V_transport_level_marking bytes | V_volume_threshold volume_threshold_ie
  | V_time_threshold u32 | V_monitoring_time u32
  | V_subsequent_volume_threshold volume_threshold_ie | V_subsequent_time_threshold u32
  | V_inactivity_detection_time u32 | V_reporting_triggers "u8 \<times> u8" | V_report_type u8
  | V_offending_ie u16 | V_forwarding_policy forwarding_policy_t | V_destination_interface u8
  | V_up_function_features bytes | V_apply_action u8 | V_pdr_id u16 | V_f_seid pfcp_f_seid_ie
  | V_node_id pfcp_node_id_ie | V_urr_id u32 | V_outer_header_creation outer_header_creation_t
  | V_bar_id u8 | V_cp_function_features u8 | V_ue_ip_address pfcp_ue_ip_address_ie
  | V_outer_header_removal u8 | V_recovery_time_stamp u32 | V_node_report_type u8
  | V_activate_predefined_rules bytes | V_deactivate_predefined_rules bytes | V_far_id u32
  | V_qer_id u32 | V_failed_rule_id failed_rule_id_ie
  | V_user_plane_ip_resource_information up_ip_resource_ie | V_user_plane_inactivity_timer u32
  | V_qfi u8 | V_user_id user_id_ie

datatype (plugins only: code) core_value =
    C_cause u8 | C_source_interface u8 | C_fteid fteid_t | C_network_instance bytes
  | C_sdf_filter sdf_filter_t | C_application_id bytes | C_gate_status gate_status_t | C_mbr mbr_t
  | C_gbr gbr_t | C_qer_correlation_id u32 | C_precedence u32 | C_transport_level_marking bytes
  | C_volume_threshold volume_threshold_t | C_time_threshold u32 | C_monitoring_time u32
  | C_subsequent_volume_threshold subsequent_volume_threshold_t | C_subsequent_time_threshold u32
  | C_inactivity_detection_time u32 | C_reporting_triggers reporting_triggers_t
  | C_report_type report_type_t | C_offending_ie u16 | C_forwarding_policy forwarding_policy_t
  | C_destination_interface u8 | C_up_function_features up_function_features_t
  | C_apply_action apply_action_t | C_pdr_id u16 | C_f_seid fseid_t | C_node_id node_id_t
  | C_urr_id u32 | C_outer_header_creation outer_header_creation_t | C_bar_id u8
  | C_cp_function_features cp_function_features_t | C_ue_ip_address ue_ip_address_t
  | C_outer_header_removal u8 | C_recovery_time_stamp u32 | C_node_report_type bool
  | C_activate_predefined_rules bytes | C_deactivate_predefined_rules bytes | C_far_id u32
  | C_qer_id u32 | C_failed_rule_id failed_rule_id_t
  | C_user_plane_ip_resource_information up_ip_resource_t | C_user_plane_inactivity_timer u32
  | C_qfi u8 | C_user_id user_id_t

primrec core_value_type :: "core_value \<Rightarrow> u16" where
  "core_value_type (C_cause c) = PFCP_IE_CAUSE"
| "core_value_type (C_source_interface c) = PFCP_IE_SOURCE_INTERFACE"
| "core_value_type (C_fteid c) = PFCP_IE_F_TEID"
| "core_value_type (C_network_instance c) = PFCP_IE_NETWORK_INSTANCE"
| "core_value_type (C_sdf_filter c) = PFCP_IE_SDF_FILTER"
| "core_value_type (C_application_id c) = PFCP_IE_APPLICATION_ID"
| "core_value_type (C_gate_status c) = PFCP_IE_GATE_STATUS"
| "core_value_type (C_mbr c) = PFCP_IE_MBR"
| "core_value_type (C_gbr c) = PFCP_IE_GBR"
| "core_value_type (C_qer_correlation_id c) = PFCP_IE_QER_CORRELATION_ID"
| "core_value_type (C_precedence c) = PFCP_IE_PRECEDENCE"
| "core_value_type (C_transport_level_marking c) = PFCP_IE_TRANSPORT_LEVEL_MARKING"
| "core_value_type (C_volume_threshold c) = PFCP_IE_VOLUME_THRESHOLD"
| "core_value_type (C_time_threshold c) = PFCP_IE_TIME_THRESHOLD"
| "core_value_type (C_monitoring_time c) = PFCP_IE_MONITORING_TIME"
| "core_value_type (C_subsequent_volume_threshold c) = PFCP_IE_SUBSEQUENT_VOLUME_THRESHOLD"
| "core_value_type (C_subsequent_time_threshold c) = PFCP_IE_SUBSEQUENT_TIME_THRESHOLD"
| "core_value_type (C_inactivity_detection_time c) = PFCP_IE_INACTIVITY_DETECTION_TIME"
| "core_value_type (C_reporting_triggers c) = PFCP_IE_REPORTING_TRIGGERS"
| "core_value_type (C_report_type c) = PFCP_IE_REPORT_TYPE"
| "core_value_type (C_offending_ie c) = PFCP_IE_OFFENDING_IE"
| "core_value_type (C_forwarding_policy c) = PFCP_IE_FORWARDING_POLICY"
| "core_value_type (C_destination_interface c) = PFCP_IE_DESTINATION_INTERFACE"
| "core_value_type (C_up_function_features c) = PFCP_IE_UP_FUNCTION_FEATURES"
| "core_value_type (C_apply_action c) = PFCP_IE_APPLY_ACTION"
| "core_value_type (C_pdr_id c) = PFCP_IE_PACKET_DETECTION_RULE_ID"
| "core_value_type (C_f_seid c) = PFCP_IE_F_SEID"
| "core_value_type (C_node_id c) = PFCP_IE_NODE_ID"
| "core_value_type (C_urr_id c) = PFCP_IE_URR_ID"
| "core_value_type (C_outer_header_creation c) = PFCP_IE_OUTER_HEADER_CREATION"
| "core_value_type (C_bar_id c) = PFCP_IE_BAR_ID"
| "core_value_type (C_cp_function_features c) = PFCP_IE_CP_FUNCTION_FEATURES"
| "core_value_type (C_ue_ip_address c) = PFCP_IE_UE_IP_ADDRESS"
| "core_value_type (C_outer_header_removal c) = PFCP_IE_OUTER_HEADER_REMOVAL"
| "core_value_type (C_recovery_time_stamp c) = PFCP_IE_RECOVERY_TIME_STAMP"
| "core_value_type (C_node_report_type c) = PFCP_IE_NODE_REPORT_TYPE"
| "core_value_type (C_activate_predefined_rules c) = PFCP_IE_ACTIVATE_PREDEFINED_RULES"
| "core_value_type (C_deactivate_predefined_rules c) = PFCP_IE_DEACTIVATE_PREDEFINED_RULES"
| "core_value_type (C_far_id c) = PFCP_IE_FAR_ID"
| "core_value_type (C_qer_id c) = PFCP_IE_QER_ID"
| "core_value_type (C_failed_rule_id c) = PFCP_IE_FAILED_RULE_ID"
| "core_value_type (C_user_plane_ip_resource_information c) = PFCP_IE_USER_PLANE_IP_RESOURCE_INFORMATION"
| "core_value_type (C_user_plane_inactivity_timer c) = PFCP_IE_USER_PLANE_INACTIVITY_TIMER"
| "core_value_type (C_qfi c) = PFCP_IE_QFI"
| "core_value_type (C_user_id c) = PFCP_IE_USER_ID"

definition lift_of_core :: "('v \<Rightarrow> pfcp_value) \<Rightarrow> (pfcp_tlv \<times> 'v) pfcp_result \<Rightarrow> (pfcp_tlv \<times> pfcp_value) pfcp_result" where
  "lift_of_core C r = rbind r (\<lambda>(t, v). Inr (t, C v))"

definition lift_pdump :: "('v \<Rightarrow> pfcp_value) \<Rightarrow> (bytes \<times> pfcp_tlv \<times> 'v) pfcp_result
    \<Rightarrow> (bytes \<times> pfcp_tlv \<times> pfcp_value) pfcp_result" where
  "lift_pdump C r = rbind r (\<lambda>(bs, t, v). Inr (bs, t, C v))"

definition lift_pload :: "('v \<Rightarrow> pfcp_value) \<Rightarrow> ('v \<times> istream) pfcp_result \<Rightarrow> (pfcp_value \<times> istream) pfcp_result" where
  "lift_pload C r = rbind r (\<lambda>(v, s). Inr (C v, s))"

text \<open>The constructors from the core types.\<close>

primrec value_of_core :: "(nat \<Rightarrow> u8) \<Rightarrow> core_value \<Rightarrow> (pfcp_tlv \<times> pfcp_value) pfcp_result" where
  "value_of_core junk (C_cause c) = lift_of_core V_cause (Inr (pfcp_cause_of_core c))"
| "value_of_core junk (C_source_interface c) = lift_of_core V_source_interface (Inr (pfcp_source_interface_of_core c))"
| "value_of_core junk (C_fteid c) = lift_of_core V_fteid (Inr (pfcp_fteid_of_core junk c))"
| "value_of_core junk (C_network_instance c) = lift_of_core V_network_instance (pfcp_network_instance_of_core junk c)"
| "value_of_core junk (C_sdf_filter c) = lift_of_core V_sdf_filter (pfcp_sdf_filter_of_core c)"
| "value_of_core junk (C_application_id c) = lift_of_core V_application_id (Inr (pfcp_application_id_of_core c))"
| "value_of_core junk (C_gate_status c) = lift_of_core V_gate_status (Inr (pfcp_gate_status_of_core c))"
| "value_of_core junk (C_mbr c) = lift_of_core V_mbr (Inr (pfcp_mbr_of_core c))"
| "value_of_core junk (C_gbr c) = lift_of_core V_gbr (Inr (pfcp_gbr_of_core c))"
| "value_of_core junk (C_qer_correlation_id c) = lift_of_core V_qer_correlation_id (Inr (pfcp_qer_correlation_id_of_core c))"
| "value_of_core junk (C_precedence c) = lift_of_core V_precedence (Inr (pfcp_precedence_of_core c))"
| "value_of_core junk (C_transport_level_marking c) = lift_of_core V_transport_level_marking (Inr (pfcp_transport_level_marking_of_core c))"
| "value_of_core junk (C_volume_threshold c) = lift_of_core V_volume_threshold (Inr (pfcp_volume_threshold_of_core c))"
| "value_of_core junk (C_time_threshold c) = lift_of_core V_time_threshold (Inr (pfcp_time_threshold_of_core c))"
| "value_of_core junk (C_monitoring_time c) = lift_of_core V_monitoring_time (Inr (pfcp_monitoring_time_of_core c))"
| "value_of_core junk (C_subsequent_volume_threshold c) = lift_of_core V_subsequent_volume_threshold (Inr (pfcp_subsequent_volume_threshold_of_core c))"
| "value_of_core junk (C_subsequent_time_threshold c) = lift_of_core V_subsequent_time_threshold (Inr (pfcp_subsequent_time_threshold_of_core c))"
| "value_of_core junk (C_inactivity_detection_time c) = lift_of_core V_inactivity_detection_time (Inr (pfcp_inactivity_detection_time_of_core c))"
| "value_of_core junk (C_reporting_triggers c) = lift_of_core V_reporting_triggers (Inr (pfcp_reporting_triggers_of_core c))"
| "value_of_core junk (C_report_type c) = lift_of_core V_report_type (Inr (pfcp_report_type_of_core c))"
| "value_of_core junk (C_offending_ie c) = lift_of_core V_offending_ie (Inr (pfcp_offending_ie_of_core c))"
| "value_of_core junk (C_forwarding_policy c) = lift_of_core V_forwarding_policy (Inr (pfcp_forwarding_policy_of_core c))"
| "value_of_core junk (C_destination_interface c) = lift_of_core V_destination_interface (Inr (pfcp_destination_interface_of_core c))"
| "value_of_core junk (C_up_function_features c) = lift_of_core V_up_function_features (Inr (pfcp_up_function_features_of_core c))"
| "value_of_core junk (C_apply_action c) = lift_of_core V_apply_action (Inr (pfcp_apply_action_of_core c))"
| "value_of_core junk (C_pdr_id c) = lift_of_core V_pdr_id (Inr (pfcp_pdr_id_of_core c))"
| "value_of_core junk (C_f_seid c) = lift_of_core V_f_seid (Inr (pfcp_f_seid_of_core c))"
| "value_of_core junk (C_node_id c) = lift_of_core V_node_id (Inr (pfcp_node_id_of_core c))"
| "value_of_core junk (C_urr_id c) = lift_of_core V_urr_id (Inr (pfcp_urr_id_of_core c))"
| "value_of_core junk (C_outer_header_creation c) = lift_of_core V_outer_header_creation (Inr (pfcp_outer_header_creation_of_core c))"
| "value_of_core junk (C_bar_id c) = lift_of_core V_bar_id (Inr (pfcp_bar_id_of_core c))"
| "value_of_core junk (C_cp_function_features c) = lift_of_core V_cp_function_features (Inr (pfcp_cp_function_features_of_core c))"
| "value_of_core junk (C_ue_ip_address c) = lift_of_core V_ue_ip_address (Inr (pfcp_ue_ip_address_of_core c))"
| "value_of_core junk (C_outer_header_removal c) = lift_of_core V_outer_header_removal (Inr (pfcp_outer_header_removal_of_core c))"
| "value_of_core junk (C_recovery_time_stamp c) = lift_of_core V_recovery_time_stamp (Inr (pfcp_recovery_time_stamp_of_core c))"
| "value_of_core junk (C_node_report_type c) = lift_of_core V_node_report_type (Inr (pfcp_node_report_type_of_core c))"
| "value_of_core junk (C_activate_predefined_rules c) = lift_of_core V_activate_predefined_rules (Inr (pfcp_activate_predefined_rules_of_core c))"
| "value_of_core junk (C_deactivate_predefined_rules c) = lift_of_core V_deactivate_predefined_rules (Inr (pfcp_deactivate_predefined_rules_of_core c))"
| "value_of_core junk (C_far_id c) = lift_of_core V_far_id (Inr (pfcp_far_id_of_core c))"
| "value_of_core junk (C_qer_id c) = lift_of_core V_qer_id (Inr (pfcp_qer_id_of_core c))"
| "value_of_core junk (C_failed_rule_id c) = lift_of_core V_failed_rule_id (Inr (pfcp_failed_rule_id_of_core c))"
| "value_of_core junk (C_user_plane_ip_resource_information c) = lift_of_core V_user_plane_ip_resource_information (Inr (pfcp_user_plane_ip_resource_information_of_core c))"
| "value_of_core junk (C_user_plane_inactivity_timer c) = lift_of_core V_user_plane_inactivity_timer (Inr (pfcp_user_plane_inactivity_timer_of_core c))"
| "value_of_core junk (C_qfi c) = lift_of_core V_qfi (Inr (pfcp_qfi_of_core c))"
| "value_of_core junk (C_user_id c) = lift_of_core V_user_id (Inr (pfcp_user_id_of_core c))"

primrec pvalue_dump_to :: "(nat \<Rightarrow> u8) \<Rightarrow> pfcp_tlv \<Rightarrow> pfcp_value \<Rightarrow> (bytes \<times> pfcp_tlv \<times> pfcp_value) pfcp_result" where
  "pvalue_dump_to junk t (V_cause x) = lift_pdump V_cause (pdump pfcp_cause_dump_to t x)"
| "pvalue_dump_to junk t (V_source_interface x) = lift_pdump V_source_interface (pdump pfcp_source_interface_dump_to t x)"
| "pvalue_dump_to junk t (V_fteid x) = lift_pdump V_fteid (pfcp_fteid_dump_to t x)"
| "pvalue_dump_to junk t (V_network_instance x) = lift_pdump V_network_instance (pdump pfcp_network_instance_dump_to t x)"
| "pvalue_dump_to junk t (V_sdf_filter x) = lift_pdump V_sdf_filter (pdump pfcp_sdf_filter_dump_to t x)"
| "pvalue_dump_to junk t (V_application_id x) = lift_pdump V_application_id (pdump pfcp_application_id_dump_to t x)"
| "pvalue_dump_to junk t (V_gate_status x) = lift_pdump V_gate_status (pdump pfcp_gate_status_dump_to t x)"
| "pvalue_dump_to junk t (V_mbr x) = lift_pdump V_mbr (pdump pfcp_mbr_dump_to t x)"
| "pvalue_dump_to junk t (V_gbr x) = lift_pdump V_gbr (pdump pfcp_gbr_dump_to t x)"
| "pvalue_dump_to junk t (V_qer_correlation_id x) = lift_pdump V_qer_correlation_id (pdump pfcp_qer_correlation_id_dump_to t x)"
| "pvalue_dump_to junk t (V_precedence x) = lift_pdump V_precedence (pdump pfcp_precedence_dump_to t x)"
| "pvalue_dump_to junk t (V_transport_level_marking x) = lift_pdump V_transport_level_marking (pfcp_transport_level_marking_dump_to t x)"
| "pvalue_dump_to junk t (V_volume_threshold x) = lift_pdump V_volume_threshold (pfcp_volume_threshold_dump_to t x)"
| "pvalue_dump_to junk t (V_time_threshold x) = lift_pdump V_time_threshold (pdump pfcp_time_threshold_dump_to t x)"
| "pvalue_dump_to junk t (V_monitoring_time x) = lift_pdump V_monitoring_time (pdump pfcp_monitoring_time_dump_to t x)"
| "pvalue_dump_to junk t (V_subsequent_volume_threshold x) = lift_pdump V_subsequent_volume_threshold (pfcp_subsequent_volume_threshold_dump_to t x)"
| "pvalue_dump_to junk t (V_subsequent_time_threshold x) = lift_pdump V_subsequent_time_threshold (pdump pfcp_subsequent_time_threshold_dump_to t x)"
| "pvalue_dump_to junk t (V_inactivity_detection_time x) = lift_pdump V_inactivity_detection_time (pdump pfcp_inactivity_detection_time_dump_to t x)"
| "pvalue_dump_to junk t (V_reporting_triggers x) = lift_pdump V_reporting_triggers (pfcp_reporting_triggers_dump_to t x)"
| "pvalue_dump_to junk t (V_report_type x) = lift_pdump V_report_type (pdump pfcp_report_type_dump_to t x)"
| "pvalue_dump_to junk t (V_offending_ie x) = lift_pdump V_offending_ie (pdump pfcp_offending_ie_dump_to t x)"
| "pvalue_dump_to junk t (V_forwarding_policy x) = lift_pdump V_forwarding_policy (pdump pfcp_forwarding_policy_dump_to t x)"
| "pvalue_dump_to junk t (V_destination_interface x) = lift_pdump V_destination_interface (pdump pfcp_destination_interface_dump_to t x)"
| "pvalue_dump_to junk t (V_up_function_features x) = lift_pdump V_up_function_features (pfcp_up_function_features_dump_to t x)"
| "pvalue_dump_to junk t (V_apply_action x) = lift_pdump V_apply_action (pdump pfcp_apply_action_dump_to t x)"
| "pvalue_dump_to junk t (V_pdr_id x) = lift_pdump V_pdr_id (pdump pfcp_pdr_id_dump_to t x)"
| "pvalue_dump_to junk t (V_f_seid x) = lift_pdump V_f_seid (pfcp_f_seid_dump_to t x)"
| "pvalue_dump_to junk t (V_node_id x) = lift_pdump V_node_id (pfcp_node_id_dump_to junk t x)"
| "pvalue_dump_to junk t (V_urr_id x) = lift_pdump V_urr_id (pdump pfcp_urr_id_dump_to t x)"
| "pvalue_dump_to junk t (V_outer_header_creation x) = lift_pdump V_outer_header_creation (pdump pfcp_outer_header_creation_dump_to t x)"
| "pvalue_dump_to junk t (V_bar_id x) = lift_pdump V_bar_id (pdump pfcp_bar_id_dump_to t x)"
| "pvalue_dump_to junk t (V_cp_function_features x) = lift_pdump V_cp_function_features (pdump pfcp_cp_function_features_dump_to t x)"
| "pvalue_dump_to junk t (V_ue_ip_address x) = lift_pdump V_ue_ip_address (pfcp_ue_ip_address_dump_to t x)"
| "pvalue_dump_to junk t (V_outer_header_removal x) = lift_pdump V_outer_header_removal (pfcp_outer_header_removal_dump_to t x)"
| "pvalue_dump_to junk t (V_recovery_time_stamp x) = lift_pdump V_recovery_time_stamp (pdump pfcp_recovery_time_stamp_dump_to t x)"
| "pvalue_dump_to junk t (V_node_report_type x) = lift_pdump V_node_report_type (pdump pfcp_node_report_type_dump_to t x)"
| "pvalue_dump_to junk t (V_activate_predefined_rules x) = lift_pdump V_activate_predefined_rules (pfcp_activate_predefined_rules_dump_to t x)"
| "pvalue_dump_to junk t (V_deactivate_predefined_rules x) = lift_pdump V_deactivate_predefined_rules (pfcp_deactivate_predefined_rules_dump_to t x)"
| "pvalue_dump_to junk t (V_far_id x) = lift_pdump V_far_id (pdump pfcp_far_id_dump_to t x)"
| "pvalue_dump_to junk t (V_qer_id x) = lift_pdump V_qer_id (pdump pfcp_qer_id_dump_to t x)"
| "pvalue_dump_to junk t (V_failed_rule_id x) = lift_pdump V_failed_rule_id (pfcp_failed_rule_id_dump_to t x)"
| "pvalue_dump_to junk t (V_user_plane_ip_resource_information x) = lift_pdump V_user_plane_ip_resource_information (pdump pfcp_user_plane_ip_resource_information_dump_to t x)"
| "pvalue_dump_to junk t (V_user_plane_inactivity_timer x) = lift_pdump V_user_plane_inactivity_timer (pdump pfcp_user_plane_inactivity_timer_dump_to t x)"
| "pvalue_dump_to junk t (V_qfi x) = lift_pdump V_qfi (pdump pfcp_qfi_dump_to t x)"
| "pvalue_dump_to junk t (V_user_id x) = lift_pdump V_user_id (pfcp_user_id_dump_to t x)"

definition pvalue_load_from ::
  "(nat \<Rightarrow> u8) \<Rightarrow> pfcp_tlv \<Rightarrow> istream \<Rightarrow> (pfcp_value \<times> istream) pfcp_result option" where
  "pvalue_load_from junk t s =
     (let ty = ptlv_type t in
      if ty = PFCP_IE_CAUSE then Some (lift_pload V_cause (pfcp_cause_load_from t 0 s))
      else if ty = PFCP_IE_SOURCE_INTERFACE then Some (lift_pload V_source_interface (pfcp_source_interface_load_from t 255 s))
      else if ty = PFCP_IE_F_TEID then Some (lift_pload V_fteid (pfcp_fteid_load_from t pfcp_fteid_new s))
      else if ty = PFCP_IE_NETWORK_INSTANCE then Some (lift_pload V_network_instance (pfcp_network_instance_load_from junk t s))
      else if ty = PFCP_IE_SDF_FILTER then Some (lift_pload V_sdf_filter (pfcp_sdf_filter_load_from junk t (pfcp_sdf_filter_new junk) s))
      else if ty = PFCP_IE_APPLICATION_ID then Some (lift_pload V_application_id (pfcp_application_id_load_from junk t s))
      else if ty = PFCP_IE_GATE_STATUS then Some (lift_pload V_gate_status (pfcp_gate_status_load_from t (junk 0) s))
      else if ty = PFCP_IE_MBR then Some (lift_pload V_mbr (pfcp_mbr_load_from t (replicate 5 0, replicate 5 0) s))
      else if ty = PFCP_IE_GBR then Some (lift_pload V_gbr (pfcp_gbr_load_from t (replicate 5 0, replicate 5 0) s))
      else if ty = PFCP_IE_QER_CORRELATION_ID then Some (lift_pload V_qer_correlation_id (pfcp_qer_correlation_id_load_from t 0 s))
      else if ty = PFCP_IE_PRECEDENCE then Some (lift_pload V_precedence (pfcp_precedence_load_from t 0 s))
      else if ty = PFCP_IE_TRANSPORT_LEVEL_MARKING then Some (lift_pload V_transport_level_marking (pfcp_transport_level_marking_load_from junk t s))
      else if ty = PFCP_IE_VOLUME_THRESHOLD then Some (lift_pload V_volume_threshold (pfcp_volume_threshold_load_from t (pfcp_volume_threshold_new junk) s))
      else if ty = PFCP_IE_TIME_THRESHOLD then Some (lift_pload V_time_threshold (pfcp_time_threshold_load_from t 0 s))
      else if ty = PFCP_IE_MONITORING_TIME then Some (lift_pload V_monitoring_time (pfcp_monitoring_time_load_from t 0 s))
      else if ty = PFCP_IE_SUBSEQUENT_VOLUME_THRESHOLD then Some (lift_pload V_subsequent_volume_threshold (pfcp_subsequent_volume_threshold_load_from t (pfcp_volume_threshold_new junk) s))
      else if ty = PFCP_IE_SUBSEQUENT_TIME_THRESHOLD then Some (lift_pload V_subsequent_time_threshold (pfcp_subsequent_time_threshold_load_from t 0 s))
      else if ty = PFCP_IE_INACTIVITY_DETECTION_TIME then Some (lift_pload V_inactivity_detection_time (pfcp_inactivity_detection_time_load_from t 0 s))
      else if ty = PFCP_IE_REPORTING_TRIGGERS then Some (lift_pload V_reporting_triggers (pfcp_reporting_triggers_load_from t (junk 0, junk 1) s))
      else if ty = PFCP_IE_REPORT_TYPE then Some (lift_pload V_report_type (pfcp_report_type_load_from t 0 s))
      else if ty = PFCP_IE_OFFENDING_IE then Some (lift_pload V_offending_ie (pfcp_offending_ie_load_from t 0 s))
      else if ty = PFCP_IE_FORWARDING_POLICY then Some (lift_pload V_forwarding_policy (pfcp_forwarding_policy_load_from junk t pfcp_forwarding_policy_new s))
      else if ty = PFCP_IE_DESTINATION_INTERFACE then Some (lift_pload V_destination_interface (pfcp_destination_interface_load_from t 255 s))
      else if ty = PFCP_IE_UP_FUNCTION_FEATURES then Some (lift_pload V_up_function_features (pfcp_up_function_features_load_from t (replicate 6 0) s))
      else if ty = PFCP_IE_APPLY_ACTION then Some (lift_pload V_apply_action (pfcp_apply_action_load_from t 0 s))
      else if ty = PFCP_IE_PACKET_DETECTION_RULE_ID then Some (lift_pload V_pdr_id (pfcp_pdr_id_load_from t 0 s))
      else if ty = PFCP_IE_F_SEID then Some (lift_pload V_f_seid (pfcp_f_seid_load_from t (pfcp_f_seid_new junk) s))
      else if ty = PFCP_IE_NODE_ID then Some (lift_pload V_node_id (pfcp_node_id_load_from junk t (pfcp_node_id_new junk) s))
      else if ty = PFCP_IE_URR_ID then Some (lift_pload V_urr_id (pfcp_urr_id_load_from t (mem_word junk 0 4) s))
      else if ty = PFCP_IE_OUTER_HEADER_CREATION then Some (lift_pload V_outer_header_creation (pfcp_outer_header_creation_load_from t (pfcp_outer_header_creation_new junk) s))
      else if ty = PFCP_IE_BAR_ID then Some (lift_pload V_bar_id (pfcp_bar_id_load_from t 0 s))
      else if ty = PFCP_IE_CP_FUNCTION_FEATURES then Some (lift_pload V_cp_function_features (pfcp_cp_function_features_load_from t 0 s))
      else if ty = PFCP_IE_UE_IP_ADDRESS then Some (lift_pload V_ue_ip_address (pfcp_ue_ip_address_load_from t (pfcp_ue_ip_address_new junk) s))
      else if ty = PFCP_IE_OUTER_HEADER_REMOVAL then Some (lift_pload V_outer_header_removal (pfcp_outer_header_removal_load_from t (junk 0) s))
      else if ty = PFCP_IE_RECOVERY_TIME_STAMP then Some (lift_pload V_recovery_time_stamp (pfcp_recovery_time_stamp_load_from t 0 s))
      else if ty = PFCP_IE_ACTIVATE_PREDEFINED_RULES then Some (lift_pload V_activate_predefined_rules (pfcp_activate_predefined_rules_load_from junk t s))
      else if ty = PFCP_IE_DEACTIVATE_PREDEFINED_RULES then Some (lift_pload V_deactivate_predefined_rules (pfcp_deactivate_predefined_rules_load_from junk t s))
      else if ty = PFCP_IE_FAR_ID then Some (lift_pload V_far_id (pfcp_far_id_load_from t (mem_word junk 0 4) s))
      else if ty = PFCP_IE_QER_ID then Some (lift_pload V_qer_id (pfcp_qer_id_load_from t (mem_word junk 0 4) s))
      else if ty = PFCP_IE_FAILED_RULE_ID then Some (lift_pload V_failed_rule_id (pfcp_failed_rule_id_load_from junk t pfcp_failed_rule_id_new s))
      else if ty = PFCP_IE_USER_PLANE_IP_RESOURCE_INFORMATION then Some (lift_pload V_user_plane_ip_resource_information (pfcp_user_plane_ip_resource_information_load_from t pfcp_user_plane_ip_resource_information_new s))
      else if ty = PFCP_IE_USER_PLANE_INACTIVITY_TIMER then Some (lift_pload V_user_plane_inactivity_timer (pfcp_user_plane_inactivity_timer_load_from t (mem_word junk 0 4) s))
      else if ty = PFCP_IE_QFI then Some (lift_pload V_qfi (pfcp_qfi_load_from t (junk 0) s))
      else if ty = PFCP_IE_USER_ID then Some (lift_pload V_user_id (pfcp_user_id_load_from junk t (pfcp_user_id_new junk) s))
      else None)"

text \<open>\<^verbatim>\<open>to_core_type\<close>.\<close>

primrec value_to_core :: "pfcp_value \<Rightarrow> core_value" where
  "value_to_core (V_cause x) = C_cause x"
| "value_to_core (V_source_interface x) = C_source_interface x"
| "value_to_core (V_fteid x) = C_fteid (pfcp_fteid_to_core x)"
| "value_to_core (V_network_instance x) = C_network_instance x"
| "value_to_core (V_sdf_filter x) = C_sdf_filter (pfcp_sdf_filter_to_core x)"
| "value_to_core (V_application_id x) = C_application_id x"
| "value_to_core (V_gate_status x) = C_gate_status (pfcp_gate_status_to_core x)"
| "value_to_core (V_mbr x) = C_mbr (pfcp_mbr_to_core x)"
| "value_to_core (V_gbr x) = C_gbr (pfcp_gbr_to_core x)"
| "value_to_core (V_qer_correlation_id x) = C_qer_correlation_id x"
| "value_to_core (V_precedence x) = C_precedence x"
| "value_to_core (V_transport_level_marking x) = C_transport_level_marking x"
| "value_to_core (V_volume_threshold x) = C_volume_threshold (pfcp_volume_threshold_to_core x)"
| "value_to_core (V_time_threshold x) = C_time_threshold x"
| "value_to_core (V_monitoring_time x) = C_monitoring_time x"
| "value_to_core (V_subsequent_volume_threshold x) = C_subsequent_volume_threshold (pfcp_subsequent_volume_threshold_to_core x)"
| "value_to_core (V_subsequent_time_threshold x) = C_subsequent_time_threshold x"
| "value_to_core (V_inactivity_detection_time x) = C_inactivity_detection_time x"
| "value_to_core (V_reporting_triggers x) = C_reporting_triggers (pfcp_reporting_triggers_to_core x)"
| "value_to_core (V_report_type x) = C_report_type (pfcp_report_type_to_core x)"
| "value_to_core (V_offending_ie x) = C_offending_ie x"
| "value_to_core (V_forwarding_policy x) = C_forwarding_policy x"
| "value_to_core (V_destination_interface x) = C_destination_interface x"
| "value_to_core (V_up_function_features x) = C_up_function_features (pfcp_up_function_features_to_core x)"
| "value_to_core (V_apply_action x) = C_apply_action (pfcp_apply_action_to_core x)"
| "value_to_core (V_pdr_id x) = C_pdr_id x"
| "value_to_core (V_f_seid x) = C_f_seid (pfcp_f_seid_to_core x)"
| "value_to_core (V_node_id x) = C_node_id (pfcp_node_id_to_core x)"
| "value_to_core (V_urr_id x) = C_urr_id x"
| "value_to_core (V_outer_header_creation x) = C_outer_header_creation x"
| "value_to_core (V_bar_id x) = C_bar_id x"
| "value_to_core (V_cp_function_features x) = C_cp_function_features (pfcp_cp_function_features_to_core x)"
| "value_to_core (V_ue_ip_address x) = C_ue_ip_address (pfcp_ue_ip_address_to_core x)"
| "value_to_core (V_outer_header_removal x) = C_outer_header_removal x"
| "value_to_core (V_recovery_time_stamp x) = C_recovery_time_stamp x"
| "value_to_core (V_node_report_type x) = C_node_report_type (snd (pfcp_node_report_type_to_core x False))"
| "value_to_core (V_activate_predefined_rules x) = C_activate_predefined_rules x"
| "value_to_core (V_deactivate_predefined_rules x) = C_deactivate_predefined_rules x"
| "value_to_core (V_far_id x) = C_far_id x"
| "value_to_core (V_qer_id x) = C_qer_id x"
| "value_to_core (V_failed_rule_id x) = C_failed_rule_id (pfcp_failed_rule_id_to_core x)"
| "value_to_core (V_user_plane_ip_resource_information x) = C_user_plane_ip_resource_information (pfcp_user_plane_ip_resource_information_to_core x)"
| "value_to_core (V_user_plane_inactivity_timer x) = C_user_plane_inactivity_timer x"
| "value_to_core (V_qfi x) = C_qfi (pfcp_qfi_to_core x)"
| "value_to_core (V_user_id x) = C_user_id (pfcp_user_id_to_core x)"

text \<open>The core values that arrive, and what arrives.\<close>

primrec core_value_ok :: "core_value \<Rightarrow> bool" where
  "core_value_ok (C_cause c) \<longleftrightarrow> True"
| "core_value_ok (C_source_interface c) \<longleftrightarrow> True"
| "core_value_ok (C_fteid c) \<longleftrightarrow> pfcp_fteid_ok c"
| "core_value_ok (C_network_instance c) \<longleftrightarrow> dotted_ok c"
| "core_value_ok (C_sdf_filter c) \<longleftrightarrow> sdf_filter_ok c"
| "core_value_ok (C_application_id c) \<longleftrightarrow> text_ok c"
| "core_value_ok (C_gate_status c) \<longleftrightarrow> gate_status_ok c"
| "core_value_ok (C_mbr c) \<longleftrightarrow> mbr_ok c"
| "core_value_ok (C_gbr c) \<longleftrightarrow> gbr_ok c"
| "core_value_ok (C_qer_correlation_id c) \<longleftrightarrow> False"
| "core_value_ok (C_precedence c) \<longleftrightarrow> True"
| "core_value_ok (C_transport_level_marking c) \<longleftrightarrow> length c = 2"
| "core_value_ok (C_volume_threshold c) \<longleftrightarrow> False"
| "core_value_ok (C_time_threshold c) \<longleftrightarrow> True"
| "core_value_ok (C_monitoring_time c) \<longleftrightarrow> True"
| "core_value_ok (C_subsequent_volume_threshold c) \<longleftrightarrow> False"
| "core_value_ok (C_subsequent_time_threshold c) \<longleftrightarrow> True"
| "core_value_ok (C_inactivity_detection_time c) \<longleftrightarrow> True"
| "core_value_ok (C_reporting_triggers c) \<longleftrightarrow> True"
| "core_value_ok (C_report_type c) \<longleftrightarrow> True"
| "core_value_ok (C_offending_ie c) \<longleftrightarrow> True"
| "core_value_ok (C_forwarding_policy c) \<longleftrightarrow> forwarding_policy_ok c"
| "core_value_ok (C_destination_interface c) \<longleftrightarrow> True"
| "core_value_ok (C_up_function_features c) \<longleftrightarrow> True"
| "core_value_ok (C_apply_action c) \<longleftrightarrow> True"
| "core_value_ok (C_pdr_id c) \<longleftrightarrow> True"
| "core_value_ok (C_f_seid c) \<longleftrightarrow> fseid_ok c"
| "core_value_ok (C_node_id c) \<longleftrightarrow> node_id_ok c"
| "core_value_ok (C_urr_id c) \<longleftrightarrow> True"
| "core_value_ok (C_outer_header_creation c) \<longleftrightarrow> ohc_ok c"
| "core_value_ok (C_bar_id c) \<longleftrightarrow> True"
| "core_value_ok (C_cp_function_features c) \<longleftrightarrow> True"
| "core_value_ok (C_ue_ip_address c) \<longleftrightarrow> pfcp_ue_ip_address_ok c"
| "core_value_ok (C_outer_header_removal c) \<longleftrightarrow> True"
| "core_value_ok (C_recovery_time_stamp c) \<longleftrightarrow> True"
| "core_value_ok (C_node_report_type c) \<longleftrightarrow> False"
| "core_value_ok (C_activate_predefined_rules c) \<longleftrightarrow> text_ok c"
| "core_value_ok (C_deactivate_predefined_rules c) \<longleftrightarrow> text_ok c"
| "core_value_ok (C_far_id c) \<longleftrightarrow> True"
| "core_value_ok (C_qer_id c) \<longleftrightarrow> True"
| "core_value_ok (C_failed_rule_id c) \<longleftrightarrow> False"
| "core_value_ok (C_user_plane_ip_resource_information c) \<longleftrightarrow> False"
| "core_value_ok (C_user_plane_inactivity_timer c) \<longleftrightarrow> True"
| "core_value_ok (C_qfi c) \<longleftrightarrow> True"
| "core_value_ok (C_user_id c) \<longleftrightarrow> False"

primrec core_value_recv :: "(nat \<Rightarrow> u8) \<Rightarrow> core_value \<Rightarrow> core_value" where
  "core_value_recv junk (C_cause c) = C_cause c"
| "core_value_recv junk (C_source_interface c) = C_source_interface c"
| "core_value_recv junk (C_fteid c) = C_fteid c"
| "core_value_recv junk (C_network_instance c) = C_network_instance (wire (labels [] c))"
| "core_value_recv junk (C_sdf_filter c) = C_sdf_filter c"
| "core_value_recv junk (C_application_id c) = C_application_id c"
| "core_value_recv junk (C_gate_status c) = C_gate_status c"
| "core_value_recv junk (C_mbr c) = C_mbr c"
| "core_value_recv junk (C_gbr c) = C_gbr c"
| "core_value_recv junk (C_qer_correlation_id c) = C_qer_correlation_id c"
| "core_value_recv junk (C_precedence c) = C_precedence c"
| "core_value_recv junk (C_transport_level_marking c) = C_transport_level_marking c"
| "core_value_recv junk (C_volume_threshold c) = C_volume_threshold c"
| "core_value_recv junk (C_time_threshold c) = C_time_threshold c"
| "core_value_recv junk (C_monitoring_time c) = C_monitoring_time c"
| "core_value_recv junk (C_subsequent_volume_threshold c) = C_subsequent_volume_threshold c"
| "core_value_recv junk (C_subsequent_time_threshold c) = C_subsequent_time_threshold c"
| "core_value_recv junk (C_inactivity_detection_time c) = C_inactivity_detection_time c"
| "core_value_recv junk (C_reporting_triggers c) = C_reporting_triggers c"
| "core_value_recv junk (C_report_type c) = C_report_type c"
| "core_value_recv junk (C_offending_ie c) = C_offending_ie c"
| "core_value_recv junk (C_forwarding_policy c) = C_forwarding_policy c"
| "core_value_recv junk (C_destination_interface c) = C_destination_interface c"
| "core_value_recv junk (C_up_function_features c) = C_up_function_features c"
| "core_value_recv junk (C_apply_action c) = C_apply_action c"
| "core_value_recv junk (C_pdr_id c) = C_pdr_id c"
| "core_value_recv junk (C_f_seid c) = C_f_seid c"
| "core_value_recv junk (C_node_id c) = C_node_id c"
| "core_value_recv junk (C_urr_id c) = C_urr_id (bswap32 c)"
| "core_value_recv junk (C_outer_header_creation c) = C_outer_header_creation (ohc_recv junk c)"
| "core_value_recv junk (C_bar_id c) = C_bar_id c"
| "core_value_recv junk (C_cp_function_features c) = C_cp_function_features c"
| "core_value_recv junk (C_ue_ip_address c) = C_ue_ip_address c"
| "core_value_recv junk (C_outer_header_removal c) = C_outer_header_removal c"
| "core_value_recv junk (C_recovery_time_stamp c) = C_recovery_time_stamp c"
| "core_value_recv junk (C_node_report_type c) = C_node_report_type c"
| "core_value_recv junk (C_activate_predefined_rules c) = C_activate_predefined_rules c"
| "core_value_recv junk (C_deactivate_predefined_rules c) = C_deactivate_predefined_rules c"
| "core_value_recv junk (C_far_id c) = C_far_id c"
| "core_value_recv junk (C_qer_id c) = C_qer_id c"
| "core_value_recv junk (C_failed_rule_id c) = C_failed_rule_id c"
| "core_value_recv junk (C_user_plane_ip_resource_information c) = C_user_plane_ip_resource_information c"
| "core_value_recv junk (C_user_plane_inactivity_timer c) = C_user_plane_inactivity_timer c"
| "core_value_recv junk (C_qfi c) = C_qfi (c AND 0x3F)"
| "core_value_recv junk (C_user_id c) = C_user_id c"

text \<open>The law of the classes, for an object of any class.\<close>

definition carries :: "(nat \<Rightarrow> u8) \<Rightarrow> (nat \<Rightarrow> u8) \<Rightarrow> core_value \<Rightarrow> bool" where
  "carries junk junk' c \<longleftrightarrow> (\<exists>l v bs w. value_of_core junk c = Inr (pfcp_ie_new (core_value_type c) l, v)
    \<and> pvalue_dump_to junk (pfcp_ie_new (core_value_type c) l) v
        = Inr (pfcp_tlv_dump_to (pfcp_ie_new (core_value_type c) l) @ bs, pfcp_ie_new (core_value_type c) l, v)
    \<and> length bs = unat l \<and> bs \<noteq> []
    \<and> (\<forall>r. pvalue_load_from junk' (pfcp_ie_new (core_value_type c) l) (istream_of (bs @ r)) = Some (Inr (w, istream_of r)))
    \<and> value_to_core w = core_value_recv junk' c)"

lemma pfcp_ie_new_type:
  "ptlv_type (pfcp_ie_new (core_value_type c) l) = core_value_type c"
  by (cases c) (simp_all add: pfcp_ie_new_def pfcp_tlv_new_def pfcp_ie_types)

lemma lift_class:
  assumes "pfcp_class ty of_core dump load to_core ok recv" and "ok x"
    and "core_value_type c = ty" and "value_of_core junk c = lift_of_core V (of_core x)"
    and "\<And>t v. pvalue_dump_to junk t (V v) = lift_pdump V (dump t v)"
    and "\<And>t s. ptlv_type t = ty \<Longrightarrow> pvalue_load_from junk' t s = Some (lift_pload V (load t s))"
    and "\<And>w. value_to_core (V w) = K (to_core w)" and "core_value_recv junk' c = K (recv x)"
  shows "carries junk junk' c"
proof -
  obtain l v bs w where "of_core x = Inr (pfcp_ie_new ty l, v)"
    "dump (pfcp_ie_new ty l) v = Inr (pfcp_tlv_dump_to (pfcp_ie_new ty l) @ bs, pfcp_ie_new ty l, v)"
    "length bs = unat l" "bs \<noteq> []"
    "\<And>r. load (pfcp_ie_new ty l) (istream_of (bs @ r)) = Inr (w, istream_of r)" "to_core w = recv x"
    using assms(1,2) by (elim pfcp_class.wireE) (assumption | blast)+
  then show ?thesis unfolding carries_def using pfcp_ie_new_type [of c l] assms(3-8)
    by (intro exI [of _ l] exI [of _ "V v"] exI [of _ bs] exI [of _ "V w"])
      (simp add: lift_of_core_def lift_pdump_def lift_pload_def)
qed

lemma value_wire:
  assumes "core_value_ok c"
  shows "carries junk junk' c"
proof (cases c)
  case (C_cause x)
  with assms show ?thesis
    by (intro lift_class [OF p_cause.pfcp_class_axioms [of "0"], where x = x and V = V_cause and K = C_cause])
      (simp_all add: pvalue_load_from_def pfcp_ie_types)
next
  case (C_source_interface x)
  with assms show ?thesis
    by (intro lift_class [OF p_source_interface.pfcp_class_axioms [of "255"], where x = x and V = V_source_interface and K = C_source_interface])
      (simp_all add: pvalue_load_from_def pfcp_ie_types)
next
  case (C_fteid x)
  with assms show ?thesis
    by (intro lift_class [OF p_fteid.pfcp_class_axioms [of junk], where x = x and V = V_fteid and K = C_fteid])
      (simp_all add: pvalue_load_from_def pfcp_ie_types)
next
  case (C_network_instance x)
  with assms show ?thesis
    by (intro lift_class [OF p_network_instance.pfcp_class_axioms [of junk junk'], where x = x and V = V_network_instance and K = C_network_instance])
      (simp_all add: pvalue_load_from_def pfcp_ie_types)
next
  case (C_sdf_filter x)
  with assms show ?thesis
    by (intro lift_class [OF p_sdf_filter.pfcp_class_axioms [of junk'], where x = x and V = V_sdf_filter and K = C_sdf_filter])
      (simp_all add: pvalue_load_from_def pfcp_ie_types)
next
  case (C_application_id x)
  with assms show ?thesis
    by (intro lift_class [OF p_application_id.pfcp_class_axioms [of junk'], where x = x and V = V_application_id and K = C_application_id])
      (simp_all add: pvalue_load_from_def pfcp_ie_types)
next
  case (C_gate_status x)
  with assms show ?thesis
    by (intro lift_class [OF p_gate_status.pfcp_class_axioms [of "(junk' 0)"], where x = x and V = V_gate_status and K = C_gate_status])
      (simp_all add: pvalue_load_from_def pfcp_ie_types)
next
  case (C_mbr x)
  with assms show ?thesis
    by (intro lift_class [OF p_mbr.pfcp_class_axioms, where x = x and V = V_mbr and K = C_mbr])
      (simp_all add: pvalue_load_from_def pfcp_ie_types)
next
  case (C_gbr x)
  with assms show ?thesis
    by (intro lift_class [OF p_gbr.pfcp_class_axioms, where x = x and V = V_gbr and K = C_gbr])
      (simp_all add: pvalue_load_from_def pfcp_ie_types)
next
  case C_qer_correlation_id
  with assms show ?thesis by simp
next
  case (C_precedence x)
  with assms show ?thesis
    by (intro lift_class [OF p_precedence.pfcp_class_axioms [of "0"], where x = x and V = V_precedence and K = C_precedence])
      (simp_all add: pvalue_load_from_def pfcp_ie_types)
next
  case (C_transport_level_marking x)
  with assms show ?thesis
    by (intro lift_class [OF p_transport_level_marking.pfcp_class_axioms [of junk'], where x = x and V = V_transport_level_marking and K = C_transport_level_marking])
      (simp_all add: pvalue_load_from_def pfcp_ie_types)
next
  case C_volume_threshold
  with assms show ?thesis by simp
next
  case (C_time_threshold x)
  with assms show ?thesis
    by (intro lift_class [OF p_time_threshold.pfcp_class_axioms [of "0"], where x = x and V = V_time_threshold and K = C_time_threshold])
      (simp_all add: pvalue_load_from_def pfcp_ie_types)
next
  case (C_monitoring_time x)
  with assms show ?thesis
    by (intro lift_class [OF p_monitoring_time.pfcp_class_axioms [of "0"], where x = x and V = V_monitoring_time and K = C_monitoring_time])
      (simp_all add: pvalue_load_from_def pfcp_ie_types)
next
  case C_subsequent_volume_threshold
  with assms show ?thesis by simp
next
  case (C_subsequent_time_threshold x)
  with assms show ?thesis
    by (intro lift_class [OF p_subsequent_time_threshold.pfcp_class_axioms [of "0"], where x = x and V = V_subsequent_time_threshold and K = C_subsequent_time_threshold])
      (simp_all add: pvalue_load_from_def pfcp_ie_types)
next
  case (C_inactivity_detection_time x)
  with assms show ?thesis
    by (intro lift_class [OF p_inactivity_detection_time.pfcp_class_axioms [of "0"], where x = x and V = V_inactivity_detection_time and K = C_inactivity_detection_time])
      (simp_all add: pvalue_load_from_def pfcp_ie_types)
next
  case (C_reporting_triggers x)
  with assms show ?thesis
    by (intro lift_class [OF p_reporting_triggers.pfcp_class_axioms [of "(junk' 0, junk' 1)"], where x = x and V = V_reporting_triggers and K = C_reporting_triggers])
      (simp_all add: pvalue_load_from_def pfcp_ie_types)
next
  case (C_report_type x)
  with assms show ?thesis
    by (intro lift_class [OF p_report_type.pfcp_class_axioms [of "0"], where x = x and V = V_report_type and K = C_report_type])
      (simp_all add: pvalue_load_from_def pfcp_ie_types)
next
  case (C_offending_ie x)
  with assms show ?thesis
    by (intro lift_class [OF p_offending_ie.pfcp_class_axioms [of "0"], where x = x and V = V_offending_ie and K = C_offending_ie])
      (simp_all add: pvalue_load_from_def pfcp_ie_types)
next
  case (C_forwarding_policy x)
  with assms show ?thesis
    by (intro lift_class [OF p_forwarding_policy.pfcp_class_axioms [of junk'], where x = x and V = V_forwarding_policy and K = C_forwarding_policy])
      (simp_all add: pvalue_load_from_def pfcp_ie_types)
next
  case (C_destination_interface x)
  with assms show ?thesis
    by (intro lift_class [OF p_destination_interface.pfcp_class_axioms [of "255"], where x = x and V = V_destination_interface and K = C_destination_interface])
      (simp_all add: pvalue_load_from_def pfcp_ie_types)
next
  case (C_up_function_features x)
  with assms show ?thesis
    by (intro lift_class [OF p_up_function_features.pfcp_class_axioms, where x = x and V = V_up_function_features and K = C_up_function_features])
      (simp_all add: pvalue_load_from_def pfcp_ie_types)
next
  case (C_apply_action x)
  with assms show ?thesis
    by (intro lift_class [OF p_apply_action.pfcp_class_axioms [of "0"], where x = x and V = V_apply_action and K = C_apply_action])
      (simp_all add: pvalue_load_from_def pfcp_ie_types)
next
  case (C_pdr_id x)
  with assms show ?thesis
    by (intro lift_class [OF p_pdr_id.pfcp_class_axioms [of "0"], where x = x and V = V_pdr_id and K = C_pdr_id])
      (simp_all add: pvalue_load_from_def pfcp_ie_types)
next
  case (C_f_seid x)
  with assms show ?thesis
    by (intro lift_class [OF p_f_seid.pfcp_class_axioms [of junk'], where x = x and V = V_f_seid and K = C_f_seid])
      (simp_all add: pvalue_load_from_def pfcp_ie_types)
next
  case (C_node_id x)
  with assms show ?thesis
    by (intro lift_class [OF p_node_id.pfcp_class_axioms [of junk junk'], where x = x and V = V_node_id and K = C_node_id])
      (simp_all add: pvalue_load_from_def pfcp_ie_types)
next
  case (C_urr_id x)
  with assms show ?thesis
    by (intro lift_class [OF p_urr_id.pfcp_class_axioms [of "mem_word junk' 0 4"], where x = x and V = V_urr_id and K = C_urr_id])
      (simp_all add: pvalue_load_from_def pfcp_ie_types)
next
  case (C_outer_header_creation x)
  with assms show ?thesis
    by (intro lift_class [OF p_outer_header_creation.pfcp_class_axioms [of junk'], where x = x and V = V_outer_header_creation and K = C_outer_header_creation])
      (simp_all add: pvalue_load_from_def pfcp_ie_types)
next
  case (C_bar_id x)
  with assms show ?thesis
    by (intro lift_class [OF p_bar_id.pfcp_class_axioms [of "0"], where x = x and V = V_bar_id and K = C_bar_id])
      (simp_all add: pvalue_load_from_def pfcp_ie_types)
next
  case (C_cp_function_features x)
  with assms show ?thesis
    by (intro lift_class [OF p_cp_function_features.pfcp_class_axioms [of "0"], where x = x and V = V_cp_function_features and K = C_cp_function_features])
      (simp_all add: pvalue_load_from_def pfcp_ie_types)
next
  case (C_ue_ip_address x)
  with assms show ?thesis
    by (intro lift_class [OF p_ue_ip_address.pfcp_class_axioms [of junk'], where x = x and V = V_ue_ip_address and K = C_ue_ip_address])
      (simp_all add: pvalue_load_from_def pfcp_ie_types)
next
  case (C_outer_header_removal x)
  with assms show ?thesis
    by (intro lift_class [OF p_outer_header_removal.pfcp_class_axioms [of "(junk' 0)"], where x = x and V = V_outer_header_removal and K = C_outer_header_removal])
      (simp_all add: pvalue_load_from_def pfcp_ie_types)
next
  case (C_recovery_time_stamp x)
  with assms show ?thesis
    by (intro lift_class [OF p_recovery_time_stamp.pfcp_class_axioms [of "0"], where x = x and V = V_recovery_time_stamp and K = C_recovery_time_stamp])
      (simp_all add: pvalue_load_from_def pfcp_ie_types)
next
  case C_node_report_type
  with assms show ?thesis by simp
next
  case (C_activate_predefined_rules x)
  with assms show ?thesis
    by (intro lift_class [OF p_activate_predefined_rules.pfcp_class_axioms [of junk'], where x = x and V = V_activate_predefined_rules and K = C_activate_predefined_rules])
      (simp_all add: pvalue_load_from_def pfcp_ie_types)
next
  case (C_deactivate_predefined_rules x)
  with assms show ?thesis
    by (intro lift_class [OF p_deactivate_predefined_rules.pfcp_class_axioms [of junk'], where x = x and V = V_deactivate_predefined_rules and K = C_deactivate_predefined_rules])
      (simp_all add: pvalue_load_from_def pfcp_ie_types)
next
  case (C_far_id x)
  with assms show ?thesis
    by (intro lift_class [OF p_far_id.pfcp_class_axioms [of "(mem_word junk' 0 4)"], where x = x and V = V_far_id and K = C_far_id])
      (simp_all add: pvalue_load_from_def pfcp_ie_types)
next
  case (C_qer_id x)
  with assms show ?thesis
    by (intro lift_class [OF p_qer_id.pfcp_class_axioms [of "(mem_word junk' 0 4)"], where x = x and V = V_qer_id and K = C_qer_id])
      (simp_all add: pvalue_load_from_def pfcp_ie_types)
next
  case C_failed_rule_id
  with assms show ?thesis by simp
next
  case C_user_plane_ip_resource_information
  with assms show ?thesis by simp
next
  case (C_user_plane_inactivity_timer x)
  with assms show ?thesis
    by (intro lift_class [OF p_user_plane_inactivity_timer.pfcp_class_axioms [of "(mem_word junk' 0 4)"], where x = x and V = V_user_plane_inactivity_timer and K = C_user_plane_inactivity_timer])
      (simp_all add: pvalue_load_from_def pfcp_ie_types)
next
  case (C_qfi x)
  with assms show ?thesis
    by (intro lift_class [OF p_qfi.pfcp_class_axioms [of "(junk' 0)"], where x = x and V = V_qfi and K = C_qfi])
      (simp_all add: pvalue_load_from_def pfcp_ie_types)
next
  case C_user_id
  with assms show ?thesis by simp
qed

end
