(* ===== verification/Pfcp_Parse.thy ===== *)
theory Pfcp_Parse
  imports Pfcp_Values
begin

text \<open>
  Reading and writing of whole PFCP messages: the factory \<^verbatim>\<open>new_pfcp_ie_from_stream\<close>
  (\<^verbatim>\<open>pfcp/3gpp_29.244.cpp\<close>), \<^verbatim>\<open>pfcp_grouped_ie\<close> and \<^verbatim>\<open>pfcp_msg\<close> (\<^verbatim>\<open>pfcp/3gpp_29.244.hpp\<close>). The factory and
  the loop of a group call each other, so both take fuel, and \<open>None\<close> is running out of it; the
  theorems show that the fuel which the top-level definitions give is always enough.
\<close>

section \<open>Elements\<close>

datatype pfcp_ie =
    Pfcp_simple pfcp_tlv pfcp_value
  | Pfcp_group pfcp_tlv "pfcp_ie list"

primrec pfcp_ie_tlv :: "pfcp_ie \<Rightarrow> pfcp_tlv" where
  "pfcp_ie_tlv (Pfcp_simple t v) = t"
| "pfcp_ie_tlv (Pfcp_group t sies) = t"

abbreviation pfcp_ie_length :: "pfcp_ie \<Rightarrow> u16" where
  "pfcp_ie_length ie \<equiv> ptlv_length (pfcp_ie_tlv ie)"

text \<open>The types of the groups that the factory knows.\<close>

definition pfcp_group_types :: "u16 list" where
  "pfcp_group_types =
     [PFCP_IE_CREATE_PDR, PFCP_IE_PDI, PFCP_IE_CREATE_FAR, PFCP_IE_FORWARDING_PARAMETERS,
      PFCP_IE_DUPLICATING_PARAMETERS, PFCP_IE_CREATE_URR, PFCP_IE_CREATE_QER, PFCP_IE_CREATED_PDR,
      PFCP_IE_UPDATE_PDR, PFCP_IE_UPDATE_FAR, PFCP_IE_UPDATE_FORWARDING_PARAMETERS,
      PFCP_IE_UPDATE_BAR_WITHIN_PFCP_SESSION_REPORT_RESPONSE, PFCP_IE_UPDATE_URR, PFCP_IE_UPDATE_QER,
      PFCP_IE_REMOVE_PDR, PFCP_IE_REMOVE_FAR, PFCP_IE_REMOVE_URR, PFCP_IE_REMOVE_QER,
      PFCP_IE_DOWNLINK_DATA_REPORT]"

text \<open>\<^verbatim>\<open>pfcp_grouped_ie::add_ie\<close>, and a group with the members that its constructor adds one by one.\<close>

definition pfcp_grouped_add_ie :: "pfcp_ie \<Rightarrow> pfcp_tlv \<times> pfcp_ie list \<Rightarrow> pfcp_tlv \<times> pfcp_ie list" where
  "pfcp_grouped_add_ie ie g = (case g of (t, sies) \<Rightarrow>
     (add_length (pfcp_tlv_ie_length + pfcp_ie_length ie) t, sies @ [ie]))"

definition pfcp_group_new :: "u16 \<Rightarrow> pfcp_ie list \<Rightarrow> pfcp_ie" where
  "pfcp_group_new ty sies =
     (case foldl (\<lambda>g ie. pfcp_grouped_add_ie ie g) (pfcp_ie_new ty 0, []) sies of (t, l) \<Rightarrow> Pfcp_group t l)"

fun pfcp_ie_dump_to :: "(nat \<Rightarrow> u8) \<Rightarrow> pfcp_ie \<Rightarrow> (bytes \<times> pfcp_ie) pfcp_result"
and pfcp_ies_dump_to :: "(nat \<Rightarrow> u8) \<Rightarrow> pfcp_ie list \<Rightarrow> (bytes \<times> pfcp_ie list) pfcp_result" where
  "pfcp_ie_dump_to junk (Pfcp_simple t v) =
     rbind (pvalue_dump_to junk t v) (\<lambda>(bs, t', v'). Inr (bs, Pfcp_simple t' v'))"
| "pfcp_ie_dump_to junk (Pfcp_group t sies) =
     rbind (pfcp_ies_dump_to junk sies) (\<lambda>(bs, sies'). Inr (pfcp_tlv_dump_to t @ bs, Pfcp_group t sies'))"
| "pfcp_ies_dump_to junk [] = Inr ([], [])"
| "pfcp_ies_dump_to junk (ie # sies) =
     rbind (pfcp_ie_dump_to junk ie) (\<lambda>(bs, ie').
     rbind (pfcp_ies_dump_to junk sies) (\<lambda>(bs', sies'). Inr (bs @ bs', ie' # sies')))"

text \<open>
  \<^verbatim>\<open>new_pfcp_ie_from_stream\<close> (a null pointer is \<open>None\<close>) and the loop of \<^verbatim>\<open>pfcp_grouped_ie::load_from\<close>.
\<close>

fun pfcp_load_ie :: "(nat \<Rightarrow> u8) \<Rightarrow> nat \<Rightarrow> istream \<Rightarrow> (pfcp_ie option \<times> istream) pfcp_result option"
and pfcp_load_group :: "(nat \<Rightarrow> u8) \<Rightarrow> nat \<Rightarrow> pfcp_tlv \<Rightarrow> int \<Rightarrow> pfcp_ie list \<Rightarrow> istream
    \<Rightarrow> (pfcp_ie list \<times> istream) pfcp_result option" where
  "pfcp_load_ie junk 0 s = None"
| "pfcp_load_ie junk (Suc n) s =
     (case pfcp_tlv_load_from (pfcp_tlv_new 0 0 0) s of (t, s1) \<Rightarrow>
      if ptlv_length t \<noteq> 0 then
        (if ptlv_type t \<in> set pfcp_group_types then
           (case pfcp_load_group junk n t (int (unat (ptlv_length t))) [] s1 of
              None \<Rightarrow> None
            | Some (Inl e) \<Rightarrow> Some (Inl e)
            | Some (Inr (sies, s2)) \<Rightarrow> Some (Inr (Some (Pfcp_group t sies), s2)))
         else
           (case pvalue_load_from junk t s1 of
              None \<Rightarrow> Some (Inr (None, s1))
            | Some (Inl e) \<Rightarrow> Some (Inl e)
            | Some (Inr (v, s2)) \<Rightarrow> Some (Inr (Some (Pfcp_simple t v), s2))))
      else Some (Inr (None, s1)))"
| "pfcp_load_group junk 0 t remaining_size sies s = None"
| "pfcp_load_group junk (Suc n) t remaining_size sies s =
     (if remaining_size > 0 then
        (case pfcp_load_ie junk n s of
           None \<Rightarrow> None
         | Some (Inl e) \<Rightarrow> Some (Inl e)
         | Some (Inr (Some ie, s')) \<Rightarrow>
             pfcp_load_group junk n t (remaining_size - (int (unat (pfcp_ie_length ie)) + 4)) (sies @ [ie]) s'
         | Some (Inr (None, s')) \<Rightarrow> Some (bad_length t))
      else Some (Inr (sies, s)))"

definition new_pfcp_ie_from_stream ::
  "(nat \<Rightarrow> u8) \<Rightarrow> istream \<Rightarrow> (pfcp_ie option \<times> istream) pfcp_result option" where
  "new_pfcp_ie_from_stream junk s = pfcp_load_ie junk (2 * length (left s) + 1) s"

section \<open>Messages\<close>

definition pfcp_message_dump_to ::
  "(nat \<Rightarrow> u8) \<Rightarrow> pfcp_ie pfcp_msg \<Rightarrow> (bytes \<times> pfcp_ie pfcp_msg) pfcp_result" where
  "pfcp_message_dump_to junk m =
     (case pfcp_header_dump_to m of (h, m') \<Rightarrow>
      rbind (pfcp_ies_dump_to junk (pies m')) (\<lambda>(bs, sies'). Inr (h @ bs, m'\<lparr>pies := sies'\<rparr>)))"

fun pfcp_msg_loop ::
  "(nat \<Rightarrow> u8) \<Rightarrow> nat \<Rightarrow> u16 \<Rightarrow> u16 \<Rightarrow> pfcp_ie list \<Rightarrow> istream
     \<Rightarrow> (u16 \<times> pfcp_ie list \<times> istream) pfcp_result option" where
  "pfcp_msg_loop junk 0 check_length ies_length acc s = None"
| "pfcp_msg_loop junk (Suc n) check_length ies_length acc s =
     (case new_pfcp_ie_from_stream junk s of
        None \<Rightarrow> None
      | Some (Inl e) \<Rightarrow> Some (Inl e)
      | Some (Inr (None, s')) \<Rightarrow> Some (Inr (ies_length, acc, s'))
      | Some (Inr (Some ie, s')) \<Rightarrow>
          (let l = ies_length + (pfcp_tlv_ie_length + pfcp_ie_length ie) in
           if l < check_length then pfcp_msg_loop junk n check_length l (acc @ [ie]) s'
           else Some (Inr (l, acc @ [ie], s'))))"

definition pfcp_check_msg_length :: "'a pfcp_msg_header_scheme \<Rightarrow> u16" where
  "pfcp_check_msg_length h = pmessage_length h - 3 - 1 - (if has_seid h then 8 else 0)"

definition pfcp_message_load_from ::
  "(nat \<Rightarrow> u8) \<Rightarrow> pfcp_ie pfcp_msg \<Rightarrow> istream \<Rightarrow> (pfcp_ie pfcp_msg \<times> istream) pfcp_result option" where
  "pfcp_message_load_from junk m s =
     (case pfcp_header_load_from (fresh junk 3) m s of (m1, s1) \<Rightarrow>
      case pfcp_msg_loop junk (length (left s1) + 1) (pfcp_check_msg_length m1) 0 (pies m1) s1 of
        None \<Rightarrow> None
      | Some (Inl e) \<Rightarrow> Some (Inl e)
      | Some (Inr (l, acc, s2)) \<Rightarrow>
          (if l \<noteq> pfcp_check_msg_length m1
           then Some (Inl (Pmsg_bad_length (pmessage_type m1) (pmessage_length m1) l (pfcp_check_msg_length m1)))
           else Some (Inr (m1\<lparr>pies := acc\<rparr>, s2))))"

section \<open>Every load ends\<close>

lemma read_octets_left: "read_octets us s = (vs, s') \<Longrightarrow> length (left s') \<le> length (left s)"
  by (induction us s arbitrary: vs rule: read_octets.induct) (fastforce split: prod.splits dest!: read_left)+

lemma read_text_left: "read_text junk l s = (x, s') \<Longrightarrow> length (left s') \<le> length (left s)"
  by (auto simp: read_text_def split: prod.splits dest!: read_left is_read_left)

lemma read_digits_left: "read_digits m l v s = Inr (x, s') \<Longrightarrow> length (left s') \<le> length (left s)"
  by (auto simp: read_digits_def Let_def split: prod.splits if_splits dest!: read_left is_read_left)

text \<open>A read that depends on a flag.\<close>

lemma read_if_left:
  "read_if c (read_u8 old) d s = (x, s') \<Longrightarrow> length (left s') \<le> length (left s)"
  "read_if c (read_be n w) e s = (y, s') \<Longrightarrow> length (left s') \<le> length (left s)"
  "read_if c (read_raw n w) e s = (y, s') \<Longrightarrow> length (left s') \<le> length (left s)"
  "read_if c (is_read buf) f s = (z, s') \<Longrightarrow> length (left s') \<le> length (left s)"
  "read_if c (read_text junk l) g s = (q, s') \<Longrightarrow> length (left s') \<le> length (left s)"
  "read_if c (pfcp_ipv4_address_load_from a4) b4 s = (v4, s') \<Longrightarrow> length (left s') \<le> length (left s)"
  "read_if c (pfcp_ipv6_address_load_from a6) b6 s = (v6, s') \<Longrightarrow> length (left s') \<le> length (left s)"
  by (auto simp: read_if_def pfcp_address_defs split: if_splits dest: read_left is_read_left read_text_left)

lemma if_digits_left:
  "(if c then read_digits m l v s else Inr (d, s)) = Inr (x, s') \<Longrightarrow> length (left s') \<le> length (left s)"
  by (auto split: if_splits dest: read_digits_left)

lemmas pfcp_left_rules = read_left is_read_left read_octets_left read_text_left read_if_left

lemma pfcp_class_left:
  "pfcp_cause_load_from t cause_v s = Inr (cause_w, s') \<Longrightarrow> length (left s') \<le> length (left s)"
  "pfcp_source_interface_load_from t source_interface_v s = Inr (source_interface_w, s') \<Longrightarrow> length (left s') \<le> length (left s)"
  "pfcp_fteid_load_from t fteid_v s = Inr (fteid_w, s') \<Longrightarrow> length (left s') \<le> length (left s)"
  "pfcp_network_instance_load_from junk t s = Inr (network_instance_w, s') \<Longrightarrow> length (left s') \<le> length (left s)"
  "pfcp_sdf_filter_load_from junk t sdf_filter_v s = Inr (sdf_filter_w, s') \<Longrightarrow> length (left s') \<le> length (left s)"
  "pfcp_application_id_load_from junk t s = Inr (application_id_w, s') \<Longrightarrow> length (left s') \<le> length (left s)"
  "pfcp_gate_status_load_from t gate_status_v s = Inr (gate_status_w, s') \<Longrightarrow> length (left s') \<le> length (left s)"
  "pfcp_mbr_load_from t mbr_v s = Inr (mbr_w, s') \<Longrightarrow> length (left s') \<le> length (left s)"
  "pfcp_gbr_load_from t gbr_v s = Inr (gbr_w, s') \<Longrightarrow> length (left s') \<le> length (left s)"
  "pfcp_qer_correlation_id_load_from t qer_correlation_id_v s = Inr (qer_correlation_id_w, s') \<Longrightarrow> length (left s') \<le> length (left s)"
  "pfcp_precedence_load_from t precedence_v s = Inr (precedence_w, s') \<Longrightarrow> length (left s') \<le> length (left s)"
  "pfcp_transport_level_marking_load_from junk t s = Inr (transport_level_marking_w, s') \<Longrightarrow> length (left s') \<le> length (left s)"
  "pfcp_volume_threshold_load_from t volume_threshold_v s = Inr (volume_threshold_w, s') \<Longrightarrow> length (left s') \<le> length (left s)"
  "pfcp_time_threshold_load_from t time_threshold_v s = Inr (time_threshold_w, s') \<Longrightarrow> length (left s') \<le> length (left s)"
  "pfcp_monitoring_time_load_from t monitoring_time_v s = Inr (monitoring_time_w, s') \<Longrightarrow> length (left s') \<le> length (left s)"
  "pfcp_subsequent_volume_threshold_load_from t subsequent_volume_threshold_v s = Inr (subsequent_volume_threshold_w, s') \<Longrightarrow> length (left s') \<le> length (left s)"
  "pfcp_subsequent_time_threshold_load_from t subsequent_time_threshold_v s = Inr (subsequent_time_threshold_w, s') \<Longrightarrow> length (left s') \<le> length (left s)"
  "pfcp_inactivity_detection_time_load_from t inactivity_detection_time_v s = Inr (inactivity_detection_time_w, s') \<Longrightarrow> length (left s') \<le> length (left s)"
  "pfcp_reporting_triggers_load_from t reporting_triggers_v s = Inr (reporting_triggers_w, s') \<Longrightarrow> length (left s') \<le> length (left s)"
  "pfcp_report_type_load_from t report_type_v s = Inr (report_type_w, s') \<Longrightarrow> length (left s') \<le> length (left s)"
  "pfcp_offending_ie_load_from t offending_ie_v s = Inr (offending_ie_w, s') \<Longrightarrow> length (left s') \<le> length (left s)"
  "pfcp_forwarding_policy_load_from junk t forwarding_policy_v s = Inr (forwarding_policy_w, s') \<Longrightarrow> length (left s') \<le> length (left s)"
  "pfcp_destination_interface_load_from t destination_interface_v s = Inr (destination_interface_w, s') \<Longrightarrow> length (left s') \<le> length (left s)"
  "pfcp_up_function_features_load_from t up_function_features_v s = Inr (up_function_features_w, s') \<Longrightarrow> length (left s') \<le> length (left s)"
  "pfcp_apply_action_load_from t apply_action_v s = Inr (apply_action_w, s') \<Longrightarrow> length (left s') \<le> length (left s)"
  "pfcp_pdr_id_load_from t pdr_id_v s = Inr (pdr_id_w, s') \<Longrightarrow> length (left s') \<le> length (left s)"
  "pfcp_f_seid_load_from t f_seid_v s = Inr (f_seid_w, s') \<Longrightarrow> length (left s') \<le> length (left s)"
  "pfcp_node_id_load_from junk t node_id_v s = Inr (node_id_w, s') \<Longrightarrow> length (left s') \<le> length (left s)"
  "pfcp_urr_id_load_from t urr_id_v s = Inr (urr_id_w, s') \<Longrightarrow> length (left s') \<le> length (left s)"
  "pfcp_outer_header_creation_load_from t outer_header_creation_v s = Inr (outer_header_creation_w, s') \<Longrightarrow> length (left s') \<le> length (left s)"
  "pfcp_bar_id_load_from t bar_id_v s = Inr (bar_id_w, s') \<Longrightarrow> length (left s') \<le> length (left s)"
  "pfcp_cp_function_features_load_from t cp_function_features_v s = Inr (cp_function_features_w, s') \<Longrightarrow> length (left s') \<le> length (left s)"
  "pfcp_ue_ip_address_load_from t ue_ip_address_v s = Inr (ue_ip_address_w, s') \<Longrightarrow> length (left s') \<le> length (left s)"
  "pfcp_outer_header_removal_load_from t outer_header_removal_v s = Inr (outer_header_removal_w, s') \<Longrightarrow> length (left s') \<le> length (left s)"
  "pfcp_recovery_time_stamp_load_from t recovery_time_stamp_v s = Inr (recovery_time_stamp_w, s') \<Longrightarrow> length (left s') \<le> length (left s)"
  "pfcp_activate_predefined_rules_load_from junk t s = Inr (activate_predefined_rules_w, s') \<Longrightarrow> length (left s') \<le> length (left s)"
  "pfcp_deactivate_predefined_rules_load_from junk t s = Inr (deactivate_predefined_rules_w, s') \<Longrightarrow> length (left s') \<le> length (left s)"
  "pfcp_far_id_load_from t far_id_v s = Inr (far_id_w, s') \<Longrightarrow> length (left s') \<le> length (left s)"
  "pfcp_qer_id_load_from t qer_id_v s = Inr (qer_id_w, s') \<Longrightarrow> length (left s') \<le> length (left s)"
  "pfcp_failed_rule_id_load_from junk t failed_rule_id_v s = Inr (failed_rule_id_w, s') \<Longrightarrow> length (left s') \<le> length (left s)"
  "pfcp_user_plane_ip_resource_information_load_from t user_plane_ip_resource_information_v s = Inr (user_plane_ip_resource_information_w, s') \<Longrightarrow> length (left s') \<le> length (left s)"
  "pfcp_user_plane_inactivity_timer_load_from t user_plane_inactivity_timer_v s = Inr (user_plane_inactivity_timer_w, s') \<Longrightarrow> length (left s') \<le> length (left s)"
  "pfcp_qfi_load_from t qfi_v s = Inr (qfi_w, s') \<Longrightarrow> length (left s') \<le> length (left s)"
  by (auto simp: pfcp_cause_load_from_def pfcp_source_interface_load_from_def pfcp_fteid_load_from_def
      pfcp_network_instance_load_from_def pfcp_sdf_filter_load_from_def pfcp_application_id_load_from_def
      pfcp_gate_status_load_from_def pfcp_mbr_load_from_def pfcp_gbr_load_from_def
      pfcp_qer_correlation_id_load_from_def pfcp_precedence_load_from_def pfcp_transport_level_marking_load_from_def
      pfcp_volume_threshold_load_from_def pfcp_time_threshold_load_from_def pfcp_monitoring_time_load_from_def
      pfcp_subsequent_volume_threshold_load_from_def pfcp_subsequent_time_threshold_load_from_def
      pfcp_inactivity_detection_time_load_from_def pfcp_reporting_triggers_load_from_def
      pfcp_report_type_load_from_def pfcp_offending_ie_load_from_def pfcp_forwarding_policy_load_from_def
      pfcp_destination_interface_load_from_def pfcp_up_function_features_load_from_def
      pfcp_apply_action_load_from_def pfcp_pdr_id_load_from_def pfcp_f_seid_load_from_def pfcp_node_id_load_from_def
      pfcp_urr_id_load_from_def pfcp_outer_header_creation_load_from_def pfcp_bar_id_load_from_def
      pfcp_cp_function_features_load_from_def pfcp_ue_ip_address_load_from_def
      pfcp_outer_header_removal_load_from_def pfcp_recovery_time_stamp_load_from_def
      pfcp_activate_predefined_rules_load_from_def pfcp_deactivate_predefined_rules_load_from_def
      pfcp_far_id_load_from_def pfcp_qer_id_load_from_def pfcp_failed_rule_id_load_from_def
      pfcp_user_plane_ip_resource_information_load_from_def pfcp_user_plane_inactivity_timer_load_from_def
      pfcp_qfi_load_from_def
      Let_def pfcp_address_defs split: prod.splits if_splits option.splits sum.splits dest!: pfcp_left_rules)

lemma user_id_left: "pfcp_user_id_load_from junk t v s = Inr (w, s') \<Longrightarrow> length (left s') \<le> length (left s)"
  unfolding pfcp_user_id_load_from_def rbind_def
  by (cases "ptlv_length t \<noteq> 1")
    (auto split: prod.splits sum.splits simp del: if_split dest!: pfcp_left_rules if_digits_left)

lemma lift_pload_eq: "lift_pload C r = Inr (v, s') \<longleftrightarrow> (\<exists>x. r = Inr (x, s') \<and> v = C x)"
  by (auto simp: lift_pload_def rbind_Inr_iff)

lemma pvalue_load_left:
  "pvalue_load_from junk t s = Some (Inr (v, s')) \<Longrightarrow> length (left s') \<le> length (left s)"
  unfolding pvalue_load_from_def Let_def
  by (elim if_SomeE) (auto simp: lift_pload_eq dest: pfcp_class_left user_id_left)

lemma pfcp_tlv_left:
  assumes "pfcp_tlv_load_from (pfcp_tlv_new 0 0 0) s = (t, s1)" and "ptlv_length t \<noteq> 0"
  shows "length (left s1) < length (left s)"
proof (rule ccontr)
  assume n: "\<not> ?thesis"
  obtain ty s2 where r1: "read_be 2 (0 :: u16) s = (ty, s2)" by fastforce
  obtain l s3 where r2: "read_be 2 (0 :: u16) s2 = (l, s3)" by fastforce
  have l: "ptlv_length t = l" "length (left s1) \<le> length (left s3)"
    using assms(1) r1 r2 by (auto simp: pfcp_tlv_load_from_def pfcp_tlv_new_def split: if_splits prod.splits dest!: read_left)
  have "length (left s2) \<le> length (left s)" "length (left s3) \<le> length (left s2)"
    using r1 r2 by (auto dest: read_left)
  with n l have same: "length (left s2) = length (left s)" by simp
  have "\<not> good s2"
    using r1 same by (auto simp: read_be_def is_read_def mem_bytes_def split: if_splits)
  then have "l = 0" using r2 by (simp add: read_be_def is_read_def mem_bytes_def numeral_2_eq_2 word_of_be_def)
  with l(1) assms(2) show False by simp
qed

lemma pfcp_load_fuel:
  "(2 * length (left s) + 1 \<le> n \<longrightarrow> (\<exists>r. pfcp_load_ie junk n s = Some r
      \<and> (\<forall>ie s'. r = Inr (Some ie, s') \<longrightarrow> length (left s') < length (left s))))
   \<and> (2 * length (left s) + 2 \<le> n \<longrightarrow> (\<exists>r. pfcp_load_group junk n t k acc s = Some r
      \<and> (\<forall>x s'. r = Inr (x, s') \<longrightarrow> length (left s') \<le> length (left s))))"
proof (induction n arbitrary: s t k acc)
  case (Suc n)
  show ?case
  proof (intro conjI impI)
    assume fuel: "2 * length (left s) + 1 \<le> Suc n"
    obtain t1 s1 where t1: "pfcp_tlv_load_from (pfcp_tlv_new 0 0 0) s = (t1, s1)" by fastforce
    show "\<exists>r. pfcp_load_ie junk (Suc n) s = Some r
      \<and> (\<forall>ie s'. r = Inr (Some ie, s') \<longrightarrow> length (left s') < length (left s))"
    proof (cases "ptlv_length t1 = 0")
      case False
      then have lt: "length (left s1) < length (left s)" using pfcp_tlv_left [OF t1] by simp
      with fuel obtain r where "pfcp_load_group junk n t1 (int (unat (ptlv_length t1))) [] s1 = Some r"
        "\<forall>x s'. r = Inr (x, s') \<longrightarrow> length (left s') \<le> length (left s1)"
        using Suc.IH [of s1 t1 "int (unat (ptlv_length t1))" "[]"] by auto
      then show ?thesis using t1 False lt pvalue_load_left [of junk t1 s1]
        by (fastforce split: option.splits sum.splits)
    qed (use t1 in simp)
  next
    assume fuel: "2 * length (left s) + 2 \<le> Suc n"
    then obtain r where r: "pfcp_load_ie junk n s = Some r"
      "\<And>ie s'. r = Inr (Some ie, s') \<Longrightarrow> length (left s') < length (left s)"
      using Suc.IH [of s t k acc] by auto
    have grp: "\<exists>q. pfcp_load_group junk n t k' acc' s' = Some q
        \<and> (\<forall>x s''. q = Inr (x, s'') \<longrightarrow> length (left s'') \<le> length (left s'))"
      if "r = Inr (Some ie, s')" for ie s' k' acc' using Suc.IH [of s' t k' acc'] r(2) [OF that] fuel by auto
    show "\<exists>r. pfcp_load_group junk (Suc n) t k acc s = Some r
      \<and> (\<forall>x s'. r = Inr (x, s') \<longrightarrow> length (left s') \<le> length (left s))"
    proof (cases "k > 0 \<and> (\<exists>ie s'. r = Inr (Some ie, s'))")
      case True
      then obtain ie s' where ie: "r = Inr (Some ie, s')" by blast
      with grp [OF ie, of "k - (int (unat (pfcp_ie_length ie)) + 4)" "acc @ [ie]"] r True show ?thesis
        by (fastforce simp del: of_nat_unat)
    next
      case False
      then show ?thesis using r(1) by (auto split: sum.splits option.splits)
    qed
  qed
qed simp

lemma new_pfcp_ie_returns:
  "\<exists>r. new_pfcp_ie_from_stream junk s = Some r
    \<and> (\<forall>ie s'. r = Inr (Some ie, s') \<longrightarrow> length (left s') < length (left s))"
  using pfcp_load_fuel [of s "2 * length (left s) + 1" junk] by (auto simp: new_pfcp_ie_from_stream_def)

lemma pfcp_msg_loop_returns: "length (left s) < n \<Longrightarrow> \<exists>r. pfcp_msg_loop junk n c l acc s = Some r"
proof (induction n arbitrary: l acc s)
  case (Suc n)
  obtain r where r: "new_pfcp_ie_from_stream junk s = Some r"
    "\<And>ie s'. r = Inr (Some ie, s') \<Longrightarrow> length (left s') < length (left s)" using new_pfcp_ie_returns by blast
  show ?case
  proof (cases "\<exists>ie s'. r = Inr (Some ie, s')")
    case True
    then obtain ie s' where ie: "r = Inr (Some ie, s')" by blast
    with r(2) [OF ie] Suc.prems have "length (left s') < n" by simp
    with Suc.IH [OF this] r(1) ie show ?thesis by (simp add: Let_def)
  next
    case False
    then show ?thesis using r(1) by (auto split: sum.splits option.splits)
  qed
qed simp


section \<open>From core values to the wire and back\<close>

text \<open>
  The core values of an element and of the members of a group, nested as the constructors nest them;
  the elements made from them (the constructors of the classes); and the core values of an element
  that was loaded.
\<close>

datatype core_tree =
    Leaf core_value
  | Node u16 "core_tree list"

fun ie_of_tree :: "(nat \<Rightarrow> u8) \<Rightarrow> core_tree \<Rightarrow> pfcp_ie pfcp_result"
and ies_of_trees :: "(nat \<Rightarrow> u8) \<Rightarrow> core_tree list \<Rightarrow> pfcp_ie list pfcp_result" where
  "ie_of_tree junk (Leaf c) = rbind (value_of_core junk c) (\<lambda>(t, v). Inr (Pfcp_simple t v))"
| "ie_of_tree junk (Node ty cs) = rbind (ies_of_trees junk cs) (\<lambda>sies. Inr (pfcp_group_new ty sies))"
| "ies_of_trees junk [] = Inr []"
| "ies_of_trees junk (c # cs) =
     rbind (ie_of_tree junk c) (\<lambda>ie. rbind (ies_of_trees junk cs) (\<lambda>sies. Inr (ie # sies)))"

fun tree_of_ie :: "pfcp_ie \<Rightarrow> core_tree" where
  "tree_of_ie (Pfcp_simple t v) = Leaf (value_to_core v)"
| "tree_of_ie (Pfcp_group t sies) = Node (ptlv_type t) (map tree_of_ie sies)"

text \<open>The bytes an element takes, what survives the wire, and what arrives.\<close>

fun tree_size :: "(nat \<Rightarrow> u8) \<Rightarrow> core_tree \<Rightarrow> nat" where
  "tree_size junk (Leaf c) = 4 + (case value_of_core junk c of Inl _ \<Rightarrow> 0 | Inr (t, v) \<Rightarrow> unat (ptlv_length t))"
| "tree_size junk (Node ty cs) = 4 + sum_list (map (tree_size junk) cs)"

fun tree_ok :: "(nat \<Rightarrow> u8) \<Rightarrow> core_tree \<Rightarrow> bool" where
  "tree_ok junk (Leaf c) \<longleftrightarrow> core_value_ok c"
| "tree_ok junk (Node ty cs) \<longleftrightarrow> ty \<in> set pfcp_group_types \<and> cs \<noteq> [] \<and> list_all (tree_ok junk) cs
     \<and> sum_list (map (tree_size junk) cs) < 2 ^ 16"

fun tree_recv :: "(nat \<Rightarrow> u8) \<Rightarrow> core_tree \<Rightarrow> core_tree" where
  "tree_recv junk (Leaf c) = Leaf (core_value_recv junk c)"
| "tree_recv junk (Node ty cs) = Node ty (map (tree_recv junk) cs)"

text \<open>One element, and a list of them, on their way.\<close>

definition travels :: "(nat \<Rightarrow> u8) \<Rightarrow> (nat \<Rightarrow> u8) \<Rightarrow> core_tree \<Rightarrow> pfcp_ie \<Rightarrow> bytes \<Rightarrow> pfcp_ie \<Rightarrow> bool" where
  "travels junk junk' c ie bs ie' \<longleftrightarrow> ie_of_tree junk c = Inr ie \<and> pfcp_ie_dump_to junk ie = Inr (bs, ie)
     \<and> length bs = 4 + unat (pfcp_ie_length ie) \<and> length bs = tree_size junk c
     \<and> pfcp_ie_tlv ie' = pfcp_ie_tlv ie \<and> tree_of_ie ie' = tree_recv junk' c
     \<and> (\<forall>n r. 2 * length bs + 1 \<le> n \<longrightarrow>
          pfcp_load_ie junk' n (istream_of (bs @ r)) = Some (Inr (Some ie', istream_of r)))"

definition travel :: "(nat \<Rightarrow> u8) \<Rightarrow> (nat \<Rightarrow> u8) \<Rightarrow> core_tree list \<Rightarrow> pfcp_ie list \<Rightarrow> bytes \<Rightarrow> pfcp_ie list \<Rightarrow> bool" where
  "travel junk junk' cs sies bs sies' \<longleftrightarrow> ies_of_trees junk cs = Inr sies \<and> pfcp_ies_dump_to junk sies = Inr (bs, sies)
     \<and> length bs = sum_list (map (\<lambda>ie. 4 + unat (pfcp_ie_length ie)) sies) \<and> length bs = sum_list (map (tree_size junk) cs)
     \<and> map tree_of_ie sies' = map (tree_recv junk') cs \<and> map pfcp_ie_tlv sies' = map pfcp_ie_tlv sies
     \<and> (\<forall>n r t acc. 2 * length bs + 2 \<le> n \<longrightarrow>
          pfcp_load_group junk' n t (int (length bs)) acc (istream_of (bs @ r)) = Some (Inr (acc @ sies', istream_of r)))
     \<and> (\<forall>n c l acc. sies \<noteq> [] \<longrightarrow> length bs < n \<longrightarrow> unat c = unat l + length bs \<longrightarrow>
          pfcp_msg_loop junk' n c l acc (istream_of bs) = Some (Inr (c, acc @ sies', istream_of [])))"

lemma group_types_small: "ty \<in> set pfcp_group_types \<Longrightarrow> ptlv_type (pfcp_ie_new ty l) = ty"
  by (auto simp: pfcp_group_types_def pfcp_ie_new_def pfcp_tlv_new_def pfcp_ie_types)

lemma group_new_eq:
  "pfcp_group_new ty sies = Pfcp_group (pfcp_ie_new ty (of_nat (sum_list (map (\<lambda>ie. 4 + unat (pfcp_ie_length ie)) sies)))) sies"
proof -
  have "foldl (\<lambda>g ie. pfcp_grouped_add_ie ie g) (pfcp_ie_new ty l, acc) sies
      = (pfcp_ie_new ty (l + of_nat (sum_list (map (\<lambda>ie. 4 + unat (pfcp_ie_length ie)) sies))), acc @ sies)" for l acc
    by (induction sies arbitrary: l acc) (simp_all add: pfcp_grouped_add_ie_def pfcp_tlv_ie_length_def add_ac)
  from this [of 0 "[]"] show ?thesis by (simp add: pfcp_group_new_def)
qed

text \<open>The header of an element that a constructor made.\<close>

lemma core_value_types: "core_value_type c \<notin> set pfcp_group_types" "core_value_type c AND 0x8000 = 0"
  by (cases c; simp add: pfcp_group_types_def pfcp_ie_types)+

lemma new_header:
  assumes "ptlv_type (pfcp_ie_new ty l) = ty" and "ty AND 0x8000 = 0"
  shows "length (pfcp_tlv_dump_to (pfcp_ie_new ty l)) = 4"
    "pfcp_tlv_load_from (pfcp_tlv_new 0 0 0) (istream_of (pfcp_tlv_dump_to (pfcp_ie_new ty l) @ r))
       = (pfcp_ie_new ty l, istream_of r)"
  using assms ptlv.dec_enc [of "pfcp_ie_new ty l" "pfcp_tlv_new 0 0 0"]
  by (simp_all add: pfcp_tlv_dump_to_def) (simp add: pfcp_tlv_new_def)

lemma travels_leaf:
  assumes "core_value_ok c"
  shows "\<exists>ie bs ie'. travels junk junk' (Leaf c) ie bs ie'"
proof -
  from value_wire [OF assms, of junk junk'] obtain l v bs w where
    w: "value_of_core junk c = Inr (pfcp_ie_new (core_value_type c) l, v)"
      "pvalue_dump_to junk (pfcp_ie_new (core_value_type c) l) v
        = Inr (pfcp_tlv_dump_to (pfcp_ie_new (core_value_type c) l) @ bs, pfcp_ie_new (core_value_type c) l, v)"
      "length bs = unat l" "bs \<noteq> []"
      "\<And>r. pvalue_load_from junk' (pfcp_ie_new (core_value_type c) l) (istream_of (bs @ r)) = Some (Inr (w, istream_of r))"
      "value_to_core w = core_value_recv junk' c"
    unfolding carries_def by blast
  let ?t = "pfcp_ie_new (core_value_type c) l"
  note hd = new_header [OF pfcp_ie_new_type core_value_types(2), of c l]
  have "travels junk junk' (Leaf c) (Pfcp_simple ?t v) (pfcp_tlv_dump_to ?t @ bs) (Pfcp_simple ?t w)"
    unfolding travels_def
  proof (intro conjI allI impI)
    show "pfcp_load_ie junk' n (istream_of ((pfcp_tlv_dump_to ?t @ bs) @ r)) = Some (Inr (Some (Pfcp_simple ?t w), istream_of r))"
      if "2 * length (pfcp_tlv_dump_to ?t @ bs) + 1 \<le> n" for n r
    proof -
      have "l \<noteq> 0" using w(3,4) by auto
      then show ?thesis using that hd w(5) [of r] core_value_types [of c] pfcp_ie_new_type [of c l]
        by (cases n) simp_all
    qed
  qed (use w hd in simp_all)
  then show ?thesis by blast
qed

lemma travel_load:
  "travel junk junk' cs sies bs sies' \<Longrightarrow> 2 * length bs + 2 \<le> n \<Longrightarrow>
     pfcp_load_group junk' n t (int (length bs)) acc (istream_of (bs @ r)) = Some (Inr (acc @ sies', istream_of r))"
  unfolding travel_def by blast

lemma travel_loop:
  "travel junk junk' cs sies bs sies' \<Longrightarrow> sies \<noteq> [] \<Longrightarrow> length bs < n \<Longrightarrow> unat c = unat l + length bs \<Longrightarrow>
     pfcp_msg_loop junk' n c l acc (istream_of bs) = Some (Inr (c, acc @ sies', istream_of []))"
  unfolding travel_def by blast

lemma travel_Nil: "travel junk junk' [] [] [] []"
proof -
  have "pfcp_load_group junk' n t 0 acc (istream_of r) = Some (Inr (acc, istream_of r))" if "2 \<le> n" for n r t acc
    using that by (cases n) simp_all
  then show ?thesis by (simp add: travel_def)
qed

lemma travel_Cons_loop:
  assumes one: "travels junk junk' c ie b1 ie'" and rest: "travel junk junk' cs sies b2 sies'"
    and n: "length (b1 @ b2) < n" and c: "unat cl = unat l + length (b1 @ b2)"
  shows "pfcp_msg_loop junk' n cl l acc (istream_of (b1 @ b2)) = Some (Inr (cl, acc @ ie' # sies', istream_of []))"
proof -
  obtain m where m: "n = Suc m" using n by (cases n) auto
  have new: "new_pfcp_ie_from_stream junk' (istream_of (b1 @ b2)) = Some (Inr (Some ie', istream_of b2))"
    using one by (simp add: travels_def new_pfcp_ie_from_stream_def istream_of_def)
  have b1: "length b1 = 4 + unat (pfcp_ie_length ie')" using one by (simp add: travels_def)
  let ?l = "l + (pfcp_tlv_ie_length + pfcp_ie_length ie')"
  have "unat l + 4 + unat (pfcp_ie_length ie') < 2 ^ 16" using c b1 unat_u16 [of cl] by simp
  then have l: "unat ?l = unat l + 4 + unat (pfcp_ie_length ie')"
    by (simp add: pfcp_tlv_ie_length_def unat_word_ariths)
  show ?thesis
  proof (cases "sies = []")
    case True
    then have "b2 = []" "sies' = []" using rest by (simp_all add: travel_def)
    moreover from this have "?l = cl" using l c b1 by (simp add: word_unat_eq_iff)
    ultimately show ?thesis using new by (simp add: m Let_def)
  next
    case False
    then have "0 < length b2" using rest by (cases sies) (simp_all add: travel_def)
    then have "?l < cl" using l c b1 by (simp add: word_less_nat_alt)
    moreover have "pfcp_msg_loop junk' m cl ?l (acc @ [ie']) (istream_of b2) = Some (Inr (cl, acc @ ie' # sies', istream_of []))"
      using travel_loop [OF rest False, of m cl ?l "acc @ [ie']"] l c n m b1 by simp
    ultimately show ?thesis using new by (simp add: m Let_def)
  qed
qed

lemma travel_Cons:
  assumes one: "travels junk junk' c ie b1 ie'" and rest: "travel junk junk' cs sies b2 sies'"
  shows "travel junk junk' (c # cs) (ie # sies) (b1 @ b2) (ie' # sies')"
  unfolding travel_def
proof (intro conjI allI impI)
  show "pfcp_load_group junk' n t (int (length (b1 @ b2))) acc (istream_of ((b1 @ b2) @ r))
      = Some (Inr (acc @ ie' # sies', istream_of r))" if n: "2 * length (b1 @ b2) + 2 \<le> n" for n r t acc
  proof -
    obtain m where m: "n = Suc m" using n by (cases n) auto
    have len: "length b1 = 4 + unat (pfcp_ie_length ie')" using one by (simp add: travels_def)
    have "pfcp_load_ie junk' m (istream_of (b1 @ b2 @ r)) = Some (Inr (Some ie', istream_of (b2 @ r)))"
      using one n m by (simp add: travels_def)
    moreover have "pfcp_load_group junk' m t (int (length b2)) (acc @ [ie']) (istream_of (b2 @ r))
        = Some (Inr (acc @ ie' # sies', istream_of r))"
      using travel_load [OF rest, of m t "acc @ [ie']" r] n m len by simp
    ultimately show ?thesis unfolding m using len by (simp del: of_nat_unat)
  qed
  show "pfcp_msg_loop junk' n cl l acc (istream_of (b1 @ b2)) = Some (Inr (cl, acc @ ie' # sies', istream_of []))"
    if "length (b1 @ b2) < n" "unat cl = unat l + length (b1 @ b2)" for n cl l acc
    using travel_Cons_loop [OF one rest that] .
qed (use one rest in \<open>simp_all add: travels_def travel_def\<close>)

lemma travels_group:
  assumes ok: "ty \<in> set pfcp_group_types" "cs \<noteq> []" "sum_list (map (tree_size junk) cs) < 2 ^ 16"
    and members: "travel junk junk' cs sies bs sies'"
  shows "\<exists>ie bs ie'. travels junk junk' (Node ty cs) ie bs ie'"
proof -
  define t where "t = pfcp_ie_new ty (of_nat (length bs))"
  have len: "unat (of_nat (length bs) :: u16) = length bs"
    using ok(3) members by (simp add: travel_def unsigned_of_nat take_bit_nat_eq_self)
  have "4 \<le> tree_size junk c" for c by (cases c) simp_all
  then have pos: "0 < length bs" using ok(2) members by (cases cs) (auto simp: travel_def intro: less_le_trans)
  have small: "ty AND 0x8000 = 0" using ok(1) by (auto simp: pfcp_group_types_def pfcp_ie_types)
  note hd = new_header [OF group_types_small [OF ok(1)] small, of "of_nat (length bs)", folded t_def]
  have t: "ptlv_type t = ty" "ptlv_length t = of_nat (length bs)" "ptlv_length t \<noteq> 0"
    using group_types_small [OF ok(1)] len pos by (auto simp: t_def unat_eq_zero [symmetric] simp del: unat_eq_zero)
  have "travels junk junk' (Node ty cs) (Pfcp_group t sies) (pfcp_tlv_dump_to t @ bs) (Pfcp_group t sies')"
    unfolding travels_def
  proof (intro conjI allI impI)
    show "pfcp_load_ie junk' n (istream_of ((pfcp_tlv_dump_to t @ bs) @ r)) = Some (Inr (Some (Pfcp_group t sies'), istream_of r))"
      if n: "2 * length (pfcp_tlv_dump_to t @ bs) + 1 \<le> n" for n r
    proof -
      obtain m where m: "n = Suc m" using n by (cases n) auto
      have "pfcp_load_group junk' m t (int (length bs)) [] (istream_of (bs @ r)) = Some (Inr (sies', istream_of r))"
        using travel_load [OF members, of m t "[]" r] n m hd(1) by simp
      then show ?thesis unfolding m using hd(2) [of "bs @ r"] t ok(1) len by (simp del: of_nat_unat)
    qed
  qed (use members hd t len in \<open>simp_all add: travel_def group_new_eq t_def\<close>)
  then show ?thesis by blast
qed

lemma tree_travels: "tree_ok junk c \<Longrightarrow> \<exists>ie bs ie'. travels junk junk' c ie bs ie'"
proof (induction c)
  case (Leaf c)
  then show ?case by (simp add: travels_leaf)
next
  case (Node ty cs)
  have "\<exists>sies bs sies'. travel junk junk' ds sies bs sies'" if "set ds \<subseteq> set cs" for ds
    using that
  proof (induction ds)
    case (Cons d ds)
    with Node show ?case by (fastforce simp: list_all_iff intro: travel_Cons)
  qed (blast intro: travel_Nil)
  then obtain sies bs sies' where "travel junk junk' cs sies bs sies'" by blast
  with Node.prems show ?case by (auto intro: travels_group)
qed

section \<open>Messages of core values\<close>

text \<open>\<^verbatim>\<open>pfcp_msg(pfcp_ies)\<close>: the elements made from the core values, added one by one.\<close>

definition pfcp_msg_of_trees :: "(nat \<Rightarrow> u8) \<Rightarrow> u8 \<Rightarrow> core_tree list \<Rightarrow> pfcp_ie pfcp_msg pfcp_result" where
  "pfcp_msg_of_trees junk ty cs = rbind (ies_of_trees junk cs) (\<lambda>sies. Inr (pfcp_msg_of_ies pfcp_ie_length ty sies))"

text \<open>The message as the stack sends it: with a SEID or without, and with a sequence number.\<close>

definition addressed :: "u64 option \<Rightarrow> u32 \<Rightarrow> 'ie pfcp_msg \<Rightarrow> 'ie pfcp_msg" where
  "addressed so sn m = pfcp_set_sequence_number sn (case so of None \<Rightarrow> m | Some r \<Rightarrow> set_seid r m)"

lemma pfcp_msg_of_ies_fields:
  "pmessage_length (pfcp_msg_of_ies pfcp_ie_length ty sies) = of_nat (4 + sum_list (map (\<lambda>ie. 4 + unat (pfcp_ie_length ie)) sies))"
  "pies (pfcp_msg_of_ies pfcp_ie_length ty sies) = sies" "seid (pfcp_msg_of_ies pfcp_ie_length ty sies) = 0"
proof -
  have "pmessage_length (foldl (\<lambda>m ie. pfcp_add_ie pfcp_ie_length ie m) m sies)
        = pmessage_length m + of_nat (sum_list (map (\<lambda>ie. 4 + unat (pfcp_ie_length ie)) sies))
      \<and> pies (foldl (\<lambda>m ie. pfcp_add_ie pfcp_ie_length ie m) m sies) = pies m @ sies
      \<and> seid (foldl (\<lambda>m ie. pfcp_add_ie pfcp_ie_length ie m) m sies) = seid m" for m
    by (induction sies arbitrary: m) (simp_all add: pfcp_add_ie_def pfcp_tlv_ie_length_def add_ac)
  then show "pmessage_length (pfcp_msg_of_ies pfcp_ie_length ty sies)
        = of_nat (4 + sum_list (map (\<lambda>ie. 4 + unat (pfcp_ie_length ie)) sies))"
    "pies (pfcp_msg_of_ies pfcp_ie_length ty sies) = sies" "seid (pfcp_msg_of_ies pfcp_ie_length ty sies) = 0"
    by (simp_all add: pfcp_msg_of_ies_def pfcp_msg_default_def pfcp_msg_header_default_def pfcp_msg_header.defs)
qed

lemma addressed_fields:
  fixes ty :: u8 and sies :: "pfcp_ie list" and so :: "u64 option" and sn :: u32
  defines "m \<equiv> addressed so sn (pfcp_msg_of_ies pfcp_ie_length ty sies)"
  shows "pfcp_header_ok m" "has_seid m \<longleftrightarrow> so \<noteq> None" "seid m = (case so of None \<Rightarrow> 0 | Some r \<Rightarrow> r)"
    "pies m = sies" "pmessage_type m = ty" "psequence_number m = sn AND 0xFFFFFF"
    "pmessage_length m = of_nat (4 + (if so = None then 0 else 8) + sum_list (map (\<lambda>ie. 4 + unat (pfcp_ie_length ie)) sies))"
  by (cases so; simp add: m_def addressed_def pfcp_header_ok_def has_seid_def set_seid_def pfcp_set_sequence_number_def
      pfcp_msg_of_ies_header pfcp_msg_of_ies_fields set_bit_eq_or Let_def and.assoc)+

lemma new_pfcp_ie_end: "\<exists>s'. new_pfcp_ie_from_stream junk (istream_of []) = Some (Inr (None, s'))"
  by (simp add: new_pfcp_ie_from_stream_def pfcp_tlv_load_from_def pfcp_tlv_new_def read_be_def is_read_def istream_of_def
      mem_bytes_def numeral_2_eq_2 word_of_be_def)

text \<open>The header of a message around elements that can be written.\<close>

lemma message_head:
  fixes so :: "u64 option" and sn :: u32 and ty :: u8 and sies :: "pfcp_ie list" and junk' :: "nat \<Rightarrow> u8"
  defines "M \<equiv> addressed so sn (pfcp_msg_of_ies pfcp_ie_length ty sies)"
  assumes dump: "pfcp_ies_dump_to junk sies = Inr (b, sies)"
    and size: "length b = sum_list (map (\<lambda>ie. 4 + unat (pfcp_ie_length ie)) sies)" "length b < 65524"
  shows "\<exists>h. pfcp_message_dump_to junk M = Inr (h @ b, M)
    \<and> pfcp_header_load_from (fresh junk' 3) pfcp_msg_default (istream_of (h @ b)) = (M\<lparr>premote_port := 0, pies := []\<rparr>, istream_of b)
    \<and> unat (pfcp_check_msg_length (M\<lparr>premote_port := 0, pies := []\<rparr>)) = length b"
proof -
  note M = addressed_fields [where so = so and sn = sn and ty = ty and sies = sies, folded M_def]
  let ?h = "fst (pfcp_header_dump_to M)" and ?m1 = "M\<lparr>premote_port := 0, pies := []\<rparr>"
  have "pfcp_message_dump_to junk M = Inr (?h @ b, M)"
    using dump M(4) by (simp add: pfcp_message_dump_to_def pfcp_header_dump_ok [OF M(1)])
  moreover have fr: "fresh junk' 3 = [junk' 0, junk' 1, junk' 2]" by (simp add: fresh_def upt_rec numeral_2_eq_2)
  have "pfcp_header_load_from (fresh junk' 3) pfcp_msg_default (istream_of (?h @ b)) = (?m1, istream_of b)"
    unfolding fr pfcp_header_load_dump [OF M(1)]
    by (simp add: pfcp_msg_default_def pfcp_msg_header.defs pfcp_msg_header_default_def)
  moreover have "pfcp_check_msg_length ?m1 = of_nat (length b)"
    using M(2,7) size(1) by (auto simp: pfcp_check_msg_length_def has_seid_def)
  then have "unat (pfcp_check_msg_length ?m1) = length b"
    using size(2) by (simp add: unsigned_of_nat take_bit_nat_eq_self)
  ultimately show ?thesis by blast
qed

lemma pfcp_message_wire:
  assumes "list_all (tree_ok junk) cs" and "sum_list (map (tree_size junk) cs) < 65524"
  shows "\<exists>m bs m' s'. pfcp_msg_of_trees junk ty cs = Inr m
    \<and> pfcp_message_dump_to junk (addressed so sn m) = Inr (bs, addressed so sn m)
    \<and> pfcp_message_load_from junk' pfcp_msg_default (istream_of bs) = Some (Inr (m', s'))
    \<and> map tree_of_ie (pies m') = map (tree_recv junk') cs
    \<and> pmessage_type m' = ty \<and> psequence_number m' = sn AND 0xFFFFFF
    \<and> has_seid m' = (so \<noteq> None) \<and> seid m' = (case so of None \<Rightarrow> 0 | Some r \<Rightarrow> r)"
proof -
  have "\<exists>sies b sies'. travel junk junk' cs sies b sies'" using assms(1)
  proof (induction cs)
    case (Cons c cs)
    then show ?case using tree_travels [of junk c junk'] by (auto intro: travel_Cons)
  qed (blast intro: travel_Nil)
  then obtain sies b sies' where tr: "travel junk junk' cs sies b sies'" by blast
  have sz: "length b = sum_list (map (tree_size junk) cs)" "length b = sum_list (map (\<lambda>ie. 4 + unat (pfcp_ie_length ie)) sies)"
    and d: "pfcp_ies_dump_to junk sies = Inr (b, sies)" using tr unfolding travel_def by blast+
  define M where "M = addressed so sn (pfcp_msg_of_ies pfcp_ie_length ty sies)"
  note M = addressed_fields [where so = so and sn = sn and ty = ty and sies = sies, folded M_def]
  let ?m1 = "M\<lparr>premote_port := 0, pies := []\<rparr>"
  from message_head [OF d sz(2), of so sn ty junk', folded M_def] sz(1) assms(2) obtain h where
    h: "pfcp_message_dump_to junk M = Inr (h @ b, M)"
      "pfcp_header_load_from (fresh junk' 3) pfcp_msg_default (istream_of (h @ b)) = (?m1, istream_of b)"
      "unat (pfcp_check_msg_length ?m1) = length b"
    by auto
  have "\<exists>s'. pfcp_msg_loop junk' (length b + 1) (pfcp_check_msg_length ?m1) 0 [] (istream_of b)
      = Some (Inr (pfcp_check_msg_length ?m1, sies', s'))"
  proof (cases "sies = []")
    case True
    then have "b = []" "sies' = []" "pfcp_check_msg_length ?m1 = 0" using tr sz h(3) by (simp_all add: travel_def unat_eq_0)
    then show ?thesis using new_pfcp_ie_end [of junk'] by auto
  qed (use travel_loop [OF tr, of "length b + 1" "pfcp_check_msg_length ?m1" 0 "[]"] h(3) in auto)
  then obtain s' where "pfcp_message_load_from junk' pfcp_msg_default (istream_of (h @ b))
      = Some (Inr (M\<lparr>premote_port := 0, pies := sies'\<rparr>, s'))"
    unfolding pfcp_message_load_from_def h(2) prod.case by (auto simp: istream_of_def)
  then show ?thesis using h(1) tr M sz
    by (intro exI [of _ "pfcp_msg_of_ies pfcp_ie_length ty sies"] exI [of _ "h @ b"]
        exI [of _ "M\<lparr>premote_port := 0, pies := sies'\<rparr>"] exI [of _ s'])
      (simp add: pfcp_msg_of_trees_def travel_def M_def [symmetric] has_seid_def)
qed

end
