(* ===== verification/Pfcp_Containers.thy ===== *)
theory Pfcp_Containers
  imports Pfcp_Parse
begin

text \<open>
  The containers of PFCP (\<^verbatim>\<open>pfcp/msg_pfcp.hpp\<close>): what the applications fill and read, one class per
  group and per message, and their way to and from the elements. A member \<^verbatim>\<open>std::pair<bool, T>\<close> is an
  option, a vector a list. For each container: \<open>_empty\<close> is the constructor, \<open>_set\<close> the overloads of \<^verbatim>\<open>set\<close>
  and \<open>_get\<close> those of \<^verbatim>\<open>get\<close>, told apart by the type of the element whose core type they take, with the
  exception of the base class \<^verbatim>\<open>pfcp_ies_container\<close> where a container has no overload of its own;
  \<open>_members\<close> the elements that the constructor of the group or of the message makes of it, in order.
  The members of a container whose type no class of elements has (they are never set by a loaded message nor
  written to one) are left out.
\<close>

text \<open>\<^verbatim>\<open>if (b.x.first) add_ie(x)\<close>.\<close>

definition opt_list :: "('a \<Rightarrow> 'b) \<Rightarrow> 'a option \<Rightarrow> 'b list" where
  "opt_list f xo = (case xo of None \<Rightarrow> [] | Some v \<Rightarrow> [f v])"

lemma opt_list_simps [simp]: "opt_list f None = []" "opt_list f (Some v) = [f v]"
  by (simp_all add: opt_list_def)

section \<open>The groups\<close>

record pdi_c =
  pdi_source_interface :: "u8 option"
  pdi_local_fteid :: "fteid_t option"
  pdi_network_instance :: "bytes option"
  pdi_ue_ip_address :: "ue_ip_address_t option"
  pdi_sdf_filter :: "sdf_filter_t option"
  pdi_application_id :: "bytes option"
  pdi_qfi :: "u8 option"

definition pdi_empty :: pdi_c where
  "pdi_empty = \<lparr>pdi_source_interface = None, pdi_local_fteid = None, pdi_network_instance = None, pdi_ue_ip_address = None, pdi_sdf_filter = None, pdi_application_id = None, pdi_qfi = None\<rparr>"

record create_pdr_c =
  cpdr_pdr_id :: "u16 option"
  cpdr_precedence :: "u32 option"
  cpdr_pdi :: "pdi_c option"
  cpdr_outer_header_removal :: "u8 option"
  cpdr_far_id :: "u32 option"
  cpdr_urr_id :: "u32 option"
  cpdr_qer_id :: "u32 option"
  cpdr_activate_predefined_rules :: "bytes option"

definition cpdr_empty :: create_pdr_c where
  "cpdr_empty = \<lparr>cpdr_pdr_id = None, cpdr_precedence = None, cpdr_pdi = None, cpdr_outer_header_removal = None, cpdr_far_id = None, cpdr_urr_id = None, cpdr_qer_id = None, cpdr_activate_predefined_rules = None\<rparr>"

record update_forwarding_parameters_c =
  ufp_destination_interface :: "u8 option"
  ufp_network_instance :: "bytes option"
  ufp_outer_header_creation :: "outer_header_creation_t option"
  ufp_transport_level_marking :: "bytes option"
  ufp_forwarding_policy :: "forwarding_policy_t option"

definition ufp_empty :: update_forwarding_parameters_c where
  "ufp_empty = \<lparr>ufp_destination_interface = None, ufp_network_instance = None, ufp_outer_header_creation = None, ufp_transport_level_marking = None, ufp_forwarding_policy = None\<rparr>"

record forwarding_parameters_c =
  fwp_destination_interface :: "u8 option"
  fwp_network_instance :: "bytes option"
  fwp_outer_header_creation :: "outer_header_creation_t option"
  fwp_transport_level_marking :: "bytes option"
  fwp_forwarding_policy :: "forwarding_policy_t option"

definition fwp_empty :: forwarding_parameters_c where
  "fwp_empty = \<lparr>fwp_destination_interface = None, fwp_network_instance = None, fwp_outer_header_creation = None, fwp_transport_level_marking = None, fwp_forwarding_policy = None\<rparr>"

record duplicating_parameters_c =
  dup_destination_interface :: "u8 option"
  dup_outer_header_creation :: "outer_header_creation_t option"
  dup_transport_level_marking :: "bytes option"
  dup_forwarding_policy :: "forwarding_policy_t option"

definition dup_empty :: duplicating_parameters_c where
  "dup_empty = \<lparr>dup_destination_interface = None, dup_outer_header_creation = None, dup_transport_level_marking = None, dup_forwarding_policy = None\<rparr>"

record create_far_c =
  cfar_far_id :: "u32 option"
  cfar_apply_action :: "apply_action_t option"
  cfar_forwarding_parameters :: "forwarding_parameters_c option"
  cfar_duplicating_parameters :: "duplicating_parameters_c option"
  cfar_bar_id :: "u8 option"

definition cfar_empty :: create_far_c where
  "cfar_empty = \<lparr>cfar_far_id = None, cfar_apply_action = None, cfar_forwarding_parameters = None, cfar_duplicating_parameters = None, cfar_bar_id = None\<rparr>"

record create_urr_c =
  curr_urr_id :: "u32 option"
  curr_reporting_triggers :: "reporting_triggers_t option"
  curr_volume_threshold :: "volume_threshold_t option"
  curr_time_threshold :: "u32 option"
  curr_monitoring_time :: "u32 option"
  curr_subsequent_volume_threshold :: "subsequent_volume_threshold_t option"
  curr_subsequent_time_threshold :: "u32 option"
  curr_inactivity_detection_time :: "u32 option"
  curr_far_id_for_quota_action :: "u32 option"

definition curr_empty :: create_urr_c where
  "curr_empty = \<lparr>curr_urr_id = None, curr_reporting_triggers = None, curr_volume_threshold = None, curr_time_threshold = None, curr_monitoring_time = None, curr_subsequent_volume_threshold = None, curr_subsequent_time_threshold = None, curr_inactivity_detection_time = None, curr_far_id_for_quota_action = None\<rparr>"

record create_qer_c =
  cqer_qer_id :: "u32 option"
  cqer_qer_correlation_id :: "u32 option"
  cqer_gate_status :: "gate_status_t option"
  cqer_maximum_bitrate :: "mbr_t option"
  cqer_guaranteed_bitrate :: "gbr_t option"
  cqer_qos_flow_identifier :: "u8 option"

definition cqer_empty :: create_qer_c where
  "cqer_empty = \<lparr>cqer_qer_id = None, cqer_qer_correlation_id = None, cqer_gate_status = None, cqer_maximum_bitrate = None, cqer_guaranteed_bitrate = None, cqer_qos_flow_identifier = None\<rparr>"

record create_traffic_endpoint_c =
  cte_local_fteid :: "fteid_t option"
  cte_network_instance :: "bytes option"
  cte_ue_ip_address :: "ue_ip_address_t option"

definition cte_empty :: create_traffic_endpoint_c where
  "cte_empty = \<lparr>cte_local_fteid = None, cte_network_instance = None, cte_ue_ip_address = None\<rparr>"

record created_pdr_c =
  dpdr_pdr_id :: "u16 option"
  dpdr_local_fteid :: "fteid_t option"

definition dpdr_empty :: created_pdr_c where
  "dpdr_empty = \<lparr>dpdr_pdr_id = None, dpdr_local_fteid = None\<rparr>"

record update_pdr_c =
  updr_pdr_id :: u16
  updr_outer_header_removal :: "u8 option"
  updr_precedence :: "u32 option"
  updr_pdi :: "pdi_c option"
  updr_far_id :: "u32 option"
  updr_urr_id :: "u32 option"
  updr_qer_id :: "u32 option"
  updr_activate_predefined_rules :: "bytes list"
  updr_deactivate_predefined_rules :: "bytes list"

definition updr_empty :: update_pdr_c where
  "updr_empty = \<lparr>updr_pdr_id = 0, updr_outer_header_removal = None, updr_precedence = None, updr_pdi = None, updr_far_id = None, updr_urr_id = None, updr_qer_id = None, updr_activate_predefined_rules = [], updr_deactivate_predefined_rules = []\<rparr>"

record update_far_c =
  ufar_far_id :: u32
  ufar_apply_action :: "apply_action_t option"
  ufar_update_forwarding_parameters :: "update_forwarding_parameters_c option"
  ufar_bar_id :: "u8 option"

definition ufar_empty :: update_far_c where
  "ufar_empty = \<lparr>ufar_far_id = 0, ufar_apply_action = None, ufar_update_forwarding_parameters = None, ufar_bar_id = None\<rparr>"

record update_urr_c =
  uurr_urr_id :: "u32 option"
  uurr_reporting_triggers :: "reporting_triggers_t option"
  uurr_volume_threshold :: "volume_threshold_t option"
  uurr_time_threshold :: "u32 option"
  uurr_monitoring_time :: "u32 option"
  uurr_subsequent_volume_threshold :: "subsequent_volume_threshold_t option"
  uurr_subsequent_time_threshold :: "u32 option"
  uurr_inactivity_detection_time :: "u32 option"
  uurr_far_id_for_quota_action :: "u32 option"

definition uurr_empty :: update_urr_c where
  "uurr_empty = \<lparr>uurr_urr_id = None, uurr_reporting_triggers = None, uurr_volume_threshold = None, uurr_time_threshold = None, uurr_monitoring_time = None, uurr_subsequent_volume_threshold = None, uurr_subsequent_time_threshold = None, uurr_inactivity_detection_time = None, uurr_far_id_for_quota_action = None\<rparr>"

record update_qer_c =
  uqer_qer_id :: "u32 option"
  uqer_qer_correlation_id :: "u32 option"
  uqer_gate_status :: "gate_status_t option"
  uqer_maximum_bitrate :: "mbr_t option"
  uqer_guaranteed_bitrate :: "gbr_t option"
  uqer_qos_flow_identifier :: "u8 option"

definition uqer_empty :: update_qer_c where
  "uqer_empty = \<lparr>uqer_qer_id = None, uqer_qer_correlation_id = None, uqer_gate_status = None, uqer_maximum_bitrate = None, uqer_guaranteed_bitrate = None, uqer_qos_flow_identifier = None\<rparr>"

record remove_pdr_c =
  rpdr_pdr_id :: "u16 option"

definition rpdr_empty :: remove_pdr_c where
  "rpdr_empty = \<lparr>rpdr_pdr_id = None\<rparr>"

record remove_far_c =
  rfar_far_id :: "u32 option"

definition rfar_empty :: remove_far_c where
  "rfar_empty = \<lparr>rfar_far_id = None\<rparr>"

record remove_urr_c =
  rurr_urr_id :: "u32 option"

definition rurr_empty :: remove_urr_c where
  "rurr_empty = \<lparr>rurr_urr_id = None\<rparr>"

record remove_qer_c =
  rqer_qer_id :: "u32 option"

definition rqer_empty :: remove_qer_c where
  "rqer_empty = \<lparr>rqer_qer_id = None\<rparr>"

record downlink_data_report_c =
  ddr_pdr_id :: "u16 option"

definition ddr_empty :: downlink_data_report_c where
  "ddr_empty = \<lparr>ddr_pdr_id = None\<rparr>"

record update_bar_c =
  ubar_bar_id :: "u8 option"

definition ubar_empty :: update_bar_c where
  "ubar_empty = \<lparr>ubar_bar_id = None\<rparr>"

section \<open>The messages\<close>

record heartbeat_request_c =
  hbq_recovery_time_stamp :: "u32 option"

definition hbq_empty :: heartbeat_request_c where
  "hbq_empty = \<lparr>hbq_recovery_time_stamp = None\<rparr>"

record heartbeat_response_c =
  hbp_recovery_time_stamp :: "u32 option"

definition hbp_empty :: heartbeat_response_c where
  "hbp_empty = \<lparr>hbp_recovery_time_stamp = None\<rparr>"

record association_setup_request_c =
  asq_node_id :: "node_id_t option"
  asq_recovery_time_stamp :: "u32 option"
  asq_up_function_features :: "up_function_features_t option"
  asq_cp_function_features :: "cp_function_features_t option"
  asq_user_plane_ip_resource_information :: "up_ip_resource_t option"

definition asq_empty :: association_setup_request_c where
  "asq_empty = \<lparr>asq_node_id = None, asq_recovery_time_stamp = None, asq_up_function_features = None, asq_cp_function_features = None, asq_user_plane_ip_resource_information = None\<rparr>"

record association_setup_response_c =
  asp_node_id :: "node_id_t option"
  asp_cause :: "u8 option"
  asp_recovery_time_stamp :: "u32 option"
  asp_up_function_features :: "up_function_features_t option"
  asp_cp_function_features :: "cp_function_features_t option"
  asp_user_plane_ip_resource_information :: "up_ip_resource_t option"

definition asp_empty :: association_setup_response_c where
  "asp_empty = \<lparr>asp_node_id = None, asp_cause = None, asp_recovery_time_stamp = None, asp_up_function_features = None, asp_cp_function_features = None, asp_user_plane_ip_resource_information = None\<rparr>"

record association_release_request_c =
  arq_node_id :: "node_id_t option"

definition arq_empty :: association_release_request_c where
  "arq_empty = \<lparr>arq_node_id = None\<rparr>"

record association_release_response_c =
  arp_node_id :: "node_id_t option"
  arp_cause :: "u8 option"

definition arp_empty :: association_release_response_c where
  "arp_empty = \<lparr>arp_node_id = None, arp_cause = None\<rparr>"

record node_report_request_c =
  nrq_node_id :: "node_id_t option"
  nrq_node_report_type :: "bool option"

definition nrq_empty :: node_report_request_c where
  "nrq_empty = \<lparr>nrq_node_id = None, nrq_node_report_type = None\<rparr>"

record session_establishment_request_c =
  seq_node_id :: "node_id_t option"
  seq_cp_fseid :: "fseid_t option"
  seq_create_pdrs :: "create_pdr_c list"
  seq_create_fars :: "create_far_c list"
  seq_create_urrs :: "create_urr_c list"
  seq_create_qers :: "create_qer_c list"
  seq_create_traffic_endpoint :: "create_traffic_endpoint_c option"
  seq_user_plane_inactivity_timer :: "u32 option"
  seq_user_id :: "user_id_t option"

definition seq_empty :: session_establishment_request_c where
  "seq_empty = \<lparr>seq_node_id = None, seq_cp_fseid = None, seq_create_pdrs = [], seq_create_fars = [], seq_create_urrs = [], seq_create_qers = [], seq_create_traffic_endpoint = None, seq_user_plane_inactivity_timer = None, seq_user_id = None\<rparr>"

record session_establishment_response_c =
  sep_node_id :: "node_id_t option"
  sep_cause :: "u8 option"
  sep_offending_ie :: "u16 option"
  sep_up_fseid :: "fseid_t option"
  sep_created_pdrs :: "created_pdr_c list"
  sep_failed_rule_id :: "failed_rule_id_t option"

definition sep_empty :: session_establishment_response_c where
  "sep_empty = \<lparr>sep_node_id = None, sep_cause = None, sep_offending_ie = None, sep_up_fseid = None, sep_created_pdrs = [], sep_failed_rule_id = None\<rparr>"

record session_modification_request_c =
  smq_cp_fseid :: "fseid_t option"
  smq_remove_pdrs :: "remove_pdr_c list"
  smq_remove_fars :: "remove_far_c list"
  smq_remove_urrs :: "remove_urr_c list"
  smq_remove_qers :: "remove_qer_c list"
  smq_create_pdrs :: "create_pdr_c list"
  smq_create_fars :: "create_far_c list"
  smq_create_urrs :: "create_urr_c list"
  smq_create_qers :: "create_qer_c list"
  smq_create_traffic_endpoint :: "create_traffic_endpoint_c option"
  smq_update_pdrs :: "update_pdr_c list"
  smq_update_fars :: "update_far_c list"
  smq_update_urrs :: "update_urr_c list"
  smq_update_qers :: "update_qer_c list"
  smq_user_plane_inactivity_timer :: "u32 option"

definition smq_empty :: session_modification_request_c where
  "smq_empty = \<lparr>smq_cp_fseid = None, smq_remove_pdrs = [], smq_remove_fars = [], smq_remove_urrs = [], smq_remove_qers = [], smq_create_pdrs = [], smq_create_fars = [], smq_create_urrs = [], smq_create_qers = [], smq_create_traffic_endpoint = None, smq_update_pdrs = [], smq_update_fars = [], smq_update_urrs = [], smq_update_qers = [], smq_user_plane_inactivity_timer = None\<rparr>"

record session_modification_response_c =
  smp_cause :: "u8 option"
  smp_offending_ie :: "u16 option"
  smp_created_pdrs :: "created_pdr_c list"
  smp_failed_rule_id :: "failed_rule_id_t option"

definition smp_empty :: session_modification_response_c where
  "smp_empty = \<lparr>smp_cause = None, smp_offending_ie = None, smp_created_pdrs = [], smp_failed_rule_id = None\<rparr>"

record session_deletion_response_c =
  sdp_cause :: "u8 option"
  sdp_offending_ie :: "u16 option"

definition sdp_empty :: session_deletion_response_c where
  "sdp_empty = \<lparr>sdp_cause = None, sdp_offending_ie = None\<rparr>"

record session_report_request_c =
  srq_report_type :: "report_type_t option"
  srq_downlink_data_report :: "downlink_data_report_c option"

definition srq_empty :: session_report_request_c where
  "srq_empty = \<lparr>srq_report_type = None, srq_downlink_data_report = None\<rparr>"

record session_report_response_c =
  srp_cause :: "u8 option"
  srp_offending_ie :: "u16 option"
  srp_update_bar :: "update_bar_c option"

definition srp_empty :: session_report_response_c where
  "srp_empty = \<lparr>srp_cause = None, srp_offending_ie = None, srp_update_bar = None\<rparr>"

section \<open>What a container is given\<close>

datatype (plugins only: code) core_group =
    G_pdi pdi_c
  | G_create_pdr create_pdr_c
  | G_update_forwarding_parameters update_forwarding_parameters_c
  | G_forwarding_parameters forwarding_parameters_c
  | G_duplicating_parameters duplicating_parameters_c
  | G_create_far create_far_c
  | G_create_urr create_urr_c
  | G_create_qer create_qer_c
  | G_create_traffic_endpoint create_traffic_endpoint_c
  | G_created_pdr created_pdr_c
  | G_update_pdr update_pdr_c
  | G_update_far update_far_c
  | G_update_urr update_urr_c
  | G_update_qer update_qer_c
  | G_remove_pdr remove_pdr_c
  | G_remove_far remove_far_c
  | G_remove_urr remove_urr_c
  | G_remove_qer remove_qer_c
  | G_downlink_data_report downlink_data_report_c
  | G_update_bar_within_pfcp_session_report_response update_bar_c

datatype core_ie =
    Cval core_value
  | Cgrp core_group

primrec core_group_type :: "core_group \<Rightarrow> u16" where
  "core_group_type (G_pdi v) = PFCP_IE_PDI"
| "core_group_type (G_create_pdr v) = PFCP_IE_CREATE_PDR"
| "core_group_type (G_update_forwarding_parameters v) = PFCP_IE_UPDATE_FORWARDING_PARAMETERS"
| "core_group_type (G_forwarding_parameters v) = PFCP_IE_FORWARDING_PARAMETERS"
| "core_group_type (G_duplicating_parameters v) = PFCP_IE_DUPLICATING_PARAMETERS"
| "core_group_type (G_create_far v) = PFCP_IE_CREATE_FAR"
| "core_group_type (G_create_urr v) = PFCP_IE_CREATE_URR"
| "core_group_type (G_create_qer v) = PFCP_IE_CREATE_QER"
| "core_group_type (G_create_traffic_endpoint v) = PFCP_IE_CREATE_TRAFFIC_ENDPOINT"
| "core_group_type (G_created_pdr v) = PFCP_IE_CREATED_PDR"
| "core_group_type (G_update_pdr v) = PFCP_IE_UPDATE_PDR"
| "core_group_type (G_update_far v) = PFCP_IE_UPDATE_FAR"
| "core_group_type (G_update_urr v) = PFCP_IE_UPDATE_URR"
| "core_group_type (G_update_qer v) = PFCP_IE_UPDATE_QER"
| "core_group_type (G_remove_pdr v) = PFCP_IE_REMOVE_PDR"
| "core_group_type (G_remove_far v) = PFCP_IE_REMOVE_FAR"
| "core_group_type (G_remove_urr v) = PFCP_IE_REMOVE_URR"
| "core_group_type (G_remove_qer v) = PFCP_IE_REMOVE_QER"
| "core_group_type (G_downlink_data_report v) = PFCP_IE_DOWNLINK_DATA_REPORT"
| "core_group_type (G_update_bar_within_pfcp_session_report_response v) = PFCP_IE_UPDATE_BAR_WITHIN_PFCP_SESSION_REPORT_RESPONSE"

primrec core_type :: "core_ie \<Rightarrow> u16" where
  "core_type (Cval c) = core_value_type c"
| "core_type (Cgrp g) = core_group_type g"

section \<open>Set and get\<close>

definition pdi_set :: "core_ie \<Rightarrow> pdi_c \<Rightarrow> pdi_c pfcp_result" where
  "pdi_set e x = (case e of
       Cval (C_source_interface v) \<Rightarrow> Inr (x\<lparr>pdi_source_interface := Some v\<rparr>)
     | Cval (C_fteid v) \<Rightarrow> Inr (x\<lparr>pdi_local_fteid := Some v\<rparr>)
     | Cval (C_network_instance v) \<Rightarrow> Inr (x\<lparr>pdi_network_instance := Some v\<rparr>)
     | Cval (C_ue_ip_address v) \<Rightarrow> Inr (x\<lparr>pdi_ue_ip_address := Some v\<rparr>)
     | Cval (C_sdf_filter v) \<Rightarrow> Inr (x\<lparr>pdi_sdf_filter := Some v\<rparr>)
     | Cval (C_application_id v) \<Rightarrow> Inr (x\<lparr>pdi_application_id := Some v\<rparr>)
     | Cval (C_qfi v) \<Rightarrow> Inr (x\<lparr>pdi_qfi := Some v\<rparr>)
     | _ \<Rightarrow> Inl (Pmsg_illegal_ie 0 (core_type e)))"

definition pdi_get :: "u16 \<Rightarrow> pdi_c \<Rightarrow> core_ie option pfcp_result" where
  "pdi_get k x =
     (if k = PFCP_IE_SOURCE_INTERFACE then Inr (map_option (\<lambda>v. Cval (C_source_interface v)) (pdi_source_interface x))
      else if k = PFCP_IE_F_TEID then Inr (map_option (\<lambda>v. Cval (C_fteid v)) (pdi_local_fteid x))
      else if k = PFCP_IE_NETWORK_INSTANCE then Inr (map_option (\<lambda>v. Cval (C_network_instance v)) (pdi_network_instance x))
      else if k = PFCP_IE_UE_IP_ADDRESS then Inr (map_option (\<lambda>v. Cval (C_ue_ip_address v)) (pdi_ue_ip_address x))
      else if k = PFCP_IE_SDF_FILTER then Inr (map_option (\<lambda>v. Cval (C_sdf_filter v)) (pdi_sdf_filter x))
      else if k = PFCP_IE_APPLICATION_ID then Inr (map_option (\<lambda>v. Cval (C_application_id v)) (pdi_application_id x))
      else if k = PFCP_IE_QFI then Inr (map_option (\<lambda>v. Cval (C_qfi v)) (pdi_qfi x))
      else Inl (Pmsg_illegal_ie 0 k))"

definition cpdr_set :: "core_ie \<Rightarrow> create_pdr_c \<Rightarrow> create_pdr_c pfcp_result" where
  "cpdr_set e x = (case e of
       Cval (C_pdr_id v) \<Rightarrow> Inr (x\<lparr>cpdr_pdr_id := Some v\<rparr>)
     | Cval (C_precedence v) \<Rightarrow> Inr (x\<lparr>cpdr_precedence := Some v\<rparr>)
     | Cgrp (G_pdi v) \<Rightarrow> Inr (x\<lparr>cpdr_pdi := Some v\<rparr>)
     | Cval (C_outer_header_removal v) \<Rightarrow> Inr (x\<lparr>cpdr_outer_header_removal := Some v\<rparr>)
     | Cval (C_far_id v) \<Rightarrow> Inr (x\<lparr>cpdr_far_id := Some v\<rparr>)
     | Cval (C_urr_id v) \<Rightarrow> Inr (x\<lparr>cpdr_urr_id := Some v\<rparr>)
     | Cval (C_qer_id v) \<Rightarrow> Inr (x\<lparr>cpdr_qer_id := Some v\<rparr>)
     | Cval (C_activate_predefined_rules v) \<Rightarrow> Inr (x\<lparr>cpdr_activate_predefined_rules := Some v\<rparr>)
     | _ \<Rightarrow> Inl (Pmsg_illegal_ie 0 (core_type e)))"

definition cpdr_get :: "u16 \<Rightarrow> create_pdr_c \<Rightarrow> core_ie option pfcp_result" where
  "cpdr_get k x =
     (if k = PFCP_IE_PACKET_DETECTION_RULE_ID then Inr (map_option (\<lambda>v. Cval (C_pdr_id v)) (cpdr_pdr_id x))
      else if k = PFCP_IE_PRECEDENCE then Inr (map_option (\<lambda>v. Cval (C_precedence v)) (cpdr_precedence x))
      else if k = PFCP_IE_PDI then Inr (map_option (\<lambda>v. Cgrp (G_pdi v)) (cpdr_pdi x))
      else if k = PFCP_IE_OUTER_HEADER_REMOVAL then Inr (map_option (\<lambda>v. Cval (C_outer_header_removal v)) (cpdr_outer_header_removal x))
      else if k = PFCP_IE_FAR_ID then Inr (map_option (\<lambda>v. Cval (C_far_id v)) (cpdr_far_id x))
      else if k = PFCP_IE_URR_ID then Inr (map_option (\<lambda>v. Cval (C_urr_id v)) (cpdr_urr_id x))
      else if k = PFCP_IE_QER_ID then Inr (map_option (\<lambda>v. Cval (C_qer_id v)) (cpdr_qer_id x))
      else if k = PFCP_IE_ACTIVATE_PREDEFINED_RULES then Inr (map_option (\<lambda>v. Cval (C_activate_predefined_rules v)) (cpdr_activate_predefined_rules x))
      else Inl (Pmsg_illegal_ie 0 k))"

definition ufp_set :: "core_ie \<Rightarrow> update_forwarding_parameters_c \<Rightarrow> update_forwarding_parameters_c pfcp_result" where
  "ufp_set e x = (case e of
       Cval (C_destination_interface v) \<Rightarrow> Inr (x\<lparr>ufp_destination_interface := Some v\<rparr>)
     | Cval (C_network_instance v) \<Rightarrow> Inr (x\<lparr>ufp_network_instance := Some v\<rparr>)
     | Cval (C_outer_header_creation v) \<Rightarrow> Inr (x\<lparr>ufp_outer_header_creation := Some v\<rparr>)
     | Cval (C_transport_level_marking v) \<Rightarrow> Inr (x\<lparr>ufp_transport_level_marking := Some v\<rparr>)
     | Cval (C_forwarding_policy v) \<Rightarrow> Inr (x\<lparr>ufp_forwarding_policy := Some v\<rparr>)
     | _ \<Rightarrow> Inl (Pmsg_illegal_ie 0 (core_type e)))"

definition ufp_get :: "u16 \<Rightarrow> update_forwarding_parameters_c \<Rightarrow> core_ie option pfcp_result" where
  "ufp_get k x =
     (if k = PFCP_IE_DESTINATION_INTERFACE then Inr (map_option (\<lambda>v. Cval (C_destination_interface v)) (ufp_destination_interface x))
      else if k = PFCP_IE_NETWORK_INSTANCE then Inr (map_option (\<lambda>v. Cval (C_network_instance v)) (ufp_network_instance x))
      else if k = PFCP_IE_OUTER_HEADER_CREATION then Inr (map_option (\<lambda>v. Cval (C_outer_header_creation v)) (ufp_outer_header_creation x))
      else if k = PFCP_IE_TRANSPORT_LEVEL_MARKING then Inr (map_option (\<lambda>v. Cval (C_transport_level_marking v)) (ufp_transport_level_marking x))
      else if k = PFCP_IE_FORWARDING_POLICY then Inr (map_option (\<lambda>v. Cval (C_forwarding_policy v)) (ufp_forwarding_policy x))
      else Inl (Pmsg_illegal_ie 0 k))"

definition fwp_set :: "core_ie \<Rightarrow> forwarding_parameters_c \<Rightarrow> forwarding_parameters_c pfcp_result" where
  "fwp_set e x = (case e of
       Cval (C_destination_interface v) \<Rightarrow> Inr (x\<lparr>fwp_destination_interface := Some v\<rparr>)
     | Cval (C_network_instance v) \<Rightarrow> Inr (x\<lparr>fwp_network_instance := Some v\<rparr>)
     | Cval (C_outer_header_creation v) \<Rightarrow> Inr (x\<lparr>fwp_outer_header_creation := Some v\<rparr>)
     | Cval (C_transport_level_marking v) \<Rightarrow> Inr (x\<lparr>fwp_transport_level_marking := Some v\<rparr>)
     | Cval (C_forwarding_policy v) \<Rightarrow> Inr (x\<lparr>fwp_forwarding_policy := Some v\<rparr>)
     | _ \<Rightarrow> Inl (Pmsg_illegal_ie 0 (core_type e)))"

definition fwp_get :: "u16 \<Rightarrow> forwarding_parameters_c \<Rightarrow> core_ie option pfcp_result" where
  "fwp_get k x =
     (if k = PFCP_IE_DESTINATION_INTERFACE then Inr (map_option (\<lambda>v. Cval (C_destination_interface v)) (fwp_destination_interface x))
      else if k = PFCP_IE_NETWORK_INSTANCE then Inr (map_option (\<lambda>v. Cval (C_network_instance v)) (fwp_network_instance x))
      else if k = PFCP_IE_OUTER_HEADER_CREATION then Inr (map_option (\<lambda>v. Cval (C_outer_header_creation v)) (fwp_outer_header_creation x))
      else if k = PFCP_IE_TRANSPORT_LEVEL_MARKING then Inr (map_option (\<lambda>v. Cval (C_transport_level_marking v)) (fwp_transport_level_marking x))
      else if k = PFCP_IE_FORWARDING_POLICY then Inr (map_option (\<lambda>v. Cval (C_forwarding_policy v)) (fwp_forwarding_policy x))
      else Inl (Pmsg_illegal_ie 0 k))"

definition dup_set :: "core_ie \<Rightarrow> duplicating_parameters_c \<Rightarrow> duplicating_parameters_c pfcp_result" where
  "dup_set e x = (case e of
       Cval (C_destination_interface v) \<Rightarrow> Inr (x\<lparr>dup_destination_interface := Some v\<rparr>)
     | Cval (C_outer_header_creation v) \<Rightarrow> Inr (x\<lparr>dup_outer_header_creation := Some v\<rparr>)
     | Cval (C_transport_level_marking v) \<Rightarrow> Inr (x\<lparr>dup_transport_level_marking := Some v\<rparr>)
     | Cval (C_forwarding_policy v) \<Rightarrow> Inr (x\<lparr>dup_forwarding_policy := Some v\<rparr>)
     | _ \<Rightarrow> Inl (Pmsg_illegal_ie 0 (core_type e)))"

definition dup_get :: "u16 \<Rightarrow> duplicating_parameters_c \<Rightarrow> core_ie option pfcp_result" where
  "dup_get k x =
     (if k = PFCP_IE_DESTINATION_INTERFACE then Inr (map_option (\<lambda>v. Cval (C_destination_interface v)) (dup_destination_interface x))
      else if k = PFCP_IE_OUTER_HEADER_CREATION then Inr (map_option (\<lambda>v. Cval (C_outer_header_creation v)) (dup_outer_header_creation x))
      else if k = PFCP_IE_TRANSPORT_LEVEL_MARKING then Inr (map_option (\<lambda>v. Cval (C_transport_level_marking v)) (dup_transport_level_marking x))
      else if k = PFCP_IE_FORWARDING_POLICY then Inr (map_option (\<lambda>v. Cval (C_forwarding_policy v)) (dup_forwarding_policy x))
      else Inl (Pmsg_illegal_ie 0 k))"

definition cfar_set :: "core_ie \<Rightarrow> create_far_c \<Rightarrow> create_far_c pfcp_result" where
  "cfar_set e x = (case e of
       Cval (C_far_id v) \<Rightarrow> Inr (x\<lparr>cfar_far_id := Some v\<rparr>)
     | Cval (C_apply_action v) \<Rightarrow> Inr (x\<lparr>cfar_apply_action := Some v\<rparr>)
     | Cgrp (G_forwarding_parameters v) \<Rightarrow> Inr (x\<lparr>cfar_forwarding_parameters := Some v\<rparr>)
     | Cgrp (G_duplicating_parameters v) \<Rightarrow> Inr (x\<lparr>cfar_duplicating_parameters := Some v\<rparr>)
     | Cval (C_bar_id v) \<Rightarrow> Inr (x\<lparr>cfar_bar_id := Some v\<rparr>)
     | _ \<Rightarrow> Inl (Pmsg_illegal_ie 0 (core_type e)))"

definition cfar_get :: "u16 \<Rightarrow> create_far_c \<Rightarrow> core_ie option pfcp_result" where
  "cfar_get k x =
     (if k = PFCP_IE_FAR_ID then Inr (map_option (\<lambda>v. Cval (C_far_id v)) (cfar_far_id x))
      else if k = PFCP_IE_APPLY_ACTION then Inr (map_option (\<lambda>v. Cval (C_apply_action v)) (cfar_apply_action x))
      else if k = PFCP_IE_FORWARDING_PARAMETERS then Inr (map_option (\<lambda>v. Cgrp (G_forwarding_parameters v)) (cfar_forwarding_parameters x))
      else if k = PFCP_IE_DUPLICATING_PARAMETERS then Inr (map_option (\<lambda>v. Cgrp (G_duplicating_parameters v)) (cfar_duplicating_parameters x))
      else if k = PFCP_IE_BAR_ID then Inr (map_option (\<lambda>v. Cval (C_bar_id v)) (cfar_bar_id x))
      else Inl (Pmsg_illegal_ie 0 k))"

definition curr_set :: "core_ie \<Rightarrow> create_urr_c \<Rightarrow> create_urr_c pfcp_result" where
  "curr_set e x = (case e of
       Cval (C_urr_id v) \<Rightarrow> Inr (x\<lparr>curr_urr_id := Some v\<rparr>)
     | Cval (C_reporting_triggers v) \<Rightarrow> Inr (x\<lparr>curr_reporting_triggers := Some v\<rparr>)
     | Cval (C_volume_threshold v) \<Rightarrow> Inr (x\<lparr>curr_volume_threshold := Some v\<rparr>)
     | Cval (C_time_threshold v) \<Rightarrow> Inr (x\<lparr>curr_time_threshold := Some v\<rparr>)
     | Cval (C_monitoring_time v) \<Rightarrow> Inr (x\<lparr>curr_monitoring_time := Some v\<rparr>)
     | Cval (C_subsequent_volume_threshold v) \<Rightarrow> Inr (x\<lparr>curr_subsequent_volume_threshold := Some v\<rparr>)
     | Cval (C_subsequent_time_threshold v) \<Rightarrow> Inr (x\<lparr>curr_subsequent_time_threshold := Some v\<rparr>)
     | Cval (C_inactivity_detection_time v) \<Rightarrow> Inr (x\<lparr>curr_inactivity_detection_time := Some v\<rparr>)
     | Cval (C_far_id v) \<Rightarrow> Inr (x\<lparr>curr_far_id_for_quota_action := Some v\<rparr>)
     | _ \<Rightarrow> Inl (Pmsg_illegal_ie 0 (core_type e)))"

definition curr_get :: "u16 \<Rightarrow> create_urr_c \<Rightarrow> core_ie option pfcp_result" where
  "curr_get k x =
     (if k = PFCP_IE_URR_ID then Inr (map_option (\<lambda>v. Cval (C_urr_id v)) (curr_urr_id x))
      else if k = PFCP_IE_REPORTING_TRIGGERS then Inr (map_option (\<lambda>v. Cval (C_reporting_triggers v)) (curr_reporting_triggers x))
      else if k = PFCP_IE_VOLUME_THRESHOLD then Inr (map_option (\<lambda>v. Cval (C_volume_threshold v)) (curr_volume_threshold x))
      else if k = PFCP_IE_TIME_THRESHOLD then Inr (map_option (\<lambda>v. Cval (C_time_threshold v)) (curr_time_threshold x))
      else if k = PFCP_IE_MONITORING_TIME then Inr (map_option (\<lambda>v. Cval (C_monitoring_time v)) (curr_monitoring_time x))
      else if k = PFCP_IE_SUBSEQUENT_VOLUME_THRESHOLD then Inr (map_option (\<lambda>v. Cval (C_subsequent_volume_threshold v)) (curr_subsequent_volume_threshold x))
      else if k = PFCP_IE_SUBSEQUENT_TIME_THRESHOLD then Inr (map_option (\<lambda>v. Cval (C_subsequent_time_threshold v)) (curr_subsequent_time_threshold x))
      else if k = PFCP_IE_INACTIVITY_DETECTION_TIME then Inr (map_option (\<lambda>v. Cval (C_inactivity_detection_time v)) (curr_inactivity_detection_time x))
      else if k = PFCP_IE_FAR_ID then Inr (map_option (\<lambda>v. Cval (C_far_id v)) (curr_far_id_for_quota_action x))
      else Inl (Pmsg_illegal_ie 0 k))"

definition cqer_set :: "core_ie \<Rightarrow> create_qer_c \<Rightarrow> create_qer_c pfcp_result" where
  "cqer_set e x = (case e of
       Cval (C_qer_id v) \<Rightarrow> Inr (x\<lparr>cqer_qer_id := Some v\<rparr>)
     | Cval (C_qer_correlation_id v) \<Rightarrow> Inr (x\<lparr>cqer_qer_correlation_id := Some v\<rparr>)
     | Cval (C_gate_status v) \<Rightarrow> Inr (x\<lparr>cqer_gate_status := Some v\<rparr>)
     | Cval (C_mbr v) \<Rightarrow> Inr (x\<lparr>cqer_maximum_bitrate := Some v\<rparr>)
     | Cval (C_gbr v) \<Rightarrow> Inr (x\<lparr>cqer_guaranteed_bitrate := Some v\<rparr>)
     | Cval (C_qfi v) \<Rightarrow> Inr (x\<lparr>cqer_qos_flow_identifier := Some v\<rparr>)
     | _ \<Rightarrow> Inl (Pmsg_illegal_ie 0 (core_type e)))"

definition cqer_get :: "u16 \<Rightarrow> create_qer_c \<Rightarrow> core_ie option pfcp_result" where
  "cqer_get k x =
     (if k = PFCP_IE_QER_ID then Inr (map_option (\<lambda>v. Cval (C_qer_id v)) (cqer_qer_id x))
      else if k = PFCP_IE_QER_CORRELATION_ID then Inr (map_option (\<lambda>v. Cval (C_qer_correlation_id v)) (cqer_qer_correlation_id x))
      else if k = PFCP_IE_GATE_STATUS then Inr (map_option (\<lambda>v. Cval (C_gate_status v)) (cqer_gate_status x))
      else if k = PFCP_IE_MBR then Inr (map_option (\<lambda>v. Cval (C_mbr v)) (cqer_maximum_bitrate x))
      else if k = PFCP_IE_GBR then Inr (map_option (\<lambda>v. Cval (C_gbr v)) (cqer_guaranteed_bitrate x))
      else if k = PFCP_IE_QFI then Inr (map_option (\<lambda>v. Cval (C_qfi v)) (cqer_qos_flow_identifier x))
      else Inl (Pmsg_illegal_ie 0 k))"

definition cte_set :: "core_ie \<Rightarrow> create_traffic_endpoint_c \<Rightarrow> create_traffic_endpoint_c pfcp_result" where
  "cte_set e x = (case e of
       Cval (C_fteid v) \<Rightarrow> Inr (x\<lparr>cte_local_fteid := Some v\<rparr>)
     | Cval (C_network_instance v) \<Rightarrow> Inr (x\<lparr>cte_network_instance := Some v\<rparr>)
     | Cval (C_ue_ip_address v) \<Rightarrow> Inr (x\<lparr>cte_ue_ip_address := Some v\<rparr>)
     | _ \<Rightarrow> Inl (Pmsg_illegal_ie 0 (core_type e)))"

definition cte_get :: "u16 \<Rightarrow> create_traffic_endpoint_c \<Rightarrow> core_ie option pfcp_result" where
  "cte_get k x =
     (if k = PFCP_IE_F_TEID then Inr (map_option (\<lambda>v. Cval (C_fteid v)) (cte_local_fteid x))
      else if k = PFCP_IE_NETWORK_INSTANCE then Inr (map_option (\<lambda>v. Cval (C_network_instance v)) (cte_network_instance x))
      else if k = PFCP_IE_UE_IP_ADDRESS then Inr (map_option (\<lambda>v. Cval (C_ue_ip_address v)) (cte_ue_ip_address x))
      else Inl (Pmsg_illegal_ie 0 k))"

definition dpdr_set :: "core_ie \<Rightarrow> created_pdr_c \<Rightarrow> created_pdr_c pfcp_result" where
  "dpdr_set e x = (case e of
       Cval (C_pdr_id v) \<Rightarrow> Inr (x\<lparr>dpdr_pdr_id := Some v\<rparr>)
     | Cval (C_fteid v) \<Rightarrow> Inr (x\<lparr>dpdr_local_fteid := Some v\<rparr>)
     | _ \<Rightarrow> Inl (Pmsg_illegal_ie 0 (core_type e)))"

definition dpdr_get :: "u16 \<Rightarrow> created_pdr_c \<Rightarrow> core_ie option pfcp_result" where
  "dpdr_get k x =
     (if k = PFCP_IE_PACKET_DETECTION_RULE_ID then Inr (map_option (\<lambda>v. Cval (C_pdr_id v)) (dpdr_pdr_id x))
      else if k = PFCP_IE_F_TEID then Inr (map_option (\<lambda>v. Cval (C_fteid v)) (dpdr_local_fteid x))
      else Inl (Pmsg_illegal_ie 0 k))"

definition updr_set :: "core_ie \<Rightarrow> update_pdr_c \<Rightarrow> update_pdr_c pfcp_result" where
  "updr_set e x = (case e of
       Cval (C_pdr_id v) \<Rightarrow> Inr (x\<lparr>updr_pdr_id := v\<rparr>)
     | Cval (C_outer_header_removal v) \<Rightarrow> Inr (x\<lparr>updr_outer_header_removal := Some v\<rparr>)
     | Cval (C_precedence v) \<Rightarrow> Inr (x\<lparr>updr_precedence := Some v\<rparr>)
     | Cgrp (G_pdi v) \<Rightarrow> Inr (x\<lparr>updr_pdi := Some v\<rparr>)
     | Cval (C_far_id v) \<Rightarrow> Inr (x\<lparr>updr_far_id := Some v\<rparr>)
     | Cval (C_urr_id v) \<Rightarrow> Inr (x\<lparr>updr_urr_id := Some v\<rparr>)
     | Cval (C_qer_id v) \<Rightarrow> Inr (x\<lparr>updr_qer_id := Some v\<rparr>)
     | Cval (C_activate_predefined_rules v) \<Rightarrow> Inr (x\<lparr>updr_activate_predefined_rules := updr_activate_predefined_rules x @ [v]\<rparr>)
     | Cval (C_deactivate_predefined_rules v) \<Rightarrow> Inr (x\<lparr>updr_deactivate_predefined_rules := updr_deactivate_predefined_rules x @ [v]\<rparr>)
     | _ \<Rightarrow> Inl (Pmsg_illegal_ie 0 (core_type e)))"

definition updr_get :: "u16 \<Rightarrow> update_pdr_c \<Rightarrow> core_ie option pfcp_result" where
  "updr_get k x =
     (if k = PFCP_IE_PACKET_DETECTION_RULE_ID then Inr (Some (Cval (C_pdr_id (updr_pdr_id x))))
      else if k = PFCP_IE_OUTER_HEADER_REMOVAL then Inr (map_option (\<lambda>v. Cval (C_outer_header_removal v)) (updr_outer_header_removal x))
      else if k = PFCP_IE_PRECEDENCE then Inr (map_option (\<lambda>v. Cval (C_precedence v)) (updr_precedence x))
      else if k = PFCP_IE_PDI then Inr (map_option (\<lambda>v. Cgrp (G_pdi v)) (updr_pdi x))
      else if k = PFCP_IE_FAR_ID then Inr (map_option (\<lambda>v. Cval (C_far_id v)) (updr_far_id x))
      else if k = PFCP_IE_URR_ID then Inr (map_option (\<lambda>v. Cval (C_urr_id v)) (updr_urr_id x))
      else if k = PFCP_IE_QER_ID then Inr (map_option (\<lambda>v. Cval (C_qer_id v)) (updr_qer_id x))
      else Inl (Pmsg_illegal_ie 0 k))"

definition ufar_set :: "core_ie \<Rightarrow> update_far_c \<Rightarrow> update_far_c pfcp_result" where
  "ufar_set e x = (case e of
       Cval (C_far_id v) \<Rightarrow> Inr (x\<lparr>ufar_far_id := v\<rparr>)
     | Cval (C_apply_action v) \<Rightarrow> Inr (x\<lparr>ufar_apply_action := Some v\<rparr>)
     | Cgrp (G_update_forwarding_parameters v) \<Rightarrow> Inr (x\<lparr>ufar_update_forwarding_parameters := Some v\<rparr>)
     | Cval (C_bar_id v) \<Rightarrow> Inr (x\<lparr>ufar_bar_id := Some v\<rparr>)
     | _ \<Rightarrow> Inl (Pmsg_illegal_ie 0 (core_type e)))"

definition ufar_get :: "u16 \<Rightarrow> update_far_c \<Rightarrow> core_ie option pfcp_result" where
  "ufar_get k x =
     (if k = PFCP_IE_FAR_ID then Inr (Some (Cval (C_far_id (ufar_far_id x))))
      else if k = PFCP_IE_APPLY_ACTION then Inr (map_option (\<lambda>v. Cval (C_apply_action v)) (ufar_apply_action x))
      else if k = PFCP_IE_UPDATE_FORWARDING_PARAMETERS then Inr (map_option (\<lambda>v. Cgrp (G_update_forwarding_parameters v)) (ufar_update_forwarding_parameters x))
      else if k = PFCP_IE_BAR_ID then Inr (map_option (\<lambda>v. Cval (C_bar_id v)) (ufar_bar_id x))
      else Inl (Pmsg_illegal_ie 0 k))"

definition uurr_set :: "core_ie \<Rightarrow> update_urr_c \<Rightarrow> update_urr_c pfcp_result" where
  "uurr_set e x = (case e of
       Cval (C_urr_id v) \<Rightarrow> Inr (x\<lparr>uurr_urr_id := Some v\<rparr>)
     | Cval (C_reporting_triggers v) \<Rightarrow> Inr (x\<lparr>uurr_reporting_triggers := Some v\<rparr>)
     | Cval (C_volume_threshold v) \<Rightarrow> Inr (x\<lparr>uurr_volume_threshold := Some v\<rparr>)
     | Cval (C_time_threshold v) \<Rightarrow> Inr (x\<lparr>uurr_time_threshold := Some v\<rparr>)
     | Cval (C_monitoring_time v) \<Rightarrow> Inr (x\<lparr>uurr_monitoring_time := Some v\<rparr>)
     | Cval (C_subsequent_volume_threshold v) \<Rightarrow> Inr (x\<lparr>uurr_subsequent_volume_threshold := Some v\<rparr>)
     | Cval (C_subsequent_time_threshold v) \<Rightarrow> Inr (x\<lparr>uurr_subsequent_time_threshold := Some v\<rparr>)
     | Cval (C_inactivity_detection_time v) \<Rightarrow> Inr (x\<lparr>uurr_inactivity_detection_time := Some v\<rparr>)
     | Cval (C_far_id v) \<Rightarrow> Inr (x\<lparr>uurr_far_id_for_quota_action := Some v\<rparr>)
     | _ \<Rightarrow> Inl (Pmsg_illegal_ie 0 (core_type e)))"

definition uurr_get :: "u16 \<Rightarrow> update_urr_c \<Rightarrow> core_ie option pfcp_result" where
  "uurr_get k x =
     (if k = PFCP_IE_URR_ID then Inr (map_option (\<lambda>v. Cval (C_urr_id v)) (uurr_urr_id x))
      else if k = PFCP_IE_REPORTING_TRIGGERS then Inr (map_option (\<lambda>v. Cval (C_reporting_triggers v)) (uurr_reporting_triggers x))
      else if k = PFCP_IE_VOLUME_THRESHOLD then Inr (map_option (\<lambda>v. Cval (C_volume_threshold v)) (uurr_volume_threshold x))
      else if k = PFCP_IE_TIME_THRESHOLD then Inr (map_option (\<lambda>v. Cval (C_time_threshold v)) (uurr_time_threshold x))
      else if k = PFCP_IE_MONITORING_TIME then Inr (map_option (\<lambda>v. Cval (C_monitoring_time v)) (uurr_monitoring_time x))
      else if k = PFCP_IE_SUBSEQUENT_VOLUME_THRESHOLD then Inr (map_option (\<lambda>v. Cval (C_subsequent_volume_threshold v)) (uurr_subsequent_volume_threshold x))
      else if k = PFCP_IE_SUBSEQUENT_TIME_THRESHOLD then Inr (map_option (\<lambda>v. Cval (C_subsequent_time_threshold v)) (uurr_subsequent_time_threshold x))
      else if k = PFCP_IE_INACTIVITY_DETECTION_TIME then Inr (map_option (\<lambda>v. Cval (C_inactivity_detection_time v)) (uurr_inactivity_detection_time x))
      else if k = PFCP_IE_FAR_ID then Inr (map_option (\<lambda>v. Cval (C_far_id v)) (uurr_far_id_for_quota_action x))
      else Inl (Pmsg_illegal_ie 0 k))"

definition uqer_set :: "core_ie \<Rightarrow> update_qer_c \<Rightarrow> update_qer_c pfcp_result" where
  "uqer_set e x = (case e of
       Cval (C_qer_id v) \<Rightarrow> Inr (x\<lparr>uqer_qer_id := Some v\<rparr>)
     | Cval (C_qer_correlation_id v) \<Rightarrow> Inr (x\<lparr>uqer_qer_correlation_id := Some v\<rparr>)
     | Cval (C_gate_status v) \<Rightarrow> Inr (x\<lparr>uqer_gate_status := Some v\<rparr>)
     | Cval (C_mbr v) \<Rightarrow> Inr (x\<lparr>uqer_maximum_bitrate := Some v\<rparr>)
     | Cval (C_gbr v) \<Rightarrow> Inr (x\<lparr>uqer_guaranteed_bitrate := Some v\<rparr>)
     | Cval (C_qfi v) \<Rightarrow> Inr (x\<lparr>uqer_qos_flow_identifier := Some v\<rparr>)
     | _ \<Rightarrow> Inl (Pmsg_illegal_ie 0 (core_type e)))"

definition uqer_get :: "u16 \<Rightarrow> update_qer_c \<Rightarrow> core_ie option pfcp_result" where
  "uqer_get k x =
     (if k = PFCP_IE_QER_ID then Inr (map_option (\<lambda>v. Cval (C_qer_id v)) (uqer_qer_id x))
      else if k = PFCP_IE_QER_CORRELATION_ID then Inr (map_option (\<lambda>v. Cval (C_qer_correlation_id v)) (uqer_qer_correlation_id x))
      else if k = PFCP_IE_GATE_STATUS then Inr (map_option (\<lambda>v. Cval (C_gate_status v)) (uqer_gate_status x))
      else if k = PFCP_IE_MBR then Inr (map_option (\<lambda>v. Cval (C_mbr v)) (uqer_maximum_bitrate x))
      else if k = PFCP_IE_GBR then Inr (map_option (\<lambda>v. Cval (C_gbr v)) (uqer_guaranteed_bitrate x))
      else if k = PFCP_IE_QFI then Inr (map_option (\<lambda>v. Cval (C_qfi v)) (uqer_qos_flow_identifier x))
      else Inl (Pmsg_illegal_ie 0 k))"

definition rpdr_set :: "core_ie \<Rightarrow> remove_pdr_c \<Rightarrow> remove_pdr_c pfcp_result" where
  "rpdr_set e x = (case e of
       Cval (C_pdr_id v) \<Rightarrow> Inr (x\<lparr>rpdr_pdr_id := Some v\<rparr>)
     | _ \<Rightarrow> Inl (Pmsg_illegal_ie 0 (core_type e)))"

definition rpdr_get :: "u16 \<Rightarrow> remove_pdr_c \<Rightarrow> core_ie option pfcp_result" where
  "rpdr_get k x =
     (if k = PFCP_IE_PACKET_DETECTION_RULE_ID then Inr (map_option (\<lambda>v. Cval (C_pdr_id v)) (rpdr_pdr_id x))
      else Inl (Pmsg_illegal_ie 0 k))"

definition rfar_set :: "core_ie \<Rightarrow> remove_far_c \<Rightarrow> remove_far_c pfcp_result" where
  "rfar_set e x = (case e of
       Cval (C_far_id v) \<Rightarrow> Inr (x\<lparr>rfar_far_id := Some v\<rparr>)
     | _ \<Rightarrow> Inl (Pmsg_illegal_ie 0 (core_type e)))"

definition rfar_get :: "u16 \<Rightarrow> remove_far_c \<Rightarrow> core_ie option pfcp_result" where
  "rfar_get k x =
     (if k = PFCP_IE_FAR_ID then Inr (map_option (\<lambda>v. Cval (C_far_id v)) (rfar_far_id x))
      else Inl (Pmsg_illegal_ie 0 k))"

definition rurr_set :: "core_ie \<Rightarrow> remove_urr_c \<Rightarrow> remove_urr_c pfcp_result" where
  "rurr_set e x = (case e of
       Cval (C_urr_id v) \<Rightarrow> Inr (x\<lparr>rurr_urr_id := Some v\<rparr>)
     | _ \<Rightarrow> Inl (Pmsg_illegal_ie 0 (core_type e)))"

definition rurr_get :: "u16 \<Rightarrow> remove_urr_c \<Rightarrow> core_ie option pfcp_result" where
  "rurr_get k x =
     (if k = PFCP_IE_URR_ID then Inr (map_option (\<lambda>v. Cval (C_urr_id v)) (rurr_urr_id x))
      else Inl (Pmsg_illegal_ie 0 k))"

definition rqer_set :: "core_ie \<Rightarrow> remove_qer_c \<Rightarrow> remove_qer_c pfcp_result" where
  "rqer_set e x = (case e of
       Cval (C_qer_id v) \<Rightarrow> Inr (x\<lparr>rqer_qer_id := Some v\<rparr>)
     | _ \<Rightarrow> Inl (Pmsg_illegal_ie 0 (core_type e)))"

definition rqer_get :: "u16 \<Rightarrow> remove_qer_c \<Rightarrow> core_ie option pfcp_result" where
  "rqer_get k x =
     (if k = PFCP_IE_QER_ID then Inr (map_option (\<lambda>v. Cval (C_qer_id v)) (rqer_qer_id x))
      else Inl (Pmsg_illegal_ie 0 k))"

definition ddr_set :: "core_ie \<Rightarrow> downlink_data_report_c \<Rightarrow> downlink_data_report_c pfcp_result" where
  "ddr_set e x = (case e of
       Cval (C_pdr_id v) \<Rightarrow> Inr (x\<lparr>ddr_pdr_id := Some v\<rparr>)
     | _ \<Rightarrow> Inl (Pmsg_illegal_ie 0 (core_type e)))"

definition ddr_get :: "u16 \<Rightarrow> downlink_data_report_c \<Rightarrow> core_ie option pfcp_result" where
  "ddr_get k x =
     (if k = PFCP_IE_PACKET_DETECTION_RULE_ID then Inr (map_option (\<lambda>v. Cval (C_pdr_id v)) (ddr_pdr_id x))
      else Inl (Pmsg_illegal_ie 0 k))"

definition ubar_set :: "core_ie \<Rightarrow> update_bar_c \<Rightarrow> update_bar_c pfcp_result" where
  "ubar_set e x = (case e of
       Cval (C_bar_id v) \<Rightarrow> Inr (x\<lparr>ubar_bar_id := Some v\<rparr>)
     | _ \<Rightarrow> Inl (Pmsg_illegal_ie 0 (core_type e)))"

definition ubar_get :: "u16 \<Rightarrow> update_bar_c \<Rightarrow> core_ie option pfcp_result" where
  "ubar_get k x =
     (if k = PFCP_IE_BAR_ID then Inr (map_option (\<lambda>v. Cval (C_bar_id v)) (ubar_bar_id x))
      else Inl (Pmsg_illegal_ie 0 k))"

definition hbq_set :: "core_ie \<Rightarrow> heartbeat_request_c \<Rightarrow> heartbeat_request_c pfcp_result" where
  "hbq_set e x = (case e of
       Cval (C_recovery_time_stamp v) \<Rightarrow> Inr (x\<lparr>hbq_recovery_time_stamp := Some v\<rparr>)
     | _ \<Rightarrow> Inl (Pmsg_illegal_ie 0 (core_type e)))"

definition hbq_get :: "u16 \<Rightarrow> heartbeat_request_c \<Rightarrow> core_ie option pfcp_result" where
  "hbq_get k x =
     (if k = PFCP_IE_RECOVERY_TIME_STAMP then Inr (map_option (\<lambda>v. Cval (C_recovery_time_stamp v)) (hbq_recovery_time_stamp x))
      else Inl (Pmsg_illegal_ie 0 k))"

definition hbp_set :: "core_ie \<Rightarrow> heartbeat_response_c \<Rightarrow> heartbeat_response_c pfcp_result" where
  "hbp_set e x = (case e of
       Cval (C_recovery_time_stamp v) \<Rightarrow> Inr (x\<lparr>hbp_recovery_time_stamp := Some v\<rparr>)
     | _ \<Rightarrow> Inl (Pmsg_illegal_ie 0 (core_type e)))"

definition hbp_get :: "u16 \<Rightarrow> heartbeat_response_c \<Rightarrow> core_ie option pfcp_result" where
  "hbp_get k x =
     (if k = PFCP_IE_RECOVERY_TIME_STAMP then Inr (map_option (\<lambda>v. Cval (C_recovery_time_stamp v)) (hbp_recovery_time_stamp x))
      else Inl (Pmsg_illegal_ie 0 k))"

definition asq_set :: "core_ie \<Rightarrow> association_setup_request_c \<Rightarrow> association_setup_request_c pfcp_result" where
  "asq_set e x = (case e of
       Cval (C_node_id v) \<Rightarrow> Inr (x\<lparr>asq_node_id := Some v\<rparr>)
     | Cval (C_recovery_time_stamp v) \<Rightarrow> Inr (x\<lparr>asq_recovery_time_stamp := Some v\<rparr>)
     | Cval (C_up_function_features v) \<Rightarrow> Inr (x\<lparr>asq_up_function_features := Some v\<rparr>)
     | Cval (C_cp_function_features v) \<Rightarrow> Inr (x\<lparr>asq_cp_function_features := Some v\<rparr>)
     | Cval (C_user_plane_ip_resource_information v) \<Rightarrow> Inr (x\<lparr>asq_user_plane_ip_resource_information := Some v\<rparr>)
     | _ \<Rightarrow> Inl (Pmsg_illegal_ie 0 (core_type e)))"

definition asq_get :: "u16 \<Rightarrow> association_setup_request_c \<Rightarrow> core_ie option pfcp_result" where
  "asq_get k x =
     (if k = PFCP_IE_NODE_ID then Inr (map_option (\<lambda>v. Cval (C_node_id v)) (asq_node_id x))
      else if k = PFCP_IE_RECOVERY_TIME_STAMP then Inr (map_option (\<lambda>v. Cval (C_recovery_time_stamp v)) (asq_recovery_time_stamp x))
      else if k = PFCP_IE_UP_FUNCTION_FEATURES then Inr (map_option (\<lambda>v. Cval (C_up_function_features v)) (asq_up_function_features x))
      else if k = PFCP_IE_CP_FUNCTION_FEATURES then Inr (map_option (\<lambda>v. Cval (C_cp_function_features v)) (asq_cp_function_features x))
      else if k = PFCP_IE_USER_PLANE_IP_RESOURCE_INFORMATION then Inr (map_option (\<lambda>v. Cval (C_user_plane_ip_resource_information v)) (asq_user_plane_ip_resource_information x))
      else Inl (Pmsg_illegal_ie 0 k))"

definition asp_set :: "core_ie \<Rightarrow> association_setup_response_c \<Rightarrow> association_setup_response_c pfcp_result" where
  "asp_set e x = (case e of
       Cval (C_node_id v) \<Rightarrow> Inr (x\<lparr>asp_node_id := Some v\<rparr>)
     | Cval (C_cause v) \<Rightarrow> Inr (x\<lparr>asp_cause := Some v\<rparr>)
     | Cval (C_recovery_time_stamp v) \<Rightarrow> Inr (x\<lparr>asp_recovery_time_stamp := Some v\<rparr>)
     | Cval (C_up_function_features v) \<Rightarrow> Inr (x\<lparr>asp_up_function_features := Some v\<rparr>)
     | Cval (C_cp_function_features v) \<Rightarrow> Inr (x\<lparr>asp_cp_function_features := Some v\<rparr>)
     | Cval (C_user_plane_ip_resource_information v) \<Rightarrow> Inr (x\<lparr>asp_user_plane_ip_resource_information := Some v\<rparr>)
     | _ \<Rightarrow> Inl (Pmsg_illegal_ie 0 (core_type e)))"

definition asp_get :: "u16 \<Rightarrow> association_setup_response_c \<Rightarrow> core_ie option pfcp_result" where
  "asp_get k x =
     (if k = PFCP_IE_NODE_ID then Inr (map_option (\<lambda>v. Cval (C_node_id v)) (asp_node_id x))
      else if k = PFCP_IE_CAUSE then Inr (map_option (\<lambda>v. Cval (C_cause v)) (asp_cause x))
      else if k = PFCP_IE_RECOVERY_TIME_STAMP then Inr (map_option (\<lambda>v. Cval (C_recovery_time_stamp v)) (asp_recovery_time_stamp x))
      else if k = PFCP_IE_UP_FUNCTION_FEATURES then Inr (map_option (\<lambda>v. Cval (C_up_function_features v)) (asp_up_function_features x))
      else if k = PFCP_IE_CP_FUNCTION_FEATURES then Inr (map_option (\<lambda>v. Cval (C_cp_function_features v)) (asp_cp_function_features x))
      else if k = PFCP_IE_USER_PLANE_IP_RESOURCE_INFORMATION then Inr (map_option (\<lambda>v. Cval (C_user_plane_ip_resource_information v)) (asp_user_plane_ip_resource_information x))
      else Inl (Pmsg_illegal_ie 0 k))"

definition arq_set :: "core_ie \<Rightarrow> association_release_request_c \<Rightarrow> association_release_request_c pfcp_result" where
  "arq_set e x = (case e of
       Cval (C_node_id v) \<Rightarrow> Inr (x\<lparr>arq_node_id := Some v\<rparr>)
     | _ \<Rightarrow> Inl (Pmsg_illegal_ie 0 (core_type e)))"

definition arq_get :: "u16 \<Rightarrow> association_release_request_c \<Rightarrow> core_ie option pfcp_result" where
  "arq_get k x =
     (if k = PFCP_IE_NODE_ID then Inr (map_option (\<lambda>v. Cval (C_node_id v)) (arq_node_id x))
      else Inl (Pmsg_illegal_ie 0 k))"

definition arp_set :: "core_ie \<Rightarrow> association_release_response_c \<Rightarrow> association_release_response_c pfcp_result" where
  "arp_set e x = (case e of
       Cval (C_node_id v) \<Rightarrow> Inr (x\<lparr>arp_node_id := Some v\<rparr>)
     | Cval (C_cause v) \<Rightarrow> Inr (x\<lparr>arp_cause := Some v\<rparr>)
     | _ \<Rightarrow> Inl (Pmsg_illegal_ie 0 (core_type e)))"

definition arp_get :: "u16 \<Rightarrow> association_release_response_c \<Rightarrow> core_ie option pfcp_result" where
  "arp_get k x =
     (if k = PFCP_IE_NODE_ID then Inr (map_option (\<lambda>v. Cval (C_node_id v)) (arp_node_id x))
      else if k = PFCP_IE_CAUSE then Inr (map_option (\<lambda>v. Cval (C_cause v)) (arp_cause x))
      else Inl (Pmsg_illegal_ie 0 k))"

definition nrq_set :: "core_ie \<Rightarrow> node_report_request_c \<Rightarrow> node_report_request_c pfcp_result" where
  "nrq_set e x = (case e of
       Cval (C_node_id v) \<Rightarrow> Inr (x\<lparr>nrq_node_id := Some v\<rparr>)
     | Cval (C_node_report_type v) \<Rightarrow> Inr (x\<lparr>nrq_node_report_type := Some v\<rparr>)
     | _ \<Rightarrow> Inl (Pmsg_illegal_ie 0 (core_type e)))"

definition nrq_get :: "u16 \<Rightarrow> node_report_request_c \<Rightarrow> core_ie option pfcp_result" where
  "nrq_get k x =
     (if k = PFCP_IE_NODE_ID then Inr (map_option (\<lambda>v. Cval (C_node_id v)) (nrq_node_id x))
      else if k = PFCP_IE_NODE_REPORT_TYPE then Inr (map_option (\<lambda>v. Cval (C_node_report_type v)) (nrq_node_report_type x))
      else Inl (Pmsg_illegal_ie 0 k))"

definition seq_set :: "core_ie \<Rightarrow> session_establishment_request_c \<Rightarrow> session_establishment_request_c pfcp_result" where
  "seq_set e x = (case e of
       Cval (C_node_id v) \<Rightarrow> Inr (x\<lparr>seq_node_id := Some v\<rparr>)
     | Cval (C_f_seid v) \<Rightarrow> Inr (x\<lparr>seq_cp_fseid := Some v\<rparr>)
     | Cgrp (G_create_pdr v) \<Rightarrow> Inr (x\<lparr>seq_create_pdrs := seq_create_pdrs x @ [v]\<rparr>)
     | Cgrp (G_create_far v) \<Rightarrow> Inr (x\<lparr>seq_create_fars := seq_create_fars x @ [v]\<rparr>)
     | Cgrp (G_create_urr v) \<Rightarrow> Inr (x\<lparr>seq_create_urrs := seq_create_urrs x @ [v]\<rparr>)
     | Cgrp (G_create_qer v) \<Rightarrow> Inr (x\<lparr>seq_create_qers := seq_create_qers x @ [v]\<rparr>)
     | Cval (C_user_plane_inactivity_timer v) \<Rightarrow> Inr (x\<lparr>seq_user_plane_inactivity_timer := Some v\<rparr>)
     | Cval (C_user_id v) \<Rightarrow> Inr (x\<lparr>seq_user_id := Some v\<rparr>)
     | _ \<Rightarrow> Inl (Pmsg_illegal_ie 0 (core_type e)))"

definition seq_get :: "u16 \<Rightarrow> session_establishment_request_c \<Rightarrow> core_ie option pfcp_result" where
  "seq_get k x =
     (if k = PFCP_IE_NODE_ID then Inr (map_option (\<lambda>v. Cval (C_node_id v)) (seq_node_id x))
      else if k = PFCP_IE_F_SEID then Inr (map_option (\<lambda>v. Cval (C_f_seid v)) (seq_cp_fseid x))
      else if k = PFCP_IE_USER_PLANE_INACTIVITY_TIMER then Inr (map_option (\<lambda>v. Cval (C_user_plane_inactivity_timer v)) (seq_user_plane_inactivity_timer x))
      else if k = PFCP_IE_USER_ID then Inr (map_option (\<lambda>v. Cval (C_user_id v)) (seq_user_id x))
      else Inl (Pmsg_illegal_ie 0 k))"

definition sep_set :: "core_ie \<Rightarrow> session_establishment_response_c \<Rightarrow> session_establishment_response_c pfcp_result" where
  "sep_set e x = (case e of
       Cval (C_node_id v) \<Rightarrow> Inr (x\<lparr>sep_node_id := Some v\<rparr>)
     | Cval (C_cause v) \<Rightarrow> Inr (x\<lparr>sep_cause := Some v\<rparr>)
     | Cval (C_offending_ie v) \<Rightarrow> Inr (x\<lparr>sep_offending_ie := Some v\<rparr>)
     | Cval (C_f_seid v) \<Rightarrow> Inr (x\<lparr>sep_up_fseid := Some v\<rparr>)
     | Cgrp (G_created_pdr v) \<Rightarrow> Inr (x\<lparr>sep_created_pdrs := sep_created_pdrs x @ [v]\<rparr>)
     | Cval (C_failed_rule_id v) \<Rightarrow> Inr (x\<lparr>sep_failed_rule_id := Some v\<rparr>)
     | _ \<Rightarrow> Inl (Pmsg_illegal_ie 0 (core_type e)))"

definition sep_get :: "u16 \<Rightarrow> session_establishment_response_c \<Rightarrow> core_ie option pfcp_result" where
  "sep_get k x =
     (if k = PFCP_IE_NODE_ID then Inr (map_option (\<lambda>v. Cval (C_node_id v)) (sep_node_id x))
      else if k = PFCP_IE_CAUSE then Inr (map_option (\<lambda>v. Cval (C_cause v)) (sep_cause x))
      else if k = PFCP_IE_OFFENDING_IE then Inr (map_option (\<lambda>v. Cval (C_offending_ie v)) (sep_offending_ie x))
      else if k = PFCP_IE_F_SEID then Inr (map_option (\<lambda>v. Cval (C_f_seid v)) (sep_up_fseid x))
      else if k = PFCP_IE_FAILED_RULE_ID then Inr (map_option (\<lambda>v. Cval (C_failed_rule_id v)) (sep_failed_rule_id x))
      else Inl (Pmsg_illegal_ie 0 k))"

definition smq_set :: "core_ie \<Rightarrow> session_modification_request_c \<Rightarrow> session_modification_request_c pfcp_result" where
  "smq_set e x = (case e of
       Cval (C_f_seid v) \<Rightarrow> Inr (x\<lparr>smq_cp_fseid := Some v\<rparr>)
     | Cgrp (G_remove_pdr v) \<Rightarrow> Inr (x\<lparr>smq_remove_pdrs := smq_remove_pdrs x @ [v]\<rparr>)
     | Cgrp (G_remove_far v) \<Rightarrow> Inr (x\<lparr>smq_remove_fars := smq_remove_fars x @ [v]\<rparr>)
     | Cgrp (G_remove_urr v) \<Rightarrow> Inr (x\<lparr>smq_remove_urrs := smq_remove_urrs x @ [v]\<rparr>)
     | Cgrp (G_remove_qer v) \<Rightarrow> Inr (x\<lparr>smq_remove_qers := smq_remove_qers x @ [v]\<rparr>)
     | Cgrp (G_create_pdr v) \<Rightarrow> Inr (x\<lparr>smq_create_pdrs := smq_create_pdrs x @ [v]\<rparr>)
     | Cgrp (G_create_far v) \<Rightarrow> Inr (x\<lparr>smq_create_fars := smq_create_fars x @ [v]\<rparr>)
     | Cgrp (G_create_urr v) \<Rightarrow> Inr (x\<lparr>smq_create_urrs := smq_create_urrs x @ [v]\<rparr>)
     | Cgrp (G_create_qer v) \<Rightarrow> Inr (x\<lparr>smq_create_qers := smq_create_qers x @ [v]\<rparr>)
     | Cgrp (G_create_traffic_endpoint v) \<Rightarrow> Inr (x\<lparr>smq_create_traffic_endpoint := Some v\<rparr>)
     | Cgrp (G_update_pdr v) \<Rightarrow> Inr (x\<lparr>smq_update_pdrs := smq_update_pdrs x @ [v]\<rparr>)
     | Cgrp (G_update_far v) \<Rightarrow> Inr (x\<lparr>smq_update_fars := smq_update_fars x @ [v]\<rparr>)
     | Cgrp (G_update_urr v) \<Rightarrow> Inr (x\<lparr>smq_update_urrs := smq_update_urrs x @ [v]\<rparr>)
     | Cgrp (G_update_qer v) \<Rightarrow> Inr (x\<lparr>smq_update_qers := smq_update_qers x @ [v]\<rparr>)
     | Cval (C_user_plane_inactivity_timer v) \<Rightarrow> Inr (x\<lparr>smq_user_plane_inactivity_timer := Some v\<rparr>)
     | _ \<Rightarrow> Inl (Pmsg_illegal_ie 0 (core_type e)))"

definition smq_get :: "u16 \<Rightarrow> session_modification_request_c \<Rightarrow> core_ie option pfcp_result" where
  "smq_get k x =
     (if k = PFCP_IE_F_SEID then Inr (map_option (\<lambda>v. Cval (C_f_seid v)) (smq_cp_fseid x))
      else if k = PFCP_IE_CREATE_TRAFFIC_ENDPOINT then Inr (map_option (\<lambda>v. Cgrp (G_create_traffic_endpoint v)) (smq_create_traffic_endpoint x))
      else if k = PFCP_IE_USER_PLANE_INACTIVITY_TIMER then Inr (map_option (\<lambda>v. Cval (C_user_plane_inactivity_timer v)) (smq_user_plane_inactivity_timer x))
      else Inl (Pmsg_illegal_ie 0 k))"

definition smp_set :: "core_ie \<Rightarrow> session_modification_response_c \<Rightarrow> session_modification_response_c pfcp_result" where
  "smp_set e x = (case e of
       Cval (C_cause v) \<Rightarrow> Inr (x\<lparr>smp_cause := Some v\<rparr>)
     | Cval (C_offending_ie v) \<Rightarrow> Inr (x\<lparr>smp_offending_ie := Some v\<rparr>)
     | Cgrp (G_created_pdr v) \<Rightarrow> Inr (x\<lparr>smp_created_pdrs := smp_created_pdrs x @ [v]\<rparr>)
     | Cval (C_failed_rule_id v) \<Rightarrow> Inr (x\<lparr>smp_failed_rule_id := Some v\<rparr>)
     | _ \<Rightarrow> Inl (Pmsg_illegal_ie 0 (core_type e)))"

definition smp_get :: "u16 \<Rightarrow> session_modification_response_c \<Rightarrow> core_ie option pfcp_result" where
  "smp_get k x =
     (if k = PFCP_IE_CAUSE then Inr (map_option (\<lambda>v. Cval (C_cause v)) (smp_cause x))
      else if k = PFCP_IE_OFFENDING_IE then Inr (map_option (\<lambda>v. Cval (C_offending_ie v)) (smp_offending_ie x))
      else if k = PFCP_IE_FAILED_RULE_ID then Inr (map_option (\<lambda>v. Cval (C_failed_rule_id v)) (smp_failed_rule_id x))
      else Inl (Pmsg_illegal_ie 0 k))"

definition sdp_set :: "core_ie \<Rightarrow> session_deletion_response_c \<Rightarrow> session_deletion_response_c pfcp_result" where
  "sdp_set e x = (case e of
       Cval (C_cause v) \<Rightarrow> Inr (x\<lparr>sdp_cause := Some v\<rparr>)
     | Cval (C_offending_ie v) \<Rightarrow> Inr (x\<lparr>sdp_offending_ie := Some v\<rparr>)
     | _ \<Rightarrow> Inl (Pmsg_illegal_ie 0 (core_type e)))"

definition sdp_get :: "u16 \<Rightarrow> session_deletion_response_c \<Rightarrow> core_ie option pfcp_result" where
  "sdp_get k x =
     (if k = PFCP_IE_CAUSE then Inr (map_option (\<lambda>v. Cval (C_cause v)) (sdp_cause x))
      else if k = PFCP_IE_OFFENDING_IE then Inr (map_option (\<lambda>v. Cval (C_offending_ie v)) (sdp_offending_ie x))
      else Inl (Pmsg_illegal_ie 0 k))"

definition srq_set :: "core_ie \<Rightarrow> session_report_request_c \<Rightarrow> session_report_request_c pfcp_result" where
  "srq_set e x = (case e of
       Cval (C_report_type v) \<Rightarrow> Inr (x\<lparr>srq_report_type := Some v\<rparr>)
     | Cgrp (G_downlink_data_report v) \<Rightarrow> Inr (x\<lparr>srq_downlink_data_report := Some v\<rparr>)
     | _ \<Rightarrow> Inl (Pmsg_illegal_ie 0 (core_type e)))"

definition srq_get :: "u16 \<Rightarrow> session_report_request_c \<Rightarrow> core_ie option pfcp_result" where
  "srq_get k x =
     (if k = PFCP_IE_REPORT_TYPE then Inr (map_option (\<lambda>v. Cval (C_report_type v)) (srq_report_type x))
      else if k = PFCP_IE_DOWNLINK_DATA_REPORT then Inr (map_option (\<lambda>v. Cgrp (G_downlink_data_report v)) (srq_downlink_data_report x))
      else Inl (Pmsg_illegal_ie 0 k))"

definition srp_set :: "core_ie \<Rightarrow> session_report_response_c \<Rightarrow> session_report_response_c pfcp_result" where
  "srp_set e x = (case e of
       Cval (C_cause v) \<Rightarrow> Inr (x\<lparr>srp_cause := Some v\<rparr>)
     | Cval (C_offending_ie v) \<Rightarrow> Inr (x\<lparr>srp_offending_ie := Some v\<rparr>)
     | Cgrp (G_update_bar_within_pfcp_session_report_response v) \<Rightarrow> Inr (x\<lparr>srp_update_bar := Some v\<rparr>)
     | _ \<Rightarrow> Inl (Pmsg_illegal_ie 0 (core_type e)))"

definition srp_get :: "u16 \<Rightarrow> session_report_response_c \<Rightarrow> core_ie option pfcp_result" where
  "srp_get k x =
     (if k = PFCP_IE_CAUSE then Inr (map_option (\<lambda>v. Cval (C_cause v)) (srp_cause x))
      else if k = PFCP_IE_OFFENDING_IE then Inr (map_option (\<lambda>v. Cval (C_offending_ie v)) (srp_offending_ie x))
      else if k = PFCP_IE_UPDATE_BAR_WITHIN_PFCP_SESSION_REPORT_RESPONSE then Inr (map_option (\<lambda>v. Cgrp (G_update_bar_within_pfcp_session_report_response v)) (srp_update_bar x))
      else Inl (Pmsg_illegal_ie 0 k))"

text \<open>
  \<^verbatim>\<open>forwarding_parameters::update\<close>, and the overload of \<^verbatim>\<open>get\<close> of the two session requests that looks for
  the first FAR to create with an identifier.
\<close>

definition fwp_update :: "update_forwarding_parameters_c \<Rightarrow> forwarding_parameters_c \<Rightarrow> forwarding_parameters_c" where
  "fwp_update u x0 =
     (let x1 = (case ufp_destination_interface u of None \<Rightarrow> x0 | Some v \<Rightarrow> x0\<lparr>fwp_destination_interface := Some v\<rparr>);
          x2 = (case ufp_network_instance u of None \<Rightarrow> x1 | Some v \<Rightarrow> x1\<lparr>fwp_network_instance := Some v\<rparr>);
          x3 = (case ufp_outer_header_creation u of None \<Rightarrow> x2 | Some v \<Rightarrow> x2\<lparr>fwp_outer_header_creation := Some v\<rparr>);
          x4 = (case ufp_transport_level_marking u of None \<Rightarrow> x3 | Some v \<Rightarrow> x3\<lparr>fwp_transport_level_marking := Some v\<rparr>)
      in case ufp_forwarding_policy u of None \<Rightarrow> x4 | Some v \<Rightarrow> x4\<lparr>fwp_forwarding_policy := Some v\<rparr>)"

fun find_far :: "u32 \<Rightarrow> create_far_c list \<Rightarrow> create_far_c option" where
  "find_far fid [] = None"
| "find_far fid (f # fs) = (if cfar_far_id f = Some fid then Some f else find_far fid fs)"

definition seq_get_create_far :: "u32 \<Rightarrow> session_establishment_request_c \<Rightarrow> create_far_c option" where
  "seq_get_create_far fid x = find_far fid (seq_create_fars x)"

definition smq_get_create_far :: "u32 \<Rightarrow> session_modification_request_c \<Rightarrow> create_far_c option" where
  "smq_get_create_far fid x = find_far fid (smq_create_fars x)"

section \<open>The elements of a container\<close>

definition pdi_members :: "pdi_c \<Rightarrow> core_tree list" where
  "pdi_members x =
     opt_list (\<lambda>v. Leaf (C_source_interface v)) (pdi_source_interface x)
     @ opt_list (\<lambda>v. Leaf (C_fteid v)) (pdi_local_fteid x)
     @ opt_list (\<lambda>v. Leaf (C_network_instance v)) (pdi_network_instance x)
     @ opt_list (\<lambda>v. Leaf (C_ue_ip_address v)) (pdi_ue_ip_address x)
     @ opt_list (\<lambda>v. Leaf (C_sdf_filter v)) (pdi_sdf_filter x)
     @ opt_list (\<lambda>v. Leaf (C_application_id v)) (pdi_application_id x)
     @ opt_list (\<lambda>v. Leaf (C_qfi v)) (pdi_qfi x)"

definition ufp_members :: "update_forwarding_parameters_c \<Rightarrow> core_tree list" where
  "ufp_members x =
     opt_list (\<lambda>v. Leaf (C_destination_interface v)) (ufp_destination_interface x)
     @ opt_list (\<lambda>v. Leaf (C_network_instance v)) (ufp_network_instance x)
     @ opt_list (\<lambda>v. Leaf (C_outer_header_creation v)) (ufp_outer_header_creation x)
     @ opt_list (\<lambda>v. Leaf (C_transport_level_marking v)) (ufp_transport_level_marking x)
     @ opt_list (\<lambda>v. Leaf (C_forwarding_policy v)) (ufp_forwarding_policy x)"

definition fwp_members :: "forwarding_parameters_c \<Rightarrow> core_tree list" where
  "fwp_members x =
     opt_list (\<lambda>v. Leaf (C_destination_interface v)) (fwp_destination_interface x)
     @ opt_list (\<lambda>v. Leaf (C_network_instance v)) (fwp_network_instance x)
     @ opt_list (\<lambda>v. Leaf (C_outer_header_creation v)) (fwp_outer_header_creation x)
     @ opt_list (\<lambda>v. Leaf (C_transport_level_marking v)) (fwp_transport_level_marking x)
     @ opt_list (\<lambda>v. Leaf (C_forwarding_policy v)) (fwp_forwarding_policy x)"

definition dup_members :: "duplicating_parameters_c \<Rightarrow> core_tree list" where
  "dup_members x =
     []"

definition cpdr_members :: "create_pdr_c \<Rightarrow> core_tree list" where
  "cpdr_members x =
     opt_list (\<lambda>v. Leaf (C_pdr_id v)) (cpdr_pdr_id x)
     @ opt_list (\<lambda>v. Leaf (C_precedence v)) (cpdr_precedence x)
     @ opt_list (\<lambda>v. Node PFCP_IE_PDI (pdi_members v)) (cpdr_pdi x)
     @ opt_list (\<lambda>v. Leaf (C_outer_header_removal v)) (cpdr_outer_header_removal x)
     @ opt_list (\<lambda>v. Leaf (C_far_id v)) (cpdr_far_id x)
     @ opt_list (\<lambda>v. Leaf (C_urr_id v)) (cpdr_urr_id x)
     @ opt_list (\<lambda>v. Leaf (C_qer_id v)) (cpdr_qer_id x)
     @ opt_list (\<lambda>v. Leaf (C_activate_predefined_rules v)) (cpdr_activate_predefined_rules x)"

definition cfar_members :: "create_far_c \<Rightarrow> core_tree list" where
  "cfar_members x =
     opt_list (\<lambda>v. Leaf (C_far_id v)) (cfar_far_id x)
     @ opt_list (\<lambda>v. Leaf (C_apply_action v)) (cfar_apply_action x)
     @ opt_list (\<lambda>v. Node PFCP_IE_FORWARDING_PARAMETERS (fwp_members v)) (cfar_forwarding_parameters x)
     @ opt_list (\<lambda>v. Node PFCP_IE_DUPLICATING_PARAMETERS (dup_members v)) (cfar_duplicating_parameters x)
     @ opt_list (\<lambda>v. Leaf (C_bar_id v)) (cfar_bar_id x)"

definition curr_members :: "create_urr_c \<Rightarrow> core_tree list" where
  "curr_members x =
     []"

definition cqer_members :: "create_qer_c \<Rightarrow> core_tree list" where
  "cqer_members x =
     []"

definition cte_members :: "create_traffic_endpoint_c \<Rightarrow> core_tree list" where
  "cte_members x =
     []"

definition dpdr_members :: "created_pdr_c \<Rightarrow> core_tree list" where
  "dpdr_members x =
     opt_list (\<lambda>v. Leaf (C_pdr_id v)) (dpdr_pdr_id x)
     @ opt_list (\<lambda>v. Leaf (C_fteid v)) (dpdr_local_fteid x)"

definition updr_members :: "update_pdr_c \<Rightarrow> core_tree list" where
  "updr_members x =
     []"

definition ufar_members :: "update_far_c \<Rightarrow> core_tree list" where
  "ufar_members x =
     [Leaf (C_far_id (ufar_far_id x))]
     @ opt_list (\<lambda>v. Leaf (C_apply_action v)) (ufar_apply_action x)
     @ opt_list (\<lambda>v. Node PFCP_IE_UPDATE_FORWARDING_PARAMETERS (ufp_members v)) (ufar_update_forwarding_parameters x)
     @ opt_list (\<lambda>v. Leaf (C_bar_id v)) (ufar_bar_id x)"

definition uurr_members :: "update_urr_c \<Rightarrow> core_tree list" where
  "uurr_members x =
     []"

definition uqer_members :: "update_qer_c \<Rightarrow> core_tree list" where
  "uqer_members x =
     []"

definition rpdr_members :: "remove_pdr_c \<Rightarrow> core_tree list" where
  "rpdr_members x =
     opt_list (\<lambda>v. Leaf (C_pdr_id v)) (rpdr_pdr_id x)"

definition rfar_members :: "remove_far_c \<Rightarrow> core_tree list" where
  "rfar_members x =
     opt_list (\<lambda>v. Leaf (C_far_id v)) (rfar_far_id x)"

definition rurr_members :: "remove_urr_c \<Rightarrow> core_tree list" where
  "rurr_members x =
     []"

definition rqer_members :: "remove_qer_c \<Rightarrow> core_tree list" where
  "rqer_members x =
     []"

definition ddr_members :: "downlink_data_report_c \<Rightarrow> core_tree list" where
  "ddr_members x =
     opt_list (\<lambda>v. Leaf (C_pdr_id v)) (ddr_pdr_id x)"

definition ubar_members :: "update_bar_c \<Rightarrow> core_tree list" where
  "ubar_members x =
     []"

definition hbq_members :: "heartbeat_request_c \<Rightarrow> core_tree list" where
  "hbq_members x =
     opt_list (\<lambda>v. Leaf (C_recovery_time_stamp v)) (hbq_recovery_time_stamp x)"

definition hbp_members :: "heartbeat_response_c \<Rightarrow> core_tree list" where
  "hbp_members x =
     opt_list (\<lambda>v. Leaf (C_recovery_time_stamp v)) (hbp_recovery_time_stamp x)"

definition asq_members :: "association_setup_request_c \<Rightarrow> core_tree list" where
  "asq_members x =
     opt_list (\<lambda>v. Leaf (C_node_id v)) (asq_node_id x)
     @ opt_list (\<lambda>v. Leaf (C_recovery_time_stamp v)) (asq_recovery_time_stamp x)
     @ opt_list (\<lambda>v. Leaf (C_up_function_features v)) (asq_up_function_features x)
     @ opt_list (\<lambda>v. Leaf (C_cp_function_features v)) (asq_cp_function_features x)
     @ opt_list (\<lambda>v. Leaf (C_user_plane_ip_resource_information v)) (asq_user_plane_ip_resource_information x)"

definition asp_members :: "association_setup_response_c \<Rightarrow> core_tree list" where
  "asp_members x =
     opt_list (\<lambda>v. Leaf (C_node_id v)) (asp_node_id x)
     @ opt_list (\<lambda>v. Leaf (C_cause v)) (asp_cause x)
     @ opt_list (\<lambda>v. Leaf (C_recovery_time_stamp v)) (asp_recovery_time_stamp x)
     @ opt_list (\<lambda>v. Leaf (C_up_function_features v)) (asp_up_function_features x)
     @ opt_list (\<lambda>v. Leaf (C_cp_function_features v)) (asp_cp_function_features x)
     @ opt_list (\<lambda>v. Leaf (C_user_plane_ip_resource_information v)) (asp_user_plane_ip_resource_information x)"

definition arq_members :: "association_release_request_c \<Rightarrow> core_tree list" where
  "arq_members x =
     opt_list (\<lambda>v. Leaf (C_node_id v)) (arq_node_id x)"

definition arp_members :: "association_release_response_c \<Rightarrow> core_tree list" where
  "arp_members x =
     opt_list (\<lambda>v. Leaf (C_node_id v)) (arp_node_id x)
     @ opt_list (\<lambda>v. Leaf (C_cause v)) (arp_cause x)"

definition nrq_members :: "node_report_request_c \<Rightarrow> core_tree list" where
  "nrq_members x =
     opt_list (\<lambda>v. Leaf (C_node_id v)) (nrq_node_id x)
     @ opt_list (\<lambda>v. Leaf (C_node_report_type v)) (nrq_node_report_type x)"

definition seq_members :: "session_establishment_request_c \<Rightarrow> core_tree list" where
  "seq_members x =
     opt_list (\<lambda>v. Leaf (C_node_id v)) (seq_node_id x)
     @ opt_list (\<lambda>v. Leaf (C_f_seid v)) (seq_cp_fseid x)
     @ map (\<lambda>v. Node PFCP_IE_CREATE_PDR (cpdr_members v)) (seq_create_pdrs x)
     @ map (\<lambda>v. Node PFCP_IE_CREATE_FAR (cfar_members v)) (seq_create_fars x)
     @ map (\<lambda>v. Node PFCP_IE_CREATE_URR (curr_members v)) (seq_create_urrs x)
     @ map (\<lambda>v. Node PFCP_IE_CREATE_QER (cqer_members v)) (seq_create_qers x)
     @ opt_list (\<lambda>v. Node PFCP_IE_CREATE_TRAFFIC_ENDPOINT (cte_members v)) (seq_create_traffic_endpoint x)
     @ opt_list (\<lambda>v. Leaf (C_user_plane_inactivity_timer v)) (seq_user_plane_inactivity_timer x)
     @ opt_list (\<lambda>v. Leaf (C_user_id v)) (seq_user_id x)"

definition sep_members :: "session_establishment_response_c \<Rightarrow> core_tree list" where
  "sep_members x =
     opt_list (\<lambda>v. Leaf (C_node_id v)) (sep_node_id x)
     @ opt_list (\<lambda>v. Leaf (C_cause v)) (sep_cause x)
     @ opt_list (\<lambda>v. Leaf (C_offending_ie v)) (sep_offending_ie x)
     @ opt_list (\<lambda>v. Leaf (C_f_seid v)) (sep_up_fseid x)
     @ map (\<lambda>v. Node PFCP_IE_CREATED_PDR (dpdr_members v)) (sep_created_pdrs x)
     @ opt_list (\<lambda>v. Leaf (C_failed_rule_id v)) (sep_failed_rule_id x)"

definition smq_members :: "session_modification_request_c \<Rightarrow> core_tree list" where
  "smq_members x =
     opt_list (\<lambda>v. Leaf (C_f_seid v)) (smq_cp_fseid x)
     @ map (\<lambda>v. Node PFCP_IE_REMOVE_PDR (rpdr_members v)) (smq_remove_pdrs x)
     @ map (\<lambda>v. Node PFCP_IE_REMOVE_FAR (rfar_members v)) (smq_remove_fars x)
     @ map (\<lambda>v. Node PFCP_IE_REMOVE_URR (rurr_members v)) (smq_remove_urrs x)
     @ map (\<lambda>v. Node PFCP_IE_REMOVE_QER (rqer_members v)) (smq_remove_qers x)
     @ map (\<lambda>v. Node PFCP_IE_CREATE_PDR (cpdr_members v)) (smq_create_pdrs x)
     @ map (\<lambda>v. Node PFCP_IE_CREATE_FAR (cfar_members v)) (smq_create_fars x)
     @ map (\<lambda>v. Node PFCP_IE_CREATE_URR (curr_members v)) (smq_create_urrs x)
     @ map (\<lambda>v. Node PFCP_IE_CREATE_QER (cqer_members v)) (smq_create_qers x)
     @ opt_list (\<lambda>v. Node PFCP_IE_CREATE_TRAFFIC_ENDPOINT (cte_members v)) (smq_create_traffic_endpoint x)
     @ map (\<lambda>v. Node PFCP_IE_UPDATE_PDR (updr_members v)) (smq_update_pdrs x)
     @ map (\<lambda>v. Node PFCP_IE_UPDATE_FAR (ufar_members v)) (smq_update_fars x)
     @ map (\<lambda>v. Node PFCP_IE_UPDATE_URR (uurr_members v)) (smq_update_urrs x)
     @ map (\<lambda>v. Node PFCP_IE_UPDATE_QER (uqer_members v)) (smq_update_qers x)
     @ opt_list (\<lambda>v. Leaf (C_user_plane_inactivity_timer v)) (smq_user_plane_inactivity_timer x)"

definition smp_members :: "session_modification_response_c \<Rightarrow> core_tree list" where
  "smp_members x =
     opt_list (\<lambda>v. Leaf (C_cause v)) (smp_cause x)
     @ opt_list (\<lambda>v. Leaf (C_offending_ie v)) (smp_offending_ie x)
     @ map (\<lambda>v. Node PFCP_IE_CREATED_PDR (dpdr_members v)) (smp_created_pdrs x)
     @ opt_list (\<lambda>v. Leaf (C_failed_rule_id v)) (smp_failed_rule_id x)"

definition sdp_members :: "session_deletion_response_c \<Rightarrow> core_tree list" where
  "sdp_members x =
     opt_list (\<lambda>v. Leaf (C_cause v)) (sdp_cause x)
     @ opt_list (\<lambda>v. Leaf (C_offending_ie v)) (sdp_offending_ie x)"

definition srq_members :: "session_report_request_c \<Rightarrow> core_tree list" where
  "srq_members x =
     opt_list (\<lambda>v. Leaf (C_report_type v)) (srq_report_type x)
     @ opt_list (\<lambda>v. Node PFCP_IE_DOWNLINK_DATA_REPORT (ddr_members v)) (srq_downlink_data_report x)"

definition srp_members :: "session_report_response_c \<Rightarrow> core_tree list" where
  "srp_members x =
     opt_list (\<lambda>v. Leaf (C_cause v)) (srp_cause x)
     @ opt_list (\<lambda>v. Leaf (C_offending_ie v)) (srp_offending_ie x)"

section \<open>The container of an element\<close>

text \<open>
  A loop \<^verbatim>\<open>for (auto sie : ies) sie->to_core_type(c)\<close>: every element is converted and then set, so the
  first that fails, either way, ends it.
\<close>

fun fill :: "(core_ie \<Rightarrow> 'c \<Rightarrow> 'c pfcp_result) \<Rightarrow> core_ie pfcp_result list \<Rightarrow> 'c \<Rightarrow> 'c pfcp_result" where
  "fill st [] x = Inr x"
| "fill st (r # rs) x = rbind r (\<lambda>e. rbind (st e x) (\<lambda>x'. fill st rs x'))"

text \<open>
  \<^verbatim>\<open>to_core_type\<close> of the groups, by their type. That of \<^verbatim>\<open>pfcp_create_urr_ie\<close> has no overload for its own
  container and calls itself for ever.
\<close>

definition filled :: "('c \<Rightarrow> core_group) \<Rightarrow> (core_ie \<Rightarrow> 'c \<Rightarrow> 'c pfcp_result) \<Rightarrow> 'c \<Rightarrow> core_ie pfcp_result list
    \<Rightarrow> core_ie pfcp_result" where
  "filled G st x rs = rbind (fill st rs x) (\<lambda>y. Inr (Cgrp (G y)))"

definition group_to_core :: "u16 \<Rightarrow> core_ie pfcp_result list \<Rightarrow> core_ie pfcp_result" where
  "group_to_core ty rs =
     (if ty = PFCP_IE_PDI then filled G_pdi pdi_set pdi_empty rs
      else if ty = PFCP_IE_CREATE_PDR then filled G_create_pdr cpdr_set cpdr_empty rs
      else if ty = PFCP_IE_UPDATE_FORWARDING_PARAMETERS then filled G_update_forwarding_parameters ufp_set ufp_empty rs
      else if ty = PFCP_IE_FORWARDING_PARAMETERS then filled G_forwarding_parameters fwp_set fwp_empty rs
      else if ty = PFCP_IE_DUPLICATING_PARAMETERS then filled G_duplicating_parameters dup_set dup_empty rs
      else if ty = PFCP_IE_CREATE_FAR then filled G_create_far cfar_set cfar_empty rs
      else if ty = PFCP_IE_CREATE_URR then Inl (Pundefined Endless_loop)
      else if ty = PFCP_IE_CREATE_QER then filled G_create_qer cqer_set cqer_empty rs
      else if ty = PFCP_IE_CREATE_TRAFFIC_ENDPOINT then filled G_create_traffic_endpoint cte_set cte_empty rs
      else if ty = PFCP_IE_CREATED_PDR then filled G_created_pdr dpdr_set dpdr_empty rs
      else if ty = PFCP_IE_UPDATE_PDR then filled G_update_pdr updr_set updr_empty rs
      else if ty = PFCP_IE_UPDATE_FAR then filled G_update_far ufar_set ufar_empty rs
      else if ty = PFCP_IE_UPDATE_URR then filled G_update_urr uurr_set uurr_empty rs
      else if ty = PFCP_IE_UPDATE_QER then filled G_update_qer uqer_set uqer_empty rs
      else if ty = PFCP_IE_REMOVE_PDR then filled G_remove_pdr rpdr_set rpdr_empty rs
      else if ty = PFCP_IE_REMOVE_FAR then filled G_remove_far rfar_set rfar_empty rs
      else if ty = PFCP_IE_REMOVE_URR then filled G_remove_urr rurr_set rurr_empty rs
      else if ty = PFCP_IE_REMOVE_QER then filled G_remove_qer rqer_set rqer_empty rs
      else if ty = PFCP_IE_DOWNLINK_DATA_REPORT then filled G_downlink_data_report ddr_set ddr_empty rs
      else if ty = PFCP_IE_UPDATE_BAR_WITHIN_PFCP_SESSION_REPORT_RESPONSE then filled G_update_bar_within_pfcp_session_report_response ubar_set ubar_empty rs
      else Inl (Pmsg_illegal_ie 0 ty))"

fun ie_to_core :: "pfcp_ie \<Rightarrow> core_ie pfcp_result" where
  "ie_to_core (Pfcp_simple t v) = Inr (Cval (value_to_core v))"
| "ie_to_core (Pfcp_group t sies) = group_to_core (ptlv_type t) (map ie_to_core sies)"

text \<open>\<^verbatim>\<open>pfcp_msg::to_core_type\<close>, for the container of any message.\<close>

definition pfcp_msg_to_core :: "(core_ie \<Rightarrow> 'c \<Rightarrow> 'c pfcp_result) \<Rightarrow> 'c \<Rightarrow> pfcp_ie pfcp_msg \<Rightarrow> 'c pfcp_result" where
  "pfcp_msg_to_core st x m = fill st (map ie_to_core (pies m)) x"

end
