(* ===== verification/Pfcp_Access.thy ===== *)
theory Pfcp_Access
  imports Pfcp_Containers
begin

text \<open>
  The contract of the containers of PFCP towards their users: what \<^verbatim>\<open>set\<close> was given is what \<^verbatim>\<open>get\<close> gives,
  no other member changes, and a container refuses exactly the elements it has no overload for. The contract
  is the locale \<open>set_get\<close>, interpreted on every container of \<open>Pfcp_Containers\<close>.
\<close>

text \<open>What \<^verbatim>\<open>set\<close> was given is what \<^verbatim>\<open>get\<close> gives, and nothing else changes.\<close>

locale set_get =
  fixes st :: "core_ie \<Rightarrow> 'c \<Rightarrow> 'c pfcp_result" and get :: "u16 \<Rightarrow> 'c \<Rightarrow> core_ie option pfcp_result"
  assumes get_same: "st e x = Inr y \<Longrightarrow> get (core_type e) x = Inr u \<Longrightarrow> get (core_type e) y = Inr (Some e)"
    and get_other: "st e x = Inr y \<Longrightarrow> k \<noteq> core_type e \<Longrightarrow> get k y = get k x"
    and set_illegal: "st e x = Inl err \<Longrightarrow> err = Pmsg_illegal_ie 0 (core_type e) \<and> get (core_type e) x = Inl err"
begin

lemma get_after_two:
  assumes "st e x = Inr y" "st f y = Inr z" "core_type e \<noteq> core_type f" "get (core_type e) x = Inr u"
  shows "get (core_type e) z = Inr (Some e)"
  using get_other [OF assms(2), of "core_type e"] get_same [OF assms(1,4)] assms(3) by simp

end

lemma core_group_type_in: "core_group_type g = k \<Longrightarrow> k \<in> {1, 2, 3, 4, 5, 6, 7, 8, 9, 10, 11, 12, 13, 14, 15, 16, 17, 18, 83, 127}"
  by (cases g) (auto simp: pfcp_ie_types)

interpretation pdi_sg: set_get pdi_set pdi_get
  by unfold_locales (auto simp: pdi_set_def pdi_get_def pfcp_ie_types split: core_ie.splits core_value.splits core_group.splits dest!: core_group_type_in)

interpretation cpdr_sg: set_get cpdr_set cpdr_get
  by unfold_locales (auto simp: cpdr_set_def cpdr_get_def pfcp_ie_types split: core_ie.splits core_value.splits core_group.splits dest!: core_group_type_in)

interpretation ufp_sg: set_get ufp_set ufp_get
  by unfold_locales (auto simp: ufp_set_def ufp_get_def pfcp_ie_types split: core_ie.splits core_value.splits core_group.splits dest!: core_group_type_in)

interpretation fwp_sg: set_get fwp_set fwp_get
  by unfold_locales (auto simp: fwp_set_def fwp_get_def pfcp_ie_types split: core_ie.splits core_value.splits core_group.splits dest!: core_group_type_in)

interpretation dup_sg: set_get dup_set dup_get
  by unfold_locales (auto simp: dup_set_def dup_get_def pfcp_ie_types split: core_ie.splits core_value.splits core_group.splits dest!: core_group_type_in)

interpretation cfar_sg: set_get cfar_set cfar_get
  by unfold_locales (auto simp: cfar_set_def cfar_get_def pfcp_ie_types split: core_ie.splits core_value.splits core_group.splits dest!: core_group_type_in)

interpretation curr_sg: set_get curr_set curr_get
  by unfold_locales (auto simp: curr_set_def curr_get_def pfcp_ie_types split: core_ie.splits core_value.splits core_group.splits dest!: core_group_type_in)

interpretation cqer_sg: set_get cqer_set cqer_get
  by unfold_locales (auto simp: cqer_set_def cqer_get_def pfcp_ie_types split: core_ie.splits core_value.splits core_group.splits dest!: core_group_type_in)

interpretation cte_sg: set_get cte_set cte_get
  by unfold_locales (auto simp: cte_set_def cte_get_def pfcp_ie_types split: core_ie.splits core_value.splits core_group.splits dest!: core_group_type_in)

interpretation dpdr_sg: set_get dpdr_set dpdr_get
  by unfold_locales (auto simp: dpdr_set_def dpdr_get_def pfcp_ie_types split: core_ie.splits core_value.splits core_group.splits dest!: core_group_type_in)

interpretation updr_sg: set_get updr_set updr_get
  by unfold_locales (auto simp: updr_set_def updr_get_def pfcp_ie_types split: core_ie.splits core_value.splits core_group.splits dest!: core_group_type_in)

interpretation ufar_sg: set_get ufar_set ufar_get
  by unfold_locales (auto simp: ufar_set_def ufar_get_def pfcp_ie_types split: core_ie.splits core_value.splits core_group.splits dest!: core_group_type_in)

interpretation uurr_sg: set_get uurr_set uurr_get
  by unfold_locales (auto simp: uurr_set_def uurr_get_def pfcp_ie_types split: core_ie.splits core_value.splits core_group.splits dest!: core_group_type_in)

interpretation uqer_sg: set_get uqer_set uqer_get
  by unfold_locales (auto simp: uqer_set_def uqer_get_def pfcp_ie_types split: core_ie.splits core_value.splits core_group.splits dest!: core_group_type_in)

interpretation rpdr_sg: set_get rpdr_set rpdr_get
  by unfold_locales (auto simp: rpdr_set_def rpdr_get_def pfcp_ie_types split: core_ie.splits core_value.splits core_group.splits dest!: core_group_type_in)

interpretation rfar_sg: set_get rfar_set rfar_get
  by unfold_locales (auto simp: rfar_set_def rfar_get_def pfcp_ie_types split: core_ie.splits core_value.splits core_group.splits dest!: core_group_type_in)

interpretation rurr_sg: set_get rurr_set rurr_get
  by unfold_locales (auto simp: rurr_set_def rurr_get_def pfcp_ie_types split: core_ie.splits core_value.splits core_group.splits dest!: core_group_type_in)

interpretation rqer_sg: set_get rqer_set rqer_get
  by unfold_locales (auto simp: rqer_set_def rqer_get_def pfcp_ie_types split: core_ie.splits core_value.splits core_group.splits dest!: core_group_type_in)

interpretation ddr_sg: set_get ddr_set ddr_get
  by unfold_locales (auto simp: ddr_set_def ddr_get_def pfcp_ie_types split: core_ie.splits core_value.splits core_group.splits dest!: core_group_type_in)

interpretation ubar_sg: set_get ubar_set ubar_get
  by unfold_locales (auto simp: ubar_set_def ubar_get_def pfcp_ie_types split: core_ie.splits core_value.splits core_group.splits dest!: core_group_type_in)

interpretation hbq_sg: set_get hbq_set hbq_get
  by unfold_locales (auto simp: hbq_set_def hbq_get_def pfcp_ie_types split: core_ie.splits core_value.splits core_group.splits dest!: core_group_type_in)

interpretation hbp_sg: set_get hbp_set hbp_get
  by unfold_locales (auto simp: hbp_set_def hbp_get_def pfcp_ie_types split: core_ie.splits core_value.splits core_group.splits dest!: core_group_type_in)

interpretation asq_sg: set_get asq_set asq_get
  by unfold_locales (auto simp: asq_set_def asq_get_def pfcp_ie_types split: core_ie.splits core_value.splits core_group.splits dest!: core_group_type_in)

interpretation asp_sg: set_get asp_set asp_get
  by unfold_locales (auto simp: asp_set_def asp_get_def pfcp_ie_types split: core_ie.splits core_value.splits core_group.splits dest!: core_group_type_in)

interpretation arq_sg: set_get arq_set arq_get
  by unfold_locales (auto simp: arq_set_def arq_get_def pfcp_ie_types split: core_ie.splits core_value.splits core_group.splits dest!: core_group_type_in)

interpretation arp_sg: set_get arp_set arp_get
  by unfold_locales (auto simp: arp_set_def arp_get_def pfcp_ie_types split: core_ie.splits core_value.splits core_group.splits dest!: core_group_type_in)

interpretation nrq_sg: set_get nrq_set nrq_get
  by unfold_locales (auto simp: nrq_set_def nrq_get_def pfcp_ie_types split: core_ie.splits core_value.splits core_group.splits dest!: core_group_type_in)

interpretation seq_sg: set_get seq_set seq_get
  by unfold_locales (auto simp: seq_set_def seq_get_def pfcp_ie_types split: core_ie.splits core_value.splits core_group.splits dest!: core_group_type_in)

interpretation sep_sg: set_get sep_set sep_get
  by unfold_locales (auto simp: sep_set_def sep_get_def pfcp_ie_types split: core_ie.splits core_value.splits core_group.splits dest!: core_group_type_in)

interpretation smq_sg: set_get smq_set smq_get
  by unfold_locales (auto simp: smq_set_def smq_get_def pfcp_ie_types split: core_ie.splits core_value.splits core_group.splits dest!: core_group_type_in)

interpretation smp_sg: set_get smp_set smp_get
  by unfold_locales (auto simp: smp_set_def smp_get_def pfcp_ie_types split: core_ie.splits core_value.splits core_group.splits dest!: core_group_type_in)

interpretation sdp_sg: set_get sdp_set sdp_get
  by unfold_locales (auto simp: sdp_set_def sdp_get_def pfcp_ie_types split: core_ie.splits core_value.splits core_group.splits dest!: core_group_type_in)

interpretation srq_sg: set_get srq_set srq_get
  by unfold_locales (auto simp: srq_set_def srq_get_def pfcp_ie_types split: core_ie.splits core_value.splits core_group.splits dest!: core_group_type_in)

interpretation srp_sg: set_get srp_set srp_get
  by unfold_locales (auto simp: srp_set_def srp_get_def pfcp_ie_types split: core_ie.splits core_value.splits core_group.splits dest!: core_group_type_in)

text \<open>An update leaves what it does not name; a FAR that was set is found under its identifier.\<close>

lemma fwp_update_fields:
  "fwp_destination_interface (fwp_update u x) = (case ufp_destination_interface u of None \<Rightarrow> fwp_destination_interface x | Some v \<Rightarrow> Some v)"
  "fwp_network_instance (fwp_update u x) = (case ufp_network_instance u of None \<Rightarrow> fwp_network_instance x | Some v \<Rightarrow> Some v)"
  "fwp_outer_header_creation (fwp_update u x) = (case ufp_outer_header_creation u of None \<Rightarrow> fwp_outer_header_creation x | Some v \<Rightarrow> Some v)"
  "fwp_transport_level_marking (fwp_update u x) = (case ufp_transport_level_marking u of None \<Rightarrow> fwp_transport_level_marking x | Some v \<Rightarrow> Some v)"
  "fwp_forwarding_policy (fwp_update u x) = (case ufp_forwarding_policy u of None \<Rightarrow> fwp_forwarding_policy x | Some v \<Rightarrow> Some v)"
  unfolding fwp_update_def Let_def
  by (cases "ufp_destination_interface u"; cases "ufp_network_instance u"; cases "ufp_outer_header_creation u";
      cases "ufp_transport_level_marking u"; cases "ufp_forwarding_policy u"; simp)+

lemma fwp_update_get:
  assumes "fwp_get k x = Inr old" and "ufp_get k u = Inr new"
  shows "fwp_get k (fwp_update u x) = Inr (case new of None \<Rightarrow> old | Some e \<Rightarrow> Some e)"
  using assms unfolding fwp_get_def ufp_get_def fwp_update_fields
  by (simp split: if_splits) (auto split: option.split)+

lemma find_far_snoc: "find_far fid (fs @ [f]) = (case find_far fid fs of None \<Rightarrow> if cfar_far_id f = Some fid then Some f else None | Some g \<Rightarrow> Some g)"
  by (induction fs) auto

lemma get_create_far_after_set:
  assumes "cfar_far_id f = Some fid"
  shows "seq_set (Cgrp (G_create_far f)) x = Inr y \<Longrightarrow> seq_get_create_far fid x = None \<Longrightarrow> seq_get_create_far fid y = Some f"
    "smq_set (Cgrp (G_create_far f)) u = Inr v \<Longrightarrow> smq_get_create_far fid u = None \<Longrightarrow> smq_get_create_far fid v = Some f"
  using assms by (auto simp: seq_set_def smq_set_def seq_get_create_far_def smq_get_create_far_def find_far_snoc)

end
