(* ===== verification/Pfcp_Core.thy ===== *)
theory Pfcp_Core
  imports Pfcp_Access
begin

text \<open>
  From the container that one side fills to the container that the other side reads: the constructor of
  the message, \<^verbatim>\<open>dump_to\<close>, \<^verbatim>\<open>load_from\<close> and \<^verbatim>\<open>to_core_type\<close> in a row. The contract of a container with
  its elements is the locale \<open>container\<close>, that of a message with the wire the locale \<open>message\<close>; both are
  interpreted on the containers of \<open>Pfcp_Containers\<close>.
\<close>

section \<open>Trees and core values\<close>

fun core_of_tree :: "core_tree \<Rightarrow> core_ie pfcp_result" where
  "core_of_tree (Leaf c) = Inr (Cval c)"
| "core_of_tree (Node ty cs) = group_to_core ty (map core_of_tree cs)"

lemma core_of_tree_of_ie: "core_of_tree (tree_of_ie ie) = ie_to_core ie"
  by (induction ie) (simp_all add: comp_def cong: map_cong)

declare core_of_tree.simps(2) [simp del]

text \<open>The groups of the tree are groups that the factory loads, and none is empty.\<close>

fun tree_full :: "core_tree \<Rightarrow> bool" where
  "tree_full (Leaf c) \<longleftrightarrow> True"
| "tree_full (Node ty cs) \<longleftrightarrow> ty \<in> set pfcp_group_types \<and> cs \<noteq> [] \<and> list_all tree_full cs"

lemma tree_ok_full: "tree_ok junk c \<Longrightarrow> tree_full c"
  by (induction c) (auto simp: list_all_iff)

lemma tree_full_recv [simp]: "tree_full (tree_recv junk c) = tree_full c"
  by (induction c) (auto simp: list_all_iff)

section \<open>Filling a container\<close>

lemma fill_append: "fill st (rs @ rs') x = rbind (fill st rs x) (fill st rs')"
  by (induction st rs x rule: fill.induct) (auto simp: rbind_def split: sum.splits)

lemma map_opt_list: "map f (opt_list g xo) = opt_list (\<lambda>v. f (g v)) xo"
  by (cases xo) simp_all

lemma opt_list_map: "opt_list g (map_option f xo) = opt_list (\<lambda>v. g (f v)) xo"
  by (cases xo) simp_all

lemma full_members:
  "list_all tree_full (opt_list g xo) \<longleftrightarrow> (\<forall>v. xo = Some v \<longrightarrow> tree_full (g v))"
  "list_all tree_full (map g vs) \<longleftrightarrow> (\<forall>v\<in>set vs. tree_full (g v))"
  by (cases xo) (auto simp: list_all_iff)

text \<open>A member that is set once, and a member that grows by each element.\<close>

lemma fill_opt:
  assumes "\<And>v. xo = Some v \<Longrightarrow> rbind (core_of_tree (g v)) (\<lambda>e. st e y) = Inr (upd (\<lambda>_. Some v) y)"
    and "upd (\<lambda>_. None) y = y"
  shows "fill st (map core_of_tree (opt_list g xo)) y = Inr (upd (\<lambda>_. xo) y)"
proof (cases xo)
  case (Some v)
  with assms(1) [OF Some] show ?thesis by (auto simp: rbind_def split: sum.splits)
qed (use assms(2) in simp)

lemma fill_list:
  assumes "\<And>v y. v \<in> set vs \<Longrightarrow> rbind (core_of_tree (g v)) (\<lambda>e. st e y) = Inr (upd (\<lambda>_. sel y @ [v]) y)"
    and "\<And>f y. sel (upd f y) = f (sel y)" and "\<And>y. upd (\<lambda>_. sel y) y = y"
    and "\<And>a b y. upd (\<lambda>_. a) (upd (\<lambda>_. b) y) = upd (\<lambda>_. a) y"
  shows "fill st (map core_of_tree (map g vs)) y = Inr (upd (\<lambda>_. sel y @ vs) y)"
  using assms(1)
proof (induction vs arbitrary: y)
  case (Cons v vs)
  from Cons.prems [of v y] have step: "rbind (core_of_tree (g v)) (\<lambda>e. st e y) = Inr (upd (\<lambda>_. sel y @ [v]) y)" by simp
  have "fill st (map core_of_tree (map g vs)) (upd (\<lambda>_. sel y @ [v]) y) = Inr (upd (\<lambda>_. sel y @ v # vs) y)"
    using Cons.IH [of "upd (\<lambda>_. sel y @ [v]) y"] Cons.prems by (simp add: assms)
  with step show ?case by (auto simp: rbind_def split: sum.splits)
qed (simp add: assms)

section \<open>The contracts\<close>

text \<open>The elements of a container fill an empty container to the same content.\<close>

locale container =
  fixes st :: "core_ie \<Rightarrow> 'c \<Rightarrow> 'c pfcp_result" and empty :: 'c and members :: "'c \<Rightarrow> core_tree list"
    and whole :: "'c \<Rightarrow> bool"
  assumes fills: "list_all tree_full (members x) \<Longrightarrow> whole x \<Longrightarrow> fill st (map core_of_tree (members x)) empty = Inr x"
begin

lemma members_inject:
  assumes "members x = members y" "list_all tree_full (members x)" "whole x" "whole y"
  shows "x = y"
proof -
  have "Inr x = fill st (map core_of_tree (members y)) empty" using fills [OF assms(2,3)] by (simp only: assms(1))
  also have "\<dots> = Inr y" using fills [OF _ assms(4)] assms(2) by (simp only: assms(1))
  finally show ?thesis by simp
qed

end

text \<open>A container of a message: \<open>recv\<close> is what arrives of it.\<close>

locale message = container st empty members whole
  for st :: "core_ie \<Rightarrow> 'c \<Rightarrow> 'c pfcp_result" and empty :: 'c and members :: "'c \<Rightarrow> core_tree list"
    and whole :: "'c \<Rightarrow> bool" +
  fixes recv :: "(nat \<Rightarrow> u8) \<Rightarrow> 'c \<Rightarrow> 'c"
  assumes members_recv: "members (recv junk x) = map (tree_recv junk) (members x)"
    and whole_recv: "whole x \<Longrightarrow> whole (recv junk x)"
begin

lemma delivered:
  assumes ok: "list_all (tree_ok junk) (members x)" and size: "sum_list (map (tree_size junk) (members x)) < 65524"
    and whole: "whole x"
  shows "\<exists>m bs m' s'. pfcp_msg_of_trees junk ty (members x) = Inr m
    \<and> pfcp_message_dump_to junk (addressed so sn m) = Inr (bs, addressed so sn m)
    \<and> pfcp_message_load_from junk' pfcp_msg_default (istream_of bs) = Some (Inr (m', s'))
    \<and> pfcp_msg_to_core st empty m' = Inr (recv junk' x)
    \<and> pmessage_type m' = ty \<and> psequence_number m' = sn AND 0xFFFFFF
    \<and> has_seid m' = (so \<noteq> None) \<and> seid m' = (case so of None \<Rightarrow> 0 | Some r \<Rightarrow> r)"
proof -
  from pfcp_message_wire [OF ok size, where ty = ty and so = so and sn = sn and junk' = junk']
  obtain m bs m' s' where w: "pfcp_msg_of_trees junk ty (members x) = Inr m"
      "pfcp_message_dump_to junk (addressed so sn m) = Inr (bs, addressed so sn m)"
      "pfcp_message_load_from junk' pfcp_msg_default (istream_of bs) = Some (Inr (m', s'))"
      "map tree_of_ie (pies m') = map (tree_recv junk') (members x)"
      "pmessage_type m' = ty" "psequence_number m' = sn AND 0xFFFFFF"
      "has_seid m' = (so \<noteq> None)" "seid m' = (case so of None \<Rightarrow> 0 | Some r \<Rightarrow> r)"
    by blast
  have "map ie_to_core (pies m') = map core_of_tree (map tree_of_ie (pies m'))"
    by (simp add: core_of_tree_of_ie)
  also have "\<dots> = map core_of_tree (members (recv junk' x))" by (simp only: w(4) members_recv)
  finally have "pfcp_msg_to_core st empty m' = fill st (map core_of_tree (members (recv junk' x))) empty"
    by (simp add: pfcp_msg_to_core_def)
  also have "\<dots> = Inr (recv junk' x)"
  proof (rule fills)
    show "list_all tree_full (members (recv junk' x))"
      using ok by (auto simp: members_recv list_all_iff intro: tree_ok_full)
  qed (rule whole_recv [OF whole])
  finally show ?thesis using w by blast
qed

end

section \<open>What arrives\<close>

text \<open>
  The containers as the receiver reads them: network instances in wire form, URR identifiers in the byte order
  of the sender, QoS flow identifiers without the spare bits, and in an outer header creation the memory of the
  receiver for the fields that the description leaves out. Everything else arrives as it was sent.
\<close>

definition pdi_recv :: "(nat \<Rightarrow> u8) \<Rightarrow> pdi_c \<Rightarrow> pdi_c" where
  "pdi_recv junk x = x\<lparr>pdi_network_instance := map_option (\<lambda>v. wire (labels [] v)) (pdi_network_instance x), pdi_qfi := map_option (\<lambda>v. v AND 0x3F) (pdi_qfi x)\<rparr>"

definition fwp_recv :: "(nat \<Rightarrow> u8) \<Rightarrow> forwarding_parameters_c \<Rightarrow> forwarding_parameters_c" where
  "fwp_recv junk x = x\<lparr>fwp_network_instance := map_option (\<lambda>v. wire (labels [] v)) (fwp_network_instance x), fwp_outer_header_creation := map_option (ohc_recv junk) (fwp_outer_header_creation x)\<rparr>"

definition ufp_recv :: "(nat \<Rightarrow> u8) \<Rightarrow> update_forwarding_parameters_c \<Rightarrow> update_forwarding_parameters_c" where
  "ufp_recv junk x = x\<lparr>ufp_network_instance := map_option (\<lambda>v. wire (labels [] v)) (ufp_network_instance x), ufp_outer_header_creation := map_option (ohc_recv junk) (ufp_outer_header_creation x)\<rparr>"

definition cpdr_recv :: "(nat \<Rightarrow> u8) \<Rightarrow> create_pdr_c \<Rightarrow> create_pdr_c" where
  "cpdr_recv junk x = x\<lparr>cpdr_pdi := map_option (pdi_recv junk) (cpdr_pdi x), cpdr_urr_id := map_option bswap32 (cpdr_urr_id x)\<rparr>"

definition cfar_recv :: "(nat \<Rightarrow> u8) \<Rightarrow> create_far_c \<Rightarrow> create_far_c" where
  "cfar_recv junk x = x\<lparr>cfar_forwarding_parameters := map_option (fwp_recv junk) (cfar_forwarding_parameters x)\<rparr>"

definition ufar_recv :: "(nat \<Rightarrow> u8) \<Rightarrow> update_far_c \<Rightarrow> update_far_c" where
  "ufar_recv junk x = x\<lparr>ufar_update_forwarding_parameters := map_option (ufp_recv junk) (ufar_update_forwarding_parameters x)\<rparr>"

definition seq_recv :: "(nat \<Rightarrow> u8) \<Rightarrow> session_establishment_request_c \<Rightarrow> session_establishment_request_c" where
  "seq_recv junk x = x\<lparr>seq_create_pdrs := map (cpdr_recv junk) (seq_create_pdrs x), seq_create_fars := map (cfar_recv junk) (seq_create_fars x)\<rparr>"

definition smq_recv :: "(nat \<Rightarrow> u8) \<Rightarrow> session_modification_request_c \<Rightarrow> session_modification_request_c" where
  "smq_recv junk x = x\<lparr>smq_create_pdrs := map (cpdr_recv junk) (smq_create_pdrs x), smq_create_fars := map (cfar_recv junk) (smq_create_fars x), smq_update_fars := map (ufar_recv junk) (smq_update_fars x)\<rparr>"

lemma members_recv:
  "pdi_members (pdi_recv junk x_pdi) = map (tree_recv junk) (pdi_members x_pdi)"
  "fwp_members (fwp_recv junk x_fwp) = map (tree_recv junk) (fwp_members x_fwp)"
  "ufp_members (ufp_recv junk x_ufp) = map (tree_recv junk) (ufp_members x_ufp)"
  "cpdr_members (cpdr_recv junk x_cpdr) = map (tree_recv junk) (cpdr_members x_cpdr)"
  "cfar_members (cfar_recv junk x_cfar) = map (tree_recv junk) (cfar_members x_cfar)"
  "ufar_members (ufar_recv junk x_ufar) = map (tree_recv junk) (ufar_members x_ufar)"
proof -
  show pdi: "pdi_members (pdi_recv junk x_pdi) = map (tree_recv junk) (pdi_members x_pdi)" for x_pdi
    by (simp add: pdi_members_def pdi_recv_def map_opt_list opt_list_map)
  show fwp: "fwp_members (fwp_recv junk x_fwp) = map (tree_recv junk) (fwp_members x_fwp)" for x_fwp
    by (simp add: fwp_members_def fwp_recv_def map_opt_list opt_list_map)
  show ufp: "ufp_members (ufp_recv junk x_ufp) = map (tree_recv junk) (ufp_members x_ufp)" for x_ufp
    by (simp add: ufp_members_def ufp_recv_def map_opt_list opt_list_map)
  show cpdr: "cpdr_members (cpdr_recv junk x_cpdr) = map (tree_recv junk) (cpdr_members x_cpdr)" for x_cpdr
    by (simp add: cpdr_members_def cpdr_recv_def map_opt_list opt_list_map pdi)
  show cfar: "cfar_members (cfar_recv junk x_cfar) = map (tree_recv junk) (cfar_members x_cfar)" for x_cfar
    by (simp add: cfar_members_def cfar_recv_def map_opt_list opt_list_map dup_members_def fwp)
  show ufar: "ufar_members (ufar_recv junk x_ufar) = map (tree_recv junk) (ufar_members x_ufar)" for x_ufar
    by (simp add: ufar_members_def ufar_recv_def map_opt_list opt_list_map ufp)
qed

lemma members_same:
  "map (tree_recv junk) (dpdr_members x_dpdr) = dpdr_members x_dpdr"
  "map (tree_recv junk) (rpdr_members x_rpdr) = rpdr_members x_rpdr"
  "map (tree_recv junk) (rfar_members x_rfar) = rfar_members x_rfar"
  "map (tree_recv junk) (ddr_members x_ddr) = ddr_members x_ddr"
  by (simp_all add: dpdr_members_def rpdr_members_def rfar_members_def ddr_members_def map_opt_list)

section \<open>The groups\<close>

lemma group_to_core_simps:
  "group_to_core PFCP_IE_PDI rs = filled G_pdi pdi_set pdi_empty rs"
  "group_to_core PFCP_IE_FORWARDING_PARAMETERS rs = filled G_forwarding_parameters fwp_set fwp_empty rs"
  "group_to_core PFCP_IE_UPDATE_FORWARDING_PARAMETERS rs = filled G_update_forwarding_parameters ufp_set ufp_empty rs"
  "group_to_core PFCP_IE_CREATE_PDR rs = filled G_create_pdr cpdr_set cpdr_empty rs"
  "group_to_core PFCP_IE_CREATE_FAR rs = filled G_create_far cfar_set cfar_empty rs"
  "group_to_core PFCP_IE_CREATED_PDR rs = filled G_created_pdr dpdr_set dpdr_empty rs"
  "group_to_core PFCP_IE_UPDATE_FAR rs = filled G_update_far ufar_set ufar_empty rs"
  "group_to_core PFCP_IE_REMOVE_PDR rs = filled G_remove_pdr rpdr_set rpdr_empty rs"
  "group_to_core PFCP_IE_REMOVE_FAR rs = filled G_remove_far rfar_set rfar_empty rs"
  "group_to_core PFCP_IE_DOWNLINK_DATA_REPORT rs = filled G_downlink_data_report ddr_set ddr_empty rs"
  by (simp_all add: group_to_core_def pfcp_ie_types)

lemma no_members [simp]:
  "dup_members v_dup = []"
  "curr_members v_curr = []"
  "cqer_members v_cqer = []"
  "cte_members v_cte = []"
  "updr_members v_updr = []"
  "uurr_members v_uurr = []"
  "uqer_members v_uqer = []"
  "rurr_members v_rurr = []"
  "rqer_members v_rqer = []"
  "ubar_members v_ubar = []"
  by (simp_all add: dup_members_def curr_members_def cqer_members_def cte_members_def updr_members_def uurr_members_def
      uqer_members_def rurr_members_def rqer_members_def ubar_members_def)

interpretation pdi_c: container pdi_set pdi_empty pdi_members "\<lambda>x. True"
  by unfold_locales (simp add: pdi_members_def pdi_empty_def pdi_set_def fill_append fill_opt [where upd = pdi_source_interface_update] fill_opt [where upd = pdi_local_fteid_update]
      fill_opt [where upd = pdi_network_instance_update] fill_opt [where upd = pdi_ue_ip_address_update]
      fill_opt [where upd = pdi_sdf_filter_update] fill_opt [where upd = pdi_application_id_update]
      fill_opt [where upd = pdi_qfi_update]
      full_members del: map_map)

lemma pdi_node: "list_all tree_full (pdi_members x) \<Longrightarrow> core_of_tree (Node PFCP_IE_PDI (pdi_members x)) = Inr (Cgrp (G_pdi x))"
  using pdi_c.fills [of x] by (simp add: core_of_tree.simps(2) group_to_core_simps filled_def)

interpretation fwp_c: container fwp_set fwp_empty fwp_members "\<lambda>x. True"
  by unfold_locales (simp add: fwp_members_def fwp_empty_def fwp_set_def fill_append fill_opt [where upd = fwp_destination_interface_update] fill_opt [where upd = fwp_network_instance_update]
      fill_opt [where upd = fwp_outer_header_creation_update]
      fill_opt [where upd = fwp_transport_level_marking_update]
      fill_opt [where upd = fwp_forwarding_policy_update]
      full_members del: map_map)

lemma fwp_node: "list_all tree_full (fwp_members x) \<Longrightarrow> core_of_tree (Node PFCP_IE_FORWARDING_PARAMETERS (fwp_members x)) = Inr (Cgrp (G_forwarding_parameters x))"
  using fwp_c.fills [of x] by (simp add: core_of_tree.simps(2) group_to_core_simps filled_def)

interpretation ufp_c: container ufp_set ufp_empty ufp_members "\<lambda>x. True"
  by unfold_locales (simp add: ufp_members_def ufp_empty_def ufp_set_def fill_append fill_opt [where upd = ufp_destination_interface_update] fill_opt [where upd = ufp_network_instance_update]
      fill_opt [where upd = ufp_outer_header_creation_update]
      fill_opt [where upd = ufp_transport_level_marking_update]
      fill_opt [where upd = ufp_forwarding_policy_update]
      full_members del: map_map)

lemma ufp_node: "list_all tree_full (ufp_members x) \<Longrightarrow> core_of_tree (Node PFCP_IE_UPDATE_FORWARDING_PARAMETERS (ufp_members x)) = Inr (Cgrp (G_update_forwarding_parameters x))"
  using ufp_c.fills [of x] by (simp add: core_of_tree.simps(2) group_to_core_simps filled_def)

interpretation cpdr_c: container cpdr_set cpdr_empty cpdr_members "\<lambda>x. True"
  by unfold_locales (simp add: cpdr_members_def cpdr_empty_def cpdr_set_def fill_append fill_opt [where upd = cpdr_pdr_id_update] fill_opt [where upd = cpdr_precedence_update]
      fill_opt [where upd = cpdr_pdi_update] fill_opt [where upd = cpdr_outer_header_removal_update]
      fill_opt [where upd = cpdr_far_id_update] fill_opt [where upd = cpdr_urr_id_update]
      fill_opt [where upd = cpdr_qer_id_update] fill_opt [where upd = cpdr_activate_predefined_rules_update]
      full_members pdi_node del: map_map)

lemma cpdr_node: "list_all tree_full (cpdr_members x) \<Longrightarrow> core_of_tree (Node PFCP_IE_CREATE_PDR (cpdr_members x)) = Inr (Cgrp (G_create_pdr x))"
  using cpdr_c.fills [of x] by (simp add: core_of_tree.simps(2) group_to_core_simps filled_def)

interpretation cfar_c: container cfar_set cfar_empty cfar_members "\<lambda>x. True"
  by unfold_locales (simp add: cfar_members_def cfar_empty_def cfar_set_def fill_append fill_opt [where upd = cfar_far_id_update] fill_opt [where upd = cfar_apply_action_update]
      fill_opt [where upd = cfar_forwarding_parameters_update]
      fill_opt [where upd = cfar_duplicating_parameters_update] fill_opt [where upd = cfar_bar_id_update]
      full_members fwp_node del: map_map)

lemma cfar_node: "list_all tree_full (cfar_members x) \<Longrightarrow> core_of_tree (Node PFCP_IE_CREATE_FAR (cfar_members x)) = Inr (Cgrp (G_create_far x))"
  using cfar_c.fills [of x] by (simp add: core_of_tree.simps(2) group_to_core_simps filled_def)

interpretation dpdr_c: container dpdr_set dpdr_empty dpdr_members "\<lambda>x. True"
  by unfold_locales (simp add: dpdr_members_def dpdr_empty_def dpdr_set_def fill_append fill_opt [where upd = dpdr_pdr_id_update] fill_opt [where upd = dpdr_local_fteid_update]
      full_members del: map_map)

lemma dpdr_node: "list_all tree_full (dpdr_members x) \<Longrightarrow> core_of_tree (Node PFCP_IE_CREATED_PDR (dpdr_members x)) = Inr (Cgrp (G_created_pdr x))"
  using dpdr_c.fills [of x] by (simp add: core_of_tree.simps(2) group_to_core_simps filled_def)

interpretation ufar_c: container ufar_set ufar_empty ufar_members "\<lambda>x. True"
  by unfold_locales (simp add: ufar_members_def ufar_empty_def ufar_set_def fill_append fill_opt [where upd = ufar_apply_action_update]
      fill_opt [where upd = ufar_update_forwarding_parameters_update] fill_opt [where upd = ufar_bar_id_update]
      full_members ufp_node del: map_map)

lemma ufar_node: "list_all tree_full (ufar_members x) \<Longrightarrow> core_of_tree (Node PFCP_IE_UPDATE_FAR (ufar_members x)) = Inr (Cgrp (G_update_far x))"
  using ufar_c.fills [of x] by (simp add: core_of_tree.simps(2) group_to_core_simps filled_def)

interpretation rpdr_c: container rpdr_set rpdr_empty rpdr_members "\<lambda>x. True"
  by unfold_locales (simp add: rpdr_members_def rpdr_empty_def rpdr_set_def fill_append fill_opt [where upd = rpdr_pdr_id_update]
      full_members del: map_map)

lemma rpdr_node: "list_all tree_full (rpdr_members x) \<Longrightarrow> core_of_tree (Node PFCP_IE_REMOVE_PDR (rpdr_members x)) = Inr (Cgrp (G_remove_pdr x))"
  using rpdr_c.fills [of x] by (simp add: core_of_tree.simps(2) group_to_core_simps filled_def)

interpretation rfar_c: container rfar_set rfar_empty rfar_members "\<lambda>x. True"
  by unfold_locales (simp add: rfar_members_def rfar_empty_def rfar_set_def fill_append fill_opt [where upd = rfar_far_id_update]
      full_members del: map_map)

lemma rfar_node: "list_all tree_full (rfar_members x) \<Longrightarrow> core_of_tree (Node PFCP_IE_REMOVE_FAR (rfar_members x)) = Inr (Cgrp (G_remove_far x))"
  using rfar_c.fills [of x] by (simp add: core_of_tree.simps(2) group_to_core_simps filled_def)

interpretation ddr_c: container ddr_set ddr_empty ddr_members "\<lambda>x. True"
  by unfold_locales (simp add: ddr_members_def ddr_empty_def ddr_set_def fill_append fill_opt [where upd = ddr_pdr_id_update]
      full_members del: map_map)

lemma ddr_node: "list_all tree_full (ddr_members x) \<Longrightarrow> core_of_tree (Node PFCP_IE_DOWNLINK_DATA_REPORT (ddr_members x)) = Inr (Cgrp (G_downlink_data_report x))"
  using ddr_c.fills [of x] by (simp add: core_of_tree.simps(2) group_to_core_simps filled_def)

section \<open>The messages\<close>

interpretation hbq_m: message hbq_set hbq_empty hbq_members "\<lambda>x. True" "\<lambda>_ x. x"
proof unfold_locales
  fix x :: heartbeat_request_c and junk
  assume "list_all tree_full (hbq_members x)" "True"
  then show "fill hbq_set (map core_of_tree (hbq_members x)) hbq_empty = Inr x"
    by (simp add: hbq_members_def hbq_empty_def hbq_set_def fill_append fill_opt [where upd = hbq_recovery_time_stamp_update]
      full_members del: map_map)
qed (simp_all add: hbq_members_def map_opt_list opt_list_map members_same)

interpretation hbp_m: message hbp_set hbp_empty hbp_members "\<lambda>x. True" "\<lambda>_ x. x"
proof unfold_locales
  fix x :: heartbeat_response_c and junk
  assume "list_all tree_full (hbp_members x)" "True"
  then show "fill hbp_set (map core_of_tree (hbp_members x)) hbp_empty = Inr x"
    by (simp add: hbp_members_def hbp_empty_def hbp_set_def fill_append fill_opt [where upd = hbp_recovery_time_stamp_update]
      full_members del: map_map)
qed (simp_all add: hbp_members_def map_opt_list opt_list_map members_same)

interpretation asq_m: message asq_set asq_empty asq_members "\<lambda>x. True" "\<lambda>_ x. x"
proof unfold_locales
  fix x :: association_setup_request_c and junk
  assume "list_all tree_full (asq_members x)" "True"
  then show "fill asq_set (map core_of_tree (asq_members x)) asq_empty = Inr x"
    by (simp add: asq_members_def asq_empty_def asq_set_def fill_append fill_opt [where upd = asq_node_id_update] fill_opt [where upd = asq_recovery_time_stamp_update]
      fill_opt [where upd = asq_up_function_features_update]
      fill_opt [where upd = asq_cp_function_features_update]
      fill_opt [where upd = asq_user_plane_ip_resource_information_update]
      full_members del: map_map)
qed (simp_all add: asq_members_def map_opt_list opt_list_map members_same)

interpretation asp_m: message asp_set asp_empty asp_members "\<lambda>x. True" "\<lambda>_ x. x"
proof unfold_locales
  fix x :: association_setup_response_c and junk
  assume "list_all tree_full (asp_members x)" "True"
  then show "fill asp_set (map core_of_tree (asp_members x)) asp_empty = Inr x"
    by (simp add: asp_members_def asp_empty_def asp_set_def fill_append fill_opt [where upd = asp_node_id_update] fill_opt [where upd = asp_cause_update]
      fill_opt [where upd = asp_recovery_time_stamp_update]
      fill_opt [where upd = asp_up_function_features_update]
      fill_opt [where upd = asp_cp_function_features_update]
      fill_opt [where upd = asp_user_plane_ip_resource_information_update]
      full_members del: map_map)
qed (simp_all add: asp_members_def map_opt_list opt_list_map members_same)

interpretation arq_m: message arq_set arq_empty arq_members "\<lambda>x. True" "\<lambda>_ x. x"
proof unfold_locales
  fix x :: association_release_request_c and junk
  assume "list_all tree_full (arq_members x)" "True"
  then show "fill arq_set (map core_of_tree (arq_members x)) arq_empty = Inr x"
    by (simp add: arq_members_def arq_empty_def arq_set_def fill_append fill_opt [where upd = arq_node_id_update]
      full_members del: map_map)
qed (simp_all add: arq_members_def map_opt_list opt_list_map members_same)

interpretation arp_m: message arp_set arp_empty arp_members "\<lambda>x. True" "\<lambda>_ x. x"
proof unfold_locales
  fix x :: association_release_response_c and junk
  assume "list_all tree_full (arp_members x)" "True"
  then show "fill arp_set (map core_of_tree (arp_members x)) arp_empty = Inr x"
    by (simp add: arp_members_def arp_empty_def arp_set_def fill_append fill_opt [where upd = arp_node_id_update] fill_opt [where upd = arp_cause_update]
      full_members del: map_map)
qed (simp_all add: arp_members_def map_opt_list opt_list_map members_same)

interpretation nrq_m: message nrq_set nrq_empty nrq_members "\<lambda>x. True" "\<lambda>_ x. x"
proof unfold_locales
  fix x :: node_report_request_c and junk
  assume "list_all tree_full (nrq_members x)" "True"
  then show "fill nrq_set (map core_of_tree (nrq_members x)) nrq_empty = Inr x"
    by (simp add: nrq_members_def nrq_empty_def nrq_set_def fill_append fill_opt [where upd = nrq_node_id_update] fill_opt [where upd = nrq_node_report_type_update]
      full_members del: map_map)
qed (simp_all add: nrq_members_def map_opt_list opt_list_map members_same)

interpretation seq_m: message seq_set seq_empty seq_members "\<lambda>x. True" seq_recv
proof unfold_locales
  fix x :: session_establishment_request_c and junk
  assume "list_all tree_full (seq_members x)" "True"
  then show "fill seq_set (map core_of_tree (seq_members x)) seq_empty = Inr x"
    by (simp add: seq_members_def seq_empty_def seq_set_def fill_append fill_opt [where upd = seq_node_id_update] fill_opt [where upd = seq_cp_fseid_update]
      fill_list [where upd = seq_create_pdrs_update and sel = seq_create_pdrs]
      fill_list [where upd = seq_create_fars_update and sel = seq_create_fars]
      fill_list [where upd = seq_create_urrs_update and sel = seq_create_urrs]
      fill_list [where upd = seq_create_qers_update and sel = seq_create_qers]
      fill_opt [where upd = seq_create_traffic_endpoint_update]
      fill_opt [where upd = seq_user_plane_inactivity_timer_update] fill_opt [where upd = seq_user_id_update]
      full_members cpdr_node cfar_node del: map_map)
qed (simp_all add: seq_members_def seq_recv_def members_recv map_opt_list opt_list_map members_same)

interpretation sep_m: message sep_set sep_empty sep_members "\<lambda>x. True" "\<lambda>_ x. x"
proof unfold_locales
  fix x :: session_establishment_response_c and junk
  assume "list_all tree_full (sep_members x)" "True"
  then show "fill sep_set (map core_of_tree (sep_members x)) sep_empty = Inr x"
    by (simp add: sep_members_def sep_empty_def sep_set_def fill_append fill_opt [where upd = sep_node_id_update] fill_opt [where upd = sep_cause_update]
      fill_opt [where upd = sep_offending_ie_update] fill_opt [where upd = sep_up_fseid_update]
      fill_list [where upd = sep_created_pdrs_update and sel = sep_created_pdrs]
      fill_opt [where upd = sep_failed_rule_id_update]
      full_members dpdr_node del: map_map)
qed (simp_all add: sep_members_def map_opt_list opt_list_map members_same)

interpretation smq_m: message smq_set smq_empty smq_members "\<lambda>x. True" smq_recv
proof unfold_locales
  fix x :: session_modification_request_c and junk
  assume "list_all tree_full (smq_members x)" "True"
  then show "fill smq_set (map core_of_tree (smq_members x)) smq_empty = Inr x"
    by (simp add: smq_members_def smq_empty_def smq_set_def fill_append fill_opt [where upd = smq_cp_fseid_update]
      fill_list [where upd = smq_remove_pdrs_update and sel = smq_remove_pdrs]
      fill_list [where upd = smq_remove_fars_update and sel = smq_remove_fars]
      fill_list [where upd = smq_remove_urrs_update and sel = smq_remove_urrs]
      fill_list [where upd = smq_remove_qers_update and sel = smq_remove_qers]
      fill_list [where upd = smq_create_pdrs_update and sel = smq_create_pdrs]
      fill_list [where upd = smq_create_fars_update and sel = smq_create_fars]
      fill_list [where upd = smq_create_urrs_update and sel = smq_create_urrs]
      fill_list [where upd = smq_create_qers_update and sel = smq_create_qers]
      fill_opt [where upd = smq_create_traffic_endpoint_update]
      fill_list [where upd = smq_update_pdrs_update and sel = smq_update_pdrs]
      fill_list [where upd = smq_update_fars_update and sel = smq_update_fars]
      fill_list [where upd = smq_update_urrs_update and sel = smq_update_urrs]
      fill_list [where upd = smq_update_qers_update and sel = smq_update_qers]
      fill_opt [where upd = smq_user_plane_inactivity_timer_update]
      full_members rpdr_node rfar_node cpdr_node cfar_node ufar_node del: map_map)
qed (simp_all add: smq_members_def smq_recv_def members_recv map_opt_list opt_list_map members_same)

interpretation smp_m: message smp_set smp_empty smp_members "\<lambda>x. True" "\<lambda>_ x. x"
proof unfold_locales
  fix x :: session_modification_response_c and junk
  assume "list_all tree_full (smp_members x)" "True"
  then show "fill smp_set (map core_of_tree (smp_members x)) smp_empty = Inr x"
    by (simp add: smp_members_def smp_empty_def smp_set_def fill_append fill_opt [where upd = smp_cause_update] fill_opt [where upd = smp_offending_ie_update]
      fill_list [where upd = smp_created_pdrs_update and sel = smp_created_pdrs]
      fill_opt [where upd = smp_failed_rule_id_update]
      full_members dpdr_node del: map_map)
qed (simp_all add: smp_members_def map_opt_list opt_list_map members_same)

interpretation sdp_m: message sdp_set sdp_empty sdp_members "\<lambda>x. True" "\<lambda>_ x. x"
proof unfold_locales
  fix x :: session_deletion_response_c and junk
  assume "list_all tree_full (sdp_members x)" "True"
  then show "fill sdp_set (map core_of_tree (sdp_members x)) sdp_empty = Inr x"
    by (simp add: sdp_members_def sdp_empty_def sdp_set_def fill_append fill_opt [where upd = sdp_cause_update] fill_opt [where upd = sdp_offending_ie_update]
      full_members del: map_map)
qed (simp_all add: sdp_members_def map_opt_list opt_list_map members_same)

interpretation srq_m: message srq_set srq_empty srq_members "\<lambda>x. True" "\<lambda>_ x. x"
proof unfold_locales
  fix x :: session_report_request_c and junk
  assume "list_all tree_full (srq_members x)" "True"
  then show "fill srq_set (map core_of_tree (srq_members x)) srq_empty = Inr x"
    by (simp add: srq_members_def srq_empty_def srq_set_def fill_append fill_opt [where upd = srq_report_type_update] fill_opt [where upd = srq_downlink_data_report_update]
      full_members ddr_node del: map_map)
qed (simp_all add: srq_members_def map_opt_list opt_list_map members_same)

interpretation srp_m: message srp_set srp_empty srp_members "\<lambda>x. srp_update_bar x = None" "\<lambda>_ x. x"
proof unfold_locales
  fix x :: session_report_response_c and junk
  assume "list_all tree_full (srp_members x)" "srp_update_bar x = None"
  then show "fill srp_set (map core_of_tree (srp_members x)) srp_empty = Inr x"
    by (simp add: srp_members_def srp_empty_def srp_set_def fill_append fill_opt [where upd = srp_cause_update] fill_opt [where upd = srp_offending_ie_update]
      full_members del: map_map)
qed (simp_all add: srp_members_def map_opt_list opt_list_map members_same)

end
