(* ===== verification/Pfcp_Order.thy ===== *)
theory Pfcp_Order
  imports Pfcp_Core
begin

text \<open>
  What a loaded PFCP message means to its container: every element that the factory returns is an object of the
  class that its type names, and a container reads the same content from the elements in any order that keeps
  elements of one type in sequence. The second is a contract, the locale \<open>order_free\<close>, interpreted on the
  containers of all messages.
\<close>

section \<open>Types\<close>

text \<open>An element whose class is the one of its type, down to the members of its groups.\<close>

fun ie_typed :: "pfcp_ie \<Rightarrow> bool" where
  "ie_typed (Pfcp_simple t v) \<longleftrightarrow> core_value_type (value_to_core v) = ptlv_type t"
| "ie_typed (Pfcp_group t sies) \<longleftrightarrow> ptlv_type t \<in> set pfcp_group_types \<and> list_all ie_typed sies"

lemma if_typeE:
  "(if ty = k then Some a else e) = Some a' \<Longrightarrow> (ty = k \<Longrightarrow> a = a' \<Longrightarrow> P) \<Longrightarrow> (e = Some a' \<Longrightarrow> P) \<Longrightarrow> P"
  by (simp split: if_splits)

lemma pvalue_load_typed:
  "pvalue_load_from junk t s = Some (Inr (v, s')) \<Longrightarrow> core_value_type (value_to_core v) = ptlv_type t"
  unfolding pvalue_load_from_def Let_def by (elim if_typeE) (auto simp: lift_pload_eq)

lemma load_typed:
  "(pfcp_load_ie junk n s = Some (Inr (Some ie, s')) \<longrightarrow> ie_typed ie)
   \<and> (list_all ie_typed acc \<longrightarrow> pfcp_load_group junk n t k acc s = Some (Inr (sies, s')) \<longrightarrow> list_all ie_typed sies)"
proof (induction n arbitrary: s ie s' acc t k sies)
  case (Suc n)
  show ?case
    by (auto split: prod.splits option.splits sum.splits if_splits dest: pvalue_load_typed
        dest!: Suc.IH [THEN conjunct1, rule_format] Suc.IH [THEN conjunct2, rule_format, rotated])
qed simp

lemma new_pfcp_ie_typed: "new_pfcp_ie_from_stream junk s = Some (Inr (Some ie, s')) \<Longrightarrow> ie_typed ie"
  using load_typed [THEN conjunct1] unfolding new_pfcp_ie_from_stream_def by blast

lemma pfcp_msg_loop_typed:
  "pfcp_msg_loop junk n c l acc s = Some (Inr (l', acc', s')) \<Longrightarrow> list_all ie_typed acc \<Longrightarrow> list_all ie_typed acc'"
proof (induction n arbitrary: l acc s)
  case (Suc n)
  then show ?case
  proof (cases "\<exists>ie s1. new_pfcp_ie_from_stream junk s = Some (Inr (Some ie, s1))")
    case True
    then obtain ie s1 where ie: "new_pfcp_ie_from_stream junk s = Some (Inr (Some ie, s1))" by blast
    with Suc.prems show ?thesis
      by (auto simp: Let_def new_pfcp_ie_typed [OF ie] split: if_splits dest: Suc.IH)
  qed (auto split: option.splits sum.splits)
qed simp

lemma message_typed:
  assumes "pfcp_message_load_from junk m0 s = Some (Inr (m, s'))" and "list_all ie_typed (pies m0)"
  shows "list_all ie_typed (pies m)"
proof -
  obtain m1 s1 where h: "pfcp_header_load_from (fresh junk 3) m0 s = (m1, s1)" by fastforce
  then have "pies m1 = pies m0" by (auto simp: pfcp_header_load_from_def Let_def split: prod.splits if_splits)
  with assms h show ?thesis
    by (auto simp: pfcp_message_load_from_def simp del: pfcp_msg_loop.simps
        split: option.splits sum.splits if_splits) (erule pfcp_msg_loop_typed)
qed

lemma group_to_core_type: "group_to_core ty rs = Inr e \<Longrightarrow> core_type e = ty"
  unfolding group_to_core_def filled_def by (auto simp: rbind_Inr_iff split: if_splits)

lemma ie_to_core_type: "ie_typed ie \<Longrightarrow> ie_to_core ie = Inr e \<Longrightarrow> core_type e = ptlv_type (pfcp_ie_tlv ie)"
  by (cases ie) (auto dest: group_to_core_type)

section \<open>Order\<close>

locale order_free =
  fixes st :: "core_ie \<Rightarrow> 'c \<Rightarrow> 'c pfcp_result"
  assumes commute: "st e x = Inr y \<Longrightarrow> st f y = Inr z \<Longrightarrow> core_type e \<noteq> core_type f
      \<Longrightarrow> rbind (st f x) (st e) = Inr z"
begin

lemma fill_back:
  assumes "fill st (Inr e # map f a @ rs) x = Inr z"
    and "\<forall>i\<in>set a. \<forall>d. f i = Inr d \<longrightarrow> core_type d \<noteq> core_type e"
  shows "fill st (map f a @ Inr e # rs) x = Inr z"
  using assms
proof (induction a arbitrary: x)
  case (Cons i a)
  then obtain y d u where d: "st e x = Inr y" "f i = Inr d" "st d y = Inr u" "fill st (map f a @ rs) u = Inr z"
    by (auto simp: rbind_Inr_iff)
  have "core_type e \<noteq> core_type d" using Cons.prems(2) d(2) by auto
  from commute [OF d(1,3) this] obtain w where w: "st d x = Inr w" "st e w = Inr u" by (auto simp: rbind_Inr_iff)
  with d(4) have "fill st (Inr e # map f a @ rs) w = Inr z" by simp
  with Cons have "fill st (map f a @ Inr e # rs) w = Inr z" by simp
  with w(1) d(2) show ?case by simp
qed simp

lemma fill_order:
  assumes "fill st (map f l) x = Inr z" and "\<And>k. filter (\<lambda>i. ty i = k) l = filter (\<lambda>i. ty i = k) l'"
    and "\<forall>i\<in>set l. \<forall>d. f i = Inr d \<longrightarrow> core_type d = ty i"
  shows "fill st (map f l') x = Inr z"
  using assms
proof (induction l arbitrary: l' x)
  case Nil
  have "j \<notin> set l'" for j using Nil.prems(2) [of "ty j"] by (auto simp: filter_empty_conv eq_commute [of "[]"])
  then have "l' = []" by (cases l') auto
  with Nil show ?case by simp
next
  case (Cons i l)
  from Cons.prems(1) obtain e y where e: "f i = Inr e" "st e x = Inr y" "fill st (map f l) y = Inr z"
    by (auto simp: rbind_Inr_iff)
  have "i # filter (\<lambda>j. ty j = ty i) l = filter (\<lambda>j. ty j = ty i) l'" using Cons.prems(2) [of "ty i"] by simp
  then obtain a b where l': "l' = a @ i # b" "\<forall>j\<in>set a. ty j \<noteq> ty i"
    using filter_eq_ConsD [of "\<lambda>j. ty j = ty i" l' i] by (metis (no_types, lifting))
  have keys: "filter (\<lambda>j. ty j = k) l = filter (\<lambda>j. ty j = k) (a @ b)" for k
  proof (cases "k = ty i")
    case True
    then have "filter (\<lambda>j. ty j = k) a = []" using l'(2) by (auto simp: filter_empty_conv)
    with Cons.prems(2) [of k] True show ?thesis by (simp add: l'(1))
  qed (use Cons.prems(2) [of k] in \<open>simp add: l'(1)\<close>)
  have "set l' \<subseteq> insert i (set l)"
  proof
    fix j assume "j \<in> set l'"
    then have "j \<in> set (filter (\<lambda>i. ty i = ty j) l')" by simp
    then show "j \<in> insert i (set l)" unfolding Cons.prems(2) [symmetric] by (auto split: if_splits)
  qed
  then have "\<forall>j\<in>set a. \<forall>d. f j = Inr d \<longrightarrow> core_type d \<noteq> core_type e"
    using Cons.prems(3) l' e(1) by fastforce
  moreover have "fill st (map f (a @ b)) y = Inr z" using Cons.IH [OF e(3) keys] Cons.prems(3) by simp
  ultimately show ?case using fill_back [of e f a "map f b" x z] e l'(1) by simp
qed

end

interpretation hbq_o: order_free hbq_set
  by unfold_locales (auto simp: hbq_set_def rbind_def split: core_ie.splits core_value.splits core_group.splits)

interpretation hbp_o: order_free hbp_set
  by unfold_locales (auto simp: hbp_set_def rbind_def split: core_ie.splits core_value.splits core_group.splits)

interpretation asq_o: order_free asq_set
  by unfold_locales (auto simp: asq_set_def rbind_def split: core_ie.splits core_value.splits core_group.splits)

interpretation asp_o: order_free asp_set
  by unfold_locales (auto simp: asp_set_def rbind_def split: core_ie.splits core_value.splits core_group.splits)

interpretation arq_o: order_free arq_set
  by unfold_locales (auto simp: arq_set_def rbind_def split: core_ie.splits core_value.splits core_group.splits)

interpretation arp_o: order_free arp_set
  by unfold_locales (auto simp: arp_set_def rbind_def split: core_ie.splits core_value.splits core_group.splits)

interpretation nrq_o: order_free nrq_set
  by unfold_locales (auto simp: nrq_set_def rbind_def split: core_ie.splits core_value.splits core_group.splits)

lemma seq_setD:
  "seq_set e x = Inr y \<Longrightarrow>
     (\<exists>v. e = Cval (C_node_id v) \<and> y = x\<lparr>seq_node_id := Some v\<rparr>)
     \<or> (\<exists>v. e = Cval (C_f_seid v) \<and> y = x\<lparr>seq_cp_fseid := Some v\<rparr>)
     \<or> (\<exists>v. e = Cgrp (G_create_pdr v) \<and> y = x\<lparr>seq_create_pdrs := seq_create_pdrs x @ [v]\<rparr>)
     \<or> (\<exists>v. e = Cgrp (G_create_far v) \<and> y = x\<lparr>seq_create_fars := seq_create_fars x @ [v]\<rparr>)
     \<or> (\<exists>v. e = Cgrp (G_create_urr v) \<and> y = x\<lparr>seq_create_urrs := seq_create_urrs x @ [v]\<rparr>)
     \<or> (\<exists>v. e = Cgrp (G_create_qer v) \<and> y = x\<lparr>seq_create_qers := seq_create_qers x @ [v]\<rparr>)
     \<or> (\<exists>v. e = Cval (C_user_plane_inactivity_timer v) \<and> y = x\<lparr>seq_user_plane_inactivity_timer := Some v\<rparr>)
     \<or> (\<exists>v. e = Cval (C_user_id v) \<and> y = x\<lparr>seq_user_id := Some v\<rparr>)"
  by (auto simp: seq_set_def split: core_ie.splits core_value.splits core_group.splits)

interpretation seq_o: order_free seq_set
  by unfold_locales (drule seq_setD, drule seq_setD, elim disjE exE conjE, simp_all add: seq_set_def)

interpretation sep_o: order_free sep_set
  by unfold_locales (auto simp: sep_set_def rbind_def split: core_ie.splits core_value.splits core_group.splits)

lemma smq_setD:
  "smq_set e x = Inr y \<Longrightarrow>
     (\<exists>v. e = Cval (C_f_seid v) \<and> y = x\<lparr>smq_cp_fseid := Some v\<rparr>)
     \<or> (\<exists>v. e = Cgrp (G_remove_pdr v) \<and> y = x\<lparr>smq_remove_pdrs := smq_remove_pdrs x @ [v]\<rparr>)
     \<or> (\<exists>v. e = Cgrp (G_remove_far v) \<and> y = x\<lparr>smq_remove_fars := smq_remove_fars x @ [v]\<rparr>)
     \<or> (\<exists>v. e = Cgrp (G_remove_urr v) \<and> y = x\<lparr>smq_remove_urrs := smq_remove_urrs x @ [v]\<rparr>)
     \<or> (\<exists>v. e = Cgrp (G_remove_qer v) \<and> y = x\<lparr>smq_remove_qers := smq_remove_qers x @ [v]\<rparr>)
     \<or> (\<exists>v. e = Cgrp (G_create_pdr v) \<and> y = x\<lparr>smq_create_pdrs := smq_create_pdrs x @ [v]\<rparr>)
     \<or> (\<exists>v. e = Cgrp (G_create_far v) \<and> y = x\<lparr>smq_create_fars := smq_create_fars x @ [v]\<rparr>)
     \<or> (\<exists>v. e = Cgrp (G_create_urr v) \<and> y = x\<lparr>smq_create_urrs := smq_create_urrs x @ [v]\<rparr>)
     \<or> (\<exists>v. e = Cgrp (G_create_qer v) \<and> y = x\<lparr>smq_create_qers := smq_create_qers x @ [v]\<rparr>)
     \<or> (\<exists>v. e = Cgrp (G_create_traffic_endpoint v) \<and> y = x\<lparr>smq_create_traffic_endpoint := Some v\<rparr>)
     \<or> (\<exists>v. e = Cgrp (G_update_pdr v) \<and> y = x\<lparr>smq_update_pdrs := smq_update_pdrs x @ [v]\<rparr>)
     \<or> (\<exists>v. e = Cgrp (G_update_far v) \<and> y = x\<lparr>smq_update_fars := smq_update_fars x @ [v]\<rparr>)
     \<or> (\<exists>v. e = Cgrp (G_update_urr v) \<and> y = x\<lparr>smq_update_urrs := smq_update_urrs x @ [v]\<rparr>)
     \<or> (\<exists>v. e = Cgrp (G_update_qer v) \<and> y = x\<lparr>smq_update_qers := smq_update_qers x @ [v]\<rparr>)
     \<or> (\<exists>v. e = Cval (C_user_plane_inactivity_timer v) \<and> y = x\<lparr>smq_user_plane_inactivity_timer := Some v\<rparr>)"
  by (auto simp: smq_set_def split: core_ie.splits core_value.splits core_group.splits)

interpretation smq_o: order_free smq_set
  by unfold_locales (drule smq_setD, drule smq_setD, elim disjE exE conjE, simp_all add: smq_set_def)

interpretation smp_o: order_free smp_set
  by unfold_locales (auto simp: smp_set_def rbind_def split: core_ie.splits core_value.splits core_group.splits)

interpretation sdp_o: order_free sdp_set
  by unfold_locales (auto simp: sdp_set_def rbind_def split: core_ie.splits core_value.splits core_group.splits)

interpretation srq_o: order_free srq_set
  by unfold_locales (auto simp: srq_set_def rbind_def split: core_ie.splits core_value.splits core_group.splits)

interpretation srp_o: order_free srp_set
  by unfold_locales (auto simp: srp_set_def rbind_def split: core_ie.splits core_value.splits core_group.splits)

section \<open>Properties\<close>

text \<open>Reading the shape off an evaluated list of elements.\<close>

definition is_simple :: "pfcp_ie \<Rightarrow> (pfcp_tlv \<Rightarrow> pfcp_value \<Rightarrow> bool) \<Rightarrow> bool" where
  "is_simple ie P = (case ie of Pfcp_simple t v \<Rightarrow> P t v | Pfcp_group t sies \<Rightarrow> False)"

lemma is_simple_iff: "is_simple ie P \<longleftrightarrow> (\<exists>t v. ie = Pfcp_simple t v \<and> P t v)"
  by (cases ie) (simp_all add: is_simple_def)

lemma case_value_iff:
  "(case v of V_recovery_time_stamp w \<Rightarrow> P w | _ \<Rightarrow> False) \<longleftrightarrow> (\<exists>w. v = V_recovery_time_stamp w \<and> P w)"
  "(case v of V_user_plane_inactivity_timer w \<Rightarrow> P w | _ \<Rightarrow> False) \<longleftrightarrow> (\<exists>w. v = V_user_plane_inactivity_timer w \<and> P w)"
  "(case v of V_node_id n \<Rightarrow> Q n | _ \<Rightarrow> False) \<longleftrightarrow> (\<exists>n. v = V_node_id n \<and> Q n)"
  by (cases v; simp)+

lemma case_one_iff: "(case xs of [a] \<Rightarrow> P a | _ \<Rightarrow> False) \<longleftrightarrow> (\<exists>a. xs = [a] \<and> P a)"
  by (auto split: list.splits)

lemma case_two_iff: "(case xs of [a, b] \<Rightarrow> P a b | _ \<Rightarrow> False) \<longleftrightarrow> (\<exists>a b. xs = [a, b] \<and> P a b)"
  by (auto split: list.splits)



text \<open>
  C20: the order of the elements of a session establishment request does not matter: a message with the same
  elements as a loaded one, those of each type in the same sequence, is read into the same container, and refused
  when that one is.
\<close>

theorem element_order_irrelevant:
  assumes "pfcp_message_load_from junk pfcp_msg_default s = Some (Inr (m, s'))"
    and "\<And>k. filter (\<lambda>ie. ptlv_type (pfcp_ie_tlv ie) = k) (pies m) = filter (\<lambda>ie. ptlv_type (pfcp_ie_tlv ie) = k) (pies m')"
  shows "pfcp_msg_to_core seq_set seq_empty m = Inr x \<longleftrightarrow> pfcp_msg_to_core seq_set seq_empty m' = Inr x"
proof -
  have typed: "list_all ie_typed (pies m)"
    by (rule message_typed [OF assms(1)]) (simp add: pfcp_msg_default_def pfcp_msg_header.defs)
  have "set (pies m') \<subseteq> set (pies m)"
  proof
    fix ie assume "ie \<in> set (pies m')"
    then have "ie \<in> set (filter (\<lambda>i. ptlv_type (pfcp_ie_tlv i) = ptlv_type (pfcp_ie_tlv ie)) (pies m'))" by simp
    then show "ie \<in> set (pies m)" unfolding assms(2) [symmetric] by simp
  qed
  with typed have "\<forall>i\<in>set (pies m'). \<forall>d. ie_to_core i = Inr d \<longrightarrow> core_type d = ptlv_type (pfcp_ie_tlv i)"
    "\<forall>i\<in>set (pies m). \<forall>d. ie_to_core i = Inr d \<longrightarrow> core_type d = ptlv_type (pfcp_ie_tlv i)"
    by (auto simp: list_all_iff dest: ie_to_core_type)
  then show ?thesis unfolding pfcp_msg_to_core_def
    using seq_o.fill_order [OF _ assms(2)] seq_o.fill_order [OF _ assms(2) [symmetric]] by blast
qed

theorem element_order_irrelevant_witness:
  "\<exists>m s' t u n. pfcp_message_load_from (\<lambda>_. 0) pfcp_msg_default
      (istream_of [0x20, 50, 0, 21, 0, 0, 7, 0, 0, 117, 0, 4, 0, 0, 0, 9, 0, 60, 0, 5, 0, 10, 0, 0, 1]) = Some (Inr (m, s'))
    \<and> pies m = [Pfcp_simple t (V_user_plane_inactivity_timer 9), Pfcp_simple u (V_node_id n)]
    \<and> pfcp_msg_to_core seq_set seq_empty
        (m\<lparr>pies := [Pfcp_simple u (V_node_id n), Pfcp_simple t (V_user_plane_inactivity_timer 9)]\<rparr>)
      = Inr (seq_empty\<lparr>seq_user_plane_inactivity_timer := Some 9, seq_node_id := Some (pfcp_node_id_to_core n)\<rparr>)"
proof -
  let ?r = "pfcp_message_load_from (\<lambda>_. 0) pfcp_msg_default
      (istream_of [0x20, 50, 0, 21, 0, 0, 7, 0, 0, 117, 0, 4, 0, 0, 0, 9, 0, 60, 0, 5, 0, 10, 0, 0, 1])"
  have "case ?r of Some (Inr (m, s')) \<Rightarrow> (case pies m of
        [ie, ie'] \<Rightarrow> is_simple ie (\<lambda>t v. ptlv_type t = 117 \<and> (case v of V_user_plane_inactivity_timer w \<Rightarrow> w = 9 | _ \<Rightarrow> False))
          \<and> is_simple ie' (\<lambda>u v. ptlv_type u = 60 \<and> (case v of V_node_id n \<Rightarrow> True | _ \<Rightarrow> False)) | _ \<Rightarrow> False) | _ \<Rightarrow> False"
    by code_simp
  then obtain m s' t u n where m: "?r = Some (Inr (m, s'))"
      "pies m = [Pfcp_simple t (V_user_plane_inactivity_timer 9), Pfcp_simple u (V_node_id n)]"
      "ptlv_type t = 117" "ptlv_type u = 60"
    by (auto simp: is_simple_iff case_two_iff case_value_iff split: option.splits sum.splits prod.splits)
  let ?m' = "m\<lparr>pies := [Pfcp_simple u (V_node_id n), Pfcp_simple t (V_user_plane_inactivity_timer 9)]\<rparr>"
  let ?x = "seq_empty\<lparr>seq_user_plane_inactivity_timer := Some 9, seq_node_id := Some (pfcp_node_id_to_core n)\<rparr>"
  have "filter (\<lambda>ie. ptlv_type (pfcp_ie_tlv ie) = k) (pies m) = filter (\<lambda>ie. ptlv_type (pfcp_ie_tlv ie) = k) (pies ?m')" for k
    using m(2,3,4) by simp
  from element_order_irrelevant [OF m(1) this, of ?x]
  have "pfcp_msg_to_core seq_set seq_empty ?m' = Inr ?x" using m(2) by (simp add: pfcp_msg_to_core_def seq_set_def)
  with m show ?thesis by blast
qed

end
