(* ===== verification/Pfcp_Stack.thy ===== *)
theory Pfcp_Stack
  imports Pfcp_Msg Transport
begin

text \<open>
  The reliable-delivery layer of PFCP (\<^verbatim>\<open>pfcp/pfcp.hpp\<close>, \<^verbatim>\<open>pfcp/pfcp.cpp\<close>), with the same shape as that of
  GTPv2-C: pending procedures by sequence number, transaction identifiers, retransmission and
  clean-up timers. The singletons the stack calls are fields of its state, what it sends out is a
  trace, and a handler takes the time of the clock as an argument.
\<close>

section \<open>Message types\<close>

definition PFCP_HEARTBEAT_REQUEST :: u8 where "PFCP_HEARTBEAT_REQUEST = 1"
definition PFCP_HEARTBEAT_RESPONSE :: u8 where "PFCP_HEARTBEAT_RESPONSE = 2"
definition PFCP_PFCP_PFD_MANAGEMENT_REQUEST :: u8 where "PFCP_PFCP_PFD_MANAGEMENT_REQUEST = 3"
definition PFCP_ASSOCIATION_SETUP_REQUEST :: u8 where "PFCP_ASSOCIATION_SETUP_REQUEST = 5"
definition PFCP_ASSOCIATION_SETUP_RESPONSE :: u8 where "PFCP_ASSOCIATION_SETUP_RESPONSE = 6"
definition PFCP_ASSOCIATION_UPDATE_REQUEST :: u8 where "PFCP_ASSOCIATION_UPDATE_REQUEST = 7"
definition PFCP_ASSOCIATION_RELEASE_REQUEST :: u8 where "PFCP_ASSOCIATION_RELEASE_REQUEST = 9"
definition PFCP_ASSOCIATION_RELEASE_RESPONSE :: u8 where "PFCP_ASSOCIATION_RELEASE_RESPONSE = 10"
definition PFCP_VERSION_NOT_SUPPORTED_RESPONSE :: u8 where "PFCP_VERSION_NOT_SUPPORTED_RESPONSE = 11"
definition PFCP_NODE_REPORT_REQUEST :: u8 where "PFCP_NODE_REPORT_REQUEST = 12"
definition PFCP_NODE_REPORT_RESPONSE :: u8 where "PFCP_NODE_REPORT_RESPONSE = 13"
definition PFCP_SESSION_ESTABLISHMENT_REQUEST :: u8 where "PFCP_SESSION_ESTABLISHMENT_REQUEST = 50"
definition PFCP_SESSION_ESTABLISHMENT_RESPONSE :: u8 where "PFCP_SESSION_ESTABLISHMENT_RESPONSE = 51"
definition PFCP_SESSION_MODIFICATION_REQUEST :: u8 where "PFCP_SESSION_MODIFICATION_REQUEST = 52"
definition PFCP_SESSION_MODIFICATION_RESPONSE :: u8 where "PFCP_SESSION_MODIFICATION_RESPONSE = 53"
definition PFCP_SESSION_DELETION_REQUEST :: u8 where "PFCP_SESSION_DELETION_REQUEST = 54"
definition PFCP_SESSION_DELETION_RESPONSE :: u8 where "PFCP_SESSION_DELETION_RESPONSE = 55"
definition PFCP_SESSION_REPORT_REQUEST :: u8 where "PFCP_SESSION_REPORT_REQUEST = 56"
definition PFCP_SESSION_REPORT_RESPONSE :: u8 where "PFCP_SESSION_REPORT_RESPONSE = 57"

lemmas pfcp_type_defs = PFCP_HEARTBEAT_REQUEST_def PFCP_HEARTBEAT_RESPONSE_def
  PFCP_PFCP_PFD_MANAGEMENT_REQUEST_def PFCP_ASSOCIATION_SETUP_REQUEST_def PFCP_ASSOCIATION_SETUP_RESPONSE_def
  PFCP_ASSOCIATION_UPDATE_REQUEST_def PFCP_ASSOCIATION_RELEASE_REQUEST_def PFCP_ASSOCIATION_RELEASE_RESPONSE_def
  PFCP_VERSION_NOT_SUPPORTED_RESPONSE_def PFCP_NODE_REPORT_REQUEST_def PFCP_NODE_REPORT_RESPONSE_def
  PFCP_SESSION_ESTABLISHMENT_REQUEST_def PFCP_SESSION_ESTABLISHMENT_RESPONSE_def
  PFCP_SESSION_MODIFICATION_REQUEST_def PFCP_SESSION_MODIFICATION_RESPONSE_def
  PFCP_SESSION_DELETION_REQUEST_def PFCP_SESSION_DELETION_RESPONSE_def
  PFCP_SESSION_REPORT_REQUEST_def PFCP_SESSION_REPORT_RESPONSE_def

text \<open>Two response types are accepted as the start of a procedure.\<close>

definition check_request_type :: "u8 \<Rightarrow> bool" where
  "check_request_type t \<longleftrightarrow> t \<in> {PFCP_HEARTBEAT_REQUEST, PFCP_PFCP_PFD_MANAGEMENT_REQUEST,
     PFCP_ASSOCIATION_SETUP_REQUEST, PFCP_ASSOCIATION_UPDATE_REQUEST, PFCP_ASSOCIATION_RELEASE_REQUEST,
     PFCP_NODE_REPORT_REQUEST, PFCP_NODE_REPORT_RESPONSE, PFCP_SESSION_ESTABLISHMENT_REQUEST,
     PFCP_SESSION_MODIFICATION_REQUEST, PFCP_SESSION_DELETION_REQUEST, PFCP_SESSION_REPORT_REQUEST,
     PFCP_SESSION_REPORT_RESPONSE}"

definition request_types :: "u8 set" where
  "request_types = {PFCP_HEARTBEAT_REQUEST, PFCP_PFCP_PFD_MANAGEMENT_REQUEST,
     PFCP_ASSOCIATION_SETUP_REQUEST, PFCP_ASSOCIATION_UPDATE_REQUEST, PFCP_ASSOCIATION_RELEASE_REQUEST,
     PFCP_NODE_REPORT_REQUEST, PFCP_SESSION_ESTABLISHMENT_REQUEST, PFCP_SESSION_MODIFICATION_REQUEST,
     PFCP_SESSION_DELETION_REQUEST, PFCP_SESSION_REPORT_REQUEST}"

definition check_response_type :: "u8 \<Rightarrow> u8 \<Rightarrow> bool" where
  "check_response_type ini trig \<longleftrightarrow>
     (if ini \<in> request_types then unat trig = unat ini + 1
      else trig = PFCP_VERSION_NOT_SUPPORTED_RESPONSE)"

section \<open>State\<close>

record 'ie pfcp_procedure =
  pretry_msg :: "'ie pfcp_msg option"
  premote_endpoint :: endpoint
  pretry_timer_id :: timer_id
  pproc_cleanup_timer_id :: timer_id
  trxn_id :: u64
  pinitial_msg_type :: u8
  ptriggered_msg_type :: u8
  pretry_count :: u8

definition pfcp_procedure_default :: "'ie pfcp_procedure" where
  "pfcp_procedure_default =
     \<lparr>pretry_msg = None, premote_endpoint = endpoint_default, pretry_timer_id = 0,
      pproc_cleanup_timer_id = 0, trxn_id = 0, pinitial_msg_type = 0, ptriggered_msg_type = 0,
      pretry_count = 0\<rparr>"

datatype pfcp_socket = Udp_s_registered | Pfcp_udp_s_allocated

datatype 'ie pfcp_output =
    Pfcp_send pfcp_socket endpoint "'ie pfcp_msg"
  | Pfcp_ul_error endpoint u8 u32 u64 u8

record ('ie, 'p) pfcp_l4_stack =
  t1_ms :: u32
  n1 :: u32
  pstack_id :: u32
  pseq_num :: u32
  prestart_counter :: u32
  trxn_id2seq_num :: "u64 \<rightharpoonup> u32"
  pproc_cleanup_timers :: "timer_id \<rightharpoonup> u32"
  pmsg_out_retry_timers :: "timer_id \<rightharpoonup> u32"
  ppending_procedures :: "u32 \<rightharpoonup> 'ie pfcp_procedure"
  pitti :: "'p itti_mw"
  trxn_ids :: "u64 uint_generator"
  pout :: "'ie pfcp_output list"

definition pfcp_l4_stack_new :: "u32 \<Rightarrow> u32 \<Rightarrow> u32 \<Rightarrow> 'p itti_mw \<Rightarrow> u64 uint_generator \<Rightarrow> ('ie, 'p) pfcp_l4_stack" where
  "pfcp_l4_stack_new t1 n tv_nsec itti0 ids =
     \<lparr>t1_ms = t1, n1 = n, pstack_id = 0, pseq_num = tv_nsec AND 0x7FFFFFFF, prestart_counter = 0,
      trxn_id2seq_num = Map.empty, pproc_cleanup_timers = Map.empty,
      pmsg_out_retry_timers = Map.empty, ppending_procedures = Map.empty,
      pitti = itti0, trxn_ids = ids, pout = []\<rparr>"

definition PFCP_PROC_TIME_OUT_MS :: "u32 \<Rightarrow> u32 \<Rightarrow> u32" where
  "PFCP_PROC_TIME_OUT_MS T N = T * (N + 1 + 1)"

definition pfcp_emit :: "'ie pfcp_output \<Rightarrow> ('ie, 'p) pfcp_l4_stack \<Rightarrow> ('ie, 'p) pfcp_l4_stack" where
  "pfcp_emit x st = st\<lparr>pout := pout st @ [x]\<rparr>"

definition pfcp_get_next_seq_num :: "('ie, 'p) pfcp_l4_stack \<Rightarrow> u32 \<times> ('ie, 'p) pfcp_l4_stack" where
  "pfcp_get_next_seq_num st =
     (let s1 = pseq_num st + 1;
          s2 = (if s1 AND 0x80000000 \<noteq> 0 then 0 else s1)
      in (s2, st\<lparr>pseq_num := s2\<rparr>))"

section \<open>Timers of a procedure\<close>

definition pfcp_setup_ms ::
  "time_point \<Rightarrow> u32 \<Rightarrow> task_id \<Rightarrow> ('ie, 'p) pfcp_l4_stack \<Rightarrow> timer_id \<times> ('ie, 'p) pfcp_l4_stack" where
  "pfcp_setup_ms now ms task st =
     (case timer_setup now (ms div 1000) ((ms mod 1000) * 1000) task 0 0 (pitti st) of
        (i, it) \<Rightarrow> (i, st\<lparr>pitti := it\<rparr>))"

definition pfcp_start_msg_retry_timer ::
  "time_point \<Rightarrow> 'ie pfcp_procedure \<Rightarrow> u32 \<Rightarrow> task_id \<Rightarrow> u32 \<Rightarrow> ('ie, 'p) pfcp_l4_stack \<Rightarrow>
     'ie pfcp_procedure \<times> ('ie, 'p) pfcp_l4_stack" where
  "pfcp_start_msg_retry_timer now p ms task sn st =
     (case pfcp_setup_ms now ms task st of (i, st1) \<Rightarrow>
        (p\<lparr>pretry_timer_id := i\<rparr>,
         if i \<noteq> ITTI_INVALID_TIMER_ID
         then st1\<lparr>pmsg_out_retry_timers := map_insert (pmsg_out_retry_timers st1) i sn\<rparr>
         else st1))"

text \<open>The trace message reads the sequence number of the stored message.\<close>

definition pfcp_stop_msg_retry_timer ::
  "'ie pfcp_procedure \<Rightarrow> ('ie, 'p) pfcp_l4_stack \<Rightarrow> ('ie pfcp_procedure \<times> ('ie, 'p) pfcp_l4_stack) outcome" where
  "pfcp_stop_msg_retry_timer p st =
     (if pretry_timer_id p \<noteq> ITTI_INVALID_TIMER_ID
      then (if pretry_msg p = None then Inl Deref_null
            else Inr (p\<lparr>pretry_timer_id := ITTI_INVALID_TIMER_ID\<rparr>,
              st\<lparr>pitti := snd (timer_remove (pretry_timer_id p) (pitti st)),
                 pmsg_out_retry_timers := map_erase (pmsg_out_retry_timers st) (pretry_timer_id p)\<rparr>))
      else Inr (p, st))"

definition pfcp_stop_msg_retry_timer_id :: "timer_id \<Rightarrow> ('ie, 'p) pfcp_l4_stack \<Rightarrow> ('ie, 'p) pfcp_l4_stack" where
  "pfcp_stop_msg_retry_timer_id t st =
     st\<lparr>pitti := snd (timer_remove t (pitti st)),
        pmsg_out_retry_timers := map_erase (pmsg_out_retry_timers st) t\<rparr>"

definition pfcp_start_proc_cleanup_timer ::
  "time_point \<Rightarrow> 'ie pfcp_procedure \<Rightarrow> u32 \<Rightarrow> task_id \<Rightarrow> u32 \<Rightarrow> ('ie, 'p) pfcp_l4_stack \<Rightarrow>
     'ie pfcp_procedure \<times> ('ie, 'p) pfcp_l4_stack" where
  "pfcp_start_proc_cleanup_timer now p ms task sn st =
     (case pfcp_setup_ms now ms task st of (i, st1) \<Rightarrow>
        (p\<lparr>pproc_cleanup_timer_id := i\<rparr>,
         st1\<lparr>pproc_cleanup_timers := map_insert (pproc_cleanup_timers st1) i sn\<rparr>))"

definition pfcp_stop_proc_cleanup_timer ::
  "'ie pfcp_procedure \<Rightarrow> ('ie, 'p) pfcp_l4_stack \<Rightarrow> 'ie pfcp_procedure \<times> ('ie, 'p) pfcp_l4_stack" where
  "pfcp_stop_proc_cleanup_timer p st =
     (p\<lparr>pproc_cleanup_timer_id := 0\<rparr>,
      st\<lparr>pitti := snd (timer_remove (pproc_cleanup_timer_id p) (pitti st)),
         pmsg_out_retry_timers := map_erase (pmsg_out_retry_timers st) (pproc_cleanup_timer_id p),
         pproc_cleanup_timers := map_erase (pproc_cleanup_timers st) (pproc_cleanup_timer_id p)\<rparr>)"

definition generate_trxn_id :: "('ie, 'p) pfcp_l4_stack \<Rightarrow> (u64 \<times> ('ie, 'p) pfcp_l4_stack) outcome" where
  "generate_trxn_id st =
     (case uint_uid_get_uid (trxn_ids st) of
        None \<Rightarrow> Inl Endless_loop
      | Some (i, g) \<Rightarrow> Inr (i, st\<lparr>trxn_ids := g\<rparr>))"

definition free_trxn_id :: "u64 \<Rightarrow> ('ie, 'p) pfcp_l4_stack \<Rightarrow> ('ie, 'p) pfcp_l4_stack" where
  "free_trxn_id i st = st\<lparr>trxn_ids := uint_uid_free_uid i (trxn_ids st)\<rparr>"

section \<open>Receiving\<close>

definition pfcp_handle_receive_message_cb ::
  "time_point \<Rightarrow> 'ie pfcp_msg \<Rightarrow> task_id \<Rightarrow> ('ie, 'p) pfcp_l4_stack \<Rightarrow>
     (bool \<times> u64 \<times> ('ie, 'p) pfcp_l4_stack) outcome" where
  "pfcp_handle_receive_message_cb now msg task st =
     (let sn = psequence_number msg in
      case ppending_procedures st sn of
        None \<Rightarrow>
          if check_request_type (pmessage_type msg) then
            (case generate_trxn_id st of
               Inl e \<Rightarrow> Inl e
             | Inr (tx, st1) \<Rightarrow>
                 let proc = pfcp_procedure_default\<lparr>trxn_id := tx, pinitial_msg_type := pmessage_type msg\<rparr>;
                     (proc, st2) = pfcp_start_proc_cleanup_timer now proc (t1_ms st1) task sn st1
                 in Inr (False, tx,
                      st2\<lparr>ppending_procedures := map_insert (ppending_procedures st2) sn proc,
                          trxn_id2seq_num := map_insert (trxn_id2seq_num st2) tx sn\<rparr>))
          else Inr (True, 0, st)
      | Some proc \<Rightarrow>
          let req = (if ptriggered_msg_type proc = 0 then pinitial_msg_type proc else ptriggered_msg_type proc) in
          if check_response_type req (pmessage_type msg) then
            (let proc = (if ptriggered_msg_type proc = 0 then proc\<lparr>ptriggered_msg_type := pmessage_type msg\<rparr> else proc);
                 tx = trxn_id proc in
             case (if pretry_timer_id proc \<noteq> 0 then pfcp_stop_msg_retry_timer proc st else Inr (proc, st)) of
               Inl e \<Rightarrow> Inl e
             | Inr (proc, st1) \<Rightarrow>
                 let (proc, st2) = pfcp_stop_proc_cleanup_timer proc st1;
                     st3 = free_trxn_id tx (st2\<lparr>trxn_id2seq_num := map_erase (trxn_id2seq_num st2) tx\<rparr>)
                 in Inr (False, tx, st3\<lparr>ppending_procedures := map_erase (ppending_procedures st3) sn\<rparr>))
          else Inr (True, 0, st))"

section \<open>Sending\<close>

definition pfcp_start_procedure ::
  "time_point \<Rightarrow> endpoint \<Rightarrow> 'ie pfcp_msg \<Rightarrow> task_id \<Rightarrow> u64 \<Rightarrow> ('ie, 'p) pfcp_l4_stack \<Rightarrow>
     u32 \<times> ('ie, 'p) pfcp_l4_stack" where
  "pfcp_start_procedure now dest msg task tx st =
     (let sn = psequence_number msg;
          proc = pfcp_procedure_default\<lparr>pinitial_msg_type := pmessage_type msg, trxn_id := tx,
                   pretry_msg := Some (pfcp_dumped msg), premote_endpoint := dest\<rparr>;
          (proc, st1) = pfcp_start_msg_retry_timer now proc (t1_ms st) task sn st;
          (proc, st2) = pfcp_start_proc_cleanup_timer now proc (PFCP_PROC_TIME_OUT_MS (t1_ms st1) (n1 st1)) task sn st1;
          st3 = st2\<lparr>ppending_procedures := map_insert (ppending_procedures st2) sn proc,
                    trxn_id2seq_num := map_insert (trxn_id2seq_num st2) tx sn\<rparr>
      in (sn, pfcp_emit (Pfcp_send Pfcp_udp_s_allocated dest msg) st3))"

definition send_request_node ::
  "u8 \<Rightarrow> ('ie \<Rightarrow> u16) \<Rightarrow> time_point \<Rightarrow> endpoint \<Rightarrow> 'ie list \<Rightarrow> task_id \<Rightarrow> u64 \<Rightarrow> ('ie, 'p) pfcp_l4_stack \<Rightarrow>
     u32 \<times> ('ie, 'p) pfcp_l4_stack" where
  "send_request_node t len now dest xs task tx st =
     (case pfcp_get_next_seq_num st of (s, st1) \<Rightarrow>
        pfcp_start_procedure now dest (pfcp_set_sequence_number s (pfcp_msg_of_ies len t xs)) task tx st1)"

definition send_request_session ::
  "u8 \<Rightarrow> ('ie \<Rightarrow> u16) \<Rightarrow> time_point \<Rightarrow> endpoint \<Rightarrow> u64 \<Rightarrow> 'ie list \<Rightarrow> task_id \<Rightarrow> u64 \<Rightarrow> ('ie, 'p) pfcp_l4_stack \<Rightarrow>
     u32 \<times> ('ie, 'p) pfcp_l4_stack" where
  "send_request_session t len now dest sd xs task tx st =
     (case pfcp_get_next_seq_num st of (s, st1) \<Rightarrow>
        pfcp_start_procedure now dest (pfcp_set_sequence_number s (set_seid sd (pfcp_msg_of_ies len t xs))) task tx st1)"

definition send_request_heartbeat where
  "send_request_heartbeat len now dest xs task tx st = send_request_node PFCP_HEARTBEAT_REQUEST len now dest xs task tx st"

definition send_request_association_setup where
  "send_request_association_setup len now dest xs task tx st =
     send_request_node PFCP_ASSOCIATION_SETUP_REQUEST len now dest xs task tx st"

definition send_request_association_release where
  "send_request_association_release len now dest xs task tx st =
     send_request_node PFCP_ASSOCIATION_RELEASE_REQUEST len now dest xs task tx st"

text \<open>The SEID that the caller passes for a node report is not used.\<close>

definition send_request_node_report where
  "send_request_node_report len now dest (sd :: u64) xs task tx st =
     send_request_node PFCP_NODE_REPORT_REQUEST len now dest xs task tx st"

definition send_request_session_establishment where
  "send_request_session_establishment len now dest sd xs task tx st =
     send_request_session PFCP_SESSION_ESTABLISHMENT_REQUEST len now dest sd xs task tx st"

definition send_request_session_modification where
  "send_request_session_modification len now dest sd xs task tx st =
     send_request_session PFCP_SESSION_MODIFICATION_REQUEST len now dest sd xs task tx st"

definition send_request_session_deletion where
  "send_request_session_deletion len now dest sd xs task tx st =
     send_request_session PFCP_SESSION_DELETION_REQUEST len now dest sd xs task tx st"

definition send_request_session_report where
  "send_request_session_report len now dest sd xs task tx st =
     send_request_session PFCP_SESSION_REPORT_REQUEST len now dest sd xs task tx st"

datatype pfcp_transaction_action = PFCP_DELETE_TX | PFCP_CONTINUE_TX

text \<open>\<open>fr\<close>: whether the overload gives the transaction identifier back to the generator.\<close>

definition pfcp_end_transaction :: "bool \<Rightarrow> u64 \<Rightarrow> u32 \<Rightarrow> ('ie, 'p) pfcp_l4_stack \<Rightarrow> ('ie, 'p) pfcp_l4_stack" where
  "pfcp_end_transaction fr tx sn st =
     (let st1 = (case ppending_procedures st sn of
                   None \<Rightarrow> st
                 | Some proc \<Rightarrow>
                     let st2 = snd (pfcp_stop_proc_cleanup_timer proc st);
                         st3 = (if fr then free_trxn_id tx st2 else st2)
                     in st3\<lparr>ppending_procedures := map_erase (ppending_procedures st3) sn\<rparr>)
      in st1\<lparr>trxn_id2seq_num := map_erase (trxn_id2seq_num st1) tx\<rparr>)"

definition pfcp_send_response ::
  "bool \<Rightarrow> endpoint \<Rightarrow> 'ie pfcp_msg \<Rightarrow> u64 \<Rightarrow> pfcp_transaction_action \<Rightarrow> ('ie, 'p) pfcp_l4_stack \<Rightarrow>
     ('ie, 'p) pfcp_l4_stack" where
  "pfcp_send_response fr dest msg tx a st =
     (case trxn_id2seq_num st tx of
        None \<Rightarrow> st
      | Some sn \<Rightarrow>
          let st1 = pfcp_emit (Pfcp_send Udp_s_registered dest (pfcp_set_sequence_number sn msg)) st
          in if a = PFCP_DELETE_TX then pfcp_end_transaction fr tx sn st1 else st1)"

definition send_response_heartbeat where
  "send_response_heartbeat len dest xs tx a st =
     pfcp_send_response True dest (pfcp_msg_of_ies len PFCP_HEARTBEAT_RESPONSE xs) tx a st"

definition send_response_association_setup where
  "send_response_association_setup len dest xs tx a st =
     pfcp_send_response False dest (pfcp_msg_of_ies len PFCP_ASSOCIATION_SETUP_RESPONSE xs) tx a st"

definition send_response_association_release where
  "send_response_association_release len dest xs tx a st =
     pfcp_send_response False dest (pfcp_msg_of_ies len PFCP_ASSOCIATION_RELEASE_RESPONSE xs) tx a st"

definition send_response_session_establishment where
  "send_response_session_establishment len dest sd xs tx a st =
     pfcp_send_response False dest (set_seid sd (pfcp_msg_of_ies len PFCP_SESSION_ESTABLISHMENT_RESPONSE xs)) tx a st"

definition send_response_session_modification where
  "send_response_session_modification len dest sd xs tx a st =
     pfcp_send_response False dest (set_seid sd (pfcp_msg_of_ies len PFCP_SESSION_MODIFICATION_RESPONSE xs)) tx a st"

definition send_response_session_deletion where
  "send_response_session_deletion len dest sd xs tx a st =
     pfcp_send_response False dest (set_seid sd (pfcp_msg_of_ies len PFCP_SESSION_DELETION_RESPONSE xs)) tx a st"

definition send_response_session_report where
  "send_response_session_report len dest sd xs tx a st =
     pfcp_send_response False dest (set_seid sd (pfcp_msg_of_ies len PFCP_SESSION_REPORT_RESPONSE xs)) tx a st"

section \<open>Time-outs\<close>

text \<open>
  A request that is given up is only notified: the procedure stays until its clean-up timer fires.
  That branch reads the procedure before it tests whether there is one.
\<close>

definition pfcp_time_out_event ::
  "time_point \<Rightarrow> timer_id \<Rightarrow> task_id \<Rightarrow> ('ie, 'p) pfcp_l4_stack \<Rightarrow> (bool \<times> ('ie, 'p) pfcp_l4_stack) outcome" where
  "pfcp_time_out_event now t task st =
     (case pmsg_out_retry_timers st t of
        Some sn \<Rightarrow>
          (let st1 = st\<lparr>pmsg_out_retry_timers := map_erase (pmsg_out_retry_timers st) t\<rparr> in
           case ppending_procedures st sn of
             None \<Rightarrow> Inr (True, st1)
           | Some proc \<Rightarrow>
               (case pretry_msg proc of
                  None \<Rightarrow> Inl Deref_null
                | Some msg \<Rightarrow>
                    if unat (pretry_count proc) < unat (n1 st) then
                      (let proc = proc\<lparr>pretry_count := pretry_count proc + 1\<rparr>;
                           (proc, st2) = pfcp_start_msg_retry_timer now proc (t1_ms st) task (psequence_number msg) st1;
                           proc = proc\<lparr>pretry_msg := Some (pfcp_dumped msg)\<rparr>
                       in Inr (True, pfcp_emit (Pfcp_send Udp_s_registered (premote_endpoint proc) msg)
                            (st2\<lparr>ppending_procedures := (ppending_procedures st2)(sn \<mapsto> proc)\<rparr>)))
                    else
                      Inr (True, pfcp_emit (Pfcp_ul_error (premote_endpoint proc) (pmessage_type msg)
                        (psequence_number msg) (trxn_id proc) REMOTE_PEER_NOT_RESPONDING) st1)))
      | None \<Rightarrow>
          (case pproc_cleanup_timers st t of
             None \<Rightarrow> Inr (False, st)
           | Some sn \<Rightarrow>
               (case ppending_procedures st sn of
                  None \<Rightarrow> Inl Deref_end
                | Some proc \<Rightarrow>
                    let st1 = free_trxn_id (trxn_id proc)
                          (st\<lparr>trxn_id2seq_num := map_erase (trxn_id2seq_num st) (trxn_id proc)\<rparr>);
                        st2 = st1\<lparr>pproc_cleanup_timers := map_erase (pproc_cleanup_timers st1) t\<rparr>
                    in Inr (True, st2\<lparr>ppending_procedures := map_erase (ppending_procedures st2) sn\<rparr>))))"

section \<open>What the operations do to the tables\<close>

definition pfcp_timers_known :: "('ie, 'p) pfcp_l4_stack \<Rightarrow> bool" where
  "pfcp_timers_known st \<longleftrightarrow> itti_timers.known (pmsg_out_retry_timers st) (pitti st)
     \<and> itti_timers.known (pproc_cleanup_timers st) (pitti st)
     \<and> dom (pmsg_out_retry_timers st) \<inter> dom (pproc_cleanup_timers st) = {}"

abbreviation pfcp_issued :: "('ie, 'p) pfcp_l4_stack \<Rightarrow> nat" where
  "pfcp_issued st \<equiv> unat (timer_id (pitti st))"

lemma pfcp_setup_ms_fresh:
  fixes v :: 'v
  assumes "valid_task task" and "pfcp_issued st < 2 ^ 32 - 1" and "pfcp_setup_ms now ms task st = (i, st')"
  shows "\<exists>it. st' = st\<lparr>pitti := it\<rparr> \<and> i \<noteq> ITTI_INVALID_TIMER_ID \<and> unat (timer_id it) = Suc (pfcp_issued st)
    \<and> (\<forall>m. itti_timers.known m (pitti st) \<longrightarrow> m i = None \<and> itti_timers.known m it
         \<and> itti_timers.known (m(i \<mapsto> v)) it)"
proof -
  obtain it where r: "timer_setup now (ms div 1000) ((ms mod 1000) * 1000) task 0 0 (pitti st) = (i, it)"
    and st': "st' = st\<lparr>pitti := it\<rparr>"
    using assms(3) by (auto simp: pfcp_setup_ms_def split: prod.splits)
  note fresh = assms(1)[THEN conjunct1] assms(1)[THEN conjunct2] assms(2) r
  have "m i = None \<and> itti_timers.known m it \<and> itti_timers.known (m(i \<mapsto> v)) it"
    if "itti_timers.known m (pitti st)" for m :: "timer_id \<rightharpoonup> 'v"
    using itti_timers.setup_fresh(1,2) [OF fresh that] itti_timers.setup_fresh(3) [OF fresh that, of v]
    by (simp add: map_insert_fresh)
  then show ?thesis
    using itti_timers.setup_valid [OF fresh] itti_timers.setup_next [OF fresh] st' by blast
qed

lemma pfcp_start_retry_valid:
  assumes "valid_task task" and "pfcp_issued st < 2 ^ 32 - 1" and known: "pfcp_timers_known st"
    and "pfcp_start_msg_retry_timer now p ms task sn st = (p', st')"
  shows "\<exists>i it. p' = p\<lparr>pretry_timer_id := i\<rparr> \<and> i \<noteq> ITTI_INVALID_TIMER_ID
    \<and> pmsg_out_retry_timers st i = None \<and> pproc_cleanup_timers st i = None
    \<and> st' = st\<lparr>pitti := it, pmsg_out_retry_timers := (pmsg_out_retry_timers st)(i \<mapsto> sn)\<rparr>
    \<and> pfcp_timers_known st' \<and> pfcp_issued st' = Suc (pfcp_issued st)"
proof -
  obtain i st1 where s: "pfcp_setup_ms now ms task st = (i, st1)" by fastforce
  from pfcp_setup_ms_fresh [OF assms(1,2) s, of sn] obtain it where
    f: "st1 = st\<lparr>pitti := it\<rparr>" "i \<noteq> ITTI_INVALID_TIMER_ID" "unat (timer_id it) = Suc (pfcp_issued st)"
      "\<And>m. itti_timers.known m (pitti st) \<Longrightarrow> m i = None \<and> itti_timers.known m it \<and> itti_timers.known (m(i \<mapsto> sn)) it"
    by blast
  have k: "itti_timers.known (pmsg_out_retry_timers st) (pitti st)"
    "itti_timers.known (pproc_cleanup_timers st) (pitti st)" using known by (simp_all add: pfcp_timers_known_def)
  have r: "p' = p\<lparr>pretry_timer_id := i\<rparr>"
    "st' = st\<lparr>pitti := it, pmsg_out_retry_timers := (pmsg_out_retry_timers st)(i \<mapsto> sn)\<rparr>"
    using assms(4) s f(1,2) f(4) [OF k(1)] by (auto simp: pfcp_start_msg_retry_timer_def map_insert_fresh)
  have "pfcp_timers_known st'" using f(4) [OF k(1)] f(4) [OF k(2)] known r(2) by (auto simp: pfcp_timers_known_def)
  with r f f(4) [OF k(1)] f(4) [OF k(2)] show ?thesis by auto
qed

lemma pfcp_start_cleanup_valid:
  assumes "valid_task task" and "pfcp_issued st < 2 ^ 32 - 1" and known: "pfcp_timers_known st"
    and "pfcp_start_proc_cleanup_timer now p ms task sn st = (p', st')"
  shows "\<exists>i it. p' = p\<lparr>pproc_cleanup_timer_id := i\<rparr>
    \<and> pmsg_out_retry_timers st i = None \<and> pproc_cleanup_timers st i = None
    \<and> st' = st\<lparr>pitti := it, pproc_cleanup_timers := (pproc_cleanup_timers st)(i \<mapsto> sn)\<rparr>
    \<and> pfcp_timers_known st' \<and> pfcp_issued st' = Suc (pfcp_issued st)"
proof -
  obtain i st1 where s: "pfcp_setup_ms now ms task st = (i, st1)" by fastforce
  from pfcp_setup_ms_fresh [OF assms(1,2) s, of sn] obtain it where
    f: "st1 = st\<lparr>pitti := it\<rparr>" "unat (timer_id it) = Suc (pfcp_issued st)"
      "\<And>m. itti_timers.known m (pitti st) \<Longrightarrow> m i = None \<and> itti_timers.known m it \<and> itti_timers.known (m(i \<mapsto> sn)) it"
    by blast
  have k: "itti_timers.known (pmsg_out_retry_timers st) (pitti st)"
    "itti_timers.known (pproc_cleanup_timers st) (pitti st)" using known by (simp_all add: pfcp_timers_known_def)
  have r: "p' = p\<lparr>pproc_cleanup_timer_id := i\<rparr>"
    "st' = st\<lparr>pitti := it, pproc_cleanup_timers := (pproc_cleanup_timers st)(i \<mapsto> sn)\<rparr>"
    using assms(4) s f(1) f(3) [OF k(2)] by (auto simp: pfcp_start_proc_cleanup_timer_def map_insert_fresh)
  have "pfcp_timers_known st'" using f(3) [OF k(1)] f(3) [OF k(2)] known r(2) by (auto simp: pfcp_timers_known_def)
  with r f f(3) [OF k(1)] f(3) [OF k(2)] show ?thesis by auto
qed

section \<open>The invariant of the tables\<close>

text \<open>
  Pending procedures, clean-up timers and transaction identifiers are in one-to-one correspondence.
  A retransmission timer belongs to a procedure that has a message to repeat, or to one that is gone.
\<close>

definition pfcp_inv :: "('ie, 'p) pfcp_l4_stack \<Rightarrow> bool" where
  "pfcp_inv st \<longleftrightarrow>
     (\<forall>t sn. pproc_cleanup_timers st t = Some sn
        \<longleftrightarrow> (\<exists>p. ppending_procedures st sn = Some p \<and> pproc_cleanup_timer_id p = t))
     \<and> (\<forall>tx sn. trxn_id2seq_num st tx = Some sn
        \<longleftrightarrow> (\<exists>p. ppending_procedures st sn = Some p \<and> trxn_id p = tx))
     \<and> (\<forall>t sn p. pmsg_out_retry_timers st t = Some sn \<longrightarrow> ppending_procedures st sn = Some p
        \<longrightarrow> pretry_msg p \<noteq> None \<and> pretry_timer_id p = t)
     \<and> (\<forall>sn p. ppending_procedures st sn = Some p \<longrightarrow> (pretry_timer_id p \<noteq> 0 \<longrightarrow> pretry_msg p \<noteq> None)
        \<and> (\<forall>m. pretry_msg p = Some m \<longrightarrow> psequence_number m = sn))
     \<and> dom (trxn_id2seq_num st) \<subseteq> uid_generated (trxn_ids st) \<and> pfcp_timers_known st"

lemma pfcp_inv_cleanup:
  "pfcp_inv st \<Longrightarrow> pproc_cleanup_timers st t = Some sn
     \<longleftrightarrow> (\<exists>p. ppending_procedures st sn = Some p \<and> pproc_cleanup_timer_id p = t)"
  by (simp add: pfcp_inv_def)

lemma pfcp_inv_trxn:
  "pfcp_inv st \<Longrightarrow> trxn_id2seq_num st tx = Some sn
     \<longleftrightarrow> (\<exists>p. ppending_procedures st sn = Some p \<and> trxn_id p = tx)"
  by (simp add: pfcp_inv_def)

lemma pfcp_inv_retry:
  "pfcp_inv st \<Longrightarrow> pmsg_out_retry_timers st t = Some sn \<Longrightarrow> ppending_procedures st sn = Some p \<Longrightarrow>
     (\<exists>m. pretry_msg p = Some m \<and> psequence_number m = sn) \<and> pretry_timer_id p = t"
  unfolding pfcp_inv_def by blast

lemma pfcp_inv_retry_id:
  "pfcp_inv st \<Longrightarrow> ppending_procedures st sn = Some p \<Longrightarrow> pretry_timer_id p \<noteq> 0 \<Longrightarrow> pretry_msg p \<noteq> None"
  unfolding pfcp_inv_def by blast

lemma pfcp_inv_known: "pfcp_inv st \<Longrightarrow> pfcp_timers_known st"
  by (simp add: pfcp_inv_def)

lemma pfcp_inv_used: "pfcp_inv st \<Longrightarrow> dom (trxn_id2seq_num st) \<subseteq> uid_generated (trxn_ids st)"
  by (simp add: pfcp_inv_def)

text \<open>A new procedure, with or without a message to repeat.\<close>

lemma pfcp_inv_add:
  assumes inv: "pfcp_inv st" and new: "ppending_procedures st sn = None" "trxn_id2seq_num st tx = None"
    "pproc_cleanup_timers st c = None"
    and p: "trxn_id p = tx" "pproc_cleanup_timer_id p = c" "pretry_msg p = None \<longrightarrow> pretry_timer_id p = 0"
      "\<forall>m. pretry_msg p = Some m \<longrightarrow> psequence_number m = sn"
    and st': "ppending_procedures st' = (ppending_procedures st)(sn \<mapsto> p)"
      "trxn_id2seq_num st' = (trxn_id2seq_num st)(tx \<mapsto> sn)"
      "pproc_cleanup_timers st' = (pproc_cleanup_timers st)(c \<mapsto> sn)"
    and retry: "sn \<notin> ran (pmsg_out_retry_timers st)"
      "pmsg_out_retry_timers st' = (if pretry_msg p = None then pmsg_out_retry_timers st
         else (pmsg_out_retry_timers st)(pretry_timer_id p \<mapsto> sn))"
    and ids: "insert tx (uid_generated (trxn_ids st)) \<subseteq> uid_generated (trxn_ids st')" and known: "pfcp_timers_known st'"
  shows "pfcp_inv st'"
proof -
  have "pproc_cleanup_timers st' t = Some n
      \<longleftrightarrow> (\<exists>q. ppending_procedures st' n = Some q \<and> pproc_cleanup_timer_id q = t)" for t n
    using pfcp_inv_cleanup [OF inv, of t n] new st' p(2) by auto
  moreover have "trxn_id2seq_num st' t = Some n
      \<longleftrightarrow> (\<exists>q. ppending_procedures st' n = Some q \<and> trxn_id q = t)" for t n
    using pfcp_inv_trxn [OF inv, of t n] new st' p(1) by auto
  moreover have "pretry_msg q \<noteq> None \<and> pretry_timer_id q = t"
    if "pmsg_out_retry_timers st' t = Some n" "ppending_procedures st' n = Some q" for t n q
    using that pfcp_inv_retry [OF inv, of t n q] st'(1) retry by (auto simp: ran_def split: if_splits)
  moreover have "(pretry_timer_id q \<noteq> 0 \<longrightarrow> pretry_msg q \<noteq> None) \<and> (\<forall>m. pretry_msg q = Some m \<longrightarrow> psequence_number m = n)"
    if "ppending_procedures st' n = Some q" for n q
    using that inv p(3,4) st'(1) by (auto simp: pfcp_inv_def split: if_splits)
  moreover have "dom (trxn_id2seq_num st') \<subseteq> uid_generated (trxn_ids st')"
    using pfcp_inv_used [OF inv] ids st'(2) by auto
  ultimately show ?thesis using known unfolding pfcp_inv_def by blast
qed

text \<open>A procedure goes with its clean-up timer and its transaction; retransmission timers may go.\<close>

lemma pfcp_inv_remove:
  assumes inv: "pfcp_inv st" and p: "ppending_procedures st sn = Some p"
    and st': "ppending_procedures st' = map_erase (ppending_procedures st) sn"
      "trxn_id2seq_num st' = map_erase (trxn_id2seq_num st) (trxn_id p)"
      "pproc_cleanup_timers st' = map_erase (pproc_cleanup_timers st) (pproc_cleanup_timer_id p)"
      "pmsg_out_retry_timers st' \<subseteq>\<^sub>m pmsg_out_retry_timers st"
    and ids: "uid_generated (trxn_ids st) - {trxn_id p} \<subseteq> uid_generated (trxn_ids st')"
    and issued: "pfcp_issued st' = pfcp_issued st"
  shows "pfcp_inv st'"
proof -
  have retry: "pmsg_out_retry_timers st t = Some n" if "pmsg_out_retry_timers st' t = Some n" for t n
    using st'(4) that by (auto simp: map_le_def dom_def)
  have "pproc_cleanup_timers st' t = Some n
      \<longleftrightarrow> (\<exists>q. ppending_procedures st' n = Some q \<and> pproc_cleanup_timer_id q = t)" for t n
    using pfcp_inv_cleanup [OF inv, of t n] pfcp_inv_cleanup [OF inv, of t sn] p st'(1,3) by auto
  moreover have "trxn_id2seq_num st' t = Some n
      \<longleftrightarrow> (\<exists>q. ppending_procedures st' n = Some q \<and> trxn_id q = t)" for t n
    using pfcp_inv_trxn [OF inv, of t n] pfcp_inv_trxn [OF inv, of t sn] p st'(1,2) by auto
  moreover have "pretry_msg q \<noteq> None \<and> pretry_timer_id q = t"
    if "pmsg_out_retry_timers st' t = Some n" "ppending_procedures st' n = Some q" for t n q
    using retry [OF that(1)] that(2) pfcp_inv_retry [OF inv, of t n q] st'(1) by (auto split: if_splits)
  moreover have "(pretry_timer_id q \<noteq> 0 \<longrightarrow> pretry_msg q \<noteq> None) \<and> (\<forall>m. pretry_msg q = Some m \<longrightarrow> psequence_number m = n)"
    if "ppending_procedures st' n = Some q" for n q
    using that inv st'(1) by (auto simp: pfcp_inv_def split: if_splits)
  moreover have "dom (trxn_id2seq_num st') \<subseteq> uid_generated (trxn_ids st')"
    using pfcp_inv_used [OF inv] ids st'(2) by auto
  moreover have "dom (pmsg_out_retry_timers st') \<subseteq> dom (pmsg_out_retry_timers st)" using retry by auto
  then have "pfcp_timers_known st'"
    using pfcp_inv_known [OF inv]
    unfolding pfcp_timers_known_def itti_timers.known_def st'(3) dom_map_erase issued by blast
  ultimately show ?thesis unfolding pfcp_inv_def by blast
qed

text \<open>The retransmission timer \<open>t\<close> is replaced by a new one, or only forgotten.\<close>

lemma pfcp_inv_rearm:
  assumes inv: "pfcp_inv st" and p: "ppending_procedures st sn = Some p" and t: "pmsg_out_retry_timers st t = Some sn"
    and p': "trxn_id p' = trxn_id p" "pproc_cleanup_timer_id p' = pproc_cleanup_timer_id p"
      "pretry_msg p' = Some m" "psequence_number m = sn" "pretry_timer_id p' = i"
    and st': "ppending_procedures st' = (ppending_procedures st)(sn \<mapsto> p')"
      "trxn_id2seq_num st' = trxn_id2seq_num st" "pproc_cleanup_timers st' = pproc_cleanup_timers st"
      "pmsg_out_retry_timers st' = (map_erase (pmsg_out_retry_timers st) t)(i \<mapsto> sn)" "trxn_ids st' = trxn_ids st"
    and known: "pfcp_timers_known st'"
  shows "pfcp_inv st'"
proof -
  have "pproc_cleanup_timers st' c = Some n
      \<longleftrightarrow> (\<exists>q. ppending_procedures st' n = Some q \<and> pproc_cleanup_timer_id q = c)" for c n
    using pfcp_inv_cleanup [OF inv, of c n] p p' st' by auto
  moreover have "trxn_id2seq_num st' c = Some n
      \<longleftrightarrow> (\<exists>q. ppending_procedures st' n = Some q \<and> trxn_id q = c)" for c n
    using pfcp_inv_trxn [OF inv, of c n] p p' st' by auto
  moreover have "pretry_msg q \<noteq> None \<and> pretry_timer_id q = c"
    if "pmsg_out_retry_timers st' c = Some n" "ppending_procedures st' n = Some q" for c n q
    using that pfcp_inv_retry [OF inv, of c n] pfcp_inv_retry [OF inv t p] p p' st' by (auto split: if_splits)
  moreover have "(pretry_timer_id q \<noteq> 0 \<longrightarrow> pretry_msg q \<noteq> None) \<and> (\<forall>m. pretry_msg q = Some m \<longrightarrow> psequence_number m = n)"
    if "ppending_procedures st' n = Some q" for n q
    using that inv st'(1) p' by (auto simp: pfcp_inv_def split: if_splits)
  moreover have "dom (trxn_id2seq_num st') \<subseteq> uid_generated (trxn_ids st')" using pfcp_inv_used [OF inv] st' by simp
  ultimately show ?thesis using known unfolding pfcp_inv_def by blast
qed

lemma pfcp_known_erase:
  "pfcp_timers_known st \<Longrightarrow> pfcp_timers_known (st\<lparr>pmsg_out_retry_timers := map_erase (pmsg_out_retry_timers st) t\<rparr>)"
  by (auto simp: pfcp_timers_known_def itti_timers.known_def)

lemma pfcp_inv_forget_retry:
  assumes inv: "pfcp_inv st"
  shows "pfcp_inv (st\<lparr>pmsg_out_retry_timers := map_erase (pmsg_out_retry_timers st) t\<rparr>)"
  using assms by (auto simp: pfcp_inv_def pfcp_timers_known_def itti_timers.known_def)

lemma pfcp_inv_cong:
  "ppending_procedures st' = ppending_procedures st \<Longrightarrow> trxn_id2seq_num st' = trxn_id2seq_num st \<Longrightarrow>
   pproc_cleanup_timers st' = pproc_cleanup_timers st \<Longrightarrow> pmsg_out_retry_timers st' = pmsg_out_retry_timers st \<Longrightarrow>
   pitti st' = pitti st \<Longrightarrow> dom (trxn_id2seq_num st) \<subseteq> uid_generated (trxn_ids st') \<Longrightarrow> pfcp_inv st \<Longrightarrow> pfcp_inv st'"
  by (simp add: pfcp_inv_def pfcp_timers_known_def)

lemma pfcp_inv_ids:
  "pfcp_inv st \<Longrightarrow> dom (trxn_id2seq_num st) \<subseteq> uid_generated ids \<Longrightarrow> pfcp_inv (st\<lparr>trxn_ids := ids\<rparr>)"
  by (rule pfcp_inv_cong) simp_all

section \<open>The operations keep the invariant\<close>

lemma generate_trxn:
  assumes "generate_trxn_id st = Inr (tx, st')" and inv: "pfcp_inv st"
  shows "trxn_id2seq_num st tx = None" and "insert tx (uid_generated (trxn_ids st)) \<subseteq> uid_generated (trxn_ids st')"
    and "\<exists>g. st' = st\<lparr>trxn_ids := g\<rparr>" and "tx \<notin> uid_generated (trxn_ids st)"
proof -
  obtain g where g: "uint_uid_get_uid (trxn_ids st) = Some (tx, g)" "st' = st\<lparr>trxn_ids := g\<rparr>"
    using assms(1) by (auto simp: generate_trxn_id_def split: option.splits prod.splits)
  show fresh: "tx \<notin> uid_generated (trxn_ids st)" using uug.get_fresh [OF g(1)] .
  then have "tx \<notin> dom (trxn_id2seq_num st)" using pfcp_inv_used [OF inv] by blast
  then show "trxn_id2seq_num st tx = None" by (simp add: domIff)
  show "insert tx (uid_generated (trxn_ids st)) \<subseteq> uid_generated (trxn_ids st')" "\<exists>g. st' = st\<lparr>trxn_ids := g\<rparr>"
    using uug.get_used [OF g(1)] g(2) by auto
qed

lemma pfcp_receive_new:
  assumes inv: "pfcp_inv st" and new: "ppending_procedures st (psequence_number msg) = None"
    and req: "check_request_type (pmessage_type msg)"
    and "valid_task task" and "pfcp_issued st < 2 ^ 32 - 1"
    and rcv: "pfcp_handle_receive_message_cb now msg task st = Inr (e, tx, st')"
  shows "\<not> e \<and> (\<exists>g c it p. uint_uid_get_uid (trxn_ids st) = Some (tx, g) \<and> trxn_id2seq_num st tx = None
    \<and> pproc_cleanup_timers st c = None \<and> pmsg_out_retry_timers st c = None
    \<and> trxn_id p = tx \<and> pproc_cleanup_timer_id p = c \<and> pretry_msg p = None \<and> pretry_timer_id p = 0
    \<and> pinitial_msg_type p = pmessage_type msg \<and> ptriggered_msg_type p = 0 \<and> pfcp_timers_known st'
    \<and> st' = st\<lparr>trxn_ids := g, pitti := it,
         pproc_cleanup_timers := (pproc_cleanup_timers st)(c \<mapsto> psequence_number msg),
         ppending_procedures := (ppending_procedures st)(psequence_number msg \<mapsto> p),
         trxn_id2seq_num := (trxn_id2seq_num st)(tx \<mapsto> psequence_number msg)\<rparr>)"
proof -
  let ?sn = "psequence_number msg"
  obtain tx1 st1 where g: "generate_trxn_id st = Inr (tx1, st1)"
    using new req rcv by (cases "generate_trxn_id st") (auto simp: pfcp_handle_receive_message_cb_def Let_def)
  then obtain g' where g': "uint_uid_get_uid (trxn_ids st) = Some (tx1, g')" "st1 = st\<lparr>trxn_ids := g'\<rparr>"
    by (auto simp: generate_trxn_id_def split: option.splits prod.splits)
  note tx = generate_trxn [OF g inv]
  let ?p0 = "pfcp_procedure_default\<lparr>trxn_id := tx1, pinitial_msg_type := pmessage_type msg\<rparr> :: 'a pfcp_procedure"
  obtain p st2 where c: "pfcp_start_proc_cleanup_timer now ?p0 (t1_ms st1) task ?sn st1 = (p, st2)" by fastforce
  have "pfcp_issued st1 < 2 ^ 32 - 1" "pfcp_timers_known st1"
    using assms(5) g'(2) pfcp_inv_known [OF inv] by (simp_all add: pfcp_timers_known_def)
  from pfcp_start_cleanup_valid [OF assms(4) this c] obtain i it where
    s: "p = ?p0\<lparr>pproc_cleanup_timer_id := i\<rparr>" "pmsg_out_retry_timers st1 i = None" "pproc_cleanup_timers st1 i = None"
      "st2 = st1\<lparr>pitti := it, pproc_cleanup_timers := (pproc_cleanup_timers st1)(i \<mapsto> ?sn)\<rparr>" "pfcp_timers_known st2"
    by blast
  have r: "\<not> e" "tx = tx1" "st' = st2\<lparr>ppending_procedures := map_insert (ppending_procedures st2) ?sn p,
      trxn_id2seq_num := map_insert (trxn_id2seq_num st2) tx1 ?sn\<rparr>"
    using new req rcv g c by (auto simp: pfcp_handle_receive_message_cb_def Let_def)
  have "pfcp_timers_known st'" using s(5) r(3) by (simp add: pfcp_timers_known_def)
  then show ?thesis using r s g' tx(1) new
    by (intro conjI exI [of _ g'] exI [of _ i] exI [of _ it] exI [of _ p])
      (simp_all add: pfcp_procedure_default_def map_insert_fresh)
qed

lemma pfcp_receive_matched:
  assumes "ppending_procedures st (psequence_number msg) = Some p"
    and "check_response_type (if ptriggered_msg_type p = 0 then pinitial_msg_type p else ptriggered_msg_type p) (pmessage_type msg)"
    and "pretry_timer_id p \<noteq> 0 \<longrightarrow> pretry_msg p \<noteq> None"
  shows "\<exists>it. timer_id it = timer_id (pitti st) \<and> pfcp_handle_receive_message_cb now msg task st = Inr (False, trxn_id p,
    st\<lparr>pitti := it, pmsg_out_retry_timers := map_erase (if pretry_timer_id p \<noteq> 0
         then map_erase (pmsg_out_retry_timers st) (pretry_timer_id p) else pmsg_out_retry_timers st) (pproc_cleanup_timer_id p),
       pproc_cleanup_timers := map_erase (pproc_cleanup_timers st) (pproc_cleanup_timer_id p),
       trxn_id2seq_num := map_erase (trxn_id2seq_num st) (trxn_id p),
       trxn_ids := uint_uid_free_uid (trxn_id p) (trxn_ids st),
       ppending_procedures := map_erase (ppending_procedures st) (psequence_number msg)\<rparr>)"
proof -
  have tid: "timer_id (snd (timer_remove i s)) = timer_id s" for i and s :: "'b itti_mw"
    by (simp add: timer_remove_def split: option.split)
  let ?it = "snd (timer_remove (pproc_cleanup_timer_id p)
      (if pretry_timer_id p \<noteq> 0 then snd (timer_remove (pretry_timer_id p) (pitti st)) else pitti st))"
  note defs = pfcp_handle_receive_message_cb_def Let_def pfcp_stop_msg_retry_timer_def
    pfcp_stop_proc_cleanup_timer_def free_trxn_id_def ITTI_INVALID_TIMER_ID_def tid
  show ?thesis
  proof (cases "pretry_timer_id p = 0")
    case True
    with assms show ?thesis by (intro exI [of _ ?it]) (simp add: defs)
  next
    case False
    with assms(3) obtain y where "pretry_msg p = Some y" by blast
    with False assms show ?thesis by (intro exI [of _ ?it]) (simp add: defs)
  qed
qed

lemma pfcp_receive_discarded:
  assumes "case ppending_procedures st (psequence_number msg) of
      None \<Rightarrow> \<not> check_request_type (pmessage_type msg)
    | Some p \<Rightarrow> \<not> check_response_type
        (if ptriggered_msg_type p = 0 then pinitial_msg_type p else ptriggered_msg_type p) (pmessage_type msg)"
  shows "pfcp_handle_receive_message_cb now msg task st = Inr (True, 0, st)"
  using assms by (auto simp: pfcp_handle_receive_message_cb_def Let_def split: option.splits)

lemma map_erase_le: "m \<subseteq>\<^sub>m m' \<Longrightarrow> map_erase m k \<subseteq>\<^sub>m m'"
  by (auto simp: map_le_def)

lemma pfcp_inv_receive:
  assumes inv: "pfcp_inv st" and task: "valid_task task" "pfcp_issued st < 2 ^ 32 - 1"
    and sn: "ppending_procedures st (psequence_number msg) = None \<Longrightarrow> psequence_number msg \<notin> ran (pmsg_out_retry_timers st)"
    and rcv: "pfcp_handle_receive_message_cb now msg task st = Inr (e, tx, st')"
  shows "pfcp_inv st'"
proof (cases "ppending_procedures st (psequence_number msg)")
  case None
  show ?thesis
  proof (cases "check_request_type (pmessage_type msg)")
    case True
    from pfcp_receive_new [OF inv None True task rcv] obtain g c it p where
      new: "uint_uid_get_uid (trxn_ids st) = Some (tx, g)" "trxn_id2seq_num st tx = None" "pproc_cleanup_timers st c = None"
        "trxn_id p = tx" "pproc_cleanup_timer_id p = c" "pretry_msg p = None" "pretry_timer_id p = 0" "pfcp_timers_known st'"
        "st' = st\<lparr>trxn_ids := g, pitti := it,
         pproc_cleanup_timers := (pproc_cleanup_timers st)(c \<mapsto> psequence_number msg),
         ppending_procedures := (ppending_procedures st)(psequence_number msg \<mapsto> p),
         trxn_id2seq_num := (trxn_id2seq_num st)(tx \<mapsto> psequence_number msg)\<rparr>" by blast
    show ?thesis
      by (rule pfcp_inv_add [OF inv None new(2,3) new(4,5)]) (use new sn [OF None] uug.get_used [OF new(1)] in auto)
  qed (use pfcp_receive_discarded [where st = st and msg = msg] None rcv inv in auto)
next
  case (Some p)
  show ?thesis
  proof (cases "check_response_type (if ptriggered_msg_type p = 0 then pinitial_msg_type p else ptriggered_msg_type p) (pmessage_type msg)")
    case True
    have "pretry_timer_id p \<noteq> 0 \<longrightarrow> pretry_msg p \<noteq> None" using pfcp_inv_retry_id [OF inv Some] by blast
    from pfcp_receive_matched [OF Some True this, of now task] obtain it where
      it: "timer_id it = timer_id (pitti st)" and r: "pfcp_handle_receive_message_cb now msg task st = Inr (False, trxn_id p,
    st\<lparr>pitti := it, pmsg_out_retry_timers := map_erase (if pretry_timer_id p \<noteq> 0
         then map_erase (pmsg_out_retry_timers st) (pretry_timer_id p) else pmsg_out_retry_timers st) (pproc_cleanup_timer_id p),
       pproc_cleanup_timers := map_erase (pproc_cleanup_timers st) (pproc_cleanup_timer_id p),
       trxn_id2seq_num := map_erase (trxn_id2seq_num st) (trxn_id p),
       trxn_ids := uint_uid_free_uid (trxn_id p) (trxn_ids st),
       ppending_procedures := map_erase (ppending_procedures st) (psequence_number msg)\<rparr>)" by blast
    show ?thesis
      by (rule pfcp_inv_remove [OF inv Some]) (use r rcv it uug.free_used in \<open>auto simp: map_erase_le\<close>)
  qed (use pfcp_receive_discarded [where st = st and msg = msg] Some rcv inv in auto)
qed

lemma pfcp_start_procedure_valid:
  assumes known: "pfcp_timers_known st" and task: "valid_task task" and room: "pfcp_issued st + 1 < 2 ^ 32 - 1"
    and r: "pfcp_start_procedure now dest msg task tx st = (sn, st')"
    and new: "ppending_procedures st sn = None" "trxn_id2seq_num st tx = None"
  shows "sn = psequence_number msg \<and> (\<exists>p i c it. trxn_id p = tx \<and> pinitial_msg_type p = pmessage_type msg
    \<and> ptriggered_msg_type p = 0 \<and> pretry_msg p = Some (pfcp_dumped msg) \<and> pretry_count p = 0
    \<and> premote_endpoint p = dest \<and> pretry_timer_id p = i \<and> pproc_cleanup_timer_id p = c \<and> i \<noteq> 0 \<and> i \<noteq> c
    \<and> pmsg_out_retry_timers st i = None \<and> pproc_cleanup_timers st i = None
    \<and> pmsg_out_retry_timers st c = None \<and> pproc_cleanup_timers st c = None
    \<and> pfcp_timers_known st' \<and> pfcp_issued st' = pfcp_issued st + 2
    \<and> st' = st\<lparr>pmsg_out_retry_timers := (pmsg_out_retry_timers st)(i \<mapsto> sn), pitti := it,
         pproc_cleanup_timers := (pproc_cleanup_timers st)(c \<mapsto> sn),
         ppending_procedures := (ppending_procedures st)(sn \<mapsto> p),
         trxn_id2seq_num := (trxn_id2seq_num st)(tx \<mapsto> sn),
         pout := pout st @ [Pfcp_send Pfcp_udp_s_allocated dest msg]\<rparr>)"
proof -
  let ?sn = "psequence_number msg"
  let ?p0 = "pfcp_procedure_default\<lparr>pinitial_msg_type := pmessage_type msg, trxn_id := tx,
                   pretry_msg := Some (pfcp_dumped msg), premote_endpoint := dest\<rparr>"
  obtain p1 st1 where a: "pfcp_start_msg_retry_timer now ?p0 (t1_ms st) task ?sn st = (p1, st1)" by fastforce
  have "pfcp_issued st < 2 ^ 32 - 1" using room by simp
  from pfcp_start_retry_valid [OF task this known a] obtain i it where
    p1: "p1 = ?p0\<lparr>pretry_timer_id := i\<rparr>" "i \<noteq> ITTI_INVALID_TIMER_ID"
      "pmsg_out_retry_timers st i = None" "pproc_cleanup_timers st i = None"
      "st1 = st\<lparr>pitti := it, pmsg_out_retry_timers := (pmsg_out_retry_timers st)(i \<mapsto> ?sn)\<rparr>"
      "pfcp_timers_known st1" "pfcp_issued st1 = Suc (pfcp_issued st)" by blast
  obtain p2 st2 where b: "pfcp_start_proc_cleanup_timer now p1 (PFCP_PROC_TIME_OUT_MS (t1_ms st1) (n1 st1)) task ?sn st1
      = (p2, st2)" by fastforce
  have "pfcp_issued st1 < 2 ^ 32 - 1" using room p1(7) by simp
  from pfcp_start_cleanup_valid [OF task this p1(6) b] obtain c it2 where
    p2: "p2 = p1\<lparr>pproc_cleanup_timer_id := c\<rparr>" "pmsg_out_retry_timers st1 c = None" "pproc_cleanup_timers st1 c = None"
      "st2 = st1\<lparr>pitti := it2, pproc_cleanup_timers := (pproc_cleanup_timers st1)(c \<mapsto> ?sn)\<rparr>"
      "pfcp_timers_known st2" "pfcp_issued st2 = Suc (pfcp_issued st1)" by blast
  have st': "sn = ?sn" "st' = pfcp_emit (Pfcp_send Pfcp_udp_s_allocated dest msg)
      (st2\<lparr>ppending_procedures := map_insert (ppending_procedures st2) ?sn p2,
           trxn_id2seq_num := map_insert (trxn_id2seq_num st2) tx ?sn\<rparr>)"
    using r a b by (auto simp: pfcp_start_procedure_def Let_def)
  have c: "pmsg_out_retry_timers st c = None" "i \<noteq> c" using p2(2) p1(5) by (auto split: if_splits)
  have "pfcp_timers_known st'" "pfcp_issued st' = pfcp_issued st + 2"
    using p2(5,6) p1(7) st'(2) by (simp_all add: pfcp_timers_known_def pfcp_emit_def)
  moreover have "st' = st\<lparr>pmsg_out_retry_timers := (pmsg_out_retry_timers st)(i \<mapsto> sn), pitti := it2,
         pproc_cleanup_timers := (pproc_cleanup_timers st)(c \<mapsto> sn),
         ppending_procedures := (ppending_procedures st)(sn \<mapsto> p2),
         trxn_id2seq_num := (trxn_id2seq_num st)(tx \<mapsto> sn),
         pout := pout st @ [Pfcp_send Pfcp_udp_s_allocated dest msg]\<rparr>"
    using new unfolding st' p2(4) p1(5) by (simp add: pfcp_emit_def map_insert_fresh)
  moreover have "trxn_id p2 = tx" "pinitial_msg_type p2 = pmessage_type msg" "ptriggered_msg_type p2 = 0"
    "pretry_msg p2 = Some (pfcp_dumped msg)" "pretry_count p2 = 0" "premote_endpoint p2 = dest"
    "pretry_timer_id p2 = i" "pproc_cleanup_timer_id p2 = c"
    unfolding p2(1) p1(1) by (simp_all add: pfcp_procedure_default_def)
  moreover have "i \<noteq> 0" "pproc_cleanup_timers st c = None" using p1(2,5) p2(3) by (simp_all add: ITTI_INVALID_TIMER_ID_def)
  ultimately show ?thesis using st'(1) p1(3,4) c by blast
qed

lemma pfcp_inv_send:
  assumes inv: "pfcp_inv st" and task: "valid_task task" and room: "pfcp_issued st + 1 < 2 ^ 32 - 1"
    and r: "pfcp_start_procedure now dest msg task tx (st\<lparr>pseq_num := q\<rparr>) = (sn, st')"
    and new: "ppending_procedures st sn = None" "sn \<notin> ran (pmsg_out_retry_timers st)"
    and tx: "tx \<in> uid_generated (trxn_ids st)" "trxn_id2seq_num st tx = None"
  shows "pfcp_inv st'"
proof -
  let ?st = "st\<lparr>pseq_num := q\<rparr>"
  have known: "pfcp_timers_known ?st" using pfcp_inv_known [OF inv] by (simp add: pfcp_timers_known_def)
  have pre: "pfcp_issued ?st + 1 < 2 ^ 32 - 1" "ppending_procedures ?st sn = None" "trxn_id2seq_num ?st tx = None"
    using room new tx by simp_all
  from pfcp_start_procedure_valid [OF known task pre(1) r pre(2,3)] obtain p i c it where
    p: "sn = psequence_number msg" "trxn_id p = tx" "pretry_msg p = Some (pfcp_dumped msg)" "pretry_timer_id p = i"
      "pproc_cleanup_timer_id p = c" "i \<noteq> 0" "pproc_cleanup_timers st c = None" "pfcp_timers_known st'"
      "st' = ?st\<lparr>pmsg_out_retry_timers := (pmsg_out_retry_timers ?st)(i \<mapsto> sn), pitti := it,
         pproc_cleanup_timers := (pproc_cleanup_timers ?st)(c \<mapsto> sn),
         ppending_procedures := (ppending_procedures ?st)(sn \<mapsto> p),
         trxn_id2seq_num := (trxn_id2seq_num ?st)(tx \<mapsto> sn),
         pout := pout ?st @ [Pfcp_send Pfcp_udp_s_allocated dest msg]\<rparr>" by auto
  show ?thesis
    by (rule pfcp_inv_add [OF inv new(1) tx(2) p(7) p(2,5)]) (use p new(2) tx(1) in auto)
qed

lemma timer_remove_id [simp]: "timer_id (snd (timer_remove i s)) = timer_id s"
  by (simp add: timer_remove_def split: option.split)

lemma pfcp_end_transaction_spec:
  assumes "ppending_procedures st sn = Some p"
  shows "\<exists>it. timer_id it = timer_id (pitti st) \<and> pfcp_end_transaction fr tx sn st =
    st\<lparr>pitti := it, pmsg_out_retry_timers := map_erase (pmsg_out_retry_timers st) (pproc_cleanup_timer_id p),
       pproc_cleanup_timers := map_erase (pproc_cleanup_timers st) (pproc_cleanup_timer_id p),
       trxn_ids := (if fr then uint_uid_free_uid tx (trxn_ids st) else trxn_ids st),
       ppending_procedures := map_erase (ppending_procedures st) sn,
       trxn_id2seq_num := map_erase (trxn_id2seq_num st) tx\<rparr>"
  using assms
  by (intro exI [of _ "snd (timer_remove (pproc_cleanup_timer_id p) (pitti st))"])
    (simp add: pfcp_end_transaction_def pfcp_stop_proc_cleanup_timer_def free_trxn_id_def Let_def)

lemma pfcp_inv_response:
  assumes inv: "pfcp_inv st"
  shows "pfcp_inv (pfcp_send_response fr dest msg tx a st)"
proof (cases "trxn_id2seq_num st tx")
  case None
  then show ?thesis using inv by (simp add: pfcp_send_response_def)
next
  case (Some sn)
  let ?st = "pfcp_emit (Pfcp_send Udp_s_registered dest (pfcp_set_sequence_number sn msg)) st"
  have inv1: "pfcp_inv ?st"
    by (rule pfcp_inv_cong [OF _ _ _ _ _ _ inv]) (use pfcp_inv_used [OF inv] in \<open>simp_all add: pfcp_emit_def\<close>)
  obtain p where p: "ppending_procedures ?st sn = Some p" "trxn_id p = tx"
    using Some pfcp_inv_trxn [OF inv, of tx sn] by (auto simp: pfcp_emit_def)
  have "pfcp_inv (pfcp_end_transaction fr tx sn ?st)"
  proof -
    obtain it where it: "timer_id it = timer_id (pitti ?st)" "pfcp_end_transaction fr tx sn ?st =
      ?st\<lparr>pitti := it, pmsg_out_retry_timers := map_erase (pmsg_out_retry_timers ?st) (pproc_cleanup_timer_id p),
       pproc_cleanup_timers := map_erase (pproc_cleanup_timers ?st) (pproc_cleanup_timer_id p),
       trxn_ids := (if fr then uint_uid_free_uid tx (trxn_ids ?st) else trxn_ids ?st),
       ppending_procedures := map_erase (ppending_procedures ?st) sn,
       trxn_id2seq_num := map_erase (trxn_id2seq_num ?st) tx\<rparr>"
      using pfcp_end_transaction_spec [OF p(1), of fr tx] by blast
    show ?thesis
      by (rule pfcp_inv_remove [OF inv1 p(1)])
        (use it p uug.free_used [of tx "trxn_ids ?st"] in \<open>simp_all add: map_erase_le\<close>)
  qed
  with Some inv1 show ?thesis by (simp add: pfcp_send_response_def Let_def)
qed

text \<open>The four outcomes of a timer that the stack knows.\<close>

lemma pfcp_time_out_retry:
  assumes "pmsg_out_retry_timers st t = Some sn" "ppending_procedures st sn = Some p" "pretry_msg p = Some m"
    and "unat (pretry_count p) < unat (n1 st)"
  shows "\<exists>p2 st2. pfcp_start_msg_retry_timer now (p\<lparr>pretry_count := pretry_count p + 1\<rparr>) (t1_ms st) task (psequence_number m)
        (st\<lparr>pmsg_out_retry_timers := map_erase (pmsg_out_retry_timers st) t\<rparr>) = (p2, st2)
    \<and> pfcp_time_out_event now t task st = Inr (True, pfcp_emit (Pfcp_send Udp_s_registered (premote_endpoint p2) m)
        (st2\<lparr>ppending_procedures := (ppending_procedures st2)(sn \<mapsto> p2\<lparr>pretry_msg := Some (pfcp_dumped m)\<rparr>)\<rparr>))"
  using assms by (auto simp: pfcp_time_out_event_def Let_def split: prod.splits)

lemma pfcp_time_out_abort:
  assumes "pmsg_out_retry_timers st t = Some sn" "ppending_procedures st sn = Some p" "pretry_msg p = Some m"
    and "\<not> unat (pretry_count p) < unat (n1 st)"
  shows "pfcp_time_out_event now t task st = Inr (True, pfcp_emit (Pfcp_ul_error (premote_endpoint p) (pmessage_type m)
      (psequence_number m) (trxn_id p) REMOTE_PEER_NOT_RESPONDING)
        (st\<lparr>pmsg_out_retry_timers := map_erase (pmsg_out_retry_timers st) t\<rparr>))"
  using assms by (simp add: pfcp_time_out_event_def Let_def)

lemma pfcp_time_out_cleanup:
  assumes "pmsg_out_retry_timers st t = None" "pproc_cleanup_timers st t = Some sn" "ppending_procedures st sn = Some p"
  shows "pfcp_time_out_event now t task st = Inr (True, st\<lparr>trxn_id2seq_num := map_erase (trxn_id2seq_num st) (trxn_id p),
      trxn_ids := uint_uid_free_uid (trxn_id p) (trxn_ids st),
      pproc_cleanup_timers := map_erase (pproc_cleanup_timers st) t,
      ppending_procedures := map_erase (ppending_procedures st) sn\<rparr>)"
  using assms by (simp add: pfcp_time_out_event_def free_trxn_id_def Let_def)

lemma pfcp_time_out_inv:
  assumes inv: "pfcp_inv st" and task: "valid_task task" "pfcp_issued st < 2 ^ 32 - 1"
  shows "\<exists>h st'. pfcp_time_out_event now t task st = Inr (h, st') \<and> pfcp_inv st'"
proof (cases "pmsg_out_retry_timers st t")
  case None
  show ?thesis
  proof (cases "pproc_cleanup_timers st t")
    case None
    with \<open>pmsg_out_retry_timers st t = None\<close> inv show ?thesis by (auto simp: pfcp_time_out_event_def)
  next
    case (Some sn)
    then obtain p where p: "ppending_procedures st sn = Some p" "pproc_cleanup_timer_id p = t"
      using pfcp_inv_cleanup [OF inv, of t sn] by blast
    note r = pfcp_time_out_cleanup [OF None Some p(1), of now task]
    have "pfcp_inv (st\<lparr>trxn_id2seq_num := map_erase (trxn_id2seq_num st) (trxn_id p),
      trxn_ids := uint_uid_free_uid (trxn_id p) (trxn_ids st),
      pproc_cleanup_timers := map_erase (pproc_cleanup_timers st) t,
      ppending_procedures := map_erase (ppending_procedures st) sn\<rparr>)"
      by (rule pfcp_inv_remove [OF inv p(1)]) (use p uug.free_used [of "trxn_id p" "trxn_ids st"] in simp_all)
    with r show ?thesis by blast
  qed
next
  case (Some sn)
  let ?st = "st\<lparr>pmsg_out_retry_timers := map_erase (pmsg_out_retry_timers st) t\<rparr>"
  note forget = pfcp_inv_forget_retry [OF inv, of t]
  show ?thesis
  proof (cases "ppending_procedures st sn")
    case None
    with Some forget show ?thesis by (auto simp: pfcp_time_out_event_def)
  next
    case (Some p)
    note t = \<open>pmsg_out_retry_timers st t = Some sn\<close>
    obtain m where m: "pretry_msg p = Some m" "psequence_number m = sn" using pfcp_inv_retry [OF inv t Some] by blast
    show ?thesis
    proof (cases "unat (pretry_count p) < unat (n1 st)")
      case False
      have "pfcp_inv (pfcp_emit x ?st)" for x
        by (rule pfcp_inv_cong [OF _ _ _ _ _ _ forget]) (use pfcp_inv_used [OF inv] in \<open>simp_all add: pfcp_emit_def\<close>)
      with pfcp_time_out_abort [OF t Some m(1) False, of now task] show ?thesis by blast
    next
      case True
      from pfcp_time_out_retry [OF t Some m(1) True, of now task] obtain p2 st2 where
        s: "pfcp_start_msg_retry_timer now (p\<lparr>pretry_count := pretry_count p + 1\<rparr>) (t1_ms st) task sn ?st = (p2, st2)"
        and r: "pfcp_time_out_event now t task st = Inr (True, pfcp_emit (Pfcp_send Udp_s_registered (premote_endpoint p2) m)
          (st2\<lparr>ppending_procedures := (ppending_procedures st2)(sn \<mapsto> p2\<lparr>pretry_msg := Some (pfcp_dumped m)\<rparr>)\<rparr>))"
        using m(2) by auto
      have "pfcp_issued ?st < 2 ^ 32 - 1" using task(2) by simp
      from pfcp_start_retry_valid [OF task(1) this pfcp_inv_known [OF forget] s] obtain i it where
        i: "p2 = p\<lparr>pretry_count := pretry_count p + 1\<rparr>\<lparr>pretry_timer_id := i\<rparr>"
          "st2 = ?st\<lparr>pitti := it, pmsg_out_retry_timers := (pmsg_out_retry_timers ?st)(i \<mapsto> sn)\<rparr>"
          "pfcp_timers_known st2" by blast
      have "pfcp_inv (pfcp_emit (Pfcp_send Udp_s_registered (premote_endpoint p2) m)
          (st2\<lparr>ppending_procedures := (ppending_procedures st2)(sn \<mapsto> p2\<lparr>pretry_msg := Some (pfcp_dumped m)\<rparr>)\<rparr>))"
        by (rule pfcp_inv_rearm [OF inv Some t, where p' = "p2\<lparr>pretry_msg := Some (pfcp_dumped m)\<rparr>" and m = "pfcp_dumped m" and i = i])
          (use i m(2) in \<open>simp_all add: pfcp_emit_def pfcp_timers_known_def\<close>)
      with r show ?thesis by blast
    qed
  qed
qed

section \<open>Reachable states\<close>

text \<open>
  The steps of the stack under the assumptions its correctness needs: the tasks are valid, the 32-bit
  timer identifiers have not wrapped, a request is sent under an identifier that the sender holds and
  has not used, and the two directions do not choose the same sequence number at the same time.
\<close>

definition sn_unused :: "u32 \<Rightarrow> ('ie, 'p) pfcp_l4_stack \<Rightarrow> bool" where
  "sn_unused sn st \<longleftrightarrow> ppending_procedures st sn = None \<and> sn \<notin> ran (pmsg_out_retry_timers st)"

inductive pfcp_step :: "('ie, 'p) pfcp_l4_stack \<Rightarrow> ('ie, 'p) pfcp_l4_stack \<Rightarrow> bool" where
  pfcp_receive: "pfcp_handle_receive_message_cb now msg task st = Inr (e, tx, st') \<Longrightarrow> valid_task task \<Longrightarrow>
    pfcp_issued st < 2 ^ 32 - 1 \<Longrightarrow> sn_unused (psequence_number msg) st \<or> ppending_procedures st (psequence_number msg) \<noteq> None \<Longrightarrow>
    pfcp_step st st'"
| pfcp_take_trxn: "generate_trxn_id st = Inr (tx, st') \<Longrightarrow> pfcp_step st st'"
| pfcp_give_trxn: "trxn_id2seq_num st tx = None \<Longrightarrow> pfcp_step st (free_trxn_id tx st)"
| pfcp_request_node: "send_request_node t len now dest xs task tx st = (sn, st') \<Longrightarrow> valid_task task \<Longrightarrow>
    pfcp_issued st + 1 < 2 ^ 32 - 1 \<Longrightarrow> sn_unused sn st \<Longrightarrow> tx \<in> uid_generated (trxn_ids st) \<Longrightarrow>
    trxn_id2seq_num st tx = None \<Longrightarrow> pfcp_step st st'"
| pfcp_request_session: "send_request_session t len now dest sd xs task tx st = (sn, st') \<Longrightarrow> valid_task task \<Longrightarrow>
    pfcp_issued st + 1 < 2 ^ 32 - 1 \<Longrightarrow> sn_unused sn st \<Longrightarrow> tx \<in> uid_generated (trxn_ids st) \<Longrightarrow>
    trxn_id2seq_num st tx = None \<Longrightarrow> pfcp_step st st'"
| pfcp_respond: "pfcp_step st (pfcp_send_response fr dest msg tx a st)"
| pfcp_time_out: "pfcp_time_out_event now i task st = Inr (h, st') \<Longrightarrow> valid_task task \<Longrightarrow>
    pfcp_issued st < 2 ^ 32 - 1 \<Longrightarrow> pfcp_step st st'"

lemma pfcp_inv_step: "pfcp_step st st' \<Longrightarrow> pfcp_inv st \<Longrightarrow> pfcp_inv st'"
proof (induction rule: pfcp_step.induct)
  case (pfcp_receive now msg task st e tx st')
  then show ?case using pfcp_inv_receive by (metis sn_unused_def)
next
  case (pfcp_take_trxn st tx st')
  note g = generate_trxn [OF pfcp_take_trxn]
  then obtain ids where "st' = st\<lparr>trxn_ids := ids\<rparr>" by blast
  with g(2) pfcp_inv_used [OF pfcp_take_trxn(2)] pfcp_inv_ids [OF pfcp_take_trxn(2)] show ?case by auto
next
  case (pfcp_give_trxn st tx)
  then have "dom (trxn_id2seq_num st) \<subseteq> uid_generated (trxn_ids st) - {tx}" using pfcp_inv_used by fastforce
  with uug.free_used [of tx "trxn_ids st"] pfcp_inv_ids [OF pfcp_give_trxn(2)] show ?case
    by (simp add: free_trxn_id_def)
next
  case (pfcp_request_node t len now dest xs task tx st sn st')
  then show ?case
    using pfcp_inv_send by (fastforce simp: send_request_node_def pfcp_get_next_seq_num_def Let_def sn_unused_def)
next
  case (pfcp_request_session t len now dest sd xs task tx st sn st')
  then show ?case
    using pfcp_inv_send by (fastforce simp: send_request_session_def pfcp_get_next_seq_num_def Let_def sn_unused_def)
next
  case (pfcp_respond st fr dest msg tx a)
  then show ?case by (rule pfcp_inv_response)
next
  case (pfcp_time_out now i task st h st')
  then show ?case using pfcp_time_out_inv [OF pfcp_time_out(4,2,3), of now i] by auto
qed


definition demo_pfcp :: "(unit, unit) pfcp_l4_stack" where
  "demo_pfcp = pfcp_l4_stack_new 1000 3 0 (itti_mw_init 0) uint_uid_generator_init"

definition demo_pfcp_request :: "u8 \<Rightarrow> unit pfcp_msg" where
  "demo_pfcp_request t = pfcp_msg_default\<lparr>pmessage_type := t, psequence_number := 7\<rparr>"

lemma demo_pfcp_inv: "pfcp_inv demo_pfcp"
  by (simp add: pfcp_inv_def demo_pfcp_def pfcp_l4_stack_new_def pfcp_timers_known_def itti_timers.known_empty)

lemma demo_pfcp_tables [simp]:
  "ppending_procedures demo_pfcp = Map.empty" "trxn_id2seq_num demo_pfcp = Map.empty"
  "pmsg_out_retry_timers demo_pfcp = Map.empty" "pproc_cleanup_timers demo_pfcp = Map.empty"
  "pfcp_issued demo_pfcp = 0" "n1 demo_pfcp = 3" "trxn_ids demo_pfcp = uint_uid_generator_init" "pout demo_pfcp = []"
  by (simp_all add: demo_pfcp_def pfcp_l4_stack_new_def itti_mw_init_def)

lemma demo_pfcp_request_simps [simp]:
  "pmessage_type (demo_pfcp_request t) = t" "psequence_number (demo_pfcp_request t) = 7"
  by (simp_all add: demo_pfcp_request_def)

lemma demo_pfcp_receive:
  assumes "check_request_type t"
  shows "\<exists>st tx. pfcp_handle_receive_message_cb 0 (demo_pfcp_request t) TASK_PGWC_SX demo_pfcp = Inr (False, tx, st)"
proof -
  have "uint_uid_get_uid (uint_uid_generator_init :: u64 uint_generator) \<noteq> None"
    by (simp add: uint_uid_get_uid_def uint_uid_generator_init_def get_uid_def get_uid_loop.simps)
  then show ?thesis using assms
    by (auto simp: pfcp_handle_receive_message_cb_def generate_trxn_id_def Let_def split: prod.splits)
qed




section \<open>Requests from the peer\<close>

text \<open>
  an answered PFCP request. The response carries the sequence number of the request and nothing
  else is sent; procedures, transactions and timers are then what they were before the request. Only
  the overload for heartbeats (\<open>fr\<close>) gives the transaction identifier back: after every other response
  it stays marked as used although no table holds it.
\<close>

theorem pfcp_request_answered:
  assumes inv: "pfcp_inv st" and new: "ppending_procedures st (psequence_number msg) = None"
    "check_request_type (pmessage_type msg)" and task: "valid_task task" "pfcp_issued st < 2 ^ 32 - 1"
    and rcv: "pfcp_handle_receive_message_cb now msg task st = Inr (e, tx, st1)"
    and sn: "psequence_number msg AND 0xFFFFFF = psequence_number msg"
  shows "\<exists>st2 rsp'. pfcp_send_response fr dest rsp tx PFCP_DELETE_TX st1 = st2
    \<and> pout st2 = pout st @ [Pfcp_send Udp_s_registered dest rsp'] \<and> psequence_number rsp' = psequence_number msg
    \<and> pmessage_type rsp' = pmessage_type rsp \<and> pies rsp' = pies rsp
    \<and> ppending_procedures st2 = ppending_procedures st \<and> trxn_id2seq_num st2 = trxn_id2seq_num st
    \<and> pproc_cleanup_timers st2 = pproc_cleanup_timers st \<and> pmsg_out_retry_timers st2 = pmsg_out_retry_timers st
    \<and> uid_generated (trxn_ids st2) = uid_generated (trxn_ids st) \<union> (if fr then {} else {tx})
    \<and> tx \<notin> uid_generated (trxn_ids st)"
proof -
  let ?sn = "psequence_number msg"
  from pfcp_receive_new [OF inv new task rcv] obtain g c it p where
    r: "uint_uid_get_uid (trxn_ids st) = Some (tx, g)" "trxn_id2seq_num st tx = None"
      "pproc_cleanup_timers st c = None" "pmsg_out_retry_timers st c = None" "pproc_cleanup_timer_id p = c"
      "st1 = st\<lparr>trxn_ids := g, pitti := it, pproc_cleanup_timers := (pproc_cleanup_timers st)(c \<mapsto> ?sn),
         ppending_procedures := (ppending_procedures st)(?sn \<mapsto> p), trxn_id2seq_num := (trxn_id2seq_num st)(tx \<mapsto> ?sn)\<rparr>"
    by blast
  let ?rsp = "pfcp_set_sequence_number ?sn rsp"
  let ?st = "pfcp_emit (Pfcp_send Udp_s_registered dest ?rsp) st1"
  have p: "ppending_procedures ?st ?sn = Some p" using r(6) by (simp add: pfcp_emit_def)
  obtain it2 where e: "pfcp_end_transaction fr tx ?sn ?st =
    ?st\<lparr>pitti := it2, pmsg_out_retry_timers := map_erase (pmsg_out_retry_timers ?st) (pproc_cleanup_timer_id p),
       pproc_cleanup_timers := map_erase (pproc_cleanup_timers ?st) (pproc_cleanup_timer_id p),
       trxn_ids := (if fr then uint_uid_free_uid tx (trxn_ids ?st) else trxn_ids ?st),
       ppending_procedures := map_erase (ppending_procedures ?st) ?sn,
       trxn_id2seq_num := map_erase (trxn_id2seq_num ?st) tx\<rparr>"
    using pfcp_end_transaction_spec [OF p, of fr tx] by blast
  have "pfcp_send_response fr dest rsp tx PFCP_DELETE_TX st1 = pfcp_end_transaction fr tx ?sn ?st"
    using r(6) by (simp add: pfcp_send_response_def Let_def)
  moreover have "map_erase (m(k \<mapsto> v)) k = m" if "m k = None" for m :: "'k \<rightharpoonup> 'v" and k v
    using that by (auto simp: fun_eq_iff)
  moreover have "map_erase (pmsg_out_retry_timers st) c = pmsg_out_retry_timers st"
    using r(4) by (auto simp: fun_eq_iff)
  ultimately show ?thesis
    using r e new(1) sn uug.get_used [OF r(1)] uug.get_fresh [OF r(1)] uug.free_used [of tx g]
    by (intro exI [of _ "pfcp_end_transaction fr tx ?sn ?st"] exI [of _ ?rsp])
      (auto simp: pfcp_emit_def pfcp_set_sequence_number_def)
qed

theorem pfcp_request_answered_witness:
  "\<exists>st tx rsp'. pfcp_handle_receive_message_cb 0 (demo_pfcp_request PFCP_SESSION_REPORT_REQUEST) TASK_PGWC_SX demo_pfcp
      = Inr (False, tx, st)
    \<and> pout (send_response_session_report (\<lambda>_. 0) endpoint_default 5 [] tx PFCP_DELETE_TX st)
        = [Pfcp_send Udp_s_registered endpoint_default rsp'] \<and> psequence_number rsp' = 7
    \<and> uid_generated (trxn_ids (send_response_session_report (\<lambda>_. 0) endpoint_default 5 [] tx PFCP_DELETE_TX st)) = {tx}"
proof -
  let ?m = "demo_pfcp_request PFCP_SESSION_REPORT_REQUEST"
  have req: "check_request_type PFCP_SESSION_REPORT_REQUEST" by (simp add: check_request_type_def)
  obtain st tx where r: "pfcp_handle_receive_message_cb 0 ?m TASK_PGWC_SX demo_pfcp = Inr (False, tx, st)"
    using demo_pfcp_receive [OF req] by blast
  have h: "ppending_procedures demo_pfcp (psequence_number ?m) = None" "check_request_type (pmessage_type ?m)"
    "valid_task TASK_PGWC_SX" "pfcp_issued demo_pfcp < 2 ^ 32 - 1" using req by (simp_all add: task_defs)
  from pfcp_request_answered [OF demo_pfcp_inv h r, where fr = False and dest = endpoint_default
      and rsp = "set_seid 5 (pfcp_msg_of_ies (\<lambda>_. 0) PFCP_SESSION_REPORT_RESPONSE [])"]
  show ?thesis using r by (auto simp: send_response_session_report_def uint_uid_generator_init_def)
qed

section \<open>Requests to the peer\<close>

text \<open>
  The state of a request that was sent from state \<open>st0\<close> and repeated \<open>k\<close> times: its entries, and nothing
  else, are in the tables on top of those of \<open>st0\<close>.
\<close>

definition pfcp_awaiting ::
  "('ie, 'p) pfcp_l4_stack \<Rightarrow> u32 \<Rightarrow> endpoint \<Rightarrow> u64 \<Rightarrow> 'ie pfcp_msg \<Rightarrow> timer_id \<Rightarrow> nat \<Rightarrow> 'ie pfcp_procedure \<Rightarrow>
     ('ie, 'p) pfcp_l4_stack \<Rightarrow> bool" where
  "pfcp_awaiting st0 sn dest tx m c k p st \<longleftrightarrow>
     ppending_procedures st = (ppending_procedures st0)(sn \<mapsto> p)
     \<and> pmsg_out_retry_timers st = (pmsg_out_retry_timers st0)(pretry_timer_id p \<mapsto> sn)
     \<and> pproc_cleanup_timers st = (pproc_cleanup_timers st0)(c \<mapsto> sn)
     \<and> trxn_id2seq_num st = (trxn_id2seq_num st0)(tx \<mapsto> sn) \<and> trxn_ids st = trxn_ids st0 \<and> n1 st = n1 st0
     \<and> ppending_procedures st0 sn = None \<and> pmsg_out_retry_timers st0 (pretry_timer_id p) = None
     \<and> pproc_cleanup_timers st0 c = None \<and> trxn_id2seq_num st0 tx = None
     \<and> pmsg_out_retry_timers st0 c = None \<and> pretry_timer_id p \<noteq> c \<and> pretry_timer_id p \<noteq> 0
     \<and> pretry_count p = of_nat k \<and> pretry_msg p = Some m \<and> premote_endpoint p = dest \<and> trxn_id p = tx
     \<and> pinitial_msg_type p = pmessage_type m \<and> ptriggered_msg_type p = 0 \<and> pproc_cleanup_timer_id p = c
     \<and> psequence_number m = sn \<and> pfcp_dumped m = m \<and> pfcp_timers_known st
     \<and> pout st = pout st0 @ Pfcp_send Pfcp_udp_s_allocated dest m # replicate k (Pfcp_send Udp_s_registered dest m)"

lemma pfcp_awaiting_start:
  assumes inv: "pfcp_inv st" and task: "valid_task task" and room: "pfcp_issued st + 1 < 2 ^ 32 - 1"
    and r: "send_request_session t len now dest sd xs task tx st = (sn, st')"
    and new: "ppending_procedures st sn = None" "trxn_id2seq_num st tx = None"
  shows "\<exists>m c p. pmessage_type m = t \<and> pfcp_awaiting st sn dest tx m c 0 p st' \<and> pfcp_issued st' = pfcp_issued st + 2"
proof -
  obtain q where q: "pfcp_get_next_seq_num st = (q, st\<lparr>pseq_num := q\<rparr>)" by (simp add: pfcp_get_next_seq_num_def Let_def)
  let ?st = "st\<lparr>pseq_num := q\<rparr>"
  let ?m = "pfcp_set_sequence_number q (set_seid sd (pfcp_msg_of_ies len t xs))"
  have s: "pfcp_start_procedure now dest ?m task tx ?st = (sn, st')" using r q by (simp add: send_request_session_def)
  have known: "pfcp_timers_known ?st" using pfcp_inv_known [OF inv] by (simp add: pfcp_timers_known_def)
  have pre: "pfcp_issued ?st + 1 < 2 ^ 32 - 1" "ppending_procedures ?st sn = None" "trxn_id2seq_num ?st tx = None"
    using room new by simp_all
  from pfcp_start_procedure_valid [OF known task pre(1) s pre(2,3)] obtain p i c it where
    p: "sn = psequence_number ?m" "trxn_id p = tx" "pinitial_msg_type p = pmessage_type ?m" "ptriggered_msg_type p = 0"
      "pretry_msg p = Some (pfcp_dumped ?m)" "pretry_count p = 0" "premote_endpoint p = dest" "pretry_timer_id p = i"
      "pproc_cleanup_timer_id p = c" "i \<noteq> 0" "i \<noteq> c" "pmsg_out_retry_timers ?st i = None"
      "pmsg_out_retry_timers ?st c = None" "pproc_cleanup_timers ?st c = None" "pfcp_timers_known st'"
      "pfcp_issued st' = pfcp_issued ?st + 2"
      "st' = ?st\<lparr>pmsg_out_retry_timers := (pmsg_out_retry_timers ?st)(i \<mapsto> sn), pitti := it,
         pproc_cleanup_timers := (pproc_cleanup_timers ?st)(c \<mapsto> sn),
         ppending_procedures := (ppending_procedures ?st)(sn \<mapsto> p),
         trxn_id2seq_num := (trxn_id2seq_num ?st)(tx \<mapsto> sn),
         pout := pout ?st @ [Pfcp_send Pfcp_udp_s_allocated dest ?m]\<rparr>" by blast
  have "pfcp_awaiting st sn dest tx ?m c 0 p st'"
    using p new unfolding pfcp_awaiting_def by (simp add: pfcp_msg_of_ies_header)
  moreover have "pmessage_type ?m = t" by (simp add: pfcp_msg_of_ies_header)
  ultimately show ?thesis using p(16) by (intro exI [of _ ?m] exI [of _ c] exI [of _ p]) simp
qed

lemma pfcp_awaiting_retry:
  assumes aw: "pfcp_awaiting st0 sn dest tx m c k p st" and k: "k < unat (n1 st0)" "unat (n1 st0) \<le> 255"
    and task: "valid_task task" and room: "pfcp_issued st < 2 ^ 32 - 1"
  shows "\<exists>p' st'. pfcp_time_out_event now (pretry_timer_id p) task st = Inr (True, st')
    \<and> pfcp_awaiting st0 sn dest tx m c (Suc k) p' st' \<and> pfcp_issued st' = Suc (pfcp_issued st)"
proof -
  let ?i = "pretry_timer_id p"
  let ?st = "st\<lparr>pmsg_out_retry_timers := map_erase (pmsg_out_retry_timers st) ?i\<rparr>"
  have a: "pmsg_out_retry_timers st ?i = Some sn" "ppending_procedures st sn = Some p" "pretry_msg p = Some m"
    "psequence_number m = sn" "pfcp_dumped m = m"
    using aw by (auto simp: pfcp_awaiting_def)
  have cnt: "unat (pretry_count p) < unat (n1 st)" using aw k by (auto simp: pfcp_awaiting_def unat_of_nat)
  from pfcp_time_out_retry [OF a(1-3) cnt, of now task] obtain p2 st2 where
    s: "pfcp_start_msg_retry_timer now (p\<lparr>pretry_count := pretry_count p + 1\<rparr>) (t1_ms st) task sn ?st = (p2, st2)"
    and r: "pfcp_time_out_event now ?i task st = Inr (True, pfcp_emit (Pfcp_send Udp_s_registered (premote_endpoint p2) m)
        (st2\<lparr>ppending_procedures := (ppending_procedures st2)(sn \<mapsto> p2\<lparr>pretry_msg := Some (pfcp_dumped m)\<rparr>)\<rparr>))"
    using a(4) by auto
  have known: "pfcp_timers_known ?st"
    using aw by (intro pfcp_known_erase) (simp add: pfcp_awaiting_def)
  have "pfcp_issued ?st < 2 ^ 32 - 1" using room by simp
  from pfcp_start_retry_valid [OF task this known s] obtain i it where
    i: "p2 = p\<lparr>pretry_count := pretry_count p + 1\<rparr>\<lparr>pretry_timer_id := i\<rparr>" "i \<noteq> ITTI_INVALID_TIMER_ID"
      "pmsg_out_retry_timers ?st i = None" "pproc_cleanup_timers ?st i = None"
      "st2 = ?st\<lparr>pitti := it, pmsg_out_retry_timers := (pmsg_out_retry_timers ?st)(i \<mapsto> sn)\<rparr>"
      "pfcp_timers_known st2" "pfcp_issued st2 = Suc (pfcp_issued ?st)" by blast
  have st0: "map_erase (pmsg_out_retry_timers st) ?i = pmsg_out_retry_timers st0"
    using aw by (auto simp: pfcp_awaiting_def fun_eq_iff)
  let ?p' = "p2\<lparr>pretry_msg := Some (pfcp_dumped m)\<rparr>"
  let ?st' = "pfcp_emit (Pfcp_send Udp_s_registered (premote_endpoint p2) m) (st2\<lparr>ppending_procedures := (ppending_procedures st2)(sn \<mapsto> ?p')\<rparr>)"
  have "pfcp_timers_known ?st'" using i(6) by (simp add: pfcp_timers_known_def pfcp_emit_def)
  moreover have "i \<noteq> c" using i(4) aw by (auto simp: pfcp_awaiting_def)
  moreover have "pmsg_out_retry_timers st0 i = None" using i(3) by (simp add: st0)
  ultimately have "pfcp_awaiting st0 sn dest tx m c (Suc k) ?p' ?st'"
    using aw i a st0 unfolding pfcp_awaiting_def
    by (auto simp: pfcp_emit_def replicate_append_same ITTI_INVALID_TIMER_ID_def)
  with r i(7) show ?thesis by (intro exI [of _ ?p'] exI [of _ ?st']) (simp add: pfcp_emit_def)
qed

text \<open>The retransmission timer of procedure \<open>sn\<close> fires at the times given, one after the other.\<close>

fun pfcp_fire_retries ::
  "time_point list \<Rightarrow> task_id \<Rightarrow> u32 \<Rightarrow> ('ie, 'p) pfcp_l4_stack \<Rightarrow> ('ie, 'p) pfcp_l4_stack outcome" where
  "pfcp_fire_retries [] task sn st = Inr st"
| "pfcp_fire_retries (now # ts) task sn st =
     (case ppending_procedures st sn of
        None \<Rightarrow> Inr st
      | Some p \<Rightarrow>
          (case pfcp_time_out_event now (pretry_timer_id p) task st of
             Inl e \<Rightarrow> Inl e
           | Inr (_, st') \<Rightarrow> pfcp_fire_retries ts task sn st'))"

lemma pfcp_awaiting_retries:
  "pfcp_awaiting st0 sn dest tx m c k p st \<Longrightarrow> k + length ts = unat (n1 st0) \<Longrightarrow> unat (n1 st0) \<le> 255 \<Longrightarrow>
     valid_task task \<Longrightarrow> pfcp_issued st + length ts < 2 ^ 32 - 1 \<Longrightarrow>
     \<exists>p' st'. pfcp_fire_retries (ts @ us) task sn st = pfcp_fire_retries us task sn st'
       \<and> pfcp_awaiting st0 sn dest tx m c (unat (n1 st0)) p' st'"
proof (induction ts arbitrary: k p st)
  case Nil
  then show ?case by auto
next
  case (Cons now ts)
  have p: "ppending_procedures st sn = Some p" using Cons.prems(1) by (simp add: pfcp_awaiting_def)
  have "k < unat (n1 st0)" "pfcp_issued st < 2 ^ 32 - 1" using Cons.prems(2,5) by auto
  from pfcp_awaiting_retry [OF Cons.prems(1) this(1) Cons.prems(3,4) this(2), of now] obtain p1 st1 where
    st1: "pfcp_time_out_event now (pretry_timer_id p) task st = Inr (True, st1)"
      "pfcp_awaiting st0 sn dest tx m c (Suc k) p1 st1" "pfcp_issued st1 = Suc (pfcp_issued st)" by blast
  with Cons.IH [OF st1(2)] Cons.prems p show ?case by simp
qed

lemma pfcp_awaiting_abort:
  assumes aw: "pfcp_awaiting st0 sn dest tx m c k p st" and k: "unat (n1 st0) \<le> k" "k \<le> 255"
  shows "\<exists>st'. pfcp_time_out_event now (pretry_timer_id p) task st = Inr (True, st')
    \<and> pmsg_out_retry_timers st' = pmsg_out_retry_timers st0 \<and> ppending_procedures st' = ppending_procedures st
    \<and> pproc_cleanup_timers st' = pproc_cleanup_timers st \<and> trxn_id2seq_num st' = trxn_id2seq_num st
    \<and> trxn_ids st' = trxn_ids st
    \<and> pout st' = pout st @ [Pfcp_ul_error dest (pmessage_type m) sn tx REMOTE_PEER_NOT_RESPONDING]"
proof -
  have a: "pmsg_out_retry_timers st (pretry_timer_id p) = Some sn" "ppending_procedures st sn = Some p"
    "pretry_msg p = Some m" using aw by (auto simp: pfcp_awaiting_def)
  have "\<not> unat (pretry_count p) < unat (n1 st)" using aw k by (auto simp: pfcp_awaiting_def unat_of_nat)
  note r = pfcp_time_out_abort [OF a this, of now task]
  have "map_erase (pmsg_out_retry_timers st) (pretry_timer_id p) = pmsg_out_retry_timers st0"
    using aw by (auto simp: pfcp_awaiting_def fun_eq_iff)
  with r aw show ?thesis by (simp add: pfcp_emit_def pfcp_awaiting_def)
qed

text \<open>
  C25: an unanswered PFCP request runs its full course. It is transmitted once and repeated exactly \<^verbatim>\<open>n1\<close>
  times, each copy identical; the next firing of its retransmission timer tells the upper layer that
  the peer does not respond; and when its clean-up timer fires the procedure, its transaction and its
  timers are gone and the tables are those from before the request.
\<close>

theorem pfcp_unanswered_request:
  assumes inv: "pfcp_inv st" and send: "send_request_session t len now dest sd xs task tx st = (sn, st0)"
    and new: "ppending_procedures st sn = None" "trxn_id2seq_num st tx = None"
    and task: "valid_task task" and n: "unat (n1 st) \<le> 255"
    and room: "pfcp_issued st + unat (n1 st) + 2 < 2 ^ 32 - 1" and ts: "length ts = unat (n1 st) + 1"
  shows "\<exists>m c st1 st2. psequence_number m = sn \<and> pmessage_type m = t \<and> pproc_cleanup_timers st0 c = Some sn
    \<and> pfcp_fire_retries ts task sn st0 = Inr st1
    \<and> pout st1 = pout st @ Pfcp_send Pfcp_udp_s_allocated dest m
         # replicate (unat (n1 st)) (Pfcp_send Udp_s_registered dest m)
         @ [Pfcp_ul_error dest t sn tx REMOTE_PEER_NOT_RESPONDING]
    \<and> pfcp_time_out_event now' c task' st1 = Inr (True, st2) \<and> pout st2 = pout st1
    \<and> ppending_procedures st2 = ppending_procedures st \<and> trxn_id2seq_num st2 = trxn_id2seq_num st
    \<and> pproc_cleanup_timers st2 = pproc_cleanup_timers st \<and> pmsg_out_retry_timers st2 = pmsg_out_retry_timers st
    \<and> uid_generated (trxn_ids st2) = uid_generated (trxn_ids st) - {tx}"
proof -
  have room1: "pfcp_issued st + 1 < 2 ^ 32 - 1" using room by simp
  from pfcp_awaiting_start [OF inv task room1 send new] obtain m c p where
    m: "pmessage_type m = t" "pfcp_awaiting st sn dest tx m c 0 p st0" "pfcp_issued st0 = pfcp_issued st + 2" by blast
  obtain us u where us: "ts = us @ [u]" "length us = unat (n1 st)"
    using ts by (cases ts rule: rev_cases) auto
  obtain p1 st1 where r: "pfcp_fire_retries ts task sn st0 = pfcp_fire_retries [u] task sn st1"
    and aw: "pfcp_awaiting st sn dest tx m c (unat (n1 st)) p1 st1"
    using pfcp_awaiting_retries [OF m(2), of us task "[u]"] us n task room m(3) by auto
  from pfcp_awaiting_abort [OF aw order.refl n, of u task] obtain st2 where
    ab: "pfcp_time_out_event u (pretry_timer_id p1) task st1 = Inr (True, st2)"
      "pmsg_out_retry_timers st2 = pmsg_out_retry_timers st" "ppending_procedures st2 = ppending_procedures st1"
      "pproc_cleanup_timers st2 = pproc_cleanup_timers st1" "trxn_id2seq_num st2 = trxn_id2seq_num st1"
      "trxn_ids st2 = trxn_ids st1" "pout st2 = pout st1 @ [Pfcp_ul_error dest (pmessage_type m) sn tx REMOTE_PEER_NOT_RESPONDING]"
    by blast
  have p1: "ppending_procedures st1 sn = Some p1" using aw by (simp add: pfcp_awaiting_def)
  with r ab(1) have fire: "pfcp_fire_retries ts task sn st0 = Inr st2" by simp
  have c: "pmsg_out_retry_timers st2 c = None" "pproc_cleanup_timers st2 c = Some sn" "ppending_procedures st2 sn = Some p1"
    "pproc_cleanup_timers st0 c = Some sn" "psequence_number m = sn" "trxn_id p1 = tx"
    using aw ab m(2) by (auto simp: pfcp_awaiting_def)
  note clean = pfcp_time_out_cleanup [OF c(1-3), of now' task']
  have erase: "map_erase (ppending_procedures st2) sn = ppending_procedures st"
    "map_erase (trxn_id2seq_num st2) tx = trxn_id2seq_num st" "map_erase (pproc_cleanup_timers st2) c = pproc_cleanup_timers st"
    using aw ab by (auto simp: pfcp_awaiting_def fun_eq_iff)
  have "trxn_ids st2 = trxn_ids st"
    "pout st2 = pout st @ Pfcp_send Pfcp_udp_s_allocated dest m # replicate (unat (n1 st)) (Pfcp_send Udp_s_registered dest m)
         @ [Pfcp_ul_error dest t sn tx REMOTE_PEER_NOT_RESPONDING]"
    using aw ab m(1) by (simp_all add: pfcp_awaiting_def)
  with fire clean erase c m(1) ab(2) uug.free_used [of tx "trxn_ids st"] show ?thesis
    by - (rule exI [of _ m], rule exI [of _ c], rule exI [of _ st2], simp)
qed

theorem pfcp_unanswered_request_witness:
  "\<exists>sn st0 st1. send_request_session PFCP_SESSION_DELETION_REQUEST (\<lambda>_. 0) 0 endpoint_default 9 [] TASK_PGWC_SX 1 demo_pfcp = (sn, st0)
    \<and> pfcp_fire_retries [1, 2, 3, 4] TASK_PGWC_SX sn st0 = Inr st1 \<and> length (pout st1) = 5"
proof -
  obtain sn st0 where s: "send_request_session PFCP_SESSION_DELETION_REQUEST (\<lambda>_. 0) 0 endpoint_default 9 [] TASK_PGWC_SX 1 demo_pfcp
      = (sn, st0)" by fastforce
  have t: "valid_task TASK_PGWC_SX" by (simp add: task_defs)
  from pfcp_unanswered_request [OF demo_pfcp_inv s _ _ t, of "[1, 2, 3, 4]" 9 TASK_PGWC_SX] s show ?thesis
    by (auto simp del: pfcp_fire_retries.simps)
qed

text \<open>
  C26: a PFCP request and its response. The message with the sequence number of a pending request and
  the next message type is attributed to the transaction of the request; the tables are then those
  from before the request and its transaction identifier is free.
\<close>

theorem pfcp_request_completed:
  assumes inv: "pfcp_inv st" and send: "send_request_session t len now dest sd xs task tx st = (sn, st0)"
    and new: "ppending_procedures st sn = None" "trxn_id2seq_num st tx = None"
    and task: "valid_task task" and room: "pfcp_issued st + 1 < 2 ^ 32 - 1"
    and t: "t \<in> request_types" and rsp: "psequence_number rsp = sn" "pmessage_type rsp = t + 1"
  shows "\<exists>st1. pfcp_handle_receive_message_cb now' rsp task' st0 = Inr (False, tx, st1)
    \<and> ppending_procedures st1 = ppending_procedures st \<and> trxn_id2seq_num st1 = trxn_id2seq_num st
    \<and> pproc_cleanup_timers st1 = pproc_cleanup_timers st \<and> pmsg_out_retry_timers st1 = pmsg_out_retry_timers st
    \<and> uid_generated (trxn_ids st1) = uid_generated (trxn_ids st) - {tx}"
proof -
  from pfcp_awaiting_start [OF inv task room send new] obtain m c p where
    m: "pmessage_type m = t" and aw: "pfcp_awaiting st sn dest tx m c 0 p st0" by blast
  have p: "ppending_procedures st0 (psequence_number rsp) = Some p" "pretry_msg p = Some m" "pinitial_msg_type p = t"
    "ptriggered_msg_type p = 0" "pretry_timer_id p \<noteq> 0" "trxn_id p = tx" "pproc_cleanup_timer_id p = c"
    using aw m rsp(1) by (auto simp: pfcp_awaiting_def)
  have chk: "check_response_type (if ptriggered_msg_type p = 0 then pinitial_msg_type p else ptriggered_msg_type p) (pmessage_type rsp)"
    using t rsp(2) p(3,4) by (auto simp: check_response_type_def request_types_def pfcp_type_defs)
  from pfcp_receive_matched [OF p(1) chk, of now' task'] p(2) obtain it where
    r: "pfcp_handle_receive_message_cb now' rsp task' st0 = Inr (False, trxn_id p,
    st0\<lparr>pitti := it, pmsg_out_retry_timers := map_erase (if pretry_timer_id p \<noteq> 0
         then map_erase (pmsg_out_retry_timers st0) (pretry_timer_id p) else pmsg_out_retry_timers st0) (pproc_cleanup_timer_id p),
       pproc_cleanup_timers := map_erase (pproc_cleanup_timers st0) (pproc_cleanup_timer_id p),
       trxn_id2seq_num := map_erase (trxn_id2seq_num st0) (trxn_id p),
       trxn_ids := uint_uid_free_uid (trxn_id p) (trxn_ids st0),
       ppending_procedures := map_erase (ppending_procedures st0) (psequence_number rsp)\<rparr>)" by auto
  have "map_erase (map_erase (pmsg_out_retry_timers st0) (pretry_timer_id p)) c = pmsg_out_retry_timers st"
    "map_erase (pproc_cleanup_timers st0) c = pproc_cleanup_timers st" "map_erase (trxn_id2seq_num st0) tx = trxn_id2seq_num st"
    "map_erase (ppending_procedures st0) sn = ppending_procedures st" "trxn_ids st0 = trxn_ids st"
    using aw by (auto simp: pfcp_awaiting_def fun_eq_iff)
  with r p rsp(1) uug.free_used [of tx "trxn_ids st"] show ?thesis by simp
qed

theorem pfcp_request_completed_witness:
  "\<exists>sn st0 st1. send_request_session PFCP_SESSION_DELETION_REQUEST (\<lambda>_. 0) 0 endpoint_default 9 [] TASK_PGWC_SX 1 demo_pfcp = (sn, st0)
    \<and> pfcp_handle_receive_message_cb 5 (pfcp_msg_default\<lparr>pmessage_type := PFCP_SESSION_DELETION_RESPONSE, psequence_number := sn\<rparr>)
        TASK_PGWC_SX st0 = Inr (False, 1, st1) \<and> ppending_procedures st1 = Map.empty"
proof -
  obtain sn st0 where s: "send_request_session PFCP_SESSION_DELETION_REQUEST (\<lambda>_. 0) 0 endpoint_default 9 [] TASK_PGWC_SX 1 demo_pfcp
      = (sn, st0)" by fastforce
  have t: "valid_task TASK_PGWC_SX" by (simp add: task_defs)
  let ?rsp = "pfcp_msg_default\<lparr>pmessage_type := PFCP_SESSION_DELETION_RESPONSE, psequence_number := sn\<rparr> :: unit pfcp_msg"
  have "\<exists>st1. pfcp_handle_receive_message_cb 5 ?rsp TASK_PGWC_SX st0 = Inr (False, 1, st1)
    \<and> ppending_procedures st1 = ppending_procedures demo_pfcp \<and> trxn_id2seq_num st1 = trxn_id2seq_num demo_pfcp
    \<and> pproc_cleanup_timers st1 = pproc_cleanup_timers demo_pfcp \<and> pmsg_out_retry_timers st1 = pmsg_out_retry_timers demo_pfcp
    \<and> uid_generated (trxn_ids st1) = uid_generated (trxn_ids demo_pfcp) - {1}"
    by (rule pfcp_request_completed [OF demo_pfcp_inv s _ _ t]) (simp_all add: request_types_def pfcp_type_defs)
  with s show ?thesis by auto
qed

end
