(* ===== verification/Pfcp_Delivery.thy ===== *)
theory Pfcp_Delivery
  imports Pfcp_Order Pfcp_Stack
begin

text \<open>
  The messages of the PFCP session procedures from container to container, and the messages that never arrive:
  the constructors of ten groups write no member (they hold a TODO), and the factory takes an element of length
  zero for the end of the message.
\<close>

section \<open>Groups without members\<close>

fun bare_group :: "core_tree \<Rightarrow> bool" where
  "bare_group (Leaf c) \<longleftrightarrow> False"
| "bare_group (Node ty cs) \<longleftrightarrow> cs = [] \<and> ty \<in> set (PFCP_IE_CREATE_TRAFFIC_ENDPOINT # pfcp_group_types)"

lemma bare_header:
  assumes "ty \<in> set (PFCP_IE_CREATE_TRAFFIC_ENDPOINT # pfcp_group_types)"
  shows "length (pfcp_tlv_dump_to (pfcp_ie_new ty 0)) = 4"
    "pfcp_tlv_load_from (pfcp_tlv_new 0 0 0) (istream_of (pfcp_tlv_dump_to (pfcp_ie_new ty 0) @ r)) = (pfcp_ie_new ty 0, istream_of r)"
proof -
  have "ptlv_type (pfcp_ie_new ty 0) = ty" "ty AND 0x8000 = 0"
    using assms by (auto simp: pfcp_group_types_def pfcp_ie_new_def pfcp_tlv_new_def pfcp_ie_types)
  from new_header [OF this] show "length (pfcp_tlv_dump_to (pfcp_ie_new ty 0)) = 4"
    "pfcp_tlv_load_from (pfcp_tlv_new 0 0 0) (istream_of (pfcp_tlv_dump_to (pfcp_ie_new ty 0) @ r)) = (pfcp_ie_new ty 0, istream_of r)"
    by blast+
qed

text \<open>What is sent, bare groups included: \<open>sent junk cs sies bs\<close>.\<close>

definition sent :: "(nat \<Rightarrow> u8) \<Rightarrow> core_tree list \<Rightarrow> pfcp_ie list \<Rightarrow> bytes \<Rightarrow> bool" where
  "sent junk cs sies bs \<longleftrightarrow> ies_of_trees junk cs = Inr sies \<and> pfcp_ies_dump_to junk sies = Inr (bs, sies)
     \<and> length bs = sum_list (map (\<lambda>ie. 4 + unat (pfcp_ie_length ie)) sies) \<and> length bs = sum_list (map (tree_size junk) cs)"

lemma sent_bare:
  assumes "sent junk cs sies bs" "ty \<in> set (PFCP_IE_CREATE_TRAFFIC_ENDPOINT # pfcp_group_types)"
  shows "sent junk (Node ty [] # cs) (Pfcp_group (pfcp_ie_new ty 0) [] # sies) (pfcp_tlv_dump_to (pfcp_ie_new ty 0) @ bs)"
  using assms bare_header(1) [OF assms(2)] by (simp add: sent_def group_new_eq)

lemma sent_ok:
  assumes "sent junk cs sies bs" "travels junk junk' c ie b ie'"
  shows "sent junk (c # cs) (ie # sies) (b @ bs)"
  using assms by (simp add: sent_def travels_def)

lemma sent_Nil: "sent junk [] [] []"
  by (simp add: sent_def)

lemma all_sent: "list_all (\<lambda>c. tree_ok junk c \<or> bare_group c) cs \<Longrightarrow> \<exists>sies bs. sent junk cs sies bs"
proof (induction cs)
  case (Cons c cs)
  then obtain sies bs where s: "sent junk cs sies bs" by auto
  show ?case
  proof (cases "tree_ok junk c")
    case True
    with tree_travels [of junk c junk] s show ?thesis by (blast intro: sent_ok)
  next
    case False
    with Cons.prems obtain ty where "c = Node ty []" "ty \<in> set (PFCP_IE_CREATE_TRAFFIC_ENDPOINT # pfcp_group_types)"
      by (cases c) auto
    with sent_bare [OF s] show ?thesis by blast
  qed
qed (blast intro: sent_Nil)

lemma ies_of_trees_append:
  "ies_of_trees junk cs = Inr sies \<Longrightarrow> ies_of_trees junk ds = Inr sies' \<Longrightarrow> ies_of_trees junk (cs @ ds) = Inr (sies @ sies')"
  by (induction cs arbitrary: sies) (auto simp: rbind_Inr_iff)

lemma pfcp_ies_dump_append:
  "pfcp_ies_dump_to junk sies = Inr (b, t) \<Longrightarrow> pfcp_ies_dump_to junk sies' = Inr (b', t')
    \<Longrightarrow> pfcp_ies_dump_to junk (sies @ sies') = Inr (b @ b', t @ t')"
  by (induction sies arbitrary: b t) (auto simp: rbind_Inr_iff)

lemma sent_append: "sent junk cs sies bs \<Longrightarrow> sent junk ds sies' bs' \<Longrightarrow> sent junk (cs @ ds) (sies @ sies') (bs @ bs')"
  by (simp add: sent_def ies_of_trees_append pfcp_ies_dump_append)

text \<open>The loop of the message stops at a bare group, whatever follows it.\<close>

lemma new_pfcp_ie_bare:
  assumes "ty \<in> set (PFCP_IE_CREATE_TRAFFIC_ENDPOINT # pfcp_group_types)"
  shows "new_pfcp_ie_from_stream junk (istream_of (pfcp_tlv_dump_to (pfcp_ie_new ty 0) @ r)) = Some (Inr (None, istream_of r))"
  using bare_header [OF assms] by (simp add: new_pfcp_ie_from_stream_def)

lemma loop_stops:
  assumes "list_all (tree_ok junk) cs" and "sent junk cs sies b"
    and "new_pfcp_ie_from_stream junk' (istream_of r) = Some (Inr (None, s'))"
    and "length b < n" and "unat l + length b < unat c"
  shows "\<exists>acc'. pfcp_msg_loop junk' n c l acc (istream_of (b @ r)) = Some (Inr (l + of_nat (length b), acc', s'))"
  using assms
proof (induction cs arbitrary: sies b n l acc)
  case Nil
  then have "b = []" by (simp add: sent_def)
  with Nil show ?case by (cases n) auto
next
  case (Cons d cs)
  from tree_travels [of junk d junk'] Cons.prems(1) obtain ie b1 ie' where t: "travels junk junk' d ie b1 ie'" by auto
  with Cons.prems(2) obtain sies' b2 where s: "sent junk cs sies' b2" "b = b1 @ b2"
    by (auto simp: sent_def travels_def rbind_Inr_iff)
  have b1: "length b1 = 4 + unat (pfcp_ie_length ie')" using t by (simp add: travels_def)
  let ?l = "l + (pfcp_tlv_ie_length + pfcp_ie_length ie')"
  have "unat l + 4 + unat (pfcp_ie_length ie') < 2 ^ 16" using Cons.prems(5) s(2) b1 unat_u16 [of c] by simp
  then have l: "unat ?l = unat l + length b1" "?l = l + of_nat (length b1)"
    using b1 by (simp_all add: pfcp_tlv_ie_length_def unat_word_ariths)
  have new: "new_pfcp_ie_from_stream junk' (istream_of (b1 @ b2 @ r)) = Some (Inr (Some ie', istream_of (b2 @ r)))"
    using t by (simp add: travels_def new_pfcp_ie_from_stream_def istream_of_def)
  obtain k where k: "n = Suc k" using Cons.prems(4) by (cases n) auto
  have lt: "?l < c" using l(1) Cons.prems(5) s(2) by (simp add: word_less_nat_alt)
  have "\<exists>acc'. pfcp_msg_loop junk' k c ?l (acc @ [ie']) (istream_of (b2 @ r)) = Some (Inr (?l + of_nat (length b2), acc', s'))"
    using Cons.prems k l(1) s b1 by (intro Cons.IH [OF _ s(1)]) simp_all
  then show ?case using new lt l(2) by (auto simp: k s(2) Let_def add.assoc)
qed

lemma bare_group_refused:
  assumes "list_all (tree_ok junk) cs" and "bare_group c" and "list_all (\<lambda>c. tree_ok junk c \<or> bare_group c) ds"
    and "sum_list (map (tree_size junk) (cs @ c # ds)) < 65524"
  shows "\<exists>m bs len. pfcp_msg_of_trees junk ty (cs @ c # ds) = Inr m
    \<and> pfcp_message_dump_to junk (Pfcp_Parse.addressed so sn m) = Inr (bs, Pfcp_Parse.addressed so sn m)
    \<and> pfcp_message_load_from junk' pfcp_msg_default (istream_of bs)
      = Some (Inl (Pmsg_bad_length ty len (of_nat (sum_list (map (tree_size junk) cs)))
          (of_nat (sum_list (map (tree_size junk) (cs @ c # ds))))))"
proof -
  obtain k where c: "c = Node k []" "k \<in> set (PFCP_IE_CREATE_TRAFFIC_ENDPOINT # pfcp_group_types)"
    using assms(2) by (cases c) auto
  obtain s1 b1 where one: "sent junk cs s1 b1" using all_sent [of junk cs] assms(1) by (auto simp: list_all_iff)
  obtain s2 b2 where two: "sent junk ds s2 b2" using all_sent [OF assms(3)] by blast
  let ?h = "pfcp_tlv_dump_to (pfcp_ie_new k 0)"
  let ?sies = "s1 @ Pfcp_group (pfcp_ie_new k 0) [] # s2" and ?b = "b1 @ ?h @ b2"
  note rest = sent_bare [OF two c(2)]
  have all: "sent junk (cs @ c # ds) ?sies ?b" using sent_append [OF one rest] by (simp add: c(1))
  define M where "M = Pfcp_Parse.addressed so sn (pfcp_msg_of_ies pfcp_ie_length ty ?sies)"
  let ?m1 = "M\<lparr>premote_port := 0, pies := []\<rparr>"
  from message_head [of junk ?sies ?b so sn ty junk', folded M_def] all assms(4) obtain h where
    h: "pfcp_message_dump_to junk M = Inr (h @ ?b, M)"
      "pfcp_header_load_from (fresh junk' 3) pfcp_msg_default (istream_of (h @ ?b)) = (?m1, istream_of ?b)"
      "unat (pfcp_check_msg_length ?m1) = length ?b"
    by (auto simp: sent_def)
  have chk: "pfcp_check_msg_length ?m1 = of_nat (length ?b)" using arg_cong [OF h(3), of "of_nat :: nat \<Rightarrow> u16"] by simp
  have "length b1 < length ?b" using bare_header(1) [OF c(2)] by simp
  then obtain acc' where "pfcp_msg_loop junk' (length ?b + 1) (pfcp_check_msg_length ?m1) 0 [] (istream_of ?b)
      = Some (Inr (of_nat (length b1), acc', istream_of b2))"
    using loop_stops [OF assms(1) one new_pfcp_ie_bare [OF c(2), of junk' b2], of "length ?b + 1" 0 "pfcp_check_msg_length ?m1" "[]"]
      h(3) by auto
  moreover have "of_nat (length b1) \<noteq> pfcp_check_msg_length ?m1"
  proof
    assume "of_nat (length b1) = pfcp_check_msg_length ?m1"
    then have "unat (of_nat (length b1) :: u16) = length ?b" using h(3) by simp
    moreover have "unat (of_nat (length b1) :: u16) \<le> length b1" by (simp add: unsigned_of_nat take_bit_nat_less_eq_self)
    ultimately show False using \<open>length b1 < length ?b\<close> by simp
  qed
  moreover have "pmessage_type M = ty" using addressed_fields(5) by (simp add: M_def)
  ultimately have "pfcp_message_load_from junk' pfcp_msg_default (istream_of (h @ ?b))
      = Some (Inl (Pmsg_bad_length ty (pmessage_length M) (of_nat (length b1)) (of_nat (length ?b))))"
    unfolding pfcp_message_load_from_def h(2) prod.case by (simp add: istream_of_def chk)
  moreover have "pfcp_msg_of_trees junk ty (cs @ c # ds) = Inr (pfcp_msg_of_ies pfcp_ie_length ty ?sies)"
    using all by (simp add: pfcp_msg_of_trees_def sent_def)
  ultimately show ?thesis using h(1) one all unfolding M_def sent_def by metis
qed

section \<open>Properties\<close>

text \<open>A request of one rule, for the witnesses.\<close>

definition one_rule_request :: session_establishment_request_c where
  "one_rule_request = seq_empty\<lparr>
     seq_node_id := Some \<lparr>nid_type = 0, nid_u1 = [10, 0, 0, 1, 0, 0, 0, 0, 0, 0, 0, 0, 0, 0, 0, 0], nid_fqdn = []\<rparr>,
     seq_cp_fseid := Some \<lparr>fsd_v4 = True, fsd_v6 = False, fsd_seid = 7, fsd_ipv4_address = 0x0100000A,
       fsd_ipv6_address = in6addr_any\<rparr>,
     seq_create_pdrs := [cpdr_empty\<lparr>cpdr_pdr_id := Some 1, cpdr_pdi := Some (pdi_empty\<lparr>pdi_source_interface := Some 0,
       pdi_network_instance := Some [0x61]\<rparr>), cpdr_far_id := Some 2\<rparr>],
     seq_create_fars := [cfar_empty\<lparr>cfar_far_id := Some 2, cfar_bar_id := Some 3\<rparr>]\<rparr>"

lemma one_rule_sizes:
  "tree_size (\<lambda>_. 0xAA) (Leaf (C_node_id \<lparr>nid_type = 0, nid_u1 = [10, 0, 0, 1, 0, 0, 0, 0, 0, 0, 0, 0, 0, 0, 0, 0], nid_fqdn = []\<rparr>)) = 9"
  "tree_size (\<lambda>_. 0xAA) (Leaf (C_f_seid \<lparr>fsd_v4 = True, fsd_v6 = False, fsd_seid = 7, fsd_ipv4_address = 0x0100000A,
     fsd_ipv6_address = in6addr_any\<rparr>)) = 17"
  "tree_size (\<lambda>_. 0xAA) (Leaf (C_pdr_id 1)) = 6" "tree_size (\<lambda>_. 0xAA) (Leaf (C_far_id 2)) = 8"
  "tree_size (\<lambda>_. 0xAA) (Leaf (C_bar_id 3)) = 5" "tree_size (\<lambda>_. 0xAA) (Leaf (C_source_interface 0)) = 5"
  by code_simp+

lemma one_rule_values:
  "tree_size (\<lambda>_. 0xAA) (Leaf (C_network_instance [0x61])) = 6"
  "node_id_ok \<lparr>nid_type = 0, nid_u1 = [10, 0, 0, 1, 0, 0, 0, 0, 0, 0, 0, 0, 0, 0, 0, 0], nid_fqdn = []\<rparr>"
proof -
  have "pfcp_string_to_dotted (fresh (\<lambda>_. 0xAA) (length [0x61] + 1)) [0x61] = Some [1, 0x61]"
    using dotted_wire [of "[0x61]"] by (simp add: dotted_ok_def wire_def)
  then show "tree_size (\<lambda>_. 0xAA) (Leaf (C_network_instance [0x61])) = 6"
    by (simp add: pfcp_network_instance_of_core_def lift_of_core_def pfcp_ie_new_def pfcp_tlv_new_def)
qed (simp add: node_id_ok_def PFCP_NODE_ID_TYPE_IPV4_ADDRESS_def eval_nat_numeral)

lemmas one_rule_defs = one_rule_request_def seq_members_def cpdr_members_def cfar_members_def pdi_members_def
  cpdr_empty_def cfar_empty_def pdi_empty_def seq_empty_def

lemma one_rule_ok:
  "list_all (tree_ok (\<lambda>_. 0xAA)) (seq_members one_rule_request)"
  "sum_list (map (tree_size (\<lambda>_. 0xAA)) (seq_members one_rule_request)) < 65524"
  using one_rule_sizes one_rule_values
  by (simp_all add: one_rule_defs pfcp_group_types_def fseid_ok_def dotted_ok_def del: tree_size.simps(1))





text \<open>
  C34: a session establishment request with a usage reporting rule, a QoS enforcement rule or a traffic endpoint
  never arrives. The constructors of these groups write no member, so the message is sent with an element of
  length zero, and \<^verbatim>\<open>load_from\<close> refuses it for its length, having read what comes before.
\<close>

theorem usage_and_qos_rules_refused:
  assumes "list_all (tree_ok junk) (seq_members (x\<lparr>seq_create_urrs := [], seq_create_qers := [], seq_create_traffic_endpoint := None\<rparr>))"
    and "seq_create_urrs x \<noteq> [] \<or> seq_create_qers x \<noteq> [] \<or> seq_create_traffic_endpoint x \<noteq> None"
    and "sum_list (map (tree_size junk) (seq_members x)) < 65524"
  shows "\<exists>m bs len l. pfcp_msg_of_trees junk PFCP_SESSION_ESTABLISHMENT_REQUEST (seq_members x) = Inr m
    \<and> pfcp_message_dump_to junk (Pfcp_Parse.addressed so sn m) = Inr (bs, Pfcp_Parse.addressed so sn m)
    \<and> pfcp_message_load_from junk' pfcp_msg_default (istream_of bs)
      = Some (Inl (Pmsg_bad_length PFCP_SESSION_ESTABLISHMENT_REQUEST len l
          (of_nat (sum_list (map (tree_size junk) (seq_members x))))))"
proof -
  let ?cs = "opt_list (\<lambda>v. Leaf (C_node_id v)) (seq_node_id x) @ opt_list (\<lambda>v. Leaf (C_f_seid v)) (seq_cp_fseid x)
     @ map (\<lambda>v. Node PFCP_IE_CREATE_PDR (cpdr_members v)) (seq_create_pdrs x)
     @ map (\<lambda>v. Node PFCP_IE_CREATE_FAR (cfar_members v)) (seq_create_fars x)"
  let ?bare = "map (\<lambda>v. Node PFCP_IE_CREATE_URR []) (seq_create_urrs x) @ map (\<lambda>v. Node PFCP_IE_CREATE_QER []) (seq_create_qers x)
     @ opt_list (\<lambda>v. Node PFCP_IE_CREATE_TRAFFIC_ENDPOINT []) (seq_create_traffic_endpoint x)"
  let ?last = "opt_list (\<lambda>v. Leaf (C_user_plane_inactivity_timer v)) (seq_user_plane_inactivity_timer x)
     @ opt_list (\<lambda>v. Leaf (C_user_id v)) (seq_user_id x)"
  have ms: "seq_members x = ?cs @ ?bare @ ?last" by (simp add: seq_members_def)
  have ok: "list_all (tree_ok junk) ?cs" "list_all (tree_ok junk) ?last"
    using assms(1) by (simp_all add: seq_members_def)
  have "list_all bare_group ?bare"
    by (cases "seq_create_traffic_endpoint x") (auto simp: list_all_iff pfcp_group_types_def)
  moreover have "?bare \<noteq> []" using assms(2) by (cases "seq_create_traffic_endpoint x") auto
  ultimately obtain c ds where b: "?bare = c # ds" "bare_group c" "list_all bare_group ds" by (cases ?bare) auto
  have rest: "list_all (\<lambda>c. tree_ok junk c \<or> bare_group c) (ds @ ?last)" using ok(2) b(3) by (auto simp: list_all_iff)
  have ms': "seq_members x = ?cs @ c # (ds @ ?last)" by (simp only: ms b(1) append_Cons)
  show ?thesis unfolding ms'
    using bare_group_refused [OF ok(1) b(2) rest assms(3) [unfolded ms'],
        where ty = PFCP_SESSION_ESTABLISHMENT_REQUEST and so = so and sn = sn and junk' = junk'] by blast
qed

theorem usage_and_qos_rules_refused_witness:
  "\<exists>m bs len l. pfcp_msg_of_trees (\<lambda>_. 0xAA) PFCP_SESSION_ESTABLISHMENT_REQUEST
        (seq_members (one_rule_request\<lparr>seq_create_qers := [cqer_empty]\<rparr>)) = Inr m
    \<and> pfcp_message_dump_to (\<lambda>_. 0xAA) (Pfcp_Parse.addressed (Some 0) 5 m) = Inr (bs, Pfcp_Parse.addressed (Some 0) 5 m)
    \<and> pfcp_message_load_from (\<lambda>_. 0x55) pfcp_msg_default (istream_of bs)
      = Some (Inl (Pmsg_bad_length PFCP_SESSION_ESTABLISHMENT_REQUEST len l 80))"
proof -
  let ?x = "one_rule_request\<lparr>seq_create_qers := [cqer_empty]\<rparr>"
  have "?x\<lparr>seq_create_urrs := [], seq_create_qers := [], seq_create_traffic_endpoint := None\<rparr> = one_rule_request"
    by (simp add: one_rule_request_def seq_empty_def)
  moreover have "sum_list (map (tree_size (\<lambda>_. 0xAA)) (seq_members ?x)) = 80"
    using one_rule_sizes one_rule_values by (simp add: one_rule_defs del: tree_size.simps(1))
  ultimately show ?thesis
    using usage_and_qos_rules_refused [of "\<lambda>_. 0xAA" ?x "Some 0" 5 "\<lambda>_. 0x55"] one_rule_ok(1) by simp
qed

end
