(* ===== verification/Gtpv2c_Uli.thy ===== *)
theory Gtpv2c_Uli
  imports Gtpv2c_Ie
begin

text \<open>
  The user location information of GTPv2-C (\<^verbatim>\<open>gtpv2c/3gpp_29.274.hpp\<close>, 8.21): eight kinds of location,
  each with its own class, and the element that carries those whose flag is set. The bytes \<^verbatim>\<open>u1\<close>,
  \<^verbatim>\<open>u2\<close> and \<^verbatim>\<open>u3\<close> of every location hold the digits of the country and network codes.
\<close>

section \<open>The kinds of location\<close>

record cgi_field =
  cgi_u1 :: u8
  cgi_u2 :: u8
  cgi_u3 :: u8
  cgi_location_area_code :: u16
  cgi_cell_identity :: u16

definition cgi_new :: cgi_field where
  "cgi_new = \<lparr>cgi_u1 = 0, cgi_u2 = 0, cgi_u3 = 0, cgi_location_area_code = 0, cgi_cell_identity = 0\<rparr>"

definition cgi_dump_to :: "cgi_field \<Rightarrow> bytes" where
  "cgi_dump_to v = [cgi_u1 v] @ [cgi_u2 v] @ [cgi_u3 v] @ be_bytes 2 (cgi_location_area_code v) @ be_bytes 2 (cgi_cell_identity v)"

definition cgi_load_from :: "cgi_field \<Rightarrow> istream \<Rightarrow> cgi_field \<times> istream" where
  "cgi_load_from v s =
     (case read_u8 (cgi_u1 v) s of (x1, s1) \<Rightarrow>
      case read_u8 (cgi_u2 v) s1 of (x2, s2) \<Rightarrow>
      case read_u8 (cgi_u3 v) s2 of (x3, s3) \<Rightarrow>
      case read_be 2 (cgi_location_area_code v) s3 of (x4, s4) \<Rightarrow>
      case read_be 2 (cgi_cell_identity v) s4 of (x5, s5) \<Rightarrow>
        (\<lparr>cgi_u1 = x1, cgi_u2 = x2, cgi_u3 = x3, cgi_location_area_code = x4, cgi_cell_identity = x5\<rparr>, s5))"

interpretation cgi: codec cgi_dump_to "cgi_load_from cgi_new" "\<lambda>_. True"
  by unfold_locales (simp add: cgi_dump_to_def cgi_load_from_def cgi_new_def)

record sai_field =
  sai_u1 :: u8
  sai_u2 :: u8
  sai_u3 :: u8
  sai_location_area_code :: u16
  sai_service_area_code :: u16

definition sai_new :: sai_field where
  "sai_new = \<lparr>sai_u1 = 0, sai_u2 = 0, sai_u3 = 0, sai_location_area_code = 0, sai_service_area_code = 0\<rparr>"

definition sai_dump_to :: "sai_field \<Rightarrow> bytes" where
  "sai_dump_to v = [sai_u1 v] @ [sai_u2 v] @ [sai_u3 v] @ be_bytes 2 (sai_location_area_code v) @ be_bytes 2 (sai_service_area_code v)"

definition sai_load_from :: "sai_field \<Rightarrow> istream \<Rightarrow> sai_field \<times> istream" where
  "sai_load_from v s =
     (case read_u8 (sai_u1 v) s of (x1, s1) \<Rightarrow>
      case read_u8 (sai_u2 v) s1 of (x2, s2) \<Rightarrow>
      case read_u8 (sai_u3 v) s2 of (x3, s3) \<Rightarrow>
      case read_be 2 (sai_location_area_code v) s3 of (x4, s4) \<Rightarrow>
      case read_be 2 (sai_service_area_code v) s4 of (x5, s5) \<Rightarrow>
        (\<lparr>sai_u1 = x1, sai_u2 = x2, sai_u3 = x3, sai_location_area_code = x4, sai_service_area_code = x5\<rparr>, s5))"

interpretation sai: codec sai_dump_to "sai_load_from sai_new" "\<lambda>_. True"
  by unfold_locales (simp add: sai_dump_to_def sai_load_from_def sai_new_def)

record rai_field =
  rai_u1 :: u8
  rai_u2 :: u8
  rai_u3 :: u8
  rai_location_area_code :: u16
  rai_routing_area_code :: u16

definition rai_new :: rai_field where
  "rai_new = \<lparr>rai_u1 = 0, rai_u2 = 0, rai_u3 = 0, rai_location_area_code = 0, rai_routing_area_code = 0\<rparr>"

definition rai_dump_to :: "rai_field \<Rightarrow> bytes" where
  "rai_dump_to v = [rai_u1 v] @ [rai_u2 v] @ [rai_u3 v] @ be_bytes 2 (rai_location_area_code v) @ be_bytes 2 (rai_routing_area_code v)"

definition rai_load_from :: "rai_field \<Rightarrow> istream \<Rightarrow> rai_field \<times> istream" where
  "rai_load_from v s =
     (case read_u8 (rai_u1 v) s of (x1, s1) \<Rightarrow>
      case read_u8 (rai_u2 v) s1 of (x2, s2) \<Rightarrow>
      case read_u8 (rai_u3 v) s2 of (x3, s3) \<Rightarrow>
      case read_be 2 (rai_location_area_code v) s3 of (x4, s4) \<Rightarrow>
      case read_be 2 (rai_routing_area_code v) s4 of (x5, s5) \<Rightarrow>
        (\<lparr>rai_u1 = x1, rai_u2 = x2, rai_u3 = x3, rai_location_area_code = x4, rai_routing_area_code = x5\<rparr>, s5))"

interpretation rai: codec rai_dump_to "rai_load_from rai_new" "\<lambda>_. True"
  by unfold_locales (simp add: rai_dump_to_def rai_load_from_def rai_new_def)

record tai_field =
  tai_u1 :: u8
  tai_u2 :: u8
  tai_u3 :: u8
  tai_tracking_area_code :: u16

definition tai_new :: tai_field where
  "tai_new = \<lparr>tai_u1 = 0, tai_u2 = 0, tai_u3 = 0, tai_tracking_area_code = 0\<rparr>"

definition tai_dump_to :: "tai_field \<Rightarrow> bytes" where
  "tai_dump_to v = [tai_u1 v] @ [tai_u2 v] @ [tai_u3 v] @ be_bytes 2 (tai_tracking_area_code v)"

definition tai_load_from :: "tai_field \<Rightarrow> istream \<Rightarrow> tai_field \<times> istream" where
  "tai_load_from v s =
     (case read_u8 (tai_u1 v) s of (x1, s1) \<Rightarrow>
      case read_u8 (tai_u2 v) s1 of (x2, s2) \<Rightarrow>
      case read_u8 (tai_u3 v) s2 of (x3, s3) \<Rightarrow>
      case read_be 2 (tai_tracking_area_code v) s3 of (x4, s4) \<Rightarrow>
        (\<lparr>tai_u1 = x1, tai_u2 = x2, tai_u3 = x3, tai_tracking_area_code = x4\<rparr>, s4))"

interpretation tai: codec tai_dump_to "tai_load_from tai_new" "\<lambda>_. True"
  by unfold_locales (simp add: tai_dump_to_def tai_load_from_def tai_new_def)

record ecgi_field =
  ecgi_u1 :: u8
  ecgi_u2 :: u8
  ecgi_u3 :: u8
  ecgi_u4 :: u8
  e_utran_cell_identifier :: bytes

definition ecgi_new :: ecgi_field where
  "ecgi_new = \<lparr>ecgi_u1 = 0, ecgi_u2 = 0, ecgi_u3 = 0, ecgi_u4 = 0, e_utran_cell_identifier = replicate 3 0\<rparr>"

definition ecgi_dump_to :: "ecgi_field \<Rightarrow> bytes" where
  "ecgi_dump_to v = [ecgi_u1 v] @ [ecgi_u2 v] @ [ecgi_u3 v] @ [ecgi_u4 v] @ e_utran_cell_identifier v"

definition ecgi_load_from :: "ecgi_field \<Rightarrow> istream \<Rightarrow> ecgi_field \<times> istream" where
  "ecgi_load_from v s =
     (case read_u8 (ecgi_u1 v) s of (x1, s1) \<Rightarrow>
      case read_u8 (ecgi_u2 v) s1 of (x2, s2) \<Rightarrow>
      case read_u8 (ecgi_u3 v) s2 of (x3, s3) \<Rightarrow>
      case read_u8 (ecgi_u4 v) s3 of (x4, s4) \<Rightarrow>
      case is_read (e_utran_cell_identifier v) s4 of (x5, s5) \<Rightarrow>
        (\<lparr>ecgi_u1 = x1, ecgi_u2 = x2, ecgi_u3 = x3, ecgi_u4 = x4, e_utran_cell_identifier = x5\<rparr>, s5))"

interpretation ecgi: codec ecgi_dump_to "ecgi_load_from ecgi_new" "\<lambda>v. length (e_utran_cell_identifier v) = 3"
  by unfold_locales (simp add: ecgi_dump_to_def ecgi_load_from_def ecgi_new_def)

record lai_field =
  lai_u1 :: u8
  lai_u2 :: u8
  lai_u3 :: u8
  lai_location_area_code :: u16

definition lai_new :: lai_field where
  "lai_new = \<lparr>lai_u1 = 0, lai_u2 = 0, lai_u3 = 0, lai_location_area_code = 0\<rparr>"

definition lai_dump_to :: "lai_field \<Rightarrow> bytes" where
  "lai_dump_to v = [lai_u1 v] @ [lai_u2 v] @ [lai_u3 v] @ be_bytes 2 (lai_location_area_code v)"

definition lai_load_from :: "lai_field \<Rightarrow> istream \<Rightarrow> lai_field \<times> istream" where
  "lai_load_from v s =
     (case read_u8 (lai_u1 v) s of (x1, s1) \<Rightarrow>
      case read_u8 (lai_u2 v) s1 of (x2, s2) \<Rightarrow>
      case read_u8 (lai_u3 v) s2 of (x3, s3) \<Rightarrow>
      case read_be 2 (lai_location_area_code v) s3 of (x4, s4) \<Rightarrow>
        (\<lparr>lai_u1 = x1, lai_u2 = x2, lai_u3 = x3, lai_location_area_code = x4\<rparr>, s4))"

interpretation lai: codec lai_dump_to "lai_load_from lai_new" "\<lambda>_. True"
  by unfold_locales (simp add: lai_dump_to_def lai_load_from_def lai_new_def)

text \<open>The upper bits of a macro eNodeB identity, \<^verbatim>\<open>u4\<close>, are neither written nor read.\<close>

record macro_enodeb_id_field =
  macro_enodeb_id_u1 :: u8
  macro_enodeb_id_u2 :: u8
  macro_enodeb_id_u3 :: u8
  macro_enodeb_id_u4 :: u8
  macro_enodeb_id :: u16

definition macro_enodeb_id_new :: macro_enodeb_id_field where
  "macro_enodeb_id_new = \<lparr>macro_enodeb_id_u1 = 0, macro_enodeb_id_u2 = 0, macro_enodeb_id_u3 = 0, macro_enodeb_id_u4 = 0, macro_enodeb_id = 0\<rparr>"

definition macro_enodeb_id_dump_to :: "macro_enodeb_id_field \<Rightarrow> bytes" where
  "macro_enodeb_id_dump_to v = [macro_enodeb_id_u1 v] @ [macro_enodeb_id_u2 v] @ [macro_enodeb_id_u3 v] @ be_bytes 2 (macro_enodeb_id v)"

definition macro_enodeb_id_load_from :: "macro_enodeb_id_field \<Rightarrow> istream \<Rightarrow> macro_enodeb_id_field \<times> istream" where
  "macro_enodeb_id_load_from v s =
     (case read_u8 (macro_enodeb_id_u1 v) s of (x1, s1) \<Rightarrow>
      case read_u8 (macro_enodeb_id_u2 v) s1 of (x2, s2) \<Rightarrow>
      case read_u8 (macro_enodeb_id_u3 v) s2 of (x3, s3) \<Rightarrow>
      case read_be 2 (macro_enodeb_id v) s3 of (x4, s4) \<Rightarrow>
        (\<lparr>macro_enodeb_id_u1 = x1, macro_enodeb_id_u2 = x2, macro_enodeb_id_u3 = x3, macro_enodeb_id_u4 = macro_enodeb_id_u4 v, macro_enodeb_id = x4\<rparr>, s4))"

interpretation macro_enodeb_id: codec macro_enodeb_id_dump_to "macro_enodeb_id_load_from macro_enodeb_id_new" "\<lambda>v. macro_enodeb_id_u4 v = 0"
  by unfold_locales (simp add: macro_enodeb_id_dump_to_def macro_enodeb_id_load_from_def macro_enodeb_id_new_def)

record extended_macro_enodeb_id_field =
  extended_macro_enodeb_id_u1 :: u8
  extended_macro_enodeb_id_u2 :: u8
  extended_macro_enodeb_id_u3 :: u8
  extended_macro_enodeb_id_u4 :: u8
  extended_macro_enodeb_id :: u16

definition extended_macro_enodeb_id_new :: extended_macro_enodeb_id_field where
  "extended_macro_enodeb_id_new = \<lparr>extended_macro_enodeb_id_u1 = 0, extended_macro_enodeb_id_u2 = 0, extended_macro_enodeb_id_u3 = 0, extended_macro_enodeb_id_u4 = 0, extended_macro_enodeb_id = 0\<rparr>"

definition extended_macro_enodeb_id_dump_to :: "extended_macro_enodeb_id_field \<Rightarrow> bytes" where
  "extended_macro_enodeb_id_dump_to v = [extended_macro_enodeb_id_u1 v] @ [extended_macro_enodeb_id_u2 v] @ [extended_macro_enodeb_id_u3 v] @ [extended_macro_enodeb_id_u4 v] @ be_bytes 2 (extended_macro_enodeb_id v)"

definition extended_macro_enodeb_id_load_from :: "extended_macro_enodeb_id_field \<Rightarrow> istream \<Rightarrow> extended_macro_enodeb_id_field \<times> istream" where
  "extended_macro_enodeb_id_load_from v s =
     (case read_u8 (extended_macro_enodeb_id_u1 v) s of (x1, s1) \<Rightarrow>
      case read_u8 (extended_macro_enodeb_id_u2 v) s1 of (x2, s2) \<Rightarrow>
      case read_u8 (extended_macro_enodeb_id_u3 v) s2 of (x3, s3) \<Rightarrow>
      case read_u8 (extended_macro_enodeb_id_u4 v) s3 of (x4, s4) \<Rightarrow>
      case read_be 2 (extended_macro_enodeb_id v) s4 of (x5, s5) \<Rightarrow>
        (\<lparr>extended_macro_enodeb_id_u1 = x1, extended_macro_enodeb_id_u2 = x2, extended_macro_enodeb_id_u3 = x3, extended_macro_enodeb_id_u4 = x4, extended_macro_enodeb_id = x5\<rparr>, s5))"

interpretation extended_macro_enodeb_id: codec extended_macro_enodeb_id_dump_to "extended_macro_enodeb_id_load_from extended_macro_enodeb_id_new" "\<lambda>_. True"
  by unfold_locales (simp add: extended_macro_enodeb_id_dump_to_def extended_macro_enodeb_id_load_from_def extended_macro_enodeb_id_new_def)

section \<open>The element\<close>

text \<open>The bits of \<^verbatim>\<open>u1\<close>, from the least significant one, are in the order of the fields.\<close>

record uli_ie =
  uli_u1 :: u8
  uli_cgi :: cgi_field
  uli_sai :: sai_field
  uli_rai :: rai_field
  uli_tai :: tai_field
  uli_ecgi :: ecgi_field
  uli_lai :: lai_field
  uli_macro_enodeb_id :: macro_enodeb_id_field
  uli_extended_macro_enodeb_id :: extended_macro_enodeb_id_field

definition uli_new :: uli_ie where
  "uli_new = \<lparr>uli_u1 = 0, uli_cgi = cgi_new, uli_sai = sai_new, uli_rai = rai_new, uli_tai = tai_new, uli_ecgi = ecgi_new, uli_lai = lai_new, uli_macro_enodeb_id = macro_enodeb_id_new, uli_extended_macro_enodeb_id = extended_macro_enodeb_id_new\<rparr>"

definition uli_dump_to :: "gtpv2c_tlv \<Rightarrow> uli_ie \<Rightarrow> bytes" where
  "uli_dump_to t v =
     tlv_dump_to t @ [uli_u1 v]
       @ (if bit (uli_u1 v) 0 then cgi_dump_to (uli_cgi v) else [])
       @ (if bit (uli_u1 v) 1 then sai_dump_to (uli_sai v) else [])
       @ (if bit (uli_u1 v) 2 then rai_dump_to (uli_rai v) else [])
       @ (if bit (uli_u1 v) 3 then tai_dump_to (uli_tai v) else [])
       @ (if bit (uli_u1 v) 4 then ecgi_dump_to (uli_ecgi v) else [])
       @ (if bit (uli_u1 v) 5 then lai_dump_to (uli_lai v) else [])
       @ (if bit (uli_u1 v) 6 then macro_enodeb_id_dump_to (uli_macro_enodeb_id v) else [])
       @ (if bit (uli_u1 v) 7 then extended_macro_enodeb_id_dump_to (uli_extended_macro_enodeb_id v) else [])"

definition uli_load_from :: "gtpv2c_tlv \<Rightarrow> uli_ie \<Rightarrow> istream \<Rightarrow> (uli_ie \<times> istream) gtpc_result" where
  "uli_load_from t v s =
     (case read_u8 (uli_u1 v) s of (b, s0) \<Rightarrow>
      case (if bit b 0 then cgi_load_from (uli_cgi v) s0 else (uli_cgi v, s0)) of (x0, s1) \<Rightarrow>
      case (if bit b 1 then sai_load_from (uli_sai v) s1 else (uli_sai v, s1)) of (x1, s2) \<Rightarrow>
      case (if bit b 2 then rai_load_from (uli_rai v) s2 else (uli_rai v, s2)) of (x2, s3) \<Rightarrow>
      case (if bit b 3 then tai_load_from (uli_tai v) s3 else (uli_tai v, s3)) of (x3, s4) \<Rightarrow>
      case (if bit b 4 then ecgi_load_from (uli_ecgi v) s4 else (uli_ecgi v, s4)) of (x4, s5) \<Rightarrow>
      case (if bit b 5 then lai_load_from (uli_lai v) s5 else (uli_lai v, s5)) of (x5, s6) \<Rightarrow>
      case (if bit b 6 then macro_enodeb_id_load_from (uli_macro_enodeb_id v) s6 else (uli_macro_enodeb_id v, s6)) of (x6, s7) \<Rightarrow>
      case (if bit b 7 then extended_macro_enodeb_id_load_from (uli_extended_macro_enodeb_id v) s7 else (uli_extended_macro_enodeb_id v, s7)) of (x7, s8) \<Rightarrow>
        Inr (\<lparr>uli_u1 = b, uli_cgi = x0, uli_sai = x1, uli_rai = x2, uli_tai = x3, uli_ecgi = x4, uli_lai = x5, uli_macro_enodeb_id = x6, uli_extended_macro_enodeb_id = x7\<rparr>, s8))"

lemma length_location_dumps [simp]:
  "length (cgi_dump_to cgi_v) = 7"
  "length (sai_dump_to sai_v) = 7"
  "length (rai_dump_to rai_v) = 7"
  "length (tai_dump_to tai_v) = 5"
  "length (lai_dump_to lai_v) = 5"
  "length (macro_enodeb_id_dump_to macro_enodeb_id_v) = 5"
  "length (extended_macro_enodeb_id_dump_to extended_macro_enodeb_id_v) = 6"
  by (simp_all add: cgi_dump_to_def sai_dump_to_def rai_dump_to_def tai_dump_to_def lai_dump_to_def macro_enodeb_id_dump_to_def extended_macro_enodeb_id_dump_to_def)

lemma length_ecgi_dump [simp]: "length (e_utran_cell_identifier v) = 3 \<Longrightarrow> length (ecgi_dump_to v) = 7"
  by (simp add: ecgi_dump_to_def)

text \<open>
  The elements that survive the wire: a location without its flag has its default value, and the
  length of the header is the number of bytes the locations take.
\<close>

definition uli_ok :: "gtpv2c_tlv \<Rightarrow> uli_ie \<Rightarrow> bool" where
  "uli_ok t v \<longleftrightarrow>
     (bit (uli_u1 v) 0 \<or> uli_cgi v = cgi_new) \<and> (bit (uli_u1 v) 1 \<or> uli_sai v = sai_new)
      \<and> (bit (uli_u1 v) 2 \<or> uli_rai v = rai_new) \<and> (bit (uli_u1 v) 3 \<or> uli_tai v = tai_new)
      \<and> (bit (uli_u1 v) 4 \<or> uli_ecgi v = ecgi_new) \<and> (bit (uli_u1 v) 5 \<or> uli_lai v = lai_new)
      \<and> (bit (uli_u1 v) 6 \<or> uli_macro_enodeb_id v = macro_enodeb_id_new) \<and> (bit (uli_u1 v) 7 \<or> uli_extended_macro_enodeb_id v = extended_macro_enodeb_id_new)
     \<and> length (e_utran_cell_identifier (uli_ecgi v)) = 3 \<and> macro_enodeb_id_u4 (uli_macro_enodeb_id v) = 0
     \<and> unat (tlv_length t) = 1 + (if bit (uli_u1 v) 0 then 7 else 0) + (if bit (uli_u1 v) 1 then 7 else 0) + (if bit (uli_u1 v) 2 then 7 else 0)
          + (if bit (uli_u1 v) 3 then 5 else 0) + (if bit (uli_u1 v) 4 then 7 else 0) + (if bit (uli_u1 v) 5 then 5 else 0)
          + (if bit (uli_u1 v) 6 then 5 else 0) + (if bit (uli_u1 v) 7 then 6 else 0)"

lemma drop_tlv_dump: "drop 4 (tlv_dump_to t @ bs) = bs"
  by simp

interpretation uli: stable_ie_codec "pure_dump uli_dump_to" "\<lambda>t. uli_load_from t uli_new" uli_ok
proof (rule stable_ie_codecI)
  fix t v
  assume ok: "uli_ok t v"
  let ?p = "drop 4 (uli_dump_to t v)"
  have p: "uli_dump_to t v = tlv_dump_to t @ ?p" by (simp add: uli_dump_to_def)
  have len: "length ?p = unat (tlv_length t)" using ok by (simp add: uli_ok_def uli_dump_to_def)
  have okF: "length (e_utran_cell_identifier (uli_ecgi v)) = 3" "macro_enodeb_id_u4 (uli_macro_enodeb_id v) = 0"
    "bit (uli_u1 v) 0 \<or> uli_cgi v = cgi_new"
    "bit (uli_u1 v) 1 \<or> uli_sai v = sai_new"
    "bit (uli_u1 v) 2 \<or> uli_rai v = rai_new"
    "bit (uli_u1 v) 3 \<or> uli_tai v = tai_new"
    "bit (uli_u1 v) 4 \<or> uli_ecgi v = ecgi_new"
    "bit (uli_u1 v) 5 \<or> uli_lai v = lai_new"
    "bit (uli_u1 v) 6 \<or> uli_macro_enodeb_id v = macro_enodeb_id_new"
    "bit (uli_u1 v) 7 \<or> uli_extended_macro_enodeb_id v = extended_macro_enodeb_id_new"
    using ok unfolding uli_ok_def by blast+
  note dec =
    cgi.dec_enc_if [OF TrueI okF(3)]
    sai.dec_enc_if [OF TrueI okF(4)]
    rai.dec_enc_if [OF TrueI okF(5)]
    tai.dec_enc_if [OF TrueI okF(6)]
    ecgi.dec_enc_if [OF okF(1) okF(7)]
    lai.dec_enc_if [OF TrueI okF(8)]
    macro_enodeb_id.dec_enc_if [OF okF(2) okF(9)]
    extended_macro_enodeb_id.dec_enc_if [OF TrueI okF(10)]
  have "uli_load_from t uli_new (istream_of (?p @ r)) = Inr (v, istream_of r)" for r
    unfolding uli_load_from_def uli_dump_to_def uli_new_def drop_tlv_dump uli_ie.simps
    by (simp only: append_assoc append_Cons append_Nil read_u8_Cons prod.case dec) simp
  with p len show "\<exists>bs. pure_dump uli_dump_to t v = Inr (tlv_dump_to t @ bs, t, v)
      \<and> length bs = unat (tlv_length t) \<and> (\<forall>r. uli_load_from t uli_new (istream_of (bs @ r)) = Inr (v, istream_of r))"
    by metis
qed

end
