(* ===== verification/Gtpv2c_Codecs.thy ===== *)
theory Gtpv2c_Codecs
  imports Gtpv2c_Uli
begin

text \<open>
  The classes of information elements implement the interface \<open>ie_codec\<close>: for each of them the
  values that survive the wire are named by a predicate and the interface is interpreted. The
  elements other than the grouped ones are then one datatype, with the dispatch on the class for
  \<^verbatim>\<open>dump_to\<close> and the dispatch on the type of the header for \<^verbatim>\<open>load_from\<close> that
  \<^verbatim>\<open>new_gtpv2c_ie_from_stream\<close> (\<^verbatim>\<open>gtpv2c/3gpp_29.274.cpp\<close>) makes.
\<close>

section \<open>The values that survive the wire\<close>

definition bcd_digits :: "gtpv2c_tlv \<Rightarrow> bytes \<Rightarrow> u32" where
  "bcd_digits t bs =
     (let d = ucast (tlv_length t) * 2
      in if bs ! (unat (tlv_length t) - 1) AND 0xF0 = 0xF0 then d - 1 else d)"

definition bcd_shape :: "gtpv2c_tlv \<Rightarrow> bytes \<Rightarrow> bool" where
  "bcd_shape t b \<longleftrightarrow> (let n = unat (tlv_length t) in
     0 < n \<and> n \<le> 8 \<and> length b = 8 \<and> drop n b = replicate (8 - n) 0)"

definition imsi_ok :: "gtpv2c_tlv \<Rightarrow> bcd8 \<Rightarrow> bool" where
  "imsi_ok t v \<longleftrightarrow> bcd_shape t (bcd_b v) \<and> num_digits v = (if bcd_digits t (bcd_b v) > 15 then 15 else bcd_digits t (bcd_b v))"

definition msisdn_ok :: "gtpv2c_tlv \<Rightarrow> bcd8 \<Rightarrow> bool" where
  "msisdn_ok t v \<longleftrightarrow> bcd_shape t (bcd_b v) \<and> num_digits v = bcd_digits t (bcd_b v) \<and> num_digits v \<le> 15"

lemma bcd_read:
  assumes "bcd_shape t b" and "n = unat (tlv_length t)"
  shows "is_read (replicate n 0) (istream_of (take n b @ r)) = (take n b, istream_of r)"
    and "take n b @ replicate (8 - n) 0 = b" and "take n b ! (n - Suc 0) = b ! (n - Suc 0)"
    and "0 < n" and "n \<le> 8" and "length b = 8"
proof -
  from assms have d: "drop n b = replicate (8 - n) 0" by (auto simp: bcd_shape_def Let_def)
  show "take n b @ replicate (8 - n) 0 = b" using d append_take_drop_id [of n b] by simp
qed (use assms in \<open>auto simp: bcd_shape_def Let_def\<close>)

interpretation imsi: stable_ie_codec imsi_dump_to "\<lambda>t. imsi_load_from t bcd8_new" imsi_ok
proof (rule stable_ie_codecI)
  fix t v
  assume "imsi_ok t v"
  then have sh: "bcd_shape t (bcd_b v)" and d: "num_digits v = (if bcd_digits t (bcd_b v) > 15 then 15 else bcd_digits t (bcd_b v))"
    by (auto simp: imsi_ok_def)
  note rd = bcd_read [OF sh refl]
  let ?bs = "take (unat (tlv_length t)) (bcd_b v)"
  have "imsi_load_from t bcd8_new (istream_of (?bs @ r)) = Inr (v, istream_of r)" for r
  proof -
    have "imsi_load_from t bcd8_new (istream_of (?bs @ r)) = Inr (\<lparr>bcd_b = bcd_b v,
        num_digits = (if bcd_digits t (bcd_b v) > 15 then 15 else bcd_digits t (bcd_b v))\<rparr>, istream_of r)"
      using rd(4,5) by (auto simp: imsi_load_from_def bcd8_new_def Let_def rd bcd_digits_def not_less)
    then show ?thesis unfolding d [symmetric] by simp
  qed
  then show "\<exists>bs. imsi_dump_to t v = Inr (tlv_dump_to t @ bs, t, v) \<and> length bs = unat (tlv_length t)
      \<and> (\<forall>r. imsi_load_from t bcd8_new (istream_of (bs @ r)) = Inr (v, istream_of r))"
    using rd by (intro exI [of _ ?bs]) (simp add: imsi_dump_to_def Let_def)
qed

lemma mei_is_imsi: "mei_dump_to = imsi_dump_to" "mei_load_from = imsi_load_from"
  by (simp_all add: fun_eq_iff mei_dump_to_def imsi_dump_to_def mei_load_from_def imsi_load_from_def)

interpretation mei: stable_ie_codec mei_dump_to "\<lambda>t. mei_load_from t bcd8_new" imsi_ok
  unfolding mei_is_imsi by (rule imsi.stable_ie_codec_axioms)

lemma msisdn_half:
  assumes "bcd_shape t (bcd_b v)" and "num_digits v = bcd_digits t (bcd_b v)" and "n = unat (tlv_length t)"
  shows "num_digits v = (if bcd_b v ! (n - 1) AND 0xF0 = 0xF0 then of_nat (2 * n - 1) else of_nat (2 * n))"
proof -
  have "ucast (tlv_length t) * 2 = (of_nat (2 * n) :: u32)" using assms(3) by simp
  moreover have "of_nat (2 * n) - 1 = (of_nat (2 * n - 1) :: u32)"
    using bcd_read(4) [OF assms(1,3)] by (simp add: of_nat_diff)
  ultimately show ?thesis using assms(2,3) by (simp add: bcd_digits_def Let_def del: of_nat_mult)
qed

lemma or_F0: "(b :: u8) AND 0xF0 = 0xF0 \<Longrightarrow> b OR 0xF0 = b"
  by (rule bit_word_eqI) (metis bit_and_iff bit_or_iff)

interpretation msisdn: stable_ie_codec msisdn_dump_to "\<lambda>t. msisdn_load_from t bcd8_new" msisdn_ok
proof (rule stable_ie_codecI)
  fix t v
  assume "msisdn_ok t v"
  then have sh: "bcd_shape t (bcd_b v)" and d: "num_digits v = bcd_digits t (bcd_b v)"
    and le: "num_digits v \<le> 15"
    by (auto simp: msisdn_ok_def)
  note rd = bcd_read [OF sh refl]
  define n where "n = unat (tlv_length t)"
  have n8: "0 < n" "n \<le> 8" "length (bcd_b v) = 8" using rd(4-6) by (auto simp: n_def)
  let ?bs = "take n (bcd_b v)"
  have "msisdn_load_from t bcd8_new (istream_of (?bs @ r)) = Inr (v, istream_of r)" for r
    using rd(4,5) d unfolding n_def
    by (simp add: msisdn_load_from_def bcd8_new_def Let_def rd bcd_digits_def not_less)
  moreover have "msisdn_dump_to t v = Inr (tlv_dump_to t @ ?bs, t, v)"
  proof -
    have tn: "t\<lparr>tlv_length := of_nat n\<rparr> = t" by (simp add: n_def)
    have num: "num_digits v = (if bcd_b v ! (n - 1) AND 0xF0 = 0xF0 then of_nat (2 * n - 1) else of_nat (2 * n))"
      by (rule msisdn_half [OF sh d n_def])
    have upd: "(bcd_b v)[n - 1 := bcd_b v ! (n - 1) OR 0xF0] = bcd_b v"
      if "bcd_b v ! (n - 1) AND 0xF0 = 0xF0" using or_F0 [OF that] by simp
    have "n = 1 \<or> n = 2 \<or> n = 3 \<or> n = 4 \<or> n = 5 \<or> n = 6 \<or> n = 7 \<or> n = 8" using n8 by linarith
    then show ?thesis using le num upd tn
      by (elim disjE; cases "bcd_b v ! (n - 1) AND 0xF0 = 0xF0")
        (simp_all add: msisdn_dump_to_def Let_def del: of_nat_unat, simp add: numeral_2_eq_2)
  qed
  ultimately show "\<exists>bs. msisdn_dump_to t v = Inr (tlv_dump_to t @ bs, t, v) \<and> length bs = unat (tlv_length t)
      \<and> (\<forall>r. msisdn_load_from t bcd8_new (istream_of (bs @ r)) = Inr (v, istream_of r))"
    using n8 by (intro exI [of _ ?bs]) (simp add: n_def)
qed

text \<open>A cause that names an offending element is not among them: its \<^verbatim>\<open>dump_to\<close> is one byte short.\<close>

definition cause_ok :: "gtpv2c_tlv \<Rightarrow> cause_ie \<Rightarrow> bool" where
  "cause_ok t v \<longleftrightarrow> tlv_length t = 2 \<and> cause_value v \<noteq> MANDATORY_IE_INCORRECT
     \<and> type_of_the_offending_ie v = 0 \<and> length_of_the_offending_ie v = 0 \<and> cause_u2 v = 0"

interpretation cause: stable_ie_codec cause_dump_to "\<lambda>t. cause_load_from t cause_new" cause_ok
  by (rule stable_ie_codecI) (auto simp: cause_dump_to_def cause_load_from_def cause_new_def cause_ok_def Let_def)

definition apn_ok :: "gtpv2c_tlv \<Rightarrow> bytes \<Rightarrow> bool" where
  "apn_ok t apn \<longleftrightarrow> unat (tlv_length t) = length apn + 1 \<and> 0 \<notin> set apn \<and> length apn < 256
     \<and> list_all (\<lambda>l. length l < 64) (labels [] apn)"

interpretation apn: stable_ie_codec "apn_dump_to junk" "apn_load_from junk'" apn_ok
proof (rule stable_ie_codecI)
  fix t v
  assume ok: "apn_ok t v"
  then have l: "length v < 256" "\<forall>l \<in> set (labels [] v). length l < 64" "0 \<notin> set v"
    and len: "unat (tlv_length t) = length v + 1"
    by (auto simp: apn_ok_def list_all_iff)
  let ?w = "wire (labels [] v)"
  have "length ?w = unat (tlv_length t)" using len by (simp add: length_wire_labels)
  moreover have "t\<lparr>tlv_length := of_nat (unat (tlv_length t))\<rparr> = t" by simp
  ultimately show "\<exists>bs. apn_dump_to junk t v = Inr (tlv_dump_to t @ bs, t, v) \<and> length bs = unat (tlv_length t)
      \<and> (\<forall>r. apn_load_from junk' t (istream_of (bs @ r)) = Inr (v, istream_of r))"
    using string_to_dotted_wire [OF l(3,1)] dotted_to_string_wire [OF l(1,2)]
    by (intro exI [of _ ?w]) (simp add: apn_dump_to_def apn_load_from_def Let_def)
qed

definition ip_address_ok :: "gtpv2c_tlv \<Rightarrow> ip_address_ie \<Rightarrow> bool" where
  "ip_address_ok t v \<longleftrightarrow> tlv_length t = 4 \<and> is_ipv4 v \<and> length (ip_u1 v) = 16 \<and> drop 4 (ip_u1 v) = replicate 12 0"

interpretation ip_address: stable_ie_codec "pure_dump ip_address_dump_to" "\<lambda>t. ip_address_load_from t ip_address_new" ip_address_ok
proof (rule ie_codec_pureI [where p = "\<lambda>v. take 4 (ip_u1 v)"])
  fix t v r assume ok: "ip_address_ok t v"
  have "take 4 (ip_u1 v) @ replicate 12 0 = ip_u1 v"
    using ok append_take_drop_id [of 4 "ip_u1 v"] by (simp add: ip_address_ok_def)
  then show "ip_address_load_from t ip_address_new (istream_of (take 4 (ip_u1 v) @ r)) = Inr (v, istream_of r)"
    using ok by (simp add: ip_address_load_from_def ip_address_new_def ip_address_ok_def)
qed (auto simp: ip_address_dump_to_def ip_address_ok_def)

interpretation recovery: stable_ie_codec "pure_dump recovery_dump_to" "\<lambda>t. recovery_load_from t 0" "\<lambda>t _. tlv_length t = 1"
  by (rule stable_ie_codecI) (simp add: recovery_dump_to_def recovery_load_from_def)

interpretation ambr: stable_ie_codec "pure_dump ambr_dump_to" "\<lambda>t. ambr_load_from t ambr_new" "\<lambda>t _. tlv_length t = 8"
  by (rule stable_ie_codecI) (simp add: ambr_dump_to_def ambr_load_from_def ambr_new_def)

interpretation ebi: stable_ie_codec "pure_dump ebi_dump_to" "\<lambda>t. ebi_load_from t 0" "\<lambda>t _. tlv_length t = 1"
  by (rule stable_ie_codecI) (simp add: ebi_dump_to_def ebi_load_from_def)

interpretation bearer_tft: stable_ie_codec "pure_dump bearer_tft_dump_to" "\<lambda>t. bearer_tft_load_from t 0" "\<lambda>t _. tlv_length t = 1"
  by (rule stable_ie_codecI) (simp add: bearer_tft_dump_to_def bearer_tft_load_from_def)

interpretation charging_id: stable_ie_codec "pure_dump charging_id_dump_to" "\<lambda>t. charging_id_load_from t 0" "\<lambda>t _. tlv_length t = 4"
  by (rule stable_ie_codecI) (simp add: charging_id_dump_to_def charging_id_load_from_def)

interpretation bearer_flags: stable_ie_codec "pure_dump bearer_flags_dump_to" "\<lambda>t. bearer_flags_load_from t 0" "\<lambda>t _. tlv_length t = 1"
  by (rule stable_ie_codecI) (simp add: bearer_flags_dump_to_def bearer_flags_load_from_def)

interpretation pdn_type: stable_ie_codec "pure_dump pdn_type_dump_to" "\<lambda>t. pdn_type_load_from t 0" "\<lambda>t _. tlv_length t = 1"
  by (rule stable_ie_codecI) (simp add: pdn_type_dump_to_def pdn_type_load_from_def)

interpretation rat_type: stable_ie_codec "pure_dump rat_type_dump_to" "\<lambda>t. rat_type_load_from t 0" "\<lambda>t _. tlv_length t = 1"
  by (rule stable_ie_codecI) (simp add: rat_type_dump_to_def rat_type_load_from_def)

interpretation delay_value: stable_ie_codec "pure_dump delay_value_dump_to" "\<lambda>t. delay_value_load_from t 0" "\<lambda>t _. tlv_length t = 1"
  by (rule stable_ie_codecI) (simp add: delay_value_dump_to_def delay_value_load_from_def)

interpretation apn_restriction: stable_ie_codec "pure_dump apn_restriction_dump_to" "\<lambda>t. apn_restriction_load_from t 0" "\<lambda>t _. tlv_length t = 1"
  by (rule stable_ie_codecI) (simp add: apn_restriction_dump_to_def apn_restriction_load_from_def)

interpretation selection_mode: stable_ie_codec "pure_dump selection_mode_dump_to" "\<lambda>t. selection_mode_load_from t 0" "\<lambda>t _. tlv_length t = 1"
  by (rule stable_ie_codecI) (simp add: selection_mode_dump_to_def selection_mode_load_from_def)

interpretation node_type: stable_ie_codec "pure_dump node_type_dump_to" "\<lambda>t. node_type_load_from t 0" "\<lambda>t _. tlv_length t = 1"
  by (rule stable_ie_codecI) (simp add: node_type_dump_to_def node_type_load_from_def)

interpretation node_features: stable_ie_codec "pure_dump node_features_dump_to" "\<lambda>t. node_features_load_from t 0" "\<lambda>t _. tlv_length t = 1"
  by (rule stable_ie_codecI) (simp add: node_features_dump_to_def node_features_load_from_def)

interpretation ciot_optimizations: stable_ie_codec "pure_dump ciot_optimizations_dump_to" "\<lambda>t. ciot_optimizations_load_from t 0" "\<lambda>t _. tlv_length t = 1"
  by (rule stable_ie_codecI) (simp add: ciot_optimizations_dump_to_def ciot_optimizations_load_from_def)

interpretation ue_time_zone: stable_ie_codec "pure_dump ue_time_zone_dump_to"
    "\<lambda>t. ue_time_zone_load_from t ue_time_zone_new" "\<lambda>t _. tlv_length t = 2"
  by (rule stable_ie_codecI) (simp add: ue_time_zone_dump_to_def ue_time_zone_load_from_def)

interpretation serving_network: stable_ie_codec "pure_dump serving_network_dump_to"
    "\<lambda>t. serving_network_load_from t serving_network_new" "\<lambda>t _. tlv_length t = 3"
  by (rule stable_ie_codecI) (simp add: serving_network_dump_to_def serving_network_load_from_def)

text \<open>The octets past the length have their default value.\<close>

definition indication_ok :: "gtpv2c_tlv \<Rightarrow> indication_ie \<Rightarrow> bool" where
  "indication_ok t v \<longleftrightarrow> (let l = tlv_length t in 1 \<le> l \<and> l \<le> 7
     \<and> (l > 1 \<or> ind_u2 v = 0) \<and> (l > 2 \<or> ind_u3 v = 0) \<and> (l > 3 \<or> ind_u4 v = 0)
     \<and> (l > 4 \<or> ind_u5 v = 0) \<and> (l > 5 \<or> ind_u6 v = 0) \<and> (l > 6 \<or> ind_u7 v = 0))"

lemma word_le_7_cases:
  assumes "1 \<le> (l :: u16)" and "l \<le> 7"
  obtains "l = 1" | "l = 2" | "l = 3" | "l = 4" | "l = 5" | "l = 6" | "l = 7"
proof -
  have "unat l \<le> 7" "1 \<le> unat l" using assms by (simp_all add: word_le_nat_alt)
  then have "unat l \<in> {1, 2, 3, 4, 5, 6, 7}" by auto
  moreover have "l = of_nat (unat l)" by simp
  ultimately show ?thesis using that
    by (elim insertE emptyE) (simp_all only: of_nat_1 of_nat_numeral)
qed

interpretation indication: stable_ie_codec "pure_dump indication_dump_to"
    "\<lambda>t. indication_load_from t indication_new" indication_ok
proof (rule stable_ie_codecI)
  fix t v
  assume ok: "indication_ok t v"
  then have "1 \<le> tlv_length t" "tlv_length t \<le> 7" by (simp_all add: indication_ok_def Let_def)
  then show "\<exists>bs. pure_dump indication_dump_to t v = Inr (tlv_dump_to t @ bs, t, v) \<and> length bs = unat (tlv_length t)
      \<and> (\<forall>r. indication_load_from t indication_new (istream_of (bs @ r)) = Inr (v, istream_of r))"
    by (rule word_le_7_cases)
      (use ok in \<open>simp_all add: indication_dump_to_def indication_load_from_def indication_new_def indication_ok_def\<close>)
qed

definition container_ok :: "protocol_or_container_id \<Rightarrow> bool" where
  "container_ok c \<longleftrightarrow> unat (length_of_protocol_id_contents c) = length (protocol_id_contents c)"

interpretation container: codec container_dump_to "container_load_from junk container_new" container_ok
  by unfold_locales
    (simp add: container_dump_to_def container_load_from_def container_new_def container_ok_def)

definition pco_ok :: "gtpv2c_tlv \<Rightarrow> pco_ie \<Rightarrow> bool" where
  "pco_ok t v \<longleftrightarrow> list_all container_ok (protocol_or_container_ids v)
     \<and> num_protocol_or_container_id v = of_nat (length (protocol_or_container_ids v))
     \<and> unat (tlv_length t) = 1 + sum_list (map (\<lambda>c. 3 + length (protocol_id_contents c)) (protocol_or_container_ids v))"

lemma length_container_dump [simp]: "length (container_dump_to c) = 3 + length (protocol_id_contents c)"
  by (simp add: container_dump_to_def)

lemma pco_loop_containers:
  assumes "list_all container_ok cs"
  shows "pco_loop junk t (int (length (concat (map container_dump_to cs)))) v
      (istream_of (concat (map container_dump_to cs) @ r))
    = Inr (v\<lparr>protocol_or_container_ids := protocol_or_container_ids v @ cs,
             num_protocol_or_container_id := num_protocol_or_container_id v + of_nat (length cs)\<rparr>, istream_of r)"
  using assms
proof (induction cs arbitrary: v)
  case Nil
  then show ?case by (subst pco_loop.simps) simp
next
  case (Cons c cs)
  from Cons.prems have c: "container_ok c" by simp
  note [simp] = container.dec_enc [OF c]
  from c have n: "int (unat (length_of_protocol_id_contents c)) = int (length (protocol_id_contents c))"
    by (simp add: container_ok_def)
  show ?case using Cons n
    by (subst pco_loop.simps) (simp add: Let_def algebra_simps del: of_nat_unat)
qed

interpretation pco: stable_ie_codec "pure_dump pco_dump_to" "\<lambda>t. pco_load_from junk t pco_new" pco_ok
proof (rule ie_codec_pureI [where p = "\<lambda>v. pco_u1 v # concat (map container_dump_to (protocol_or_container_ids v))"])
  fix t v r assume ok: "pco_ok t v"
  let ?cs = "protocol_or_container_ids v"
  from ok have len: "int (unat (tlv_length t)) - 1 = int (length (concat (map container_dump_to ?cs)))"
    by (simp add: pco_ok_def length_concat comp_def del: of_nat_unat)
  from ok have cs: "list_all container_ok ?cs" and n: "num_protocol_or_container_id v = of_nat (length ?cs)"
    by (simp_all add: pco_ok_def)
  show "pco_load_from junk t pco_new (istream_of ((pco_u1 v # concat (map container_dump_to ?cs)) @ r))
      = Inr (v, istream_of r)"
    by (simp add: pco_load_from_def pco_new_def len pco_loop_containers [OF cs] n [symmetric] del: of_nat_unat)
qed (simp add: pco_dump_to_def pco_ok_def length_concat comp_def)

definition bearer_qos_ok :: "gtpv2c_tlv \<Rightarrow> bearer_qos_ie \<Rightarrow> bool" where
  "bearer_qos_ok t v \<longleftrightarrow> tlv_length t = 22
     \<and> length (bq_maximum_bit_rate_for_uplink v) = 5 \<and> length (bq_maximum_bit_rate_for_downlink v) = 5
     \<and> length (bq_guaranted_bit_rate_for_uplink v) = 5 \<and> length (bq_guaranted_bit_rate_for_downlink v) = 5"

interpretation bearer_qos: stable_ie_codec "pure_dump bearer_qos_dump_to"
    "\<lambda>t. bearer_qos_load_from t bearer_qos_new" bearer_qos_ok
  by (rule stable_ie_codecI)
    (auto simp: bearer_qos_dump_to_def bearer_qos_load_from_def bearer_qos_new_def bearer_qos_ok_def)

definition flow_qos_ok :: "gtpv2c_tlv \<Rightarrow> flow_qos_ie \<Rightarrow> bool" where
  "flow_qos_ok t v \<longleftrightarrow> tlv_length t = 21
     \<and> length (fq_maximum_bit_rate_for_uplink v) = 5 \<and> length (fq_maximum_bit_rate_for_downlink v) = 5
     \<and> length (fq_guaranted_bit_rate_for_uplink v) = 5 \<and> length (fq_guaranted_bit_rate_for_downlink v) = 5"

interpretation flow_qos: stable_ie_codec "pure_dump flow_qos_dump_to"
    "\<lambda>t. flow_qos_load_from t flow_qos_new" flow_qos_ok
  by (rule stable_ie_codecI)
    (auto simp: flow_qos_dump_to_def flow_qos_load_from_def flow_qos_new_def flow_qos_ok_def)

text \<open>The fields that the PDN type or the flags of an F-TEID leave out have their default value.\<close>

definition paa_ok :: "gtpv2c_tlv \<Rightarrow> paa_ie \<Rightarrow> bool" where
  "paa_ok t v \<longleftrightarrow> (let ty = paa_u1 v AND 0x07 in
     length (paa_ipv6_address v) = 16
     \<and> (ty = PDN_TYPE_E_IPV4 \<and> tlv_length t = 5 \<and> paa_ipv6_prefix_length v = 0 \<and> paa_ipv6_address v = in6addr_any
        \<or> ty = PDN_TYPE_E_IPV6 \<and> tlv_length t = 18 \<and> paa_ipv4_address v = 0
        \<or> ty = PDN_TYPE_E_IPV4V6 \<and> tlv_length t = 22
        \<or> ty = PDN_TYPE_E_NON_IP \<and> tlv_length t = 1 \<and> paa_ipv6_prefix_length v = 0
            \<and> paa_ipv6_address v = in6addr_any \<and> paa_ipv4_address v = 0))"

interpretation paa: stable_ie_codec paa_dump_to "\<lambda>t. paa_load_from t (paa_new junk)" paa_ok
proof (rule stable_ie_codecI)
  fix t v
  assume "paa_ok t v"
  then show "\<exists>bs. paa_dump_to t v = Inr (tlv_dump_to t @ bs, t, v) \<and> length bs = unat (tlv_length t)
      \<and> (\<forall>r. paa_load_from t (paa_new junk) (istream_of (bs @ r)) = Inr (v, istream_of r))"
    unfolding paa_ok_def Let_def
    by (elim conjE disjE)
      (simp_all add: paa_dump_to_def paa_load_from_def paa_new_def pdn_type_defs in6addr_any_def
        ipv4_address_dump_to_def ipv6_address_dump_to_def ipv4_address_load_from_def ipv6_address_load_from_def)
qed

definition fteid_ok :: "gtpv2c_tlv \<Rightarrow> fteid_ie \<Rightarrow> bool" where
  "fteid_ok t v \<longleftrightarrow> tlv_length t = fteid_check_length (fteid_u1 v) \<and> length (fteid_ipv6_address v) = 16
     \<and> (bit (fteid_u1 v) 7 \<or> fteid_ipv4_address v = 0) \<and> (bit (fteid_u1 v) 6 \<or> fteid_ipv6_address v = in6addr_any)"

interpretation fteid: stable_ie_codec "pure_dump fteid_dump_to" "\<lambda>t. fteid_load_from t fteid_new" fteid_ok
proof (rule stable_ie_codecI)
  fix t v
  assume "fteid_ok t v"
  then show "\<exists>bs. pure_dump fteid_dump_to t v = Inr (tlv_dump_to t @ bs, t, v) \<and> length bs = unat (tlv_length t)
      \<and> (\<forall>r. fteid_load_from t fteid_new (istream_of (bs @ r)) = Inr (v, istream_of r))"
    by (cases "bit (fteid_u1 v) 7"; cases "bit (fteid_u1 v) 6")
      (simp_all add: fteid_ok_def fteid_check_length_def fteid_dump_to_def fteid_load_from_def fteid_new_def
        in6addr_any_def ipv4_address_dump_to_def ipv6_address_dump_to_def ipv4_address_load_from_def
        ipv6_address_load_from_def)
qed

text \<open>
  The node identity of an FQ-CSID survives in its three forms; the exotic one packs a country code,
  a network code and an operator's number into four bytes.
\<close>

definition exotic_ok :: "bytes \<Rightarrow> bool" where
  "exotic_ok u \<longleftrightarrow> length u = 16 \<and> drop 6 u = replicate 10 0 \<and> unat (exotic_mnc u) < 1000
     \<and> 1000 * unat (exotic_mcc u) + unat (exotic_mnc u) < 2 ^ 20 \<and> unat (exotic_operator_specific_id u) < 2 ^ 12"

definition fq_csid_ok :: "gtpv2c_tlv \<Rightarrow> fq_csid_ie \<Rightarrow> bool" where
  "fq_csid_ok t v \<longleftrightarrow> (let ty = drop_bit 4 (csid_u1 v); u = csid_u2 v; n = length (pdn_connection_set_identifier v) in
     unat (csid_u1 v AND 0x0F) = n \<and> length u = 16
     \<and> (ty = GLOBAL_UNICAST_IPv4 \<and> unat (tlv_length t) = 5 + n * 2 \<and> drop 4 u = replicate 12 0
        \<or> ty = GLOBAL_UNICAST_IPv6 \<and> unat (tlv_length t) = 17 + n * 2
        \<or> ty = TYPE_EXOTIC \<and> unat (tlv_length t) = 5 + n * 2 \<and> exotic_ok u))"

lemma mem_bytes_bswap16 [simp]: "mem_bytes 2 (bswap16 x) = be_bytes 2 x"
proof -
  have "be_bytes 2 (word_of_be (mem_bytes 2 x) :: u16) = mem_bytes 2 x"
    using be_bytes_word_of_be [of "mem_bytes 2 x", where 'a = 16] by simp
  then show ?thesis by (simp add: bswap16_def mem_bytes_def)
qed

lemma csids_load_bytes:
  "csids_load junk (length xs) acc (istream_of (concat (map (be_bytes 2) xs) @ r)) = (acc @ xs, istream_of r)"
  by (induction xs arbitrary: acc) simp_all

lemma join_fields:
  fixes M O' :: u32
  assumes "take_bit 20 M = M" and "take_bit 12 O' = O'"
  shows "drop_bit 12 (push_bit 12 M OR O') = M" and "(push_bit 12 M OR O') AND 0xFFF = O'"
proof -
  have b: "bit M k \<Longrightarrow> k < 20" "bit O' k \<Longrightarrow> k < 12" for k
    using assms by (metis bit_take_bit_iff)+
  show "drop_bit 12 (push_bit 12 M OR O') = M"
    by (rule bit_word_eqI) (auto simp: bit_simps dest: b)
  have "(push_bit 12 M OR O') AND 0xFFF = take_bit 12 (push_bit 12 M OR O')"
    by (simp add: take_bit_eq_mask mask_eq_exp_minus_1)
  also have "\<dots> = O'" by (rule bit_word_eqI) (auto simp: bit_simps dest: b)
  finally show "(push_bit 12 M OR O') AND 0xFFF = O'" .
qed

lemma ucast_unat_eq: "unat (w :: u32) = unat (x :: u16) \<Longrightarrow> ucast w = x"
  by (drule arg_cong [of _ _ "of_nat :: nat \<Rightarrow> u16"]) simp

lemma exotic_pack:
  assumes "exotic_ok u" and e: "e = (word_of_int ((1000 * uint (exotic_mcc u) + uint (exotic_mnc u)) * 2 ^ 12)
      OR ucast (exotic_operator_specific_id u) :: u32)"
  shows "(1000 * uint (exotic_mcc u) + uint (exotic_mnc u)) * 2 ^ 12 < 2 ^ 32"
    and "ucast (drop_bit 12 e div 1000) = exotic_mcc u" and "ucast (drop_bit 12 e mod 1000) = exotic_mnc u"
    and "ucast (e AND 0xFFF) = exotic_operator_specific_id u"
proof -
  define m where "m = 1000 * unat (exotic_mcc u) + unat (exotic_mnc u)"
  let ?M = "of_nat m :: u32" and ?O = "ucast (exotic_operator_specific_id u) :: u32"
  have m: "m < 2 ^ 20" "unat (exotic_mnc u) < 1000" "unat (exotic_operator_specific_id u) < 2 ^ 12"
    using assms(1) by (simp_all add: exotic_ok_def m_def)
  have mi: "1000 * uint (exotic_mcc u) + uint (exotic_mnc u) = int m" by (simp add: m_def)
  show "(1000 * uint (exotic_mcc u) + uint (exotic_mnc u)) * 2 ^ 12 < 2 ^ 32" using m(1) by (simp add: mi)
  have M: "unat ?M = m" using m(1) by (simp add: unat_of_nat)
  have "take_bit 20 ?M = ?M" using m(1) by (simp add: take_bit_of_nat take_bit_nat_eq_self)
  moreover have "take_bit 12 ?O = ?O"
    using m(3) by (simp add: word_unat_eq_iff unsigned_take_bit_eq unsigned_ucast_eq take_bit_nat_eq_self)
  moreover have "e = push_bit 12 ?M OR ?O" unfolding e mi by (simp add: push_bit_eq_mult)
  ultimately have d: "drop_bit 12 e = ?M" and o: "e AND 0xFFF = ?O" using join_fields by simp_all
  have "unat (?M div 1000) = unat (exotic_mcc u)" "unat (?M mod 1000) = unat (exotic_mnc u)"
    using m(2) M by (simp_all add: unat_div unat_mod m_def)
  then show "ucast (drop_bit 12 e div 1000) = exotic_mcc u" "ucast (drop_bit 12 e mod 1000) = exotic_mnc u"
    unfolding d by (simp_all add: ucast_unat_eq)
  show "ucast (e AND 0xFFF) = exotic_operator_specific_id u"
    unfolding o by (rule bit_word_eqI) (simp add: bit_simps)
qed

lemma exotic_set_same:
  assumes "exotic_ok u"
  shows "exotic_set (exotic_mcc u) (exotic_mnc u) (exotic_operator_specific_id u) (replicate 16 0) = u"
proof -
  have m: "mem_bytes 2 (word_of_be (rev bs) :: u16) = bs" if "length bs = 2" for bs
    using be_bytes_word_of_be [of "rev bs", where 'a = 16] that by (simp add: mem_bytes_def)
  have l: "length u = 16" and d: "drop 6 u = replicate 10 0" using assms by (simp_all add: exotic_ok_def)
  have "take 2 (drop 2 u) @ drop 4 u = drop 2 u" "take 2 (drop 4 u) @ drop 6 u = drop 4 u"
    using append_take_drop_id [of 2 "drop 2 u"] append_take_drop_id [of 2 "drop 4 u"] by simp_all
  then have "take 2 u @ take 2 (drop 2 u) @ take 2 (drop 4 u) @ drop 6 u = u"
    by (metis append_take_drop_id)
  then show ?thesis using l d
    by (simp add: exotic_set_def exotic_mcc_def exotic_mnc_def exotic_operator_specific_id_def m)
qed

interpretation fq_csid: ie_codec fq_csid_dump_to "\<lambda>t. fq_csid_load_from junk t fq_csid_new" fq_csid_ok
proof
  fix t v
  assume ok: "fq_csid_ok t v"
  let ?xs = "pdn_connection_set_identifier v" and ?u = "csid_u2 v"
  let ?ids = "concat (map (be_bytes 2) ?xs)"
  have ids: "length ?ids = 2 * length ?xs" by (simp add: length_concat comp_def sum_list_triv)
  have n: "unat (csid_u1 v AND 0x0F) = length ?xs" and l: "length ?u = 16"
    using ok by (simp_all add: fq_csid_ok_def Let_def)
  consider (v4) "drop_bit 4 (csid_u1 v) = 0" "unat (tlv_length t) = 5 + length ?xs * 2" "drop 4 ?u = replicate 12 0"
    | (v6) "drop_bit 4 (csid_u1 v) = 1" "unat (tlv_length t) = 17 + length ?xs * 2"
    | (exo) "drop_bit 4 (csid_u1 v) = 2" "unat (tlv_length t) = 5 + length ?xs * 2" "exotic_ok ?u"
    using ok by (auto simp: fq_csid_ok_def Let_def node_id_defs)
  then show "\<exists>bs v'. fq_csid_dump_to t v = Inr (tlv_dump_to t @ bs, t, v') \<and> length bs = unat (tlv_length t)
      \<and> (\<forall>r. fq_csid_load_from junk t fq_csid_new (istream_of (bs @ r)) = Inr (v, istream_of r))"
  proof cases
    case v4
    have "take 4 ?u @ replicate 12 0 = ?u" using v4(3) append_take_drop_id [of 4 ?u] by simp
    then show ?thesis using v4 n l ids
      by (simp add: fq_csid_dump_to_def fq_csid_load_from_def fq_csid_new_def node_id_defs Let_def csids_load_bytes comp_def)
  next
    case v6
    then show ?thesis using n l ids
      by (simp add: fq_csid_dump_to_def fq_csid_load_from_def fq_csid_new_def node_id_defs Let_def csids_load_bytes comp_def)
  next
    case exo
    note pack = exotic_pack [OF exo(3) refl] exotic_set_same [OF exo(3)]
    show ?thesis using exo n l ids pack
      by (simp add: fq_csid_dump_to_def fq_csid_load_from_def fq_csid_new_def node_id_defs Let_def csids_load_bytes comp_def)
  qed
qed

end
