(* ===== verification/Gtpv2c_Parse.thy ===== *)
theory Gtpv2c_Parse
  imports Gtpv2c_Codecs
begin

text \<open>
  Reading and writing of whole GTPv2-C messages: the factory \<^verbatim>\<open>new_gtpv2c_ie_from_stream\<close>
  (\<^verbatim>\<open>gtpv2c/3gpp_29.274.cpp\<close>), the grouped elements and \<^verbatim>\<open>gtpv2c_msg\<close> with its \<^verbatim>\<open>dump_to\<close> and
  \<^verbatim>\<open>load_from\<close> (\<^verbatim>\<open>gtpv2c/3gpp_29.274.hpp\<close>). The factory and the loop over a group call each other, so
  both take fuel; \<open>None\<close> is running out of it, which the theorems show does not happen with the fuel
  that the top-level definitions give.
\<close>

section \<open>The elements that are not groups\<close>

datatype ie_value =
    Imsi bcd8
  | Cause cause_ie
  | Recovery u8
  | Access_point_name bytes
  | Aggregate_maximum_bit_rate ambr_ie
  | Eps_bearer_id u8
  | Ip_address ip_address_ie
  | Mei bcd8
  | Msisdn bcd8
  | Indication indication_ie
  | Pco pco_ie
  | Paa paa_ie
  | Bearer_qos bearer_qos_ie
  | Flow_qos flow_qos_ie
  | Rat_type u8
  | Serving_network serving_network_ie
  | Bearer_tft u8
  | User_location_information uli_ie
  | Fully_qualified_teid fteid_ie
  | Delay_value u8
  | Charging_id u32
  | Bearer_flags u8
  | Pdn_type u8
  | Ue_time_zone ue_time_zone_ie
  | Apn_restriction u8
  | Selection_mode u8
  | Fq_csid fq_csid_ie
  | Node_type u8
  | Node_features u8
  | Ciot_optimizations_support_indication u8

definition lift_dump :: "('v \<Rightarrow> 'w) \<Rightarrow> (bytes \<times> gtpv2c_tlv \<times> 'v) gtpc_result \<Rightarrow> (bytes \<times> gtpv2c_tlv \<times> 'w) gtpc_result" where
  "lift_dump C r = (case r of Inl e \<Rightarrow> Inl e | Inr (bs, t, x) \<Rightarrow> Inr (bs, t, C x))"

definition lift_load :: "('v \<Rightarrow> 'w) \<Rightarrow> ('v \<times> istream) gtpc_result \<Rightarrow> ('w \<times> istream) gtpc_result" where
  "lift_load C r = (case r of Inl e \<Rightarrow> Inl e | Inr (x, s) \<Rightarrow> Inr (C x, s))"

text \<open>The virtual \<^verbatim>\<open>dump_to\<close>.\<close>

fun value_dump_to :: "(nat \<Rightarrow> u8) \<Rightarrow> gtpv2c_tlv \<Rightarrow> ie_value \<Rightarrow> (bytes \<times> gtpv2c_tlv \<times> ie_value) gtpc_result" where
  "value_dump_to junk t (Imsi x) = lift_dump Imsi (imsi_dump_to t x)"
| "value_dump_to junk t (Cause x) = lift_dump Cause (cause_dump_to t x)"
| "value_dump_to junk t (Recovery x) = lift_dump Recovery (pure_dump recovery_dump_to t x)"
| "value_dump_to junk t (Access_point_name x) = lift_dump Access_point_name (apn_dump_to junk t x)"
| "value_dump_to junk t (Aggregate_maximum_bit_rate x) = lift_dump Aggregate_maximum_bit_rate (pure_dump ambr_dump_to t x)"
| "value_dump_to junk t (Eps_bearer_id x) = lift_dump Eps_bearer_id (pure_dump ebi_dump_to t x)"
| "value_dump_to junk t (Ip_address x) = lift_dump Ip_address (pure_dump ip_address_dump_to t x)"
| "value_dump_to junk t (Mei x) = lift_dump Mei (mei_dump_to t x)"
| "value_dump_to junk t (Msisdn x) = lift_dump Msisdn (msisdn_dump_to t x)"
| "value_dump_to junk t (Indication x) = lift_dump Indication (pure_dump indication_dump_to t x)"
| "value_dump_to junk t (Pco x) = lift_dump Pco (pure_dump pco_dump_to t x)"
| "value_dump_to junk t (Paa x) = lift_dump Paa (paa_dump_to t x)"
| "value_dump_to junk t (Bearer_qos x) = lift_dump Bearer_qos (pure_dump bearer_qos_dump_to t x)"
| "value_dump_to junk t (Flow_qos x) = lift_dump Flow_qos (pure_dump flow_qos_dump_to t x)"
| "value_dump_to junk t (Rat_type x) = lift_dump Rat_type (pure_dump rat_type_dump_to t x)"
| "value_dump_to junk t (Serving_network x) = lift_dump Serving_network (pure_dump serving_network_dump_to t x)"
| "value_dump_to junk t (Bearer_tft x) = lift_dump Bearer_tft (pure_dump bearer_tft_dump_to t x)"
| "value_dump_to junk t (User_location_information x) = lift_dump User_location_information (pure_dump uli_dump_to t x)"
| "value_dump_to junk t (Fully_qualified_teid x) = lift_dump Fully_qualified_teid (pure_dump fteid_dump_to t x)"
| "value_dump_to junk t (Delay_value x) = lift_dump Delay_value (pure_dump delay_value_dump_to t x)"
| "value_dump_to junk t (Charging_id x) = lift_dump Charging_id (pure_dump charging_id_dump_to t x)"
| "value_dump_to junk t (Bearer_flags x) = lift_dump Bearer_flags (pure_dump bearer_flags_dump_to t x)"
| "value_dump_to junk t (Pdn_type x) = lift_dump Pdn_type (pure_dump pdn_type_dump_to t x)"
| "value_dump_to junk t (Ue_time_zone x) = lift_dump Ue_time_zone (pure_dump ue_time_zone_dump_to t x)"
| "value_dump_to junk t (Apn_restriction x) = lift_dump Apn_restriction (pure_dump apn_restriction_dump_to t x)"
| "value_dump_to junk t (Selection_mode x) = lift_dump Selection_mode (pure_dump selection_mode_dump_to t x)"
| "value_dump_to junk t (Fq_csid x) = lift_dump Fq_csid (fq_csid_dump_to t x)"
| "value_dump_to junk t (Node_type x) = lift_dump Node_type (pure_dump node_type_dump_to t x)"
| "value_dump_to junk t (Node_features x) = lift_dump Node_features (pure_dump node_features_dump_to t x)"
| "value_dump_to junk t (Ciot_optimizations_support_indication x) = lift_dump Ciot_optimizations_support_indication (pure_dump ciot_optimizations_dump_to t x)"

text \<open>
  The switch of the factory over the type of the header; \<open>None\<close> is its \<^verbatim>\<open>default\<close> label.
\<close>

definition value_load_from ::
  "(nat \<Rightarrow> u8) \<Rightarrow> gtpv2c_tlv \<Rightarrow> istream \<Rightarrow> (ie_value \<times> istream) gtpc_result option" where
  "value_load_from junk t s =
     (let ty = tlv_type t in
      if ty = GTP_IE_IMSI then Some (lift_load Imsi (imsi_load_from t bcd8_new s))
      else if ty = GTP_IE_CAUSE then Some (lift_load Cause (cause_load_from t cause_new s))
      else if ty = GTP_IE_RECOVERY_RESTART_COUNTER then Some (lift_load Recovery (recovery_load_from t 0 s))
      else if ty = GTP_IE_ACCESS_POINT_NAME then Some (lift_load Access_point_name (apn_load_from junk t s))
      else if ty = GTP_IE_AGGREGATE_MAXIMUM_BIT_RATE then Some (lift_load Aggregate_maximum_bit_rate (ambr_load_from t ambr_new s))
      else if ty = GTP_IE_EPS_BEARER_ID then Some (lift_load Eps_bearer_id (ebi_load_from t 0 s))
      else if ty = GTP_IE_IP_ADDRESS then Some (lift_load Ip_address (ip_address_load_from t ip_address_new s))
      else if ty = GTP_IE_MOBILE_EQUIPMENT_IDENTITY then Some (lift_load Mei (mei_load_from t bcd8_new s))
      else if ty = GTP_IE_MSISDN then Some (lift_load Msisdn (msisdn_load_from t bcd8_new s))
      else if ty = GTP_IE_INDICATION then Some (lift_load Indication (indication_load_from t indication_new s))
      else if ty = GTP_IE_PROTOCOL_CONFIGURATION_OPTIONS then Some (lift_load Pco (pco_load_from junk t pco_new s))
      else if ty = GTP_IE_PDN_ADDRESS_ALLOCATION then Some (lift_load Paa (paa_load_from t (paa_new junk) s))
      else if ty = GTP_IE_BEARER_QUALITY_OF_SERVICE then Some (lift_load Bearer_qos (bearer_qos_load_from t bearer_qos_new s))
      else if ty = GTP_IE_FLOW_QUALITY_OF_SERVICE then Some (lift_load Flow_qos (flow_qos_load_from t flow_qos_new s))
      else if ty = GTP_IE_RAT_TYPE then Some (lift_load Rat_type (rat_type_load_from t 0 s))
      else if ty = GTP_IE_SERVING_NETWORK then Some (lift_load Serving_network (serving_network_load_from t serving_network_new s))
      else if ty = GTP_IE_EPS_BEARER_LEVEL_TRAFFIC_FLOW_TEMPLATE then Some (lift_load Bearer_tft (bearer_tft_load_from t 0 s))
      else if ty = GTP_IE_USER_LOCATION_INFORMATION then Some (lift_load User_location_information (uli_load_from t uli_new s))
      else if ty = GTP_IE_FULLY_QUALIFIED_TUNNEL_ENDPOINT_IDENTIFIER then Some (lift_load Fully_qualified_teid (fteid_load_from t fteid_new s))
      else if ty = GTP_IE_DELAY_VALUE then Some (lift_load Delay_value (delay_value_load_from t 0 s))
      else if ty = GTP_IE_CHARGING_ID then Some (lift_load Charging_id (charging_id_load_from t 0 s))
      else if ty = GTP_IE_BEARER_FLAGS then Some (lift_load Bearer_flags (bearer_flags_load_from t 0 s))
      else if ty = GTP_IE_PDN_TYPE then Some (lift_load Pdn_type (pdn_type_load_from t 0 s))
      else if ty = GTP_IE_UE_TIME_ZONE then Some (lift_load Ue_time_zone (ue_time_zone_load_from t ue_time_zone_new s))
      else if ty = GTP_IE_APN_RESTRICTION then Some (lift_load Apn_restriction (apn_restriction_load_from t 0 s))
      else if ty = GTP_IE_SELECTION_MODE then Some (lift_load Selection_mode (selection_mode_load_from t 0 s))
      else if ty = GTP_IE_FQ_CSID then Some (lift_load Fq_csid (fq_csid_load_from junk t fq_csid_new s))
      else if ty = GTP_IE_NODE_TYPE then Some (lift_load Node_type (node_type_load_from t 0 s))
      else if ty = GTP_IE_NODE_FEATURES then Some (lift_load Node_features (node_features_load_from t 0 s))
      else if ty = GTP_IE_CIOT_OPTIMIZATIONS_SUPPORT_INDICATION then Some (lift_load Ciot_optimizations_support_indication (ciot_optimizations_load_from t 0 s))
      else None)"

text \<open>The values that survive the wire, with the type of their class in the header.\<close>

fun value_ok :: "gtpv2c_tlv \<Rightarrow> ie_value \<Rightarrow> bool" where
  "value_ok t (Imsi x) \<longleftrightarrow> tlv_type t = GTP_IE_IMSI \<and> imsi_ok t x"
| "value_ok t (Cause x) \<longleftrightarrow> tlv_type t = GTP_IE_CAUSE \<and> cause_ok t x"
| "value_ok t (Recovery _) \<longleftrightarrow> tlv_type t = GTP_IE_RECOVERY_RESTART_COUNTER \<and> tlv_length t = 1"
| "value_ok t (Access_point_name x) \<longleftrightarrow> tlv_type t = GTP_IE_ACCESS_POINT_NAME \<and> apn_ok t x"
| "value_ok t (Aggregate_maximum_bit_rate _) \<longleftrightarrow> tlv_type t = GTP_IE_AGGREGATE_MAXIMUM_BIT_RATE \<and> tlv_length t = 8"
| "value_ok t (Eps_bearer_id _) \<longleftrightarrow> tlv_type t = GTP_IE_EPS_BEARER_ID \<and> tlv_length t = 1"
| "value_ok t (Ip_address x) \<longleftrightarrow> tlv_type t = GTP_IE_IP_ADDRESS \<and> ip_address_ok t x"
| "value_ok t (Mei x) \<longleftrightarrow> tlv_type t = GTP_IE_MOBILE_EQUIPMENT_IDENTITY \<and> imsi_ok t x"
| "value_ok t (Msisdn x) \<longleftrightarrow> tlv_type t = GTP_IE_MSISDN \<and> msisdn_ok t x"
| "value_ok t (Indication x) \<longleftrightarrow> tlv_type t = GTP_IE_INDICATION \<and> indication_ok t x"
| "value_ok t (Pco x) \<longleftrightarrow> tlv_type t = GTP_IE_PROTOCOL_CONFIGURATION_OPTIONS \<and> pco_ok t x"
| "value_ok t (Paa x) \<longleftrightarrow> tlv_type t = GTP_IE_PDN_ADDRESS_ALLOCATION \<and> paa_ok t x"
| "value_ok t (Bearer_qos x) \<longleftrightarrow> tlv_type t = GTP_IE_BEARER_QUALITY_OF_SERVICE \<and> bearer_qos_ok t x"
| "value_ok t (Flow_qos x) \<longleftrightarrow> tlv_type t = GTP_IE_FLOW_QUALITY_OF_SERVICE \<and> flow_qos_ok t x"
| "value_ok t (Rat_type _) \<longleftrightarrow> tlv_type t = GTP_IE_RAT_TYPE \<and> tlv_length t = 1"
| "value_ok t (Serving_network _) \<longleftrightarrow> tlv_type t = GTP_IE_SERVING_NETWORK \<and> tlv_length t = 3"
| "value_ok t (Bearer_tft _) \<longleftrightarrow> tlv_type t = GTP_IE_EPS_BEARER_LEVEL_TRAFFIC_FLOW_TEMPLATE \<and> tlv_length t = 1"
| "value_ok t (User_location_information x) \<longleftrightarrow> tlv_type t = GTP_IE_USER_LOCATION_INFORMATION \<and> uli_ok t x"
| "value_ok t (Fully_qualified_teid x) \<longleftrightarrow> tlv_type t = GTP_IE_FULLY_QUALIFIED_TUNNEL_ENDPOINT_IDENTIFIER \<and> fteid_ok t x"
| "value_ok t (Delay_value _) \<longleftrightarrow> tlv_type t = GTP_IE_DELAY_VALUE \<and> tlv_length t = 1"
| "value_ok t (Charging_id _) \<longleftrightarrow> tlv_type t = GTP_IE_CHARGING_ID \<and> tlv_length t = 4"
| "value_ok t (Bearer_flags _) \<longleftrightarrow> tlv_type t = GTP_IE_BEARER_FLAGS \<and> tlv_length t = 1"
| "value_ok t (Pdn_type _) \<longleftrightarrow> tlv_type t = GTP_IE_PDN_TYPE \<and> tlv_length t = 1"
| "value_ok t (Ue_time_zone _) \<longleftrightarrow> tlv_type t = GTP_IE_UE_TIME_ZONE \<and> tlv_length t = 2"
| "value_ok t (Apn_restriction _) \<longleftrightarrow> tlv_type t = GTP_IE_APN_RESTRICTION \<and> tlv_length t = 1"
| "value_ok t (Selection_mode _) \<longleftrightarrow> tlv_type t = GTP_IE_SELECTION_MODE \<and> tlv_length t = 1"
| "value_ok t (Fq_csid x) \<longleftrightarrow> tlv_type t = GTP_IE_FQ_CSID \<and> fq_csid_ok t x"
| "value_ok t (Node_type _) \<longleftrightarrow> tlv_type t = GTP_IE_NODE_TYPE \<and> tlv_length t = 1"
| "value_ok t (Node_features _) \<longleftrightarrow> tlv_type t = GTP_IE_NODE_FEATURES \<and> tlv_length t = 1"
| "value_ok t (Ciot_optimizations_support_indication _) \<longleftrightarrow> tlv_type t = GTP_IE_CIOT_OPTIMIZATIONS_SUPPORT_INDICATION \<and> tlv_length t = 1"

lemma lift_codec:
  assumes "ie_codec d l ok" and "ok t x"
  shows "\<exists>bs v'. lift_dump C (d t x) = Inr (tlv_dump_to t @ bs, t, v') \<and> length bs = unat (tlv_length t)
    \<and> (\<forall>r. lift_load C (l t (istream_of (bs @ r))) = Inr (C x, istream_of r))"
proof -
  from ie_codec.dump_load [OF assms] obtain bs v' where
    "d t x = Inr (tlv_dump_to t @ bs, t, v')" "length bs = unat (tlv_length t)"
    "\<forall>r. l t (istream_of (bs @ r)) = Inr (x, istream_of r)" by blast
  then show ?thesis by (intro exI [of _ bs] exI [of _ "C v'"]) (simp add: lift_dump_def lift_load_def)
qed

lemma value_dump_load:
  assumes "value_ok t v"
  shows "\<exists>bs v'. value_dump_to junk t v = Inr (tlv_dump_to t @ bs, t, v') \<and> length bs = unat (tlv_length t)
    \<and> (\<forall>r. value_load_from junk' t (istream_of (bs @ r)) = Some (Inr (v, istream_of r)))"
proof (cases v)
  case (Imsi x)
  with assms lift_codec [OF imsi.ie_codec_axioms, where t = t and x = x and C = Imsi] show ?thesis
    by (simp add: value_load_from_def gtp_ie_types)
next
  case (Cause x)
  with assms lift_codec [OF cause.ie_codec_axioms, where t = t and x = x and C = Cause] show ?thesis
    by (simp add: value_load_from_def gtp_ie_types)
next
  case (Recovery x)
  with assms lift_codec [OF recovery.ie_codec_axioms, where t = t and x = x and C = Recovery] show ?thesis
    by (simp add: value_load_from_def gtp_ie_types)
next
  case (Access_point_name x)
  with assms lift_codec [OF apn.ie_codec_axioms [of junk junk'], where t = t and x = x and C = Access_point_name] show ?thesis
    by (simp add: value_load_from_def gtp_ie_types)
next
  case (Aggregate_maximum_bit_rate x)
  with assms lift_codec [OF ambr.ie_codec_axioms, where t = t and x = x and C = Aggregate_maximum_bit_rate] show ?thesis
    by (simp add: value_load_from_def gtp_ie_types)
next
  case (Eps_bearer_id x)
  with assms lift_codec [OF ebi.ie_codec_axioms, where t = t and x = x and C = Eps_bearer_id] show ?thesis
    by (simp add: value_load_from_def gtp_ie_types)
next
  case (Ip_address x)
  with assms lift_codec [OF ip_address.ie_codec_axioms, where t = t and x = x and C = Ip_address] show ?thesis
    by (simp add: value_load_from_def gtp_ie_types)
next
  case (Mei x)
  with assms lift_codec [OF mei.ie_codec_axioms, where t = t and x = x and C = Mei] show ?thesis
    by (simp add: value_load_from_def gtp_ie_types)
next
  case (Msisdn x)
  with assms lift_codec [OF msisdn.ie_codec_axioms, where t = t and x = x and C = Msisdn] show ?thesis
    by (simp add: value_load_from_def gtp_ie_types)
next
  case (Indication x)
  with assms lift_codec [OF indication.ie_codec_axioms, where t = t and x = x and C = Indication] show ?thesis
    by (simp add: value_load_from_def gtp_ie_types)
next
  case (Pco x)
  with assms lift_codec [OF pco.ie_codec_axioms [of junk'], where t = t and x = x and C = Pco] show ?thesis
    by (simp add: value_load_from_def gtp_ie_types)
next
  case (Paa x)
  with assms lift_codec [OF paa.ie_codec_axioms [of junk'], where t = t and x = x and C = Paa] show ?thesis
    by (simp add: value_load_from_def gtp_ie_types)
next
  case (Bearer_qos x)
  with assms lift_codec [OF bearer_qos.ie_codec_axioms, where t = t and x = x and C = Bearer_qos] show ?thesis
    by (simp add: value_load_from_def gtp_ie_types)
next
  case (Flow_qos x)
  with assms lift_codec [OF flow_qos.ie_codec_axioms, where t = t and x = x and C = Flow_qos] show ?thesis
    by (simp add: value_load_from_def gtp_ie_types)
next
  case (Rat_type x)
  with assms lift_codec [OF rat_type.ie_codec_axioms, where t = t and x = x and C = Rat_type] show ?thesis
    by (simp add: value_load_from_def gtp_ie_types)
next
  case (Serving_network x)
  with assms lift_codec [OF serving_network.ie_codec_axioms, where t = t and x = x and C = Serving_network] show ?thesis
    by (simp add: value_load_from_def gtp_ie_types)
next
  case (Bearer_tft x)
  with assms lift_codec [OF bearer_tft.ie_codec_axioms, where t = t and x = x and C = Bearer_tft] show ?thesis
    by (simp add: value_load_from_def gtp_ie_types)
next
  case (User_location_information x)
  with assms lift_codec [OF uli.ie_codec_axioms, where t = t and x = x and C = User_location_information] show ?thesis
    by (simp add: value_load_from_def gtp_ie_types)
next
  case (Fully_qualified_teid x)
  with assms lift_codec [OF fteid.ie_codec_axioms, where t = t and x = x and C = Fully_qualified_teid] show ?thesis
    by (simp add: value_load_from_def gtp_ie_types)
next
  case (Delay_value x)
  with assms lift_codec [OF delay_value.ie_codec_axioms, where t = t and x = x and C = Delay_value] show ?thesis
    by (simp add: value_load_from_def gtp_ie_types)
next
  case (Charging_id x)
  with assms lift_codec [OF charging_id.ie_codec_axioms, where t = t and x = x and C = Charging_id] show ?thesis
    by (simp add: value_load_from_def gtp_ie_types)
next
  case (Bearer_flags x)
  with assms lift_codec [OF bearer_flags.ie_codec_axioms, where t = t and x = x and C = Bearer_flags] show ?thesis
    by (simp add: value_load_from_def gtp_ie_types)
next
  case (Pdn_type x)
  with assms lift_codec [OF pdn_type.ie_codec_axioms, where t = t and x = x and C = Pdn_type] show ?thesis
    by (simp add: value_load_from_def gtp_ie_types)
next
  case (Ue_time_zone x)
  with assms lift_codec [OF ue_time_zone.ie_codec_axioms, where t = t and x = x and C = Ue_time_zone] show ?thesis
    by (simp add: value_load_from_def gtp_ie_types)
next
  case (Apn_restriction x)
  with assms lift_codec [OF apn_restriction.ie_codec_axioms, where t = t and x = x and C = Apn_restriction] show ?thesis
    by (simp add: value_load_from_def gtp_ie_types)
next
  case (Selection_mode x)
  with assms lift_codec [OF selection_mode.ie_codec_axioms, where t = t and x = x and C = Selection_mode] show ?thesis
    by (simp add: value_load_from_def gtp_ie_types)
next
  case (Fq_csid x)
  with assms lift_codec [OF fq_csid.ie_codec_axioms [of junk'], where t = t and x = x and C = Fq_csid] show ?thesis
    by (simp add: value_load_from_def gtp_ie_types)
next
  case (Node_type x)
  with assms lift_codec [OF node_type.ie_codec_axioms, where t = t and x = x and C = Node_type] show ?thesis
    by (simp add: value_load_from_def gtp_ie_types)
next
  case (Node_features x)
  with assms lift_codec [OF node_features.ie_codec_axioms, where t = t and x = x and C = Node_features] show ?thesis
    by (simp add: value_load_from_def gtp_ie_types)
next
  case (Ciot_optimizations_support_indication x)
  with assms lift_codec [OF ciot_optimizations.ie_codec_axioms, where t = t and x = x and C = Ciot_optimizations_support_indication] show ?thesis
    by (simp add: value_load_from_def gtp_ie_types)
qed

section \<open>Grouped elements\<close>

text \<open>The one grouped element the factory knows is the bearer context.\<close>

datatype gtpv2c_ie =
    Simple_ie gtpv2c_tlv ie_value
  | Bearer_context_ie gtpv2c_tlv "gtpv2c_ie list"

primrec ie_tlv :: "gtpv2c_ie \<Rightarrow> gtpv2c_tlv" where
  "ie_tlv (Simple_ie t v) = t"
| "ie_tlv (Bearer_context_ie t sies) = t"

abbreviation ie_length :: "gtpv2c_ie \<Rightarrow> u16" where
  "ie_length ie \<equiv> tlv_length (ie_tlv ie)"

definition grouped_add_ie :: "gtpv2c_ie \<Rightarrow> gtpv2c_tlv \<Rightarrow> gtpv2c_ie list \<Rightarrow> gtpv2c_ie" where
  "grouped_add_ie ie t sies =
     Bearer_context_ie (t\<lparr>tlv_length := tlv_length t + (tlv_ie_length + ie_length ie)\<rparr>) (sies @ [ie])"

fun ie_dump_to :: "(nat \<Rightarrow> u8) \<Rightarrow> gtpv2c_ie \<Rightarrow> (bytes \<times> gtpv2c_ie) gtpc_result"
and ies_dump_to :: "(nat \<Rightarrow> u8) \<Rightarrow> gtpv2c_ie list \<Rightarrow> (bytes \<times> gtpv2c_ie list) gtpc_result" where
  "ie_dump_to junk (Simple_ie t v) =
     (case value_dump_to junk t v of
        Inl e \<Rightarrow> Inl e
      | Inr (bs, t', v') \<Rightarrow> Inr (bs, Simple_ie t' v'))"
| "ie_dump_to junk (Bearer_context_ie t sies) =
     (case ies_dump_to junk sies of
        Inl e \<Rightarrow> Inl e
      | Inr (bs, sies') \<Rightarrow> Inr (tlv_dump_to t @ bs, Bearer_context_ie t sies'))"
| "ies_dump_to junk [] = Inr ([], [])"
| "ies_dump_to junk (ie # sies) =
     (case ie_dump_to junk ie of
        Inl e \<Rightarrow> Inl e
      | Inr (bs, ie') \<Rightarrow>
          (case ies_dump_to junk sies of
             Inl e \<Rightarrow> Inl e
           | Inr (bs', sies') \<Rightarrow> Inr (bs @ bs', ie' # sies')))"

text \<open>
  \<^verbatim>\<open>new_gtpv2c_ie_from_stream\<close> (a null pointer is \<open>None\<close>) and the loop of the grouped \<^verbatim>\<open>load_from\<close>.
\<close>

fun load_ie :: "(nat \<Rightarrow> u8) \<Rightarrow> nat \<Rightarrow> istream \<Rightarrow> (gtpv2c_ie option \<times> istream) gtpc_result option"
and load_group :: "(nat \<Rightarrow> u8) \<Rightarrow> nat \<Rightarrow> gtpv2c_tlv \<Rightarrow> int \<Rightarrow> gtpv2c_ie list \<Rightarrow> istream
    \<Rightarrow> (gtpv2c_ie list \<times> istream) gtpc_result option" where
  "load_ie junk 0 s = None"
| "load_ie junk (Suc n) s =
     (case tlv_load_from gtpv2c_tlv_default s of (t, s1) \<Rightarrow>
      if tlv_length t \<noteq> 0 then
        (if tlv_type t = GTP_IE_BEARER_CONTEXT then
           (case load_group junk n t (int (unat (tlv_length t))) [] s1 of
              None \<Rightarrow> None
            | Some (Inl e) \<Rightarrow> Some (Inl e)
            | Some (Inr (sies, s2)) \<Rightarrow> Some (Inr (Some (Bearer_context_ie t sies), s2)))
         else
           (case value_load_from junk t s1 of
              None \<Rightarrow> Some (Inr (None, s1))
            | Some (Inl e) \<Rightarrow> Some (Inl e)
            | Some (Inr (v, s2)) \<Rightarrow> Some (Inr (Some (Simple_ie t v), s2))))
      else Some (Inr (None, s1)))"
| "load_group junk 0 t remaining_size sies s = None"
| "load_group junk (Suc n) t remaining_size sies s =
     (if remaining_size > 0 then
        (case load_ie junk n s of
           None \<Rightarrow> None
         | Some (Inl e) \<Rightarrow> Some (Inl e)
         | Some (Inr (Some ie, s')) \<Rightarrow>
             load_group junk n t (remaining_size - (int (unat (ie_length ie)) + 4)) (sies @ [ie]) s'
         | Some (Inr (None, s')) \<Rightarrow> Some (Inl (Tlv_bad_length (tlv_type t) (tlv_length t))))
      else Some (Inr (sies, s)))"

definition new_gtpv2c_ie_from_stream ::
  "(nat \<Rightarrow> u8) \<Rightarrow> istream \<Rightarrow> (gtpv2c_ie option \<times> istream) gtpc_result option" where
  "new_gtpv2c_ie_from_stream junk s = load_ie junk (2 * length (left s) + 1) s"

section \<open>Messages\<close>

text \<open>\<^verbatim>\<open>gtpv2c_msg::dump_to\<close> and \<^verbatim>\<open>load_from\<close>; the sum of the lengths is a 16-bit number.\<close>

definition gtpv2c_msg_dump_to ::
  "(nat \<Rightarrow> u8) \<Rightarrow> gtpv2c_ie gtpv2c_msg \<Rightarrow> (bytes \<times> gtpv2c_ie gtpv2c_msg) gtpc_result" where
  "gtpv2c_msg_dump_to junk m =
     (case header_dump_to m of (h, m') \<Rightarrow>
      case ies_dump_to junk (ies m') of
        Inl e \<Rightarrow> Inl e
      | Inr (bs, ies') \<Rightarrow> Inr (h @ bs, m'\<lparr>ies := ies'\<rparr>))"

fun msg_loop ::
  "(nat \<Rightarrow> u8) \<Rightarrow> nat \<Rightarrow> u16 \<Rightarrow> u16 \<Rightarrow> gtpv2c_ie list \<Rightarrow> istream
     \<Rightarrow> (u16 \<times> gtpv2c_ie list \<times> istream) gtpc_result option" where
  "msg_loop junk 0 check_msg_length ies_length acc s = None"
| "msg_loop junk (Suc n) check_msg_length ies_length acc s =
     (case new_gtpv2c_ie_from_stream junk s of
        None \<Rightarrow> None
      | Some (Inl e) \<Rightarrow> Some (Inl e)
      | Some (Inr (None, s')) \<Rightarrow> Some (Inr (ies_length, acc, s'))
      | Some (Inr (Some ie, s')) \<Rightarrow>
          (let l = ies_length + (tlv_ie_length + ie_length ie) in
           if l < check_msg_length then msg_loop junk n check_msg_length l (acc @ [ie]) s'
           else Some (Inr (l, acc @ [ie], s'))))"

definition check_msg_length :: "'a gtpv2c_msg_header_scheme \<Rightarrow> u16" where
  "check_msg_length h = message_length h - 3 - 1 - (if has_teid h then 4 else 0)"

definition gtpv2c_msg_load_from ::
  "(nat \<Rightarrow> u8) \<Rightarrow> gtpv2c_ie gtpv2c_msg \<Rightarrow> istream \<Rightarrow> (gtpv2c_ie gtpv2c_msg \<times> istream) gtpc_result option" where
  "gtpv2c_msg_load_from junk m s =
     (case header_load_from (fresh junk 3) m s of (m1, s1) \<Rightarrow>
      case msg_loop junk (length (left s1) + 1) (check_msg_length m1) 0 (ies m1) s1 of
        None \<Rightarrow> None
      | Some (Inl e) \<Rightarrow> Some (Inl e)
      | Some (Inr (l, acc, s2)) \<Rightarrow>
          (if l \<noteq> check_msg_length m1
           then Some (Inl (Msg_bad_length (message_type m1) (message_length m1)))
           else Some (Inr (m1\<lparr>ies := acc\<rparr>, s2))))"

section \<open>Every load ends\<close>

lemma pco_loop_left:
  "pco_loop junk t k v s = Inr (v', s') \<Longrightarrow> length (left s') \<le> length (left s)"
proof (induction junk t k v s arbitrary: v' s' rule: pco_loop.induct)
  case (1 junk t k v s)
  obtain c s1 where c: "container_load_from junk container_new s = (c, s1)" by fastforce
  then have "length (left s1) \<le> length (left s)"
    by (auto simp: container_load_from_def split: prod.splits dest!: read_left is_read_left)
  with 1 c show ?case
    by (subst (asm) (2) pco_loop.simps) (fastforce simp: Let_def split: if_splits)
qed

lemma csids_load_left: "csids_load junk n xs s = (ys, s') \<Longrightarrow> length (left s') \<le> length (left s)"
proof (induction n arbitrary: xs s)
  case (Suc n)
  then show ?case by (fastforce split: prod.splits dest: is_read_left)
qed simp

lemmas left_rules = read_left is_read_left pco_loop_left csids_load_left

lemma location_left:
  "cgi_load_from cgi_v s = (cgi_w, s') \<Longrightarrow> length (left s') \<le> length (left s)"
  "sai_load_from sai_v s = (sai_w, s') \<Longrightarrow> length (left s') \<le> length (left s)"
  "rai_load_from rai_v s = (rai_w, s') \<Longrightarrow> length (left s') \<le> length (left s)"
  "tai_load_from tai_v s = (tai_w, s') \<Longrightarrow> length (left s') \<le> length (left s)"
  "ecgi_load_from ecgi_v s = (ecgi_w, s') \<Longrightarrow> length (left s') \<le> length (left s)"
  "lai_load_from lai_v s = (lai_w, s') \<Longrightarrow> length (left s') \<le> length (left s)"
  "macro_enodeb_id_load_from macro_enodeb_id_v s = (macro_enodeb_id_w, s') \<Longrightarrow> length (left s') \<le> length (left s)"
  "extended_macro_enodeb_id_load_from extended_macro_enodeb_id_v s = (extended_macro_enodeb_id_w, s') \<Longrightarrow> length (left s') \<le> length (left s)"
  by (auto simp: cgi_load_from_def sai_load_from_def rai_load_from_def tai_load_from_def ecgi_load_from_def lai_load_from_def macro_enodeb_id_load_from_def extended_macro_enodeb_id_load_from_def
      split: prod.splits dest!: read_left is_read_left)

text \<open>A read that depends on a flag.\<close>

lemma if_read_left:
  "(if c then read_u8 old s else (b, s)) = (x, s') \<Longrightarrow> length (left s') \<le> length (left s)"
  "(if c then cgi_load_from cgi_v s else (cgi_d, s)) = (cgi_w, s') \<Longrightarrow> length (left s') \<le> length (left s)"
  "(if c then sai_load_from sai_v s else (sai_d, s)) = (sai_w, s') \<Longrightarrow> length (left s') \<le> length (left s)"
  "(if c then rai_load_from rai_v s else (rai_d, s)) = (rai_w, s') \<Longrightarrow> length (left s') \<le> length (left s)"
  "(if c then tai_load_from tai_v s else (tai_d, s)) = (tai_w, s') \<Longrightarrow> length (left s') \<le> length (left s)"
  "(if c then ecgi_load_from ecgi_v s else (ecgi_d, s)) = (ecgi_w, s') \<Longrightarrow> length (left s') \<le> length (left s)"
  "(if c then lai_load_from lai_v s else (lai_d, s)) = (lai_w, s') \<Longrightarrow> length (left s') \<le> length (left s)"
  "(if c then macro_enodeb_id_load_from macro_enodeb_id_v s else (macro_enodeb_id_d, s)) = (macro_enodeb_id_w, s') \<Longrightarrow> length (left s') \<le> length (left s)"
  "(if c then extended_macro_enodeb_id_load_from extended_macro_enodeb_id_v s else (extended_macro_enodeb_id_d, s)) = (extended_macro_enodeb_id_w, s') \<Longrightarrow> length (left s') \<le> length (left s)"
  by (auto split: if_splits dest: read_left location_left)

lemma uli_left: "uli_load_from t v s = Inr (x, s') \<Longrightarrow> length (left s') \<le> length (left s)"
  unfolding uli_load_from_def by (auto split: prod.splits simp del: if_split dest!: if_read_left read_left)

lemma indication_left: "indication_load_from t v s = Inr (x, s') \<Longrightarrow> length (left s') \<le> length (left s)"
  unfolding indication_load_from_def Let_def
  by (cases "tlv_length t < 1") (auto split: prod.splits simp del: if_split dest!: if_read_left read_left)

lemma class_left:
  "imsi_load_from t imsi_v s = Inr (imsi_w, s') \<Longrightarrow> length (left s') \<le> length (left s)"
  "mei_load_from t mei_v s = Inr (mei_w, s') \<Longrightarrow> length (left s') \<le> length (left s)"
  "msisdn_load_from t msisdn_v s = Inr (msisdn_w, s') \<Longrightarrow> length (left s') \<le> length (left s)"
  "cause_load_from t cause_v s = Inr (cause_w, s') \<Longrightarrow> length (left s') \<le> length (left s)"
  "recovery_load_from t recovery_v s = Inr (recovery_w, s') \<Longrightarrow> length (left s') \<le> length (left s)"
  "ambr_load_from t ambr_v s = Inr (ambr_w, s') \<Longrightarrow> length (left s') \<le> length (left s)"
  "ebi_load_from t ebi_v s = Inr (ebi_w, s') \<Longrightarrow> length (left s') \<le> length (left s)"
  "ip_address_load_from t ip_address_v s = Inr (ip_address_w, s') \<Longrightarrow> length (left s') \<le> length (left s)"
  "bearer_tft_load_from t bearer_tft_v s = Inr (bearer_tft_w, s') \<Longrightarrow> length (left s') \<le> length (left s)"
  "charging_id_load_from t charging_id_v s = Inr (charging_id_w, s') \<Longrightarrow> length (left s') \<le> length (left s)"
  "bearer_flags_load_from t bearer_flags_v s = Inr (bearer_flags_w, s') \<Longrightarrow> length (left s') \<le> length (left s)"
  "pdn_type_load_from t pdn_type_v s = Inr (pdn_type_w, s') \<Longrightarrow> length (left s') \<le> length (left s)"
  "rat_type_load_from t rat_type_v s = Inr (rat_type_w, s') \<Longrightarrow> length (left s') \<le> length (left s)"
  "delay_value_load_from t delay_value_v s = Inr (delay_value_w, s') \<Longrightarrow> length (left s') \<le> length (left s)"
  "apn_restriction_load_from t apn_restriction_v s = Inr (apn_restriction_w, s') \<Longrightarrow> length (left s') \<le> length (left s)"
  "selection_mode_load_from t selection_mode_v s = Inr (selection_mode_w, s') \<Longrightarrow> length (left s') \<le> length (left s)"
  "node_type_load_from t node_type_v s = Inr (node_type_w, s') \<Longrightarrow> length (left s') \<le> length (left s)"
  "node_features_load_from t node_features_v s = Inr (node_features_w, s') \<Longrightarrow> length (left s') \<le> length (left s)"
  "ciot_optimizations_load_from t ciot_optimizations_v s = Inr (ciot_optimizations_w, s') \<Longrightarrow> length (left s') \<le> length (left s)"
  "ue_time_zone_load_from t ue_time_zone_v s = Inr (ue_time_zone_w, s') \<Longrightarrow> length (left s') \<le> length (left s)"
  "serving_network_load_from t serving_network_v s = Inr (serving_network_w, s') \<Longrightarrow> length (left s') \<le> length (left s)"
  "bearer_qos_load_from t bearer_qos_v s = Inr (bearer_qos_w, s') \<Longrightarrow> length (left s') \<le> length (left s)"
  "flow_qos_load_from t flow_qos_v s = Inr (flow_qos_w, s') \<Longrightarrow> length (left s') \<le> length (left s)"
  by (auto simp: imsi_load_from_def mei_load_from_def msisdn_load_from_def cause_load_from_def recovery_load_from_def ambr_load_from_def ebi_load_from_def ip_address_load_from_def bearer_tft_load_from_def charging_id_load_from_def bearer_flags_load_from_def pdn_type_load_from_def rat_type_load_from_def delay_value_load_from_def apn_restriction_load_from_def selection_mode_load_from_def node_type_load_from_def node_features_load_from_def ciot_optimizations_load_from_def ue_time_zone_load_from_def serving_network_load_from_def bearer_qos_load_from_def flow_qos_load_from_def
      Let_def split: prod.splits if_splits dest!: left_rules)

lemma class_left':
  "apn_load_from junk t s = Inr (a, s') \<Longrightarrow> length (left s') \<le> length (left s)"
  "pco_load_from junk t p s = Inr (p', s') \<Longrightarrow> length (left s') \<le> length (left s)"
  "paa_load_from t v s = Inr (v', s') \<Longrightarrow> length (left s') \<le> length (left s)"
  "fteid_load_from t f s = Inr (f', s') \<Longrightarrow> length (left s') \<le> length (left s)"
  "fq_csid_load_from junk t q s = Inr (q', s') \<Longrightarrow> length (left s') \<le> length (left s)"
  by (auto simp: apn_load_from_def pco_load_from_def paa_load_from_def fteid_load_from_def fq_csid_load_from_def
      ipv4_address_load_from_def ipv6_address_load_from_def Let_def
      split: prod.splits if_splits option.splits sum.splits dest!: left_rules)

lemma lift_load_eq: "lift_load C r = Inr (v, s') \<longleftrightarrow> (\<exists>x. r = Inr (x, s') \<and> v = C x)"
  by (auto simp: lift_load_def split: sum.splits prod.splits)

lemma value_load_left:
  "value_load_from junk t s = Some (Inr (v, s')) \<Longrightarrow> length (left s') \<le> length (left s)"
  unfolding value_load_from_def Let_def
  by (elim if_SomeE) (auto simp: lift_load_eq dest: class_left class_left' uli_left indication_left)

lemma tlv_left:
  assumes "tlv_load_from gtpv2c_tlv_default s = (t, s1)" and "tlv_length t \<noteq> 0"
  shows "length (left s1) < length (left s)"
proof (rule ccontr)
  assume n: "\<not> ?thesis"
  show False
  proof (cases "good s \<and> left s \<noteq> []")
    case True
    then obtain b r where s: "left s = b # r" by (cases "left s") auto
    then have "read_u8 0 s = (b, s\<lparr>left := r\<rparr>)" using True by (simp add: read_u8_def is_read_def)
    with assms(1) n s show False
      by (auto simp: tlv_load_from_def gtpv2c_tlv_default_def split: prod.splits dest!: read_left)
  next
    case False
    then have "\<exists>s'. (\<forall>old. read_u8 old s = (old, s')) \<and> \<not> good s'"
      by (cases "good s") (auto simp: read_u8_def is_read_def)
    then obtain s' where r: "\<And>old. read_u8 old s = (old, s')" "\<not> good s'" by blast
    then have "read_be 2 (0 :: u16) s' = (0, s')"
      by (simp add: read_be_def is_read_def mem_bytes_def numeral_2_eq_2 word_of_be_def)
    with assms r show False
      by (auto simp: tlv_load_from_def gtpv2c_tlv_default_def read_u8_def is_read_def split: prod.splits)
  qed
qed

lemma load_fuel:
  "(2 * length (left s) + 1 \<le> n \<longrightarrow> (\<exists>r. load_ie junk n s = Some r
      \<and> (\<forall>ie s'. r = Inr (Some ie, s') \<longrightarrow> length (left s') < length (left s))))
   \<and> (2 * length (left s) + 2 \<le> n \<longrightarrow> (\<exists>r. load_group junk n t k acc s = Some r
      \<and> (\<forall>x s'. r = Inr (x, s') \<longrightarrow> length (left s') \<le> length (left s))))"
proof (induction n arbitrary: s t k acc)
  case (Suc n)
  show ?case
  proof (intro conjI impI)
    assume fuel: "2 * length (left s) + 1 \<le> Suc n"
    obtain t1 s1 where t1: "tlv_load_from gtpv2c_tlv_default s = (t1, s1)" by fastforce
    show "\<exists>r. load_ie junk (Suc n) s = Some r
      \<and> (\<forall>ie s'. r = Inr (Some ie, s') \<longrightarrow> length (left s') < length (left s))"
    proof (cases "tlv_length t1 = 0")
      case False
      then have lt: "length (left s1) < length (left s)" using tlv_left [OF t1] by simp
      with fuel obtain r where "load_group junk n t1 (int (unat (tlv_length t1))) [] s1 = Some r"
        "\<forall>x s'. r = Inr (x, s') \<longrightarrow> length (left s') \<le> length (left s1)"
        using Suc.IH [of s1 t1 "int (unat (tlv_length t1))" "[]"] by auto
      then show ?thesis using t1 False lt value_load_left [of junk t1 s1]
        by (fastforce split: option.splits sum.splits)
    qed (use t1 in simp)
  next
    assume fuel: "2 * length (left s) + 2 \<le> Suc n"
    then obtain r where r: "load_ie junk n s = Some r"
      "\<And>ie s'. r = Inr (Some ie, s') \<Longrightarrow> length (left s') < length (left s)"
      using Suc.IH [of s t k acc] by auto
    have grp: "\<exists>q. load_group junk n t k' acc' s' = Some q
        \<and> (\<forall>x s''. q = Inr (x, s'') \<longrightarrow> length (left s'') \<le> length (left s'))"
      if "r = Inr (Some ie, s')" for ie s' k' acc' using Suc.IH [of s' t k' acc'] r(2) [OF that] fuel by auto
    show "\<exists>r. load_group junk (Suc n) t k acc s = Some r
      \<and> (\<forall>x s'. r = Inr (x, s') \<longrightarrow> length (left s') \<le> length (left s))"
    proof (cases "k > 0 \<and> (\<exists>ie s'. r = Inr (Some ie, s'))")
      case True
      then obtain ie s' where ie: "r = Inr (Some ie, s')" by blast
      with grp [OF ie, of "k - (int (unat (ie_length ie)) + 4)" "acc @ [ie]"] r True show ?thesis
        by (fastforce simp del: of_nat_unat)
    next
      case False
      then show ?thesis using r(1) by (auto split: sum.splits option.splits)
    qed
  qed
qed simp

lemma new_ie_returns:
  "\<exists>r. new_gtpv2c_ie_from_stream junk s = Some r
    \<and> (\<forall>ie s'. r = Inr (Some ie, s') \<longrightarrow> length (left s') < length (left s))"
  using load_fuel [of s "2 * length (left s) + 1" junk] by (auto simp: new_gtpv2c_ie_from_stream_def)

lemma msg_loop_returns: "length (left s) < n \<Longrightarrow> \<exists>r. msg_loop junk n c l acc s = Some r"
proof (induction n arbitrary: l acc s)
  case (Suc n)
  obtain r where r: "new_gtpv2c_ie_from_stream junk s = Some r"
    "\<And>ie s'. r = Inr (Some ie, s') \<Longrightarrow> length (left s') < length (left s)" using new_ie_returns by blast
  show ?case
  proof (cases "\<exists>ie s'. r = Inr (Some ie, s')")
    case True
    then obtain ie s' where ie: "r = Inr (Some ie, s')" by blast
    with r(2) [OF ie] Suc.prems have "length (left s') < n" by simp
    with Suc.IH [OF this] r(1) ie show ?thesis by (simp add: Let_def)
  next
    case False
    then show ?thesis using r(1) by (auto split: sum.splits option.splits)
  qed
qed simp

section \<open>Round trips\<close>

text \<open>The elements that survive the wire.\<close>

fun ie_ok :: "gtpv2c_ie \<Rightarrow> bool" where
  "ie_ok (Simple_ie t v) \<longleftrightarrow> tlv_length t \<noteq> 0 \<and> value_ok t v"
| "ie_ok (Bearer_context_ie t sies) \<longleftrightarrow> tlv_type t = GTP_IE_BEARER_CONTEXT \<and> tlv_length t \<noteq> 0
     \<and> (\<forall>ie \<in> set sies. ie_ok ie) \<and> unat (tlv_length t) = sum_list (map (\<lambda>ie. 4 + unat (ie_length ie)) sies)"

lemma value_ok_type: "value_ok t v \<Longrightarrow> tlv_type t \<noteq> GTP_IE_BEARER_CONTEXT"
  by (cases v) (simp_all add: gtp_ie_types)

lemma ie_roundtrip:
  "ie_ok ie \<longrightarrow> (\<exists>bs ie'. ie_dump_to junk ie = Inr (bs, ie') \<and> length bs = 4 + unat (ie_length ie)
     \<and> ie_tlv ie' = ie_tlv ie
     \<and> (\<forall>n r. 2 * length bs + 1 \<le> n \<longrightarrow>
          load_ie junk' n (istream_of (bs @ r)) = Some (Inr (Some ie, istream_of r))))"
  "(\<forall>ie \<in> set sies. ie_ok ie) \<longrightarrow> (\<exists>bs sies'. ies_dump_to junk sies = Inr (bs, sies')
     \<and> length bs = sum_list (map (\<lambda>ie. 4 + unat (ie_length ie)) sies)
     \<and> (\<forall>n r t acc. 2 * length bs + 2 \<le> n \<longrightarrow>
          load_group junk' n t (int (length bs)) acc (istream_of (bs @ r)) = Some (Inr (acc @ sies, istream_of r))))"
proof (induction junk ie and junk sies rule: ie_dump_to_ies_dump_to.induct)
  case (1 junk t v)
  show ?case
  proof (rule impI)
    assume "ie_ok (Simple_ie t v)"
    then have t: "tlv_length t \<noteq> 0" "tlv_type t \<noteq> GTP_IE_BEARER_CONTEXT" "value_ok t v"
      by (auto dest: value_ok_type)
    obtain bs v' where bs: "value_dump_to junk t v = Inr (tlv_dump_to t @ bs, t, v')"
      "length bs = unat (tlv_length t)"
      "\<And>r. value_load_from junk' t (istream_of (bs @ r)) = Some (Inr (v, istream_of r))"
      using value_dump_load [OF t(3), of junk junk'] by blast
    have "load_ie junk' n (istream_of ((tlv_dump_to t @ bs) @ r)) = Some (Inr (Some (Simple_ie t v), istream_of r))"
      if "1 \<le> n" for n r using that t bs(3) [of r] by (cases n) (simp_all add: tlv.dec_enc)
    then show "\<exists>bs ie'. ie_dump_to junk (Simple_ie t v) = Inr (bs, ie')
        \<and> length bs = 4 + unat (ie_length (Simple_ie t v)) \<and> ie_tlv ie' = ie_tlv (Simple_ie t v)
        \<and> (\<forall>n r. 2 * length bs + 1 \<le> n \<longrightarrow>
          load_ie junk' n (istream_of (bs @ r)) = Some (Inr (Some (Simple_ie t v), istream_of r)))"
      using bs(1,2) by (intro exI [of _ "tlv_dump_to t @ bs"] exI [of _ "Simple_ie t v'"]) simp
  qed
next
  case (2 junk t sies)
  show ?case
  proof (rule impI)
    assume "ie_ok (Bearer_context_ie t sies)"
    then have t: "tlv_length t \<noteq> 0" "tlv_type t = GTP_IE_BEARER_CONTEXT" "\<forall>ie \<in> set sies. ie_ok ie"
      and len: "unat (tlv_length t) = sum_list (map (\<lambda>ie. 4 + unat (ie_length ie)) sies)" by auto
    from 2 t(3) obtain bs sies' where bs: "ies_dump_to junk sies = Inr (bs, sies')"
      "length bs = sum_list (map (\<lambda>ie. 4 + unat (ie_length ie)) sies)"
      "\<And>n r t acc. 2 * length bs + 2 \<le> n \<Longrightarrow>
          load_group junk' n t (int (length bs)) acc (istream_of (bs @ r)) = Some (Inr (acc @ sies, istream_of r))"
      by blast
    have "load_ie junk' n (istream_of ((tlv_dump_to t @ bs) @ r))
        = Some (Inr (Some (Bearer_context_ie t sies), istream_of r))" if "2 * length bs + 3 \<le> n" for n r
      using that t bs(3) [of "n - 1" t "[]" r] unfolding bs(2) len [symmetric]
      by (cases n) (simp_all add: tlv.dec_enc del: of_nat_unat)
    then show "\<exists>bs ie'. ie_dump_to junk (Bearer_context_ie t sies) = Inr (bs, ie')
        \<and> length bs = 4 + unat (ie_length (Bearer_context_ie t sies))
        \<and> ie_tlv ie' = ie_tlv (Bearer_context_ie t sies)
        \<and> (\<forall>n r. 2 * length bs + 1 \<le> n \<longrightarrow>
          load_ie junk' n (istream_of (bs @ r)) = Some (Inr (Some (Bearer_context_ie t sies), istream_of r)))"
      using bs(1,2) len by (intro exI [of _ "tlv_dump_to t @ bs"] exI [of _ "Bearer_context_ie t sies'"]) simp
  qed
next
  case (3 junk)
  have "load_group junk' n t 0 acc (istream_of r) = Some (Inr (acc, istream_of r))" if "2 \<le> n" for n r t acc
    using that by (cases n) simp_all
  then show ?case by simp
next
  case (4 junk ie sies)
  show ?case
  proof (rule impI)
    assume ok: "\<forall>ie \<in> set (ie # sies). ie_ok ie"
    then obtain b1 ie' where b1: "ie_dump_to junk ie = Inr (b1, ie')" "length b1 = 4 + unat (ie_length ie)"
      "\<And>n r. 2 * length b1 + 1 \<le> n \<Longrightarrow> load_ie junk' n (istream_of (b1 @ r)) = Some (Inr (Some ie, istream_of r))"
      using "4.IH"(1) by auto
    obtain b2 sies' where b2: "ies_dump_to junk sies = Inr (b2, sies')"
      "length b2 = sum_list (map (\<lambda>ie. 4 + unat (ie_length ie)) sies)"
      "\<And>n r t acc. 2 * length b2 + 2 \<le> n \<Longrightarrow>
          load_group junk' n t (int (length b2)) acc (istream_of (b2 @ r)) = Some (Inr (acc @ sies, istream_of r))"
      using "4.IH"(2) [OF b1(1)] ok by auto
    have "load_group junk' n t (int (length (b1 @ b2))) acc (istream_of ((b1 @ b2) @ r))
        = Some (Inr (acc @ ie # sies, istream_of r))" if n: "2 * length (b1 @ b2) + 2 \<le> n" for n r t acc
    proof -
      obtain m where m: "n = Suc m" using n by (cases n) auto
      have "load_ie junk' m (istream_of (b1 @ b2 @ r)) = Some (Inr (Some ie, istream_of (b2 @ r)))"
        using b1(3) [of m "b2 @ r"] n m by simp
      moreover have "load_group junk' m t (int (length b2)) (acc @ [ie]) (istream_of (b2 @ r))
          = Some (Inr (acc @ ie # sies, istream_of r))" using b2(3) [of m t "acc @ [ie]" r] n m b1(2) by simp
      ultimately show ?thesis unfolding m using b1(2) by (simp del: of_nat_unat)
    qed
    then show "\<exists>bs sies'. ies_dump_to junk (ie # sies) = Inr (bs, sies')
        \<and> length bs = sum_list (map (\<lambda>ie. 4 + unat (ie_length ie)) (ie # sies))
        \<and> (\<forall>n r t acc. 2 * length bs + 2 \<le> n \<longrightarrow>
          load_group junk' n t (int (length bs)) acc (istream_of (bs @ r)) = Some (Inr (acc @ ie # sies, istream_of r)))"
      using b1(1,2) b2(1,2) by (intro exI [of _ "b1 @ b2"] exI [of _ "ie' # sies'"]) simp
  qed
qed

definition ies_size :: "gtpv2c_ie list \<Rightarrow> nat" where
  "ies_size sies = sum_list (map (\<lambda>ie. 4 + unat (ie_length ie)) sies)"

lemma ies_roundtrip:
  assumes "\<forall>ie \<in> set sies. ie_ok ie"
  shows "\<exists>bs sies'. ies_dump_to junk sies = Inr (bs, sies') \<and> length bs = ies_size sies
    \<and> (\<forall>n c l acc. length bs < n \<longrightarrow> sies \<noteq> [] \<longrightarrow> unat c = unat l + ies_size sies \<longrightarrow>
         msg_loop junk' n c l acc (istream_of bs) = Some (Inr (c, acc @ sies, istream_of [])))"
  using assms
proof (induction sies)
  case (Cons ie sies)
  from ie_roundtrip(1) [of ie junk junk'] Cons.prems obtain b1 ie' where
    b1: "ie_dump_to junk ie = Inr (b1, ie')" "length b1 = 4 + unat (ie_length ie)"
      "\<And>n r. 2 * length b1 + 1 \<le> n \<Longrightarrow> load_ie junk' n (istream_of (b1 @ r)) = Some (Inr (Some ie, istream_of r))"
    by auto
  from Cons obtain b2 sies' where
    b2: "ies_dump_to junk sies = Inr (b2, sies')" "length b2 = ies_size sies"
      "\<And>n c l acc. length b2 < n \<Longrightarrow> sies \<noteq> [] \<Longrightarrow> unat c = unat l + ies_size sies \<Longrightarrow>
         msg_loop junk' n c l acc (istream_of b2) = Some (Inr (c, acc @ sies, istream_of []))" by auto
  have "msg_loop junk' n c l acc (istream_of (b1 @ b2)) = Some (Inr (c, acc @ ie # sies, istream_of []))"
    if n: "length (b1 @ b2) < n" and c: "unat c = unat l + ies_size (ie # sies)" for n c l acc
  proof -
    obtain m where m: "n = Suc m" using n by (cases n) auto
    have new: "new_gtpv2c_ie_from_stream junk' (istream_of (b1 @ b2)) = Some (Inr (Some ie, istream_of b2))"
      using b1(3) [of "2 * length (b1 @ b2) + 1" b2] by (simp add: new_gtpv2c_ie_from_stream_def istream_of_def)
    let ?l = "l + (tlv_ie_length + ie_length ie)"
    have "unat l + 4 + unat (ie_length ie) < 2 ^ 16"
      using c unat_u16 [of c] by (simp add: ies_size_def)
    then have l: "unat ?l = unat l + 4 + unat (ie_length ie)"
      by (simp add: tlv_ie_length_def unat_word_ariths)
    show ?thesis
    proof (cases "sies = []")
      case True
      then have "?l = c" using l c b2(2) by (simp add: word_unat_eq_iff ies_size_def)
      moreover have "b2 = []" using True b2(2) by (simp add: ies_size_def)
      ultimately show ?thesis using new True by (simp add: m Let_def)
    next
      case False
      then have "?l < c" using l c by (cases sies) (simp_all add: word_less_nat_alt ies_size_def)
      moreover have "msg_loop junk' m c ?l (acc @ [ie]) (istream_of b2) = Some (Inr (c, acc @ ie # sies, istream_of []))"
        using b2(3) [of m c ?l "acc @ [ie]"] False l c n m b1(2) by (simp add: ies_size_def)
      ultimately show ?thesis using new by (simp add: m Let_def)
    qed
  qed
  then show ?case using b1(1,2) b2(1,2)
    by (intro exI [of _ "b1 @ b2"] exI [of _ "ie' # sies'"]) (simp add: ies_size_def)
qed (simp add: ies_size_def)

section \<open>Undefined behaviour on the way in\<close>

lemma d2s_loop_error: "d2s_loop dot offset acc res = Some (Inl u) \<Longrightarrow> u = Length_error"
proof -
  assume "d2s_loop dot offset acc res = Some (Inl u)"
  then have "case (Inl u :: (bool \<times> bytes) outcome) of Inl u \<Rightarrow> u = Length_error | Inr _ \<Rightarrow> True"
  proof (rule d2s_loop.raw_induct [where P = "\<lambda>_ _ _ _ y. case y of Inl u \<Rightarrow> u = Length_error | Inr _ \<Rightarrow> True", rotated])
    fix f :: "bytes \<Rightarrow> u16 \<Rightarrow> bytes \<Rightarrow> bool \<Rightarrow> (bool \<times> bytes) outcome option" and dot offset no_dot result y
    assume "\<And>dot offset no_dot result y. f dot offset no_dot result = Some y \<Longrightarrow>
        case y of Inl u \<Rightarrow> u = Length_error | Inr _ \<Rightarrow> True"
      and "(if unat offset < length dot then
        (let c = dot ! unat offset; d = sint c; p = int (unat offset) + d in
         if d < 64 then
           (if 0 \<le> p \<and> p \<le> int (length dot) then
              (if d < 0 then Some (Inl Length_error)
               else f dot (offset + 1 + of_int d)
                      (no_dot @ (if offset \<noteq> 0 then [0x2E] else [])
                        @ take (nat d) (drop (Suc (unat offset)) (dot @ [0]))) result)
            else f dot (offset + 1 + of_int d) no_dot result)
         else f dot (offset + 1) (no_dot @ [c]) False)
      else Some (Inr (result, no_dot))) = Some y"
    then show "case y of Inl u \<Rightarrow> u = Length_error | Inr _ \<Rightarrow> True"
      by (auto simp: Let_def split: if_splits)
  qed
  then show ?thesis by simp
qed

lemma pco_loop_defined: "pco_loop junk t k v s \<noteq> Inl (Undefined u)"
proof (induction junk t k v s rule: pco_loop.induct)
  case (1 junk t k v s)
  then show ?case by (subst pco_loop.simps) (auto simp: Let_def split: prod.splits)
qed

lemma class_defined:
  "cause_load_from t cause_v s \<noteq> Inl (Undefined u)"
  "recovery_load_from t recovery_v s \<noteq> Inl (Undefined u)"
  "ambr_load_from t ambr_v s \<noteq> Inl (Undefined u)"
  "ebi_load_from t ebi_v s \<noteq> Inl (Undefined u)"
  "ip_address_load_from t ip_address_v s \<noteq> Inl (Undefined u)"
  "bearer_tft_load_from t bearer_tft_v s \<noteq> Inl (Undefined u)"
  "charging_id_load_from t charging_id_v s \<noteq> Inl (Undefined u)"
  "bearer_flags_load_from t bearer_flags_v s \<noteq> Inl (Undefined u)"
  "pdn_type_load_from t pdn_type_v s \<noteq> Inl (Undefined u)"
  "rat_type_load_from t rat_type_v s \<noteq> Inl (Undefined u)"
  "delay_value_load_from t delay_value_v s \<noteq> Inl (Undefined u)"
  "apn_restriction_load_from t apn_restriction_v s \<noteq> Inl (Undefined u)"
  "selection_mode_load_from t selection_mode_v s \<noteq> Inl (Undefined u)"
  "node_type_load_from t node_type_v s \<noteq> Inl (Undefined u)"
  "node_features_load_from t node_features_v s \<noteq> Inl (Undefined u)"
  "ciot_optimizations_load_from t ciot_optimizations_v s \<noteq> Inl (Undefined u)"
  "ue_time_zone_load_from t ue_time_zone_v s \<noteq> Inl (Undefined u)"
  "serving_network_load_from t serving_network_v s \<noteq> Inl (Undefined u)"
  "bearer_qos_load_from t bearer_qos_v s \<noteq> Inl (Undefined u)"
  "flow_qos_load_from t flow_qos_v s \<noteq> Inl (Undefined u)"
  "fteid_load_from t fteid_v s \<noteq> Inl (Undefined u)"
  "paa_load_from t paa_v s \<noteq> Inl (Undefined u)"
  "pco_load_from junk t pco_v s \<noteq> Inl (Undefined u)"
  "fq_csid_load_from junk t csid_v s \<noteq> Inl (Undefined u)"
  by (simp_all add: cause_load_from_def recovery_load_from_def ambr_load_from_def ebi_load_from_def ip_address_load_from_def bearer_tft_load_from_def charging_id_load_from_def bearer_flags_load_from_def pdn_type_load_from_def rat_type_load_from_def delay_value_load_from_def apn_restriction_load_from_def selection_mode_load_from_def node_type_load_from_def node_features_load_from_def ciot_optimizations_load_from_def ue_time_zone_load_from_def serving_network_load_from_def bearer_qos_load_from_def flow_qos_load_from_def fteid_load_from_def paa_load_from_def
    pco_load_from_def fq_csid_load_from_def pco_loop_defined Let_def split: prod.split)

lemma case_prod_neq: "(\<And>a b. f a b \<noteq> c) \<Longrightarrow> (case p of (a, b) \<Rightarrow> f a b) \<noteq> c"
  by (cases p) simp

lemma uli_defined: "uli_load_from t v s \<noteq> Inl (Undefined u)"
  unfolding uli_load_from_def by (intro case_prod_neq) simp

lemma indication_defined: "indication_load_from t v s \<noteq> Inl (Undefined u)"
  unfolding indication_load_from_def Let_def
  by (cases "tlv_length t < 1") (simp, simp only: if_False, intro case_prod_neq, simp)

text \<open>
  The four elements whose \<^verbatim>\<open>load_from\<close> can run into undefined behaviour, and when.
\<close>

definition overruns :: "gtpv2c_tlv \<Rightarrow> bool" where
  "overruns t \<longleftrightarrow> unat (tlv_length t) > 8
     \<and> tlv_type t \<in> {GTP_IE_IMSI, GTP_IE_MOBILE_EQUIPMENT_IDENTITY, GTP_IE_MSISDN}"

lemma bcd_undefined:
  "tlv_length t \<noteq> 0 \<Longrightarrow> imsi_load_from t bcd8_new s = Inl (Undefined u) \<Longrightarrow> u = Out_of_range \<and> unat (tlv_length t) > 8"
  "tlv_length t \<noteq> 0 \<Longrightarrow> mei_load_from t bcd8_new s = Inl (Undefined u) \<Longrightarrow> u = Out_of_range \<and> unat (tlv_length t) > 8"
  "tlv_length t \<noteq> 0 \<Longrightarrow> msisdn_load_from t bcd8_new s = Inl (Undefined u) \<Longrightarrow> u = Out_of_range \<and> unat (tlv_length t) > 8"
  by (auto simp: imsi_load_from_def mei_load_from_def msisdn_load_from_def bcd8_new_def Let_def
      unat_eq_0 split: if_splits prod.splits)

lemma apn_undefined: "apn_load_from junk t s = Inl (Undefined u) \<Longrightarrow> u = Endless_loop \<or> u = Length_error"
  by (auto simp: apn_load_from_def dotted_to_string_def split: prod.splits option.splits sum.splits
      dest: d2s_loop_error)

lemma lift_load_Inl: "lift_load C r = Inl e \<longleftrightarrow> r = Inl e"
  by (auto simp: lift_load_def split: sum.splits)

lemma value_load_undefined:
  assumes "tlv_length t \<noteq> 0" and "value_load_from junk t s = Some (Inl (Undefined u))"
  shows "overruns t \<and> u = Out_of_range
    \<or> tlv_type t = GTP_IE_ACCESS_POINT_NAME \<and> (u = Endless_loop \<or> u = Length_error)"
proof -
  note ub = bcd_undefined [OF assms(1)] apn_undefined
  from assms(2) show ?thesis
    unfolding value_load_from_def Let_def
    by (simp only: if_distrib [of "\<lambda>x. x = Some (Inl (Undefined u))"])
      (auto simp: lift_load_Inl class_defined indication_defined uli_defined overruns_def split: if_splits dest: ub)
qed

definition load_ub :: "ub \<Rightarrow> bool" where
  "load_ub u \<longleftrightarrow> u = Out_of_range \<or> u = Endless_loop \<or> u = Length_error"

lemma load_undefined:
  "(load_ie junk n s = Some (Inl (Undefined u)) \<longrightarrow> load_ub u)
    \<and> (load_group junk n t k acc s = Some (Inl (Undefined u)) \<longrightarrow> load_ub u)"
proof (induction n arbitrary: s t k acc)
  case (Suc n)
  then show ?case
    by (auto simp: load_ub_def split: if_splits prod.splits option.splits sum.splits dest: value_load_undefined)
qed simp

lemma new_ie_undefined: "new_gtpv2c_ie_from_stream junk s = Some (Inl (Undefined u)) \<Longrightarrow> load_ub u"
  using load_undefined [of junk _ s u] unfolding new_gtpv2c_ie_from_stream_def by blast

lemma new_ie_end: "\<exists>s'. new_gtpv2c_ie_from_stream junk (istream_of []) = Some (Inr (None, s'))"
  by (simp add: new_gtpv2c_ie_from_stream_def istream_of_def tlv_load_from_def gtpv2c_tlv_default_def
      read_u8_def read_be_def is_read_def mem_bytes_def numeral_2_eq_2 word_of_be_def)

lemma msg_loop_undefined: "msg_loop junk n c l acc s = Some (Inl (Undefined u)) \<Longrightarrow> load_ub u"
proof (induction n arbitrary: l acc s)
  case (Suc n)
  then show ?case
    by (auto simp: Let_def split: if_splits option.splits sum.splits dest: new_ie_undefined)
qed simp

lemma msg_loop_unknown:
  assumes "new_gtpv2c_ie_from_stream junk s = Some (Inr (None, s'))"
  shows "msg_loop junk (Suc n) c l acc s = Some (Inr (l, acc, s'))"
  using assms by simp

lemma check_msg_length_nat:
  assumes "unat (message_length m) = 4 + (if has_teid m then 4 else 0) + k"
  shows "unat (check_msg_length m) = k"
proof -
  have "message_length m = of_nat (4 + (if has_teid m then 4 else 0) + k)"
    using assms [symmetric] by (simp del: of_nat_add)
  then have "check_msg_length m = of_nat k" by (simp add: check_msg_length_def)
  moreover have "k < 2 ^ 16" using assms unat_u16 [of "message_length m"] by simp
  ultimately show ?thesis by (simp add: unat_of_nat)
qed

section \<open>Properties\<close>


text \<open>
  C16: a GTPv2-C message survives the wire. For a header with its spare bits clear and a sequence
  number of 24 bits, elements that have a wire form (in any nesting of bearer contexts), and a length
  field that counts them, \<^verbatim>\<open>dump_to\<close> writes four bytes more than the length field says, and \<^verbatim>\<open>load_from\<close>
  of those bytes into a new message gives the same header and the same elements, whatever
  uninitialised memory held on either side.
\<close>

theorem gtpv2c_message_roundtrip:
  assumes "header_ok m" and "\<forall>ie \<in> set (ies m). ie_ok ie"
    and "unat (message_length m) = 4 + (if has_teid m then 4 else 0) + ies_size (ies m)"
  shows "\<exists>bs m' s'. gtpv2c_msg_dump_to junk m = Inr (bs, m') \<and> length bs = 4 + unat (message_length m)
    \<and> gtpv2c_msg_load_from junk' gtpv2c_msg_default (istream_of bs) = Some (Inr (m\<lparr>remote_port := 0\<rparr>, s'))"
proof -
  obtain b sies' where b: "ies_dump_to junk (ies m) = Inr (b, sies')" "length b = ies_size (ies m)"
    and loop: "\<And>n c l acc. length b < n \<Longrightarrow> ies m \<noteq> [] \<Longrightarrow> unat c = unat l + ies_size (ies m) \<Longrightarrow>
         msg_loop junk' n c l acc (istream_of b) = Some (Inr (c, acc @ ies m, istream_of []))"
    using ies_roundtrip [OF assms(2), of junk junk'] by blast
  let ?h = "fst (header_dump_to m)" and ?m1 = "m\<lparr>remote_port := 0, ies := []\<rparr>"
  have dump: "gtpv2c_msg_dump_to junk m = Inr (?h @ b, m\<lparr>ies := sies'\<rparr>)"
    using b(1) by (simp add: gtpv2c_msg_dump_to_def header_dump_ok [OF assms(1)])
  have len: "length ?h = 8 + (if has_teid m then 4 else 0)" by (simp add: header_dump_ok [OF assms(1)])
  have fr: "fresh junk' 3 = [junk' 0, junk' 1, junk' 2]" by (simp add: fresh_def upt_rec numeral_2_eq_2)
  have hdr: "header_load_from (fresh junk' 3) gtpv2c_msg_default (istream_of (?h @ b)) = (?m1, istream_of b)"
    unfolding fr header_load_dump [OF assms(1)] by (simp add: gtpv2c_msg_default_def gtpv2c_msg_header.defs gtpv2c_msg_header_default_def)
  have c: "unat (check_msg_length ?m1) = ies_size (ies m)"
    using assms(3) by (intro check_msg_length_nat) (simp add: has_teid_def)
  have "\<exists>s'. msg_loop junk' (length b + 1) (check_msg_length ?m1) 0 [] (istream_of b)
      = Some (Inr (check_msg_length ?m1, ies m, s'))"
  proof (cases "ies m = []")
    case True
    then have "b = []" "check_msg_length ?m1 = 0" using b(2) c by (simp_all add: ies_size_def unat_eq_0)
    moreover obtain s' where "new_gtpv2c_ie_from_stream junk' (istream_of []) = Some (Inr (None, s'))"
      using new_ie_end by blast
    ultimately show ?thesis using True msg_loop_unknown [of junk' "istream_of []" s' 0] by auto
  qed (use loop [of "length b + 1" "check_msg_length ?m1" 0 "[]"] c in auto)
  then obtain s' where "gtpv2c_msg_load_from junk' gtpv2c_msg_default (istream_of (?h @ b))
      = Some (Inr (m\<lparr>remote_port := 0\<rparr>, s'))"
    unfolding gtpv2c_msg_load_from_def hdr prod.case by (auto simp: istream_of_def)
  then show ?thesis using dump len b(2) assms(3) by auto
qed

theorem gtpv2c_message_roundtrip_witness:
  "\<exists>bs m' s'. gtpv2c_msg_dump_to (\<lambda>_. 0xAA) (gtpv2c_msg_default\<lparr>message_type := 33, message_length := 19,
      ies := [Simple_ie \<lparr>tlv_type = 2, tlv_length = 2, tlv_u1 = 0\<rparr> (Cause (cause_new\<lparr>cause_value := 16\<rparr>)),
              Bearer_context_ie \<lparr>tlv_type = 93, tlv_length = 5, tlv_u1 = 0\<rparr>
                [Simple_ie \<lparr>tlv_type = 73, tlv_length = 1, tlv_u1 = 0\<rparr> (Eps_bearer_id 5)]]\<rparr>) = Inr (bs, m')
    \<and> length bs = 23
    \<and> gtpv2c_msg_load_from (\<lambda>_. 0x55) gtpv2c_msg_default (istream_of bs)
      = Some (Inr (gtpv2c_msg_default\<lparr>message_type := 33, message_length := 19,
          ies := [Simple_ie \<lparr>tlv_type = 2, tlv_length = 2, tlv_u1 = 0\<rparr> (Cause (cause_new\<lparr>cause_value := 16\<rparr>)),
                  Bearer_context_ie \<lparr>tlv_type = 93, tlv_length = 5, tlv_u1 = 0\<rparr>
                    [Simple_ie \<lparr>tlv_type = 73, tlv_length = 1, tlv_u1 = 0\<rparr> (Eps_bearer_id 5)]]\<rparr>, s'))"
proof -
  let ?m = "gtpv2c_msg_default\<lparr>message_type := 33, message_length := 19,
      ies := [Simple_ie \<lparr>tlv_type = 2, tlv_length = 2, tlv_u1 = 0\<rparr> (Cause (cause_new\<lparr>cause_value := 16\<rparr>)),
              Bearer_context_ie \<lparr>tlv_type = 93, tlv_length = 5, tlv_u1 = 0\<rparr>
                [Simple_ie \<lparr>tlv_type = 73, tlv_length = 1, tlv_u1 = 0\<rparr> (Eps_bearer_id 5)]]\<rparr>"
  have hd: "header_ok ?m" "\<not> has_teid ?m"
    by (simp_all add: header_ok_def has_teid_def gtpv2c_msg_default_def gtpv2c_msg_header.defs gtpv2c_msg_header_default_def)
  have el: "\<forall>ie \<in> set (ies ?m). ie_ok ie"
    by (simp add: gtp_ie_types cause_ok_def cause_new_def MANDATORY_IE_INCORRECT_def)
  have len: "unat (message_length ?m) = 4 + (if has_teid ?m then 4 else 0) + ies_size (ies ?m)"
    using hd(2) by (simp add: ies_size_def)
  have rp: "?m\<lparr>remote_port := 0\<rparr> = ?m" "4 + unat (message_length ?m) = 23"
    by (simp_all add: gtpv2c_msg_default_def gtpv2c_msg_header.defs)
  show ?thesis
    using gtpv2c_message_roundtrip [OF hd(1) el len, of "\<lambda>_. 0xAA" "\<lambda>_. 0x55"] unfolding rp .
qed



text \<open>
  an FQ-CSID element changes when it is dumped: its identifiers are left with their two bytes
  swapped, so that dumping the same element again, as the retransmission of a message does, writes
  every identifier the other way round.
\<close>

theorem fq_csid_dump_twice:
  assumes "fq_csid_ok t v" and "fq_csid_dump_to t v = Inr (bs, t', v')"
  shows "pdn_connection_set_identifier v' = map bswap16 (pdn_connection_set_identifier v)
    \<and> (\<exists>p. bs = p @ concat (map (be_bytes 2) (pdn_connection_set_identifier v))
         \<and> fq_csid_dump_to t' v' = Inr (p @ concat (map (mem_bytes 2) (pdn_connection_set_identifier v)), t, v))"
proof -
  have sw: "bswap16 (bswap16 x) = x" for x by (simp add: bswap16_def [of "bswap16 x"])
  have be: "be_bytes 2 (bswap16 x) = mem_bytes 2 x" for x
    using mem_bytes_bswap16 [of "bswap16 x"] by (simp add: sw)
  show ?thesis using assms
    by (auto simp: fq_csid_ok_def fq_csid_dump_to_def node_id_defs Let_def comp_def sw be split: if_splits)
qed

lemma two_bytes:
  "be_bytes 2 (w :: u16) = [ucast (drop_bit 8 w), ucast w]" "mem_bytes 2 w = [ucast w, ucast (drop_bit 8 w)]"
  by (simp_all add: mem_bytes_def numeral_2_eq_2)

theorem fq_csid_dump_twice_witness:
  "\<exists>v'. fq_csid_dump_to \<lparr>tlv_type = 132, tlv_length = 7, tlv_u1 = 0\<rparr> (fq_csid_new\<lparr>csid_u1 := 1, pdn_connection_set_identifier := [0x0102]\<rparr>)
      = Inr ([132, 0, 7, 0, 1, 0, 0, 0, 0, 1, 2], \<lparr>tlv_type = 132, tlv_length = 7, tlv_u1 = 0\<rparr>, v')
    \<and> fq_csid_dump_to \<lparr>tlv_type = 132, tlv_length = 7, tlv_u1 = 0\<rparr> v'
      = Inr ([132, 0, 7, 0, 1, 0, 0, 0, 0, 2, 1], \<lparr>tlv_type = 132, tlv_length = 7, tlv_u1 = 0\<rparr>,
             fq_csid_new\<lparr>csid_u1 := 1, pdn_connection_set_identifier := [0x0102]\<rparr>)"
proof -
  let ?t = "\<lparr>tlv_type = 132, tlv_length = 7, tlv_u1 = 0\<rparr>"
  let ?v = "fq_csid_new\<lparr>csid_u1 := 1, pdn_connection_set_identifier := [0x0102]\<rparr>"
  have ok: "fq_csid_ok ?t ?v" by (simp add: fq_csid_ok_def fq_csid_new_def node_id_defs)
  have d: "fq_csid_dump_to ?t ?v = Inr ([132, 0, 7, 0, 1, 0, 0, 0, 0, 1, 2], ?t,
      ?v\<lparr>pdn_connection_set_identifier := [0x0201]\<rparr>)"
    by code_simp
  have m: "mem_bytes 2 (0x0102 :: u16) = [2, 1]" "be_bytes 2 (0x0102 :: u16) = [1, 2]"
    by (simp_all add: two_bytes)
  from fq_csid_dump_twice [OF ok d] d show ?thesis by (auto simp: m)
qed

end
