(* ===== verification/Gtpv2c_Stack.thy ===== *)
theory Gtpv2c_Stack
  imports Gtpv2c_Msg Transport
begin

text \<open>
  The reliable-delivery layer of GTPv2-C (\<^verbatim>\<open>gtpv2c/gtpv2c.hpp\<close>, \<^verbatim>\<open>gtpv2c/gtpv2c.cpp\<close>): pending
  procedures by sequence number, transaction identifiers, retransmission and clean-up timers. The
  singletons the stack calls are fields of its state: the timers of ITTI, the generator of
  transaction identifiers, and what it sends out (datagrams, and errors notified to the upper layer).
  A handler takes the time of the clock as an argument. The \<^verbatim>\<open>folly::AtomicHashMap\<close>s are maps; their
  capacity is not modelled.
\<close>

section \<open>Message types\<close>

definition GTP_ECHO_REQUEST :: u8 where "GTP_ECHO_REQUEST = 1"
definition GTP_ECHO_RESPONSE :: u8 where "GTP_ECHO_RESPONSE = 2"
definition GTP_VERSION_NOT_SUPPORTED_INDICATION :: u8 where "GTP_VERSION_NOT_SUPPORTED_INDICATION = 3"
definition GTP_CREATE_SESSION_REQUEST :: u8 where "GTP_CREATE_SESSION_REQUEST = 32"
definition GTP_CREATE_SESSION_RESPONSE :: u8 where "GTP_CREATE_SESSION_RESPONSE = 33"
definition GTP_MODIFY_BEARER_REQUEST :: u8 where "GTP_MODIFY_BEARER_REQUEST = 34"
definition GTP_MODIFY_BEARER_RESPONSE :: u8 where "GTP_MODIFY_BEARER_RESPONSE = 35"
definition GTP_DELETE_SESSION_REQUEST :: u8 where "GTP_DELETE_SESSION_REQUEST = 36"
definition GTP_DELETE_SESSION_RESPONSE :: u8 where "GTP_DELETE_SESSION_RESPONSE = 37"
definition GTP_CREATE_BEARER_REQUEST :: u8 where "GTP_CREATE_BEARER_REQUEST = 95"
definition GTP_UPDATE_BEARER_REQUEST :: u8 where "GTP_UPDATE_BEARER_REQUEST = 97"
definition GTP_DELETE_BEARER_REQUEST :: u8 where "GTP_DELETE_BEARER_REQUEST = 99"
definition GTP_RELEASE_ACCESS_BEARERS_REQUEST :: u8 where "GTP_RELEASE_ACCESS_BEARERS_REQUEST = 170"
definition GTP_RELEASE_ACCESS_BEARERS_RESPONSE :: u8 where "GTP_RELEASE_ACCESS_BEARERS_RESPONSE = 171"
definition GTP_DOWNLINK_DATA_NOTIFICATION :: u8 where "GTP_DOWNLINK_DATA_NOTIFICATION = 176"
definition GTP_DOWNLINK_DATA_NOTIFICATION_ACKNOWLEDGE :: u8 where
  "GTP_DOWNLINK_DATA_NOTIFICATION_ACKNOWLEDGE = 177"

lemmas gtp_type_defs = GTP_ECHO_REQUEST_def GTP_ECHO_RESPONSE_def
  GTP_VERSION_NOT_SUPPORTED_INDICATION_def GTP_CREATE_SESSION_REQUEST_def
  GTP_CREATE_SESSION_RESPONSE_def GTP_MODIFY_BEARER_REQUEST_def GTP_MODIFY_BEARER_RESPONSE_def
  GTP_DELETE_SESSION_REQUEST_def GTP_DELETE_SESSION_RESPONSE_def GTP_CREATE_BEARER_REQUEST_def
  GTP_UPDATE_BEARER_REQUEST_def GTP_DELETE_BEARER_REQUEST_def GTP_RELEASE_ACCESS_BEARERS_REQUEST_def
  GTP_RELEASE_ACCESS_BEARERS_RESPONSE_def GTP_DOWNLINK_DATA_NOTIFICATION_def
  GTP_DOWNLINK_DATA_NOTIFICATION_ACKNOWLEDGE_def

text \<open>
  The cases of \<^verbatim>\<open>check_initial_message_type\<close>, in the order of the source, by their values in
  \<^verbatim>\<open>common/3gpp_29.274.h\<close>.
\<close>

definition initial_types :: "u8 list" where
  "initial_types =
     [1, 32, 34, 36, 38, 40, 64, 66, 68, 95, 97, 99, 101, 103, 128, 130, 133, 135, 137, 139, 149,
      153, 155, 158, 160, 162, 164, 166, 168, 170, 176, 179, 200, 211, 231, 233, 235]"

definition check_initial_message_type :: "u8 \<Rightarrow> bool" where
  "check_initial_message_type initial \<longleftrightarrow> initial \<in> set initial_types"

definition check_triggered_message_type :: "u8 \<Rightarrow> u8 \<Rightarrow> bool" where
  "check_triggered_message_type initial triggered =
     (if initial \<in> set initial_types \<and> int (unat triggered) = int (unat initial) + 1 then True
      else if initial \<notin> set initial_types \<and> triggered = GTP_VERSION_NOT_SUPPORTED_INDICATION then True
      else triggered \<in> {GTP_CREATE_BEARER_REQUEST, GTP_UPDATE_BEARER_REQUEST, GTP_DELETE_BEARER_REQUEST})"

section \<open>State\<close>

record 'ie gtpv2c_procedure =
  retry_msg :: "'ie gtpv2c_msg option"
  remote_endpoint :: endpoint
  local_teid :: teid
  retry_timer_id :: timer_id
  proc_cleanup_timer_id :: timer_id
  gtpc_tx_id :: u64
  initial_msg_type :: u8
  triggered_msg_type :: u8
  retry_count :: u8

definition gtpv2c_procedure_default :: "'ie gtpv2c_procedure" where
  "gtpv2c_procedure_default =
     \<lparr>retry_msg = None, remote_endpoint = endpoint_default, local_teid = 0, retry_timer_id = 0,
      proc_cleanup_timer_id = 0, gtpc_tx_id = 0, initial_msg_type = 0, triggered_msg_type = 0,
      retry_count = 0\<rparr>"

datatype udp_socket = Udp_s | Udp_s_allocated

datatype 'ie gtp_output =
    Udp_send udp_socket endpoint "'ie gtpv2c_msg"
  | Ul_error endpoint teid u8 u64

record ('ie, 'p) gtpv2c_stack =
  t3_ms :: u32
  n3 :: u32
  stack_id :: u32
  seq_num :: u32
  restart_counter :: u32
  gtpc_tx_id2seq_num :: "u64 \<rightharpoonup> u32"
  proc_cleanup_timers :: "timer_id \<rightharpoonup> u32"
  msg_out_retry_timers :: "timer_id \<rightharpoonup> u32"
  pending_procedures :: "u32 \<rightharpoonup> 'ie gtpv2c_procedure"
  itti :: "'p itti_mw"
  tx_ids :: "u64 uint_generator"
  out :: "'ie gtp_output list"

text \<open>The constructor: the sequence numbers start from the nanoseconds of the clock.\<close>

definition gtpv2c_stack_new :: "u32 \<Rightarrow> u32 \<Rightarrow> u32 \<Rightarrow> 'p itti_mw \<Rightarrow> u64 uint_generator \<Rightarrow> ('ie, 'p) gtpv2c_stack" where
  "gtpv2c_stack_new t3 n tv_nsec itti0 ids =
     \<lparr>t3_ms = t3, n3 = n, stack_id = 0, seq_num = tv_nsec AND 0x7FFFFFFF, restart_counter = 0,
      gtpc_tx_id2seq_num = Map.empty, proc_cleanup_timers = Map.empty,
      msg_out_retry_timers = Map.empty, pending_procedures = Map.empty,
      itti = itti0, tx_ids = ids, out = []\<rparr>"

definition GTPV2C_PROC_TIME_OUT_MS :: "u32 \<Rightarrow> u32 \<Rightarrow> u32" where
  "GTPV2C_PROC_TIME_OUT_MS T N = T * (N + 1 + 1)"

definition emit :: "'ie gtp_output \<Rightarrow> ('ie, 'p) gtpv2c_stack \<Rightarrow> ('ie, 'p) gtpv2c_stack" where
  "emit x st = st\<lparr>out := out st @ [x]\<rparr>"

definition get_next_seq_num :: "('ie, 'p) gtpv2c_stack \<Rightarrow> u32 \<times> ('ie, 'p) gtpv2c_stack" where
  "get_next_seq_num st =
     (let s1 = seq_num st + 1;
          s2 = (if s1 AND 0x80000000 \<noteq> 0 then 0 else s1)
      in (s2, st\<lparr>seq_num := s2\<rparr>))"

section \<open>Timers of a procedure\<close>

definition setup_ms :: "time_point \<Rightarrow> u32 \<Rightarrow> task_id \<Rightarrow> ('ie, 'p) gtpv2c_stack \<Rightarrow> timer_id \<times> ('ie, 'p) gtpv2c_stack" where
  "setup_ms now ms task st =
     (case timer_setup now (ms div 1000) ((ms mod 1000) * 1000) task 0 0 (itti st) of
        (i, it) \<Rightarrow> (i, st\<lparr>itti := it\<rparr>))"

definition start_msg_retry_timer ::
  "time_point \<Rightarrow> 'ie gtpv2c_procedure \<Rightarrow> u32 \<Rightarrow> task_id \<Rightarrow> u32 \<Rightarrow> ('ie, 'p) gtpv2c_stack \<Rightarrow>
     'ie gtpv2c_procedure \<times> ('ie, 'p) gtpv2c_stack" where
  "start_msg_retry_timer now p ms task sn st =
     (case setup_ms now ms task st of (i, st1) \<Rightarrow>
        (p\<lparr>retry_timer_id := i\<rparr>,
         if i \<noteq> ITTI_INVALID_TIMER_ID
         then st1\<lparr>msg_out_retry_timers := map_insert (msg_out_retry_timers st1) i sn\<rparr>
         else st1))"

definition stop_msg_retry_timer ::
  "'ie gtpv2c_procedure \<Rightarrow> ('ie, 'p) gtpv2c_stack \<Rightarrow> 'ie gtpv2c_procedure \<times> ('ie, 'p) gtpv2c_stack" where
  "stop_msg_retry_timer p st =
     (if retry_timer_id p \<noteq> ITTI_INVALID_TIMER_ID
      then (p\<lparr>retry_timer_id := ITTI_INVALID_TIMER_ID\<rparr>,
            st\<lparr>itti := snd (timer_remove (retry_timer_id p) (itti st)),
               msg_out_retry_timers := map_erase (msg_out_retry_timers st) (retry_timer_id p)\<rparr>)
      else (p, st))"

definition stop_msg_retry_timer_id :: "timer_id \<Rightarrow> ('ie, 'p) gtpv2c_stack \<Rightarrow> ('ie, 'p) gtpv2c_stack" where
  "stop_msg_retry_timer_id t st =
     st\<lparr>itti := snd (timer_remove t (itti st)),
        msg_out_retry_timers := map_erase (msg_out_retry_timers st) t\<rparr>"

definition start_proc_cleanup_timer ::
  "time_point \<Rightarrow> 'ie gtpv2c_procedure \<Rightarrow> u32 \<Rightarrow> task_id \<Rightarrow> u32 \<Rightarrow> ('ie, 'p) gtpv2c_stack \<Rightarrow>
     'ie gtpv2c_procedure \<times> ('ie, 'p) gtpv2c_stack" where
  "start_proc_cleanup_timer now p ms task sn st =
     (if proc_cleanup_timer_id p = ITTI_INVALID_TIMER_ID
      then (case setup_ms now ms task st of (i, st1) \<Rightarrow>
              (p\<lparr>proc_cleanup_timer_id := i\<rparr>,
               st1\<lparr>proc_cleanup_timers := map_insert (proc_cleanup_timers st1) i sn\<rparr>))
      else (p, st))"

text \<open>The entry is erased from the table of the retransmission timers, as the code has it.\<close>

definition stop_proc_cleanup_timer ::
  "'ie gtpv2c_procedure \<Rightarrow> ('ie, 'p) gtpv2c_stack \<Rightarrow> 'ie gtpv2c_procedure \<times> ('ie, 'p) gtpv2c_stack" where
  "stop_proc_cleanup_timer p st =
     (p\<lparr>proc_cleanup_timer_id := ITTI_INVALID_TIMER_ID\<rparr>,
      st\<lparr>itti := snd (timer_remove (proc_cleanup_timer_id p) (itti st)),
         msg_out_retry_timers := map_erase (msg_out_retry_timers st) (proc_cleanup_timer_id p)\<rparr>)"

definition generate_gtpc_tx_id :: "('ie, 'p) gtpv2c_stack \<Rightarrow> (u64 \<times> ('ie, 'p) gtpv2c_stack) outcome" where
  "generate_gtpc_tx_id st =
     (case uint_uid_get_uid (tx_ids st) of
        None \<Rightarrow> Inl Endless_loop
      | Some (i, g) \<Rightarrow> Inr (i, st\<lparr>tx_ids := g\<rparr>))"

definition free_gtpc_tx_id :: "u64 \<Rightarrow> ('ie, 'p) gtpv2c_stack \<Rightarrow> ('ie, 'p) gtpv2c_stack" where
  "free_gtpc_tx_id i st = st\<lparr>tx_ids := uint_uid_free_uid i (tx_ids st)\<rparr>"

section \<open>Receiving\<close>

text \<open>The result: the error flag, the transaction identifier, the new state.\<close>

definition handle_receive_message_cb ::
  "time_point \<Rightarrow> 'ie gtpv2c_msg \<Rightarrow> task_id \<Rightarrow> ('ie, 'p) gtpv2c_stack \<Rightarrow>
     (bool \<times> u64 \<times> ('ie, 'p) gtpv2c_stack) outcome" where
  "handle_receive_message_cb now msg task st =
     (let sn = sequence_number msg in
      case pending_procedures st sn of
        None \<Rightarrow>
          if check_initial_message_type (message_type msg) then
            (case generate_gtpc_tx_id st of
               Inl e \<Rightarrow> Inl e
             | Inr (tx, st1) \<Rightarrow>
                 let proc = gtpv2c_procedure_default\<lparr>gtpc_tx_id := tx, initial_msg_type := message_type msg\<rparr>;
                     (proc, st2) = start_proc_cleanup_timer now proc (GTPV2C_PROC_TIME_OUT_MS (t3_ms st) (n3 st)) task sn st1
                 in Inr (False, tx,
                      st2\<lparr>pending_procedures := map_insert (pending_procedures st2) sn proc,
                          gtpc_tx_id2seq_num := map_insert (gtpc_tx_id2seq_num st2) tx sn\<rparr>))
          else Inr (True, 0, st)
      | Some proc \<Rightarrow>
          let req = (if triggered_msg_type proc = 0 then initial_msg_type proc else triggered_msg_type proc) in
          if check_triggered_message_type req (message_type msg) then
            (let tx = gtpc_tx_id proc;
                 proc = (if triggered_msg_type proc = 0 then proc\<lparr>triggered_msg_type := message_type msg\<rparr> else proc);
                 (proc, st1) = (if retry_timer_id proc \<noteq> 0 then stop_msg_retry_timer proc st else (proc, st));
                 (proc, st2) = stop_proc_cleanup_timer proc st1;
                 st3 = free_gtpc_tx_id tx (st2\<lparr>gtpc_tx_id2seq_num := map_erase (gtpc_tx_id2seq_num st2) tx\<rparr>)
             in Inr (False, tx, st3\<lparr>pending_procedures := map_erase (pending_procedures st3) sn\<rparr>))
          else Inr (True, 0, st))"

section \<open>Sending\<close>

text \<open>
  \<^verbatim>\<open>gtpv2c_msg(gtp_ies)\<close>: a default header with the type of the message, and the information
  elements added one by one; \<open>len\<close> is the length field of an element.
\<close>

definition msg_of_ies :: "('ie \<Rightarrow> u16) \<Rightarrow> u8 \<Rightarrow> 'ie list \<Rightarrow> 'ie gtpv2c_msg" where
  "msg_of_ies len t xs = foldl (\<lambda>m ie. add_ie len ie m) (gtpv2c_msg_default\<lparr>message_type := t\<rparr>) xs"

text \<open>
  \<^verbatim>\<open>msg.dump_to(oss)\<close> before the message is copied into the procedure: what \<^verbatim>\<open>dump_to\<close> does to the header.
\<close>

definition dumped :: "'ie gtpv2c_msg \<Rightarrow> 'ie gtpv2c_msg" where
  "dumped m = snd (header_dump_to m)"

definition start_procedure ::
  "time_point \<Rightarrow> endpoint \<Rightarrow> teid \<Rightarrow> 'ie gtpv2c_msg \<Rightarrow> task_id \<Rightarrow> u64 \<Rightarrow> ('ie, 'p) gtpv2c_stack \<Rightarrow>
     u32 \<times> ('ie, 'p) gtpv2c_stack" where
  "start_procedure now dest l_teid msg task tx st =
     (let sn = sequence_number msg;
          proc = gtpv2c_procedure_default\<lparr>initial_msg_type := message_type msg, gtpc_tx_id := tx,
                   local_teid := l_teid, retry_msg := Some (dumped msg), remote_endpoint := dest\<rparr>;
          (proc, st1) = start_msg_retry_timer now proc (t3_ms st) task sn st;
          (proc, st2) = start_proc_cleanup_timer now proc (GTPV2C_PROC_TIME_OUT_MS (t3_ms st) (n3 st)) task sn st1;
          st3 = st2\<lparr>pending_procedures := map_insert (pending_procedures st2) sn proc,
                    gtpc_tx_id2seq_num := map_insert (gtpc_tx_id2seq_num st2) tx sn\<rparr>
      in (sn, emit (Udp_send Udp_s_allocated dest msg) st3))"

definition send_initial_echo_request ::
  "('ie \<Rightarrow> u16) \<Rightarrow> time_point \<Rightarrow> endpoint \<Rightarrow> 'ie list \<Rightarrow> task_id \<Rightarrow> u64 \<Rightarrow> ('ie, 'p) gtpv2c_stack \<Rightarrow>
     u32 \<times> ('ie, 'p) gtpv2c_stack" where
  "send_initial_echo_request len now dest xs task tx st =
     (case get_next_seq_num st of (s, st1) \<Rightarrow>
        start_procedure now dest 0 (set_sequence_number s (msg_of_ies len GTP_ECHO_REQUEST xs)) task tx st1)"

definition send_initial_teid ::
  "u8 \<Rightarrow> ('ie \<Rightarrow> u16) \<Rightarrow> time_point \<Rightarrow> endpoint \<Rightarrow> teid \<Rightarrow> teid \<Rightarrow> 'ie list \<Rightarrow> task_id \<Rightarrow> u64 \<Rightarrow>
     ('ie, 'p) gtpv2c_stack \<Rightarrow> u32 \<times> ('ie, 'p) gtpv2c_stack" where
  "send_initial_teid t len now dest r_teid l_teid xs task tx st =
     (case get_next_seq_num st of (s, st1) \<Rightarrow>
        start_procedure now dest l_teid
          (set_sequence_number s (set_teid r_teid (msg_of_ies len t xs))) task tx st1)"

text \<open>The overloads for the tunnel management messages have the same text but for the message type.\<close>

definition send_initial_create_session_request where
  "send_initial_create_session_request = send_initial_teid GTP_CREATE_SESSION_REQUEST"

definition send_initial_delete_session_request where
  "send_initial_delete_session_request = send_initial_teid GTP_DELETE_SESSION_REQUEST"

definition send_initial_modify_bearer_request where
  "send_initial_modify_bearer_request = send_initial_teid GTP_MODIFY_BEARER_REQUEST"

definition send_initial_release_access_bearers_request where
  "send_initial_release_access_bearers_request = send_initial_teid GTP_RELEASE_ACCESS_BEARERS_REQUEST"

definition send_initial_downlink_data_notification where
  "send_initial_downlink_data_notification = send_initial_teid GTP_DOWNLINK_DATA_NOTIFICATION"

datatype gtpv2c_transaction_action = DELETE_TX | CONTINUE_TX

definition end_transaction :: "u64 \<Rightarrow> u32 \<Rightarrow> ('ie, 'p) gtpv2c_stack \<Rightarrow> ('ie, 'p) gtpv2c_stack" where
  "end_transaction tx sn st =
     (let st1 = (case pending_procedures st sn of
                   None \<Rightarrow> st
                 | Some proc \<Rightarrow>
                     let st2 = free_gtpc_tx_id tx (snd (stop_proc_cleanup_timer proc st))
                     in st2\<lparr>pending_procedures := map_erase (pending_procedures st2) sn\<rparr>)
      in st1\<lparr>gtpc_tx_id2seq_num := map_erase (gtpc_tx_id2seq_num st1) tx\<rparr>)"

definition send_triggered ::
  "endpoint \<Rightarrow> 'ie gtpv2c_msg \<Rightarrow> u64 \<Rightarrow> gtpv2c_transaction_action \<Rightarrow> ('ie, 'p) gtpv2c_stack \<Rightarrow>
     ('ie, 'p) gtpv2c_stack" where
  "send_triggered dest msg tx a st =
     (case gtpc_tx_id2seq_num st tx of
        None \<Rightarrow> st
      | Some sn \<Rightarrow>
          let st1 = emit (Udp_send Udp_s dest (set_sequence_number sn msg)) st
          in if a = DELETE_TX then end_transaction tx sn st1 else st1)"

definition send_triggered_echo_response where
  "send_triggered_echo_response len dest xs tx a st =
     send_triggered dest (msg_of_ies len GTP_ECHO_RESPONSE xs) tx a st"

definition send_triggered_create_session_response where
  "send_triggered_create_session_response len dest r_teid xs tx a st =
     send_triggered dest (set_teid r_teid (msg_of_ies len GTP_CREATE_SESSION_RESPONSE xs)) tx a st"

definition send_triggered_delete_session_response where
  "send_triggered_delete_session_response len dest r_teid xs tx a st =
     send_triggered dest (set_teid r_teid (msg_of_ies len GTP_DELETE_SESSION_RESPONSE xs)) tx a st"

definition send_triggered_modify_bearer_response where
  "send_triggered_modify_bearer_response len dest r_teid xs tx a st =
     send_triggered dest (set_teid r_teid (msg_of_ies len GTP_MODIFY_BEARER_RESPONSE xs)) tx a st"

definition send_triggered_release_access_bearers_response where
  "send_triggered_release_access_bearers_response len dest r_teid xs tx a st =
     send_triggered dest (set_teid r_teid (msg_of_ies len GTP_RELEASE_ACCESS_BEARERS_RESPONSE xs)) tx a st"

definition send_triggered_downlink_data_notification_acknowledge where
  "send_triggered_downlink_data_notification_acknowledge len dest r_teid xs tx a st =
     send_triggered dest (set_teid r_teid (msg_of_ies len GTP_DOWNLINK_DATA_NOTIFICATION_ACKNOWLEDGE xs)) tx a st"

section \<open>Time-outs\<close>

text \<open>
  \<^verbatim>\<open>retry_count\<close> has 8 bits and \<^verbatim>\<open>n3\<close> has 32. The branch of the clean-up timer reads the procedure
  before it tests whether there is one.
\<close>

definition time_out_event ::
  "time_point \<Rightarrow> timer_id \<Rightarrow> task_id \<Rightarrow> ('ie, 'p) gtpv2c_stack \<Rightarrow> (bool \<times> ('ie, 'p) gtpv2c_stack) outcome" where
  "time_out_event now t task st =
     (case msg_out_retry_timers st t of
        Some sn \<Rightarrow>
          (let st1 = st\<lparr>msg_out_retry_timers := map_erase (msg_out_retry_timers st) t\<rparr> in
           case pending_procedures st sn of
             None \<Rightarrow> Inr (True, st1)
           | Some proc \<Rightarrow>
               if unat (retry_count proc) < unat (n3 st) then
                 (case retry_msg proc of
                    None \<Rightarrow> Inl Deref_null
                  | Some msg \<Rightarrow>
                      let proc = proc\<lparr>retry_count := retry_count proc + 1, retry_timer_id := 0\<rparr>;
                          (proc, st2) = start_msg_retry_timer now proc (t3_ms st) task (sequence_number msg) st1;
                          proc = proc\<lparr>retry_msg := Some (dumped msg)\<rparr>
                      in Inr (True, emit (Udp_send Udp_s (remote_endpoint proc) msg)
                           (st2\<lparr>pending_procedures := (pending_procedures st2)(sn \<mapsto> proc)\<rparr>)))
               else
                 (let st2 = emit (Ul_error (remote_endpoint proc) (local_teid proc)
                              REMOTE_PEER_NOT_RESPONDING (gtpc_tx_id proc)) st1
                  in Inr (True, st2\<lparr>pending_procedures := map_erase (pending_procedures st2) sn\<rparr>)))
      | None \<Rightarrow>
          (case proc_cleanup_timers st t of
             None \<Rightarrow> Inr (False, st)
           | Some sn \<Rightarrow>
               (case pending_procedures st sn of
                  None \<Rightarrow> Inl Deref_end
                | Some proc \<Rightarrow>
                    let st1 = free_gtpc_tx_id (gtpc_tx_id proc)
                          (st\<lparr>gtpc_tx_id2seq_num := map_erase (gtpc_tx_id2seq_num st) (gtpc_tx_id proc)\<rparr>);
                        st2 = st1\<lparr>proc_cleanup_timers := map_erase (proc_cleanup_timers st1) t\<rparr>
                    in Inr (True, st2\<lparr>pending_procedures := map_erase (pending_procedures st2) sn\<rparr>))))"

section \<open>What the operations leave alone\<close>

lemma setup_ms_proj [proj_simps]:
  "setup_ms now ms task st = (i, st') \<Longrightarrow> \<exists>it. st' = st\<lparr>itti := it\<rparr>"
  by (auto simp: setup_ms_def split: prod.splits)

lemma start_msg_retry_timer_proj:
  assumes "start_msg_retry_timer now p ms task sn st = (p', st')"
  shows "\<exists>i it m. p' = p\<lparr>retry_timer_id := i\<rparr> \<and> st' = st\<lparr>itti := it, msg_out_retry_timers := m\<rparr>"
proof -
  obtain i st1 where s: "setup_ms now ms task st = (i, st1)" by fastforce
  then obtain it where "st1 = st\<lparr>itti := it\<rparr>" using setup_ms_proj by blast
  then show ?thesis using assms s
    by (intro exI [of _ i] exI [of _ it] exI [of _ "msg_out_retry_timers st'"])
      (auto simp: start_msg_retry_timer_def split: if_splits)
qed

lemma start_proc_cleanup_timer_proj:
  assumes "start_proc_cleanup_timer now p ms task sn st = (p', st')"
  shows "\<exists>i it m. p' = p\<lparr>proc_cleanup_timer_id := i\<rparr> \<and> st' = st\<lparr>itti := it, proc_cleanup_timers := m\<rparr>"
proof -
  obtain i st1 where s: "setup_ms now ms task st = (i, st1)" by fastforce
  then obtain it where "st1 = st\<lparr>itti := it\<rparr>" using setup_ms_proj by blast
  then show ?thesis using assms s
    by (intro exI [of _ "proc_cleanup_timer_id p'"] exI [of _ "itti st'"] exI [of _ "proc_cleanup_timers st'"])
      (auto simp: start_proc_cleanup_timer_def split: if_splits)
qed

lemma dumped_simps [simp]:
  "sequence_number (dumped m) = sequence_number m" "message_type (dumped m) = message_type m"
  "ies (dumped m) = ies m" "message_length (dumped m) = message_length m"
  by (simp_all add: dumped_def header_dump_to_def Let_def)

lemma set_sequence_number_simps [simp]:
  "sequence_number (set_sequence_number sn m) = sn AND 0xFFFFFF"
  "message_type (set_sequence_number sn m) = message_type m"
  by (simp_all add: set_sequence_number_def)

lemma set_teid_type [simp]: "message_type (set_teid t m) = message_type m"
  by (simp add: set_teid_def Let_def)

lemma msg_of_ies_type [simp]: "message_type (msg_of_ies len t xs) = t"
proof -
  have "message_type (foldl (\<lambda>m ie. add_ie len ie m) m xs) = message_type m" for m
    by (induction xs arbitrary: m) (simp_all add: add_ie_def)
  then show ?thesis by (simp add: msg_of_ies_def)
qed

section \<open>Sequence numbers\<close>

text \<open>
  C15: the sequence numbers of the requests the stack sends. The counter stays below $2^{31}$, and the
  24 bits that go into the message are those of the previous request plus one modulo $2^{24}$, so
  $2^{24}$ requests in a row have different sequence numbers on the wire.
\<close>

theorem next_seq_consecutive:
  assumes "unat (seq_num st) < 2 ^ 31"
  shows "unat (seq_num (snd (get_next_seq_num st))) < 2 ^ 31
    \<and> fst (get_next_seq_num st) = seq_num (snd (get_next_seq_num st))
    \<and> unat (sequence_number (set_sequence_number (fst (get_next_seq_num st)) msg))
        = (unat (seq_num st AND 0xFFFFFF) + 1) mod 2 ^ 24"
proof -
  let ?s = "if (seq_num st + 1) AND 0x80000000 \<noteq> 0 then 0 else seq_num st + 1"
  have s: "unat ?s = (unat (seq_num st) + 1) mod 2 ^ 31" using next_seq_unat [OF assms] .
  have m: "unat (w AND 0xFFFFFF) = unat w mod 2 ^ 24" for w :: u32
    by (simp only: and_masks unsigned_take_bit_eq) (simp add: take_bit_eq_mod)
  have "unat (?s AND 0xFFFFFF) = (unat (seq_num st) + 1) mod 2 ^ 24"
    unfolding m s by (simp add: mod_mod_cancel)
  also have "\<dots> = (unat (seq_num st AND 0xFFFFFF) + 1) mod 2 ^ 24" unfolding m by (simp add: mod_Suc_eq)
  finally show ?thesis using s by (simp add: get_next_seq_num_def Let_def)
qed

definition demo_stack :: "(unit, unit) gtpv2c_stack" where
  "demo_stack = gtpv2c_stack_new 1000 3 0x7FFFFFFF (itti_mw_init 0) uint_uid_generator_init"

theorem next_seq_consecutive_witness:
  "unat (seq_num demo_stack) = 2 ^ 31 - 1 \<and> unat (seq_num (snd (get_next_seq_num demo_stack))) < 2 ^ 31"
  using next_seq_consecutive [of demo_stack] by (simp add: demo_stack_def gtpv2c_stack_new_def)

section \<open>Transactions\<close>

text \<open>
  The invariant of the transaction tables: a pending procedure is found under its transaction
  identifier, and every identifier in the table is one the generator holds as used.
\<close>

definition tx_inv :: "('ie, 'p) gtpv2c_stack \<Rightarrow> bool" where
  "tx_inv st \<longleftrightarrow>
     (\<forall>sn p. pending_procedures st sn = Some p \<longrightarrow> gtpc_tx_id2seq_num st (gtpc_tx_id p) = Some sn)
     \<and> dom (gtpc_tx_id2seq_num st) \<subseteq> uid_generated (tx_ids st)"

lemma tx_inv_cong:
  "pending_procedures st' = pending_procedures st \<Longrightarrow> gtpc_tx_id2seq_num st' = gtpc_tx_id2seq_num st \<Longrightarrow>
     tx_ids st' = tx_ids st \<Longrightarrow> tx_inv st' = tx_inv st"
  by (simp add: tx_inv_def)

lemma generate_tx:
  assumes "generate_gtpc_tx_id st = Inr (tx, st')" and "tx_inv st"
  shows "gtpc_tx_id2seq_num st tx = None" and "tx \<in> uid_generated (tx_ids st')"
    and "uid_generated (tx_ids st) \<subseteq> uid_generated (tx_ids st')" and "\<exists>g. st' = st\<lparr>tx_ids := g\<rparr>"
proof -
  obtain g where g: "uint_uid_get_uid (tx_ids st) = Some (tx, g)" "st' = st\<lparr>tx_ids := g\<rparr>"
    using assms(1) by (auto simp: generate_gtpc_tx_id_def split: option.splits prod.splits)
  have "tx \<notin> dom (gtpc_tx_id2seq_num st)" using uug.get_fresh [OF g(1)] assms(2) by (auto simp: tx_inv_def)
  then show "gtpc_tx_id2seq_num st tx = None" by (simp add: domIff)
  show "tx \<in> uid_generated (tx_ids st')" "uid_generated (tx_ids st) \<subseteq> uid_generated (tx_ids st')"
    using uug.get_used [OF g(1)] g(2) by auto
  show "\<exists>g. st' = st\<lparr>tx_ids := g\<rparr>" using g(2) by blast
qed

text \<open>A new procedure under a fresh identifier, with its sequence number free or already in use.\<close>

lemma tx_inv_insert:
  assumes inv: "tx_inv st" and fresh: "gtpc_tx_id2seq_num st tx = None" and tx: "gtpc_tx_id p = tx"
    and st': "pending_procedures st' = map_insert (pending_procedures st) sn p"
      "gtpc_tx_id2seq_num st' = map_insert (gtpc_tx_id2seq_num st) tx sn"
    and ids: "tx \<in> uid_generated (tx_ids st')" "uid_generated (tx_ids st) \<subseteq> uid_generated (tx_ids st')"
  shows "tx_inv st'"
proof -
  have "gtpc_tx_id2seq_num st' (gtpc_tx_id q) = Some n" if "pending_procedures st' n = Some q" for n q
  proof (cases "n = sn \<and> pending_procedures st sn = None")
    case True
    with that st' tx fresh show ?thesis by (simp add: map_insert_apply)
  next
    case False
    then have "pending_procedures st n = Some q" using that st' by (auto simp: map_insert_apply)
    with inv have "gtpc_tx_id2seq_num st (gtpc_tx_id q) = Some n" by (simp add: tx_inv_def)
    with fresh st' show ?thesis by (auto simp: map_insert_apply)
  qed
  moreover have "dom (gtpc_tx_id2seq_num st') \<subseteq> uid_generated (tx_ids st')"
    using inv ids st' by (auto simp: tx_inv_def)
  ultimately show ?thesis by (simp add: tx_inv_def)
qed

text \<open>Forgetting a transaction: the identifier is erased, and freed or not; procedures only go.\<close>

lemma tx_inv_forget:
  assumes inv: "tx_inv st" and pend: "pending_procedures st' = map_erase (pending_procedures st) sn"
    and tbl: "gtpc_tx_id2seq_num st' = map_erase (gtpc_tx_id2seq_num st) tx"
    and sn: "gtpc_tx_id2seq_num st tx = Some sn \<or> gtpc_tx_id2seq_num st tx = None"
    and ids: "uid_generated (tx_ids st) - {tx} \<subseteq> uid_generated (tx_ids st')"
  shows "tx_inv st'"
proof -
  have "gtpc_tx_id2seq_num st' (gtpc_tx_id q) = Some n" if q: "pending_procedures st' n = Some q" for n q
  proof -
    from q pend have n: "n \<noteq> sn" "pending_procedures st n = Some q" by (auto split: if_splits)
    with inv have "gtpc_tx_id2seq_num st (gtpc_tx_id q) = Some n" by (simp add: tx_inv_def)
    with n sn tbl show ?thesis by auto
  qed
  moreover have "dom (gtpc_tx_id2seq_num st') \<subseteq> uid_generated (tx_ids st')"
    using inv ids tbl by (auto simp: tx_inv_def)
  ultimately show ?thesis by (simp add: tx_inv_def)
qed

lemma stop_msg_retry_timer_proj:
  "stop_msg_retry_timer p st = (p', st') \<Longrightarrow>
     \<exists>i it m. p' = p\<lparr>retry_timer_id := i\<rparr> \<and> st' = st\<lparr>itti := it, msg_out_retry_timers := m\<rparr>"
  by (auto simp: stop_msg_retry_timer_def split: if_splits intro!: exI [of _ "retry_timer_id p'"]
      exI [of _ "itti st'"] exI [of _ "msg_out_retry_timers st'"])

lemma stop_proc_cleanup_timer_proj:
  "stop_proc_cleanup_timer p st = (p', st') \<Longrightarrow>
     p' = p\<lparr>proc_cleanup_timer_id := ITTI_INVALID_TIMER_ID\<rparr> \<and>
     (\<exists>it m. st' = st\<lparr>itti := it, msg_out_retry_timers := m\<rparr>)"
  by (auto simp: stop_proc_cleanup_timer_def)

text \<open>The three outcomes of a received message.\<close>

lemma receive_new:
  assumes "pending_procedures st (sequence_number msg) = None"
    and "check_initial_message_type (message_type msg)"
    and "handle_receive_message_cb now msg task st = Inr (e, tx, st')"
  shows "\<not> e \<and> (\<exists>st1 p it c. generate_gtpc_tx_id st = Inr (tx, st1)
    \<and> gtpc_tx_id p = tx \<and> initial_msg_type p = message_type msg \<and> triggered_msg_type p = 0
    \<and> retry_msg p = None \<and> retry_timer_id p = 0
    \<and> st' = st1\<lparr>itti := it, proc_cleanup_timers := c,
         pending_procedures := (pending_procedures st)(sequence_number msg \<mapsto> p),
         gtpc_tx_id2seq_num := map_insert (gtpc_tx_id2seq_num st) tx (sequence_number msg)\<rparr>)"
proof -
  let ?sn = "sequence_number msg"
  obtain tx1 st1 where g: "generate_gtpc_tx_id st = Inr (tx1, st1)"
    using assms by (cases "generate_gtpc_tx_id st") (auto simp: handle_receive_message_cb_def Let_def)
  let ?p0 = "gtpv2c_procedure_default\<lparr>gtpc_tx_id := tx1, initial_msg_type := message_type msg\<rparr> :: 'a gtpv2c_procedure"
  obtain p st2 where c: "start_proc_cleanup_timer now ?p0 (GTPV2C_PROC_TIME_OUT_MS (t3_ms st) (n3 st)) task ?sn st1
      = (p, st2)" by fastforce
  obtain i it m where p: "p = ?p0\<lparr>proc_cleanup_timer_id := i\<rparr>"
    and st2: "st2 = st1\<lparr>itti := it, proc_cleanup_timers := m\<rparr>"
    using start_proc_cleanup_timer_proj [OF c] by blast
  have st1: "pending_procedures st1 = pending_procedures st" "gtpc_tx_id2seq_num st1 = gtpc_tx_id2seq_num st"
    using g by (auto simp: generate_gtpc_tx_id_def split: option.splits prod.splits)
  have "\<not> e" "tx = tx1" "st' = st2\<lparr>pending_procedures := map_insert (pending_procedures st2) ?sn p,
      gtpc_tx_id2seq_num := map_insert (gtpc_tx_id2seq_num st2) tx1 ?sn\<rparr>"
    using assms g c by (auto simp: handle_receive_message_cb_def Let_def)
  with g p st2 st1 assms(1) show ?thesis
    by (auto simp: gtpv2c_procedure_default_def map_insert_fresh intro!: exI [of _ p])
qed

lemma receive_matched:
  assumes "pending_procedures st (sequence_number msg) = Some p"
    and "check_triggered_message_type
      (if triggered_msg_type p = 0 then initial_msg_type p else triggered_msg_type p) (message_type msg)"
  shows "\<exists>it. handle_receive_message_cb now msg task st = Inr (False, gtpc_tx_id p,
    st\<lparr>itti := it, msg_out_retry_timers := map_erase (if retry_timer_id p \<noteq> 0
         then map_erase (msg_out_retry_timers st) (retry_timer_id p) else msg_out_retry_timers st) (proc_cleanup_timer_id p),
       gtpc_tx_id2seq_num := map_erase (gtpc_tx_id2seq_num st) (gtpc_tx_id p),
       tx_ids := uint_uid_free_uid (gtpc_tx_id p) (tx_ids st),
       pending_procedures := map_erase (pending_procedures st) (sequence_number msg)\<rparr>)"
  using assms
  by (auto simp: handle_receive_message_cb_def Let_def stop_msg_retry_timer_def
      stop_proc_cleanup_timer_def free_gtpc_tx_id_def ITTI_INVALID_TIMER_ID_def)

lemma receive_discarded:
  assumes "case pending_procedures st (sequence_number msg) of
      None \<Rightarrow> \<not> check_initial_message_type (message_type msg)
    | Some p \<Rightarrow> \<not> check_triggered_message_type
        (if triggered_msg_type p = 0 then initial_msg_type p else triggered_msg_type p) (message_type msg)"
  shows "handle_receive_message_cb now msg task st = Inr (True, 0, st)"
  using assms by (auto simp: handle_receive_message_cb_def Let_def split: option.splits)

lemma start_procedure_spec:
  assumes "start_procedure now dest l_teid msg task tx st = (sn, st')"
  shows "sn = sequence_number msg \<and> (\<exists>p it c m. gtpc_tx_id p = tx \<and> initial_msg_type p = message_type msg
    \<and> triggered_msg_type p = 0 \<and> retry_msg p = Some (dumped msg) \<and> retry_count p = 0
    \<and> remote_endpoint p = dest \<and> local_teid p = l_teid
    \<and> st' = st\<lparr>msg_out_retry_timers := m, itti := it, proc_cleanup_timers := c,
         pending_procedures := map_insert (pending_procedures st) sn p,
         gtpc_tx_id2seq_num := map_insert (gtpc_tx_id2seq_num st) tx sn,
         out := out st @ [Udp_send Udp_s_allocated dest msg]\<rparr>)"
proof -
  let ?sn = "sequence_number msg"
  let ?p0 = "gtpv2c_procedure_default\<lparr>initial_msg_type := message_type msg, gtpc_tx_id := tx,
                   local_teid := l_teid, retry_msg := Some (dumped msg), remote_endpoint := dest\<rparr>"
  obtain p1 st1 where r: "start_msg_retry_timer now ?p0 (t3_ms st) task ?sn st = (p1, st1)" by fastforce
  obtain i it m where p1: "p1 = ?p0\<lparr>retry_timer_id := i\<rparr>" "st1 = st\<lparr>itti := it, msg_out_retry_timers := m\<rparr>"
    using start_msg_retry_timer_proj [OF r] by blast
  obtain p2 st2 where c: "start_proc_cleanup_timer now p1 (GTPV2C_PROC_TIME_OUT_MS (t3_ms st) (n3 st)) task ?sn st1
      = (p2, st2)" by fastforce
  obtain j it2 m2 where p2: "p2 = p1\<lparr>proc_cleanup_timer_id := j\<rparr>"
    "st2 = st1\<lparr>itti := it2, proc_cleanup_timers := m2\<rparr>"
    using start_proc_cleanup_timer_proj [OF c] by blast
  have "sn = ?sn" "st' = emit (Udp_send Udp_s_allocated dest msg)
      (st2\<lparr>pending_procedures := map_insert (pending_procedures st2) ?sn p2,
           gtpc_tx_id2seq_num := map_insert (gtpc_tx_id2seq_num st2) tx ?sn\<rparr>)"
    using assms r c by (auto simp: start_procedure_def Let_def)
  with p1 p2 show ?thesis
    by (auto simp: emit_def gtpv2c_procedure_default_def intro!: exI [of _ p2])
qed

lemma end_transaction_spec:
  assumes "gtpc_tx_id2seq_num st tx = Some sn"
  shows "\<exists>it m ids. end_transaction tx sn st = st\<lparr>itti := it, msg_out_retry_timers := m, tx_ids := ids,
      pending_procedures := map_erase (pending_procedures st) sn,
      gtpc_tx_id2seq_num := map_erase (gtpc_tx_id2seq_num st) tx\<rparr>
    \<and> uid_generated (tx_ids st) - {tx} \<subseteq> uid_generated ids"
proof (cases "pending_procedures st sn")
  case None
  then have "map_erase (pending_procedures st) sn = pending_procedures st" by (auto simp: fun_eq_iff)
  with None show ?thesis
    by (intro exI [of _ "itti st"] exI [of _ "msg_out_retry_timers st"] exI [of _ "tx_ids st"])
      (auto simp: end_transaction_def)
next
  case (Some p)
  obtain p' st' where s: "stop_proc_cleanup_timer p st = (p', st')" by fastforce
  then obtain it m where st': "st' = st\<lparr>itti := it, msg_out_retry_timers := m\<rparr>"
    using stop_proc_cleanup_timer_proj by blast
  have "uid_generated (uint_uid_free_uid tx (tx_ids st)) = uid_generated (tx_ids st) - {tx}"
    by (rule uug.free_used)
  with Some s st' show ?thesis
    by (intro exI [of _ it] exI [of _ m] exI [of _ "uint_uid_free_uid tx (tx_ids st)"])
      (simp add: end_transaction_def free_gtpc_tx_id_def Let_def)
qed

section \<open>Reachable states\<close>

text \<open>
  The steps of a stack: a message is received, the upper layer takes or gives back a transaction
  identifier, it sends a request under an identifier it holds and does not use yet, it sends a
  response, a timer fires. The handlers run one after the other in the task of the stack.
\<close>

inductive gtp_step :: "('ie, 'p) gtpv2c_stack \<Rightarrow> ('ie, 'p) gtpv2c_stack \<Rightarrow> bool" where
  gtp_receive: "handle_receive_message_cb now msg task st = Inr (e, tx, st') \<Longrightarrow> gtp_step st st'"
| gtp_take_tx: "generate_gtpc_tx_id st = Inr (tx, st') \<Longrightarrow> gtp_step st st'"
| gtp_give_tx: "gtpc_tx_id2seq_num st tx = None \<Longrightarrow> gtp_step st (free_gtpc_tx_id tx st)"
| gtp_send_echo: "send_initial_echo_request len now dest xs task tx st = (sn, st') \<Longrightarrow>
    tx \<in> uid_generated (tx_ids st) \<Longrightarrow> gtpc_tx_id2seq_num st tx = None \<Longrightarrow> gtp_step st st'"
| gtp_send_initial: "send_initial_teid t len now dest r_teid l_teid xs task tx st = (sn, st') \<Longrightarrow>
    tx \<in> uid_generated (tx_ids st) \<Longrightarrow> gtpc_tx_id2seq_num st tx = None \<Longrightarrow> gtp_step st st'"
| gtp_send_triggered: "gtp_step st (send_triggered dest msg tx a st)"
| gtp_time_out: "time_out_event now i task st = Inr (h, st') \<Longrightarrow> gtp_step st st'"

lemma tx_inv_send:
  assumes inv: "tx_inv st" and "start_procedure now dest l_teid msg task tx (st\<lparr>seq_num := q\<rparr>) = (sn, st')"
    and "tx \<in> uid_generated (tx_ids st)" "gtpc_tx_id2seq_num st tx = None"
  shows "tx_inv st'"
proof -
  obtain p where "gtpc_tx_id p = tx" "pending_procedures st' = map_insert (pending_procedures st) sn p"
    "gtpc_tx_id2seq_num st' = map_insert (gtpc_tx_id2seq_num st) tx sn" "tx_ids st' = tx_ids st"
    using start_procedure_spec [OF assms(2)] by auto
  with tx_inv_insert [OF inv assms(4), of p st' sn] assms(3) show ?thesis by simp
qed

lemma tx_inv_receive:
  assumes inv: "tx_inv st" and r: "handle_receive_message_cb now msg task st = Inr (e, tx, st')"
  shows "tx_inv st'"
proof (cases "pending_procedures st (sequence_number msg)")
  case None
  show ?thesis
  proof (cases "check_initial_message_type (message_type msg)")
    case True
    obtain st1 p it c where g: "generate_gtpc_tx_id st = Inr (tx, st1)" and p: "gtpc_tx_id p = tx"
      and st': "st' = st1\<lparr>itti := it, proc_cleanup_timers := c,
         pending_procedures := (pending_procedures st)(sequence_number msg \<mapsto> p),
         gtpc_tx_id2seq_num := map_insert (gtpc_tx_id2seq_num st) tx (sequence_number msg)\<rparr>"
      using receive_new [OF None True r] by blast
    show ?thesis
      using tx_inv_insert [OF inv generate_tx(1) [OF g inv] p, of st' "sequence_number msg"]
        generate_tx(2,3) [OF g inv] st' None by (simp add: map_insert_fresh)
  next
    case False
    with None receive_discarded [where st = st and msg = msg and now = now and task = task] r inv show ?thesis by simp
  qed
next
  case (Some p)
  show ?thesis
  proof (cases "check_triggered_message_type
      (if triggered_msg_type p = 0 then initial_msg_type p else triggered_msg_type p) (message_type msg)")
    case True
    have "gtpc_tx_id2seq_num st (gtpc_tx_id p) = Some (sequence_number msg)" using inv Some by (simp add: tx_inv_def)
    with receive_matched [OF Some True, of now task] r
      tx_inv_forget [OF inv, of st' "sequence_number msg" "gtpc_tx_id p"] show ?thesis
      by (auto simp: uug.free_used)
  next
    case False
    with Some receive_discarded [where st = st and msg = msg and now = now and task = task] r inv show ?thesis by simp
  qed
qed

text \<open>The outcomes of a time-out, as the functions below name them.\<close>

lemma time_out_retry:
  assumes "msg_out_retry_timers st i = Some sn" and "pending_procedures st sn = Some p"
    and "unat (retry_count p) < unat (n3 st)" and "retry_msg p = Some msg"
  shows "\<exists>st2 p2. start_msg_retry_timer now (p\<lparr>retry_count := retry_count p + 1, retry_timer_id := 0\<rparr>) (t3_ms st) task
        (sequence_number msg) (st\<lparr>msg_out_retry_timers := map_erase (msg_out_retry_timers st) i\<rparr>) = (p2, st2)
    \<and> time_out_event now i task st = Inr (True, emit (Udp_send Udp_s (remote_endpoint p) msg)
        (st2\<lparr>pending_procedures := (pending_procedures st2)(sn \<mapsto> p2\<lparr>retry_msg := Some (dumped msg)\<rparr>)\<rparr>))"
proof -
  let ?p = "p\<lparr>retry_count := retry_count p + 1, retry_timer_id := 0\<rparr>"
  let ?st = "st\<lparr>msg_out_retry_timers := map_erase (msg_out_retry_timers st) i\<rparr>"
  obtain p2 st2 where s: "start_msg_retry_timer now ?p (t3_ms st) task (sequence_number msg) ?st = (p2, st2)"
    by fastforce
  then have "remote_endpoint p2 = remote_endpoint p" using start_msg_retry_timer_proj [OF s] by auto
  with assms s show ?thesis by (simp add: time_out_event_def Let_def)
qed

lemma time_out_abort:
  assumes "msg_out_retry_timers st i = Some sn" and "pending_procedures st sn = Some p"
    and "\<not> unat (retry_count p) < unat (n3 st)"
  shows "time_out_event now i task st = Inr (True,
    st\<lparr>msg_out_retry_timers := map_erase (msg_out_retry_timers st) i,
       out := out st @ [Ul_error (remote_endpoint p) (local_teid p) REMOTE_PEER_NOT_RESPONDING (gtpc_tx_id p)],
       pending_procedures := map_erase (pending_procedures st) sn\<rparr>)"
  using assms by (simp add: time_out_event_def Let_def emit_def)

lemma time_out_cleanup:
  assumes "msg_out_retry_timers st i = None" and "proc_cleanup_timers st i = Some sn"
    and "pending_procedures st sn = Some p"
  shows "time_out_event now i task st = Inr (True,
    st\<lparr>gtpc_tx_id2seq_num := map_erase (gtpc_tx_id2seq_num st) (gtpc_tx_id p),
       tx_ids := uint_uid_free_uid (gtpc_tx_id p) (tx_ids st),
       proc_cleanup_timers := map_erase (proc_cleanup_timers st) i,
       pending_procedures := map_erase (pending_procedures st) sn\<rparr>)"
  using assms by (simp add: time_out_event_def Let_def free_gtpc_tx_id_def)

lemma tx_inv_time_out:
  assumes inv: "tx_inv st" and r: "time_out_event now i task st = Inr (h, st')"
  shows "tx_inv st'"
proof (cases "msg_out_retry_timers st i")
  case None
  note no_retry = None
  show ?thesis
  proof (cases "proc_cleanup_timers st i")
    case None
    with no_retry r inv show ?thesis by (simp add: time_out_event_def)
  next
    case (Some sn)
    then obtain p where p: "pending_procedures st sn = Some p"
      using no_retry r by (cases "pending_procedures st sn") (auto simp: time_out_event_def)
    with inv have "gtpc_tx_id2seq_num st (gtpc_tx_id p) = Some sn" by (simp add: tx_inv_def)
    with time_out_cleanup [OF no_retry Some p, of now task] r
      tx_inv_forget [OF inv, of st' sn "gtpc_tx_id p"] show ?thesis by (simp add: uug.free_used)
  qed
next
  case (Some sn)
  show ?thesis
  proof (cases "pending_procedures st sn")
    case None
    with Some r have "st' = st\<lparr>msg_out_retry_timers := map_erase (msg_out_retry_timers st) i\<rparr>"
      by (simp add: time_out_event_def)
    with inv show ?thesis by (simp add: tx_inv_def)
  next
    case p: (Some p)
    show ?thesis
    proof (cases "unat (retry_count p) < unat (n3 st)")
      case True
      with Some p r obtain msg where m: "retry_msg p = Some msg"
        by (cases "retry_msg p") (auto simp: time_out_event_def Let_def)
      obtain p2 st2 where t: "start_msg_retry_timer now (p\<lparr>retry_count := retry_count p + 1, retry_timer_id := 0\<rparr>)
          (t3_ms st) task (sequence_number msg) (st\<lparr>msg_out_retry_timers := map_erase (msg_out_retry_timers st) i\<rparr>) = (p2, st2)"
        "st' = emit (Udp_send Udp_s (remote_endpoint p) msg)
          (st2\<lparr>pending_procedures := (pending_procedures st2)(sn \<mapsto> p2\<lparr>retry_msg := Some (dumped msg)\<rparr>)\<rparr>)"
        using time_out_retry [OF Some p True m, of now task] r by auto
      then have "gtpc_tx_id p2 = gtpc_tx_id p" "pending_procedures st2 = pending_procedures st"
        "gtpc_tx_id2seq_num st2 = gtpc_tx_id2seq_num st" "tx_ids st2 = tx_ids st"
        using start_msg_retry_timer_proj [OF t(1)] by auto
      with inv p t(2) show ?thesis by (auto simp: tx_inv_def emit_def)
    next
      case False
      with time_out_abort [OF Some p False, of now task] r inv show ?thesis by (auto simp: tx_inv_def)
    qed
  qed
qed

lemma tx_inv_step: "gtp_step st st' \<Longrightarrow> tx_inv st \<Longrightarrow> tx_inv st'"
proof (induction rule: gtp_step.induct)
  case (gtp_receive now msg task st e tx st')
  then show ?case using tx_inv_receive by blast
next
  case (gtp_take_tx st tx st')
  obtain g where g: "st' = st\<lparr>tx_ids := g\<rparr>" using generate_tx(4) [OF gtp_take_tx] by blast
  with generate_tx(3) [OF gtp_take_tx] have "uid_generated (tx_ids st) \<subseteq> uid_generated g" by simp
  with gtp_take_tx(2) g show ?case unfolding tx_inv_def by simp (meson subset_trans)
next
  case (gtp_give_tx st tx)
  then show ?case by (auto simp: tx_inv_def free_gtpc_tx_id_def uug.free_used)
next
  case (gtp_send_echo len now dest xs task tx st sn st')
  then show ?case
    using tx_inv_send by (auto simp: send_initial_echo_request_def get_next_seq_num_def Let_def)
next
  case (gtp_send_initial t len now dest r_teid l_teid xs task tx st sn st')
  then show ?case using tx_inv_send by (auto simp: send_initial_teid_def get_next_seq_num_def Let_def)
next
  case (gtp_send_triggered st dest msg tx a)
  show ?case
  proof (cases "gtpc_tx_id2seq_num st tx")
    case None
    with gtp_send_triggered show ?thesis by (simp add: send_triggered_def)
  next
    case (Some sn)
    let ?st = "emit (Udp_send Udp_s dest (set_sequence_number sn msg)) st"
    have inv: "tx_inv ?st" using gtp_send_triggered tx_inv_cong [of ?st st] by (simp add: emit_def)
    have "gtpc_tx_id2seq_num ?st tx = Some sn" using Some by (simp add: emit_def)
    with end_transaction_spec [OF this] tx_inv_forget [OF inv, of "end_transaction tx sn ?st" sn tx] inv Some
    show ?thesis by (auto simp: send_triggered_def Let_def)
  qed
next
  case (gtp_time_out now i task st h st')
  then show ?case using tx_inv_time_out by blast
qed


text \<open>A received request for the witnesses: Create Session Request with sequence number 7.\<close>

definition demo_request :: "unit gtpv2c_msg" where
  "demo_request = set_sequence_number 7 (msg_of_ies (\<lambda>_. 0) GTP_CREATE_SESSION_REQUEST [])"

lemma demo_request_simps [simp]:
  "sequence_number demo_request = 7" "message_type demo_request = GTP_CREATE_SESSION_REQUEST"
  by (simp_all add: demo_request_def)

lemma demo_tx: "\<exists>g. uint_uid_get_uid (tx_ids demo_stack) = Some (1, g)"
proof -
  let ?g = "tx_ids demo_stack"
  have "uid_generated ?g = {}" "uid_generator ?g = 0"
    by (simp_all add: demo_stack_def gtpv2c_stack_new_def uint_uid_generator_init_def)
  then show ?thesis
    by (simp add: uint_uid_eq get_uid_def Let_def get_uid_loop.simps)
qed

lemma demo_receive:
  assumes "check_initial_message_type (message_type msg)"
  shows "\<exists>st. handle_receive_message_cb now msg task demo_stack = Inr (False, 1, st)"
proof -
  obtain g where "uint_uid_get_uid (tx_ids demo_stack) = Some (1, g)" using demo_tx by blast
  moreover have "pending_procedures demo_stack = Map.empty" by (simp add: demo_stack_def gtpv2c_stack_new_def)
  ultimately show ?thesis using assms
    by (auto simp: handle_receive_message_cb_def generate_gtpc_tx_id_def Let_def split: prod.splits)
qed

lemma demo_request_initial: "check_initial_message_type (message_type demo_request)"
  by (simp add: check_initial_message_type_def initial_types_def gtp_type_defs)

lemma demo_stack_inv: "tx_inv demo_stack" "pending_procedures demo_stack = Map.empty"
  by (simp_all add: tx_inv_def demo_stack_def gtpv2c_stack_new_def)


section \<open>Requests from the peer\<close>





text \<open>
  The bearer requests are the exception. A second copy of a pending Create, Update or Delete
  Bearer Request is taken for the answer to the first: the procedure is dropped, and the response
  that the upper layer then sends is not transmitted.
\<close>

theorem duplicate_bearer_request_drops_procedure:
  assumes inv: "tx_inv st" and new: "pending_procedures st (sequence_number msg) = None"
    and rcv: "handle_receive_message_cb now msg task st = Inr (e, tx, st1)"
    and dup: "sequence_number msg' = sequence_number msg" "message_type msg' = message_type msg"
    and t: "message_type msg \<in> {GTP_CREATE_BEARER_REQUEST, GTP_UPDATE_BEARER_REQUEST, GTP_DELETE_BEARER_REQUEST}"
  shows "\<exists>st2. handle_receive_message_cb now' msg' task' st1 = Inr (False, tx, st2)
    \<and> pending_procedures st2 (sequence_number msg) = None \<and> send_triggered dest rsp tx a st2 = st2"
proof -
  have "check_initial_message_type (message_type msg)"
    using t by (auto simp: check_initial_message_type_def initial_types_def gtp_type_defs)
  from receive_new [OF new this rcv] obtain p where p: "pending_procedures st1 (sequence_number msg) = Some p"
    "initial_msg_type p = message_type msg" "triggered_msg_type p = 0" "gtpc_tx_id p = tx"
    by auto
  have "pending_procedures st1 (sequence_number msg') = Some p" using p dup by simp
  moreover have "check_triggered_message_type
      (if triggered_msg_type p = 0 then initial_msg_type p else triggered_msg_type p) (message_type msg')"
    using p dup t by (auto simp: check_triggered_message_type_def)
  ultimately show ?thesis
    using receive_matched [of st1 msg' p now' task'] p(4) dup by (auto simp: send_triggered_def)
qed

definition demo_bearer_request :: "unit gtpv2c_msg" where
  "demo_bearer_request = set_sequence_number 9 (msg_of_ies (\<lambda>_. 0) GTP_CREATE_BEARER_REQUEST [])"

theorem duplicate_bearer_request_drops_procedure_witness:
  "\<exists>tx st1 st2. handle_receive_message_cb 0 demo_bearer_request TASK_SGWC_S5S8 demo_stack = Inr (False, tx, st1)
     \<and> handle_receive_message_cb 1 demo_bearer_request TASK_SGWC_S5S8 st1 = Inr (False, tx, st2)
     \<and> send_triggered endpoint_default demo_request tx DELETE_TX st2 = st2"
proof -
  have t: "message_type demo_bearer_request = GTP_CREATE_BEARER_REQUEST" by (simp add: demo_bearer_request_def)
  have "check_initial_message_type (message_type demo_bearer_request)"
    unfolding t by (simp add: check_initial_message_type_def initial_types_def gtp_type_defs)
  then obtain st where
    r: "handle_receive_message_cb 0 demo_bearer_request TASK_SGWC_S5S8 demo_stack = Inr (False, 1, st)"
    using demo_receive by blast
  have "\<exists>st2. handle_receive_message_cb 1 demo_bearer_request TASK_SGWC_S5S8 st = Inr (False, 1, st2)
    \<and> pending_procedures st2 (sequence_number demo_bearer_request) = None
    \<and> send_triggered endpoint_default demo_request 1 DELETE_TX st2 = st2"
    by (rule duplicate_bearer_request_drops_procedure [OF demo_stack_inv(1) _ r refl refl])
      (simp_all add: demo_stack_inv t)
  with r show ?thesis by blast
qed

section \<open>Requests to the peer\<close>

definition timers_known :: "('ie, 'p) gtpv2c_stack \<Rightarrow> bool" where
  "timers_known st \<longleftrightarrow> itti_timers.known (msg_out_retry_timers st) (itti st)
     \<and> itti_timers.known (proc_cleanup_timers st) (itti st)
     \<and> dom (msg_out_retry_timers st) \<inter> dom (proc_cleanup_timers st) = {}"

lemma setup_ms_fresh:
  assumes "valid_task task" and "unat (timer_id (itti st)) < 2 ^ 32 - 1"
    and "setup_ms now ms task st = (i, st')"
  shows "i \<noteq> ITTI_INVALID_TIMER_ID" and "unat (timer_id (itti st')) = Suc (unat (timer_id (itti st)))"
    and "itti_timers.known m (itti st) \<Longrightarrow> m i = None \<and> itti_timers.known m (itti st')
      \<and> itti_timers.known (map_insert m i v) (itti st')"
proof -
  obtain it where r: "timer_setup now (ms div 1000) ((ms mod 1000) * 1000) task 0 0 (itti st) = (i, it)"
    and st': "itti st' = it"
    using assms(3) by (auto simp: setup_ms_def split: prod.splits)
  note fresh = assms(1)[THEN conjunct1] assms(1)[THEN conjunct2] assms(2) r
  show "i \<noteq> ITTI_INVALID_TIMER_ID" "unat (timer_id (itti st')) = Suc (unat (timer_id (itti st)))"
    using itti_timers.setup_valid [OF fresh] itti_timers.setup_next [OF fresh] st' by simp_all
  show "m i = None \<and> itti_timers.known m (itti st') \<and> itti_timers.known (map_insert m i v) (itti st')"
    if "itti_timers.known m (itti st)"
    using itti_timers.setup_fresh [OF fresh that] st' by simp
qed

lemma start_retry_valid:
  assumes "valid_task task" and "unat (timer_id (itti st)) < 2 ^ 32 - 1" and "timers_known st"
    and "start_msg_retry_timer now p ms task sn st = (p', st')"
  shows "\<exists>i it. p' = p\<lparr>retry_timer_id := i\<rparr> \<and> i \<noteq> ITTI_INVALID_TIMER_ID
    \<and> st' = st\<lparr>itti := it, msg_out_retry_timers := (msg_out_retry_timers st)(i \<mapsto> sn)\<rparr>
    \<and> timers_known st' \<and> unat (timer_id (itti st')) = Suc (unat (timer_id (itti st)))"
proof -
  obtain i st1 where s: "setup_ms now ms task st = (i, st1)" by fastforce
  then obtain it where st1: "st1 = st\<lparr>itti := it\<rparr>" using setup_ms_proj by blast
  note f = setup_ms_fresh [OF assms(1,2) s]
  have k: "itti_timers.known (msg_out_retry_timers st) (itti st)"
    "itti_timers.known (proc_cleanup_timers st) (itti st)" using assms(3) by (simp_all add: timers_known_def)
  have r: "p' = p\<lparr>retry_timer_id := i\<rparr>"
    "st' = st\<lparr>itti := it, msg_out_retry_timers := map_insert (msg_out_retry_timers st) i sn\<rparr>"
    using assms(4) s f(1) st1 by (auto simp: start_msg_retry_timer_def)
  have "timers_known st'"
    using f(3) [OF k(1), of sn] f(3) [OF k(2)] assms(3) r(2) st1 by (auto simp: timers_known_def)
  with r f(1,2) f(3) [OF k(1)] st1 show ?thesis
    by (intro exI [of _ i] exI [of _ it]) (simp add: map_insert_fresh)
qed

lemma start_cleanup_valid:
  assumes "valid_task task" and "unat (timer_id (itti st)) < 2 ^ 32 - 1" and "timers_known st"
    and "proc_cleanup_timer_id p = ITTI_INVALID_TIMER_ID"
    and "start_proc_cleanup_timer now p ms task sn st = (p', st')"
  shows "\<exists>i it. p' = p\<lparr>proc_cleanup_timer_id := i\<rparr> \<and> i \<noteq> ITTI_INVALID_TIMER_ID
    \<and> msg_out_retry_timers st i = None
    \<and> st' = st\<lparr>itti := it, proc_cleanup_timers := (proc_cleanup_timers st)(i \<mapsto> sn)\<rparr>
    \<and> timers_known st' \<and> unat (timer_id (itti st')) = Suc (unat (timer_id (itti st)))"
proof -
  obtain i st1 where s: "setup_ms now ms task st = (i, st1)" by fastforce
  then obtain it where st1: "st1 = st\<lparr>itti := it\<rparr>" using setup_ms_proj by blast
  note f = setup_ms_fresh [OF assms(1,2) s]
  have k: "itti_timers.known (msg_out_retry_timers st) (itti st)"
    "itti_timers.known (proc_cleanup_timers st) (itti st)" using assms(3) by (simp_all add: timers_known_def)
  have r: "p' = p\<lparr>proc_cleanup_timer_id := i\<rparr>"
    "st' = st\<lparr>itti := it, proc_cleanup_timers := map_insert (proc_cleanup_timers st) i sn\<rparr>"
    using assms(4,5) s st1 by (auto simp: start_proc_cleanup_timer_def)
  have "timers_known st'"
    using f(3) [OF k(2), of sn] f(3) [OF k(1)] assms(3) r(2) st1 by (auto simp: timers_known_def)
  with r f(1,2) f(3) [OF k(1)] f(3) [OF k(2)] st1 show ?thesis
    by (intro exI [of _ i] exI [of _ it]) (simp add: map_insert_fresh)
qed

text \<open>The messages the stack builds are not changed by \<^verbatim>\<open>dump_to\<close>: retransmissions are identical.\<close>

lemma dumped_id: "u1 m AND 0xFC = u1 m \<Longrightarrow> u2 m = 0 \<Longrightarrow> \<not> bit (u1 m) 2 \<Longrightarrow> dumped m = m"
  by (simp add: dumped_def header_dump_to_def Let_def unset_bit_clear)

lemma msg_of_ies_u: "u1 (msg_of_ies len t xs) = 0x40" "u2 (msg_of_ies len t xs) = 0"
proof -
  have "u1 (foldl (\<lambda>m ie. add_ie len ie m) m xs) = u1 m \<and> u2 (foldl (\<lambda>m ie. add_ie len ie m) m xs) = u2 m" for m
    by (induction xs arbitrary: m) (simp_all add: add_ie_def)
  then show "u1 (msg_of_ies len t xs) = 0x40" "u2 (msg_of_ies len t xs) = 0"
    by (simp_all add: msg_of_ies_def gtpv2c_msg_default_def gtpv2c_msg_header_default_def gtpv2c_msg_header.defs)
qed

lemma dumped_request: "dumped (set_sequence_number q (set_teid r (msg_of_ies len t xs)))
    = set_sequence_number q (set_teid r (msg_of_ies len t xs))"
  by (rule dumped_id)
    (simp_all add: set_sequence_number_def set_teid_def has_teid_def Let_def msg_of_ies_u set_bit_eq_or)

text \<open>
  The state of a request that has been transmitted and repeated \<open>k\<close> times: the procedure is pending,
  its retransmission timer runs, its clean-up timer \<open>c\<close> is in the table.
\<close>

definition awaiting ::
  "u32 \<Rightarrow> endpoint \<Rightarrow> teid \<Rightarrow> u64 \<Rightarrow> 'ie gtpv2c_msg \<Rightarrow> timer_id \<Rightarrow> 'ie gtp_output list \<Rightarrow> nat \<Rightarrow>
     ('ie, 'p) gtpv2c_stack \<Rightarrow> bool" where
  "awaiting sn dest l_teid tx m c sent k st \<longleftrightarrow>
     (\<exists>p. pending_procedures st sn = Some p \<and> retry_count p = of_nat k \<and> retry_msg p = Some m
        \<and> remote_endpoint p = dest \<and> local_teid p = l_teid \<and> gtpc_tx_id p = tx
        \<and> initial_msg_type p = message_type m \<and> triggered_msg_type p = 0 \<and> proc_cleanup_timer_id p = c
        \<and> msg_out_retry_timers st (retry_timer_id p) = Some sn)
     \<and> sequence_number m = sn \<and> dumped m = m \<and> proc_cleanup_timers st c = Some sn
     \<and> timers_known st \<and> out st = sent @ replicate k (Udp_send Udp_s dest m)"

lemma awaiting_start:
  assumes r: "start_procedure now dest l_teid msg task tx st = (sn, st')"
    and fresh: "pending_procedures st (sequence_number msg) = None" and "timers_known st"
    and "valid_task task" and "unat (timer_id (itti st)) + 1 < 2 ^ 32 - 1" and "dumped msg = msg"
  shows "sn = sequence_number msg \<and> (\<exists>c. awaiting sn dest l_teid tx msg c (out st @ [Udp_send Udp_s_allocated dest msg]) 0 st')
    \<and> n3 st' = n3 st \<and> unat (timer_id (itti st')) = unat (timer_id (itti st)) + 2
    \<and> gtpc_tx_id2seq_num st' = map_insert (gtpc_tx_id2seq_num st) tx sn
    \<and> (\<exists>p. pending_procedures st' = (pending_procedures st)(sn \<mapsto> p) \<and> retry_timer_id p \<noteq> 0
         \<and> msg_out_retry_timers st' = (msg_out_retry_timers st)(retry_timer_id p \<mapsto> sn))"
proof -
  let ?sn = "sequence_number msg"
  let ?p0 = "gtpv2c_procedure_default\<lparr>initial_msg_type := message_type msg, gtpc_tx_id := tx,
                   local_teid := l_teid, retry_msg := Some (dumped msg), remote_endpoint := dest\<rparr>"
  obtain p1 st1 where a: "start_msg_retry_timer now ?p0 (t3_ms st) task ?sn st = (p1, st1)" by fastforce
  have "unat (timer_id (itti st)) < 2 ^ 32 - 1" using assms(5) by simp
  from start_retry_valid [OF assms(4) this assms(3) a] obtain i it where
    p1: "p1 = ?p0\<lparr>retry_timer_id := i\<rparr>" "i \<noteq> ITTI_INVALID_TIMER_ID"
      "st1 = st\<lparr>itti := it, msg_out_retry_timers := (msg_out_retry_timers st)(i \<mapsto> ?sn)\<rparr>"
      "timers_known st1" "unat (timer_id (itti st1)) = Suc (unat (timer_id (itti st)))" by blast
  obtain p2 st2 where b: "start_proc_cleanup_timer now p1 (GTPV2C_PROC_TIME_OUT_MS (t3_ms st) (n3 st)) task ?sn st1
      = (p2, st2)" by fastforce
  have "unat (timer_id (itti st1)) < 2 ^ 32 - 1" "proc_cleanup_timer_id p1 = ITTI_INVALID_TIMER_ID"
    using assms(5) p1(1,5) by (simp_all add: gtpv2c_procedure_default_def ITTI_INVALID_TIMER_ID_def)
  from start_cleanup_valid [OF assms(4) this(1) p1(4) this(2) b] obtain j it2 where
    p2: "p2 = p1\<lparr>proc_cleanup_timer_id := j\<rparr>" "st2 = st1\<lparr>itti := it2, proc_cleanup_timers := (proc_cleanup_timers st1)(j \<mapsto> ?sn)\<rparr>"
      "timers_known st2" "unat (timer_id (itti st2)) = Suc (unat (timer_id (itti st1)))" by blast
  have st': "sn = ?sn" "st' = emit (Udp_send Udp_s_allocated dest msg)
      (st2\<lparr>pending_procedures := map_insert (pending_procedures st2) ?sn p2,
           gtpc_tx_id2seq_num := map_insert (gtpc_tx_id2seq_num st2) tx ?sn\<rparr>)"
    using r a b by (auto simp: start_procedure_def Let_def)
  have "timers_known st'" using p2(3) st'(2) by (simp add: timers_known_def emit_def)
  with st' p1 p2 fresh assms(6) have "awaiting sn dest l_teid tx msg j (out st @ [Udp_send Udp_s_allocated dest msg]) 0 st'"
    by (simp add: awaiting_def emit_def map_insert_fresh gtpv2c_procedure_default_def)
  moreover have "pending_procedures st' = (pending_procedures st)(sn \<mapsto> p2) \<and> retry_timer_id p2 \<noteq> 0
      \<and> msg_out_retry_timers st' = (msg_out_retry_timers st)(retry_timer_id p2 \<mapsto> sn)"
    using st' p1 p2 fresh by (simp add: emit_def map_insert_fresh ITTI_INVALID_TIMER_ID_def)
  ultimately show ?thesis using st' p1 p2 by (auto simp: emit_def)
qed

lemma awaiting_retry:
  assumes aw: "awaiting sn dest l_teid tx m c sent k st" and "k < unat (n3 st)" and "unat (n3 st) \<le> 255"
    and "valid_task task" and "unat (timer_id (itti st)) < 2 ^ 32 - 1"
    and p: "pending_procedures st sn = Some p"
  shows "\<exists>st'. time_out_event now (retry_timer_id p) task st = Inr (True, st')
    \<and> awaiting sn dest l_teid tx m c sent (Suc k) st' \<and> n3 st' = n3 st
    \<and> unat (timer_id (itti st')) = Suc (unat (timer_id (itti st)))"
proof -
  let ?i = "retry_timer_id p"
  let ?p = "p\<lparr>retry_count := retry_count p + 1, retry_timer_id := 0\<rparr>"
  let ?st = "st\<lparr>msg_out_retry_timers := map_erase (msg_out_retry_timers st) ?i\<rparr>"
  have pp: "retry_count p = of_nat k" "retry_msg p = Some m" "msg_out_retry_timers st ?i = Some sn"
    and m: "sequence_number m = sn" "dumped m = m" and known: "timers_known st"
    using aw p by (auto simp: awaiting_def)
  have "unat (retry_count p) < unat (n3 st)" using pp(1) assms(2,3) by (simp add: unat_of_nat)
  from time_out_retry [OF pp(3) p this pp(2), of now task] obtain p2 st2 where
    s: "start_msg_retry_timer now ?p (t3_ms st) task sn ?st = (p2, st2)"
    and r: "time_out_event now ?i task st = Inr (True, emit (Udp_send Udp_s (remote_endpoint p) m)
        (st2\<lparr>pending_procedures := (pending_procedures st2)(sn \<mapsto> p2\<lparr>retry_msg := Some (dumped m)\<rparr>)\<rparr>))"
    using m(1) by auto
  have "timers_known ?st" using known itti_timers.known_erase by (auto simp: timers_known_def)
  moreover have "unat (timer_id (itti ?st)) < 2 ^ 32 - 1" using assms(5) by simp
  ultimately obtain i it where p2: "p2 = ?p\<lparr>retry_timer_id := i\<rparr>"
    "st2 = ?st\<lparr>itti := it, msg_out_retry_timers := (msg_out_retry_timers ?st)(i \<mapsto> sn)\<rparr>"
    "timers_known st2" "unat (timer_id (itti st2)) = Suc (unat (timer_id (itti st)))"
    using start_retry_valid [OF assms(4) _ _ s] by auto
  let ?st' = "emit (Udp_send Udp_s (remote_endpoint p) m)
        (st2\<lparr>pending_procedures := (pending_procedures st2)(sn \<mapsto> p2\<lparr>retry_msg := Some (dumped m)\<rparr>)\<rparr>)"
  have "timers_known ?st'" using p2(3) by (simp add: timers_known_def emit_def)
  then have "awaiting sn dest l_teid tx m c sent (Suc k) ?st'"
    using aw p p2 m by (auto simp: awaiting_def emit_def replicate_append_same [symmetric])
  with r p2 show ?thesis by (auto simp: emit_def)
qed

text \<open>The retransmission timer of procedure \<open>sn\<close> fires at the times given, one after the other.\<close>

fun fire_retries :: "time_point list \<Rightarrow> task_id \<Rightarrow> u32 \<Rightarrow> ('ie, 'p) gtpv2c_stack \<Rightarrow> ('ie, 'p) gtpv2c_stack outcome" where
  "fire_retries [] task sn st = Inr st"
| "fire_retries (now # ts) task sn st =
     (case pending_procedures st sn of
        None \<Rightarrow> Inr st
      | Some p \<Rightarrow>
          (case time_out_event now (retry_timer_id p) task st of
             Inl e \<Rightarrow> Inl e
           | Inr (_, st') \<Rightarrow> fire_retries ts task sn st'))"

lemma awaiting_retries:
  "awaiting sn dest l_teid tx m c sent k st \<Longrightarrow> k + length ts \<le> unat (n3 st) \<Longrightarrow> unat (n3 st) \<le> 255 \<Longrightarrow>
     valid_task task \<Longrightarrow> unat (timer_id (itti st)) + length ts < 2 ^ 32 - 1 \<Longrightarrow>
     \<exists>st'. fire_retries ts task sn st = Inr st' \<and> awaiting sn dest l_teid tx m c sent (k + length ts) st' \<and> n3 st' = n3 st"
proof (induction ts arbitrary: k st)
  case (Cons now ts)
  obtain p where p: "pending_procedures st sn = Some p" using Cons.prems(1) by (auto simp: awaiting_def)
  have "k < unat (n3 st)" "unat (timer_id (itti st)) < 2 ^ 32 - 1" using Cons.prems(2,5) by auto
  from awaiting_retry [OF Cons.prems(1) this(1) Cons.prems(3,4) this(2) p, of now] obtain st1 where
    st1: "time_out_event now (retry_timer_id p) task st = Inr (True, st1)"
      "awaiting sn dest l_teid tx m c sent (Suc k) st1" "n3 st1 = n3 st"
      "unat (timer_id (itti st1)) = Suc (unat (timer_id (itti st)))" by blast
  with Cons.IH [OF st1(2)] Cons.prems p show ?case by simp
qed auto

lemma awaiting_abort:
  assumes aw: "awaiting sn dest l_teid tx m c sent k st" and "unat (n3 st) \<le> k" and "k \<le> 255"
  shows "\<exists>st'. fire_retries [now] task sn st = Inr st' \<and> pending_procedures st' sn = None
    \<and> out st' = out st @ [Ul_error dest l_teid REMOTE_PEER_NOT_RESPONDING tx]
    \<and> msg_out_retry_timers st' c = None \<and> proc_cleanup_timers st' c = Some sn
    \<and> gtpc_tx_id2seq_num st' = gtpc_tx_id2seq_num st"
proof -
  obtain p where p: "pending_procedures st sn = Some p" "retry_count p = of_nat k" "remote_endpoint p = dest"
    "local_teid p = l_teid" "gtpc_tx_id p = tx" "msg_out_retry_timers st (retry_timer_id p) = Some sn"
    using aw by (auto simp: awaiting_def)
  have "\<not> unat (retry_count p) < unat (n3 st)" using p(2) assms(2,3) by (simp add: unat_of_nat)
  note ab = time_out_abort [OF p(6,1) this, of now task]
  have c: "proc_cleanup_timers st c = Some sn" "dom (msg_out_retry_timers st) \<inter> dom (proc_cleanup_timers st) = {}"
    using aw by (auto simp: awaiting_def timers_known_def)
  then have "msg_out_retry_timers st c = None" by (auto simp: domIff disjoint_iff)
  with ab p c show ?thesis by auto
qed

lemma fire_retries_append:
  "fire_retries (ts @ us) task sn st = (case fire_retries ts task sn st of
      Inl e \<Rightarrow> Inl e | Inr st' \<Rightarrow> fire_retries us task sn st')"
proof (induction ts arbitrary: st)
  case (Cons now ts)
  show ?case
  proof (cases "pending_procedures st sn")
    case None
    then show ?thesis by (cases us) auto
  qed (auto simp: Cons.IH split: sum.split prod.split)
qed simp


lemma demo_stack_known: "timers_known demo_stack" "n3 demo_stack = 3" "unat (timer_id (itti demo_stack)) = 0"
  by (simp_all add: timers_known_def demo_stack_def gtpv2c_stack_new_def itti_timers.known_empty itti_mw_init_def)


text \<open>
  C37: the clean-up timer of a request that the peer never answers ends in undefined behaviour. It is
  set for one period more than the last retransmission, it is not stopped when the request is given
  up, and when it fires the handler reads the procedure that is no longer in the table.
\<close>

theorem unanswered_request_cleanup_ub:
  assumes send: "send_initial_teid t len now dest r_teid l_teid xs task tx st = (sn, st0)"
    and fresh: "pending_procedures st sn = None" and known: "timers_known st"
    and task: "valid_task task" and n: "unat (n3 st) \<le> 255"
    and room: "unat (timer_id (itti st)) + unat (n3 st) + 2 < 2 ^ 32 - 1"
    and ts: "length ts = unat (n3 st) + 1"
  shows "\<exists>p st'. pending_procedures st0 sn = Some p \<and> fire_retries ts task sn st0 = Inr st'
    \<and> time_out_event now' (proc_cleanup_timer_id p) task' st' = Inl Deref_end"
proof -
  obtain q st1 where q: "get_next_seq_num st = (q, st1)" "st1 = st\<lparr>seq_num := q\<rparr>"
    by (simp add: get_next_seq_num_def Let_def)
  let ?m = "set_sequence_number q (set_teid r_teid (msg_of_ies len t xs))"
  have s: "start_procedure now dest l_teid ?m task tx st1 = (sn, st0)" using send q by (simp add: send_initial_teid_def)
  then have sn: "sn = sequence_number ?m" using start_procedure_spec [OF s] by simp
  have "timers_known st1" "unat (timer_id (itti st1)) + 1 < 2 ^ 32 - 1"
    using known room q by (simp_all add: timers_known_def)
  with awaiting_start [OF s _ _ task _ dumped_request] fresh sn q obtain c where
    aw: "awaiting sn dest l_teid tx ?m c (out st @ [Udp_send Udp_s_allocated dest ?m]) 0 st0"
    and n3: "n3 st0 = n3 st" and ids: "unat (timer_id (itti st0)) = unat (timer_id (itti st)) + 2" by auto
  from aw obtain p where p: "pending_procedures st0 sn = Some p" "proc_cleanup_timer_id p = c"
    by (auto simp: awaiting_def)
  obtain us u where us: "ts = us @ [u]" using ts by (cases ts rule: rev_cases) auto
  then have len: "length us = unat (n3 st)" using ts by simp
  obtain st' where st': "fire_retries us task sn st0 = Inr st'" "n3 st' = n3 st"
    "awaiting sn dest l_teid tx ?m c (out st @ [Udp_send Udp_s_allocated dest ?m]) (length us) st'"
    using awaiting_retries [OF aw, of us task] len n3 n task room ids by auto
  from awaiting_abort [OF st'(3), of u task] st' len n obtain st2 where
    st2: "fire_retries [u] task sn st' = Inr st2" "pending_procedures st2 sn = None"
      "msg_out_retry_timers st2 c = None" "proc_cleanup_timers st2 c = Some sn" by auto
  have "fire_retries ts task sn st0 = Inr st2" using us st'(1) st2(1) by (simp add: fire_retries_append)
  moreover have "time_out_event now' c task' st2 = Inl Deref_end"
    using st2 by (simp add: time_out_event_def)
  ultimately show ?thesis using p by blast
qed

theorem unanswered_request_cleanup_ub_witness:
  "\<exists>sn st0 p st'. send_initial_create_session_request (\<lambda>_. 0) 0 endpoint_default 5 6 [] TASK_SGWC_S5S8 1 demo_stack = (sn, st0)
     \<and> pending_procedures st0 sn = Some p \<and> fire_retries [1, 2, 3, 4] TASK_SGWC_S5S8 sn st0 = Inr st'
     \<and> time_out_event 5 (proc_cleanup_timer_id p) TASK_SGWC_S5S8 st' = Inl Deref_end"
proof -
  obtain sn st0 where s: "send_initial_teid GTP_CREATE_SESSION_REQUEST (\<lambda>_. 0) 0 endpoint_default 5 6 [] TASK_SGWC_S5S8 1
      demo_stack = (sn, st0)" by fastforce
  have "pending_procedures demo_stack sn = None" "valid_task TASK_SGWC_S5S8" "unat (n3 demo_stack) \<le> 255"
    "unat (timer_id (itti demo_stack)) + unat (n3 demo_stack) + 2 < 2 ^ 32 - 1"
    "length [1, 2, 3, 4 :: time_point] = unat (n3 demo_stack) + 1"
    by (simp_all add: demo_stack_inv demo_stack_known task_defs)
  from unanswered_request_cleanup_ub [OF s this(1) demo_stack_known(1) this(2-5)] s show ?thesis
    by (auto simp: send_initial_create_session_request_def)
qed

text \<open>
  C12: a request and its response. After the stack has sent a request, a message with its sequence
  number and the next message type is accepted and attributed to the transaction of the request; the
  procedure, the transaction and its retransmission timer are gone from the tables, and the other
  procedures and transactions are as before the request.
\<close>

theorem request_completed:
  assumes send: "send_initial_teid t len now dest r_teid l_teid xs task tx st = (sn, st0)"
    and fresh: "pending_procedures st sn = None" "gtpc_tx_id2seq_num st tx = None" and known: "timers_known st"
    and task: "valid_task task" and room: "unat (timer_id (itti st)) + 1 < 2 ^ 32 - 1"
    and rsp: "sequence_number rsp = sn" "message_type rsp = t + 1" and t: "t \<in> set initial_types"
  shows "\<exists>st'. handle_receive_message_cb now' rsp task' st0 = Inr (False, tx, st')
    \<and> pending_procedures st' = pending_procedures st \<and> gtpc_tx_id2seq_num st' = gtpc_tx_id2seq_num st
    \<and> tx \<notin> uid_generated (tx_ids st') \<and> (\<forall>i. msg_out_retry_timers st' i = Some sn \<longrightarrow> msg_out_retry_timers st i = Some sn)"
proof -
  obtain q st1 where q: "get_next_seq_num st = (q, st1)" "st1 = st\<lparr>seq_num := q\<rparr>"
    by (simp add: get_next_seq_num_def Let_def)
  let ?m = "set_sequence_number q (set_teid r_teid (msg_of_ies len t xs))"
  have s: "start_procedure now dest l_teid ?m task tx st1 = (sn, st0)" using send q by (simp add: send_initial_teid_def)
  then have sn: "sn = sequence_number ?m" using start_procedure_spec [OF s] by simp
  have k: "timers_known st1" "pending_procedures st1 (sequence_number ?m) = None"
    "unat (timer_id (itti st1)) + 1 < 2 ^ 32 - 1"
    using known room q fresh(1) sn by (simp_all add: timers_known_def)
  note start = awaiting_start [OF s k(2,1) task k(3) dumped_request]
  then obtain p where p: "pending_procedures st0 = (pending_procedures st)(sn \<mapsto> p)"
    "retry_timer_id p \<noteq> 0" "msg_out_retry_timers st0 = (msg_out_retry_timers st)(retry_timer_id p \<mapsto> sn)"
    using q by auto
  from start obtain c where "awaiting sn dest l_teid tx ?m c (out st1 @ [Udp_send Udp_s_allocated dest ?m]) 0 st0"
    by blast
  with p(1) have pp: "gtpc_tx_id p = tx" "initial_msg_type p = t" "triggered_msg_type p = 0"
    by (auto simp: awaiting_def)
  have gtpc: "gtpc_tx_id2seq_num st0 = (gtpc_tx_id2seq_num st)(tx \<mapsto> sn)"
    using start q fresh(2) by (simp add: map_insert_fresh)
  have "unat (t + 1) = unat t + 1" using t by (auto simp: initial_types_def)
  then have "check_triggered_message_type t (t + 1)" using t by (simp add: check_triggered_message_type_def)
  then have ok: "check_triggered_message_type (if triggered_msg_type p = 0 then initial_msg_type p
      else triggered_msg_type p) (message_type rsp)" using pp rsp by simp
  have "pending_procedures st0 (sequence_number rsp) = Some p" using p rsp by simp
  from receive_matched [OF this ok, of now' task'] obtain it where
    r: "handle_receive_message_cb now' rsp task' st0 = Inr (False, tx,
      st0\<lparr>itti := it, msg_out_retry_timers := map_erase (map_erase (msg_out_retry_timers st0) (retry_timer_id p)) (proc_cleanup_timer_id p),
       gtpc_tx_id2seq_num := map_erase (gtpc_tx_id2seq_num st0) tx,
       tx_ids := uint_uid_free_uid tx (tx_ids st0),
       pending_procedures := map_erase (pending_procedures st0) sn\<rparr>)" (is "_ = Inr (_, _, ?st')")
    using pp rsp p(2) by auto
  have "pending_procedures ?st' = pending_procedures st" "gtpc_tx_id2seq_num ?st' = gtpc_tx_id2seq_num st"
    using p(1) gtpc fresh by (auto simp: fun_eq_iff)
  moreover have "tx \<notin> uid_generated (tx_ids ?st')" by (simp add: uug.free_used)
  moreover have "msg_out_retry_timers st i = Some sn" if "msg_out_retry_timers ?st' i = Some sn" for i
    using that p(3) by (auto split: if_splits)
  ultimately show ?thesis using r by blast
qed

definition demo_response :: "u32 \<Rightarrow> unit gtpv2c_msg" where
  "demo_response sn = set_sequence_number sn (msg_of_ies (\<lambda>_. 0) GTP_CREATE_SESSION_RESPONSE [])"

theorem request_completed_witness:
  "\<exists>sn st0 st'. send_initial_create_session_request (\<lambda>_. 0) 0 endpoint_default 5 6 [] TASK_SGWC_S5S8 1 demo_stack = (sn, st0)
     \<and> handle_receive_message_cb 1 (demo_response sn) TASK_SGWC_S5S8 st0 = Inr (False, 1, st')
     \<and> pending_procedures st' = Map.empty"
proof -
  obtain sn st0 where s: "send_initial_teid GTP_CREATE_SESSION_REQUEST (\<lambda>_. 0) 0 endpoint_default 5 6 [] TASK_SGWC_S5S8 1
      demo_stack = (sn, st0)" by fastforce
  have "sn = 0"
    using s start_procedure_spec
    by (fastforce simp: send_initial_teid_def get_next_seq_num_def demo_stack_def gtpv2c_stack_new_def Let_def)
  then have "sequence_number (demo_response sn) = sn" by (simp add: demo_response_def)
  moreover have "message_type (demo_response sn) = GTP_CREATE_SESSION_REQUEST + 1"
    by (simp add: demo_response_def gtp_type_defs)
  moreover have "gtpc_tx_id2seq_num demo_stack 1 = None" by (simp add: demo_stack_def gtpv2c_stack_new_def)
  ultimately show ?thesis
    using request_completed [OF s _ _ demo_stack_known(1), where rsp = "demo_response sn" and now' = 1
        and task' = TASK_SGWC_S5S8] s demo_stack_inv(2) demo_stack_known
    by (auto simp: send_initial_create_session_request_def task_defs initial_types_def gtp_type_defs)
qed

lemma collision_null_deref:
  assumes r: "start_procedure now dest l_teid msg task tx st = (sn, st')"
    and col: "pending_procedures st (sequence_number msg) = Some p" "retry_msg p = None" "retry_count p = 0"
    and "timers_known st" and "valid_task task" and "unat (timer_id (itti st)) + 1 < 2 ^ 32 - 1" and "n3 st \<noteq> 0"
  shows "\<exists>i. pending_procedures st' sn = Some p \<and> msg_out_retry_timers st' i = Some sn
    \<and> time_out_event now' i task' st' = Inl Deref_null"
proof -
  let ?sn = "sequence_number msg"
  let ?p0 = "gtpv2c_procedure_default\<lparr>initial_msg_type := message_type msg, gtpc_tx_id := tx,
                   local_teid := l_teid, retry_msg := Some (dumped msg), remote_endpoint := dest\<rparr>"
  obtain p1 st1 where a: "start_msg_retry_timer now ?p0 (t3_ms st) task ?sn st = (p1, st1)" by fastforce
  have "unat (timer_id (itti st)) < 2 ^ 32 - 1" using assms(7) by simp
  from start_retry_valid [OF assms(6) this assms(5) a] obtain i it where
    st1: "st1 = st\<lparr>itti := it, msg_out_retry_timers := (msg_out_retry_timers st)(i \<mapsto> ?sn)\<rparr>" by blast
  obtain p2 st2 where b: "start_proc_cleanup_timer now p1 (GTPV2C_PROC_TIME_OUT_MS (t3_ms st) (n3 st)) task ?sn st1
      = (p2, st2)" by fastforce
  obtain it2 m2 where st2: "st2 = st1\<lparr>itti := it2, proc_cleanup_timers := m2\<rparr>"
    using start_proc_cleanup_timer_proj [OF b] by blast
  have st': "sn = ?sn" "st' = emit (Udp_send Udp_s_allocated dest msg)
      (st2\<lparr>pending_procedures := map_insert (pending_procedures st2) ?sn p2,
           gtpc_tx_id2seq_num := map_insert (gtpc_tx_id2seq_num st2) tx ?sn\<rparr>)"
    using r a b by (auto simp: start_procedure_def Let_def)
  have p: "pending_procedures st' sn = Some p" "msg_out_retry_timers st' i = Some sn" "n3 st' = n3 st"
    using st' st1 st2 col(1) by (simp_all add: emit_def map_insert_present)
  moreover have "0 < unat (n3 st)" using assms(8) by (simp add: unat_gt_0)
  ultimately have "time_out_event now' i task' st' = Inl Deref_null"
    using col by (simp add: time_out_event_def Let_def)
  with p show ?thesis by blast
qed

text \<open>
  the sequence numbers of the two directions share one table. When the stack sends a request whose
  sequence number the peer has chosen for a request that is still pending, the new procedure is not
  recorded, and the retransmission timer then dereferences the null message of the peer's procedure.
\<close>

theorem sequence_number_collision_null_deref:
  assumes send: "send_initial_teid t len now dest r_teid l_teid xs task tx st = (sn, st')"
    and col: "pending_procedures st sn = Some p" "retry_msg p = None" "retry_count p = 0"
    and known: "timers_known st" and task: "valid_task task"
    and room: "unat (timer_id (itti st)) + 1 < 2 ^ 32 - 1" and n: "n3 st \<noteq> 0"
  shows "\<exists>i. pending_procedures st' sn = Some p \<and> msg_out_retry_timers st' i = Some sn
    \<and> time_out_event now' i task' st' = Inl Deref_null"
proof -
  obtain q st1 where q: "get_next_seq_num st = (q, st1)" "st1 = st\<lparr>seq_num := q\<rparr>"
    by (simp add: get_next_seq_num_def Let_def)
  let ?m = "set_sequence_number q (set_teid r_teid (msg_of_ies len t xs))"
  have s: "start_procedure now dest l_teid ?m task tx st1 = (sn, st')" using send q by (simp add: send_initial_teid_def)
  then have "pending_procedures st1 (sequence_number ?m) = Some p"
    using start_procedure_spec [OF s] col(1) q by simp
  moreover have "timers_known st1" "unat (timer_id (itti st1)) + 1 < 2 ^ 32 - 1" "n3 st1 \<noteq> 0"
    using known room n q by (simp_all add: timers_known_def)
  ultimately show ?thesis using collision_null_deref [OF s _ col(2,3) _ task] by blast
qed

text \<open>A peer request with the sequence number that the stack of the witnesses uses next.\<close>

definition demo_collision :: "unit gtpv2c_msg" where
  "demo_collision = set_sequence_number 0 (msg_of_ies (\<lambda>_. 0) GTP_CREATE_SESSION_REQUEST [])"

theorem sequence_number_collision_null_deref_witness:
  "\<exists>st sn st' i. handle_receive_message_cb 0 demo_collision TASK_SGWC_S11 demo_stack = Inr (False, 1, st)
     \<and> send_initial_downlink_data_notification (\<lambda>_. 0) 1 endpoint_default 5 6 [] TASK_SGWC_S11 2 st = (sn, st')
     \<and> time_out_event 2 i TASK_SGWC_S11 st' = Inl Deref_null"
proof -
  let ?m = demo_collision
  have m: "check_initial_message_type (message_type ?m)" "sequence_number ?m = 0"
    by (simp_all add: demo_collision_def check_initial_message_type_def initial_types_def gtp_type_defs)
  obtain g where g: "uint_uid_get_uid (tx_ids demo_stack) = Some (1, g)" using demo_tx by blast
  let ?p0 = "gtpv2c_procedure_default\<lparr>gtpc_tx_id := 1, initial_msg_type := message_type ?m\<rparr> :: unit gtpv2c_procedure"
  let ?st1 = "demo_stack\<lparr>tx_ids := g\<rparr>"
  obtain p st2 where c: "start_proc_cleanup_timer 0 ?p0 (GTPV2C_PROC_TIME_OUT_MS (t3_ms demo_stack) (n3 demo_stack))
      TASK_SGWC_S11 0 ?st1 = (p, st2)" by fastforce
  have task: "valid_task TASK_SGWC_S11" by (simp add: task_defs)
  have "timers_known ?st1" "unat (timer_id (itti ?st1)) < 2 ^ 32 - 1"
    "proc_cleanup_timer_id ?p0 = ITTI_INVALID_TIMER_ID"
    using demo_stack_known by (simp_all add: timers_known_def gtpv2c_procedure_default_def ITTI_INVALID_TIMER_ID_def)
  from start_cleanup_valid [OF task this(2,1,3) c] obtain i it where
    p: "p = ?p0\<lparr>proc_cleanup_timer_id := i\<rparr>"
    and st2: "st2 = ?st1\<lparr>itti := it, proc_cleanup_timers := (proc_cleanup_timers ?st1)(i \<mapsto> 0)\<rparr>"
      "timers_known st2" "unat (timer_id (itti st2)) = 1"
    using demo_stack_known(3) by auto
  let ?st = "st2\<lparr>pending_procedures := map_insert (pending_procedures st2) 0 p,
      gtpc_tx_id2seq_num := map_insert (gtpc_tx_id2seq_num st2) 1 0\<rparr>"
  have r: "handle_receive_message_cb 0 ?m TASK_SGWC_S11 demo_stack = Inr (False, 1, ?st)"
    using m g c demo_stack_inv(2) by (simp add: handle_receive_message_cb_def generate_gtpc_tx_id_def Let_def)
  obtain sn st' where s: "send_initial_teid GTP_DOWNLINK_DATA_NOTIFICATION (\<lambda>_. 0) 1 endpoint_default 5 6 [] TASK_SGWC_S11 2
      ?st = (sn, st')" by fastforce
  have "seq_num ?st = 0x7FFFFFFF" using st2(1) by (simp add: demo_stack_def gtpv2c_stack_new_def)
  then have "sn = 0" using s start_procedure_spec
    by (fastforce simp: send_initial_teid_def get_next_seq_num_def Let_def)
  then have "pending_procedures ?st sn = Some p"
    using st2(1) demo_stack_inv(2) by (simp add: map_insert_apply)
  moreover have "retry_msg p = None" "retry_count p = 0" using p by (simp_all add: gtpv2c_procedure_default_def)
  moreover have "timers_known ?st" "unat (timer_id (itti ?st)) + 1 < 2 ^ 32 - 1" "n3 ?st \<noteq> 0"
    using st2 demo_stack_known(2) by (simp_all add: timers_known_def)
  ultimately obtain j where "time_out_event 2 j TASK_SGWC_S11 st' = Inl Deref_null"
    using sequence_number_collision_null_deref [OF s _ _ _ _ task] by blast
  with r s show ?thesis by (auto simp: send_initial_downlink_data_notification_def)
qed

end
