(* ===== verification/Spec2Isabelle.thy ===== *)
theory Spec2Isabelle
  imports Pgw_Properties Pfcp_Delivery Uid_Generator Paa_Dynamic Itti Name_Codec Gtpv2c_Parse Gtpv2c_Stack Pfcp_Stack
begin

text \<open>
  The control plane of an EPC serving and packet gateway (openair-spgwc).

  \<^bold>\<open>The program.\<close> One process runs a serving gateway (SGW-C) and a packet gateway (PGW-C).
  Tasks (the two applications, their S5/S8, S11 and Sx interfaces, a timer task) exchange
  messages through the inter-task interface. The interface tasks own a protocol stack each:
  GTPv2-C towards the MME and between the two gateways, PFCP towards the user plane. A stack
  numbers the requests it sends, repeats them until they are answered, recognises requests it
  has received before, and hands messages and time-outs to the application. The PGW
  application allocates TEIDs, UE addresses and user-plane nodes to PDN connections and
  answers the protocol configuration options of the UE.

  \<^bold>\<open>Theories and the code they model\<close> (paths below src/src).

  \<^item> Prelude: errors of the language that the code can run into (\<^const>\<open>Deref_null\<close> and the
    other constructors of the same type, as values of a sum), and lemmas on lists, association
    lists, words and options that the components share.
  \<^item> Id\_Source, Uid\_Generator: common/uint\_generator.hpp. Id\_Source states as a locale what a
    client of an identifier source relies on; Uid\_Generator models both generator classes at
    any width and interprets it.
  \<^item> Paa\_Dynamic: oai\_spgwc/pgw\_paa\_dynamic.hpp with the start-up code of pgw\_app.cpp and the
    PDN part of the configuration. IPv4 pools are bitmaps in 32-bit words, as in the code, and
    are shown to refine a set of free addresses.
  \<^item> Itti: itti/itti.hpp, itti/itti.cpp, itti/itti\_msg.hpp. The task table, the message queues and
    the ordered set of timers; the timer thread is a step relation interleaved with the calls of
    the other tasks.
  \<^item> Streams, Name\_Codec: the byte streams of the codecs (a stream that fails stays failed and
    reads zero) and the conversions between names and their label encoding.
  \<^item> Gtp\_Types, Gtpv2c\_Msg, Gtpv2c\_Ie, Gtpv2c\_Uli, Gtpv2c\_Codecs, Gtpv2c\_Parse:
    gtpv2c/3gpp\_29.274.hpp and gtpv2c/3gpp\_29.274.cpp. Frames, the element classes with their
    dump\_to and load\_from, the factory that reads an element by its type, and the message
    parser.
  \<^item> Transport, Gtpv2c\_Stack: gtpv2c/gtpv2c.hpp and gtpv2c/gtpv2c.cpp. The four tables of the
    transaction layer, the two timers of a procedure, sending, receiving and time-outs. The
    socket is the trace of the datagrams sent.
  \<^item> Pfcp\_Msg, Pfcp\_Stack: the frame of PFCP messages in pfcp/3gpp\_29.244.hpp, and the transaction
    layer in pfcp/pfcp.hpp and pfcp/pfcp.cpp.
  \<^item> Pfcp\_Types, Pfcp\_Ie, Pfcp\_Codecs: the core types of common/3gpp\_29.244.h and the element classes
    of pfcp/3gpp\_29.244.hpp (constructors, dump\_to, load\_from, to\_core\_type). The locale pfcp\_class
    states what a class owes its users: what it writes it reads back; it is interpreted on every class
    that keeps this promise, with the condition on the values.
  \<^item> Pfcp\_Values, Pfcp\_Parse: an element of any class, groups, the factory of pfcp/3gpp\_29.244.cpp and the
    reading and writing of messages.
  \<^item> Pfcp\_Containers, Pfcp\_Access, Pfcp\_Core, Pfcp\_Order, Pfcp\_Delivery: the containers of
    pfcp/msg\_pfcp.hpp that the applications fill and read, with one record, \_set, \_get and \_members for
    each class (\_members are the elements its constructor adds). Their contracts are the locales set\_get,
    container, message and order\_free, interpreted on the containers; Pfcp\_Delivery follows a request from
    container to container.
  \<^item> Pfcp\_Assoc: oai\_spgwc/pgw\_pfcp\_association.hpp and .cpp, oai\_spgwc/PfcpUpNodes.hpp and .cpp and
    the parts of oai\_spgwc/pgw\_config.hpp they read. Associations, heartbeats, the pending and
    active user-plane nodes, and the choice of a node for a PDN connection.
  \<^item> Pgw\_Pco: oai\_spgwc/pgw\_pco.cpp. The answer to the protocol configuration options of a UE.
  \<^item> Pgw\_Context, Pgw\_Procedures: oai\_spgwc/pgw\_context.hpp and .cpp, oai\_spgwc/pgwc\_procedure.hpp and
    .cpp, the handlers and tables of oai\_spgwc/pgw\_app.cpp and common/utils/3gpp\_conversions.cpp.
    Bearers, PDN connections, APN and UE contexts are objects in heaps indexed by addresses, since
    the code shares them by pointer; one definition for each handler and for each run of a
    procedure, and \<^const>\<open>pgw_app_task\<close> for the dispatch of the task.
  \<^item> Pgw\_Session, Pgw\_Properties: the invariant of the tables and contexts, and what the PGW does
    from the request of the SGW to its answer, over all states the task can reach.

  State is passed explicitly as records with the fields of the classes; std::map is an
  association list in key order where the order is observable and a map elsewhere; machine
  integers are words of their width. A call that the language leaves undefined or that throws
  is a value of the error type, so a theorem that a run ends in a regular state says that no
  such call is reached.

  \<^bold>\<open>What is shown.\<close> Address pools: allocation and release refine set operations, no two clients
  hold the same address, a released address can be taken again, the configured pools are those
  of the file. Identifiers: live identifiers are distinct and a run of requests returns.
  Transaction layers: the tables and timers stay consistent under every operation, a request is
  answered, completed or repeated the configured number of times and then reported, duplicates
  are discarded, sequence numbers are consecutive modulo 2^24. Codecs: a message that is written
  is read back, the parsers return on every input, the requests of the PFCP session procedures go from
  the container of the sender to that of the receiver, the elements of a loaded message have the classes
  of their types and may come in any order, names survive the encoding. Queues: messages
  arrive in order, timers are neither lost nor fired early. User-plane nodes: the tables of nodes
  and associations agree, a chosen node serves the access point and the area of the UE.
  Configuration options: an IPCP request is answered with the configured servers. Sessions: in every
  reachable state TEIDs, tables and connections correspond and no null pointer is followed; an
  initial attach and a deletion are followed through the PGW, the user plane and back. Where the code
  behaves otherwise than it means to, a theorem shows the behaviour on a class of inputs and a
  finding of the manifest names the line.

  \<^bold>\<open>Loops and fuel.\<close> Loops over lists are structural recursions. The search for a free identifier,
  the loops over IPCP options and over name labels need not end and are partial functions into
  option; the theorems state on which inputs they return. The element factory recurses through
  grouped elements with fuel twice the length of the input plus one, and the loop over the
  elements of a message with fuel its length plus one: every element read consumes at least its
  header, and the fuel is shown never to run out.

  \<^bold>\<open>Not modelled.\<close> Sockets, threads and locks (every call is atomic, as under the mutexes of the
  code); logging, command line and the REST handler; the parser of the configuration file, which
  is a third-party library; the members of PFCP containers whose type no element class has; the containers
  of GTPv2-C; the contexts and session procedures of the serving gateway.
\<close>

end
